(* ===== verification/Prelude.thy ===== *)
theory Prelude
  imports Main "HOL-Library.Sublist" "HOL-Library.Multiset"
begin

text \<open>
  Shared vocabulary of the development: the collections of simplification rules the component
  proofs draw on, the integer and string operations of Python that the modelled code uses, the
  HTTP and Python errors as values, and the table operations of the ORM (select by key,
  conditional UPDATE with its row count) with the lemmas every component needs about them.

  Python's integers are unbounded, so they are \<open>int\<close>; \<open>//\<close> is \<open>div\<close>. Strings are
  char lists; the code points the code compares with are ASCII, and a non-ASCII character is
  one \<open>char\<close> per byte of its UTF-8 encoding where the code counts bytes.
\<close>

named_theorems store_simps "what a table operation does to the columns of a row"
named_theorems frame_simps "which parts of the state an operation leaves alone"

section \<open>Errors\<close>

datatype http_error = HTTPException int string

type_synonym 'a http = "http_error + 'a"

definition bind_http :: "'a http \<Rightarrow> ('a \<Rightarrow> 'b http) \<Rightarrow> 'b http" where
  "bind_http m f = (case m of Inl e \<Rightarrow> Inl e | Inr x \<Rightarrow> f x)"

lemma bind_http_simps [simp]:
  "bind_http (Inl e) f = Inl e"
  "bind_http (Inr x) f = f x"
  by (simp_all add: bind_http_def)

lemma bind_http_Inr: "bind_http m f = Inr y \<longleftrightarrow> (\<exists>x. m = Inr x \<and> f x = Inr y)"
  by (cases m) simp_all

section \<open>Integers\<close>

lemma div_mult_below: "0 < (b::int) \<Longrightarrow> x div b * b \<le> x"
  using div_mult_mod_eq [of x b] pos_mod_sign [of b x] by linarith

lemma div_lessI: "0 < (b::int) \<Longrightarrow> a < c * b \<Longrightarrow> a div b < c"
  using div_mult_below [of b a] mult_less_cancel_right_pos [of b "a div b" c] by linarith

text \<open>\<open>(x * bps + BPS - 1) // BPS\<close> and its kin: division rounded up.\<close>

definition ceil_div :: "int \<Rightarrow> int \<Rightarrow> int" where
  "ceil_div a b = (a + b - 1) div b"

lemma ceil_div_ge: "0 < b \<Longrightarrow> a \<le> ceil_div a b * b"
proof -
  assume b: "0 < b"
  have "a + b - 1 = (a + b - 1) div b * b + (a + b - 1) mod b" by simp
  moreover have "(a + b - 1) mod b \<le> b - 1" using b pos_mod_bound [of b "a + b - 1"] by linarith
  ultimately show ?thesis unfolding ceil_div_def by linarith
qed

lemma ceil_div_mono: "0 < b \<Longrightarrow> a \<le> a' \<Longrightarrow> ceil_div a b \<le> ceil_div a' b"
  by (simp add: ceil_div_def zdiv_mono1)

lemma ceil_div_nonneg: "0 < b \<Longrightarrow> 0 \<le> a \<Longrightarrow> 0 \<le> ceil_div a b"
  by (simp add: ceil_div_def pos_imp_zdiv_nonneg_iff)

lemma div_le_ceil_div: "0 < b \<Longrightarrow> a div b \<le> ceil_div a b"
  by (simp add: ceil_div_def zdiv_mono1)

lemma ceil_div_least: "0 < b \<Longrightarrow> a \<le> c * b \<Longrightarrow> ceil_div a b \<le> c"
proof -
  assume b: "0 < b" and a: "a \<le> c * b"
  have "a + b - 1 < (c + 1) * b" using a b by (simp add: algebra_simps)
  then have "(a + b - 1) div b < c + 1" using b by (intro div_lessI)
  then show ?thesis by (simp add: ceil_div_def)
qed

text \<open>Rounding down is superadditive: splitting an amount never makes the parts exceed the whole.\<close>

lemma div_add_le: "0 < (b::int) \<Longrightarrow> x div b + y div b \<le> (x + y) div b"
proof -
  assume b: "0 < b"
  have "(x div b + y div b) * b \<le> x + y"
  proof -
    have "x div b * b \<le> x" "y div b * b \<le> y"
      using b by (simp_all add: div_mult_below)
    then show ?thesis by (simp add: distrib_right)
  qed
  then have "(x div b + y div b) * b div b \<le> (x + y) div b" using b by (rule zdiv_mono1)
  then show ?thesis using b by simp
qed

lemma sum_list_div_le: "0 < (b::int) \<Longrightarrow> (\<Sum>x\<leftarrow>xs. x div b) \<le> sum_list xs div b"
proof (induction xs)
  case Nil
  then show ?case by simp
next
  case (Cons x xs)
  then have "x div b + (\<Sum>x\<leftarrow>xs. x div b) \<le> x div b + sum_list xs div b" by simp
  also have "\<dots> \<le> (x + sum_list xs) div b" using Cons.prems by (rule div_add_le)
  finally show ?case by simp
qed

section \<open>Strings\<close>

text \<open>ASCII case folding, whitespace stripping and the prefix and substring tests of \<open>str\<close>.\<close>

definition lower_char :: "char \<Rightarrow> char" where
  "lower_char c =
     (if 65 \<le> (of_char c :: nat) \<and> (of_char c :: nat) \<le> 90 then char_of (of_char c + 32 :: nat) else c)"

definition py_lower :: "string \<Rightarrow> string" where
  "py_lower s = map lower_char s"

definition is_space :: "char \<Rightarrow> bool" where
  "is_space c = (let n = (of_char c :: nat) in (9 \<le> n \<and> n \<le> 13) \<or> (28 \<le> n \<and> n \<le> 32))"

definition is_digit :: "char \<Rightarrow> bool" where
  "is_digit c = (let n = (of_char c :: nat) in 48 \<le> n \<and> n \<le> 57)"

definition is_alnum_lower :: "char \<Rightarrow> bool" where
  "is_alnum_lower c = (let n = (of_char c :: nat) in is_digit c \<or> (97 \<le> n \<and> n \<le> 122))"

definition is_hex_char :: "char \<Rightarrow> bool" where
  "is_hex_char c = (let n = (of_char c :: nat) in
     is_digit c \<or> (97 \<le> n \<and> n \<le> 102) \<or> (65 \<le> n \<and> n \<le> 70))"

definition lstrip :: "string \<Rightarrow> string" where
  "lstrip s = dropWhile is_space s"

definition py_strip :: "string \<Rightarrow> string" where
  "py_strip s = rev (lstrip (rev (lstrip s)))"

definition startswith :: "string \<Rightarrow> string \<Rightarrow> bool" where
  "startswith s p = prefix p s"

definition endswith :: "string \<Rightarrow> string \<Rightarrow> bool" where
  "endswith s p = suffix p s"

fun substring_in :: "string \<Rightarrow> string \<Rightarrow> bool" where
  "substring_in p [] = (p = [])"
| "substring_in p (c # s) = (prefix p (c # s) \<or> substring_in p s)"

text \<open>Decimal text of an integer, as an f-string prints it.\<close>

fun nat_digits :: "nat \<Rightarrow> string" where
  "nat_digits n = (if n < 10 then [char_of (48 + n)] else nat_digits (n div 10) @ [char_of (48 + n mod 10)])"

declare nat_digits.simps [simp del]

definition py_str :: "int \<Rightarrow> string" where
  "py_str i = (if i < 0 then CHR ''-'' # nat_digits (nat (- i)) else nat_digits (nat i))"

lemma substring_in_sublist: "substring_in p s \<longleftrightarrow> sublist p s"
  by (induction s) (auto simp: sublist_Cons_right)

lemma lower_char_idem [simp]: "lower_char (lower_char c) = lower_char c"
proof (cases "65 \<le> (of_char c :: nat) \<and> (of_char c :: nat) \<le> 90")
  case True
  then have "(of_char (char_of (of_char c + (32::nat)) :: char) :: nat) = of_char c + 32"
    by simp
  with True show ?thesis by (simp add: lower_char_def)
next
  case False
  then show ?thesis by (auto simp: lower_char_def)
qed

lemma py_lower_idem [simp]: "py_lower (py_lower s) = py_lower s"
  by (simp add: py_lower_def comp_def)

lemma py_lower_append [simp]: "py_lower (s @ t) = py_lower s @ py_lower t"
  by (simp add: py_lower_def)

lemma dropWhile_rev_hd: "dropWhile P s = s \<longleftrightarrow> s = [] \<or> \<not> P (hd s)"
  by (rule dropWhile_eq_self_iff)

lemma lstrip_idem [simp]: "lstrip (lstrip s) = lstrip s"
  by (simp add: lstrip_def dropWhile_idem)

lemma lstrip_append_keep:
  "lstrip s = s \<Longrightarrow> lstrip (rev (lstrip (rev s))) = rev (lstrip (rev s))"
proof -
  assume s: "lstrip s = s"
  let ?t = "rev (lstrip (rev s))"
  have "suffix (lstrip (rev s)) (rev s)" by (simp add: lstrip_def suffix_dropWhile)
  then have "prefix ?t s" by (metis rev_rev_ident suffix_to_prefix)
  then obtain u where u: "s = ?t @ u" by (auto simp: prefix_def)
  show ?thesis
  proof (cases ?t)
    case Nil
    then show ?thesis by (simp only: lstrip_def dropWhile.simps)
  next
    case (Cons c t')
    then have "\<not> is_space c" using s u by (auto simp: lstrip_def dropWhile_rev_hd)
    with Cons show ?thesis by (simp add: lstrip_def)
  qed
qed

lemma py_strip_idem [simp]: "py_strip (py_strip s) = py_strip s"
  using lstrip_append_keep [of "lstrip s"] by (simp add: py_strip_def)

section \<open>Tables\<close>

text \<open>
  A table is the list of its rows. \<open>update_where\<close> is \<open>UPDATE .. SET .. WHERE\<close>, \<open>row_count\<close> its
  \<open>rowcount\<close>, \<open>get_row\<close> is \<open>session.get\<close> (or \<open>scalar_one_or_none\<close> on a unique column), and
  \<open>put_row\<close> writes an instance back to the row with its primary key.
\<close>

definition update_where :: "('r \<Rightarrow> bool) \<Rightarrow> ('r \<Rightarrow> 'r) \<Rightarrow> 'r list \<Rightarrow> 'r list" where
  "update_where P f rows = map (\<lambda>r. if P r then f r else r) rows"

definition row_count :: "('r \<Rightarrow> bool) \<Rightarrow> 'r list \<Rightarrow> nat" where
  "row_count P rows = length (filter P rows)"

definition get_row :: "('r \<Rightarrow> 'k) \<Rightarrow> 'k \<Rightarrow> 'r list \<Rightarrow> 'r option" where
  "get_row key k rows = find (\<lambda>r. key r = k) rows"

definition put_row :: "('r \<Rightarrow> 'k) \<Rightarrow> 'r \<Rightarrow> 'r list \<Rightarrow> 'r list" where
  "put_row key r rows = update_where (\<lambda>x. key x = key r) (\<lambda>_. r) rows"

text \<open>\<open>insert_ignore\<close> of \<open>backend/app/db.py\<close>: \<open>INSERT .. ON CONFLICT (key) DO NOTHING\<close>.\<close>

definition insert_ignore :: "('r \<Rightarrow> 'k) \<Rightarrow> 'r \<Rightarrow> 'r list \<Rightarrow> 'r list" where
  "insert_ignore key r rows = (if get_row key (key r) rows = None then rows @ [r] else rows)"

lemma length_update_where [simp]: "length (update_where P f rows) = length rows"
  by (simp add: update_where_def)

lemma update_where_Nil [simp]: "update_where P f [] = []"
  by (simp add: update_where_def)

lemma update_where_Cons [simp]:
  "update_where P f (r # rows) = (if P r then f r else r) # update_where P f rows"
  by (simp add: update_where_def)

lemma set_update_where: "set (update_where P f rows) = (\<lambda>r. if P r then f r else r) ` set rows"
  by (simp add: update_where_def)

lemma update_where_id: "(\<And>r. r \<in> set rows \<Longrightarrow> \<not> P r) \<Longrightarrow> update_where P f rows = rows"
  by (induction rows) auto

lemma map_update_where:
  "(\<And>r. P r \<Longrightarrow> g (f r) = g r) \<Longrightarrow> map g (update_where P f rows) = map g rows"
  by (induction rows) auto

lemma update_where_all:
  "(\<And>r. r \<in> set rows \<Longrightarrow> I r) \<Longrightarrow> (\<And>r. P r \<Longrightarrow> I r \<Longrightarrow> I (f r)) \<Longrightarrow>
   r \<in> set (update_where P f rows) \<Longrightarrow> I r"
  by (auto simp: set_update_where)

lemma get_row_Nil [simp]: "get_row key k [] = None"
  by (simp add: get_row_def)

lemma get_row_Cons [simp]:
  "get_row key k (r # rows) = (if key r = k then Some r else get_row key k rows)"
  by (simp add: get_row_def)

lemma get_row_Some: "get_row key k rows = Some r \<Longrightarrow> r \<in> set rows \<and> key r = k"
  by (auto simp: get_row_def find_Some_iff)

lemma get_row_None: "get_row key k rows = None \<longleftrightarrow> k \<notin> key ` set rows"
  by (induction rows) auto

lemma get_row_distinct:
  "distinct (map key rows) \<Longrightarrow> r \<in> set rows \<Longrightarrow> get_row key (key r) rows = Some r"
  by (induction rows) (auto simp: image_iff)

lemma get_row_update_where:
  "(\<And>r. P r \<Longrightarrow> key (f r) = key r) \<Longrightarrow>
   get_row key k (update_where P f rows) = map_option (\<lambda>r. if P r then f r else r) (get_row key k rows)"
  by (induction rows) auto

lemma get_row_append:
  "get_row key k (xs @ ys) = (case get_row key k xs of None \<Rightarrow> get_row key k ys | Some r \<Rightarrow> Some r)"
  by (induction xs) auto

lemma map_key_put_row [simp]: "map key (put_row key r rows) = map key rows"
  by (auto simp: put_row_def update_where_def)

lemma get_row_put_row:
  "get_row key k (put_row key r rows) =
     (if key r = k then map_option (\<lambda>_. r) (get_row key k rows) else get_row key k rows)"
  by (induction rows) (auto simp: put_row_def)

lemma set_put_row: "set (put_row key r rows) \<subseteq> insert r (set rows)"
  by (auto simp: put_row_def set_update_where)

lemma row_count_one:
  "distinct (map key rows) \<Longrightarrow> row_count (\<lambda>r. key r = k \<and> P r) rows =
     (case get_row key k rows of None \<Rightarrow> 0 | Some r \<Rightarrow> if P r then 1 else 0)"
proof (induction rows)
  case Nil
  then show ?case by (simp add: row_count_def)
next
  case (Cons r rows)
  show ?case
  proof (cases "key r = k")
    case True
    with Cons.prems have "filter (\<lambda>r. key r = k \<and> P r) rows = []"
      by (auto simp: filter_empty_conv image_iff)
    with True show ?thesis by (simp add: row_count_def)
  next
    case False
    with Cons show ?thesis by (simp add: row_count_def)
  qed
qed

lemma get_insert_ignore:
  "get_row key k (insert_ignore key r rows) =
     (if key r = k \<and> get_row key k rows = None then Some r else get_row key k rows)"
  by (auto simp: insert_ignore_def get_row_append split: option.splits)

lemma insert_ignore_distinct: "distinct (map key rows) \<Longrightarrow> distinct (map key (insert_ignore key r rows))"
  by (auto simp: insert_ignore_def get_row_None)

lemma set_insert_ignore: "set rows \<subseteq> set (insert_ignore key r rows)" "set (insert_ignore key r rows) \<subseteq> insert r (set rows)"
  by (auto simp: insert_ignore_def)

lemma keys_insert_ignore: "key ` set (insert_ignore key r rows) = insert (key r) (key ` set rows)"
  using get_row_None [of key "key r" rows] by (auto simp: insert_ignore_def)

text \<open>Sums over the rows of a table.\<close>

lemma sum_list_update_where:
  "(\<And>r. P r \<Longrightarrow> g (f r) = g r) \<Longrightarrow> sum_list (map g (update_where P f rows)) = sum_list (map g rows)"
  by (simp add: map_update_where)

lemma sum_list_put_row:
  "distinct (map key rows) \<Longrightarrow> get_row key (key r) rows = Some old \<Longrightarrow>
   (\<Sum>x\<leftarrow>put_row key r rows. g x) = (\<Sum>x\<leftarrow>rows. g x) - g old + (g r :: int)"
proof (induction rows)
  case Nil
  then show ?case by simp
next
  case (Cons x rows)
  show ?case
  proof (cases "key x = key r")
    case True
    with Cons.prems have "put_row key r rows = rows"
      unfolding put_row_def by (intro update_where_id) (auto simp: image_iff)
    with True Cons.prems show ?thesis by (simp add: put_row_def)
  next
    case False
    with Cons show ?thesis by (simp add: put_row_def)
  qed
qed

section \<open>The contract of a keyed table\<close>

text \<open>
  What the components rely on when they read a row back after writing one: the interface of a
  table with a unique key. Each ORM table of the program is an instance.
\<close>

locale keyed_table =
  fixes look :: "'k \<Rightarrow> 't \<Rightarrow> 'r option"
    and store :: "'r \<Rightarrow> 't \<Rightarrow> 't"
    and key :: "'r \<Rightarrow> 'k"
    and keys :: "'t \<Rightarrow> 'k list"
  assumes look_store_same: "key r \<in> set (keys t) \<Longrightarrow> look (key r) (store r t) = Some r"
    and look_store_other: "key r \<noteq> k \<Longrightarrow> look k (store r t) = look k t"
    and keys_store: "keys (store r t) = keys t"
    and look_key: "look k t = Some r \<Longrightarrow> key r = k \<and> k \<in> set (keys t)"
begin

lemma store_twice: "key r = key r' \<Longrightarrow> look k (store r' (store r t)) = look k (store r' t)"
  by (cases "k = key r'"; cases "key r' \<in> set (keys t)")
    (metis keys_store look_key look_store_other look_store_same not_None_eq)+

lemma store_commute:
  "key r \<noteq> key r' \<Longrightarrow> look k (store r (store r' t)) = look k (store r' (store r t))"
  by (metis keys_store look_key look_store_other look_store_same not_None_eq)

lemma keys_distinct_store: "distinct (keys t) \<Longrightarrow> distinct (keys (store r t))"
  by (simp add: keys_store)

end

lemma get_row_key_in: "key r \<in> set (map key t) \<Longrightarrow> get_row key (key r) t \<noteq> None"
  by (induction t) auto

lemma keyed_table_rows: "keyed_table (get_row key) (put_row key) key (map key)"
proof
  fix r t
  assume "key r \<in> set (map key t)"
  then show "get_row key (key r) (put_row key r t) = Some r"
    using get_row_key_in [of key r t] by (auto simp: get_row_put_row)
qed (auto simp: get_row_put_row dest: get_row_Some)

end
