(* ===== verification/Store.thy ===== *)
theory Store
  imports Complex_Main Prelude
begin

text \<open>
  The data model of the backend (\<open>backend/app/models.py\<close>) and the settings the modelled code
  reads (\<open>backend/app/config.py\<close>): one record per ORM class, with the columns in the order of
  the source, and a record of the tables. Nullable columns are options. Timestamps filled in by the
  database (\<open>created_at\<close>, \<open>updated_at\<close>) are read by no modelled operation of these
  tables, except \<open>MarketListing.created_at\<close>, which is kept.
\<close>

section \<open>Rows\<close>

record user =
  u_id :: int
  u_address :: string
  u_is_operator :: bool
  u_cdp_user_id :: string

record nonce_row =
  nn_address :: string
  nn_nonce :: string

record market =
  m_condition_id :: string
  m_parent_condition_id :: string
  m_question :: string
  m_resolution_criteria :: string
  m_market_type :: int
  m_close_time :: int
  m_paused :: bool
  m_resolved :: bool
  m_payout_yes :: int
  m_payout_no :: int
  m_suggested_probability :: rat

record order =
  o_id :: int
  o_order_hash :: string
  o_maker :: string
  o_condition_id :: string
  o_is_buy :: bool
  o_outcome :: int
  o_price :: int
  o_amount :: int
  o_filled :: int
  o_salt :: string
  o_nonce :: int
  o_expiry :: int
  o_signature :: string
  o_cancelled :: bool

record trade =
  t_id :: int
  t_condition_id :: string
  t_taker :: string
  t_maker :: string
  t_fill_amount :: int
  t_volume :: int
  t_fee :: int
  t_tx_hash :: string
  t_status :: string
  t_relay_job_id :: "int option"
  t_block_number :: "int option"

text \<open>\<open>RelayJob.status\<close> is one of six strings; the modelled code never stores another.\<close>

datatype job_status = Pending | Sending | Sent | Confirmed | Failed | Cancelled

definition job_status_text :: "job_status \<Rightarrow> string" where
  "job_status_text s = (case s of Pending \<Rightarrow> ''pending'' | Sending \<Rightarrow> ''sending'' | Sent \<Rightarrow> ''sent''
     | Confirmed \<Rightarrow> ''confirmed'' | Failed \<Rightarrow> ''failed'' | Cancelled \<Rightarrow> ''cancelled'')"

record relay_job =
  j_id :: int
  j_kind :: string
  j_condition_id :: string
  j_taker_hash :: string
  j_maker_hash :: string
  j_fill_amount :: int
  j_sender :: string
  j_status :: job_status
  j_attempts :: int
  j_nonce :: "int option"
  j_tx_hash :: string
  j_tx_hashes :: "string list"
  j_raw_tx :: string
  j_gas_limit :: "int option"
  j_max_fee :: "int option"
  j_max_priority_fee :: "int option"
  j_block_number :: "int option"
  j_last_error :: string
  j_next_attempt_at :: int
  j_sent_at :: "int option"
  j_confirmed_at :: "int option"
  j_matched_at :: int
  j_first_sent_block :: "int option"
  j_nonce_consumed_at :: "int option"

datatype listing_status = Prepared | Indexed | ListingConfirmed | Rejected

record market_listing =
  l_condition_id :: string
  l_creator :: string
  l_salt :: string
  l_question :: string
  l_resolution_criteria :: string
  l_criteria_hash :: string
  l_close_time :: int
  l_seed_usdc :: int
  l_status :: listing_status
  l_reject_reason :: string
  l_created_at :: int

record emission_distribution =
  e_id :: int
  e_program :: int
  e_payload_hash :: string
  e_idempotency_key :: string
  e_sender :: string
  e_nonce :: "int option"
  e_raw_tx :: string
  e_tx_hash :: string
  e_status :: job_status
  e_recipient_count :: int
  e_total_amount :: int
  e_block_number :: "int option"
  e_last_error :: string
  e_sent_at :: "int option"

record price_point =
  pp_id :: int
  pp_condition_id :: string
  pp_ts :: int
  pp_block_number :: int
  pp_log_index :: int
  pp_yes_price_micros :: int

record indexer_checkpoint =
  ic_factory_address :: string
  ic_amm_address :: string
  ic_last_block :: int

record attestation =
  a_id :: int
  a_condition_id :: string
  a_agent :: string
  a_outcome :: int
  a_evidence_hash :: string
  a_summary :: string
  a_evidence_json :: string
  a_signature :: string
  a_created_at :: "int option"

text \<open>\<open>facts\<close> is a JSON document, kept as its text.\<close>

record live_score =
  ls_condition_id :: string
  ls_home_label :: string
  ls_away_label :: string
  ls_home_score :: "int option"
  ls_away_score :: "int option"
  ls_status :: string
  ls_period_label :: "string option"
  ls_facts :: "string option"
  ls_updated_at :: int

record schedule_game =
  g_id :: int
  g_season :: int
  g_week :: int
  g_home :: string
  g_away :: string
  g_kickoff_unix :: int
  g_status :: string
  g_listed_condition_id :: string

record ramp_tx =
  rt_id :: int
  rt_address :: string
  rt_amount :: string
  rt_provider_id :: string
  rt_status :: string
  rt_created_at :: int

record kyc_record =
  k_address :: string
  k_status :: string
  k_jurisdiction :: string
  k_updated_at :: int

record vote =
  vt_id :: int
  vt_condition_id :: string
  vt_voter :: string
  vt_outcome :: int
  vt_weight :: int

section \<open>The database and the settings\<close>

text \<open>
  Each table is the list of its rows in primary key order; \<open>d_next_*\<close> is the next value of its
  autoincrement key.
\<close>

record dbase =
  d_markets :: "market list"
  d_listings :: "market_listing list"
  d_orders :: "order list"
  d_next_order :: int
  d_trades :: "trade list"
  d_next_trade :: int
  d_jobs :: "relay_job list"
  d_next_job :: int
  d_emissions :: "emission_distribution list"
  d_next_emission :: int
  d_points :: "price_point list"
  d_next_point :: int
  d_checkpoints :: "indexer_checkpoint list"
  d_legacy_checkpoint :: "int option"
  d_attestations :: "attestation list"
  d_next_attestation :: int
  d_votes :: "vote list"
  d_next_vote :: int
  d_users :: "user list"
  d_next_user :: int
  d_nonces :: "nonce_row list"
  d_scores :: "live_score list"
  d_schedule :: "schedule_game list"
  d_next_game :: int
  d_ramps :: "ramp_tx list"
  d_next_ramp :: int
  d_kyc :: "kyc_record list"

record settings =
  s_chain_id :: int
  s_fee_bps_taker :: int
  s_relayer_private_key :: string
  s_trading_halt_at_close :: bool
  s_relayer_enabled :: bool
  s_relayer_poll_seconds :: rat
  s_relayer_batch_size :: nat
  s_relayer_max_attempts :: int
  s_relayer_retry_backoff_seconds :: int
  s_relayer_resubmit_after_seconds :: int
  s_relayer_fee_bump_bps :: int
  s_relayer_max_fee_per_gas_wei :: int
  s_relayer_priority_fee_wei :: int
  s_relayer_gas_buffer_bps :: int
  s_relayer_gas_limit_cap :: int
  s_relayer_confirmations :: int
  s_relayer_min_expiry_seconds :: int
  s_relayer_preflight_on_post :: bool
  s_relayer_log_lookback_blocks :: int
  s_relayer_max_open_orders_per_maker :: nat
  s_emissions_distributor_address :: string
  s_ou_token_address :: string
  s_operator_private_key :: string
  s_indexer_interval_seconds :: rat
  s_indexer_start_block :: int
  s_indexer_lookback_blocks :: int
  s_indexer_max_block_range :: int
  s_indexer_min_block_range :: int
  s_indexer_max_chunks_per_tick :: nat
  s_indexer_max_backoff_seconds :: rat
  s_relayer_worker_enabled :: bool
  s_moonpay_api_key :: string
  s_moonpay_secret :: string
  s_coinbase_onramp_app_id :: string
  s_kyc_threshold_usdc :: rat
  s_kyc_restricted_jurisdictions :: string
  s_amm_address :: string
  s_usdc_address :: string
  s_ctf_address :: string
  s_factory_address :: string
  s_exchange_address :: string
  s_oracle_address :: string
  s_fee_vault_address :: string
  s_entrypoint_address :: string
  s_paymaster_address :: string
  s_account_factory_address :: string
  s_cdp_project_id :: string
  s_cdp_api_key_id :: string
  s_cdp_api_key_secret :: string

text \<open>The defaults of \<open>Settings\<close>.\<close>

definition default_settings :: settings where
  "default_settings = \<lparr>
     s_chain_id = 31337, s_fee_bps_taker = 75, s_relayer_private_key = [],
     s_trading_halt_at_close = True, s_relayer_enabled = False, s_relayer_poll_seconds = 2,
     s_relayer_batch_size = 10, s_relayer_max_attempts = 5, s_relayer_retry_backoff_seconds = 15,
     s_relayer_resubmit_after_seconds = 60, s_relayer_fee_bump_bps = 1250,
     s_relayer_max_fee_per_gas_wei = 5000000000, s_relayer_priority_fee_wei = 1000000,
     s_relayer_gas_buffer_bps = 2000, s_relayer_gas_limit_cap = 600000, s_relayer_confirmations = 1,
     s_relayer_min_expiry_seconds = 60, s_relayer_preflight_on_post = True,
     s_relayer_log_lookback_blocks = 5000, s_relayer_max_open_orders_per_maker = 100,
     s_emissions_distributor_address = [], s_ou_token_address = [], s_operator_private_key = [], s_indexer_interval_seconds = 5,
     s_indexer_start_block = 0, s_indexer_lookback_blocks = 43200, s_indexer_max_block_range = 2000,
     s_indexer_min_block_range = 10, s_indexer_max_chunks_per_tick = 10, s_indexer_max_backoff_seconds = 300,
     s_relayer_worker_enabled = False, s_moonpay_api_key = [], s_moonpay_secret = [], s_coinbase_onramp_app_id = [],
     s_kyc_threshold_usdc = 500, s_kyc_restricted_jurisdictions = [],
     s_amm_address = [], s_usdc_address = [], s_ctf_address = [], s_factory_address = [], s_exchange_address = [], s_oracle_address = [], s_fee_vault_address = [],
     s_entrypoint_address = [], s_paymaster_address = [], s_account_factory_address = [], s_cdp_project_id = [], s_cdp_api_key_id = [], s_cdp_api_key_secret = [] \<rparr>"

text \<open>\<open>d_legacy_checkpoint\<close> is \<open>last_block\<close> of the row with id 1 of the old \<open>checkpoints\<close> table.\<close>

definition empty_db :: dbase where
  "empty_db = \<lparr> d_markets = [], d_listings = [], d_orders = [], d_next_order = 1, d_trades = [],
     d_next_trade = 1, d_jobs = [], d_next_job = 1, d_emissions = [], d_next_emission = 1,
     d_points = [], d_next_point = 1, d_checkpoints = [], d_legacy_checkpoint = None, d_attestations = [],
     d_next_attestation = 1, d_votes = [], d_next_vote = 1, d_users = [], d_next_user = 1, d_nonces = [], d_scores = [],
     d_schedule = [], d_next_game = 1, d_ramps = [], d_next_ramp = 1, d_kyc = [] \<rparr>"

section \<open>Lookups\<close>

abbreviation get_market :: "string \<Rightarrow> dbase \<Rightarrow> market option" where
  "get_market cid db \<equiv> get_row m_condition_id cid (d_markets db)"

abbreviation get_listing :: "string \<Rightarrow> dbase \<Rightarrow> market_listing option" where
  "get_listing cid db \<equiv> get_row l_condition_id cid (d_listings db)"

abbreviation get_job :: "int \<Rightarrow> dbase \<Rightarrow> relay_job option" where
  "get_job i db \<equiv> get_row j_id i (d_jobs db)"

abbreviation get_order :: "string \<Rightarrow> dbase \<Rightarrow> order option" where
  "get_order h db \<equiv> get_row o_order_hash h (d_orders db)"

text \<open>Every table keyed by its primary key, or by a unique column, keeps the contract of a keyed table.\<close>

interpretation job_table: keyed_table "get_row j_id" "put_row j_id" j_id "map j_id"
  by (rule keyed_table_rows)

interpretation order_table: keyed_table "get_row o_id" "put_row o_id" o_id "map o_id"
  by (rule keyed_table_rows)

interpretation market_table: keyed_table "get_row m_condition_id" "put_row m_condition_id" m_condition_id "map m_condition_id"
  by (rule keyed_table_rows)

interpretation listing_table: keyed_table "get_row l_condition_id" "put_row l_condition_id" l_condition_id "map l_condition_id"
  by (rule keyed_table_rows)

section \<open>Job statuses\<close>

text \<open>\<open>TERMINAL\<close> and \<open>IN_FLIGHT\<close> of \<open>relayer/queue.py\<close>, \<open>LIVE\<close> of \<open>relayer/worker.py\<close>.\<close>

definition terminal :: "job_status \<Rightarrow> bool" where
  "terminal s = (s \<in> {Confirmed, Failed, Cancelled})"

definition in_flight :: "job_status \<Rightarrow> bool" where
  "in_flight s = (s \<in> {Sending, Sent})"

definition live :: "job_status \<Rightarrow> bool" where
  "live s = (s \<in> {Pending, Sending, Sent})"

lemma status_classes [simp]:
  "terminal Confirmed" "terminal Failed" "terminal Cancelled"
  "\<not> terminal Pending" "\<not> terminal Sending" "\<not> terminal Sent"
  "in_flight Sending" "in_flight Sent" "\<not> in_flight Pending"
  "\<not> in_flight Confirmed" "\<not> in_flight Failed" "\<not> in_flight Cancelled"
  "live Pending" "live Sending" "live Sent"
  "\<not> live Confirmed" "\<not> live Failed" "\<not> live Cancelled"
  by (simp_all add: terminal_def in_flight_def live_def)

lemma live_not_terminal: "live s \<longleftrightarrow> \<not> terminal s"
  by (cases s) simp_all

lemma in_flight_live: "in_flight s \<Longrightarrow> live s"
  by (cases s) simp_all

end
