(* ===== verification/Gates.thy ===== *)
theory Gates
  imports Store
begin

text \<open>
  The off-chain listing gates (\<open>backend/app/markets/listing_gates.py\<close>) and the sports gate
  (\<open>backend/app/markets/sports.py\<close>): question, criteria, close-time and seed bounds, the
  subjective-wording filter, and the duplicate test over meaningful tokens. A gate returns
  \<open>Inl (HTTPException status detail)\<close> where the code raises \<open>GateError\<close>.

  A string is its UTF-8 bytes, so \<open>question_bytes\<close> is the list's length and \<open>py_len\<close> counts
  code points. Case folding, whitespace and word characters are the ASCII ones: a byte of a
  non-ASCII character is neither a letter nor a space.
\<close>

section \<open>Python text primitives used by the gates\<close>

definition continuation_byte :: "char \<Rightarrow> bool" where
  "continuation_byte c = (let n = (of_char c :: nat) in 128 \<le> n \<and> n < 192)"

definition py_len :: "string \<Rightarrow> int" where
  "py_len s = int (length (filter (\<lambda>c. \<not> continuation_byte c) s))"

definition word_char :: "char \<Rightarrow> bool" where
  "word_char c = (is_alnum_lower (lower_char c) \<or> c = CHR ''_'')"

text \<open>
  \<open>re.search(r"\b(w1|w2|..)\b", s)\<close>: some word stands at a position with a word boundary on both
  sides. \<open>prev\<close> says whether the character before the position is a word character.
\<close>

definition starts_word :: "string \<Rightarrow> bool" where
  "starts_word s = (s \<noteq> [] \<and> word_char (hd s))"

definition boundary_match :: "bool \<Rightarrow> string \<Rightarrow> string \<Rightarrow> bool" where
  "boundary_match prev w s =
     (prefix w s \<and> prev \<noteq> starts_word s \<and>
      (if w = [] then prev else word_char (last w)) \<noteq> starts_word (drop (length w) s))"

fun search_words :: "bool \<Rightarrow> string list \<Rightarrow> string \<Rightarrow> bool" where
  "search_words prev ws [] = list_ex (\<lambda>w. boundary_match prev w []) ws"
| "search_words prev ws (c # s) =
     (list_ex (\<lambda>w. boundary_match prev w (c # s)) ws \<or> search_words (word_char c) ws s)"

section \<open>listing_gates.py\<close>

definition MIN_QUESTION_BYTES :: int where "MIN_QUESTION_BYTES = 10"
definition MAX_QUESTION_BYTES :: int where "MAX_QUESTION_BYTES = 256"
definition MIN_CRITERIA_CHARS :: int where "MIN_CRITERIA_CHARS = 20"
definition MAX_CRITERIA_CHARS :: int where "MAX_CRITERIA_CHARS = 2000"
definition MAX_PENDING_PER_DAY :: int where "MAX_PENDING_PER_DAY = 5"
definition PENDING_WINDOW_SECONDS :: int where "PENDING_WINDOW_SECONDS = 24 * 60 * 60"
definition MAX_SEED_USDC :: int where "MAX_SEED_USDC = 2 ^ 63 - 1"

definition DUPLICATE_STOPWORDS :: "string list" where
  "DUPLICATE_STOPWORDS =
     [''will'', ''the'', ''a'', ''an'', ''it'', ''is'', ''be'', ''on'', ''in'', ''at'', ''of'',
      ''by'', ''to'', ''for'', ''before'', ''after'', ''than'', ''and'', ''or'', ''their'',
      ''his'', ''her'', ''this'', ''that'', ''game'', ''market'', ''question'']"

definition BANNED_WORDS :: "string list" where
  "BANNED_WORDS = [''feel'', ''feels'', ''should'', ''best'', ''worst'', ''underrated'',
     ''overrated'', ''deserve'', ''deserves'']"

record listing_bounds =
  min_seed_usdc :: int
  min_lead_seconds :: int
  max_horizon_seconds :: int

definition question_bytes :: "string \<Rightarrow> int" where
  "question_bytes q = int (length q)"

definition check_question :: "string \<Rightarrow> unit http" where
  "check_question question =
     (let n = question_bytes question in
      if n < MIN_QUESTION_BYTES
      then Inl (HTTPException 400 (''question must be at least '' @ py_str MIN_QUESTION_BYTES @ '' bytes''))
      else if n > MAX_QUESTION_BYTES
      then Inl (HTTPException 400 (''question must be at most '' @ py_str MAX_QUESTION_BYTES @ '' bytes''))
      else if \<not> endswith question ''?''
      then Inl (HTTPException 400 (''question must be a yes/no question ending in '' @ [CHR 0x27, CHR ''?'', CHR 0x27]))
      else if search_words False BANNED_WORDS (py_lower question)
      then Inl (HTTPException 400 ''question uses subjective wording that cannot be resolved'')
      else Inr ())"

definition check_criteria :: "string \<Rightarrow> unit http" where
  "check_criteria criteria =
     (if py_len criteria < MIN_CRITERIA_CHARS
      then Inl (HTTPException 400
        (''resolution criteria must be at least '' @ py_str MIN_CRITERIA_CHARS @ '' characters''))
      else if py_len criteria > MAX_CRITERIA_CHARS
      then Inl (HTTPException 400
        (''resolution criteria must be at most '' @ py_str MAX_CRITERIA_CHARS @ '' characters''))
      else Inr ())"

definition check_close_time :: "int \<Rightarrow> listing_bounds \<Rightarrow> int \<Rightarrow> unit http" where
  "check_close_time close_time bounds now =
     (if close_time < now + min_lead_seconds bounds
      then Inl (HTTPException 400
        (''closeTime must be at least '' @ py_str (min_lead_seconds bounds) @ ''s from now''))
      else if close_time > now + max_horizon_seconds bounds
      then Inl (HTTPException 400
        (''closeTime must be within '' @ py_str (max_horizon_seconds bounds) @ ''s from now''))
      else Inr ())"

definition check_seed :: "int \<Rightarrow> listing_bounds \<Rightarrow> unit http" where
  "check_seed seed_usdc bounds =
     (if seed_usdc < min_seed_usdc bounds
      then Inl (HTTPException 400 (''seedUsdc must be at least '' @ py_str (min_seed_usdc bounds)))
      else if seed_usdc > MAX_SEED_USDC
      then Inl (HTTPException 400 (''seedUsdc must be at most '' @ py_str MAX_SEED_USDC))
      else Inr ())"

definition check_pending :: "int \<Rightarrow> unit http" where
  "check_pending pending =
     (if pending \<ge> MAX_PENDING_PER_DAY
      then Inl (HTTPException 429 (''at most '' @ py_str MAX_PENDING_PER_DAY @ '' unconfirmed listings per 24h''))
      else Inr ())"

text \<open>\<open>re.sub(r"[^a-z0-9]+", " ", text.lower()).strip()\<close>: \<open>inrun\<close> is true inside a replaced run.\<close>

fun squash :: "bool \<Rightarrow> string \<Rightarrow> string" where
  "squash inrun [] = []"
| "squash inrun (c # s) =
     (if is_alnum_lower c then c # squash False s
      else if inrun then squash True s
      else CHR '' '' # squash True s)"

definition normalize :: "string \<Rightarrow> string" where
  "normalize txt = py_strip (squash False (py_lower txt))"

text \<open>\<open>str.split()\<close>: the maximal runs of non-space characters; \<open>cur\<close> is the run being read.\<close>

fun split_ws :: "string \<Rightarrow> string \<Rightarrow> string list" where
  "split_ws cur [] = (if cur = [] then [] else [cur])"
| "split_ws cur (c # s) =
     (if is_space c then (if cur = [] then split_ws [] s else cur # split_ws [] s)
      else split_ws (cur @ [c]) s)"

definition meaningful_tokens :: "string \<Rightarrow> string set" where
  "meaningful_tokens txt = set (filter (\<lambda>t. t \<notin> set DUPLICATE_STOPWORDS) (split_ws [] (normalize txt)))"

definition numbers :: "string set \<Rightarrow> string set" where
  "numbers tokens = Set.filter (\<lambda>t. list_ex is_digit t) tokens"

text \<open>
  \<open>len(words & other) / len(words | other) >= 0.9\<close>: the quotient of two lengths is correctly
  rounded and 0.9 is the double nearest to 9/10, so for lengths below \<open>2 ^ 40\<close> the test is the
  exact one.
\<close>

definition jaccard_at_least_090 :: "string set \<Rightarrow> string set \<Rightarrow> bool" where
  "jaccard_at_least_090 a b = (9 * card (a \<union> b) \<le> 10 * card (a \<inter> b))"

definition similar_question :: "string \<Rightarrow> string \<Rightarrow> bool" where
  "similar_question question existing =
     (let words = meaningful_tokens question; other = meaningful_tokens existing in
      if normalize question = normalize existing then True
      else if words = {} \<or> other = {} then False
      else if words = other then True
      else jaccard_at_least_090 words other \<and> numbers words = numbers other)"

fun is_duplicate :: "string \<Rightarrow> string list \<Rightarrow> bool" where
  "is_duplicate question [] = False"
| "is_duplicate question (existing # rest) =
     (if similar_question question existing then True else is_duplicate question rest)"

definition check_listed_question :: "string \<Rightarrow> string list \<Rightarrow> unit http" where
  "check_listed_question question open_qs =
     (if question \<noteq> py_strip question
      then Inl (HTTPException 400 ''question must not start or end with whitespace'')
      else bind_http (check_question question) (\<lambda>_.
        if is_duplicate question open_qs
        then Inl (HTTPException 409 ''a similar market is already open'')
        else Inr ()))"

definition prepared_mismatch :: "string \<Rightarrow> int \<Rightarrow> int \<Rightarrow> string \<Rightarrow> int \<Rightarrow> int option \<Rightarrow> string option" where
  "prepared_mismatch prepared_question prepared_close_time prepared_seed_usdc question close_time seed_usdc =
     (if question \<noteq> prepared_question
      then Some ''on-chain question differs from the prepared question''
      else if close_time \<noteq> prepared_close_time
      then Some ''on-chain closeTime differs from the prepared closeTime''
      else case seed_usdc of
        Some seed \<Rightarrow>
          (if seed \<noteq> prepared_seed_usdc then Some ''on-chain seed differs from the prepared seed'' else None)
      | None \<Rightarrow> None)"

definition validate_listing :: "string \<Rightarrow> string \<Rightarrow> int \<Rightarrow> int \<Rightarrow> listing_bounds \<Rightarrow> int \<Rightarrow> unit http" where
  "validate_listing question criteria close_time seed_usdc bounds now =
     bind_http (check_question question) (\<lambda>_.
     bind_http (check_criteria criteria) (\<lambda>_.
     bind_http (check_close_time close_time bounds now) (\<lambda>_.
     check_seed seed_usdc bounds)))"

section \<open>sports.py\<close>

definition SPORTS_TOKENS :: "string list" where
  "SPORTS_TOKENS =
     [''nfl'', ''nba'', ''mlb'', ''nhl'', ''mls'', ''ncaa'', ''epl'', ''uefa'', ''soccer'',
      ''football'', ''basketball'', ''baseball'', ''hockey'', ''tennis'', ''golf'', ''boxing'',
      ''ufc'', ''mma'', ''nascar'', ''f1'', ''formula 1'', ''chiefs'', ''broncos'', ''yankees'',
      ''red sox'', ''dodgers'', ''mets'', ''lakers'', ''celtics'', ''warriors'', ''knicks'',
      ''cowboys'', ''patriots'', ''packers'', ''seahawks'', ''chargers'', ''steelers'', ''bills'',
      ''dolphins'', ''jets'', ''ravens'', ''browns'', ''bengals'', ''texans'', ''colts'',
      ''jaguars'', ''titans'', ''raiders'', ''eagles'', ''giants'', ''commanders'', ''lions'',
      ''bears'', ''vikings'', ''saints'', ''buccaneers'', ''falcons'', ''panthers'', ''49ers'',
      ''rams'', ''cardinals'', ''touchdown'', ''fumble'', ''home run'', ''strikeout'',
      ''grand slam'', ''three-pointer'', ''slam dunk'', ''hat trick'']"

text \<open>The patterns are compiled with IGNORECASE, so the text is folded once.\<close>

definition is_sports_market :: "string option \<Rightarrow> bool" where
  "is_sports_market question = (case question of None \<Rightarrow> False
     | Some q \<Rightarrow> if q = [] then False
        else list_ex (\<lambda>w. search_words False [w] (py_lower q)) SPORTS_TOKENS)"

section \<open>Normalised text\<close>

lemma space_not_alnum [simp]: "\<not> is_alnum_lower (CHR '' '')"
  by code_simp

lemma is_space_space [simp]: "is_space (CHR '' '')"
  by code_simp

lemma alnum_not_space: "is_alnum_lower c \<Longrightarrow> \<not> is_space c"
  by (auto simp: is_alnum_lower_def is_space_def is_digit_def Let_def)

lemma alnum_lower_fixed: "is_alnum_lower c \<Longrightarrow> lower_char c = c"
  by (auto simp: is_alnum_lower_def lower_char_def is_digit_def Let_def)

text \<open>The words of a text are its maximal runs of letters and digits.\<close>

fun alnum_runs :: "string \<Rightarrow> string \<Rightarrow> string list" where
  "alnum_runs cur [] = (if cur = [] then [] else [cur])"
| "alnum_runs cur (c # s) =
     (if is_alnum_lower c then alnum_runs (cur @ [c]) s
      else if cur = [] then alnum_runs [] s else cur # alnum_runs [] s)"

lemma split_ws_lstrip: "split_ws [] (lstrip s) = split_ws [] s"
  by (induction s) (auto simp: lstrip_def)

lemma split_ws_append_spaces:
  "list_all is_space u \<Longrightarrow> split_ws cur (s @ u) = split_ws cur s"
proof (induction s arbitrary: cur)
  case Nil
  then show ?case by (induction u arbitrary: cur) auto
qed auto

lemma lstrip_split: "\<exists>u. list_all is_space u \<and> s = u @ lstrip s"
  unfolding lstrip_def
  by (metis takeWhile_dropWhile_id list_all_iff set_takeWhileD)

lemma split_ws_strip: "split_ws [] (py_strip s) = split_ws [] s"
proof -
  let ?t = "lstrip s"
  obtain u where "list_all is_space u" and "rev ?t = u @ lstrip (rev ?t)"
    using lstrip_split by blast
  then have "?t = rev (lstrip (rev ?t)) @ rev u" and "list_all is_space (rev u)"
    by (metis rev_append rev_rev_ident, simp)
  then have "split_ws [] ?t = split_ws [] (rev (lstrip (rev ?t)))"
    by (metis split_ws_append_spaces)
  then show ?thesis by (simp add: py_strip_def split_ws_lstrip)
qed

lemma split_ws_squash: "split_ws cur (squash False s) = alnum_runs cur s"
  "split_ws [] (squash True s) = alnum_runs [] s"
proof (induction s arbitrary: cur)
  case (Cons c s)
  { case 1 then show ?case using Cons.IH by (simp add: alnum_not_space) }
  { case 2 then show ?case using Cons.IH by (simp add: alnum_not_space) }
qed simp_all

lemma tokens_runs: "split_ws [] (normalize txt) = alnum_runs [] (py_lower txt)"
  by (simp add: normalize_def split_ws_strip split_ws_squash)

lemma alnum_runs_nonempty: "t \<in> set (alnum_runs cur s) \<Longrightarrow> t \<noteq> []"
  by (induction cur s rule: alnum_runs.induct) (auto split: if_splits)

section \<open>The duplicate gate\<close>

lemma is_duplicate_iff: "is_duplicate q es \<longleftrightarrow> (\<exists>e \<in> set es. similar_question q e)"
  by (induction es) auto

lemma jaccard_sym: "jaccard_at_least_090 a b = jaccard_at_least_090 b a"
  by (simp add: jaccard_at_least_090_def Un_commute Int_commute)

lemma similar_question_sym: "similar_question q e = similar_question e q"
  by (auto simp: similar_question_def Let_def jaccard_sym)

lemma similar_question_numbers:
  assumes "similar_question q e"
  shows "numbers (meaningful_tokens q) = numbers (meaningful_tokens e)"
proof (cases "normalize q = normalize e")
  case True
  then show ?thesis by (simp add: meaningful_tokens_def)
next
  case False
  with assms show ?thesis by (auto simp: similar_question_def Let_def split: if_splits)
qed

text \<open>
  The tokens decide: two questions with the same non-empty set of meaningful tokens (whatever the
  order, case, punctuation and filler words) are similar.
\<close>

lemma same_tokens_similar:
  "meaningful_tokens q = meaningful_tokens e \<Longrightarrow> meaningful_tokens q \<noteq> {} \<Longrightarrow> similar_question q e"
  by (simp add: similar_question_def Let_def)

section \<open>What passing the gates means\<close>

lemma check_question_ok:
  "check_question q = Inr u \<longleftrightarrow> 10 \<le> question_bytes q \<and> question_bytes q \<le> 256 \<and> endswith q ''?'' \<and>
     \<not> search_words False BANNED_WORDS (py_lower q)"
  by (auto simp: check_question_def MIN_QUESTION_BYTES_def MAX_QUESTION_BYTES_def Let_def)

lemma check_criteria_ok: "check_criteria c = Inr u \<longleftrightarrow> 20 \<le> py_len c \<and> py_len c \<le> 2000"
  by (auto simp: check_criteria_def MIN_CRITERIA_CHARS_def MAX_CRITERIA_CHARS_def)

lemma check_close_time_ok:
  "check_close_time t b now = Inr u \<longleftrightarrow> now + min_lead_seconds b \<le> t \<and> t \<le> now + max_horizon_seconds b"
  by (auto simp: check_close_time_def)

lemma check_seed_ok: "check_seed s b = Inr u \<longleftrightarrow> min_seed_usdc b \<le> s \<and> s < 2 ^ 63"
  by (auto simp: check_seed_def MAX_SEED_USDC_def)

lemma check_listed_question_ok:
  "check_listed_question q open_qs = Inr u \<longleftrightarrow>
     py_strip q = q \<and> check_question q = Inr () \<and> \<not> is_duplicate q open_qs"
  by (auto simp: check_listed_question_def bind_http_def split: sum.splits)

lemma validate_listing_ok:
  "validate_listing q c t s b now = Inr u \<longleftrightarrow>
     check_question q = Inr () \<and> check_criteria c = Inr () \<and> check_close_time t b now = Inr () \<and>
     check_seed s b = Inr ()"
  by (auto simp: validate_listing_def bind_http_def split: sum.splits)

lemma prepared_mismatch_None:
  "prepared_mismatch pq pt ps q t s = None \<longleftrightarrow> q = pq \<and> t = pt \<and> (\<forall>v. s = Some v \<longrightarrow> v = ps)"
  by (auto simp: prepared_mismatch_def split: option.splits)

end
