(* ===== verification/Trading.thy ===== *)
theory Trading
  imports Gates
begin

text \<open>
  The API-side trading halt (\<open>backend/app/markets/trading.py\<close>) and the public visibility of
  markets with the listing review both writers share (\<open>backend/app/markets/visibility.py\<close>).
  The wall clock is the argument \<open>now\<close>.
\<close>

section \<open>trading.py\<close>

datatype halt_reason = Market_Closed | Market_Resolved | Listing_Not_Confirmed | Market_Paused

definition halt_text :: "halt_reason \<Rightarrow> string" where
  "halt_text r = (case r of Market_Closed \<Rightarrow> ''market closed'' | Market_Resolved \<Rightarrow> ''market resolved''
     | Listing_Not_Confirmed \<Rightarrow> ''listing not confirmed'' | Market_Paused \<Rightarrow> ''market paused'')"

definition MARKET_TYPE_USER :: int where "MARKET_TYPE_USER = 2"

definition removeprefix_0x :: "string \<Rightarrow> string" where
  "removeprefix_0x s = (if startswith s ''0x'' then drop 2 s else s)"

definition norm_cid :: "string \<Rightarrow> string" where
  "norm_cid cid = ''0x'' @ removeprefix_0x (py_lower (py_strip cid))"

definition halts_at :: "market \<Rightarrow> settings \<Rightarrow> int option" where
  "halts_at m s = (if \<not> s_trading_halt_at_close s \<or> m_close_time m = 0 then None else Some (m_close_time m))"

definition trading_open :: "market \<Rightarrow> settings \<Rightarrow> int \<Rightarrow> bool" where
  "trading_open m s now =
     (if m_resolved m \<or> m_paused m then False
      else case halts_at m s of None \<Rightarrow> True | Some t \<Rightarrow> now < t)"

definition past_close :: "market \<Rightarrow> settings \<Rightarrow> int \<Rightarrow> bool" where
  "past_close m s now = (case halts_at m s of None \<Rightarrow> False | Some t \<Rightarrow> now \<ge> t)"

definition trading_halt_reason :: "dbase \<Rightarrow> string \<Rightarrow> settings \<Rightarrow> int \<Rightarrow> halt_reason option" where
  "trading_halt_reason db condition_id s now =
     (case get_market (norm_cid condition_id) db of
        None \<Rightarrow> None
      | Some m \<Rightarrow>
          if m_resolved m then Some Market_Resolved
          else if m_market_type m = MARKET_TYPE_USER \<and>
             (case get_listing (m_condition_id m) db of
                None \<Rightarrow> True | Some l \<Rightarrow> l_status l \<noteq> ListingConfirmed)
          then Some Listing_Not_Confirmed
          else if past_close m s now then Some Market_Closed
          else if m_paused m then Some Market_Paused
          else None)"

section \<open>visibility.py\<close>

definition listed_clause :: "dbase \<Rightarrow> market \<Rightarrow> bool" where
  "listed_clause db m = (m_market_type m \<noteq> MARKET_TYPE_USER \<or>
     list_ex (\<lambda>l. l_condition_id l = m_condition_id m \<and> l_status l = ListingConfirmed) (d_listings db))"

definition visible_clause :: "dbase \<Rightarrow> market \<Rightarrow> bool" where
  "visible_clause db m = (\<not> m_paused m \<and> listed_clause db m)"

definition is_listed :: "dbase \<Rightarrow> market \<Rightarrow> bool" where
  "is_listed db m =
     (if m_market_type m \<noteq> MARKET_TYPE_USER then True
      else case get_listing (m_condition_id m) db of
        None \<Rightarrow> False | Some row \<Rightarrow> l_status row = ListingConfirmed)"

text \<open>\<open>if exclude_cid:\<close> tests the string, so \<open>None\<close> and the empty string exclude nothing.\<close>

definition open_questions :: "dbase \<Rightarrow> int \<Rightarrow> string \<Rightarrow> string list" where
  "open_questions db now exclude_cid =
     map m_question (filter (\<lambda>m. \<not> m_resolved m \<and> visible_clause db m \<and> m_close_time m > now \<and>
        (exclude_cid = [] \<or> m_condition_id m \<noteq> exclude_cid)) (d_markets db))"

definition is_backend_prepared :: "market_listing option \<Rightarrow> bool" where
  "is_backend_prepared listing =
     (case listing of None \<Rightarrow> False | Some l \<Rightarrow> l_salt l \<noteq> [] \<or> l_status l = Prepared)"

definition review_user_listing ::
  "dbase \<Rightarrow> string \<Rightarrow> market_listing option \<Rightarrow> string \<Rightarrow> int \<Rightarrow> int option \<Rightarrow> string \<Rightarrow> int \<Rightarrow> string option" where
  "review_user_listing db cid listing question close_time seed_usdc criteria now =
     (case (case listing of
              Some l \<Rightarrow> if is_backend_prepared (Some l)
                then prepared_mismatch (l_question l) (l_close_time l) (l_seed_usdc l) question close_time seed_usdc
                else None
            | None \<Rightarrow> None) of
        Some mismatch \<Rightarrow> Some mismatch
      | None \<Rightarrow>
          (case bind_http (check_criteria criteria)
                  (\<lambda>_. check_listed_question question (open_questions db now cid)) of
             Inl (HTTPException _ detail) \<Rightarrow> Some detail
           | Inr _ \<Rightarrow> None))"

section \<open>The halt\<close>

lemma halt_text_inj: "halt_text r = halt_text r' \<longleftrightarrow> r = r'"
  by (cases r; cases r') (simp_all add: halt_text_def)

lemma removeprefix_append [simp]: "removeprefix_0x (''0x'' @ s) = s"
  by (simp add: removeprefix_0x_def startswith_def)

lemma lower_space: "is_space (lower_char c) = is_space c"
  by (auto simp: is_space_def lower_char_def Let_def)

lemma lstrip_py_lower: "lstrip (py_lower s) = py_lower (lstrip s)"
  by (induction s) (auto simp: lstrip_def py_lower_def lower_space)

lemma py_lower_rev: "py_lower (rev s) = rev (py_lower s)"
  by (simp add: py_lower_def rev_map)

lemma strip_py_lower: "py_strip (py_lower s) = py_lower (py_strip s)"
  by (simp add: py_strip_def lstrip_py_lower flip: py_lower_rev)

text \<open>Database ids are normal: normalising twice changes nothing.\<close>

lemma strip_hd: "py_strip s = s \<Longrightarrow> s \<noteq> [] \<Longrightarrow> \<not> is_space (hd s) \<and> \<not> is_space (last s)"
proof -
  assume s: "py_strip s = s" and ne: "s \<noteq> []"
  have l: "lstrip s = s"
    using lstrip_append_keep [of "lstrip s"] s by (simp add: py_strip_def)
  with s have "lstrip (rev s) = rev s" by (metis py_strip_def rev_swap)
  with l ne show ?thesis
    by (simp add: lstrip_def dropWhile_rev_hd) (metis hd_rev)
qed

lemma strip_fixed: "s \<noteq> [] \<Longrightarrow> \<not> is_space (hd s) \<Longrightarrow> \<not> is_space (last s) \<Longrightarrow> py_strip s = s"
  by (simp add: py_strip_def lstrip_def dropWhile_rev_hd [THEN iffD2] hd_rev)

lemma norm_cid_idem: "norm_cid (norm_cid cid) = norm_cid cid"
proof -
  let ?s = "py_lower (py_strip cid)"
  let ?t = "removeprefix_0x ?s"
  have strip: "py_strip (''0x'' @ ?t) = ''0x'' @ ?t"
  proof (rule strip_fixed)
    show "\<not> is_space (last (''0x'' @ ?t))"
    proof (cases "?t = []")
      case True
      then show ?thesis by (simp add: is_space_def)
    next
      case False
      then have "?s \<noteq> []" and "last ?t = last ?s"
        by (auto simp: removeprefix_0x_def last_drop split: if_splits)
      moreover have "py_strip ?s = ?s" by (simp add: strip_py_lower)
      ultimately show ?thesis using False strip_hd [of ?s] by simp
    qed
  qed (simp_all add: is_space_def)
  have low: "py_lower ?t = ?t"
    by (simp add: removeprefix_0x_def py_lower_def drop_map [symmetric] comp_def)
  have "py_lower (''0x'' @ ?t) = ''0x'' @ ?t"
    using low by (simp add: py_lower_def lower_char_def)
  with strip show ?thesis
    by (simp add: norm_cid_def del: append.simps)
qed

lemma listed_iff_clause:
  assumes "distinct (map l_condition_id (d_listings db))"
  shows "is_listed db m = listed_clause db m"
proof (cases "get_listing (m_condition_id m) db")
  case None
  moreover from None have "m_condition_id m \<notin> l_condition_id ` set (d_listings db)"
    by (simp add: get_row_None)
  ultimately show ?thesis by (force simp: is_listed_def listed_clause_def list_ex_iff)
next
  case (Some l)
  then have l: "l \<in> set (d_listings db)" "l_condition_id l = m_condition_id m"
    by (auto dest: get_row_Some)
  then have "l' = l" if "l' \<in> set (d_listings db)" "l_condition_id l' = m_condition_id m" for l'
    using that assms by (metis distinct_map inj_onD)
  with l have "(\<exists>l' \<in> set (d_listings db). l_condition_id l' = m_condition_id m \<and> l_status l' = ListingConfirmed)
      \<longleftrightarrow> l_status l = ListingConfirmed" by blast
  with Some show ?thesis by (simp add: is_listed_def listed_clause_def list_ex_iff)
qed

lemma past_close_open: "\<not> m_resolved m \<Longrightarrow> \<not> m_paused m \<Longrightarrow> trading_open m s now \<longleftrightarrow> \<not> past_close m s now"
  by (auto simp: trading_open_def past_close_def split: option.splits)

lemma past_close_mono: "past_close m s now \<Longrightarrow> now \<le> later \<Longrightarrow> past_close m s later"
  by (auto simp: past_close_def split: option.splits)

lemma halt_listed:
  "get_market (norm_cid cid) db = Some m \<Longrightarrow> trading_halt_reason db cid s now =
     (if m_resolved m then Some Market_Resolved else if \<not> is_listed db m then Some Listing_Not_Confirmed
      else if past_close m s now then Some Market_Closed else if m_paused m then Some Market_Paused else None)"
  by (auto simp: trading_halt_reason_def is_listed_def split: option.splits)

section \<open>Properties\<close>

text \<open>
  The halt gate lets a request through exactly when the market is unknown,
  or listed and open by the same test that the public \<open>tradingOpen\<close> flag shows.
\<close>

theorem halt_none_iff_open:
  "trading_halt_reason db cid s now = None \<longleftrightarrow>
     (case get_market (norm_cid cid) db of None \<Rightarrow> True
      | Some m \<Rightarrow> is_listed db m \<and> trading_open m s now)"
proof (cases "get_market (norm_cid cid) db")
  case None
  then show ?thesis by (simp add: trading_halt_reason_def)
next
  case (Some m)
  then show ?thesis
    by (simp add: halt_listed past_close_def trading_open_def split: option.splits)
qed

text \<open>
  Once a market is halted because it closed, it stays halted at every later
  time, for the same reason.
\<close>

theorem closed_stays_halted:
  assumes "trading_halt_reason db cid s now = Some Market_Closed" and "now \<le> later"
  shows "trading_halt_reason db cid s later = Some Market_Closed"
proof (cases "get_market (norm_cid cid) db")
  case None
  with assms show ?thesis by (simp add: trading_halt_reason_def)
next
  case (Some m)
  with assms show ?thesis
    by (auto simp: halt_listed dest: past_close_mono split: if_splits)
qed

definition ex_market :: market where
  "ex_market = \<lparr> m_condition_id = ''0xab'', m_parent_condition_id = [], m_question = ''Will the Bills win?'',
     m_resolution_criteria = [], m_market_type = 0, m_close_time = 1000, m_paused = True,
     m_resolved = False, m_payout_yes = 0, m_payout_no = 0,
     m_suggested_probability = 1 / 2 \<rparr>"

definition ex_market_db :: dbase where
  "ex_market_db = empty_db\<lparr>d_markets := [ex_market]\<rparr>"

theorem closed_stays_halted_witness:
  "trading_halt_reason ex_market_db '' 0xAB'' default_settings 1000 = Some Market_Closed \<and>
   trading_halt_reason ex_market_db '' 0xAB'' default_settings 2000 = Some Market_Closed"
proof -
  have h: "trading_halt_reason ex_market_db '' 0xAB'' default_settings 1000 = Some Market_Closed"
    by code_simp
  show ?thesis using h closed_stays_halted [OF h, of 2000] by simp
qed

text \<open>
  The listing review accepts exactly the on-chain listings that equal what was
  prepared (when the backend prepared them), whose criteria and question pass every gate, and which
  duplicate no other visible open market.
\<close>

theorem review_accepts_iff:
  "review_user_listing db cid listing q t seed criteria now = None \<longleftrightarrow>
     (is_backend_prepared listing \<longrightarrow>
        q = l_question (the listing) \<and> t = l_close_time (the listing) \<and>
        (\<forall>v. seed = Some v \<longrightarrow> v = l_seed_usdc (the listing))) \<and>
     20 \<le> py_len criteria \<and> py_len criteria \<le> 2000 \<and>
     py_strip q = q \<and> 10 \<le> question_bytes q \<and> question_bytes q \<le> 256 \<and> endswith q ''?'' \<and>
     \<not> search_words False BANNED_WORDS (py_lower q) \<and>
     (\<forall>e \<in> set (open_questions db now cid). \<not> similar_question q e)"
proof -
  have gates: "(case bind_http (check_criteria criteria)
                  (\<lambda>_. check_listed_question q (open_questions db now cid)) of
             Inl (HTTPException _ detail) \<Rightarrow> Some detail | Inr _ \<Rightarrow> None) = None \<longleftrightarrow>
     check_criteria criteria = Inr () \<and> check_listed_question q (open_questions db now cid) = Inr ()"
    by (auto simp: bind_http_def split: sum.splits http_error.splits)
  show ?thesis
  proof (cases "is_backend_prepared listing")
    case True
    then obtain l where l: "listing = Some l" by (cases listing) (auto simp: is_backend_prepared_def)
    show ?thesis
      using True gates prepared_mismatch_None [of "l_question l" "l_close_time l" "l_seed_usdc l" q t seed]
      by (auto simp: review_user_listing_def l check_criteria_ok check_listed_question_ok check_question_ok
          is_duplicate_iff split: option.splits)
  next
    case False
    then show ?thesis
      using gates
      by (auto simp: review_user_listing_def check_criteria_ok check_listed_question_ok check_question_ok
          is_duplicate_iff split: option.splits)
  qed
qed

definition ex_prepared :: market_listing where
  "ex_prepared = \<lparr> l_condition_id = ''0xcd'', l_creator = ''0x01'', l_salt = ''0x77'',
     l_question = ''Will it snow in Oslo on May 1?'', l_resolution_criteria = [], l_criteria_hash = [],
     l_close_time = 5000, l_seed_usdc = 10, l_status = Prepared, l_reject_reason = [], l_created_at = 0 \<rparr>"

theorem review_accepts_iff_witness:
  "review_user_listing ex_market_db ''0xcd'' (Some ex_prepared) ''Will it snow in Oslo on May 1?'' 5000
     (Some 10) ''Resolves YES if met.no reports snow.'' 100 = None \<and> is_backend_prepared (Some ex_prepared)"
proof -
  have "open_questions ex_market_db 100 ''0xcd'' = []" by code_simp
  moreover have "20 \<le> py_len ''Resolves YES if met.no reports snow.'' \<and>
     py_len ''Resolves YES if met.no reports snow.'' \<le> 2000" by code_simp
  moreover have "py_strip ''Will it snow in Oslo on May 1?'' = ''Will it snow in Oslo on May 1?''" by code_simp
  moreover have "endswith ''Will it snow in Oslo on May 1?'' ''?''" by code_simp
  moreover have "\<not> search_words False BANNED_WORDS (py_lower ''Will it snow in Oslo on May 1?'')" by code_simp
  ultimately show ?thesis
    by (simp add: review_accepts_iff ex_prepared_def is_backend_prepared_def question_bytes_def)
qed

text \<open>
  A question whose numbers (dates, thresholds) differ from those
  of every open market is never rejected as a duplicate, however similar its wording.
\<close>

theorem different_numbers_not_duplicate:
  assumes "\<forall>e \<in> set existing. numbers (meaningful_tokens e) \<noteq> numbers (meaningful_tokens q)"
  shows "\<not> is_duplicate q existing"
  using assms similar_question_numbers by (fastforce simp: is_duplicate_iff)

theorem different_numbers_not_duplicate_witness:
  "\<not> is_duplicate ''Will BTC close above 90000 on May 1?'' [''Will BTC close above 95000 on May 1?'']"
proof -
  have "numbers (meaningful_tokens ''Will BTC close above 95000 on May 1?'') \<noteq>
    numbers (meaningful_tokens ''Will BTC close above 90000 on May 1?'')"
    by code_simp
  then show ?thesis by (intro different_numbers_not_duplicate) simp
qed

text \<open>
  A question with the same meaningful words as an open market, in any
  order and with any case, punctuation and filler words, is rejected as a duplicate.
\<close>

theorem reordered_is_duplicate:
  assumes "e \<in> set existing"
    and "set (filter (\<lambda>t. t \<notin> set DUPLICATE_STOPWORDS) (alnum_runs [] (py_lower q))) =
         set (filter (\<lambda>t. t \<notin> set DUPLICATE_STOPWORDS) (alnum_runs [] (py_lower e)))"
    and "meaningful_tokens q \<noteq> {}"
  shows "is_duplicate q existing"
proof -
  have "meaningful_tokens q = meaningful_tokens e"
    using assms(2) by (simp add: meaningful_tokens_def tokens_runs)
  then show ?thesis using assms(1,3) same_tokens_similar by (auto simp: is_duplicate_iff)
qed

theorem reordered_is_duplicate_witness:
  "is_duplicate ''On Sunday, will the CHIEFS beat Bills?'' [''x?'', ''Will chiefs beat the Bills on Sunday?'']"
proof -
  let ?q = "''On Sunday, will the CHIEFS beat Bills?''"
  let ?e = "''Will chiefs beat the Bills on Sunday?''"
  have tokens: "set (filter (\<lambda>t. t \<notin> set DUPLICATE_STOPWORDS) (alnum_runs [] (py_lower ?q))) =
     set (filter (\<lambda>t. t \<notin> set DUPLICATE_STOPWORDS) (alnum_runs [] (py_lower ?e)))"
    by code_simp
  have "meaningful_tokens ?q \<noteq> {}" by code_simp
  with tokens show ?thesis by (intro reordered_is_duplicate [of ?e]) simp_all
qed

end
