(* ===== verification/Queue.thy ===== *)
theory Queue
  imports Trading
begin

text \<open>
  The SQL statements that move \<open>Order.filled\<close> and the relay-job queue
  (\<open>backend/app/relayer/queue.py\<close>). Fills only ever move through conditional UPDATEs; each is
  an \<open>order_stmt\<close> here, so that a concurrent execution is a list of statements in the order
  the database runs them, and the bounds on \<open>filled\<close> are proved for every such list.

  A relay job is an ORM instance: a record value, written to its row when the session flushes.
  \<open>rollback_job\<close> never has a pending change of \<open>status\<close> when it flushes (its callers change
  other columns only), so \<open>flush_job\<close> writes every column but the status.
\<close>

section \<open>Third-party functions\<close>

text \<open>
  What the code calls and does not define: \<open>Account.from_key\<close> (the address of a private key, or a
  failure), \<open>is_address\<close>, \<open>to_checksum_address\<close>, the contract address file, and the text masking
  of log messages, whose result nothing but stored error text depends on. Nothing is assumed of
  them here.
\<close>

record libs =
  lib_from_key :: "string \<Rightarrow> string option"
  lib_contract_addresses :: "int \<Rightarrow> (string \<Rightarrow> string option) option"
  lib_is_address :: "string \<Rightarrow> bool"
  lib_checksum :: "string \<Rightarrow> string"
  lib_redact :: "string \<Rightarrow> string"

section \<open>Statements on the orders table\<close>

datatype order_stmt =
    Stmt_Take int int
  | Stmt_Give_Back int int
  | Stmt_Rollback "string list" int
  | Stmt_Resync int int
  | Stmt_Cancel int
  | Stmt_Insert order

text \<open>The WHERE clause of each UPDATE.\<close>

fun stmt_where :: "order_stmt \<Rightarrow> order \<Rightarrow> bool" where
  "stmt_where (Stmt_Take i qty) r = (o_id r = i \<and> \<not> o_cancelled r \<and> o_filled r + qty \<le> o_amount r)"
| "stmt_where (Stmt_Give_Back i qty) r = (o_id r = i \<and> o_filled r \<ge> qty)"
| "stmt_where (Stmt_Rollback hashes f) r = (o_order_hash r \<in> set hashes)"
| "stmt_where (Stmt_Resync i target) r = (o_id r = i)"
| "stmt_where (Stmt_Cancel i) r = (o_id r = i)"
| "stmt_where (Stmt_Insert o') r = False"

text \<open>The SET clause: the SQL expressions over the row, never a value computed earlier.\<close>

fun stmt_set :: "order_stmt \<Rightarrow> order \<Rightarrow> order" where
  "stmt_set (Stmt_Take i qty) r = r\<lparr>o_filled := o_filled r + qty\<rparr>"
| "stmt_set (Stmt_Give_Back i qty) r = r\<lparr>o_filled := o_filled r - qty\<rparr>"
| "stmt_set (Stmt_Rollback hashes f) r = r\<lparr>o_filled := (if o_filled r > f then o_filled r - f else 0)\<rparr>"
| "stmt_set (Stmt_Resync i target) r =
     r\<lparr>o_filled := (if target > o_amount r then o_amount r else target)\<rparr>"
| "stmt_set (Stmt_Cancel i) r = r\<lparr>o_cancelled := True\<rparr>"
| "stmt_set (Stmt_Insert o') r = r"

fun exec_stmt :: "order_stmt \<Rightarrow> order list \<Rightarrow> order list" where
  "exec_stmt (Stmt_Insert o') rows = rows @ [o']"
| "exec_stmt s rows = update_where (stmt_where s) (stmt_set s) rows"

definition stmt_rowcount :: "order_stmt \<Rightarrow> order list \<Rightarrow> nat" where
  "stmt_rowcount s rows = row_count (stmt_where s) rows"

definition exec_stmts :: "order_stmt list \<Rightarrow> order list \<Rightarrow> order list" where
  "exec_stmts ss rows = fold exec_stmt ss rows"

section \<open>queue.py\<close>

definition relayer_account :: "libs \<Rightarrow> settings \<Rightarrow> string option" where
  "relayer_account L s =
     (let key = py_strip (s_relayer_private_key s) in if key = [] then None else lib_from_key L key)"

text \<open>\<open>get_exchange_domain\<close> of \<open>orderbook/eip712.py\<close>.\<close>

definition get_exchange_domain :: "libs \<Rightarrow> settings \<Rightarrow> (string \<times> int) option" where
  "get_exchange_domain L s =
     (case lib_contract_addresses L (s_chain_id s) of
        None \<Rightarrow> None
      | Some get \<Rightarrow>
          (let addr = (case get ''Exchange'' of None \<Rightarrow> [] | Some a \<Rightarrow> a) in
           if addr = [] \<or> \<not> lib_is_address L addr then None
           else Some (lib_checksum L addr, s_chain_id s)))"

definition relayer_ready :: "libs \<Rightarrow> settings \<Rightarrow> bool" where
  "relayer_ready L s =
     (if \<not> s_relayer_enabled s then False
      else if relayer_account L s = None then False
      else get_exchange_domain L s \<noteq> None)"

definition enqueue_match :: "dbase \<Rightarrow> order \<Rightarrow> order \<Rightarrow> int \<Rightarrow> int \<Rightarrow> relay_job \<times> dbase" where
  "enqueue_match db taker maker fill now =
     (let job = \<lparr> j_id = d_next_job db, j_kind = ''match_orders'',
            j_condition_id = o_condition_id taker, j_taker_hash = o_order_hash taker,
            j_maker_hash = o_order_hash maker, j_fill_amount = fill, j_sender = [],
            j_status = Pending, j_attempts = 0, j_nonce = None, j_tx_hash = [], j_tx_hashes = [],
            j_raw_tx = [], j_gas_limit = None, j_max_fee = None, j_max_priority_fee = None,
            j_block_number = None, j_last_error = [], j_next_attempt_at = 0, j_sent_at = None,
            j_confirmed_at = None, j_matched_at = now, j_first_sent_block = None,
            j_nonce_consumed_at = None \<rparr>
      in (job, db\<lparr>d_jobs := d_jobs db @ [job], d_next_job := d_next_job db + 1\<rparr>))"

definition flush_job :: "relay_job \<Rightarrow> relay_job list \<Rightarrow> relay_job list" where
  "flush_job job rows = update_where (\<lambda>r. j_id r = j_id job) (\<lambda>r. job\<lparr>j_status := j_status r\<rparr>) rows"

definition refresh_job :: "relay_job \<Rightarrow> relay_job list \<Rightarrow> relay_job" where
  "refresh_job job rows = (case get_row j_id (j_id job) rows of None \<Rightarrow> job | Some r \<Rightarrow> r)"

definition fail_trades :: "int \<Rightarrow> trade list \<Rightarrow> trade list" where
  "fail_trades i rows = update_where (\<lambda>t. t_relay_job_id t = Some i) (\<lambda>t. t\<lparr>t_status := ''failed''\<rparr>) rows"

definition rollback_job :: "libs \<Rightarrow> dbase \<Rightarrow> relay_job \<Rightarrow> job_status \<Rightarrow> string \<Rightarrow> bool \<times> relay_job \<times> dbase" where
  "rollback_job L db job status reason =
     (if terminal (j_status job) then (False, job, db)
      else
        let expected = j_status job;
            jobs1 = flush_job job (d_jobs db);
            hit = (\<lambda>r. j_id r = j_id job \<and> j_status r = expected);
            jobs2 = update_where hit
              (\<lambda>r. r\<lparr>j_status := status, j_last_error := take 2000 (lib_redact L reason)\<rparr>) jobs1
        in if row_count hit jobs1 \<noteq> 1 then (False, refresh_job job jobs1, db\<lparr>d_jobs := jobs1\<rparr>)
           else (True, refresh_job job jobs2,
             db\<lparr>d_jobs := jobs2,
                d_orders := exec_stmt
                  (Stmt_Rollback [j_taker_hash job, j_maker_hash job] (j_fill_amount job)) (d_orders db),
                d_trades := fail_trades (j_id job) (d_trades db)\<rparr>))"

record job_view =
  jv_id :: int
  jv_kind :: string
  jv_condition_id :: string
  jv_taker_hash :: string
  jv_maker_hash :: string
  jv_fill_amount :: int
  jv_status :: string
  jv_attempts :: int
  jv_nonce :: "int option"
  jv_tx_hash :: string
  jv_tx_hashes :: "string list"
  jv_gas_limit :: "int option"
  jv_max_fee :: "int option"
  jv_max_priority_fee :: "int option"
  jv_block_number :: "int option"
  jv_last_error :: string
  jv_next_attempt_at :: int
  jv_sent_at :: "int option"
  jv_confirmed_at :: "int option"

definition job_public :: "libs \<Rightarrow> relay_job \<Rightarrow> job_view" where
  "job_public L job = \<lparr> jv_id = j_id job, jv_kind = j_kind job, jv_condition_id = j_condition_id job,
     jv_taker_hash = j_taker_hash job, jv_maker_hash = j_maker_hash job,
     jv_fill_amount = j_fill_amount job, jv_status = job_status_text (j_status job),
     jv_attempts = j_attempts job, jv_nonce = j_nonce job, jv_tx_hash = j_tx_hash job,
     jv_tx_hashes = j_tx_hashes job, jv_gas_limit = j_gas_limit job, jv_max_fee = j_max_fee job,
     jv_max_priority_fee = j_max_priority_fee job, jv_block_number = j_block_number job,
     jv_last_error = lib_redact L (j_last_error job), jv_next_attempt_at = j_next_attempt_at job,
     jv_sent_at = j_sent_at job, jv_confirmed_at = j_confirmed_at job \<rparr>"

section \<open>The bounds on filled, for every interleaving\<close>

definition order_ok :: "order \<Rightarrow> bool" where
  "order_ok r = (0 \<le> o_filled r \<and> o_filled r \<le> o_amount r)"

definition orders_ok :: "order list \<Rightarrow> bool" where
  "orders_ok rows = (\<forall>r \<in> set rows. order_ok r)"

fun stmt_ok :: "order_stmt \<Rightarrow> bool" where
  "stmt_ok (Stmt_Take i qty) = (0 \<le> qty)"
| "stmt_ok (Stmt_Give_Back i qty) = (0 \<le> qty)"
| "stmt_ok (Stmt_Rollback hashes f) = (0 \<le> f)"
| "stmt_ok (Stmt_Resync i target) = (0 \<le> target)"
| "stmt_ok (Stmt_Cancel i) = True"
| "stmt_ok (Stmt_Insert o') = order_ok o'"

text \<open>
  A table with an invariant that each of a family of statements keeps: then every interleaving of
  statements, from however many transactions, keeps it.
\<close>

locale guarded_table =
  fixes inv :: "'t \<Rightarrow> bool"
    and run :: "'s \<Rightarrow> 't \<Rightarrow> 't"
    and allowed :: "'s \<Rightarrow> bool"
  assumes run_inv: "allowed s \<Longrightarrow> inv t \<Longrightarrow> inv (run s t)"
begin

lemma fold_inv: "list_all allowed ss \<Longrightarrow> inv t \<Longrightarrow> inv (fold run ss t)"
  by (induction ss arbitrary: t) (auto simp: run_inv)

lemma shuffle_inv:
  "ss \<in> shuffles xs ys \<Longrightarrow> list_all allowed xs \<Longrightarrow> list_all allowed ys \<Longrightarrow> inv t \<Longrightarrow> inv (fold run ss t)"
  by (intro fold_inv) (auto simp: list_all_iff set_shuffles)

end

lemma stmt_set_ok: "stmt_ok s \<Longrightarrow> stmt_where s r \<Longrightarrow> order_ok r \<Longrightarrow> order_ok (stmt_set s r)"
  by (cases s) (auto simp: order_ok_def)

lemma exec_stmt_ok:
  assumes "stmt_ok s" and "orders_ok rows" shows "orders_ok (exec_stmt s rows)"
proof (cases "\<exists>o'. s = Stmt_Insert o'")
  case True
  with assms show ?thesis by (auto simp: orders_ok_def)
next
  case False
  then have "exec_stmt s rows = update_where (stmt_where s) (stmt_set s) rows" by (cases s) auto
  with assms show ?thesis by (auto simp: orders_ok_def set_update_where stmt_set_ok)
qed

interpretation order_guard: guarded_table orders_ok exec_stmt stmt_ok
  by unfold_locales (rule exec_stmt_ok)

text \<open>What a statement leaves alone.\<close>

lemma stmt_set_static [store_simps]:
  "o_id (stmt_set s r) = o_id r" "o_order_hash (stmt_set s r) = o_order_hash r"
  "o_maker (stmt_set s r) = o_maker r" "o_condition_id (stmt_set s r) = o_condition_id r"
  "o_is_buy (stmt_set s r) = o_is_buy r" "o_outcome (stmt_set s r) = o_outcome r"
  "o_price (stmt_set s r) = o_price r" "o_amount (stmt_set s r) = o_amount r"
  "o_expiry (stmt_set s r) = o_expiry r" "o_nonce (stmt_set s r) = o_nonce r"
  by (cases s; simp)+

lemma exec_update: "(\<And>o'. s \<noteq> Stmt_Insert o') \<Longrightarrow> exec_stmt s rows = update_where (stmt_where s) (stmt_set s) rows"
  by (cases s) auto

lemma exec_stmt_column:
  "(\<And>r. g (stmt_set s r) = g r) \<Longrightarrow> (\<And>o'. s \<noteq> Stmt_Insert o') \<Longrightarrow> map g (exec_stmt s rows) = map g rows"
  by (simp add: exec_update map_update_where)

section \<open>Rolling a job back\<close>

lemma flush_job_ids [store_simps]: "map j_id (flush_job job rows) = map j_id rows"
  by (auto simp: flush_job_def update_where_def)

lemma get_flush_job:
  "get_row j_id i (flush_job job rows) =
     (if i = j_id job then map_option (\<lambda>r. job\<lparr>j_status := j_status r\<rparr>) (get_row j_id i rows)
      else get_row j_id i rows)"
  by (induction rows) (auto simp: flush_job_def)

lemma rollback_terminal: "terminal (j_status job) \<Longrightarrow> rollback_job L db job st why = (False, job, db)"
  by (simp add: rollback_job_def)

text \<open>The compare on status: what the row said when the statement ran decides.\<close>

lemma rollback_hit_count:
  assumes "distinct (map j_id (d_jobs db))"
  shows "row_count (\<lambda>r. j_id r = j_id job \<and> j_status r = expected) (flush_job job (d_jobs db)) =
     (case get_job (j_id job) db of None \<Rightarrow> 0 | Some r \<Rightarrow> if j_status r = expected then 1 else 0)"
  using row_count_one [of j_id "flush_job job (d_jobs db)" "j_id job" "\<lambda>r. j_status r = expected"] assms
  by (simp add: flush_job_ids get_flush_job split: option.splits)

lemma rollback_moved:
  assumes "distinct (map j_id (d_jobs db))"
    and "get_job (j_id job) db = Some r" and "j_status r \<noteq> j_status job"
  shows "\<exists>job' db'. rollback_job L db job st why = (False, job', db') \<and> d_orders db' = d_orders db \<and>
    d_trades db' = d_trades db \<and> map j_status (d_jobs db') = map j_status (d_jobs db)"
  using assms rollback_hit_count [of db job "j_status job"]
  by (auto simp: rollback_job_def Let_def flush_job_def map_update_where)

lemma rollback_done:
  assumes "distinct (map j_id (d_jobs db))"
    and "get_job (j_id job) db = Some r" and "j_status r = j_status job" and "\<not> terminal (j_status job)"
  shows "rollback_job L db job st why =
    (True, job\<lparr>j_status := st, j_last_error := take 2000 (lib_redact L why)\<rparr>,
     db\<lparr>d_jobs := put_row j_id (job\<lparr>j_status := st, j_last_error := take 2000 (lib_redact L why)\<rparr>) (d_jobs db),
        d_orders := exec_stmt (Stmt_Rollback [j_taker_hash job, j_maker_hash job] (j_fill_amount job)) (d_orders db),
        d_trades := fail_trades (j_id job) (d_trades db)\<rparr>)"
proof -
  let ?new = "job\<lparr>j_status := st, j_last_error := take 2000 (lib_redact L why)\<rparr>"
  let ?hit = "\<lambda>x. j_id x = j_id job \<and> j_status x = j_status job"
  let ?jobs2 = "update_where ?hit (\<lambda>r. r\<lparr>j_status := st, j_last_error := take 2000 (lib_redact L why)\<rparr>)
      (flush_job job (d_jobs db))"
  have one: "x = r" if "x \<in> set (d_jobs db)" and "j_id x = j_id job" for x
    using that assms(1,2) by (metis get_row_distinct option.inject)
  have jobs2: "?jobs2 = put_row j_id ?new (d_jobs db)"
    unfolding flush_job_def put_row_def update_where_def using assms(3) one
    by (auto simp: map_eq_conv)
  moreover have "get_row j_id (j_id job) ?jobs2 = Some ?new"
    unfolding jobs2 using assms(2) by (simp add: get_row_put_row)
  ultimately show ?thesis
    using assms rollback_hit_count [OF assms(1), of job "j_status job"]
    by (simp add: rollback_job_def Let_def refresh_job_def)
qed

lemma rollback_job_orders:
  "d_orders (snd (snd (rollback_job L db job st why))) \<in>
     {d_orders db, exec_stmt (Stmt_Rollback [j_taker_hash job, j_maker_hash job] (j_fill_amount job)) (d_orders db)}"
  by (simp add: rollback_job_def Let_def)

section \<open>Properties\<close>

text \<open>
  However the statements of concurrent matches, give-backs, job
  rollbacks, on-chain resyncs, cancels and new orders are interleaved, no order is ever filled below
  zero or past its amount.
\<close>

theorem interleaved_statements_bounded:
  assumes "orders_ok rows" and "list_all stmt_ok xs" and "list_all stmt_ok ys" and "ss \<in> shuffles xs ys"
  shows "orders_ok (exec_stmts ss rows)"
  unfolding exec_stmts_def using assms by (intro order_guard.shuffle_inv)

definition ex_order :: "int \<Rightarrow> bool \<Rightarrow> int \<Rightarrow> int \<Rightarrow> order" where
  "ex_order i buy price amount = \<lparr> o_id = i, o_order_hash = py_str i, o_maker = ''m'' @ py_str i,
     o_condition_id = ''0xab'', o_is_buy = buy, o_outcome = 0, o_price = price, o_amount = amount,
     o_filled = 0, o_salt = ''0x1'', o_nonce = 0, o_expiry = 10000, o_signature = [], o_cancelled = False \<rparr>"

theorem interleaved_statements_bounded_witness:
  "orders_ok (exec_stmts [Stmt_Take 1 6, Stmt_Take 1 6, Stmt_Give_Back 1 4] [ex_order 1 True 500000 10])"
proof (rule interleaved_statements_bounded)
  show "[Stmt_Take 1 6, Stmt_Take 1 6, Stmt_Give_Back 1 4] \<in> shuffles [Stmt_Take 1 6] [Stmt_Take 1 6, Stmt_Give_Back 1 4]"
    by (simp add: Cons_in_shuffles_iff)
qed (simp_all add: orders_ok_def order_ok_def ex_order_def)

text \<open>
  Rolling a job back lowers the fill at most once: on success the row holds
  the new terminal status, and a second rollback, by the same caller or by one whose instance still
  shows the old status, returns False and leaves orders and trades alone.
\<close>

theorem rollback_exactly_once:
  assumes "distinct (map j_id (d_jobs db))" and "terminal st"
    and "rollback_job L db job st why = (True, job', db')"
  shows "get_job (j_id job) db' = Some job' \<and> j_status job' = st \<and>
    rollback_job L db' job' st2 why2 = (False, job', db') \<and>
    (\<exists>j2 db2. rollback_job L db' job st2 why2 = (False, j2, db2) \<and>
       d_orders db2 = d_orders db' \<and> d_trades db2 = d_trades db')"
proof -
  from assms(3) have nt: "\<not> terminal (j_status job)"
    by (auto simp: rollback_job_def split: if_splits)
  obtain r where r: "get_job (j_id job) db = Some r" "j_status r = j_status job"
    using assms(3) nt rollback_hit_count [OF assms(1), of job "j_status job"]
    by (fastforce simp: rollback_job_def Let_def split: option.splits if_splits)
  note eq = rollback_done [OF assms(1) r nt, of L st why]
  have job': "j_id job' = j_id job" "j_status job' = st" "get_job (j_id job) db' = Some job'"
    and dist: "distinct (map j_id (d_jobs db'))"
    using assms(1,3) eq r by (auto simp: get_row_put_row)
  moreover have "j_status job' \<noteq> j_status job" using nt assms(2) job' by auto
  ultimately show ?thesis
    using assms(2) rollback_moved [OF dist job'(3), of L st2 why2]
    by (auto simp: rollback_terminal)
qed

definition ex_libs :: libs where
  "ex_libs = \<lparr> lib_from_key = (\<lambda>k. Some ''0xRELAYER''), lib_contract_addresses = (\<lambda>_. Some (\<lambda>_. Some ''0xEX'')),
     lib_is_address = (\<lambda>_. True), lib_checksum = (\<lambda>a. a), lib_redact = (\<lambda>t. t) \<rparr>"

definition ex_queue_db :: dbase where
  "ex_queue_db = snd (enqueue_match (empty_db\<lparr>d_orders := [(ex_order 1 True 500000 10)\<lparr>o_filled := 4\<rparr>]\<rparr>)
     (ex_order 1 True 500000 10) (ex_order 2 False 400000 10) 4 50)"

definition ex_queue_job :: relay_job where
  "ex_queue_job = fst (enqueue_match empty_db (ex_order 1 True 500000 10) (ex_order 2 False 400000 10) 4 50)"

theorem rollback_exactly_once_witness:
  "\<exists>job' db'. rollback_job ex_libs ex_queue_db ex_queue_job Failed ''x'' = (True, job', db') \<and>
     map o_filled (d_orders db') = [0] \<and> rollback_job ex_libs db' job' Cancelled ''y'' = (False, job', db')"
proof -
  obtain job' db' where eq: "rollback_job ex_libs ex_queue_db ex_queue_job Failed ''x'' = (True, job', db')"
    and filled: "map o_filled (d_orders db') = [0]"
    by (simp add: ex_libs_def ex_queue_db_def ex_queue_job_def enqueue_match_def empty_db_def ex_order_def
        rollback_job_def Let_def flush_job_def row_count_def refresh_job_def)
  have "distinct (map j_id (d_jobs ex_queue_db))" "terminal Failed"
    by (simp_all add: ex_queue_db_def enqueue_match_def empty_db_def Let_def)
  from rollback_exactly_once [OF this eq, of Cancelled "''y''"]
  have "rollback_job ex_libs db' job' Cancelled ''y'' = (False, job', db')" by simp
  with eq filled show ?thesis by (intro exI conjI)
qed

end
