(* ===== verification/Chain.thy ===== *)
theory Chain
  imports Store
begin

text \<open>
  The relayer's view of the chain (\<open>backend/app/relayer/chain.py\<close>, \<open>ChainClient\<close>) and the error
  text it reads. A node may answer differently every time it is asked, so each method of the client
  takes the number of RPC calls made so far: a \<open>chain\<close> is an arbitrary behaviour of the node over a
  whole run, with an exception or a value for every call. Code that calls the node is a computation
  in the monad \<open>'a rpc\<close>, which counts the calls and stops at the first exception.
\<close>

section \<open>Errors of a call\<close>

record rpc_exn =
  x_is_revert :: bool
  x_type :: string
  x_text :: string

datatype rpc_kind = Nonce_Low | Known | Underpriced | Insufficient_Funds | Revert | Transient

definition classify_rpc_error :: "rpc_exn \<Rightarrow> rpc_kind" where
  "classify_rpc_error e =
     (if x_is_revert e then Revert
      else let msg = py_lower (x_text e) in
        if substring_in ''nonce too low'' msg \<or> substring_in ''already been used'' msg \<or>
           substring_in ''nonce is too low'' msg \<or> substring_in ''oldnonce'' msg then Nonce_Low
        else if substring_in ''already known'' msg \<or> substring_in ''known transaction'' msg \<or>
           substring_in ''alreadyknown'' msg then Known
        else if substring_in ''underpriced'' msg \<or> substring_in ''fee too low'' msg then Underpriced
        else if substring_in ''insufficient funds'' msg then Insufficient_Funds
        else if substring_in ''execution reverted'' msg then Revert
        else Transient)"

text \<open>\<open>rpc_reason\<close> of \<open>relayer/redact.py\<close>; the masking function is an argument.\<close>

definition rpc_reason :: "(string \<Rightarrow> string) \<Rightarrow> rpc_exn \<Rightarrow> string" where
  "rpc_reason redact e =
     (if classify_rpc_error e = Transient then ''transient ('' @ x_type e @ '')''
      else take 500 (redact (x_text e)))"

section \<open>Answers\<close>

record block =
  bl_number :: int
  bl_timestamp :: int
  bl_base_fee :: "int option"

record log =
  lg_address :: string
  lg_topics :: "string list"
  lg_tx_hash :: string
  lg_block :: "int option"

record receipt =
  rc_status :: int
  rc_block :: int
  rc_logs :: "log list option"

type_synonym 'a answer = "nat \<Rightarrow> rpc_exn + 'a"

record chain =
  c_pending_nonce :: "string \<Rightarrow> int answer"
  c_latest_nonce :: "string \<Rightarrow> int answer"
  c_latest_block :: "block answer"
  c_max_priority_fee :: "int answer"
  c_gas_price :: "int answer"
  c_eth_balance :: "string \<Rightarrow> int answer"
  c_estimate_gas :: "string \<Rightarrow> int answer"
  c_send_raw :: "string \<Rightarrow> unit answer"
  c_get_receipt :: "string \<Rightarrow> receipt option answer"
  c_get_logs :: "string \<Rightarrow> string list \<Rightarrow> int \<Rightarrow> log list answer"
  c_usdc_balance :: "string \<Rightarrow> int answer"
  c_usdc_allowance :: "string \<Rightarrow> string \<Rightarrow> int answer"
  c_ctf_balance :: "string \<Rightarrow> string \<Rightarrow> int \<Rightarrow> int answer"
  c_ctf_approved :: "string \<Rightarrow> string \<Rightarrow> bool answer"
  c_ctf_resolved :: "string \<Rightarrow> bool answer"
  c_ex_nonce :: "string \<Rightarrow> int answer"
  c_ex_filled :: "string \<Rightarrow> int answer"
  c_ex_cancelled :: "string \<Rightarrow> bool answer"

section \<open>The monad of calls\<close>

type_synonym 'a rpc = "nat \<Rightarrow> (rpc_exn + 'a) \<times> nat"

definition rpc_return :: "'a \<Rightarrow> 'a rpc" where
  "rpc_return x = (\<lambda>k. (Inr x, k))"

definition rpc_call :: "'a answer \<Rightarrow> 'a rpc" where
  "rpc_call f = (\<lambda>k. (f k, Suc k))"

definition rpc_bind :: "'a rpc \<Rightarrow> ('a \<Rightarrow> 'b rpc) \<Rightarrow> 'b rpc" where
  "rpc_bind m f = (\<lambda>k. case m k of (Inl e, k') \<Rightarrow> (Inl e, k') | (Inr x, k') \<Rightarrow> f x k')"

lemma rpc_bind_return [simp]: "rpc_bind (rpc_return x) f = f x"
  by (simp add: rpc_bind_def rpc_return_def)

lemma rpc_bind_assoc: "rpc_bind (rpc_bind m f) g = rpc_bind m (\<lambda>x. rpc_bind (f x) g)"
  by (rule ext) (simp add: rpc_bind_def split: prod.splits sum.splits)

lemma rpc_bind_Inr:
  "rpc_bind m f k = (Inr y, k') \<longleftrightarrow> (\<exists>x k1. m k = (Inr x, k1) \<and> f x k1 = (Inr y, k'))"
  by (auto simp: rpc_bind_def split: prod.splits sum.splits)

text \<open>A node whose answers do not change while a computation asks it: then the call numbers drop out.\<close>

lemma rpc_bind_call:
  "(\<And>k. f k = Inr x) \<Longrightarrow> rpc_bind (rpc_call f) g k = g x (Suc k)"
  by (simp add: rpc_bind_def rpc_call_def)

section \<open>Classification\<close>

text \<open>The texts of geth, reth and anvil for the same condition fall in the same class.\<close>

lemma classify_nonce_low:
  "classify_rpc_error \<lparr>x_is_revert = False, x_type = [], x_text = ''Nonce too low''\<rparr> = Nonce_Low"
  "classify_rpc_error \<lparr>x_is_revert = False, x_type = [], x_text = ''OldNonce''\<rparr> = Nonce_Low"
  "classify_rpc_error \<lparr>x_is_revert = False, x_type = [], x_text = ''nonce has already been used''\<rparr> = Nonce_Low"
  by code_simp+

lemma rpc_reason_transient: "classify_rpc_error e = Transient \<Longrightarrow> rpc_reason r e = rpc_reason r' e"
  by (simp add: rpc_reason_def)

end
