(* ===== verification/Eip712.thy ===== *)
theory Eip712
  imports Queue Chain
begin

text \<open>
  Order fields, hashing and signature checks (\<open>backend/app/orderbook/eip712.py\<close>). Bytes are char
  lists. \<open>keccak\<close>, ABI encoding and public-key recovery are third-party code: fields of
  \<open>crypto\<close>, of which nothing is assumed.
\<close>

section \<open>uint256 and bytes32 text\<close>

definition hex_val :: "char \<Rightarrow> int" where
  "hex_val c = (let n = (of_char c :: nat) in
     int (if n < 58 then n - 48 else if n < 71 then n - 55 else n - 87))"

text \<open>
  The digits of \<open>int(s, base)\<close>: at least one digit, with single underscores between digits.
  \<open>sep\<close> says whether an underscore may come next.
\<close>

fun parse_digits :: "(char \<Rightarrow> bool) \<Rightarrow> int \<Rightarrow> bool \<Rightarrow> int \<Rightarrow> string \<Rightarrow> int option" where
  "parse_digits ok base sep acc [] = (if sep then Some acc else None)"
| "parse_digits ok base sep acc (c # s) =
     (if ok c then parse_digits ok base True (acc * base + hex_val c) s
      else if c = CHR ''_'' \<and> sep then parse_digits ok base False acc s
      else None)"

definition parse_hex :: "string \<Rightarrow> int option" where
  "parse_hex s = (if startswith (py_lower s) ''0x'' then parse_digits is_hex_char 16 True 0 (drop 2 s)
     else parse_digits is_hex_char 16 False 0 s)"

definition parse_dec :: "string \<Rightarrow> int option" where
  "parse_dec s = (case s of
     [] \<Rightarrow> None
   | c # t \<Rightarrow> if c = CHR ''-'' then map_option uminus (parse_digits is_digit 10 False 0 t)
       else if c = CHR ''+'' then parse_digits is_digit 10 False 0 t
       else parse_digits is_digit 10 False 0 s)"

datatype py_value = PyInt int | PyStr string | PyBool bool

definition U256_MAX :: int where "U256_MAX = 2 ^ 256 - 1"

text \<open>\<open>None\<close> is the \<open>ValueError\<close>. An empty hex text after \<open>0x\<close> is one too.\<close>

definition u256 :: "py_value \<Rightarrow> int option" where
  "u256 v =
     (case (case v of
        PyBool _ \<Rightarrow> None
      | PyInt n \<Rightarrow> Some n
      | PyStr t \<Rightarrow>
          (let s = py_strip t in
           if s = [] then None
           else if startswith (py_lower s) ''0x''
           then (if length s = 2 then None else parse_hex s)
           else parse_dec s)) of
        None \<Rightarrow> None
      | Some n \<Rightarrow> if n < 0 \<or> n > U256_MAX then None else Some n)"

definition strip0x :: "string \<Rightarrow> string" where
  "strip0x v = (if startswith (py_lower v) ''0x'' then drop 2 v else v)"

text \<open>\<open>bytes.fromhex\<close>: pairs of digits; ASCII whitespace before and after a pair is skipped.\<close>

definition ascii_space :: "char \<Rightarrow> bool" where
  "ascii_space c = (let n = (of_char c :: nat) in n = 32 \<or> (9 \<le> n \<and> n \<le> 13))"

fun from_hex :: "string \<Rightarrow> string option" where
  "from_hex [] = Some []"
| "from_hex [c] = (if ascii_space c then Some [] else None)"
| "from_hex (c # d # s) =
     (if ascii_space c then from_hex (d # s)
      else if is_hex_char c \<and> is_hex_char d
      then map_option (\<lambda>t. char_of (nat (hex_val c * 16 + hex_val d)) # t) (from_hex s)
      else None)"

definition hex_digit :: "nat \<Rightarrow> char" where
  "hex_digit n = char_of (if n < 10 then 48 + n else 87 + n)"

definition to_hex :: "string \<Rightarrow> string" where
  "to_hex bs = concat (map (\<lambda>c. [hex_digit (of_char c div 16), hex_digit (of_char c mod 16)]) bs)"

definition bytes32 :: "string \<Rightarrow> string option" where
  "bytes32 v = (case from_hex (strip0x v) of None \<Rightarrow> None
     | Some out \<Rightarrow> if length out \<noteq> 32 then None else Some out)"

section \<open>Order fields\<close>

record order_fields =
  f_maker :: string
  f_is_buy :: bool
  f_condition_id :: string
  f_outcome :: int
  f_price :: int
  f_amount :: int
  f_salt :: int
  f_nonce :: int
  f_expiry :: int

text \<open>\<open>OrderFields.from_model\<close>: \<open>None\<close> where the text of a stored column does not parse.\<close>

definition from_model :: "libs \<Rightarrow> order \<Rightarrow> order_fields option" where
  "from_model L ord =
     (case bytes32 (o_condition_id ord) of
        None \<Rightarrow> None
      | Some cid \<Rightarrow>
          (case u256 (PyStr (o_salt ord)) of
             None \<Rightarrow> None
           | Some salt \<Rightarrow> Some \<lparr> f_maker = lib_checksum L (o_maker ord), f_is_buy = o_is_buy ord,
               f_condition_id = cid, f_outcome = o_outcome ord, f_price = o_price ord,
               f_amount = o_amount ord, f_salt = salt, f_nonce = o_nonce ord, f_expiry = o_expiry ord \<rparr>))"

section \<open>Hashes and signatures\<close>

record crypto =
  cr_keccak :: "string \<Rightarrow> string"
  cr_encode_domain :: "int \<Rightarrow> string \<Rightarrow> string"
  cr_encode_order :: "order_fields \<Rightarrow> string"
  cr_recover :: "string \<Rightarrow> int \<Rightarrow> int \<Rightarrow> int \<Rightarrow> string option"

definition domain_separator :: "crypto \<Rightarrow> string \<Rightarrow> int \<Rightarrow> string" where
  "domain_separator C exchange chain_id = cr_keccak C (cr_encode_domain C chain_id exchange)"

definition order_struct_hash :: "crypto \<Rightarrow> order_fields \<Rightarrow> string" where
  "order_struct_hash C ord = cr_keccak C (cr_encode_order C ord)"

definition order_digest :: "crypto \<Rightarrow> order_fields \<Rightarrow> string \<Rightarrow> int \<Rightarrow> string" where
  "order_digest C ord exchange chain_id =
     cr_keccak C ([CHR 0x19, CHR 0x01] @ domain_separator C exchange chain_id @ order_struct_hash C ord)"

definition order_hash_hex :: "crypto \<Rightarrow> order_fields \<Rightarrow> string \<Rightarrow> int \<Rightarrow> string" where
  "order_hash_hex C ord exchange chain_id = ''0x'' @ to_hex (order_digest C ord exchange chain_id)"

text \<open>\<open>int.from_bytes(.., "big")\<close>.\<close>

definition from_bytes :: "string \<Rightarrow> int" where
  "from_bytes bs = fold (\<lambda>c acc. acc * 256 + of_char c) bs 0"

datatype bad_signature = Not_Hex | Bad_Length | Bad_V | No_Recovery | Not_Maker

definition sig_bytes :: "string \<Rightarrow> bad_signature + string" where
  "sig_bytes sig = (case from_hex (strip0x sig) of None \<Rightarrow> Inl Not_Hex | Some raw \<Rightarrow> Inr raw)"

definition recover_order_signer :: "crypto \<Rightarrow> string \<Rightarrow> string \<Rightarrow> bad_signature + string" where
  "recover_order_signer C digest sig =
     (case sig_bytes sig of
        Inl e \<Rightarrow> Inl e
      | Inr raw \<Rightarrow>
          if length raw \<noteq> 65 then Inl Bad_Length
          else
            let v = (of_char (raw ! 64) :: int) in
            if v \<notin> {0, 1, 27, 28} then Inl Bad_V
            else
              let r = from_bytes (take 32 raw); s = from_bytes (take 32 (drop 32 raw)) in
              (case cr_recover C digest (if v \<ge> 27 then v - 27 else v) r s of
                 None \<Rightarrow> Inl No_Recovery
               | Some signer \<Rightarrow> Inr signer))"

definition verify_order_signature :: "crypto \<Rightarrow> order_fields \<Rightarrow> string \<Rightarrow> string \<Rightarrow> int \<Rightarrow> bad_signature + string" where
  "verify_order_signature C ord sig exchange chain_id =
     (let digest = order_digest C ord exchange chain_id in
      case recover_order_signer C digest sig of
        Inl e \<Rightarrow> Inl e
      | Inr signer \<Rightarrow> if py_lower signer \<noteq> py_lower (f_maker ord) then Inl Not_Maker else Inr digest)"

section \<open>Round trip of hex text\<close>

lemma hex_not_space: "is_hex_char c \<Longrightarrow> \<not> ascii_space c"
  by (auto simp: is_hex_char_def is_digit_def ascii_space_def Let_def)

lemma hex_digit_ok: "n < 16 \<Longrightarrow> is_hex_char (hex_digit n) \<and> hex_val (hex_digit n) = int n"
  by (auto simp: hex_digit_def is_hex_char_def is_digit_def hex_val_def Let_def)

lemma hex_digit_byte:
  "is_hex_char (hex_digit (of_char c div 16)) \<and> is_hex_char (hex_digit (of_char c mod 16)) \<and>
   hex_val (hex_digit (of_char c div 16)) * 16 + hex_val (hex_digit (of_char c mod 16)) = int (of_char c)"
proof -
  have "(of_char c :: nat) mod 256 = of_char c" by simp
  then have "(of_char c :: nat) < 256" by (metis mod_less_divisor zero_less_numeral)
  then have d: "(of_char c :: nat) div 16 < 16" by (intro less_mult_imp_div_less) simp
  have "int (of_char c div 16) * 16 + int (of_char c mod 16) = int (of_char c)"
    by (metis div_mult_mod_eq of_nat_add of_nat_mult of_nat_numeral)
  with hex_digit_ok [OF d] hex_digit_ok [of "of_char c mod 16"] show ?thesis by simp
qed

lemma from_hex_to_hex: "from_hex (to_hex bs) = Some bs"
proof (induction bs)
  case Nil
  then show ?case by (simp add: to_hex_def)
next
  case (Cons c bs)
  have "to_hex (c # bs) = hex_digit (of_char c div 16) # hex_digit (of_char c mod 16) # to_hex bs"
    by (simp add: to_hex_def)
  then show ?case using hex_digit_byte [of c] Cons by (simp add: hex_not_space)
qed

lemma length_from_hex: "from_hex s = Some bs \<Longrightarrow> 2 * length bs \<le> length s"
  by (induction s arbitrary: bs rule: from_hex.induct) (auto split: if_splits)

lemma u256_range: "u256 v = Some n \<Longrightarrow> 0 \<le> n \<and> n < 2 ^ 256"
  by (auto simp: u256_def U256_MAX_def split: option.splits if_splits)

section \<open>Properties\<close>

text \<open>
  A signature the API accepts is 65 bytes with a recovery byte the
  Exchange also accepts (0, 1, 27 or 28), and recovers the digest of exactly these fields, exchange
  and chain to the maker's address.
\<close>

theorem accepted_signature_is_maker:
  assumes "verify_order_signature C ord sig exchange chain_id = Inr digest"
  shows "digest = order_digest C ord exchange chain_id \<and>
    (\<exists>raw signer. from_hex (strip0x sig) = Some raw \<and> length raw = 65 \<and>
       of_char (raw ! 64) \<in> {0, 1, 27, 28::int} \<and>
       cr_recover C digest (of_char (raw ! 64) mod 27) (from_bytes (take 32 raw)) (from_bytes (take 32 (drop 32 raw)))
         = Some signer \<and>
       py_lower signer = py_lower (f_maker ord))"
proof -
  obtain signer where r: "recover_order_signer C (order_digest C ord exchange chain_id) sig = Inr signer"
    and m: "py_lower signer = py_lower (f_maker ord)" and d: "digest = order_digest C ord exchange chain_id"
    using assms by (auto simp: verify_order_signature_def Let_def split: sum.splits if_splits)
  obtain raw where raw: "from_hex (strip0x sig) = Some raw" "length raw = 65"
    "of_char (raw ! 64) \<in> {0, 1, 27, 28::int}"
    "cr_recover C digest (if of_char (raw ! 64) \<ge> (27::int) then of_char (raw ! 64) - 27 else of_char (raw ! 64))
       (from_bytes (take 32 raw)) (from_bytes (take 32 (drop 32 raw))) = Some signer"
    using r d by (auto simp: recover_order_signer_def sig_bytes_def Let_def split: option.splits sum.splits if_splits)
  have "(if of_char (raw ! 64) \<ge> (27::int) then of_char (raw ! 64) - 27 else of_char (raw ! 64)) = of_char (raw ! 64) mod (27::int)"
    using raw(3) by auto
  with raw m d show ?thesis by auto
qed

definition ex_crypto :: crypto where
  "ex_crypto = \<lparr> cr_keccak = (\<lambda>b. take 32 b), cr_encode_domain = (\<lambda>i a. a), cr_encode_order = f_maker,
     cr_recover = (\<lambda>d v r s. if v = 1 then Some ''0xAB'' else None) \<rparr>"

definition ex_fields :: order_fields where
  "ex_fields = \<lparr> f_maker = ''0xab'', f_is_buy = True, f_condition_id = [], f_outcome = 0, f_price = 1,
     f_amount = 1, f_salt = 0, f_nonce = 0, f_expiry = 1 \<rparr>"

definition ex_sig :: string where
  "ex_sig = ''0x'' @ to_hex (replicate 31 (CHR 0x00) @ [CHR 0x01] @ replicate 32 (CHR 0x00) @ [CHR 0x1c])"

theorem accepted_signature_is_maker_witness:
  "verify_order_signature ex_crypto ex_fields ex_sig ''EX'' 1 = Inr (order_digest ex_crypto ex_fields ''EX'' 1) \<and>
   (\<exists>raw. from_hex (strip0x ex_sig) = Some raw \<and> length raw = 65)"
proof -
  have raw: "from_hex (strip0x ex_sig) =
      Some (replicate 31 (CHR 0x00) @ [CHR 0x01] @ replicate 32 (CHR 0x00) @ [CHR 0x1c])"
    by (simp add: ex_sig_def strip0x_def startswith_def py_lower_def lower_char_def from_hex_to_hex)
  have "py_lower ''0xAB'' = py_lower ''0xab''" by code_simp
  then have "verify_order_signature ex_crypto ex_fields ex_sig ''EX'' 1 = Inr (order_digest ex_crypto ex_fields ''EX'' 1)"
    by (simp add: verify_order_signature_def recover_order_signer_def sig_bytes_def raw nth_append
        ex_crypto_def ex_fields_def)
  from accepted_signature_is_maker [OF this] this show ?thesis by blast
qed

end
