(* ===== verification/Fees.thy ===== *)
theory Fees
  imports Chain
begin

text \<open>
  The relayer's EIP-1559 fee and gas-limit policy (\<open>backend/app/relayer/gas.py\<close>) and the
  process-wide nonce allocation (\<open>backend/app/relayer/nonce.py\<close>).
\<close>

section \<open>gas.py\<close>

definition BPS :: int where "BPS = 10000"

record fee_quote =
  q_max_fee :: int
  q_tip :: int
  q_legacy_gas_price :: "int option"

definition ceil_bps :: "int \<Rightarrow> int \<Rightarrow> int" where
  "ceil_bps x bps = ceil_div (x * bps) BPS"

definition quote_fees :: "int option \<Rightarrow> int \<Rightarrow> int option \<Rightarrow> settings \<Rightarrow> fee_quote option" where
  "quote_fees base_fee suggested_tip gas_price s =
     (let cap = s_relayer_max_fee_per_gas_wei s in
      case base_fee of
        None \<Rightarrow>
          (case gas_price of
             None \<Rightarrow> None
           | Some gp \<Rightarrow> if gp \<le> 0 \<or> gp > cap then None
               else Some \<lparr> q_max_fee = gp, q_tip = gp, q_legacy_gas_price = Some gp \<rparr>)
      | Some base \<Rightarrow>
          (let tip = max suggested_tip (s_relayer_priority_fee_wei s) in
           if base + tip > cap then None
           else Some \<lparr> q_max_fee = min (2 * base + tip) cap, q_tip = tip, q_legacy_gas_price = None \<rparr>))"

definition bump_fees :: "fee_quote \<Rightarrow> settings \<Rightarrow> int option \<Rightarrow> fee_quote option" where
  "bump_fees q s base_fee =
     (let cap = s_relayer_max_fee_per_gas_wei s;
          factor = BPS + max (s_relayer_fee_bump_bps s) 1000 in
      case q_legacy_gas_price q of
        Some legacy \<Rightarrow>
          (let gp = ceil_bps legacy factor in
           if gp > cap then None
           else Some \<lparr> q_max_fee = gp, q_tip = gp, q_legacy_gas_price = Some gp \<rparr>)
      | None \<Rightarrow>
          (let min_tip = ceil_bps (q_tip q) factor;
               min_max = ceil_bps (q_max_fee q) factor;
               max_fee = min (case base_fee of None \<Rightarrow> min_max
                              | Some base \<Rightarrow> max min_max (2 * base + min_tip)) cap in
           if max_fee < min_max \<or> min_tip > max_fee then None
           else Some \<lparr> q_max_fee = max_fee, q_tip = min_tip, q_legacy_gas_price = None \<rparr>))"

definition gas_limit :: "int \<Rightarrow> settings \<Rightarrow> int option" where
  "gas_limit estimate s =
     (let cap = s_relayer_gas_limit_cap s in
      if estimate \<le> 0 \<or> estimate > cap then None
      else Some (min (ceil_bps estimate (BPS + s_relayer_gas_buffer_bps s)) cap))"

text \<open>A bump chain: the quotes of the replacements of one nonce, each from the one before.\<close>

fun bump_chain :: "settings \<Rightarrow> int option list \<Rightarrow> fee_quote \<Rightarrow> fee_quote option" where
  "bump_chain s [] q = Some q"
| "bump_chain s (base # bases) q =
     (case bump_fees q s base of None \<Rightarrow> None | Some q' \<Rightarrow> bump_chain s bases q')"

section \<open>nonce.py\<close>

text \<open>
  A \<open>NonceManager\<close> is its \<open>_next\<close>. \<open>pending\<close> is the node's answer to \<open>pending_nonce\<close>, which
  \<open>reserve\<close> asks for only when nothing is cached.
\<close>

type_synonym nonce_manager = "int option"

definition nm_issue :: "int \<Rightarrow> int option \<Rightarrow> int \<times> nonce_manager" where
  "nm_issue nxt fl_min =
     (let n = (case fl_min of None \<Rightarrow> nxt | Some f \<Rightarrow> if f > nxt then f else nxt) in (n, Some (n + 1)))"

definition nm_reserve :: "(string \<Rightarrow> int answer) \<Rightarrow> string \<Rightarrow> int option \<Rightarrow> nonce_manager \<Rightarrow> (int \<times> nonce_manager) rpc" where
  "nm_reserve pending address fl_min nm =
     (case nm of
        Some n \<Rightarrow> rpc_return (nm_issue n fl_min)
      | None \<Rightarrow> rpc_bind (rpc_call (pending address)) (\<lambda>p. rpc_return (nm_issue p fl_min)))"

definition nm_resync :: "(string \<Rightarrow> int answer) \<Rightarrow> string \<Rightarrow> nonce_manager rpc" where
  "nm_resync pending address = rpc_bind (rpc_call (pending address)) (\<lambda>p. rpc_return (Some p))"

definition nm_release :: "int \<Rightarrow> nonce_manager \<Rightarrow> nonce_manager" where
  "nm_release n nm = (case nm of None \<Rightarrow> None | Some nxt \<Rightarrow> if n = nxt - 1 then Some n else Some nxt)"

definition nm_invalidate :: "nonce_manager \<Rightarrow> nonce_manager" where
  "nm_invalidate nm = None"

definition nm_peek :: "nonce_manager \<Rightarrow> int option" where
  "nm_peek nm = nm"

section \<open>The contract of a nonce source\<close>

text \<open>
  What the senders rely on: a reserved nonce is at least the floor they give and at least the cached
  next one, and the cache moves just past it.
\<close>

locale nonce_source =
  fixes issue :: "int \<Rightarrow> int option \<Rightarrow> int \<times> 'm"
    and cached :: "'m \<Rightarrow> int"
  assumes issue_floor: "issue n (Some f) = (i, m) \<Longrightarrow> f \<le> i"
    and issue_cached: "issue n fl = (i, m) \<Longrightarrow> n \<le> i"
    and issue_next: "issue n fl = (i, m) \<Longrightarrow> cached m = i + 1"
begin

fun issue_all :: "int \<Rightarrow> int option list \<Rightarrow> int list" where
  "issue_all n [] = []"
| "issue_all n (fl # fls) = (case issue n fl of (i, m) \<Rightarrow> i # issue_all (cached m) fls)"

lemma issue_all_above: "x \<in> set (issue_all n fls) \<Longrightarrow> n \<le> x"
proof (induction fls arbitrary: n)
  case (Cons fl fls)
  obtain i m where i: "issue n fl = (i, m)" by (metis prod.exhaust)
  with Cons issue_cached [OF i] issue_next [OF i] show ?case by fastforce
qed simp

lemma issue_all_floors: "list_all2 (\<lambda>fl i. n \<le> i \<and> (fl \<noteq> None \<longrightarrow> the fl \<le> i)) fls (issue_all n fls)"
proof (induction fls arbitrary: n)
  case (Cons fl fls)
  obtain i m where i: "issue n fl = (i, m)" by (metis prod.exhaust)
  have "n \<le> cached m" using issue_cached [OF i] issue_next [OF i] by simp
  then have "list_all2 (\<lambda>fl i. n \<le> i \<and> (fl \<noteq> None \<longrightarrow> the fl \<le> i)) fls (issue_all (cached m) fls)"
    using list_all2_mono [OF Cons.IH [of "cached m"]] by fastforce
  moreover have "fl \<noteq> None \<Longrightarrow> the fl \<le> i" using i issue_floor by fastforce
  ultimately show ?case using i issue_cached [OF i] by simp
qed simp

lemma issue_all_sorted: "sorted_wrt (<) (issue_all n fls)"
proof (induction fls arbitrary: n)
  case (Cons fl fls)
  obtain i m where i: "issue n fl = (i, m)" by (metis prod.exhaust)
  with Cons issue_all_above [of _ "cached m" fls] issue_next [OF i] show ?case by fastforce
qed simp

end

interpretation nonces: nonce_source nm_issue "\<lambda>nm. case nm of None \<Rightarrow> 0 | Some n \<Rightarrow> n"
  by unfold_locales (auto simp: nm_issue_def Let_def split: option.splits if_splits)

text \<open>Reservations of successive senders, each with its floor, with nothing released in between.\<close>

fun reserve_all :: "int \<Rightarrow> int option list \<Rightarrow> int list" where
  "reserve_all n [] = []"
| "reserve_all n (fl # fls) =
     (case nm_issue n fl of (i, nm) \<Rightarrow> i # reserve_all (case nm of None \<Rightarrow> 0 | Some k \<Rightarrow> k) fls)"

lemma reserve_all_issue: "reserve_all n fls = nonces.issue_all n fls"
  by (induction fls arbitrary: n) (auto split: prod.splits)

section \<open>Fee arithmetic\<close>

lemma ceil_bps_ge: "x * bps \<le> ceil_bps x bps * 10000"
  using ceil_div_ge [of 10000 "x * bps"] by (simp add: ceil_bps_def BPS_def)

lemma ceil_bps_bump:
  assumes "0 \<le> x" shows "11 * x \<le> 10 * ceil_bps x (BPS + max b 1000)"
proof -
  have "x * 11000 \<le> x * (BPS + max b 1000)" using assms by (intro mult_left_mono) (simp_all add: BPS_def)
  also have "\<dots> \<le> ceil_bps x (BPS + max b 1000) * 10000" by (rule ceil_bps_ge)
  finally show ?thesis by linarith
qed

lemma ceil_bps_above: "0 \<le> x \<Longrightarrow> 0 \<le> b \<Longrightarrow> x \<le> ceil_bps x (BPS + b)"
proof -
  assume x: "0 \<le> x" and b: "0 \<le> b"
  have "x * 10000 \<le> x * (BPS + b)" using x b by (intro mult_left_mono) (simp_all add: BPS_def)
  also have "\<dots> \<le> ceil_bps x (BPS + b) * 10000" by (rule ceil_bps_ge)
  finally show ?thesis by linarith
qed

definition quote_wf :: "fee_quote \<Rightarrow> bool" where
  "quote_wf q = (0 < q_max_fee q \<and> 0 \<le> q_tip q \<and>
     (case q_legacy_gas_price q of None \<Rightarrow> True | Some gp \<Rightarrow> gp = q_max_fee q \<and> gp = q_tip q))"

lemma bump_legacy:
  assumes "bump_fees q s base = Some q'" and "q_legacy_gas_price q = Some gp"
  shows "q' = \<lparr>q_max_fee = ceil_bps gp (BPS + max (s_relayer_fee_bump_bps s) 1000),
      q_tip = ceil_bps gp (BPS + max (s_relayer_fee_bump_bps s) 1000),
      q_legacy_gas_price = Some (ceil_bps gp (BPS + max (s_relayer_fee_bump_bps s) 1000))\<rparr>"
    and "q_max_fee q' \<le> s_relayer_max_fee_per_gas_wei s"
  using assms by (auto simp: bump_fees_def Let_def split: if_splits)

lemma bump_dynamic:
  assumes "bump_fees q s base = Some q'" and "q_legacy_gas_price q = None"
  shows "q_legacy_gas_price q' = None"
    and "q_tip q' = ceil_bps (q_tip q) (BPS + max (s_relayer_fee_bump_bps s) 1000)"
    and "ceil_bps (q_max_fee q) (BPS + max (s_relayer_fee_bump_bps s) 1000) \<le> q_max_fee q'"
    and "q_tip q' \<le> q_max_fee q'" and "q_max_fee q' \<le> s_relayer_max_fee_per_gas_wei s"
proof -
  let ?F = "BPS + max (s_relayer_fee_bump_bps s) 1000"
  define mf where "mf = min (case base of None \<Rightarrow> ceil_bps (q_max_fee q) ?F
      | Some b \<Rightarrow> max (ceil_bps (q_max_fee q) ?F) (2 * b + ceil_bps (q_tip q) ?F)) (s_relayer_max_fee_per_gas_wei s)"
  have "\<not> (mf < ceil_bps (q_max_fee q) ?F \<or> ceil_bps (q_tip q) ?F > mf)"
    and q': "q' = \<lparr>q_max_fee = mf, q_tip = ceil_bps (q_tip q) ?F, q_legacy_gas_price = None\<rparr>"
    using assms by (simp_all add: bump_fees_def Let_def flip: mf_def split: if_splits)
  moreover have "mf \<le> s_relayer_max_fee_per_gas_wei s" unfolding mf_def by (rule min.cobounded2)
  ultimately show "q_legacy_gas_price q' = None" "q_tip q' = ceil_bps (q_tip q) ?F"
    "ceil_bps (q_max_fee q) ?F \<le> q_max_fee q'" "q_tip q' \<le> q_max_fee q'"
    "q_max_fee q' \<le> s_relayer_max_fee_per_gas_wei s"
    by simp_all
qed

lemma bump_fees_strict:
  assumes "bump_fees q s base = Some q'" and wf: "quote_wf q"
  shows "11 * q_max_fee q \<le> 10 * q_max_fee q'" "11 * q_tip q \<le> 10 * q_tip q'"
    "q_max_fee q' \<le> s_relayer_max_fee_per_gas_wei s" "quote_wf q'"
proof -
  let ?F = "BPS + max (s_relayer_fee_bump_bps s) 1000"
  have up: "11 * q_max_fee q \<le> 10 * ceil_bps (q_max_fee q) ?F" "11 * q_tip q \<le> 10 * ceil_bps (q_tip q) ?F"
    using wf by (intro ceil_bps_bump; simp add: quote_wf_def)+
  have pos: "0 < q_max_fee q" "0 \<le> q_tip q" using wf by (simp_all add: quote_wf_def)
  have "11 * q_max_fee q \<le> 10 * q_max_fee q' \<and> 11 * q_tip q \<le> 10 * q_tip q' \<and>
        q_max_fee q' \<le> s_relayer_max_fee_per_gas_wei s \<and> quote_wf q'"
  proof (cases "q_legacy_gas_price q")
    case None
    note b = bump_dynamic [OF assms(1) None]
    have "quote_wf q'" using b up pos unfolding quote_wf_def by simp
    with b up show ?thesis by linarith
  next
    case (Some gp)
    then have gp: "gp = q_max_fee q" "gp = q_tip q" using wf by (simp_all add: quote_wf_def)
    note b = bump_legacy [OF assms(1) Some]
    define c where "c = ceil_bps gp ?F"
    have "11 * gp \<le> 10 * c" using up(1) gp by (simp add: c_def)
    then have "0 < c" using pos gp by linarith
    then have "quote_wf q'" by (simp add: quote_wf_def b(1) c_def)
    with b up gp show ?thesis by simp
  qed
  then show "11 * q_max_fee q \<le> 10 * q_max_fee q'" "11 * q_tip q \<le> 10 * q_tip q'"
    "q_max_fee q' \<le> s_relayer_max_fee_per_gas_wei s" "quote_wf q'" by simp_all
qed

section \<open>Properties\<close>

text \<open>
  A fresh quote never exceeds the fee cap, covers the current base fee with its
  tip, and its tip is no larger than its fee.
\<close>

theorem quote_within_cap:
  assumes "quote_fees base tip gp s = Some q" and "\<forall>b. base = Some b \<longrightarrow> 0 \<le> b"
  shows "q_max_fee q \<le> s_relayer_max_fee_per_gas_wei s \<and> q_tip q \<le> q_max_fee q \<and>
    (\<forall>b. base = Some b \<longrightarrow> b + q_tip q \<le> q_max_fee q \<and> s_relayer_priority_fee_wei s \<le> q_tip q)"
  using assms by (auto simp: quote_fees_def Let_def split: option.splits if_splits)

theorem quote_within_cap_witness:
  "q_max_fee \<lparr>q_max_fee = 4001000000, q_tip = 1000000, q_legacy_gas_price = None\<rparr> \<le>
     s_relayer_max_fee_per_gas_wei default_settings"
proof -
  have "quote_fees (Some 2000000000) 0 None default_settings =
      Some \<lparr>q_max_fee = 4001000000, q_tip = 1000000, q_legacy_gas_price = None\<rparr>"
    by (simp add: quote_fees_def default_settings_def)
  from quote_within_cap [OF this] show ?thesis by simp
qed

text \<open>
  Every replacement raises fee and tip by at least 10 per cent, which is what
  nodes require, never passes the cap, and so a nonce can only be bumped finitely often: each bump
  adds at least one wei below the cap.
\<close>

theorem bump_chain_bounded:
  assumes "bump_chain s bases q = Some q'" and "quote_wf q" and "bases \<noteq> []"
  shows "11 * q_max_fee q \<le> 10 * q_max_fee q' \<and> 11 * q_tip q \<le> 10 * q_tip q' \<and>
    q_max_fee q' \<le> s_relayer_max_fee_per_gas_wei s \<and>
    q_max_fee q + int (length bases) \<le> s_relayer_max_fee_per_gas_wei s"
  using assms
proof (induction bases arbitrary: q)
  case Nil
  then show ?case by simp
next
  case (Cons base bases)
  obtain q1 where q1: "bump_fees q s base = Some q1" "bump_chain s bases q1 = Some q'"
    using Cons.prems(1) by (auto split: option.splits)
  note b = bump_fees_strict [OF q1(1) Cons.prems(2)]
  have pos: "0 < q_max_fee q" "0 \<le> q_tip q" using Cons.prems(2) by (simp_all add: quote_wf_def)
  then have step: "q_max_fee q + 1 \<le> q_max_fee q1" "q_tip q \<le> q_tip q1" using b(1,2) by linarith+
  show ?case
  proof (cases "bases = []")
    case True
    with q1 b step show ?thesis by simp
  next
    case False
    note ih = Cons.IH [OF q1(2) b(4) False]
    then have "11 * q_max_fee q \<le> 10 * q_max_fee q'" "11 * q_tip q \<le> 10 * q_tip q'"
      "q_max_fee q + int (length (base # bases)) \<le> s_relayer_max_fee_per_gas_wei s"
      using b(1,2) step pos by simp_all
    with ih show ?thesis by blast
  qed
qed

theorem bump_chain_bounded_witness:
  "\<exists>q'. bump_chain default_settings [None, Some 3] \<lparr>q_max_fee = 100, q_tip = 10, q_legacy_gas_price = None\<rparr> = Some q' \<and>
     110 \<le> q_max_fee q'"
proof -
  let ?q = "\<lparr>q_max_fee = 100, q_tip = 10, q_legacy_gas_price = None\<rparr>"
  obtain q' where eq: "bump_chain default_settings [None, Some 3] ?q = Some q'"
    by (simp add: bump_fees_def default_settings_def ceil_bps_def ceil_div_def BPS_def)
  have "quote_wf ?q" by (simp add: quote_wf_def)
  from bump_chain_bounded [OF eq this] eq show ?thesis by auto
qed

text \<open>
  The gas limit of a send covers the node's estimate, and never passes
  the configured cap.
\<close>

theorem gas_limit_covers_estimate:
  assumes "gas_limit est s = Some g" and "0 \<le> s_relayer_gas_buffer_bps s"
  shows "0 < est \<and> est \<le> g \<and> g \<le> s_relayer_gas_limit_cap s"
  using assms ceil_bps_above [of est "s_relayer_gas_buffer_bps s"]
  by (auto simp: gas_limit_def Let_def split: if_splits)

theorem gas_limit_covers_estimate_witness:
  "gas_limit 200001 default_settings = Some 240002 \<and> (200001::int) \<le> 240002"
proof -
  have g: "gas_limit 200001 default_settings = Some 240002"
    by (simp add: gas_limit_def default_settings_def ceil_bps_def ceil_div_def BPS_def)
  have "0 \<le> s_relayer_gas_buffer_bps default_settings" by (simp add: default_settings_def)
  from gas_limit_covers_estimate [OF g this] g show ?thesis by simp
qed

text \<open>
  Nonces reserved one after another from a cached manager strictly
  increase, so no two sends sign the same one, and each is at least the floor its sender gave.
\<close>

theorem reserved_nonces_increase:
  "sorted_wrt (<) (reserve_all n floors) \<and>
   list_all2 (\<lambda>fl i. n \<le> i \<and> (case fl of None \<Rightarrow> True | Some f \<Rightarrow> f \<le> i)) floors (reserve_all n floors)"
proof
  show "sorted_wrt (<) (reserve_all n floors)" unfolding reserve_all_issue by (rule nonces.issue_all_sorted)
  show "list_all2 (\<lambda>fl i. n \<le> i \<and> (case fl of None \<Rightarrow> True | Some f \<Rightarrow> f \<le> i)) floors (reserve_all n floors)"
    unfolding reserve_all_issue by (rule list_all2_mono [OF nonces.issue_all_floors]) (auto split: option.splits)
qed

end
