(* ===== verification/Preflight.thy ===== *)
theory Preflight
  imports Eip712 Fees
begin

text \<open>
  On-chain checks that mirror \<open>Exchange.matchOrders\<close> before gas is spent
  (\<open>backend/app/relayer/preflight.py\<close>): the amounts of a match, what in-flight jobs will still
  spend (\<open>Committed\<close>), and the two preflights. Each preflight asks the node in the order of the
  code and returns the list of reasons; an RPC exception propagates.
\<close>

section \<open>Amounts\<close>

definition PRICE_SCALE :: int where "PRICE_SCALE = 1000000"
definition EXCHANGE_TAKER_FEE_BPS :: int where "EXCHANGE_TAKER_FEE_BPS = 75"

definition match_amounts :: "int \<Rightarrow> int \<Rightarrow> int \<Rightarrow> int \<times> int" where
  "match_amounts fill maker_price fee_bps =
     (let volume = fill * maker_price div PRICE_SCALE in (volume, volume * fee_bps div BPS))"

definition order_usdc_need :: "int \<Rightarrow> int \<Rightarrow> int \<Rightarrow> int" where
  "order_usdc_need rem price fee_bps =
     (let volume = ceil_div (rem * price) PRICE_SCALE in volume + ceil_div (volume * fee_bps) BPS)"

section \<open>Committed\<close>

record committed =
  k_usdc :: "string \<Rightarrow> int option"
  k_ctf :: "string \<times> string \<times> int \<Rightarrow> int option"
  k_filled :: "string \<Rightarrow> int option"

definition no_commitments :: committed where
  "no_commitments = \<lparr> k_usdc = Map.empty, k_ctf = Map.empty, k_filled = Map.empty \<rparr>"

text \<open>\<open>d.get(k, 0)\<close> and \<open>d[k] = d.get(k, 0) + v\<close>.\<close>

definition get0 :: "('k \<Rightarrow> int option) \<Rightarrow> 'k \<Rightarrow> int" where
  "get0 d k = (case d k of None \<Rightarrow> 0 | Some v \<Rightarrow> v)"

definition bump0 :: "('k \<Rightarrow> int option) \<Rightarrow> 'k \<Rightarrow> int \<Rightarrow> ('k \<Rightarrow> int option)" where
  "bump0 d k v = d(k \<mapsto> get0 d k + v)"

definition ctf_key :: "order_fields \<Rightarrow> string \<times> string \<times> int" where
  "ctf_key ord = (py_lower (f_maker ord), ''0x'' @ to_hex (f_condition_id ord), f_outcome ord)"

definition add_match :: "committed \<Rightarrow> order_fields \<Rightarrow> order_fields \<Rightarrow> string \<Rightarrow> string \<Rightarrow> int \<Rightarrow> committed" where
  "add_match c taker maker taker_hash maker_hash fill =
     (let (volume, fee) = match_amounts fill (f_price maker) EXCHANGE_TAKER_FEE_BPS;
          (buyer, seller) = (if f_is_buy taker then (taker, maker) else (maker, taker));
          spend = (if f_is_buy taker then volume + fee else volume)
      in \<lparr> k_usdc = bump0 (k_usdc c) (py_lower (f_maker buyer)) spend,
           k_ctf = bump0 (k_ctf c) (ctf_key seller) fill,
           k_filled = bump0 (bump0 (k_filled c) (py_lower taker_hash) fill) (py_lower maker_hash) fill \<rparr>)"

definition usdc_of :: "committed \<Rightarrow> string \<Rightarrow> int" where
  "usdc_of c addr = get0 (k_usdc c) (py_lower addr)"

definition ctf_of :: "committed \<Rightarrow> order_fields \<Rightarrow> int" where
  "ctf_of c ord = get0 (k_ctf c) (ctf_key ord)"

definition filled_of :: "committed \<Rightarrow> string \<Rightarrow> int" where
  "filled_of c h = get0 (k_filled c) (''0x'' @ to_hex h)"

definition short_of :: "int \<Rightarrow> int \<Rightarrow> int \<Rightarrow> string \<Rightarrow> string \<Rightarrow> string list" where
  "short_of avail need busy hard soft =
     (if avail < need then [hard]
      else if busy \<noteq> 0 \<and> avail < need + busy then [''busy: '' @ soft]
      else [])"

section \<open>The preflights\<close>

definition reason_if :: "bool \<Rightarrow> string \<Rightarrow> string list" where
  "reason_if b r = (if b then [r] else [])"

definition preflight_order ::
  "chain \<Rightarrow> order_fields \<Rightarrow> string \<Rightarrow> int option \<Rightarrow> int \<Rightarrow> int \<Rightarrow> string list rpc" where
  "preflight_order ch ord exchange rem_opt fee_bps reserved =
     (let rem = (case rem_opt of None \<Rightarrow> f_amount ord | Some r \<Rightarrow> r) in
      rpc_bind (rpc_call (c_ex_nonce ch (f_maker ord))) (\<lambda>n.
      let r0 = reason_if (n \<noteq> f_nonce ord) ''nonce stale'' in
      if f_is_buy ord then
        (let need = order_usdc_need rem (f_price ord) fee_bps + max 0 reserved in
         rpc_bind (rpc_call (c_usdc_balance ch (f_maker ord))) (\<lambda>bal.
         rpc_bind (rpc_call (c_usdc_allowance ch (f_maker ord) exchange)) (\<lambda>allow.
         rpc_return (r0 @ reason_if (bal < need) (''usdc balance < '' @ py_str need)
           @ reason_if (allow < need) (''usdc allowance < '' @ py_str need)))))
      else
        (let need = rem + max 0 reserved in
         rpc_bind (rpc_call (c_ctf_balance ch (f_maker ord) (f_condition_id ord) (f_outcome ord))) (\<lambda>bal.
         rpc_bind (rpc_call (c_ctf_approved ch (f_maker ord) exchange)) (\<lambda>ok.
         rpc_return (r0 @ reason_if (bal < need) (''ctf balance < '' @ py_str need)
           @ reason_if (\<not> ok) ''ctf not approved''))))))"

definition order_state ::
  "chain \<Rightarrow> string \<Rightarrow> order_fields \<Rightarrow> string \<Rightarrow> int \<Rightarrow> int \<Rightarrow> settings \<Rightarrow> committed option \<Rightarrow> string list rpc" where
  "order_state ch role ord h fill block_ts s com =
     rpc_bind (rpc_call (c_ex_nonce ch (f_maker ord))) (\<lambda>n.
     rpc_bind (rpc_call (c_ex_cancelled ch h)) (\<lambda>can.
     rpc_bind (rpc_call (c_ex_filled ch h)) (\<lambda>onchain.
     rpc_return (
       reason_if (f_expiry ord \<le> block_ts + s_relayer_min_expiry_seconds s) (role @ '' expired'')
       @ reason_if (n \<noteq> f_nonce ord) (role @ '' nonce stale'')
       @ reason_if can (role @ '' cancelled onchain'')
       @ (if onchain + fill > f_amount ord then [role @ '' overfill'']
          else case com of
            None \<Rightarrow> []
          | Some c \<Rightarrow> reason_if (onchain + filled_of c h + fill > f_amount ord)
              (''busy: '' @ role @ '' fill in flight''))))))"

text \<open>
  The money side of \<open>preflight_match\<close>: \<open>payer\<close> owes \<open>need\<close> USDC and \<open>giver\<close> owes \<open>fill\<close>
  outcome tokens; the roles name them in the reasons.
\<close>

definition funds_check ::
  "chain \<Rightarrow> string \<Rightarrow> order_fields \<Rightarrow> int \<Rightarrow> string \<Rightarrow> order_fields \<Rightarrow> int \<Rightarrow> string \<Rightarrow> committed \<Rightarrow> string list rpc" where
  "funds_check ch payer_role payer need giver_role giver fill exchange c =
     (let busy = usdc_of c (f_maker payer) in
      rpc_bind (rpc_call (c_usdc_balance ch (f_maker payer))) (\<lambda>bal.
      rpc_bind (rpc_call (c_usdc_allowance ch (f_maker payer) exchange)) (\<lambda>allow.
      rpc_bind (rpc_call (c_ctf_balance ch (f_maker giver) (f_condition_id giver) (f_outcome giver))) (\<lambda>ctf.
      rpc_bind (rpc_call (c_ctf_approved ch (f_maker giver) exchange)) (\<lambda>ok.
      rpc_return (
        short_of bal need busy (payer_role @ '' usdc balance < '' @ py_str need) (payer_role @ '' usdc in flight'')
        @ short_of allow need busy (payer_role @ '' usdc allowance < '' @ py_str need)
            (payer_role @ '' usdc allowance in flight'')
        @ short_of ctf fill (ctf_of c giver) (giver_role @ '' ctf balance < '' @ py_str fill)
            (giver_role @ '' ctf in flight'')
        @ reason_if (\<not> ok) (giver_role @ '' ctf not approved'')))))))"

definition preflight_match ::
  "chain \<Rightarrow> order_fields \<Rightarrow> order_fields \<Rightarrow> string \<Rightarrow> string \<Rightarrow> int \<Rightarrow> string \<Rightarrow> int \<Rightarrow> settings \<Rightarrow> committed option \<Rightarrow> string list rpc" where
  "preflight_match ch taker maker taker_hash maker_hash fill exchange block_ts s com =
     (let c = (case com of None \<Rightarrow> no_commitments | Some c \<Rightarrow> c) in
      rpc_bind (rpc_call (c_ctf_resolved ch (f_condition_id taker))) (\<lambda>resolved.
      rpc_bind (order_state ch ''taker'' taker taker_hash fill block_ts s com) (\<lambda>r1.
      rpc_bind (order_state ch ''maker'' maker maker_hash fill block_ts s com) (\<lambda>r2.
      let (volume, fee) = match_amounts fill (f_price maker) EXCHANGE_TAKER_FEE_BPS in
      rpc_bind (if f_is_buy taker
                then funds_check ch ''taker'' taker (volume + fee) ''maker'' maker fill exchange c
                else funds_check ch ''maker'' maker volume ''taker'' taker fill exchange c) (\<lambda>r3.
      rpc_return (reason_if resolved ''market resolved'' @ r1 @ r2 @ r3))))))"

section \<open>The spending bound\<close>

lemma fee_mono: "0 \<le> b \<Longrightarrow> x \<le> y \<Longrightarrow> x * b div BPS \<le> y * (b::int) div BPS"
  by (intro zdiv_mono1 mult_right_mono) (simp_all add: BPS_def)

lemma match_amounts_add_le:
  assumes "0 \<le> bps"
  shows "(\<Sum>(q, p)\<leftarrow>fills. fst (match_amounts q p bps) + snd (match_amounts q p bps)) \<le>
    (\<Sum>(q, p)\<leftarrow>fills. q * p) div PRICE_SCALE + ((\<Sum>(q, p)\<leftarrow>fills. q * p) div PRICE_SCALE * bps) div BPS"
proof (induction fills)
  case Nil
  then show ?case by (simp add: match_amounts_def)
next
  case (Cons a fills)
  obtain q p where a: "a = (q, p)" by (cases a)
  let ?T = "\<Sum>(q, p)\<leftarrow>fills. q * p"
  have d: "q * p div PRICE_SCALE + ?T div PRICE_SCALE \<le> (q * p + ?T) div PRICE_SCALE"
    by (rule div_add_le) (simp add: PRICE_SCALE_def)
  have "(q * p div PRICE_SCALE) * bps div BPS + (?T div PRICE_SCALE) * bps div BPS \<le>
      ((q * p div PRICE_SCALE) * bps + (?T div PRICE_SCALE) * bps) div BPS"
    by (rule div_add_le) (simp add: BPS_def)
  also have "\<dots> \<le> ((q * p + ?T) div PRICE_SCALE) * bps div BPS"
    using fee_mono [OF assms d] by (simp add: distrib_right)
  finally show ?case using Cons d a by (simp add: match_amounts_def Let_def)
qed

lemma sum_prices_le:
  assumes "\<forall>(q, p) \<in> set fills. 0 \<le> q \<and> p \<le> limit"
  shows "(\<Sum>(q, p)\<leftarrow>fills. q * p) \<le> (\<Sum>(q, p)\<leftarrow>fills. q) * (limit::int)"
  using assms
proof (induction fills)
  case (Cons a fills)
  obtain q p where a: "a = (q, p)" by (cases a)
  with Cons.prems have "q * p \<le> q * limit" by (intro mult_left_mono) auto
  with Cons a show ?case by (simp add: distrib_right)
qed simp

section \<open>Commitments\<close>

lemma get0_bump0: "get0 (bump0 d k v) k' = get0 d k' + (if k = k' then v else 0)"
  by (simp add: get0_def bump0_def)

lemma usdc_of_add_match:
  "usdc_of (add_match c t m th mh fill) addr = usdc_of c addr +
     (if py_lower (f_maker (if f_is_buy t then t else m)) = py_lower addr
      then (if f_is_buy t then fst (match_amounts fill (f_price m) EXCHANGE_TAKER_FEE_BPS) +
              snd (match_amounts fill (f_price m) EXCHANGE_TAKER_FEE_BPS)
            else fst (match_amounts fill (f_price m) EXCHANGE_TAKER_FEE_BPS)) else 0)"
  by (simp add: usdc_of_def add_match_def get0_bump0 case_prod_unfold Let_def)

lemma ctf_of_add_match:
  "ctf_of (add_match c t m th mh fill) ord = ctf_of c ord +
     (if ctf_key (if f_is_buy t then m else t) = ctf_key ord then fill else 0)"
  by (simp add: ctf_of_def add_match_def get0_bump0 case_prod_unfold Let_def)

lemma match_spend_nonneg:
  "0 \<le> q \<Longrightarrow> 0 \<le> p \<Longrightarrow> 0 \<le> fst (match_amounts q p EXCHANGE_TAKER_FEE_BPS) \<and>
     0 \<le> snd (match_amounts q p EXCHANGE_TAKER_FEE_BPS)"
  by (simp add: match_amounts_def PRICE_SCALE_def BPS_def EXCHANGE_TAKER_FEE_BPS_def pos_imp_zdiv_nonneg_iff Let_def)

section \<open>A node that answers consistently\<close>

text \<open>
  While one preflight runs the node's answers are those of one state: then the preflight is a
  function of that state.
\<close>

record chain_view =
  v_ex_nonce :: "string \<Rightarrow> int"
  v_cancelled :: "string \<Rightarrow> bool"
  v_filled :: "string \<Rightarrow> int"
  v_resolved :: "string \<Rightarrow> bool"
  v_usdc_balance :: "string \<Rightarrow> int"
  v_usdc_allowance :: "string \<Rightarrow> string \<Rightarrow> int"
  v_ctf_balance :: "string \<Rightarrow> string \<Rightarrow> int \<Rightarrow> int"
  v_ctf_approved :: "string \<Rightarrow> string \<Rightarrow> bool"

definition answers_as :: "chain \<Rightarrow> chain_view \<Rightarrow> bool" where
  "answers_as ch v =
     ((\<forall>a k. c_ex_nonce ch a k = Inr (v_ex_nonce v a)) \<and> (\<forall>h k. c_ex_cancelled ch h k = Inr (v_cancelled v h)) \<and>
      (\<forall>h k. c_ex_filled ch h k = Inr (v_filled v h)) \<and> (\<forall>c k. c_ctf_resolved ch c k = Inr (v_resolved v c)) \<and>
      (\<forall>a k. c_usdc_balance ch a k = Inr (v_usdc_balance v a)) \<and>
      (\<forall>a e k. c_usdc_allowance ch a e k = Inr (v_usdc_allowance v a e)) \<and>
      (\<forall>a c i k. c_ctf_balance ch a c i k = Inr (v_ctf_balance v a c i)) \<and>
      (\<forall>a e k. c_ctf_approved ch a e k = Inr (v_ctf_approved v a e)))"

definition order_live :: "chain_view \<Rightarrow> order_fields \<Rightarrow> string \<Rightarrow> int \<Rightarrow> int \<Rightarrow> settings \<Rightarrow> committed option \<Rightarrow> bool" where
  "order_live v ord h fill block_ts s com =
     (f_expiry ord > block_ts + s_relayer_min_expiry_seconds s \<and> v_ex_nonce v (f_maker ord) = f_nonce ord \<and>
      \<not> v_cancelled v h \<and> v_filled v h + fill \<le> f_amount ord \<and>
      v_filled v h + (case com of None \<Rightarrow> 0 | Some c \<Rightarrow> filled_of c h) + fill \<le> f_amount ord)"

definition funds_cover :: "chain_view \<Rightarrow> order_fields \<Rightarrow> int \<Rightarrow> order_fields \<Rightarrow> int \<Rightarrow> string \<Rightarrow> committed \<Rightarrow> bool" where
  "funds_cover v payer need giver fill exchange c =
     (need \<le> v_usdc_balance v (f_maker payer) \<and> need + usdc_of c (f_maker payer) \<le> v_usdc_balance v (f_maker payer) \<and>
      need \<le> v_usdc_allowance v (f_maker payer) exchange \<and>
      need + usdc_of c (f_maker payer) \<le> v_usdc_allowance v (f_maker payer) exchange \<and>
      fill \<le> v_ctf_balance v (f_maker giver) (f_condition_id giver) (f_outcome giver) \<and>
      fill + ctf_of c giver \<le> v_ctf_balance v (f_maker giver) (f_condition_id giver) (f_outcome giver) \<and>
      v_ctf_approved v (f_maker giver) exchange)"

lemma short_of_Nil: "short_of h n b x y = [] \<longleftrightarrow> n \<le> h \<and> (b = 0 \<or> n + b \<le> h)"
  by (auto simp: short_of_def)

lemma reason_if_Nil [simp]: "reason_if b r = [] \<longleftrightarrow> \<not> b"
  by (simp add: reason_if_def)

lemma order_state_pass:
  assumes "answers_as ch v"
  shows "\<exists>r k'. order_state ch role ord h fill ts s com k = (Inr r, k') \<and>
    (r = [] \<longleftrightarrow> order_live v ord h fill ts s com)"
  using assms
  by (auto simp: order_state_def answers_as_def rpc_bind_def rpc_call_def rpc_return_def order_live_def
      split: option.splits)

lemma funds_check_pass:
  assumes "answers_as ch v"
  shows "\<exists>r k'. funds_check ch pr p need gr g fill ex c k = (Inr r, k') \<and>
    (r = [] \<longleftrightarrow> funds_cover v p need g fill ex c)"
  using assms
  by (auto simp: funds_check_def answers_as_def rpc_bind_def rpc_call_def rpc_return_def funds_cover_def
      short_of_Nil Let_def)

section \<open>Properties\<close>

text \<open>
  What a buy order is checked for at POST bounds what any sequence of
  fills at or below its limit can spend on chain, taker fee and all rounding included.
\<close>

theorem usdc_need_bounds_any_fills:
  assumes fills: "\<forall>(q, p) \<in> set fills. 0 \<le> q \<and> p \<le> limit" and "(\<Sum>(q, p)\<leftarrow>fills. q) \<le> rem"
    and "0 \<le> limit" and "0 \<le> bps"
  shows "(\<Sum>(q, p)\<leftarrow>fills. fst (match_amounts q p bps) + snd (match_amounts q p bps)) \<le>
    order_usdc_need rem limit bps"
proof -
  let ?T = "\<Sum>(q, p)\<leftarrow>fills. q * p"
  have "?T \<le> (\<Sum>(q, p)\<leftarrow>fills. q) * limit" by (rule sum_prices_le [OF fills])
  also have "\<dots> \<le> rem * limit" using assms(2,3) by (rule mult_right_mono)
  finally have "?T div PRICE_SCALE \<le> rem * limit div PRICE_SCALE"
    by (rule zdiv_mono1) (simp add: PRICE_SCALE_def)
  also have "\<dots> \<le> ceil_div (rem * limit) PRICE_SCALE"
    by (rule div_le_ceil_div) (simp add: PRICE_SCALE_def)
  finally have v: "?T div PRICE_SCALE \<le> ceil_div (rem * limit) PRICE_SCALE" .
  have "?T div PRICE_SCALE * bps div BPS \<le> ceil_div (rem * limit) PRICE_SCALE * bps div BPS"
    using assms(4) v by (rule fee_mono)
  also have "\<dots> \<le> ceil_div (ceil_div (rem * limit) PRICE_SCALE * bps) BPS"
    by (rule div_le_ceil_div) (simp add: BPS_def)
  finally show ?thesis using match_amounts_add_le [OF assms(4), of fills] v
    by (simp add: order_usdc_need_def Let_def)
qed

theorem usdc_need_bounds_any_fills_witness:
  "(\<Sum>(q, p)\<leftarrow>[(3333333, 600000), (6666667, 599999::int)].
      fst (match_amounts q p 75) + snd (match_amounts q p 75)) \<le> order_usdc_need 10000000 600000 75"
  by (rule usdc_need_bounds_any_fills) simp_all

text \<open>
  C23 (preflight_passes_iff_exchange_accepts). Against a consistent node, a job passes preflight
  exactly when the market is unresolved, both orders are live with room for the fill, and payer and
  giver can cover it on top of everything in-flight jobs will still take from them.
\<close>

theorem preflight_passes_iff_exchange_accepts:
  assumes "answers_as ch v"
  shows "fst (preflight_match ch taker maker th mh fill ex ts s com k) = Inr [] \<longleftrightarrow>
    \<not> v_resolved v (f_condition_id taker) \<and> order_live v taker th fill ts s com \<and> order_live v maker mh fill ts s com \<and>
    (let (volume, fee) = match_amounts fill (f_price maker) EXCHANGE_TAKER_FEE_BPS;
         c = (case com of None \<Rightarrow> no_commitments | Some c \<Rightarrow> c)
     in if f_is_buy taker then funds_cover v taker (volume + fee) maker fill ex c
        else funds_cover v maker volume taker fill ex c)"
proof -
  let ?c = "case com of None \<Rightarrow> no_commitments | Some c \<Rightarrow> c"
  obtain volume fee where vf: "match_amounts fill (f_price maker) EXCHANGE_TAKER_FEE_BPS = (volume, fee)"
    by (metis prod.exhaust)
  obtain r1 k1 where r1: "order_state ch ''taker'' taker th fill ts s com (Suc k) = (Inr r1, k1)"
    "r1 = [] \<longleftrightarrow> order_live v taker th fill ts s com" using order_state_pass [OF assms] by blast
  obtain r2 k2 where r2: "order_state ch ''maker'' maker mh fill ts s com k1 = (Inr r2, k2)"
    "r2 = [] \<longleftrightarrow> order_live v maker mh fill ts s com" using order_state_pass [OF assms] by blast
  have "\<exists>r k'. (if f_is_buy taker then funds_check ch ''taker'' taker (volume + fee) ''maker'' maker fill ex ?c
        else funds_check ch ''maker'' maker volume ''taker'' taker fill ex ?c) k2 = (Inr r, k') \<and>
      (r = [] \<longleftrightarrow> (if f_is_buy taker then funds_cover v taker (volume + fee) maker fill ex ?c
        else funds_cover v maker volume taker fill ex ?c))"
    by (cases "f_is_buy taker") (simp_all only: if_True if_False funds_check_pass [OF assms])
  then obtain r3 k3 where r3: "(if f_is_buy taker then funds_check ch ''taker'' taker (volume + fee) ''maker'' maker fill ex ?c
      else funds_check ch ''maker'' maker volume ''taker'' taker fill ex ?c) k2 = (Inr r3, k3)"
    "r3 = [] \<longleftrightarrow> (if f_is_buy taker then funds_cover v taker (volume + fee) maker fill ex ?c
        else funds_cover v maker volume taker fill ex ?c)" by blast
  have res: "c_ctf_resolved ch (f_condition_id taker) k = Inr (v_resolved v (f_condition_id taker))"
    using assms by (simp add: answers_as_def)
  have "fst (preflight_match ch taker maker th mh fill ex ts s com k) =
      Inr (reason_if (v_resolved v (f_condition_id taker)) ''market resolved'' @ r1 @ r2 @ r3)"
    unfolding preflight_match_def Let_def vf rpc_bind_def rpc_call_def rpc_return_def
    by (simp add: res r1(1) r2(1) r3(1) del: split_paired_Ex if_split)
  with r1(2) r2(2) r3(2) vf show ?thesis by simp
qed

definition ex_view :: chain_view where
  "ex_view = \<lparr> v_ex_nonce = (\<lambda>_. 0), v_cancelled = (\<lambda>_. False), v_filled = (\<lambda>_. 0), v_resolved = (\<lambda>_. False),
     v_usdc_balance = (\<lambda>_. 1000), v_usdc_allowance = (\<lambda>_ _. 1000), v_ctf_balance = (\<lambda>_ _ _. 100),
     v_ctf_approved = (\<lambda>_ _. True) \<rparr>"

definition chain_of :: "chain_view \<Rightarrow> chain" where
  "chain_of v = \<lparr> c_pending_nonce = (\<lambda>_ _. Inr 7), c_latest_nonce = (\<lambda>_ _. Inr 7),
     c_latest_block = (\<lambda>_. Inr \<lparr>bl_number = 100, bl_timestamp = 50, bl_base_fee = Some 1000\<rparr>),
     c_max_priority_fee = (\<lambda>_. Inr 1), c_gas_price = (\<lambda>_. Inr 2000), c_eth_balance = (\<lambda>_ _. Inr 1000000000000000),
     c_estimate_gas = (\<lambda>_ _. Inr 200000), c_send_raw = (\<lambda>_ _. Inr ()), c_get_receipt = (\<lambda>_ _. Inr None),
     c_get_logs = (\<lambda>_ _ _ _. Inr []), c_usdc_balance = (\<lambda>a _. Inr (v_usdc_balance v a)),
     c_usdc_allowance = (\<lambda>a e _. Inr (v_usdc_allowance v a e)),
     c_ctf_balance = (\<lambda>a c i _. Inr (v_ctf_balance v a c i)),
     c_ctf_approved = (\<lambda>a e _. Inr (v_ctf_approved v a e)), c_ctf_resolved = (\<lambda>c _. Inr (v_resolved v c)),
     c_ex_nonce = (\<lambda>a _. Inr (v_ex_nonce v a)), c_ex_filled = (\<lambda>h _. Inr (v_filled v h)),
     c_ex_cancelled = (\<lambda>h _. Inr (v_cancelled v h)) \<rparr>"

lemma chain_of_answers [simp]: "answers_as (chain_of v) v"
  by (simp add: answers_as_def chain_of_def)

definition ex_taker :: order_fields where
  "ex_taker = \<lparr> f_maker = ''0xT'', f_is_buy = True, f_condition_id = [], f_outcome = 0, f_price = 600000,
     f_amount = 100, f_salt = 0, f_nonce = 0, f_expiry = 1000 \<rparr>"

definition ex_maker :: order_fields where
  "ex_maker = \<lparr> f_maker = ''0xM'', f_is_buy = False, f_condition_id = [], f_outcome = 0, f_price = 500000,
     f_amount = 100, f_salt = 0, f_nonce = 0, f_expiry = 1000 \<rparr>"

theorem preflight_passes_iff_exchange_accepts_witness:
  "fst (preflight_match (chain_of ex_view) ex_taker ex_maker ''t'' ''m'' 100 ''0xEX'' 50 default_settings None 0) = Inr []"
  using preflight_passes_iff_exchange_accepts [OF chain_of_answers [of ex_view], of ex_taker ex_maker]
  by (simp add: ex_view_def ex_taker_def ex_maker_def order_live_def funds_cover_def default_settings_def
      match_amounts_def no_commitments_def usdc_of_def ctf_of_def get0_def PRICE_SCALE_def BPS_def
      EXCHANGE_TAKER_FEE_BPS_def Let_def)

text \<open>
  If the jobs in flight are covered by every address's USDC balance
  and one more passes preflight against them, all of them together are still covered: jobs sharing a
  funding address cannot each pass and then revert.
\<close>

theorem admitted_jobs_never_overdraw:
  assumes "answers_as ch v" and "\<And>a. py_lower a = a \<Longrightarrow> usdc_of c a \<le> v_usdc_balance v a"
    and "\<And>a. v_usdc_balance v (py_lower a) = v_usdc_balance v a"
    and "fst (preflight_match ch taker maker th mh fill ex ts s (Some c) k) = Inr []"
  shows "usdc_of (add_match c taker maker th' mh' fill) addr \<le> v_usdc_balance v addr"
proof -
  let ?payer = "if f_is_buy taker then taker else maker"
  obtain volume fee where vf: "match_amounts fill (f_price maker) EXCHANGE_TAKER_FEE_BPS = (volume, fee)"
    by (metis prod.exhaust)
  let ?spend = "if f_is_buy taker then volume + fee else volume"
  have cover: "?spend + usdc_of c (f_maker ?payer) \<le> v_usdc_balance v (f_maker ?payer)"
    using assms(4) preflight_passes_iff_exchange_accepts [OF assms(1), of taker maker th mh fill ex ts s "Some c" k] vf
    by (auto simp: funds_cover_def split: if_splits)
  have low: "usdc_of c (py_lower a) = usdc_of c a" for a by (simp add: usdc_of_def)
  show ?thesis
  proof (cases "py_lower (f_maker ?payer) = py_lower addr")
    case True
    then have "usdc_of c addr = usdc_of c (f_maker ?payer)" "v_usdc_balance v addr = v_usdc_balance v (f_maker ?payer)"
      using low assms(3) by metis+
    with cover vf True show ?thesis by (simp add: usdc_of_add_match split: if_splits)
  next
    case False
    moreover have "usdc_of c addr \<le> v_usdc_balance v addr"
      using assms(2) [of "py_lower addr"] low [of addr] assms(3) [of addr] by simp
    ultimately show ?thesis by (simp add: usdc_of_add_match)
  qed
qed

theorem admitted_jobs_never_overdraw_witness:
  "usdc_of (add_match no_commitments ex_taker ex_maker ''0xt'' ''0xm'' 100) ''0xt'' \<le> 1000"
proof -
  have "fst (preflight_match (chain_of ex_view) ex_taker ex_maker ''t'' ''m'' 100 ''0xEX'' 50 default_settings (Some no_commitments) 0) = Inr []"
    by (simp add: preflight_match_def order_state_def funds_check_def rpc_bind_def rpc_call_def rpc_return_def
        chain_of_def ex_view_def ex_taker_def ex_maker_def default_settings_def reason_if_def short_of_def
        match_amounts_def no_commitments_def usdc_of_def ctf_of_def filled_of_def get0_def PRICE_SCALE_def BPS_def
        EXCHANGE_TAKER_FEE_BPS_def Let_def)
  from admitted_jobs_never_overdraw [OF chain_of_answers _ _ this, of "''0xt''" "''0xm''" "''0xt''"]
  show ?thesis by (simp add: ex_view_def no_commitments_def usdc_of_def get0_def)
qed

end
