(* ===== verification/Matcher.thy ===== *)
theory Matcher
  imports Queue
begin

text \<open>
  The crossing engine of the leftover CLOB (\<open>backend/app/orderbook/matcher.py\<close>). Other
  transactions may commit between any two statements of a match: \<open>sched k\<close> is the list of
  statements they run on the orders table before the matcher's \<open>k\<close>-th one. The matcher reads its
  own instances, which \<open>refresh\<close> synchronises with the row only where the code does.
\<close>

section \<open>matcher.py\<close>

definition remaining :: "order \<Rightarrow> int" where
  "remaining ord = o_amount ord - o_filled ord"

definition crosses :: "order \<Rightarrow> order \<Rightarrow> int \<Rightarrow> bool" where
  "crosses taker maker min_expiry =
     (if o_condition_id taker \<noteq> o_condition_id maker then False
      else if o_outcome taker \<noteq> o_outcome maker then False
      else if o_is_buy taker = o_is_buy maker then False
      else if o_cancelled taker \<or> o_cancelled maker then False
      else if o_maker taker = o_maker maker then False
      else if o_expiry taker \<le> min_expiry \<or> o_expiry maker \<le> min_expiry then False
      else if o_is_buy taker then o_price taker \<ge> o_price maker
      else o_price maker \<ge> o_price taker)"

record fill =
  fl_maker_hash :: string
  fl_taker_hash :: string
  fl_amount :: int
  fl_volume :: int
  fl_fee :: int
  fl_tx_hash :: string
  fl_status :: string
  fl_relay_job_id :: "int option"

text \<open>The session of one match: the tables, the statements run so far, and the incoming instance.\<close>

record match_state =
  ms_db :: dbase
  ms_k :: nat
  ms_inc :: order

type_synonym sched = "nat \<Rightarrow> order_stmt list"

definition quiet :: sched where
  "quiet = (\<lambda>_. [])"

definition run_stmt :: "sched \<Rightarrow> order_stmt \<Rightarrow> match_state \<Rightarrow> nat \<times> match_state" where
  "run_stmt sched stmt ms =
     (let rows = exec_stmts (sched (ms_k ms)) (d_orders (ms_db ms))
      in (stmt_rowcount stmt rows,
          ms\<lparr>ms_db := (ms_db ms)\<lparr>d_orders := exec_stmt stmt rows\<rparr>, ms_k := Suc (ms_k ms)\<rparr>))"

text \<open>\<open>db.refresh(o, ["filled", "cancelled"])\<close>. Rows are never deleted.\<close>

definition refresh :: "match_state \<Rightarrow> order \<Rightarrow> order" where
  "refresh ms ord = (case get_row o_id (o_id ord) (d_orders (ms_db ms)) of
     None \<Rightarrow> ord | Some r \<Rightarrow> ord\<lparr>o_filled := o_filled r, o_cancelled := o_cancelled r\<rparr>)"

definition take_fill :: "sched \<Rightarrow> match_state \<Rightarrow> order \<Rightarrow> int \<Rightarrow> bool \<times> order \<times> match_state" where
  "take_fill sched ms ord qty =
     (case run_stmt sched (Stmt_Take (o_id ord) qty) ms of (n, ms1) \<Rightarrow> (n = 1, refresh ms1 ord, ms1))"

definition give_back :: "sched \<Rightarrow> match_state \<Rightarrow> order \<Rightarrow> int \<Rightarrow> order \<times> match_state" where
  "give_back sched ms ord qty =
     (case run_stmt sched (Stmt_Give_Back (o_id ord) qty) ms of (n, ms1) \<Rightarrow> (refresh ms1 ord, ms1))"

text \<open>
  The inner loop \<open>for _ in range(2)\<close>: the quantity taken from this maker (0 when none) and whether
  the whole match returns because the incoming order was cancelled meanwhile.
\<close>

fun match_tries :: "nat \<Rightarrow> sched \<Rightarrow> match_state \<Rightarrow> order \<Rightarrow> int \<times> bool \<times> order \<times> match_state" where
  "match_tries 0 sched ms maker = (0, False, maker, ms)"
| "match_tries (Suc n) sched ms maker =
     (let qty = min (remaining (ms_inc ms)) (remaining maker) in
      if qty \<le> 0 \<or> o_cancelled maker then (0, False, maker, ms)
      else case take_fill sched ms maker qty of (ok, maker1, ms1) \<Rightarrow>
        if \<not> ok then match_tries n sched ms1 maker1
        else case take_fill sched ms1 (ms_inc ms1) qty of (ok2, inc1, ms2) \<Rightarrow>
          let ms2' = ms2\<lparr>ms_inc := inc1\<rparr> in
          if ok2 then (qty, False, maker1, ms2')
          else case give_back sched ms2' maker1 qty of (maker2, ms3) \<Rightarrow>
            if o_cancelled (ms_inc ms3) then (0, True, maker2, ms3)
            else match_tries n sched ms3 maker2)"

definition record_fill :: "settings \<Rightarrow> bool \<Rightarrow> int \<Rightarrow> int \<Rightarrow> order \<Rightarrow> match_state \<Rightarrow> fill \<times> match_state" where
  "record_fill s relay now qty maker ms =
     (let volume = qty * o_price maker div 1000000;
          fee = volume * s_fee_bps_taker s div 10000;
          (job, db1) = (if relay then (case enqueue_match (ms_db ms) (ms_inc ms) maker qty now of
                           (j, d) \<Rightarrow> (Some (j_id j), d)) else (None, ms_db ms));
          status = (if job \<noteq> None then ''pending'' else ''offchain'');
          trade = \<lparr> t_id = d_next_trade db1, t_condition_id = o_condition_id (ms_inc ms),
             t_taker = o_maker (ms_inc ms), t_maker = o_maker maker, t_fill_amount = qty,
             t_volume = volume, t_fee = fee, t_tx_hash = [], t_status = status,
             t_relay_job_id = job, t_block_number = None \<rparr>;
          db2 = db1\<lparr>d_trades := d_trades db1 @ [trade], d_next_trade := d_next_trade db1 + 1\<rparr>
      in (\<lparr> fl_maker_hash = o_order_hash maker, fl_taker_hash = o_order_hash (ms_inc ms),
            fl_amount = qty, fl_volume = volume, fl_fee = fee, fl_tx_hash = [], fl_status = status,
            fl_relay_job_id = job \<rparr>, ms\<lparr>ms_db := db2\<rparr>))"

fun match_loop :: "settings \<Rightarrow> bool \<Rightarrow> int \<Rightarrow> sched \<Rightarrow> match_state \<Rightarrow> order list \<Rightarrow> fill list \<times> match_state" where
  "match_loop s relay now sched ms [] = ([], ms)"
| "match_loop s relay now sched ms (maker # makers) =
     (case match_tries 2 sched ms maker of (qty, returned, maker1, ms1) \<Rightarrow>
        if returned then ([], ms1)
        else if qty \<le> 0 then
          (if o_cancelled (ms_inc ms1) \<or> remaining (ms_inc ms1) \<le> 0 then ([], ms1)
           else match_loop s relay now sched ms1 makers)
        else case record_fill s relay now qty maker1 ms1 of (f, ms2) \<Rightarrow>
          if remaining (ms_inc ms2) \<le> 0 then ([f], ms2)
          else case match_loop s relay now sched ms2 makers of (fs, ms3) \<Rightarrow> (f # fs, ms3))"

text \<open>The sort keys \<open>(o.price, o.id)\<close> and \<open>(-o.price, o.id)\<close>, ordered as Python orders tuples.\<close>

datatype book_key = Book_Key int int

instantiation book_key :: linorder
begin

fun less_eq_book_key :: "book_key \<Rightarrow> book_key \<Rightarrow> bool" where
  "less_eq_book_key (Book_Key p i) (Book_Key p' i') = (p < p' \<or> (p = p' \<and> i \<le> i'))"

definition less_book_key :: "book_key \<Rightarrow> book_key \<Rightarrow> bool" where
  "less_book_key a b = (a \<le> b \<and> \<not> b \<le> a)"

instance
proof
  fix a b c :: book_key
  show "(a < b) = (a \<le> b \<and> \<not> b \<le> a)" by (rule less_book_key_def)
  show "a \<le> a" by (cases a) simp
  show "a \<le> b \<Longrightarrow> b \<le> c \<Longrightarrow> a \<le> c" by (cases a; cases b; cases c) auto
  show "a \<le> b \<Longrightarrow> b \<le> a \<Longrightarrow> a = b" by (cases a; cases b) auto
  show "a \<le> b \<or> b \<le> a" by (cases a; cases b) auto
qed

end

definition book_key :: "bool \<Rightarrow> order \<Rightarrow> book_key" where
  "book_key incoming_buy ord = Book_Key (if incoming_buy then o_price ord else - o_price ord) (o_id ord)"

definition eligible_makers :: "dbase \<Rightarrow> order \<Rightarrow> int \<Rightarrow> order list" where
  "eligible_makers db incoming min_expiry =
     (let others = filter (\<lambda>ord. o_condition_id ord = o_condition_id incoming \<and> \<not> o_cancelled ord \<and>
            o_expiry ord > min_expiry \<and> o_id ord \<noteq> o_id incoming) (d_orders db);
          makers = filter (\<lambda>ord. crosses incoming ord min_expiry \<and> remaining ord > 0) others
      in sort_key (book_key (o_is_buy incoming)) makers)"

definition try_match :: "libs \<Rightarrow> settings \<Rightarrow> int \<Rightarrow> sched \<Rightarrow> dbase \<Rightarrow> order \<Rightarrow> fill list \<times> match_state" where
  "try_match L s now sched db incoming =
     (let ms = \<lparr> ms_db = db, ms_k = 0, ms_inc = incoming \<rparr> in
      if trading_halt_reason db (o_condition_id incoming) s now \<noteq> None then ([], ms)
      else
        let min_expiry = now + s_relayer_min_expiry_seconds s;
            makers = eligible_makers db incoming min_expiry
        in match_loop s (relayer_ready L s) now sched ms makers)"

section \<open>Frame: what a match may touch\<close>

text \<open>Two instances agree on the columns that never change after an order is stored.\<close>

definition same_order :: "order \<Rightarrow> order \<Rightarrow> bool" where
  "same_order a b = (o_id a = o_id b \<and> o_order_hash a = o_order_hash b \<and> o_maker a = o_maker b \<and>
     o_price a = o_price b \<and> o_amount a = o_amount b \<and> o_condition_id a = o_condition_id b \<and>
     o_is_buy a = o_is_buy b \<and> o_outcome a = o_outcome b \<and> o_expiry a = o_expiry b)"

text \<open>The tables outside \<open>orders\<close> are those of before, and the incoming order is the same one.\<close>

definition match_frame :: "match_state \<Rightarrow> match_state \<Rightarrow> bool" where
  "match_frame ms ms' =
     ((ms_db ms')\<lparr>d_orders := []\<rparr> = (ms_db ms)\<lparr>d_orders := []\<rparr> \<and> same_order (ms_inc ms') (ms_inc ms))"

lemma same_order_refl [simp]: "same_order a a"
  by (simp add: same_order_def)

lemma same_order_trans: "same_order a b \<Longrightarrow> same_order b c \<Longrightarrow> same_order a c"
  by (simp add: same_order_def)

lemma same_order_refresh [simp]: "same_order (refresh ms a) b = same_order a b"
  by (simp add: same_order_def refresh_def split: option.splits)

lemma match_frame_refl [simp]: "match_frame ms ms"
  by (simp add: match_frame_def)

lemma match_frame_trans: "match_frame ms ms' \<Longrightarrow> match_frame ms' ms'' \<Longrightarrow> match_frame ms ms''"
  by (auto simp: match_frame_def intro: same_order_trans)

lemma match_frame_tables:
  assumes "match_frame ms ms'"
  shows "d_jobs (ms_db ms') = d_jobs (ms_db ms)" "d_trades (ms_db ms') = d_trades (ms_db ms)"
    "d_markets (ms_db ms') = d_markets (ms_db ms)" "d_listings (ms_db ms') = d_listings (ms_db ms)"
    "d_emissions (ms_db ms') = d_emissions (ms_db ms)" "d_next_job (ms_db ms') = d_next_job (ms_db ms)"
    "d_next_trade (ms_db ms') = d_next_trade (ms_db ms)" "d_next_order (ms_db ms') = d_next_order (ms_db ms)"
proof -
  have eq: "(ms_db ms')\<lparr>d_orders := []\<rparr> = (ms_db ms)\<lparr>d_orders := []\<rparr>"
    using assms by (simp add: match_frame_def)
  show "d_jobs (ms_db ms') = d_jobs (ms_db ms)" using arg_cong [OF eq, of d_jobs] by simp
  show "d_trades (ms_db ms') = d_trades (ms_db ms)" using arg_cong [OF eq, of d_trades] by simp
  show "d_markets (ms_db ms') = d_markets (ms_db ms)" using arg_cong [OF eq, of d_markets] by simp
  show "d_listings (ms_db ms') = d_listings (ms_db ms)" using arg_cong [OF eq, of d_listings] by simp
  show "d_emissions (ms_db ms') = d_emissions (ms_db ms)" using arg_cong [OF eq, of d_emissions] by simp
  show "d_next_job (ms_db ms') = d_next_job (ms_db ms)" using arg_cong [OF eq, of d_next_job] by simp
  show "d_next_trade (ms_db ms') = d_next_trade (ms_db ms)" using arg_cong [OF eq, of d_next_trade] by simp
  show "d_next_order (ms_db ms') = d_next_order (ms_db ms)" using arg_cong [OF eq, of d_next_order] by simp
qed

lemma take_fill_frame:
  "take_fill sched ms ord qty = (ok, ord1, ms1) \<Longrightarrow>
     match_frame ms ms1 \<and> same_order ord1 ord \<and> ms_inc ms1 = ms_inc ms"
  by (auto simp: take_fill_def run_stmt_def match_frame_def Let_def)

lemma give_back_frame:
  "give_back sched ms ord qty = (ord1, ms1) \<Longrightarrow>
     match_frame ms ms1 \<and> same_order ord1 ord \<and> ms_inc ms1 = ms_inc ms"
  by (auto simp: give_back_def run_stmt_def match_frame_def Let_def)

lemma match_frame_inc: "same_order inc (ms_inc ms) \<Longrightarrow> match_frame ms (ms\<lparr>ms_inc := inc\<rparr>)"
  by (simp add: match_frame_def)

text \<open>
  The four ways one try of the inner loop ends, as a case rule: the proofs about the loop split on
  it instead of unfolding the body.
\<close>

lemma match_tries_Suc_cases:
  assumes "match_tries (Suc n) sched ms maker = (qty, returned, maker1, ms1)"
  obtains (none) "qty = 0" "\<not> returned" "maker1 = maker" "ms1 = ms"
      "min (remaining (ms_inc ms)) (remaining maker) \<le> 0 \<or> o_cancelled maker"
    | (missed) mk msa where
      "0 < min (remaining (ms_inc ms)) (remaining maker)" "\<not> o_cancelled maker"
      "take_fill sched ms maker (min (remaining (ms_inc ms)) (remaining maker)) = (False, mk, msa)"
      "match_tries n sched msa mk = (qty, returned, maker1, ms1)"
    | (taken) msa inc msb where
      "0 < min (remaining (ms_inc ms)) (remaining maker)" "\<not> o_cancelled maker"
      "take_fill sched ms maker (min (remaining (ms_inc ms)) (remaining maker)) = (True, maker1, msa)"
      "take_fill sched msa (ms_inc msa) (min (remaining (ms_inc ms)) (remaining maker)) = (True, inc, msb)"
      "qty = min (remaining (ms_inc ms)) (remaining maker)" "\<not> returned" "ms1 = msb\<lparr>ms_inc := inc\<rparr>"
    | (undone) mk msa inc msb mk2 msc where
      "0 < min (remaining (ms_inc ms)) (remaining maker)" "\<not> o_cancelled maker"
      "take_fill sched ms maker (min (remaining (ms_inc ms)) (remaining maker)) = (True, mk, msa)"
      "take_fill sched msa (ms_inc msa) (min (remaining (ms_inc ms)) (remaining maker)) = (False, inc, msb)"
      "give_back sched (msb\<lparr>ms_inc := inc\<rparr>) mk (min (remaining (ms_inc ms)) (remaining maker)) = (mk2, msc)"
      "qty = 0 \<and> returned \<and> maker1 = mk2 \<and> ms1 = msc \<or>
       match_tries n sched msc mk2 = (qty, returned, maker1, ms1)"
proof -
  let ?qty = "min (remaining (ms_inc ms)) (remaining maker)"
  obtain ok mk msa where t1: "take_fill sched ms maker ?qty = (ok, mk, msa)" by (metis prod_cases3)
  obtain ok2 inc msb where t2: "take_fill sched msa (ms_inc msa) ?qty = (ok2, inc, msb)" by (metis prod_cases3)
  obtain mk2 msc where t3: "give_back sched (msb\<lparr>ms_inc := inc\<rparr>) mk ?qty = (mk2, msc)" by (metis prod.exhaust)
  show thesis
  proof (cases "?qty \<le> 0 \<or> o_cancelled maker")
    case True
    with assms none show thesis by (simp add: Let_def)
  next
    case False
    then have pos: "0 < ?qty" "\<not> o_cancelled maker" by linarith+
    show thesis
    proof (cases ok)
      case False
      with assms pos t1 have "match_tries n sched msa mk = (qty, returned, maker1, ms1)"
        by (simp add: Let_def)
      with False pos t1 missed show thesis by simp
    next
      case ok: True
      show thesis
      proof (cases ok2)
        case True
        with assms pos t1 t2 ok have "qty = ?qty" "\<not> returned" "maker1 = mk" "ms1 = msb\<lparr>ms_inc := inc\<rparr>"
          by (simp_all add: Let_def)
        with True ok pos t1 t2 taken show thesis by simp
      next
        case False
        with assms pos t1 t2 t3 ok
        have "qty = 0 \<and> returned \<and> maker1 = mk2 \<and> ms1 = msc \<or>
            match_tries n sched msc mk2 = (qty, returned, maker1, ms1)"
          by (auto simp: Let_def split: if_splits)
        with False ok pos t1 t2 t3 undone show thesis by simp
      qed
    qed
  qed
qed

declare match_tries.simps(2) [simp del]

lemma match_tries_frame:
  "match_tries n sched ms maker = (qty, returned, maker1, ms1) \<Longrightarrow>
     match_frame ms ms1 \<and> same_order maker1 maker \<and> (qty = 0 \<or> 0 < qty \<and> \<not> returned)"
proof (induction n arbitrary: ms maker)
  case 0
  then show ?case by simp
next
  case (Suc n)
  from Suc.prems show ?case
  proof (cases rule: match_tries_Suc_cases)
    case none
    then show ?thesis by simp
  next
    case (missed mk msa)
    with Suc.IH [of msa mk] take_fill_frame [OF missed(3)] show ?thesis
      by (meson match_frame_trans same_order_trans)
  next
    case (taken msa inc msb)
    note f = take_fill_frame [OF taken(3)] take_fill_frame [OF taken(4)]
    then have "same_order inc (ms_inc msb)" by simp
    then have "match_frame msb (msb\<lparr>ms_inc := inc\<rparr>)" by (rule match_frame_inc)
    with f have "match_frame ms (msb\<lparr>ms_inc := inc\<rparr>)" by (meson match_frame_trans)
    with f taken show ?thesis by simp
  next
    case (undone mk msa inc msb mk2 msc)
    note f = take_fill_frame [OF undone(3)] take_fill_frame [OF undone(4)] give_back_frame [OF undone(5)]
    then have "same_order inc (ms_inc msb)" by simp
    then have "match_frame msb (msb\<lparr>ms_inc := inc\<rparr>)" by (rule match_frame_inc)
    with f have fr: "match_frame ms msc" "same_order mk2 maker" by (meson match_frame_trans same_order_trans)+
    from undone(6) show ?thesis
    proof
      assume "match_tries n sched msc mk2 = (qty, returned, maker1, ms1)"
      with Suc.IH [of msc mk2] fr show ?thesis by (meson match_frame_trans same_order_trans)
    qed (use fr in simp)
  qed
qed

section \<open>Invariants under interference\<close>

lemma record_fill_db:
  assumes "record_fill s relay now qty maker ms = (f, ms')"
  shows "ms_inc ms' = ms_inc ms" "d_orders (ms_db ms') = d_orders (ms_db ms)"
    "fl_maker_hash f = o_order_hash maker" "fl_taker_hash f = o_order_hash (ms_inc ms)"
    "fl_amount f = qty" "fl_volume f = qty * o_price maker div 1000000"
    "fl_fee f = fl_volume f * s_fee_bps_taker s div 10000"
    "d_markets (ms_db ms') = d_markets (ms_db ms)" "d_listings (ms_db ms') = d_listings (ms_db ms)"
    "d_emissions (ms_db ms') = d_emissions (ms_db ms)"
  using assms by (auto simp: record_fill_def enqueue_match_def Let_def split: if_splits)

text \<open>One turn of the loop over the makers, as a case rule.\<close>

lemma match_loop_Cons_cases:
  assumes "match_loop s relay now sched ms (maker # makers) = (fs, ms')"
  obtains (stop) qty returned maker1 where
      "match_tries 2 sched ms maker = (qty, returned, maker1, ms')" "fs = []"
      "returned \<or> qty \<le> 0 \<and> (o_cancelled (ms_inc ms') \<or> remaining (ms_inc ms') \<le> 0)"
    | (skip) qty maker1 ms1 where
      "match_tries 2 sched ms maker = (qty, False, maker1, ms1)" "qty \<le> 0"
      "0 < remaining (ms_inc ms1)" "match_loop s relay now sched ms1 makers = (fs, ms')"
    | (last) qty maker1 ms1 f where
      "match_tries 2 sched ms maker = (qty, False, maker1, ms1)" "0 < qty"
      "record_fill s relay now qty maker1 ms1 = (f, ms')" "fs = [f]" "remaining (ms_inc ms') \<le> 0"
    | (more) qty maker1 ms1 f ms2 fs' where
      "match_tries 2 sched ms maker = (qty, False, maker1, ms1)" "0 < qty"
      "record_fill s relay now qty maker1 ms1 = (f, ms2)" "0 < remaining (ms_inc ms2)"
      "match_loop s relay now sched ms2 makers = (fs', ms')" "fs = f # fs'"
proof -
  obtain qty returned maker1 ms1 where t: "match_tries 2 sched ms maker = (qty, returned, maker1, ms1)"
    by (metis prod_cases4)
  obtain f ms2 where r: "record_fill s relay now qty maker1 ms1 = (f, ms2)" by (metis prod.exhaust)
  obtain fs' ms3 where l: "match_loop s relay now sched ms2 makers = (fs', ms3)" by (metis prod.exhaust)
  show thesis
    using assms t r l stop [of qty returned maker1] skip [of qty maker1 ms1] last [of qty maker1 ms1 f]
      more [of qty maker1 ms1 f ms2 fs']
    by (auto split: if_splits)
qed

text \<open>
  An invariant of the orders table that every statement other transactions may run keeps, and that
  the matcher's own statements keep: then a match keeps it under every schedule.
\<close>

locale match_keeps = guarded_table inv exec_stmt allowed
  for inv :: "order list \<Rightarrow> bool" and allowed :: "order_stmt \<Rightarrow> bool" +
  assumes take_allowed: "0 < q \<Longrightarrow> allowed (Stmt_Take i q)"
    and give_allowed: "0 < q \<Longrightarrow> allowed (Stmt_Give_Back i q)"
begin

lemma stmt_keep:
  assumes "run_stmt sched stmt ms = (n, ms')" and "inv (d_orders (ms_db ms))"
    and "\<And>k. list_all allowed (sched k)" and "allowed stmt"
  shows "inv (d_orders (ms_db ms'))"
  using assms run_inv fold_inv by (auto simp: run_stmt_def exec_stmts_def Let_def)

lemma take_keep:
  assumes "take_fill sched ms ord q = (b, ord1, ms')" and "inv (d_orders (ms_db ms))"
    and "\<And>k. list_all allowed (sched k)" and "0 < q"
  shows "inv (d_orders (ms_db ms'))"
  using assms stmt_keep [OF _ assms(2,3) take_allowed] by (auto simp: take_fill_def split: prod.splits)

lemma give_keep:
  assumes "give_back sched ms ord q = (ord1, ms')" and "inv (d_orders (ms_db ms))"
    and "\<And>k. list_all allowed (sched k)" and "0 < q"
  shows "inv (d_orders (ms_db ms'))"
  using assms stmt_keep [OF _ assms(2,3) give_allowed] by (auto simp: give_back_def split: prod.splits)

lemma tries_keep:
  "match_tries n sched ms maker = (qty, returned, maker1, ms1) \<Longrightarrow> inv (d_orders (ms_db ms)) \<Longrightarrow>
     (\<And>k. list_all allowed (sched k)) \<Longrightarrow> inv (d_orders (ms_db ms1))"
proof (induction n arbitrary: ms maker)
  case 0
  then show ?case by simp
next
  case (Suc n)
  note sok = Suc.prems(3)
  from Suc.prems(1) show ?case
  proof (cases rule: match_tries_Suc_cases)
    case none
    with Suc.prems show ?thesis by simp
  next
    case (missed mk msa)
    with Suc.IH [OF missed(4) take_keep sok] Suc.prems(2) sok show ?thesis by blast
  next
    case (taken msa inc msb)
    have "inv (d_orders (ms_db msb))"
      by (rule take_keep [OF taken(4) take_keep [OF taken(3) Suc.prems(2) sok taken(1)] sok taken(1)])
    with taken show ?thesis by simp
  next
    case (undone mk msa inc msb mk2 msc)
    have "inv (d_orders (ms_db msb))"
      by (rule take_keep [OF undone(4) take_keep [OF undone(3) Suc.prems(2) sok undone(1)] sok undone(1)])
    then have "inv (d_orders (ms_db msc))" using give_keep [OF undone(5)] sok undone(1) by simp
    with undone(6) Suc.IH [of msc mk2] sok show ?thesis by blast
  qed
qed

lemma loop_keep:
  "match_loop s relay now sched ms makers = (fs, ms') \<Longrightarrow> inv (d_orders (ms_db ms)) \<Longrightarrow>
     (\<And>k. list_all allowed (sched k)) \<Longrightarrow> inv (d_orders (ms_db ms'))"
proof (induction makers arbitrary: ms fs)
  case Nil
  then show ?case by simp
next
  case (Cons maker makers)
  from Cons.prems(1) show ?case
  proof (cases rule: match_loop_Cons_cases)
    case (stop qty returned maker1)
    with Cons.prems tries_keep show ?thesis by blast
  next
    case (skip qty maker1 ms1)
    with Cons.prems Cons.IH tries_keep show ?thesis by blast
  next
    case (last qty maker1 ms1 f)
    with Cons.prems tries_keep [OF last(1)] show ?thesis by (simp add: record_fill_db)
  next
    case (more qty maker1 ms1 f ms2 fs')
    then have "inv (d_orders (ms_db ms2))"
      using Cons.prems tries_keep [OF more(1)] by (simp add: record_fill_db)
    with more(5) Cons.prems(3) Cons.IH show ?thesis by blast
  qed
qed

lemma match_keep:
  assumes "inv (d_orders db)" and "\<And>k. list_all allowed (sched k)"
  shows "inv (d_orders (ms_db (snd (try_match L s now sched db incoming))))"
proof -
  have "inv (d_orders (ms_db (snd (match_loop s (relayer_ready L s) now sched
      \<lparr> ms_db = db, ms_k = 0, ms_inc = incoming \<rparr> makers))))" for makers
    using loop_keep [OF surjective_pairing] assms by simp
  with assms(1) show ?thesis by (simp add: try_match_def Let_def)
qed

end

interpretation order_match: match_keeps orders_ok stmt_ok
  by unfold_locales simp_all

section \<open>What a fill is\<close>

definition fill_of_maker :: "settings \<Rightarrow> order \<Rightarrow> order \<Rightarrow> fill \<Rightarrow> bool" where
  "fill_of_maker s incoming maker f =
     (fl_maker_hash f = o_order_hash maker \<and> fl_taker_hash f = o_order_hash incoming \<and> 0 < fl_amount f \<and>
      fl_volume f = fl_amount f * o_price maker div 1000000 \<and>
      fl_fee f = fl_volume f * s_fee_bps_taker s div 10000)"

lemma match_loop_fills:
  "match_loop s relay now sched ms makers = (fs, ms') \<Longrightarrow> same_order (ms_inc ms) incoming \<Longrightarrow>
     f \<in> set fs \<Longrightarrow> \<exists>maker \<in> set makers. fill_of_maker s incoming maker f"
proof (induction makers arbitrary: ms fs)
  case Nil
  then show ?case by simp
next
  case (Cons maker makers)
  have here: "fill_of_maker s incoming maker g \<and> same_order (ms_inc ms2) incoming"
    if "match_tries 2 sched ms maker = (qty, False, maker1, ms1)" "0 < qty"
      "record_fill s relay now qty maker1 ms1 = (g, ms2)" for qty maker1 ms1 g ms2
    using match_tries_frame [OF that(1)] record_fill_db [OF that(3)] that(2) Cons.prems(2)
    by (auto simp: fill_of_maker_def match_frame_def same_order_def)
  from Cons.prems(1) show ?case
  proof (cases rule: match_loop_Cons_cases)
    case (stop qty returned maker1)
    with Cons.prems show ?thesis by simp
  next
    case (skip qty maker1 ms1)
    then have "same_order (ms_inc ms1) incoming"
      using match_tries_frame [OF skip(1)] Cons.prems(2) by (auto simp: match_frame_def intro: same_order_trans)
    with skip Cons.IH Cons.prems(3) show ?thesis by fastforce
  next
    case (last qty maker1 ms1 f)
    with here Cons.prems(3) show ?thesis by auto
  next
    case (more qty maker1 ms1 f ms2 fs')
    with here Cons.IH Cons.prems(3) show ?thesis by fastforce
  qed
qed

lemma eligible_makers_set:
  "set (eligible_makers db incoming mexp) =
     {m \<in> set (d_orders db). crosses incoming m mexp \<and> 0 < remaining m \<and> o_id m \<noteq> o_id incoming}"
  by (auto simp: eligible_makers_def crosses_def Let_def split: if_splits)

section \<open>The reference allocation\<close>

text \<open>
  What price-time priority means, with no database in it: walk the makers in book order and give each
  as much as it has room for while anything is left.
\<close>

fun greedy :: "int \<Rightarrow> order list \<Rightarrow> (order \<times> int) list" where
  "greedy rem [] = []"
| "greedy rem (m # ms) =
     (if rem \<le> 0 then []
      else (m, min rem (remaining m)) # greedy (rem - min rem (remaining m)) ms)"

lemma greedy_nonpos [simp]: "rem \<le> 0 \<Longrightarrow> greedy rem ms = []"
  by (cases ms) simp_all

lemma greedy_sum:
  "\<forall>m \<in> set ms. 0 \<le> remaining m \<Longrightarrow> 0 \<le> rem \<Longrightarrow>
     (\<Sum>x\<leftarrow>greedy rem ms. snd x) = min rem (\<Sum>m\<leftarrow>ms. remaining m)"
proof (induction ms arbitrary: rem)
  case Nil
  then show ?case by simp
next
  case (Cons m ms)
  have nonneg: "0 \<le> (\<Sum>m\<leftarrow>ms. remaining m)" using Cons.prems(1) by (intro sum_list_nonneg) auto
  show ?case
  proof (cases "rem \<le> 0")
    case True
    with Cons.prems nonneg show ?thesis by simp
  next
    case False
    with Cons nonneg show ?thesis by (auto simp: min_def)
  qed
qed

text \<open>A maker after the first is reached only when every maker before it is used up.\<close>

lemma greedy_prefix:
  "greedy rem ms = xs @ (m, q) # ys \<Longrightarrow> \<exists>us vs. ms = us @ m # vs \<and> xs = map (\<lambda>u. (u, remaining u)) us"
proof (induction xs arbitrary: rem ms)
  case Nil
  then obtain vs where "ms = m # vs" by (cases ms) (auto split: if_splits)
  then show ?case by (intro exI [of _ "[]"] exI [of _ vs]) simp
next
  case (Cons x xs)
  then obtain u us where ms: "ms = u # us" by (cases ms) auto
  with Cons.prems have rem: "\<not> rem \<le> 0" and x: "x = (u, min rem (remaining u))"
    and rest: "greedy (rem - min rem (remaining u)) us = xs @ (m, q) # ys"
    by (auto split: if_splits)
  from rest have "\<not> rem - min rem (remaining u) \<le> 0" by (metis append_is_Nil_conv greedy_nonpos list.distinct(1))
  then have "min rem (remaining u) = remaining u" by linarith
  moreover obtain us' vs where "us = us' @ m # vs" "xs = map (\<lambda>u. (u, remaining u)) us'"
    using Cons.IH [OF rest] by blast
  ultimately show ?case using ms x by (intro exI [of _ "u # us'"] exI [of _ vs]) simp
qed

lemma greedy_all_used:
  "(\<Sum>x\<leftarrow>greedy rem ms. snd x) < rem \<Longrightarrow> greedy rem ms = map (\<lambda>m. (m, remaining m)) ms"
proof (induction ms arbitrary: rem)
  case Nil
  then show ?case by simp
next
  case (Cons m ms)
  show ?case
  proof (cases "rem \<le> 0")
    case True
    with Cons.prems show ?thesis by simp
  next
    case False
    let ?q = "min rem (remaining m)"
    from False Cons.prems have lt: "(\<Sum>x\<leftarrow>greedy (rem - ?q) ms. snd x) < rem - ?q" by simp
    have "?q = remaining m"
    proof (rule ccontr)
      assume "?q \<noteq> remaining m"
      then have "?q = rem" by linarith
      with lt show False by simp
    qed
    with False Cons.IH [OF lt] show ?thesis by simp
  qed
qed

lemma greedy_amounts: "\<forall>m \<in> set ms. 0 < remaining m \<Longrightarrow> (m, q) \<in> set (greedy rem ms) \<Longrightarrow>
    m \<in> set ms \<and> 0 < q \<and> q \<le> remaining m"
  by (induction rem ms rule: greedy.induct) (auto split: if_splits)

section \<open>A match that runs alone\<close>

text \<open>The rows and instances agree: the incoming order and the makers are rows of the table.\<close>

definition synced :: "match_state \<Rightarrow> order list \<Rightarrow> bool" where
  "synced ms makers =
     (distinct (map o_id (d_orders (ms_db ms))) \<and> distinct (map o_order_hash (d_orders (ms_db ms))) \<and>
      ms_inc ms \<in> set (d_orders (ms_db ms)) \<and> \<not> o_cancelled (ms_inc ms) \<and>
      set makers \<subseteq> set (d_orders (ms_db ms)) \<and> distinct makers \<and> ms_inc ms \<notin> set makers \<and>
      (\<forall>m \<in> set makers. \<not> o_cancelled m \<and> 0 < remaining m))"

definition credit :: "int \<Rightarrow> order \<Rightarrow> order" where
  "credit q r = r\<lparr>o_filled := o_filled r + q\<rparr>"

definition credit_rows :: "(string \<Rightarrow> int) \<Rightarrow> order list \<Rightarrow> order list" where
  "credit_rows g rows = map (\<lambda>r. credit (g (o_order_hash r)) r) rows"

definition fill_of :: "fill list \<Rightarrow> string \<Rightarrow> int" where
  "fill_of fs h = (\<Sum>f\<leftarrow>fs. (if fl_maker_hash f = h then fl_amount f else 0) +
                            (if fl_taker_hash f = h then fl_amount f else 0))"

lemma credit_static [simp]:
  "o_id (credit q r) = o_id r" "o_order_hash (credit q r) = o_order_hash r"
  "o_filled (credit q r) = o_filled r + q" "o_amount (credit q r) = o_amount r"
  "o_cancelled (credit q r) = o_cancelled r" "o_is_buy (credit q r) = o_is_buy r"
  "o_maker (credit q r) = o_maker r" "o_price (credit q r) = o_price r"
  "o_condition_id (credit q r) = o_condition_id r" "o_outcome (credit q r) = o_outcome r"
  "o_expiry (credit q r) = o_expiry r"
  "remaining (credit q r) = remaining r - q" "credit 0 r = r" "credit q (credit p r) = credit (p + q) r"
  by (simp_all add: credit_def remaining_def)

lemma credit_rows_add: "credit_rows g (credit_rows f rows) = credit_rows (\<lambda>h. f h + g h) rows"
  by (simp add: credit_rows_def)

lemma credit_rows_mem: "r \<in> set rows \<Longrightarrow> credit (g (o_order_hash r)) r \<in> set (credit_rows g rows)"
  by (auto simp: credit_rows_def)

lemma credit_rows_ids [simp]:
  "map o_id (credit_rows g rows) = map o_id rows" "map o_order_hash (credit_rows g rows) = map o_order_hash rows"
  by (simp_all add: credit_rows_def comp_def)

lemma quiet_take:
  assumes "distinct (map o_id (d_orders (ms_db ms)))" and "distinct (map o_order_hash (d_orders (ms_db ms)))"
    and "ord \<in> set (d_orders (ms_db ms))" and "\<not> o_cancelled ord" and "o_filled ord + qty \<le> o_amount ord"
  shows "take_fill quiet ms ord qty = (True, credit qty ord,
    ms\<lparr>ms_db := (ms_db ms)\<lparr>d_orders := credit_rows (\<lambda>h. if h = o_order_hash ord then qty else 0) (d_orders (ms_db ms))\<rparr>,
       ms_k := Suc (ms_k ms)\<rparr>)"
proof -
  let ?rows = "d_orders (ms_db ms)"
  let ?P = "\<lambda>r. \<not> o_cancelled r \<and> o_filled r + qty \<le> o_amount r"
  have get: "get_row o_id (o_id ord) ?rows = Some ord" using assms(1,3) by (rule get_row_distinct)
  have one: "o_id r = o_id ord \<longleftrightarrow> r = ord" "o_order_hash r = o_order_hash ord \<longleftrightarrow> r = ord" if "r \<in> set ?rows" for r
    using that assms(1-3) by (metis distinct_map inj_onD)+
  have upd: "update_where (stmt_where (Stmt_Take (o_id ord) qty)) (stmt_set (Stmt_Take (o_id ord) qty)) ?rows =
      credit_rows (\<lambda>h. if h = o_order_hash ord then qty else 0) ?rows"
    unfolding update_where_def credit_rows_def using one assms(4,5)
    by (auto simp: credit_def)
  have "stmt_where (Stmt_Take (o_id ord) qty) = (\<lambda>r. o_id r = o_id ord \<and> ?P r)" by (rule ext) simp
  then have "stmt_rowcount (Stmt_Take (o_id ord) qty) ?rows = 1"
    using row_count_one [OF assms(1), of "o_id ord" ?P] get assms(4,5) by (simp add: stmt_rowcount_def)
  moreover have "refresh (ms\<lparr>ms_db := (ms_db ms)\<lparr>d_orders := credit_rows (\<lambda>h. if h = o_order_hash ord then qty else 0) ?rows\<rparr>,
       ms_k := Suc (ms_k ms)\<rparr>) ord = credit qty ord"
  proof -
    have "get_row o_id (o_id ord) (credit_rows (\<lambda>h. if h = o_order_hash ord then qty else 0) ?rows) =
        Some (credit qty ord)"
      unfolding upd [symmetric] by (subst get_row_update_where) (auto simp: get assms(4,5) credit_def)
    then show ?thesis by (simp add: refresh_def credit_def)
  qed
  ultimately show ?thesis
    by (simp add: take_fill_def run_stmt_def quiet_def exec_stmts_def upd [simplified])
qed

lemma quiet_tries:
  assumes sync: "synced ms (maker # makers)"
    and q: "q = min (remaining (ms_inc ms)) (remaining maker)" and pos: "0 < q"
  shows "match_tries 2 quiet ms maker = (q, False, credit q maker,
    \<lparr>ms_db = (ms_db ms)\<lparr>d_orders := credit_rows
        (\<lambda>h. (if h = o_order_hash maker then q else 0) + (if h = o_order_hash (ms_inc ms) then q else 0)) (d_orders (ms_db ms))\<rparr>,
     ms_k = ms_k ms + 2, ms_inc = credit q (ms_inc ms)\<rparr>)"
proof -
  let ?rows = "d_orders (ms_db ms)" and ?inc = "ms_inc ms"
  let ?g = "\<lambda>h. if h = o_order_hash maker then q else 0"
  let ?rows1 = "credit_rows ?g ?rows"
  let ?ms1 = "ms\<lparr>ms_db := (ms_db ms)\<lparr>d_orders := ?rows1\<rparr>, ms_k := Suc (ms_k ms)\<rparr>"
  have d: "distinct (map o_id ?rows)" "distinct (map o_order_hash ?rows)" "maker \<in> set ?rows" "?inc \<in> set ?rows"
    "\<not> o_cancelled maker" "\<not> o_cancelled ?inc" "?inc \<noteq> maker"
    using sync by (auto simp: synced_def)
  have room: "o_filled maker + q \<le> o_amount maker" "o_filled ?inc + q \<le> o_amount ?inc"
    using q by (simp_all add: remaining_def)
  have t1: "take_fill quiet ms maker q = (True, credit q maker, ?ms1)"
    by (rule quiet_take) (use d room in auto)
  have "o_order_hash ?inc \<noteq> o_order_hash maker" using d by (metis distinct_map inj_onD)
  then have "?inc \<in> set ?rows1" using d(4) by (force simp: credit_rows_def)
  then have "take_fill quiet ?ms1 ?inc q = (True, credit q ?inc,
      ?ms1\<lparr>ms_db := (ms_db ?ms1)\<lparr>d_orders := credit_rows (\<lambda>h. if h = o_order_hash ?inc then q else 0) ?rows1\<rparr>,
        ms_k := Suc (ms_k ?ms1)\<rparr>)"
    using d room quiet_take [of ?ms1 ?inc q] by simp
  with t1 pos d(5) show ?thesis
    by (simp add: numeral_2_eq_2 match_tries.simps(2) credit_rows_add Let_def q [symmetric])
qed

lemma synced_step:
  assumes sync: "synced ms (maker # makers)"
    and ms2: "ms_inc ms2 = credit q (ms_inc ms)"
    "d_orders (ms_db ms2) = credit_rows
        (\<lambda>h. (if h = o_order_hash maker then q else 0) + (if h = o_order_hash (ms_inc ms) then q else 0)) (d_orders (ms_db ms))"
  shows "synced ms2 makers"
proof -
  let ?rows = "d_orders (ms_db ms)" and ?inc = "ms_inc ms"
  let ?g = "\<lambda>h. (if h = o_order_hash maker then q else 0) + (if h = o_order_hash ?inc then q else 0)"
  have d: "distinct (map o_id ?rows)" "distinct (map o_order_hash ?rows)" "maker \<in> set ?rows" "?inc \<in> set ?rows"
    "set makers \<subseteq> set ?rows" "maker \<notin> set makers" "?inc \<notin> set makers" "?inc \<noteq> maker"
    using sync by (auto simp: synced_def)
  have hash: "o_order_hash a = o_order_hash b \<longleftrightarrow> a = b" if "a \<in> set ?rows" "b \<in> set ?rows" for a b
    using that d(2) by (metis distinct_map inj_onD)
  have ids: "o_id a = o_id b \<longleftrightarrow> a = b" if "a \<in> set ?rows" "b \<in> set ?rows" for a b
    using that d(1) by (metis distinct_map inj_onD)
  have inc: "credit q ?inc \<in> set (credit_rows ?g ?rows)"
  proof -
    have "credit (?g (o_order_hash ?inc)) ?inc = credit q ?inc" using hash d by simp
    with credit_rows_mem [OF d(4), of ?g] show ?thesis by simp
  qed
  have mks: "set makers \<subseteq> set (credit_rows ?g ?rows)"
  proof
    fix m assume m: "m \<in> set makers"
    then have "m \<in> set ?rows" "m \<noteq> maker" "m \<noteq> ?inc" using d by auto
    then have "credit (?g (o_order_hash m)) m = m" using hash d by simp
    with credit_rows_mem [OF \<open>m \<in> set ?rows\<close>, of ?g] show "m \<in> set (credit_rows ?g ?rows)" by simp
  qed
  have "credit q ?inc \<notin> set makers"
  proof
    assume "credit q ?inc \<in> set makers"
    with d ids [of "credit q ?inc" ?inc] have "credit q ?inc = ?inc" by auto
    with \<open>credit q ?inc \<in> set makers\<close> d show False by simp
  qed
  with sync inc mks ms2 show ?thesis by (auto simp: synced_def)
qed

lemma fill_of_simps [simp]:
  "fill_of [] h = 0"
  "fill_of (f # fs) h = (if fl_maker_hash f = h then fl_amount f else 0) +
     (if fl_taker_hash f = h then fl_amount f else 0) + fill_of fs h"
  by (simp_all add: fill_of_def)

text \<open>
  The refinement: alone on the tables, the loop's fills are the reference allocation, and every order's
  \<open>filled\<close> rises by exactly the fills that name it.
\<close>

lemma quiet_loop:
  "match_loop s relay now quiet ms makers = (fs, ms') \<Longrightarrow> synced ms makers \<Longrightarrow>
     map (\<lambda>f. (fl_maker_hash f, fl_amount f)) fs =
       map (\<lambda>(m, q). (o_order_hash m, q)) (greedy (remaining (ms_inc ms)) makers) \<and>
     d_orders (ms_db ms') = credit_rows (fill_of fs) (d_orders (ms_db ms)) \<and>
     ms_inc ms' = credit (\<Sum>f\<leftarrow>fs. fl_amount f) (ms_inc ms)"
proof (induction makers arbitrary: ms fs)
  case Nil
  then show ?case by (simp add: credit_rows_def)
next
  case (Cons maker makers)
  let ?q = "min (remaining (ms_inc ms)) (remaining maker)"
  have mpos: "0 < remaining maker" "\<not> o_cancelled maker" using Cons.prems(2) by (simp_all add: synced_def)
  show ?case
  proof (cases "0 < ?q")
    case False
    then have r: "remaining (ms_inc ms) \<le> 0" using mpos by linarith
    from False have "?q \<le> 0 \<or> o_cancelled maker" by linarith
    then have "match_tries 2 quiet ms maker = (0, False, maker, ms)"
      by (simp only: numeral_2_eq_2 match_tries.simps(2) Let_def if_True)
    with Cons.prems(1) r show ?thesis by (simp add: credit_rows_def)
  next
    case True
    let ?g = "\<lambda>h. (if h = o_order_hash maker then ?q else 0) + (if h = o_order_hash (ms_inc ms) then ?q else 0)"
    let ?ms1 = "\<lparr>ms_db = (ms_db ms)\<lparr>d_orders := credit_rows ?g (d_orders (ms_db ms))\<rparr>,
       ms_k = ms_k ms + 2, ms_inc = credit ?q (ms_inc ms)\<rparr>"
    note tries = quiet_tries [OF Cons.prems(2) refl True]
    obtain f ms2 where r: "record_fill s relay now ?q (credit ?q maker) ?ms1 = (f, ms2)"
      by (cases "record_fill s relay now ?q (credit ?q maker) ?ms1")
    note rec = record_fill_db [OF r]
    have sync2: "synced ms2 makers" using synced_step [OF Cons.prems(2)] rec by simp
    have rem2: "remaining (ms_inc ms2) = remaining (ms_inc ms) - ?q" using rec by simp
    have pos: "\<not> remaining (ms_inc ms) \<le> 0" using True by linarith
    have ff: "(\<lambda>h. ?g h + fill_of fs' h) = fill_of (f # fs')" for fs'
      using rec by (auto simp: fun_eq_iff)
    show ?thesis
    proof (cases "remaining (ms_inc ms2) \<le> 0")
      case stop: True
      with Cons.prems(1) tries r True have fs: "fs = [f]" "ms' = ms2" by simp_all
      have "credit_rows (fill_of [f]) (d_orders (ms_db ms)) = credit_rows ?g (d_orders (ms_db ms))"
        using ff [of "[]"] by simp
      with fs rec have rows: "d_orders (ms_db ms') = credit_rows (fill_of fs) (d_orders (ms_db ms))" by simp
      have "greedy (remaining (ms_inc ms)) (maker # makers) = [(maker, ?q)]"
        using stop pos rem2 by simp
      with rows fs rec show ?thesis by (simp del: fill_of_simps greedy.simps)
    next
      case False
      obtain fs' where l: "match_loop s relay now quiet ms2 makers = (fs', ms')" and fs: "fs = f # fs'"
        using Cons.prems(1) tries r True False by (auto split: prod.splits)
      note ih = Cons.IH [OF l sync2]
      have "d_orders (ms_db ms') = credit_rows (fill_of fs') (credit_rows ?g (d_orders (ms_db ms)))"
        using ih rec by simp
      also have "\<dots> = credit_rows (fill_of fs) (d_orders (ms_db ms))"
        unfolding credit_rows_add fs ff ..
      finally have rows: "d_orders (ms_db ms') = credit_rows (fill_of fs) (d_orders (ms_db ms))" .
      have "greedy (remaining (ms_inc ms)) (maker # makers) = (maker, ?q) # greedy (remaining (ms_inc ms2)) makers"
        using pos rem2 by simp
      with rows ih fs rec show ?thesis by (simp add: add.commute del: fill_of_simps greedy.simps)
    qed
  qed
qed

lemma match_loop_frame:
  "match_loop s relay now sched ms makers = (fs, ms') \<Longrightarrow>
     same_order (ms_inc ms') (ms_inc ms) \<and> d_markets (ms_db ms') = d_markets (ms_db ms) \<and>
     d_listings (ms_db ms') = d_listings (ms_db ms) \<and> d_emissions (ms_db ms') = d_emissions (ms_db ms)"
proof (induction makers arbitrary: ms fs)
  case Nil
  then show ?case by simp
next
  case (Cons maker makers)
  have step: "same_order (ms_inc ms1) (ms_inc ms) \<and> d_markets (ms_db ms1) = d_markets (ms_db ms) \<and>
     d_listings (ms_db ms1) = d_listings (ms_db ms) \<and> d_emissions (ms_db ms1) = d_emissions (ms_db ms)"
    if "match_tries 2 sched ms maker = (qty, returned, maker1, ms1)" for qty returned maker1 ms1
    using match_tries_frame [OF that] match_frame_tables [of ms ms1] by (simp add: match_frame_def)
  from Cons.prems show ?case
  proof (cases rule: match_loop_Cons_cases)
    case (stop qty returned maker1)
    then show ?thesis using step by blast
  next
    case (skip qty maker1 ms1)
    then show ?thesis using step [OF skip(1)] Cons.IH [OF skip(4)] by (auto intro: same_order_trans)
  next
    case (last qty maker1 ms1 f)
    then show ?thesis using step [OF last(1)] record_fill_db [OF last(3)] by simp
  next
    case (more qty maker1 ms1 f ms2 fs')
    then show ?thesis using step [OF more(1)] record_fill_db [OF more(3)] Cons.IH [OF more(5)]
      by (auto intro: same_order_trans)
  qed
qed

section \<open>Jobs and trades of a match\<close>

text \<open>The job of a fill, and the trade of a fill.\<close>

definition job_of_fill :: "string \<Rightarrow> int \<Rightarrow> fill \<Rightarrow> relay_job \<Rightarrow> bool" where
  "job_of_fill cid now f j =
     (j_status j = Pending \<and> j_taker_hash j = fl_taker_hash f \<and> j_maker_hash j = fl_maker_hash f \<and>
      j_fill_amount j = fl_amount f \<and> fl_relay_job_id f = Some (j_id j) \<and> j_matched_at j = now \<and>
      j_condition_id j = cid \<and> j_tx_hashes j = [] \<and> j_nonce j = None \<and> fl_status f = ''pending'')"

lemma match_loop_jobs:
  "match_loop s relay now sched ms makers = (fs, ms') \<Longrightarrow>
     if relay then \<exists>js. d_jobs (ms_db ms') = d_jobs (ms_db ms) @ js \<and>
        map j_id js = map (\<lambda>n. d_next_job (ms_db ms) + int n) [0..<length fs] \<and>
        d_next_job (ms_db ms') = d_next_job (ms_db ms) + int (length fs) \<and>
        list_all2 (job_of_fill (o_condition_id (ms_inc ms)) now) fs js
     else d_jobs (ms_db ms') = d_jobs (ms_db ms) \<and> d_next_job (ms_db ms') = d_next_job (ms_db ms) \<and>
        (\<forall>f \<in> set fs. fl_status f = ''offchain'' \<and> fl_relay_job_id f = None)"
proof (induction makers arbitrary: ms fs)
  case Nil
  then show ?case by simp
next
  case (Cons maker makers)
  have tries: "d_jobs (ms_db ms1) = d_jobs (ms_db ms) \<and> d_next_job (ms_db ms1) = d_next_job (ms_db ms) \<and>
      o_condition_id (ms_inc ms1) = o_condition_id (ms_inc ms)"
    if "match_tries 2 sched ms maker = (qty, returned, maker1, ms1)" for qty returned maker1 ms1
    using match_tries_frame [OF that] match_frame_tables [of ms ms1] by (auto simp: match_frame_def same_order_def)
  have rec: "if relay then \<exists>j. d_jobs (ms_db ms2) = d_jobs (ms_db ms1) @ [j] \<and> j_id j = d_next_job (ms_db ms1) \<and>
        d_next_job (ms_db ms2) = d_next_job (ms_db ms1) + 1 \<and> job_of_fill (o_condition_id (ms_inc ms1)) now f j
      else d_jobs (ms_db ms2) = d_jobs (ms_db ms1) \<and> d_next_job (ms_db ms2) = d_next_job (ms_db ms1) \<and>
        fl_status f = ''offchain'' \<and> fl_relay_job_id f = None"
    if "record_fill s relay now qty maker1 ms1 = (f, ms2)" for qty maker1 ms1 f ms2
    using that by (auto simp: record_fill_def enqueue_match_def job_of_fill_def Let_def)
  from Cons.prems show ?case
  proof (cases rule: match_loop_Cons_cases)
    case (stop qty returned maker1)
    with tries [OF stop(1)] show ?thesis by simp
  next
    case (skip qty maker1 ms1)
    note t = tries [OF skip(1), THEN conjunct1] tries [OF skip(1), THEN conjunct2, THEN conjunct1]
      tries [OF skip(1), THEN conjunct2, THEN conjunct2]
    from Cons.IH [OF skip(4)] show ?thesis unfolding t .
  next
    case (last qty maker1 ms1 f)
    with tries [OF last(1)] rec [OF last(3)] show ?thesis by (auto split: if_splits)
  next
    case (more qty maker1 ms1 f ms2 fs')
    have cid: "o_condition_id (ms_inc ms2) = o_condition_id (ms_inc ms)"
      using tries [OF more(1)] record_fill_db [OF more(3)] by simp
    show ?thesis
    proof (cases relay)
      case True
      obtain j where j: "d_jobs (ms_db ms2) = d_jobs (ms_db ms) @ [j]" "j_id j = d_next_job (ms_db ms)"
        "d_next_job (ms_db ms2) = d_next_job (ms_db ms) + 1" "job_of_fill (o_condition_id (ms_inc ms)) now f j"
        using rec [OF more(3)] tries [OF more(1)] True by auto
      obtain js where js: "d_jobs (ms_db ms') = d_jobs (ms_db ms2) @ js"
        "map j_id js = map (\<lambda>n. d_next_job (ms_db ms2) + int n) [0..<length fs']"
        "d_next_job (ms_db ms') = d_next_job (ms_db ms2) + int (length fs')"
        "list_all2 (job_of_fill (o_condition_id (ms_inc ms)) now) fs' js"
        using Cons.IH [OF more(5)] True cid by auto
      have ids: "map j_id (j # js) = map (\<lambda>n. d_next_job (ms_db ms) + int n) [0..<length fs]"
        using j js(2) more(6)
        by (simp add: upt_conv_Cons map_Suc_upt [symmetric] comp_def del: upt_Suc)
      show ?thesis using True j js more(6) ids by (auto intro!: exI [of _ "j # js"])
    next
      case False
      with rec [OF more(3)] tries [OF more(1)] Cons.IH [OF more(5)] more(6) show ?thesis by auto
    qed
  qed
qed

section \<open>The whole match\<close>

definition wf_book :: "dbase \<Rightarrow> order \<Rightarrow> bool" where
  "wf_book db incoming =
     (distinct (map o_id (d_orders db)) \<and> distinct (map o_order_hash (d_orders db)) \<and>
      incoming \<in> set (d_orders db) \<and> \<not> o_cancelled incoming)"

definition matched_makers :: "settings \<Rightarrow> int \<Rightarrow> dbase \<Rightarrow> order \<Rightarrow> order list" where
  "matched_makers s now db incoming = eligible_makers db incoming (now + s_relayer_min_expiry_seconds s)"

lemma eligible_makers_distinct: "distinct (map o_id (d_orders db)) \<Longrightarrow> distinct (eligible_makers db incoming mexp)"
  by (simp add: eligible_makers_def Let_def distinct_map)

lemma eligible_makers_sorted: "sorted (map (book_key (o_is_buy incoming)) (eligible_makers db incoming mexp))"
  by (simp add: eligible_makers_def Let_def)

lemma try_match_synced:
  assumes "wf_book db incoming"
  shows "synced \<lparr> ms_db = db, ms_k = 0, ms_inc = incoming \<rparr> (eligible_makers db incoming mexp)"
  using assms by (auto simp: synced_def wf_book_def eligible_makers_set eligible_makers_distinct crosses_def split: if_splits)

lemma try_match_open:
  "trading_halt_reason db (o_condition_id incoming) s now = None \<Longrightarrow>
   try_match L s now sched db incoming = match_loop s (relayer_ready L s) now sched
     \<lparr> ms_db = db, ms_k = 0, ms_inc = incoming \<rparr> (matched_makers s now db incoming)"
  by (simp add: try_match_def matched_makers_def Let_def)

lemma try_match_halted:
  "trading_halt_reason db (o_condition_id incoming) s now \<noteq> None \<Longrightarrow>
   try_match L s now sched db incoming = ([], \<lparr> ms_db = db, ms_k = 0, ms_inc = incoming \<rparr>)"
  by (simp add: try_match_def Let_def)

lemma try_match_quiet:
  assumes "wf_book db incoming" and "trading_halt_reason db (o_condition_id incoming) s now = None"
    and "try_match L s now quiet db incoming = (fs, ms')"
  shows "map (\<lambda>f. (fl_maker_hash f, fl_amount f)) fs =
       map (\<lambda>(m, q). (o_order_hash m, q)) (greedy (remaining incoming) (matched_makers s now db incoming))"
    and "d_orders (ms_db ms') = credit_rows (fill_of fs) (d_orders db)"
    and "ms_inc ms' = credit (\<Sum>f\<leftarrow>fs. fl_amount f) incoming"
  using quiet_loop [OF assms(3) [unfolded try_match_open [OF assms(2)]]] try_match_synced [OF assms(1)]
  by (simp_all add: matched_makers_def)

section \<open>Properties\<close>

text \<open>
  C16 (match_bounded_any_schedule). Whatever statements other transactions commit between those of a
  match (other matches, rollbacks, resyncs, cancels, new orders), no order ends filled below zero or
  past its amount.
\<close>

theorem match_bounded_any_schedule:
  assumes "orders_ok (d_orders db)" and "\<And>k. list_all stmt_ok (sched k)"
  shows "orders_ok (d_orders (ms_db (snd (try_match L s now sched db incoming))))"
  using assms by (rule order_match.match_keep)

text \<open>A book with two asks and an incoming bid for more than the first.\<close>

definition ex_book :: dbase where
  "ex_book = empty_db\<lparr>d_orders := [ex_order 1 False 500000 10, ex_order 2 False 400000 5, ex_order 3 True 600000 12],
     d_next_order := 4\<rparr>"

definition ex_incoming :: order where
  "ex_incoming = ex_order 3 True 600000 12"

text \<open>Between the read and the first UPDATE another match takes 3 of the best ask.\<close>

definition ex_sched :: sched where
  "ex_sched k = (if k = 0 then [Stmt_Take 2 3] else [])"

theorem match_bounded_any_schedule_witness:
  "map o_filled (d_orders (ms_db (snd (try_match ex_libs default_settings 100 ex_sched ex_book ex_incoming)))) = [10, 5, 12] \<and>
   orders_ok (d_orders (ms_db (snd (try_match ex_libs default_settings 100 ex_sched ex_book ex_incoming))))"
proof -
  have "orders_ok (d_orders ex_book)" by code_simp
  moreover have "list_all stmt_ok (ex_sched k)" for k by (simp add: ex_sched_def)
  ultimately have "orders_ok (d_orders (ms_db (snd (try_match ex_libs default_settings 100 ex_sched ex_book ex_incoming))))"
    by (rule match_bounded_any_schedule)
  moreover have "map o_filled (d_orders (ms_db (snd (try_match ex_libs default_settings 100 ex_sched ex_book ex_incoming)))) = [10, 5, 12]"
    by code_simp
  ultimately show ?thesis by simp
qed

text \<open>
  Every fill, under any interference, is against a live order of the book on
  the opposite side of the same market and outcome, of another maker and not about to expire; it is
  positive and priced at the maker's price, which is never worse than the incoming order's limit.
\<close>

theorem fills_within_limits:
  assumes "f \<in> set (fst (try_match L s now sched db incoming))"
  shows "\<exists>m \<in> set (d_orders db).
    fl_maker_hash f = o_order_hash m \<and> fl_taker_hash f = o_order_hash incoming \<and> 0 < fl_amount f \<and>
    fl_volume f = fl_amount f * o_price m div 1000000 \<and>
    fl_fee f = fl_volume f * s_fee_bps_taker s div 10000 \<and>
    o_condition_id m = o_condition_id incoming \<and> o_outcome m = o_outcome incoming \<and>
    o_is_buy m \<noteq> o_is_buy incoming \<and> o_maker m \<noteq> o_maker incoming \<and>
    \<not> o_cancelled m \<and> o_expiry m > now + s_relayer_min_expiry_seconds s \<and>
    (if o_is_buy incoming then o_price m \<le> o_price incoming else o_price incoming \<le> o_price m)"
proof (cases "trading_halt_reason db (o_condition_id incoming) s now")
  case None
  obtain fs ms' where eq: "match_loop s (relayer_ready L s) now sched
     \<lparr> ms_db = db, ms_k = 0, ms_inc = incoming \<rparr> (matched_makers s now db incoming) = (fs, ms')"
    by (metis prod.exhaust)
  have "f \<in> set fs" using assms by (simp add: try_match_open [OF None] eq)
  then obtain m where m: "m \<in> set (matched_makers s now db incoming)" "fill_of_maker s incoming m f"
    using match_loop_fills [OF eq, of incoming f] by auto
  then have "crosses incoming m (now + s_relayer_min_expiry_seconds s)" "m \<in> set (d_orders db)"
    by (simp_all add: matched_makers_def eligible_makers_set)
  with m(2) show ?thesis
    by (intro bexI [of _ m]) (auto simp: fill_of_maker_def crosses_def split: if_splits)
next
  case (Some r)
  with assms show ?thesis by (simp add: try_match_halted)
qed

theorem fills_within_limits_witness:
  "\<exists>m \<in> set (d_orders ex_book). o_price m \<le> 600000 \<and> \<not> o_is_buy m"
proof -
  have fills: "map fl_amount (fst (try_match ex_libs default_settings 100 ex_sched ex_book ex_incoming)) = [2, 10]"
    by code_simp
  obtain f where "f \<in> set (fst (try_match ex_libs default_settings 100 ex_sched ex_book ex_incoming))"
    using fills by (cases "fst (try_match ex_libs default_settings 100 ex_sched ex_book ex_incoming)") auto
  from fills_within_limits [OF this] show ?thesis by (auto simp: ex_incoming_def ex_order_def)
qed

text \<open>
  C3 (match_is_price_time_greedy). Run alone, a match is the reference allocation over the makers in
  price-time order, and it conserves fill: each order's \<open>filled\<close> rises by exactly the fills that name
  it, the incoming order's by their sum.
\<close>

theorem match_is_price_time_greedy:
  assumes "wf_book db incoming" and "trading_halt_reason db (o_condition_id incoming) s now = None"
    and "try_match L s now quiet db incoming = (fs, ms')" and "0 \<le> remaining incoming"
  shows "map (\<lambda>f. (fl_maker_hash f, fl_amount f)) fs =
       map (\<lambda>(m, q). (o_order_hash m, q)) (greedy (remaining incoming) (matched_makers s now db incoming)) \<and>
     sorted (map (book_key (o_is_buy incoming)) (matched_makers s now db incoming)) \<and>
     d_orders (ms_db ms') =
       map (\<lambda>r. r\<lparr>o_filled := o_filled r + fill_of fs (o_order_hash r)\<rparr>) (d_orders db) \<and>
     o_filled (ms_inc ms') = o_filled incoming + (\<Sum>f\<leftarrow>fs. fl_amount f) \<and>
     (\<Sum>f\<leftarrow>fs. fl_amount f) =
       min (remaining incoming) (\<Sum>m\<leftarrow>matched_makers s now db incoming. remaining m)"
proof (intro conjI)
  note q = try_match_quiet [OF assms(1-3)]
  let ?ms = "matched_makers s now db incoming"
  show "map (\<lambda>f. (fl_maker_hash f, fl_amount f)) fs = map (\<lambda>(m, q). (o_order_hash m, q)) (greedy (remaining incoming) ?ms)"
    by (rule q(1))
  show "sorted (map (book_key (o_is_buy incoming)) ?ms)"
    by (simp only: matched_makers_def eligible_makers_sorted)
  show "d_orders (ms_db ms') = map (\<lambda>r. r\<lparr>o_filled := o_filled r + fill_of fs (o_order_hash r)\<rparr>) (d_orders db)"
    using q(2) by (simp add: credit_rows_def credit_def)
  show "o_filled (ms_inc ms') = o_filled incoming + (\<Sum>f\<leftarrow>fs. fl_amount f)"
    using q(3) by simp
  have "map fl_amount fs = map snd (greedy (remaining incoming) ?ms)"
    using arg_cong [OF q(1), of "map snd"] by (simp add: comp_def case_prod_unfold)
  moreover have "\<forall>m \<in> set ?ms. 0 \<le> remaining m" by (simp add: matched_makers_def eligible_makers_set)
  ultimately show "(\<Sum>f\<leftarrow>fs. fl_amount f) = min (remaining incoming) (\<Sum>m\<leftarrow>?ms. remaining m)"
    using greedy_sum [of ?ms "remaining incoming"] assms(4) by simp
qed

lemma wf_ex_book: "wf_book ex_book ex_incoming"
  by code_simp

lemma ex_book_open: "trading_halt_reason ex_book (o_condition_id ex_incoming) default_settings 100 = None"
  by code_simp

theorem match_is_price_time_greedy_witness:
  "\<exists>fs ms'. try_match ex_libs default_settings 100 quiet ex_book ex_incoming = (fs, ms') \<and>
     map (\<lambda>f. (fl_maker_hash f, fl_amount f)) fs = [(''2'', 5), (''1'', 7)] \<and> o_filled (ms_inc ms') = 12"
proof -
  obtain fs ms' where eq: "try_match ex_libs default_settings 100 quiet ex_book ex_incoming = (fs, ms')"
    by (metis prod.exhaust)
  have nonneg: "0 \<le> remaining ex_incoming" by code_simp
  have m: "map (\<lambda>f. (fl_maker_hash f, fl_amount f)) fs =
      map (\<lambda>(m, q). (o_order_hash m, q))
        (greedy (remaining ex_incoming) (matched_makers default_settings 100 ex_book ex_incoming))"
    "o_filled (ms_inc ms') = o_filled ex_incoming + (\<Sum>f\<leftarrow>fs. fl_amount f)"
    "(\<Sum>f\<leftarrow>fs. fl_amount f) = min (remaining ex_incoming)
      (\<Sum>m\<leftarrow>matched_makers default_settings 100 ex_book ex_incoming. remaining m)"
    using match_is_price_time_greedy [OF wf_ex_book ex_book_open eq nonneg] by blast+
  have g: "map (\<lambda>(m, q). (o_order_hash m, q))
      (greedy (remaining ex_incoming) (matched_makers default_settings 100 ex_book ex_incoming)) = [(''2'', 5), (''1'', 7)]"
    by code_simp
  have s: "min (remaining ex_incoming) (\<Sum>m\<leftarrow>matched_makers default_settings 100 ex_book ex_incoming. remaining m) = 12"
    by code_simp
  have "o_filled ex_incoming = 0" by code_simp
  with m(2,3) s have "o_filled (ms_inc ms') = 12" by simp
  with eq m(1) g show ?thesis by auto
qed

lemma fill_of_nonneg: "\<forall>f \<in> set fs. 0 < fl_amount f \<Longrightarrow> 0 \<le> fill_of fs h"
  by (induction fs) auto

lemma fill_of_member:
  "\<forall>f \<in> set fs. 0 < fl_amount f \<Longrightarrow> f \<in> set fs \<Longrightarrow> fl_maker_hash f = h \<Longrightarrow> fl_amount f \<le> fill_of fs h"
proof (induction fs)
  case Nil
  then show ?case by simp
next
  case (Cons g fs)
  then show ?case using fill_of_nonneg [of fs h] by (cases "f = g") fastforce+
qed

text \<open>
  Run alone, a match leaves the incoming order filled or
  the book uncrossed against it: no eligible maker has anything left while the incoming order does.
\<close>

theorem match_uncrosses_book:
  assumes wf: "wf_book db incoming" and op: "trading_halt_reason db (o_condition_id incoming) s now = None"
    and m: "try_match L s now quiet db incoming = (fs, ms')"
    and left: "0 < remaining (ms_inc ms')"
  shows "eligible_makers (ms_db ms') (ms_inc ms') (now + s_relayer_min_expiry_seconds s) = []"
proof -
  let ?mexp = "now + s_relayer_min_expiry_seconds s"
  let ?ms = "matched_makers s now db incoming"
  note q = try_match_quiet [OF wf op m]
  have pos: "\<forall>f \<in> set fs. 0 < fl_amount f"
    using fills_within_limits [of _ L s now quiet db incoming] m by (metis fst_conv)
  have amounts: "map fl_amount fs = map snd (greedy (remaining incoming) ?ms)"
    using arg_cong [OF q(1), of "map snd"] by (simp add: comp_def case_prod_unfold)
  have "(\<Sum>x\<leftarrow>greedy (remaining incoming) ?ms. snd x) < remaining incoming"
    using left q(3) unfolding amounts [symmetric] by simp
  then have all: "greedy (remaining incoming) ?ms = map (\<lambda>m. (m, remaining m)) ?ms" by (rule greedy_all_used)
  have used: "remaining r \<le> fill_of fs (o_order_hash r)" if "r \<in> set ?ms" for r
  proof -
    have "(o_order_hash r, remaining r) \<in> set (map (\<lambda>f. (fl_maker_hash f, fl_amount f)) fs)"
      unfolding q(1) all using that by auto
    then obtain f where "f \<in> set fs" "fl_maker_hash f = o_order_hash r" "fl_amount f = remaining r" by auto
    with fill_of_member [OF pos] show ?thesis by metis
  qed
  have "False" if r': "r' \<in> set (eligible_makers (ms_db ms') (ms_inc ms') ?mexp)" for r'
  proof -
    obtain r where r: "r \<in> set (d_orders db)" "r' = credit (fill_of fs (o_order_hash r)) r"
      using r' q(2) by (auto simp: eligible_makers_set credit_rows_def)
    have "crosses incoming r ?mexp" "o_id r \<noteq> o_id incoming" "0 < remaining r - fill_of fs (o_order_hash r)"
      using r' r q(3) by (auto simp: eligible_makers_set crosses_def split: if_splits)
    moreover have "0 \<le> fill_of fs (o_order_hash r)" using pos by (rule fill_of_nonneg)
    ultimately have "r \<in> set ?ms" using r(1) by (simp add: matched_makers_def eligible_makers_set)
    from used [OF this] \<open>0 < remaining r - fill_of fs (o_order_hash r)\<close> show False by simp
  qed
  then show ?thesis by (metis list.set_intros(1) neq_Nil_conv)
qed

definition ex_big :: order where
  "ex_big = ex_order 3 True 600000 40"

theorem match_uncrosses_book_witness:
  "\<exists>fs ms'. try_match ex_libs default_settings 100 quiet (ex_book\<lparr>d_orders := [ex_order 1 False 500000 10, ex_big]\<rparr>) ex_big = (fs, ms') \<and>
     eligible_makers (ms_db ms') (ms_inc ms') 160 = []"
proof -
  let ?db = "ex_book\<lparr>d_orders := [ex_order 1 False 500000 10, ex_big]\<rparr>"
  obtain fs ms' where eq: "try_match ex_libs default_settings 100 quiet ?db ex_big = (fs, ms')"
    by (metis prod.exhaust)
  have wf: "wf_book ?db ex_big" by code_simp
  have op: "trading_halt_reason ?db (o_condition_id ex_big) default_settings 100 = None" by code_simp
  have "remaining (ms_inc (snd (try_match ex_libs default_settings 100 quiet ?db ex_big))) = 30" by code_simp
  then have left: "0 < remaining (ms_inc ms')" by (simp add: eq)
  have "now + s_relayer_min_expiry_seconds default_settings = now + 60" for now by (simp add: default_settings_def)
  with match_uncrosses_book [OF wf op eq left] eq show ?thesis by auto
qed

text \<open>
  Run alone, an order is only filled against when every eligible maker
  with a better price, or the same price and an older id, has been used up.
\<close>

theorem better_makers_filled_first:
  assumes wf: "wf_book db incoming" and op: "trading_halt_reason db (o_condition_id incoming) s now = None"
    and m: "try_match L s now quiet db incoming = (fs, ms')"
    and f: "f \<in> set fs" "fl_maker_hash f = o_order_hash worse" "worse \<in> set (matched_makers s now db incoming)"
    and better: "better \<in> set (matched_makers s now db incoming)"
      "book_key (o_is_buy incoming) better < book_key (o_is_buy incoming) worse"
  shows "\<exists>g \<in> set fs. fl_maker_hash g = o_order_hash better \<and> fl_amount g = remaining better"
proof -
  let ?ms = "matched_makers s now db incoming"
  let ?key = "book_key (o_is_buy incoming)"
  note q = try_match_quiet [OF wf op m]
  have "(o_order_hash worse, fl_amount f) \<in> set (map (\<lambda>f. (fl_maker_hash f, fl_amount f)) fs)"
    using f by force
  then obtain w where w: "(w, fl_amount f) \<in> set (greedy (remaining incoming) ?ms)" "o_order_hash w = o_order_hash worse"
    unfolding q(1) by auto
  then obtain xs ys where g: "greedy (remaining incoming) ?ms = xs @ (w, fl_amount f) # ys" by (meson split_list)
  then obtain us vs where ms: "?ms = us @ w # vs" "xs = map (\<lambda>u. (u, remaining u)) us"
    using greedy_prefix [OF g] by blast
  have "set ?ms \<subseteq> set (d_orders db)" by (auto simp: matched_makers_def eligible_makers_set)
  moreover have "w \<in> set ?ms" using ms(1) by simp
  ultimately have "w \<in> set (d_orders db)" "worse \<in> set (d_orders db)" using f(3) by auto
  then have "w = worse" using w(2) wf by (metis wf_book_def distinct_map inj_onD)
  have "better \<in> set us"
  proof (rule ccontr)
    assume "better \<notin> set us"
    with better(1) ms(1) have "better \<in> set (w # vs)" by auto
    moreover have "sorted (map ?key (w # vs))"
      using eligible_makers_sorted [of incoming db "now + s_relayer_min_expiry_seconds s"] ms(1)
      by (simp add: matched_makers_def sorted_append)
    ultimately have "?key w \<le> ?key better" by auto
    with better(2) \<open>w = worse\<close> show False by simp
  qed
  then have "(better, remaining better) \<in> set (greedy (remaining incoming) ?ms)" using g ms(2) by auto
  then have "(o_order_hash better, remaining better) \<in> set (map (\<lambda>f. (fl_maker_hash f, fl_amount f)) fs)"
    unfolding q(1) by force
  then show ?thesis by auto
qed

theorem better_makers_filled_first_witness:
  "\<exists>g \<in> set (fst (try_match ex_libs default_settings 100 quiet ex_book ex_incoming)).
     fl_maker_hash g = ''2'' \<and> fl_amount g = 5"
proof -
  obtain fs ms' where eq: "try_match ex_libs default_settings 100 quiet ex_book ex_incoming = (fs, ms')"
    by (metis prod.exhaust)
  have "map fl_maker_hash (fst (try_match ex_libs default_settings 100 quiet ex_book ex_incoming)) = [''2'', ''1'']"
    by code_simp
  moreover have hash: "o_order_hash (ex_order 1 False 500000 10) = ''1''"
    "o_order_hash (ex_order 2 False 400000 5) = ''2''" "remaining (ex_order 2 False 400000 5) = 5" by code_simp+
  ultimately have "''1'' \<in> set (map fl_maker_hash fs)" by (simp add: eq)
  then obtain f where f: "f \<in> set fs" "fl_maker_hash f = o_order_hash (ex_order 1 False 500000 10)"
    by (auto simp: hash)
  have makers: "matched_makers default_settings 100 ex_book ex_incoming = [ex_order 2 False 400000 5, ex_order 1 False 500000 10]"
    by code_simp
  have lt: "book_key (o_is_buy ex_incoming) (ex_order 2 False 400000 5) < book_key (o_is_buy ex_incoming) (ex_order 1 False 500000 10)"
    by code_simp
  have "\<exists>g \<in> set fs. fl_maker_hash g = o_order_hash (ex_order 2 False 400000 5) \<and>
      fl_amount g = remaining (ex_order 2 False 400000 5)"
    by (rule better_makers_filled_first [OF wf_ex_book ex_book_open eq f _ _ lt]) (simp_all add: makers)
  then show ?thesis by (simp add: eq hash)
qed

end
