(* ===== verification/Run.thy ===== *)
theory Run
  imports Preflight Matcher
begin

text \<open>
  The state a \<open>RelayerWorker\<close> (\<open>backend/app/relayer/worker.py\<close>) runs in and the computations over
  it. Each handler is a function from that state to an exception or a value and the new state. The
  session's view of the database (\<open>w_db\<close>) is apart from what is committed (\<open>w_saved\<close>), so that a
  commit, a rollback and a crash between two statements are what they are in the code.

  The SQLAlchemy session writes pending changes of the job instance before every query it runs, so a
  change of the instance (\<open>mod_job\<close>) is a change of its row in the session's view.
\<close>

section \<open>State\<close>

record tick_stats =
  st_reconciled :: int
  st_sent :: int
  st_bumped :: int
  st_confirmed :: int
  st_failed :: int
  st_cancelled :: int
  st_deferred :: int
  st_skipped :: string

definition no_stats :: tick_stats where
  "no_stats = \<lparr> st_reconciled = 0, st_sent = 0, st_bumped = 0, st_confirmed = 0, st_failed = 0,
     st_cancelled = 0, st_deferred = 0, st_skipped = [] \<rparr>"

text \<open>
  \<open>w_calls\<close> counts the calls that leave the process and \<open>w_clock\<close> the readings of the clock;
  \<open>w_sent\<close> is the history of what was handed to the node, each with the database committed then.
\<close>

record ws =
  w_db :: dbase
  w_saved :: dbase
  w_job :: relay_job
  w_nm :: nonce_manager
  w_calls :: nat
  w_clock :: nat
  w_stats :: tick_stats
  w_last_error :: string
  w_last_tick_at :: "int option"
  w_leader :: bool
  w_sent :: "(string \<times> dbase) list"

text \<open>The transaction dictionary of \<open>_tx\<close>.\<close>

datatype tx_fee = Tx_Gas_Price int | Tx_Type2 int int

record tx =
  tx_chain_id :: int
  tx_nonce :: int
  tx_to :: string
  tx_value :: int
  tx_data :: string
  tx_gas :: int
  tx_fee :: tx_fee

text \<open>
  What a worker is built with. \<open>v_sign\<close> is \<open>sign_transaction\<close> (raw transaction and hash, as
  hex), \<open>v_encode\<close> the ABI encoding of a \<open>matchOrders\<close> call, \<open>v_topic\<close> the keccak topic of
  \<open>OrderFilled\<close>; \<open>v_sched\<close> and \<open>v_claims\<close> are what other transactions commit: statements on
  orders during a match, and the status another worker has given this job by the time it is claimed.
  \<open>v_ping\<close> and \<open>v_lock\<close> are the database's answers to the leader connection.
\<close>

record wenv =
  v_libs :: libs
  v_settings :: settings
  v_chain :: chain
  v_account :: string
  v_now :: "nat \<Rightarrow> int"
  v_encode :: "order_fields \<Rightarrow> order_fields \<Rightarrow> int \<Rightarrow> string \<Rightarrow> string \<Rightarrow> rpc_exn + string"
  v_sign :: "tx \<Rightarrow> rpc_exn + string \<times> string"
  v_topic :: string
  v_sched :: "nat \<Rightarrow> sched"
  v_claims :: "nat \<Rightarrow> job_status option"
  v_postgres :: bool
  v_ping :: "nat \<Rightarrow> bool"
  v_lock :: "nat \<Rightarrow> rpc_exn + bool"

section \<open>Computations\<close>

type_synonym 'a wk = "ws \<Rightarrow> (rpc_exn + 'a) \<times> ws"

definition wk_return :: "'a \<Rightarrow> 'a wk" where
  "wk_return x = (\<lambda>st. (Inr x, st))"

definition wk_raise :: "rpc_exn \<Rightarrow> 'a wk" where
  "wk_raise e = (\<lambda>st. (Inl e, st))"

definition wk_bind :: "'a wk \<Rightarrow> ('a \<Rightarrow> 'b wk) \<Rightarrow> 'b wk" where
  "wk_bind m f = (\<lambda>st. case m st of (Inl e, st') \<Rightarrow> (Inl e, st') | (Inr x, st') \<Rightarrow> f x st')"

definition wk_then :: "unit wk \<Rightarrow> 'b wk \<Rightarrow> 'b wk" where
  "wk_then m n = wk_bind m (\<lambda>_. n)"

text \<open>\<open>try: .. except Exception as exc\<close>: the exception becomes a value. Changes made before it stay.\<close>

definition wk_try :: "'a wk \<Rightarrow> (rpc_exn + 'a) wk" where
  "wk_try m = (\<lambda>st. case m st of (r, st') \<Rightarrow> (Inr r, st'))"

definition wk_get :: "(ws \<Rightarrow> 'a) \<Rightarrow> 'a wk" where
  "wk_get f = (\<lambda>st. (Inr (f st), st))"

definition wk_mod :: "(ws \<Rightarrow> ws) \<Rightarrow> unit wk" where
  "wk_mod f = (\<lambda>st. (Inr (), f st))"

definition wk_rpc :: "'a rpc \<Rightarrow> 'a wk" where
  "wk_rpc m = (\<lambda>st. case m (w_calls st) of (r, k) \<Rightarrow> (r, st\<lparr>w_calls := k\<rparr>))"

definition wk_call :: "'a answer \<Rightarrow> 'a wk" where
  "wk_call f = wk_rpc (rpc_call f)"

definition wk_of :: "rpc_exn + 'a \<Rightarrow> 'a wk" where
  "wk_of r = (\<lambda>st. (r, st))"

text \<open>A \<open>ValueError\<close> of the parsing helpers; only its class is modelled, not its text.\<close>

definition value_error :: rpc_exn where
  "value_error = \<lparr>x_is_revert = False, x_type = ''ValueError'', x_text = []\<rparr>"

definition wk_opt :: "'a option \<Rightarrow> 'a wk" where
  "wk_opt x = (case x of None \<Rightarrow> wk_raise value_error | Some y \<Rightarrow> wk_return y)"

fun wk_each :: "('a \<Rightarrow> unit wk) \<Rightarrow> 'a list \<Rightarrow> unit wk" where
  "wk_each f [] = wk_return ()"
| "wk_each f (x # xs) = wk_then (f x) (wk_each f xs)"

section \<open>Session operations\<close>

definition wk_now :: "wenv \<Rightarrow> int wk" where
  "wk_now V = (\<lambda>st. (Inr (v_now V (w_clock st)), st\<lparr>w_clock := Suc (w_clock st)\<rparr>))"

definition put_job :: "relay_job \<Rightarrow> ws \<Rightarrow> ws" where
  "put_job j st = st\<lparr>w_job := j, w_db := (w_db st)\<lparr>d_jobs := put_row j_id j (d_jobs (w_db st))\<rparr>\<rparr>"

definition mod_job :: "(relay_job \<Rightarrow> relay_job) \<Rightarrow> unit wk" where
  "mod_job f = wk_mod (\<lambda>st. put_job (f (w_job st)) st)"

definition wk_commit :: "unit wk" where
  "wk_commit = wk_mod (\<lambda>st. st\<lparr>w_saved := w_db st\<rparr>)"

definition mod_stats :: "(tick_stats \<Rightarrow> tick_stats) \<Rightarrow> unit wk" where
  "mod_stats f = wk_mod (\<lambda>st. st\<lparr>w_stats := f (w_stats st)\<rparr>)"

definition deferred :: "unit wk" where
  "deferred = mod_stats (\<lambda>t. t\<lparr>st_deferred := st_deferred t + 1\<rparr>)"

definition mod_orders :: "(order list \<Rightarrow> order list) \<Rightarrow> unit wk" where
  "mod_orders f = wk_mod (\<lambda>st. st\<lparr>w_db := (w_db st)\<lparr>d_orders := f (d_orders (w_db st))\<rparr>\<rparr>)"

text \<open>\<open>update(Trade).where(Trade.relay_job_id == job.id).values(..)\<close>.\<close>

definition mod_trades :: "(trade \<Rightarrow> trade) \<Rightarrow> unit wk" where
  "mod_trades f = wk_mod (\<lambda>st. st\<lparr>w_db := (w_db st)\<lparr>d_trades :=
     update_where (\<lambda>t. t_relay_job_id t = Some (j_id (w_job st))) f (d_trades (w_db st))\<rparr>\<rparr>)"

definition wk_rollback :: "wenv \<Rightarrow> job_status \<Rightarrow> string \<Rightarrow> bool wk" where
  "wk_rollback V status reason = (\<lambda>st.
     case rollback_job (v_libs V) (w_db st) (w_job st) status reason of
       (ok, j, db) \<Rightarrow> (Inr ok, st\<lparr>w_job := j, w_db := db\<rparr>))"

definition wk_nm :: "wenv \<Rightarrow> (nonce_manager \<Rightarrow> (int \<times> nonce_manager) rpc) \<Rightarrow> int wk" where
  "wk_nm V f = wk_bind (wk_get w_nm) (\<lambda>nm. wk_bind (wk_rpc (f nm)) (\<lambda>(n, nm').
     wk_then (wk_mod (\<lambda>st. st\<lparr>w_nm := nm'\<rparr>)) (wk_return n)))"

definition resync :: "wenv \<Rightarrow> unit wk" where
  "resync V = wk_bind (wk_rpc (nm_resync (c_pending_nonce (v_chain V)) (v_account V)))
     (\<lambda>nm. wk_mod (\<lambda>st. st\<lparr>w_nm := nm\<rparr>))"

section \<open>Relations kept by a run\<close>

text \<open>
  A reflexive and transitive relation between the states before and after: a computation keeps it when
  every outcome, an exception included, is related to its start.
\<close>

locale run_order =
  fixes R :: "ws \<Rightarrow> ws \<Rightarrow> bool"
  assumes R_refl: "R st st"
    and R_trans: "R a b \<Longrightarrow> R b c \<Longrightarrow> R a c"
begin

definition keeps :: "'a wk \<Rightarrow> bool" where
  "keeps m = (\<forall>st. R st (snd (m st)))"

lemma keepsI: "(\<And>st. R st (snd (m st))) \<Longrightarrow> keeps m"
  by (simp add: keeps_def)

lemma keepsD: "keeps m \<Longrightarrow> m st = (r, st') \<Longrightarrow> R st st'"
  by (metis keeps_def snd_conv)

lemma keeps_return: "keeps (wk_return x)"
  by (simp add: keeps_def wk_return_def R_refl)

lemma keeps_raise: "keeps (wk_raise e)"
  by (simp add: keeps_def wk_raise_def R_refl)

lemma keeps_of: "keeps (wk_of r)"
  by (simp add: keeps_def wk_of_def R_refl)

lemma keeps_get: "keeps (wk_get f)"
  by (simp add: keeps_def wk_get_def R_refl)

lemma keeps_bind:
  assumes "keeps m" and "\<And>x. keeps (f x)" shows "keeps (wk_bind m f)"
proof (rule keepsI)
  fix st
  obtain r st1 where m: "m st = (r, st1)" by (cases "m st")
  have a: "R st st1" by (rule keepsD [OF assms(1) m])
  show "R st (snd (wk_bind m f st))"
  proof (cases r)
    case (Inl e)
    then show ?thesis using m a by (simp add: wk_bind_def)
  next
    case (Inr x)
    have "R st1 (snd (f x st1))" using assms(2) by (simp add: keeps_def)
    then have "R st (snd (f x st1))" by (rule R_trans [OF a])
    then show ?thesis using m Inr by (simp add: wk_bind_def)
  qed
qed

lemma keeps_then: "keeps m \<Longrightarrow> keeps n \<Longrightarrow> keeps (wk_then m n)"
  unfolding wk_then_def by (rule keeps_bind)

lemma keeps_try: "keeps m \<Longrightarrow> keeps (wk_try m)"
  by (simp add: keeps_def wk_try_def case_prod_beta)

lemma keeps_each: "(\<And>x. keeps (f x)) \<Longrightarrow> keeps (wk_each f xs)"
  by (induction xs) (simp_all add: keeps_return keeps_then)

lemma keeps_opt: "keeps (wk_opt x)"
  by (cases x) (simp_all add: wk_opt_def keeps_return keeps_raise)

lemma keeps_mod: "(\<And>st. R st (f st)) \<Longrightarrow> keeps (wk_mod f)"
  by (simp add: keeps_def wk_mod_def)

lemma keeps_if: "keeps m \<Longrightarrow> keeps n \<Longrightarrow> keeps (if b then m else n)"
  by simp

lemma keeps_sum: "(\<And>e. keeps (f e)) \<Longrightarrow> (\<And>x. keeps (g x)) \<Longrightarrow> keeps (case r of Inl e \<Rightarrow> f e | Inr x \<Rightarrow> g x)"
  by (cases r) simp_all

lemma keeps_option: "keeps m \<Longrightarrow> (\<And>x. keeps (g x)) \<Longrightarrow> keeps (case r of None \<Rightarrow> m | Some x \<Rightarrow> g x)"
  by (cases r) simp_all

lemma keeps_prod: "(\<And>x y. keeps (g x y)) \<Longrightarrow> keeps (case p of (x, y) \<Rightarrow> g x y)"
  by (cases p) simp

lemmas keeps_intros = keeps_return keeps_raise keeps_of keeps_get keeps_bind keeps_then keeps_try keeps_each
  keeps_opt keeps_if keeps_sum keeps_option keeps_prod

end

end
