(* ===== verification/Worker.thy ===== *)
theory Worker
  imports Run
begin

text \<open>
  The relay-job worker (\<open>backend/app/relayer/worker.py\<close>), handler by handler: reconciling what is
  in flight, sending what is pending, and the tick over both.
\<close>

section \<open>Helpers\<close>

definition b32 :: "string \<Rightarrow> string option" where
  "b32 h = from_hex (removeprefix_0x h)"

definition sig_of :: "string \<Rightarrow> string option" where
  "sig_of s = from_hex (strip0x s)"

text \<open>\<open>x or y\<close> and \<open>int(x or 0)\<close> on nullable integers.\<close>

definition py_or :: "int option \<Rightarrow> int \<Rightarrow> int" where
  "py_or x y = (case x of None \<Rightarrow> y | Some v \<Rightarrow> if v = 0 then y else v)"

text \<open>\<open>dict.fromkeys\<close> keeps the first occurrence of each key.\<close>

definition from_keys :: "'a list \<Rightarrow> 'a list" where
  "from_keys xs = rev (remdups (rev xs))"

definition hashes_of :: "relay_job \<Rightarrow> string list" where
  "hashes_of job = filter (\<lambda>h. h \<noteq> []) (from_keys (j_tx_hashes job @ [j_tx_hash job]))"

definition sender_of :: "wenv \<Rightarrow> string" where
  "sender_of V = py_lower (v_account V)"

definition orders_of :: "relay_job \<Rightarrow> dbase \<Rightarrow> order option \<times> order option" where
  "orders_of job db = (get_order (j_taker_hash job) db, get_order (j_maker_hash job) db)"

definition max_of :: "int list \<Rightarrow> int option" where
  "max_of xs = (case xs of [] \<Rightarrow> None | y # ys \<Rightarrow> Some (fold max ys y))"

definition in_flight_nonces :: "string \<Rightarrow> dbase \<Rightarrow> int list" where
  "in_flight_nonces sender db =
     List.map_filter j_nonce (filter (\<lambda>j. in_flight (j_status j) \<and> j_sender j = sender) (d_jobs db)) @
     List.map_filter e_nonce (filter (\<lambda>e. in_flight (e_status e) \<and> e_sender e = sender) (d_emissions db))"

definition nonce_floor :: "string \<Rightarrow> dbase \<Rightarrow> int option" where
  "nonce_floor sender db = map_option (\<lambda>t. t + 1) (max_of (in_flight_nonces sender db))"

definition make_tx :: "wenv \<Rightarrow> int \<Rightarrow> string \<Rightarrow> int \<Rightarrow> string \<Rightarrow> int \<Rightarrow> fee_quote \<Rightarrow> tx" where
  "make_tx V nonce to chain_id data gas q =
     \<lparr> tx_chain_id = chain_id, tx_nonce = nonce, tx_to = lib_checksum (v_libs V) to, tx_value = 0,
       tx_data = data, tx_gas = gas,
       tx_fee = (case q_legacy_gas_price q of Some gp \<Rightarrow> Tx_Gas_Price gp
                 | None \<Rightarrow> Tx_Type2 (q_max_fee q) (q_tip q)) \<rparr>"

definition stored_quote :: "relay_job \<Rightarrow> fee_quote" where
  "stored_quote job =
     (case j_max_priority_fee job of
        None \<Rightarrow> (let gp = py_or (j_max_fee job) 0 in \<lparr>q_max_fee = gp, q_tip = gp, q_legacy_gas_price = Some gp\<rparr>)
      | Some tip \<Rightarrow> \<lparr>q_max_fee = py_or (j_max_fee job) 0, q_tip = tip, q_legacy_gas_price = None\<rparr>)"

definition store_quote :: "fee_quote \<Rightarrow> relay_job \<Rightarrow> relay_job" where
  "store_quote q job = job\<lparr>j_max_fee := Some (q_max_fee q),
     j_max_priority_fee := (if q_legacy_gas_price q \<noteq> None then None else Some (q_tip q))\<rparr>"

abbreviation set_error :: "string \<Rightarrow> unit wk" where
  "set_error text \<equiv> mod_job (\<lambda>j. j\<lparr>j_last_error := text\<rparr>)"

definition redacted :: "wenv \<Rightarrow> rpc_exn \<Rightarrow> string" where
  "redacted V e = rpc_reason (lib_redact (v_libs V)) e"

text \<open>\<open>_broadcast\<close>: the hex is decoded inside the \<open>try\<close>; what goes out is recorded.\<close>

definition broadcast :: "wenv \<Rightarrow> string \<Rightarrow> (rpc_kind option \<times> string) wk" where
  "broadcast V raw_hex =
     wk_bind (wk_try (wk_bind (wk_opt (sig_of raw_hex)) (\<lambda>raw.
        wk_then (wk_mod (\<lambda>st. st\<lparr>w_sent := w_sent st @ [(raw_hex, w_saved st)]\<rparr>))
          (wk_call (c_send_raw (v_chain V) raw))))) (\<lambda>r.
     case r of Inr u \<Rightarrow> wk_return (None, [])
     | Inl e \<Rightarrow> wk_return (Some (classify_rpc_error e), take 500 (lib_redact (v_libs V) (x_text e))))"

definition back_to_pending :: "wenv \<Rightarrow> string \<Rightarrow> int \<Rightarrow> unit wk" where
  "back_to_pending V reason delay =
     wk_bind (wk_now V) (\<lambda>now. mod_job (\<lambda>j. j\<lparr>j_status := Pending, j_nonce := None, j_raw_tx := [],
       j_nonce_consumed_at := None, j_next_attempt_at := now + delay,
       j_last_error := take 2000 (lib_redact (v_libs V) reason)\<rparr>))"

definition count_failed :: "unit wk" where
  "count_failed = mod_stats (\<lambda>t. t\<lparr>st_failed := st_failed t + 1\<rparr>)"

definition retry_or_fail :: "wenv \<Rightarrow> string \<Rightarrow> unit wk" where
  "retry_or_fail V reason =
     wk_then (mod_job (\<lambda>j. j\<lparr>j_attempts := j_attempts j + 1\<rparr>))
     (wk_bind (wk_get w_job) (\<lambda>job.
      if j_attempts job \<ge> s_relayer_max_attempts (v_settings V)
      then wk_bind (wk_rollback V Failed (''gave up: '' @ reason)) (\<lambda>ok. if ok then count_failed else wk_return ())
      else wk_bind (wk_now V) (\<lambda>now.
        wk_then (mod_job (\<lambda>j. j\<lparr>j_last_error := take 2000 (lib_redact (v_libs V) reason),
            j_next_attempt_at := now + s_relayer_retry_backoff_seconds (v_settings V) * j_attempts j\<rparr>))
          deferred)))"

definition is_fill_log :: "wenv \<Rightarrow> log \<Rightarrow> relay_job \<Rightarrow> string \<Rightarrow> bool" where
  "is_fill_log V lg job exchange =
     (let topics = map py_lower (lg_topics lg) in
      py_lower (lg_address lg) = py_lower exchange \<and> length topics \<ge> 3 \<and>
      topics ! 0 = py_lower (v_topic V) \<and> topics ! 1 = py_lower (j_taker_hash job) \<and>
      topics ! 2 = py_lower (j_maker_hash job))"

definition has_fill_log :: "wenv \<Rightarrow> receipt \<Rightarrow> relay_job \<Rightarrow> string \<Rightarrow> bool" where
  "has_fill_log V rc job exchange =
     (case rc_logs rc of None \<Rightarrow> True | Some logs \<Rightarrow> list_ex (\<lambda>lg. is_fill_log V lg job exchange) logs)"

section \<open>Receipts and fills on chain\<close>

fun find_receipt :: "wenv \<Rightarrow> string list \<Rightarrow> (receipt \<times> string) option wk" where
  "find_receipt V [] = wk_return None"
| "find_receipt V (h # hs) = wk_bind (wk_call (c_get_receipt (v_chain V) h)) (\<lambda>r.
     case r of Some rc \<Rightarrow> wk_return (Some (rc, h)) | None \<Rightarrow> find_receipt V hs)"

definition confirm :: "string \<Rightarrow> int \<Rightarrow> int \<Rightarrow> unit wk" where
  "confirm mined bn now =
     wk_then (mod_job (\<lambda>j. j\<lparr>j_status := Confirmed, j_tx_hash := mined, j_block_number := Some bn,
        j_confirmed_at := Some now, j_nonce_consumed_at := None, j_last_error := []\<rparr>))
     (wk_then (mod_trades (\<lambda>t. t\<lparr>t_status := ''confirmed'', t_tx_hash := mined, t_block_number := Some bn\<rparr>))
       (mod_stats (\<lambda>t. t\<lparr>st_confirmed := st_confirmed t + 1\<rparr>)))"

definition culprits :: "string list \<Rightarrow> order \<Rightarrow> order \<Rightarrow> order list" where
  "culprits reasons taker maker =
     (if list_ex (\<lambda>r. r = ''market resolved'') reasons then [taker, maker]
      else (if list_ex (\<lambda>r. startswith r ''taker '' \<and> r \<noteq> ''taker overfill'') reasons then [taker] else []) @
           (if list_ex (\<lambda>r. startswith r ''maker '' \<and> r \<noteq> ''maker overfill'') reasons then [maker] else []))"

definition live_fill :: "string \<Rightarrow> relay_job list \<Rightarrow> int" where
  "live_fill h jobs = (\<Sum>j\<leftarrow>jobs. if live (j_status j) \<and> (j_taker_hash j = h \<or> j_maker_hash j = h)
     then j_fill_amount j else 0)"

definition resync_filled :: "wenv \<Rightarrow> order \<Rightarrow> order wk" where
  "resync_filled V ord =
     wk_bind (wk_try (wk_bind (wk_opt (b32 (o_order_hash ord))) (\<lambda>h. wk_call (c_ex_filled (v_chain V) h)))) (\<lambda>r.
     case r of Inl e \<Rightarrow> wk_return ord
     | Inr onchain \<Rightarrow>
         wk_then (wk_mod (\<lambda>st. st\<lparr>w_db := (w_db st)\<lparr>d_orders := exec_stmt
             (Stmt_Resync (o_id ord) (onchain + live_fill (o_order_hash ord) (d_jobs (w_db st)))) (d_orders (w_db st))\<rparr>\<rparr>))
           (wk_get (\<lambda>st. case get_row o_id (o_id ord) (d_orders (w_db st)) of
              None \<Rightarrow> ord | Some r \<Rightarrow> ord\<lparr>o_filled := o_filled r\<rparr>)))"

definition rematch :: "wenv \<Rightarrow> order \<Rightarrow> unit wk" where
  "rematch V taker = wk_bind (wk_now V) (\<lambda>now. wk_mod (\<lambda>st.
     st\<lparr>w_db := ms_db (snd (try_match (v_libs V) (v_settings V) now (v_sched V (w_calls st)) (w_db st) taker))\<rparr>))"

definition retire_failed_side :: "wenv \<Rightarrow> order \<Rightarrow> order \<Rightarrow> string list \<Rightarrow> unit wk" where
  "retire_failed_side V taker maker reasons =
     wk_bind (if ''taker overfill'' \<in> set reasons then resync_filled V taker else wk_return taker) (\<lambda>taker.
     wk_bind (if ''maker overfill'' \<in> set reasons then resync_filled V maker else wk_return maker) (\<lambda>maker.
     let bad = culprits reasons taker maker in
     wk_then (wk_each (\<lambda>ord. mod_orders (exec_stmt (Stmt_Cancel (o_id ord)))) bad)
       (if bad \<noteq> [] \<and> \<not> taker \<in> set bad \<and> \<not> o_cancelled taker \<and> o_filled taker < o_amount taker
        then rematch V taker else wk_return ())))"

definition job_preflight :: "wenv \<Rightarrow> order \<Rightarrow> order \<Rightarrow> string \<Rightarrow> int \<Rightarrow> committed option \<Rightarrow> string list wk" where
  "job_preflight V taker maker exchange block_ts com =
     wk_bind (wk_get w_job) (\<lambda>job.
     wk_bind (wk_opt (from_model (v_libs V) taker)) (\<lambda>tf.
     wk_bind (wk_opt (from_model (v_libs V) maker)) (\<lambda>mf.
     wk_bind (wk_opt (b32 (j_taker_hash job))) (\<lambda>th.
     wk_bind (wk_opt (b32 (j_maker_hash job))) (\<lambda>mh.
     wk_rpc (preflight_match (v_chain V) tf mf th mh (j_fill_amount job) exchange block_ts (v_settings V) com))))))"

definition retire_after_revert :: "wenv \<Rightarrow> string \<Rightarrow> unit wk" where
  "retire_after_revert V exchange =
     wk_bind (wk_get (\<lambda>st. orders_of (w_job st) (w_db st))) (\<lambda>(t, m).
     case t of None \<Rightarrow> wk_return () | Some taker \<Rightarrow> (case m of None \<Rightarrow> wk_return () | Some maker \<Rightarrow>
       if o_cancelled taker \<or> o_cancelled maker then wk_return ()
       else wk_bind (wk_try (wk_bind (wk_call (c_latest_block (v_chain V))) (\<lambda>b.
              job_preflight V taker maker exchange (bl_timestamp b) None))) (\<lambda>r.
            case r of Inl e \<Rightarrow> wk_return ()
            | Inr reasons \<Rightarrow> if reasons \<noteq> [] then retire_failed_side V taker maker reasons else wk_return ())))"

definition mark_sent :: "int \<Rightarrow> relay_job \<Rightarrow> relay_job" where
  "mark_sent now j = j\<lparr>j_status := Sent, j_sent_at := Some (py_or (j_sent_at j) now)\<rparr>"

definition apply_receipt :: "wenv \<Rightarrow> receipt \<Rightarrow> string \<Rightarrow> string \<Rightarrow> int \<Rightarrow> unit wk" where
  "apply_receipt V rc mined exchange now =
     wk_bind (wk_get w_job) (\<lambda>job.
     if rc_status rc = 1 \<and> has_fill_log V rc job exchange
     then wk_then (if j_status job = Sending then mod_job (mark_sent now) else wk_return ())
       (let need = max 1 (s_relayer_confirmations (v_settings V)) in
        wk_bind (if need > 1
                 then wk_bind (wk_call (c_latest_block (v_chain V))) (\<lambda>latest.
                        wk_return (bl_number latest - rc_block rc + 1 < need))
                 else wk_return False) (\<lambda>early.
        if early then wk_return () else confirm mined (rc_block rc) now))
     else
       wk_bind (wk_rollback V Failed ((if rc_status rc \<noteq> 1 then ''reverted'' else ''no matching OrderFilled log'')
           @ '' in '' @ mined)) (\<lambda>rolled.
       wk_then (mod_job (\<lambda>j. j\<lparr>j_tx_hash := mined, j_block_number := Some (rc_block rc)\<rparr>))
       (wk_then (mod_trades (\<lambda>t. t\<lparr>t_tx_hash := mined\<rparr>))
       (wk_then count_failed
         (if rolled then retire_after_revert V exchange else wk_return ())))))"

datatype verdict = Landed string int | Maybe | Absent

definition accounted_fill :: "int \<Rightarrow> string \<Rightarrow> relay_job list \<Rightarrow> int" where
  "accounted_fill i h jobs = (\<Sum>j\<leftarrow>jobs. if j_status j = Confirmed \<and> j_id j \<noteq> i \<and>
     (j_taker_hash j = h \<or> j_maker_hash j = h) then j_fill_amount j else 0)"

fun unexplained :: "wenv \<Rightarrow> relay_job \<Rightarrow> string list \<Rightarrow> verdict wk" where
  "unexplained V job [] = wk_return Maybe"
| "unexplained V job (h # hs) =
     wk_bind (wk_opt (b32 h)) (\<lambda>hb.
     wk_bind (wk_call (c_ex_filled (v_chain V) hb)) (\<lambda>onchain.
     wk_bind (wk_get (\<lambda>st. accounted_fill (j_id job) h (d_jobs (w_db st)))) (\<lambda>accounted.
     if onchain - accounted < j_fill_amount job then wk_return Absent else unexplained V job hs)))"

definition our_fill_log :: "wenv \<Rightarrow> relay_job \<Rightarrow> string \<Rightarrow> log list \<Rightarrow> log option" where
  "our_fill_log V job exchange logs =
     List.find (\<lambda>lg. py_lower (lg_tx_hash lg) \<in> set (map py_lower (hashes_of job)) \<and> is_fill_log V lg job exchange) logs"

definition fill_verdict :: "wenv \<Rightarrow> string \<Rightarrow> verdict wk" where
  "fill_verdict V exchange =
     wk_bind (wk_get w_job) (\<lambda>job.
     wk_bind (case j_first_sent_block job of
         Some b \<Rightarrow> wk_return b
       | None \<Rightarrow> wk_bind (wk_call (c_latest_block (v_chain V))) (\<lambda>latest.
           wk_return (max 0 (bl_number latest - s_relayer_log_lookback_blocks (v_settings V))))) (\<lambda>from_block.
     wk_bind (wk_call (c_get_logs (v_chain V) exchange
         [py_lower (v_topic V), py_lower (j_taker_hash job), py_lower (j_maker_hash job)] from_block)) (\<lambda>logs.
     case our_fill_log V job exchange logs of
       Some lg \<Rightarrow> wk_return (Landed (py_lower (lg_tx_hash lg)) (py_or (lg_block lg) 0))
     | None \<Rightarrow> unexplained V job [j_taker_hash job, j_maker_hash job])))"

section \<open>Reconciling a job in flight\<close>

definition nonce_consumed :: "wenv \<Rightarrow> string \<Rightarrow> string list \<Rightarrow> int \<Rightarrow> unit wk" where
  "nonce_consumed V exchange hashes now =
     wk_bind (wk_try (find_receipt V hashes)) (\<lambda>r.
     case (case r of Inl e \<Rightarrow> None | Inr found \<Rightarrow> found) of
       Some (rc, mined) \<Rightarrow> apply_receipt V rc mined exchange now
     | None \<Rightarrow> wk_then (mod_job (\<lambda>j. (mark_sent now j)\<lparr>
           j_nonce_consumed_at := Some (py_or (j_nonce_consumed_at j) now),
           j_last_error := ''nonce consumed; awaiting receipt''\<rparr>)) deferred)"

definition rebroadcast :: "wenv \<Rightarrow> string \<Rightarrow> string list \<Rightarrow> int \<Rightarrow> unit wk" where
  "rebroadcast V exchange hashes now =
     (let s = v_settings V in
      wk_bind (wk_get w_job) (\<lambda>job.
      if now < j_next_attempt_at job then wk_return ()
      else wk_bind (broadcast V (j_raw_tx job)) (\<lambda>(kind, err).
        if kind \<in> {None, Some Known, Some Underpriced}
        then mod_job (\<lambda>j. (mark_sent now j)\<lparr>j_next_attempt_at := 0, j_last_error := []\<rparr>)
        else if kind = Some Nonce_Low
        then wk_then (nonce_consumed V exchange hashes now) (resync V)
        else if kind = Some Insufficient_Funds
        then wk_then (mod_job (\<lambda>j. j\<lparr>j_last_error := ''relayer balance low'',
               j_next_attempt_at := now + s_relayer_retry_backoff_seconds s\<rparr>)) deferred
        else wk_then (mod_job (\<lambda>j. j\<lparr>j_attempts := j_attempts j + 1,
               j_next_attempt_at := now + s_relayer_retry_backoff_seconds s * max 1 (j_attempts j + 1)\<rparr>))
          (wk_then (mod_job (\<lambda>j. if j_attempts j \<ge> s_relayer_max_attempts s
               then (mark_sent now j)\<lparr>j_last_error := take 2000 (''stuck: rebroadcast failing: '' @ err)\<rparr>
               else j\<lparr>j_last_error := take 2000 (''rebroadcast: '' @ err)\<rparr>))
            deferred))))"

definition settle_consumed :: "wenv \<Rightarrow> string \<Rightarrow> int \<Rightarrow> unit wk" where
  "settle_consumed V exchange now =
     (let s = v_settings V in
      wk_bind (wk_get w_job) (\<lambda>job.
      if now < py_or (j_nonce_consumed_at job) 0 + s_relayer_resubmit_after_seconds s then wk_return ()
      else wk_bind (wk_try (wk_call (c_latest_nonce (v_chain V)
               (if j_sender job \<noteq> [] then j_sender job else sender_of V)))) (\<lambda>r.
        case r of
          Inl e \<Rightarrow> wk_then (set_error (take 2000 (''nonce check: '' @ redacted V e))) deferred
        | Inr latest \<Rightarrow>
            if (case j_nonce job of None \<Rightarrow> True | Some n \<Rightarrow> latest \<le> n)
            then mod_job (\<lambda>j. j\<lparr>j_nonce_consumed_at := None, j_sent_at := Some now, j_last_error := []\<rparr>)
            else wk_bind (wk_try (fill_verdict V exchange)) (\<lambda>v.
              case v of
                Inl e \<Rightarrow> wk_then (set_error (take 2000 (''fill check: '' @ redacted V e))) deferred
              | Inr (Landed h bn) \<Rightarrow> confirm h bn now
              | Inr Maybe \<Rightarrow> wk_then (mod_job (\<lambda>j. j\<lparr>j_nonce_consumed_at := Some now,
                    j_last_error := ''stuck: fill may have landed; awaiting receipt''\<rparr>)) deferred
              | Inr Absent \<Rightarrow> wk_then (back_to_pending V ''nonce consumed by another tx; resending'' 0)
                    (wk_then (resync V) deferred)))))"

text \<open>\<open>sign_match\<close>: the calldata is encoded and signed under a nonce; the result is raw hex and hash.\<close>

definition sign_match :: "wenv \<Rightarrow> order \<Rightarrow> order \<Rightarrow> string \<Rightarrow> int \<Rightarrow> string wk" where
  "sign_match V taker maker exchange fill =
     wk_bind (wk_opt (from_model (v_libs V) taker)) (\<lambda>tf.
     wk_bind (wk_opt (from_model (v_libs V) maker)) (\<lambda>mf.
     wk_bind (wk_opt (sig_of (o_signature taker))) (\<lambda>ts.
     wk_bind (wk_opt (sig_of (o_signature maker))) (\<lambda>ms.
     wk_of (v_encode V tf mf fill ts ms)))))"

definition record_bump :: "string \<Rightarrow> string \<Rightarrow> fee_quote \<Rightarrow> relay_job \<Rightarrow> relay_job" where
  "record_bump raw h q j = (store_quote q j)\<lparr>j_raw_tx := raw, j_tx_hash := h, j_tx_hashes := j_tx_hashes j @ [h],
     j_attempts := j_attempts j + 1\<rparr>"

definition bump_outcome :: "wenv \<Rightarrow> string \<Rightarrow> string list \<Rightarrow> rpc_kind option \<Rightarrow> string \<Rightarrow> unit wk" where
  "bump_outcome V exchange hashes kind err =
     (if kind \<in> {None, Some Known} then set_error []
      else if kind = Some Underpriced then set_error ''bump underpriced; will bump again''
      else if kind = Some Nonce_Low
      then wk_bind (wk_now V) (\<lambda>now. wk_then (nonce_consumed V exchange hashes now) (resync V))
      else set_error (take 2000 (''bump broadcast: '' @ err)))"

definition bump_job :: "wenv \<Rightarrow> string \<Rightarrow> int \<Rightarrow> string list \<Rightarrow> unit wk" where
  "bump_job V exchange chain_id prior =
     wk_bind (wk_get w_job) (\<lambda>job.
     wk_bind (wk_get (\<lambda>st. orders_of job (w_db st))) (\<lambda>(t, m).
     case (t, m, j_nonce job) of (Some taker, Some maker, Some nonce) \<Rightarrow>
       (if py_or (j_gas_limit job) 0 = 0 then set_error ''stuck: cannot rebuild tx''
        else wk_bind (wk_try (wk_call (c_latest_block (v_chain V)))) (\<lambda>r.
          case r of
            Inl e \<Rightarrow> wk_then (set_error (take 2000 (''bump: '' @ redacted V e))) deferred
          | Inr b \<Rightarrow> (case bump_fees (stored_quote job) (v_settings V) (bl_base_fee b) of
              None \<Rightarrow> set_error ''stuck: fee cap reached''
            | Some q \<Rightarrow>
                wk_bind (sign_match V taker maker exchange (j_fill_amount job)) (\<lambda>data.
                wk_bind (wk_of (v_sign V (make_tx V nonce exchange chain_id data (py_or (j_gas_limit job) 0) q))) (\<lambda>(raw, h0).
                let h = py_lower h0 in
                wk_then (mod_job (record_bump raw h q))
                (wk_bind (wk_now V) (\<lambda>now.
                wk_then (mod_job (\<lambda>j. j\<lparr>j_sent_at := Some now\<rparr>))
                (wk_then wk_commit
                (wk_bind (broadcast V raw) (\<lambda>(kind, err).
                wk_then (mod_stats (\<lambda>t. t\<lparr>st_bumped := st_bumped t + 1\<rparr>))
                  (bump_outcome V exchange (prior @ [h]) kind err)))))))))))
     | _ \<Rightarrow> set_error ''stuck: cannot rebuild tx''))"

definition keep_alive :: "wenv \<Rightarrow> string \<Rightarrow> string list \<Rightarrow> int \<Rightarrow> unit wk" where
  "keep_alive V exchange hashes now =
     (let s = v_settings V in
      wk_then (mod_job (\<lambda>j. if startswith (j_last_error j) ''stuck'' then j else j\<lparr>j_last_error := ''stuck: max attempts''\<rparr>))
      (wk_bind (wk_get w_job) (\<lambda>job.
       if j_raw_tx job \<noteq> [] \<and> now - py_or (j_sent_at job) 0 \<ge> s_relayer_resubmit_after_seconds s \<and>
          now \<ge> j_next_attempt_at job
       then wk_then (mod_job (\<lambda>j. j\<lparr>j_next_attempt_at := now + s_relayer_resubmit_after_seconds s\<rparr>))
         (wk_bind (broadcast V (j_raw_tx job)) (\<lambda>(kind, err).
          if kind = Some Nonce_Low then wk_then (nonce_consumed V exchange hashes now) (resync V)
          else wk_return ()))
       else wk_return ())))"

definition reconcile :: "wenv \<Rightarrow> string \<Rightarrow> int \<Rightarrow> unit wk" where
  "reconcile V exchange chain_id =
     wk_bind (wk_get w_job) (\<lambda>job.
     let hashes = hashes_of job in
     wk_bind (wk_try (find_receipt V hashes)) (\<lambda>r.
     case r of
       Inl e \<Rightarrow> wk_then (set_error (take 2000 (''receipt lookup: '' @ redacted V e))) deferred
     | Inr found \<Rightarrow>
         wk_then (mod_stats (\<lambda>t. t\<lparr>st_reconciled := st_reconciled t + 1\<rparr>))
         (wk_bind (wk_now V) (\<lambda>now.
          case found of
            Some (rc, mined) \<Rightarrow> apply_receipt V rc mined exchange now
          | None \<Rightarrow>
              if j_status job = Sending then rebroadcast V exchange hashes now
              else if j_nonce_consumed_at job \<noteq> None then settle_consumed V exchange now
              else if j_attempts job \<ge> s_relayer_max_attempts (v_settings V) then keep_alive V exchange hashes now
              else if now - py_or (j_sent_at job) 0 < s_relayer_resubmit_after_seconds (v_settings V) then wk_return ()
              else bump_job V exchange chain_id hashes))))"

section \<open>Sending a pending job\<close>

fun commit_rows :: "libs \<Rightarrow> dbase \<Rightarrow> relay_job list \<Rightarrow> committed \<Rightarrow> committed option" where
  "commit_rows L db [] c = Some c"
| "commit_rows L db (j # js) c =
     (case (get_order (j_taker_hash j) db, get_order (j_maker_hash j) db) of
        (Some t, Some m) \<Rightarrow>
          (case (from_model L t, from_model L m) of
             (Some tf, Some mf) \<Rightarrow>
               commit_rows L db js (add_match c tf mf (j_taker_hash j) (j_maker_hash j) (j_fill_amount j))
           | _ \<Rightarrow> None)
      | _ \<Rightarrow> commit_rows L db js c)"

definition committed_of :: "libs \<Rightarrow> relay_job \<Rightarrow> dbase \<Rightarrow> committed option" where
  "committed_of L job db =
     commit_rows L db (filter (\<lambda>j. in_flight (j_status j) \<and> j_id j \<noteq> j_id job) (d_jobs db)) no_commitments"

definition matched_after_halt :: "settings \<Rightarrow> int \<Rightarrow> relay_job \<Rightarrow> dbase \<Rightarrow> bool" where
  "matched_after_halt s now job db =
     (if trading_halt_reason db (j_condition_id job) s now \<noteq> Some Market_Closed then False
      else (case get_market (norm_cid (j_condition_id job)) db of
              None \<Rightarrow> False
            | Some m \<Rightarrow> (case halts_at m s of None \<Rightarrow> False | Some t \<Rightarrow> j_matched_at job \<ge> t)))"

fun join_with :: "string \<Rightarrow> string list \<Rightarrow> string" where
  "join_with sep [] = []"
| "join_with sep [x] = x"
| "join_with sep (x # y # xs) = x @ sep @ join_with sep (y # xs)"

text \<open>What the worker does with the node's answer to the first broadcast; it holds the nonce lock.\<close>

definition send_outcome :: "wenv \<Rightarrow> string \<Rightarrow> int \<Rightarrow> rpc_kind option \<Rightarrow> string \<Rightarrow> unit wk" where
  "send_outcome V exchange nonce kind err =
     (let s = v_settings V in
      if kind \<in> {None, Some Known}
      then wk_bind (wk_now V) (\<lambda>now.
        wk_then (mod_job (\<lambda>j. j\<lparr>j_status := Sent, j_sent_at := Some now, j_attempts := j_attempts j + 1, j_last_error := []\<rparr>))
          (mod_stats (\<lambda>t. t\<lparr>st_sent := st_sent t + 1\<rparr>)))
      else if kind = Some Nonce_Low
      then wk_then (resync V) (wk_bind (wk_get w_job) (\<lambda>job. wk_bind (wk_now V) (\<lambda>now.
        nonce_consumed V exchange (hashes_of job) now)))
      else if kind = Some Underpriced
      then wk_then (resync V) (wk_then (back_to_pending V ''underpriced; resynced nonce'' 0) deferred)
      else if kind = Some Insufficient_Funds
      then wk_then (wk_mod (\<lambda>st. st\<lparr>w_nm := nm_release nonce (w_nm st)\<rparr>))
        (wk_then (back_to_pending V ''relayer balance low'' (s_relayer_retry_backoff_seconds s)) deferred)
      else wk_bind (wk_now V) (\<lambda>now.
        wk_then (mod_job (\<lambda>j. j\<lparr>j_attempts := j_attempts j + 1,
            j_next_attempt_at := now + s_relayer_retry_backoff_seconds s,
            j_last_error := take 2000 (''broadcast: '' @ err)\<rparr>)) deferred))"

text \<open>
  \<open>UPDATE relay_jobs SET status = 'sending' WHERE id = job.id AND status = 'pending'\<close>: the row count.
  \<open>v_claims\<close> is what the same conditional update of another worker, or a cancel, made of the row just
  before.
\<close>

definition claim_job :: "wenv \<Rightarrow> nat wk" where
  "claim_job V = (\<lambda>st.
     let i = j_id (w_job st);
         rows = (case v_claims V (w_calls st) of None \<Rightarrow> d_jobs (w_db st)
                 | Some other \<Rightarrow> update_where (\<lambda>r. j_id r = i \<and> j_status r = Pending)
                     (\<lambda>r. r\<lparr>j_status := other\<rparr>) (d_jobs (w_db st)));
         hit = (\<lambda>r. j_id r = i \<and> j_status r = Pending)
     in (Inr (row_count hit rows),
         st\<lparr>w_db := (w_db st)\<lparr>d_jobs := update_where hit (\<lambda>r. r\<lparr>j_status := Sending\<rparr>) rows\<rparr>\<rparr>))"

definition record_send :: "string \<Rightarrow> int \<Rightarrow> string \<Rightarrow> string \<Rightarrow> int \<Rightarrow> int \<Rightarrow> fee_quote \<Rightarrow> relay_job \<Rightarrow> relay_job" where
  "record_send sender nonce raw h gas bn q j =
     (store_quote q j)\<lparr>j_status := Sending, j_sender := sender, j_nonce := Some nonce, j_raw_tx := raw,
       j_tx_hash := h, j_tx_hashes := j_tx_hashes j @ [h], j_gas_limit := Some gas,
       j_nonce_consumed_at := None, j_next_attempt_at := 0,
       j_first_sent_block := (case j_first_sent_block j of None \<Rightarrow> Some bn | Some b \<Rightarrow> Some b)\<rparr>"

text \<open>
  Under the nonce lock: claim the job, reserve a nonce at or above the floor, sign, and commit the signed
  transaction before anything is sent. \<open>None\<close> when another worker holds the job.
\<close>

definition claim_and_sign :: "wenv \<Rightarrow> string \<Rightarrow> int \<Rightarrow> string \<Rightarrow> int \<Rightarrow> block \<Rightarrow> fee_quote \<Rightarrow> (int \<times> string) option wk" where
  "claim_and_sign V exchange chain_id data gas b q =
     wk_bind (wk_get (\<lambda>st. nonce_floor (sender_of V) (w_db st))) (\<lambda>fl.
     wk_bind (claim_job V) (\<lambda>rows.
     if rows \<noteq> 1 then wk_return None
     else
       wk_bind (wk_nm V (nm_reserve (c_pending_nonce (v_chain V)) (v_account V) fl)) (\<lambda>nonce.
       (case v_sign V (make_tx V nonce exchange chain_id data gas q) of
          Inl e \<Rightarrow> wk_then (wk_mod (\<lambda>st. st\<lparr>w_nm := nm_release nonce (w_nm st)\<rparr>)) (wk_raise e)
        | Inr (raw, h0) \<Rightarrow>
            wk_then (mod_job (record_send (sender_of V) nonce raw (py_lower h0) gas (bl_number b) q))
            (wk_then wk_commit (wk_return (Some (nonce, raw))))))))"

definition send_signed :: "wenv \<Rightarrow> string \<Rightarrow> int \<Rightarrow> string \<Rightarrow> int \<Rightarrow> block \<Rightarrow> fee_quote \<Rightarrow> unit wk" where
  "send_signed V exchange chain_id data gas b q =
     wk_bind (claim_and_sign V exchange chain_id data gas b q) (\<lambda>r.
     case r of None \<Rightarrow> wk_return ()
     | Some (nonce, raw) \<Rightarrow>
         wk_bind (broadcast V raw) (\<lambda>(kind, err). send_outcome V exchange nonce kind err))"

definition defer_until :: "string \<Rightarrow> int \<Rightarrow> unit wk" where
  "defer_until text t = wk_then (mod_job (\<lambda>j. j\<lparr>j_last_error := text, j_next_attempt_at := t\<rparr>)) deferred"

definition fail_job :: "wenv \<Rightarrow> string \<Rightarrow> unit wk" where
  "fail_job V why = wk_bind (wk_rollback V Failed why) (\<lambda>ok. if ok then count_failed else wk_return ())"

definition send_priced :: "wenv \<Rightarrow> string \<Rightarrow> int \<Rightarrow> int \<Rightarrow> string \<Rightarrow> block \<Rightarrow> int \<Rightarrow> unit wk" where
  "send_priced V exchange chain_id now data b gas =
     (let s = v_settings V; ch = v_chain V in
      wk_bind (wk_try (wk_call (c_max_priority_fee ch))) (\<lambda>tip0.
      let tip = (case tip0 of Inl e \<Rightarrow> 0 | Inr t \<Rightarrow> t) in
      wk_bind (if bl_base_fee b = None then wk_bind (wk_try (wk_call (c_gas_price ch))) (\<lambda>r.
                 wk_return (case r of Inl e \<Rightarrow> Inl e | Inr gp \<Rightarrow> Inr (Some gp)))
               else wk_return (Inr None)) (\<lambda>r.
      case r of
        Inl e \<Rightarrow> retry_or_fail V (''gas price: '' @ redacted V e)
      | Inr gp \<Rightarrow> (case quote_fees (bl_base_fee b) tip gp s of
          None \<Rightarrow> defer_until ''fee above cap'' (now + s_relayer_retry_backoff_seconds s)
        | Some q \<Rightarrow> wk_bind (wk_try (wk_call (c_eth_balance ch (v_account V)))) (\<lambda>bal.
            case bal of
              Inl e \<Rightarrow> retry_or_fail V (''balance: '' @ redacted V e)
            | Inr balance \<Rightarrow>
                if balance < gas * q_max_fee q
                then defer_until ''relayer balance low'' (now + s_relayer_retry_backoff_seconds s)
                else send_signed V exchange chain_id data gas b q)))))"

definition send_estimated :: "wenv \<Rightarrow> string \<Rightarrow> int \<Rightarrow> int \<Rightarrow> order \<Rightarrow> order \<Rightarrow> block \<Rightarrow> unit wk" where
  "send_estimated V exchange chain_id now taker maker b =
     wk_bind (wk_get w_job) (\<lambda>job.
     wk_bind (sign_match V taker maker exchange (j_fill_amount job)) (\<lambda>data.
     wk_bind (wk_try (wk_call (c_estimate_gas (v_chain V) data))) (\<lambda>r.
     case r of
       Inl e \<Rightarrow> if classify_rpc_error e = Revert
         then fail_job V (''estimate reverted: '' @ take 500 (lib_redact (v_libs V) (x_text e)))
         else retry_or_fail V (''estimate: '' @ redacted V e)
     | Inr est \<Rightarrow> (case gas_limit est (v_settings V) of
         None \<Rightarrow> fail_job V (''gas estimate '' @ py_str est @ '' above cap '' @ py_str (s_relayer_gas_limit_cap (v_settings V)))
       | Some gas \<Rightarrow> send_priced V exchange chain_id now data b gas))))"

definition poll_delay :: "settings \<Rightarrow> int" where
  "poll_delay s = max 1 (ceiling (s_relayer_poll_seconds s))"

definition send_checked :: "wenv \<Rightarrow> string \<Rightarrow> int \<Rightarrow> int \<Rightarrow> order \<Rightarrow> order \<Rightarrow> unit wk" where
  "send_checked V exchange chain_id now taker maker =
     wk_bind (wk_opt (from_model (v_libs V) taker)) (\<lambda>tf.
     wk_bind (wk_opt (from_model (v_libs V) maker)) (\<lambda>mf.
     wk_bind (wk_try (
        wk_bind (wk_get (\<lambda>st. committed_of (v_libs V) (w_job st) (w_db st))) (\<lambda>c0.
        wk_bind (wk_opt c0) (\<lambda>com.
        wk_bind (wk_call (c_latest_block (v_chain V))) (\<lambda>b.
        wk_bind (job_preflight V taker maker exchange (bl_timestamp b) (Some com)) (\<lambda>reasons.
        wk_return (b, reasons))))))) (\<lambda>r.
     case r of
       Inl e \<Rightarrow> retry_or_fail V (''preflight rpc: '' @ redacted V e)
     | Inr (b, reasons) \<Rightarrow>
         (let hard = filter (\<lambda>t. \<not> startswith t ''busy:'') reasons in
          if hard \<noteq> []
          then wk_bind (wk_rollback V Failed (''preflight: '' @ join_with ''; '' hard)) (\<lambda>ok.
            if ok then wk_then count_failed
              (wk_bind (wk_get (\<lambda>st. orders_of (w_job st) (w_db st))) (\<lambda>(t, m).
               retire_failed_side V (case t of None \<Rightarrow> taker | Some x \<Rightarrow> x) (case m of None \<Rightarrow> maker | Some x \<Rightarrow> x) hard))
            else wk_return ())
          else if reasons \<noteq> []
          then defer_until (take 2000 (join_with ''; '' reasons)) (now + poll_delay (v_settings V))
          else send_estimated V exchange chain_id now taker maker b))))"

definition send_fresh :: "wenv \<Rightarrow> string \<Rightarrow> int \<Rightarrow> int \<Rightarrow> unit wk" where
  "send_fresh V exchange chain_id now =
     wk_bind (wk_get (\<lambda>st. orders_of (w_job st) (w_db st))) (\<lambda>(t, m).
     case (if list_ex (\<lambda>x. case x of None \<Rightarrow> True | Some ord \<Rightarrow> o_cancelled ord) [t, m] then None
           else (case (t, m) of (Some taker, Some maker) \<Rightarrow> Some (taker, maker) | _ \<Rightarrow> None)) of
       None \<Rightarrow> wk_bind (wk_rollback V Cancelled ''order missing or cancelled'') (\<lambda>ok.
          if ok then mod_stats (\<lambda>t. t\<lparr>st_cancelled := st_cancelled t + 1\<rparr>) else wk_return ())
     | Some (taker, maker) \<Rightarrow>
         wk_bind (wk_now V) (\<lambda>now2.
         wk_bind (wk_get (\<lambda>st. matched_after_halt (v_settings V) now2 (w_job st) (w_db st))) (\<lambda>late.
         if late then fail_job V ''preflight: market closed''
         else send_checked V exchange chain_id now taker maker)))"

definition send_job :: "wenv \<Rightarrow> string \<Rightarrow> int \<Rightarrow> unit wk" where
  "send_job V exchange chain_id =
     (let s = v_settings V in
      wk_bind (wk_now V) (\<lambda>now.
      wk_bind (wk_get w_job) (\<lambda>job.
      if j_tx_hashes job \<noteq> []
      then wk_bind (wk_try (fill_verdict V exchange)) (\<lambda>v.
        case v of
          Inl e \<Rightarrow> defer_until (take 2000 (''fill check: '' @ redacted V e)) (now + s_relayer_retry_backoff_seconds s)
        | Inr (Landed h bn) \<Rightarrow> confirm h bn now
        | Inr Maybe \<Rightarrow> defer_until ''stuck: fill may have landed; not resending'' (now + s_relayer_resubmit_after_seconds s)
        | Inr Absent \<Rightarrow> send_fresh V exchange chain_id now)
      else send_fresh V exchange chain_id now)))"

section \<open>The tick\<close>

text \<open>
  \<open>_guard\<close>: the job is read anew; a step that raises is rolled back to what is committed, which
  includes what the step committed itself before a broadcast.
\<close>

definition guard :: "wenv \<Rightarrow> (job_status \<Rightarrow> bool) \<Rightarrow> unit wk \<Rightarrow> int \<Rightarrow> unit wk" where
  "guard V statuses step job_id = (\<lambda>st.
     case get_job job_id (w_db st) of
       None \<Rightarrow> (Inr (), st)
     | Some job \<Rightarrow>
         if \<not> statuses (j_status job) then (Inr (), st)
         else (case step (st\<lparr>w_job := job\<rparr>) of
             (Inr u, st') \<Rightarrow> (Inr (), st'\<lparr>w_saved := w_db st'\<rparr>)
           | (Inl e, st') \<Rightarrow> (Inr (), st'\<lparr>w_db := w_saved st',
               w_last_error := take 500 (lib_redact (v_libs V) (''job '' @ py_str job_id @ '': '' @ x_text e)),
               w_stats := (w_stats st')\<lparr>st_deferred := st_deferred (w_stats st') + 1\<rparr>\<rparr>)))"

text \<open>
  The Postgres leader lock. \<open>w_leader\<close> says that the leader connection is held; a lost one is dropped
  and the lock tried again, and gaining the lock forgets the cached nonce.
\<close>

definition ensure_leader :: "wenv \<Rightarrow> bool wk" where
  "ensure_leader V = (\<lambda>st.
     if \<not> v_postgres V then (Inr True, st)
     else if w_leader st \<and> v_ping V (w_calls st) then (Inr True, st\<lparr>w_calls := Suc (w_calls st)\<rparr>)
     else
       let st1 = (if w_leader st then st\<lparr>w_leader := False, w_calls := Suc (w_calls st)\<rparr> else st) in
       (case v_lock V (w_calls st1) of
          Inl e \<Rightarrow> (Inl e, st1\<lparr>w_calls := Suc (w_calls st1)\<rparr>)
        | Inr got \<Rightarrow> if \<not> got then (Inr False, st1\<lparr>w_calls := Suc (w_calls st1)\<rparr>)
            else (Inr True, st1\<lparr>w_calls := Suc (w_calls st1), w_leader := True, w_nm := nm_invalidate (w_nm st1)\<rparr>)))"

definition release_leadership :: "unit wk" where
  "release_leadership = wk_mod (\<lambda>st. st\<lparr>w_leader := False\<rparr>)"

definition in_flight_ids :: "dbase \<Rightarrow> int list" where
  "in_flight_ids db = sort (map j_id (filter (\<lambda>j. in_flight (j_status j)) (d_jobs db)))"

definition due_ids :: "settings \<Rightarrow> int \<Rightarrow> dbase \<Rightarrow> int list" where
  "due_ids s now db = take (s_relayer_batch_size s)
     (sort (map j_id (filter (\<lambda>j. j_status j = Pending \<and> j_next_attempt_at j \<le> now) (d_jobs db))))"

definition tick_body :: "wenv \<Rightarrow> string \<Rightarrow> int \<Rightarrow> unit wk" where
  "tick_body V exchange chain_id =
     wk_bind (wk_get (\<lambda>st. in_flight_ids (w_db st))) (\<lambda>inflight.
     wk_then (wk_each (guard V in_flight (reconcile V exchange chain_id)) inflight)
     (wk_bind (wk_now V) (\<lambda>now.
     wk_bind (wk_get (\<lambda>st. due_ids (v_settings V) now (w_db st))) (\<lambda>pending.
     wk_then (wk_each (guard V (\<lambda>s. s = Pending) (send_job V exchange chain_id)) pending)
     (wk_bind (wk_now V) (\<lambda>t. wk_mod (\<lambda>st. st\<lparr>w_last_tick_at := Some t\<rparr>)))))))"

definition skip_tick :: "string \<Rightarrow> unit wk" where
  "skip_tick why = mod_stats (\<lambda>t. t\<lparr>st_skipped := why\<rparr>)"

definition tick :: "wenv \<Rightarrow> bool \<Rightarrow> tick_stats wk" where
  "tick V release =
     wk_then (wk_mod (\<lambda>st. st\<lparr>w_stats := no_stats\<rparr>))
     (wk_bind (wk_try
        (if \<not> relayer_ready (v_libs V) (v_settings V) then skip_tick ''not ready''
         else (case get_exchange_domain (v_libs V) (v_settings V) of
             None \<Rightarrow> skip_tick ''not ready''
           | Some (exchange, chain_id) \<Rightarrow>
               wk_bind (ensure_leader V) (\<lambda>leader.
               if \<not> leader then skip_tick ''not leader''
               else tick_body V exchange chain_id)))) (\<lambda>r.
      wk_then (if release then release_leadership else wk_return ())
        (case r of Inl e \<Rightarrow> wk_raise e | Inr u \<Rightarrow> wk_get w_stats)))"

text \<open>\<open>run_forever\<close>, for \<open>n\<close> turns of its loop.\<close>

fun run_ticks :: "wenv \<Rightarrow> nat \<Rightarrow> unit wk" where
  "run_ticks V 0 = wk_return ()"
| "run_ticks V (Suc n) =
     wk_bind (wk_try (tick V False)) (\<lambda>r.
     wk_then (case r of Inr s \<Rightarrow> wk_return ()
              | Inl e \<Rightarrow> wk_mod (\<lambda>st. st\<lparr>w_last_error := take 500 (lib_redact (v_libs V) (x_text e))\<rparr>))
       (run_ticks V n))"

end
