(* ===== verification/Worker_Order.thy ===== *)
theory Worker_Order
  imports Worker
begin

text \<open>
  Relations between the states of a worker that its handlers keep. The locales here ask for them on the
  primitive operations only, with what the handlers may do to the job instance, and prove them for the
  handlers once: \<open>handler_order\<close> for those that neither hand a transaction to the node nor give up a
  nonce, \<open>node_order\<close> for those that also broadcast, \<open>queue_order\<close> for those that put a job back in
  the queue, \<open>send_order\<close> for sending, given that its last step keeps the relation, and
  \<open>worker_order\<close> for all of them. The safety theorems interpret them.
\<close>

section \<open>Changes of the job instance\<close>

definition same_match :: "relay_job \<Rightarrow> relay_job \<Rightarrow> bool" where
  "same_match j j' = (j_id j' = j_id j \<and> j_kind j' = j_kind j \<and> j_condition_id j' = j_condition_id j \<and>
     j_taker_hash j' = j_taker_hash j \<and> j_maker_hash j' = j_maker_hash j \<and>
     j_fill_amount j' = j_fill_amount j \<and> j_matched_at j' = j_matched_at j)"

definition benign :: "relay_job \<Rightarrow> relay_job \<Rightarrow> bool" where
  "benign j j' = (same_match j j' \<and> prefix (j_tx_hashes j) (j_tx_hashes j') \<and> j_sender j' = j_sender j \<and>
     (j_nonce j' = j_nonce j \<or> j_nonce j' = None) \<and>
     (j_status j' = Pending \<longrightarrow> j_nonce j' = None \<or> j_status j = Pending))"

text \<open>A benign change that does not put the job back in the queue.\<close>

definition onward :: "relay_job \<Rightarrow> relay_job \<Rightarrow> bool" where
  "onward j j' = (benign j j' \<and> j_nonce j' = j_nonce j \<and> (j_status j' = Pending \<longrightarrow> j_status j = Pending))"

lemma onward_benign: "onward j j' \<Longrightarrow> benign j j'"
  by (simp add: onward_def)

lemma same_match_refl [simp]: "same_match j j"
  by (simp add: same_match_def)

lemma same_match_trans: "same_match a b \<Longrightarrow> same_match b c \<Longrightarrow> same_match a c"
  by (simp add: same_match_def)

locale handler_order = run_order R for R :: "ws \<Rightarrow> ws \<Rightarrow> bool" +
  fixes V :: wenv
  assumes calls: "R st (st\<lparr>w_calls := k\<rparr>)" and clock: "R st (st\<lparr>w_clock := k\<rparr>)"
    and stats: "R st (st\<lparr>w_stats := t\<rparr>)" and nm: "R st (st\<lparr>w_nm := n\<rparr>)"
    and saved: "R st (st\<lparr>w_saved := w_db st\<rparr>)"
    and onward: "(\<And>j. onward j (f j)) \<Longrightarrow> R st (put_job (f (w_job st)) st)"
    and cancel: "R st (st\<lparr>w_db := (w_db st)\<lparr>d_orders := exec_stmt (Stmt_Cancel i) (d_orders (w_db st))\<rparr>\<rparr>)"
    and trades: "R st (st\<lparr>w_db := (w_db st)\<lparr>d_trades := ts\<rparr>\<rparr>)"
    and roll: "terminal s \<Longrightarrow> R st (snd (wk_rollback V s why st))"
    and resynced: "R st (snd (resync_filled V ord st))"
    and rematched: "R st (snd (rematch V ord st))"
    and claimed: "R st (snd (claim_and_sign V exchange chain_id data gas b q st))"
begin

lemma keeps_rpc: "keeps (wk_rpc m)"
  by (simp add: keeps_def wk_rpc_def calls split: prod.splits)

lemma keeps_call: "keeps (wk_call f)"
  by (simp add: wk_call_def keeps_rpc)

lemma keeps_now: "keeps (wk_now V)"
  by (simp add: keeps_def wk_now_def clock)

lemma keeps_commit: "keeps wk_commit"
  by (simp add: keeps_def wk_commit_def wk_mod_def saved)

lemma keeps_stats: "keeps (mod_stats f)"
  by (simp add: keeps_def mod_stats_def wk_mod_def stats)

lemma keeps_onward: "(\<And>j. onward j (f j)) \<Longrightarrow> keeps (mod_job f)"
  by (simp add: keeps_def mod_job_def wk_mod_def onward)

lemma keeps_cancel: "keeps (mod_orders (exec_stmt (Stmt_Cancel i)))"
  by (simp add: keeps_def mod_orders_def wk_mod_def cancel del: exec_stmt.simps)

lemma keeps_trades: "keeps (mod_trades f)"
  by (simp add: keeps_def mod_trades_def wk_mod_def trades)

lemma keeps_roll: "terminal s \<Longrightarrow> keeps (wk_rollback V s why)"
  by (simp add: keeps_def roll)

lemma keeps_nm_mod: "keeps (wk_mod (\<lambda>st. st\<lparr>w_nm := f st\<rparr>))"
  by (simp add: keeps_def wk_mod_def nm)

lemma keeps_resync: "keeps (resync V)"
  unfolding resync_def by (intro keeps_bind keeps_rpc keeps_nm_mod)

lemma keeps_verdict:
  "(\<And>h b. keeps (f h b)) \<Longrightarrow> keeps g \<Longrightarrow> keeps k \<Longrightarrow>
   keeps (case v of Landed h b \<Rightarrow> f h b | Maybe \<Rightarrow> g | Absent \<Rightarrow> k)"
  by (cases v) simp_all

lemma keeps_resynced: "keeps (resync_filled V ord)"
  by (simp add: keeps_def resynced)

lemma keeps_rematched: "keeps (rematch V ord)"
  by (simp add: keeps_def rematched)

lemma keeps_claimed: "keeps (claim_and_sign V exchange chain_id data gas b q)"
  by (simp add: keeps_def claimed)

lemma keeps_deferred: "keeps deferred"
  by (simp add: deferred_def keeps_stats)

lemma keeps_count_failed: "keeps count_failed"
  by (simp add: count_failed_def keeps_stats)

lemmas rules = keeps_intros keeps_verdict keeps_rpc keeps_call keeps_now keeps_commit keeps_stats keeps_cancel
  keeps_trades keeps_roll keeps_nm_mod keeps_resync keeps_resynced keeps_rematched keeps_claimed
  keeps_deferred keeps_count_failed

lemma keeps_find_receipt: "keeps (find_receipt V hs)"
  by (induction hs) (simp, intro rules, simp only: find_receipt.simps, intro rules)

lemma keeps_confirm: "keeps (confirm mined bn now)"
  unfolding confirm_def by (intro rules keeps_onward) (simp add: onward_def benign_def same_match_def)

lemma keeps_retry_or_fail: "keeps (retry_or_fail V why)"
  unfolding retry_or_fail_def by (intro rules keeps_onward) (simp_all add: onward_def benign_def same_match_def)

lemma keeps_retire_failed_side: "keeps (retire_failed_side V taker maker reasons)"
  unfolding retire_failed_side_def Let_def by (intro rules)

lemma keeps_job_preflight: "keeps (job_preflight V taker maker exchange ts com)"
  unfolding job_preflight_def by (intro rules)

lemma keeps_retire_after_revert: "keeps (retire_after_revert V exchange)"
  unfolding retire_after_revert_def by (intro rules keeps_job_preflight keeps_retire_failed_side)

lemma keeps_apply_receipt: "keeps (apply_receipt V rc mined exchange now)"
  unfolding apply_receipt_def Let_def
  by (intro rules keeps_onward keeps_confirm keeps_retire_after_revert)
    (simp_all add: onward_def benign_def same_match_def mark_sent_def)

lemma keeps_unexplained: "keeps (unexplained V job hs)"
  by (induction hs) (simp, intro rules, simp only: unexplained.simps, intro rules)

lemma keeps_fill_verdict: "keeps (fill_verdict V exchange)"
  unfolding fill_verdict_def by (intro rules keeps_unexplained)

lemma keeps_nonce_consumed: "keeps (nonce_consumed V exchange hashes now)"
  unfolding nonce_consumed_def
  by (intro rules keeps_find_receipt keeps_apply_receipt keeps_onward) (simp add: onward_def benign_def same_match_def mark_sent_def)

lemma keeps_sign_match: "keeps (sign_match V taker maker exchange amount)"
  unfolding sign_match_def by (intro rules)

lemma keeps_bump_outcome: "keeps (bump_outcome V exchange hashes kind err)"
  unfolding bump_outcome_def
  by (intro rules keeps_nonce_consumed keeps_onward) (simp_all add: onward_def benign_def same_match_def)

lemma keeps_defer_until: "keeps (defer_until why t)"
  unfolding defer_until_def by (intro rules keeps_onward) (simp_all add: onward_def benign_def same_match_def)

lemma keeps_fail_job: "keeps (fail_job V why)"
  unfolding fail_job_def by (intro rules) simp

end

locale node_order = handler_order +
  assumes sent: "R st (st\<lparr>w_sent := x\<rparr>)"
begin

lemma keeps_sent: "keeps (wk_mod (\<lambda>st. st\<lparr>w_sent := f st\<rparr>))"
  by (simp add: keeps_def wk_mod_def sent)


lemma keeps_broadcast: "keeps (broadcast V raw)"
  unfolding broadcast_def by (intro rules keeps_sent)

lemma keeps_rebroadcast: "keeps (rebroadcast V exchange hashes now)"
  unfolding rebroadcast_def Let_def
  by (intro rules keeps_broadcast keeps_nonce_consumed keeps_onward) (simp_all add: onward_def benign_def same_match_def mark_sent_def)

lemma keeps_bump_job: "keeps (bump_job V exchange chain_id prior)"
  unfolding bump_job_def Let_def
  by (intro rules keeps_sign_match keeps_broadcast keeps_bump_outcome keeps_onward)
    (simp_all add: onward_def benign_def same_match_def record_bump_def store_quote_def)

lemma keeps_keep_alive: "keeps (keep_alive V exchange hashes now)"
  unfolding keep_alive_def Let_def
  by (intro rules keeps_broadcast keeps_nonce_consumed keeps_onward) (simp_all add: onward_def benign_def same_match_def)


end

locale queue_order = handler_order +
  assumes edit: "(\<And>j. benign j (f j)) \<Longrightarrow> R st (put_job (f (w_job st)) st)"
begin

lemma keeps_edit: "(\<And>j. benign j (f j)) \<Longrightarrow> keeps (mod_job f)"
  by (simp add: keeps_def mod_job_def wk_mod_def edit)

lemma keeps_back_to_pending: "keeps (back_to_pending V why delay)"
  unfolding back_to_pending_def by (intro rules keeps_edit) (simp add: benign_def same_match_def)

lemma keeps_settle_consumed: "keeps (settle_consumed V exchange now)"
  unfolding settle_consumed_def Let_def
  by (intro rules keeps_fill_verdict keeps_confirm keeps_back_to_pending keeps_edit)
    (simp_all add: benign_def same_match_def)

lemma keeps_send_outcome: "keeps (send_outcome V exchange nonce kind err)"
  unfolding send_outcome_def Let_def
  by (intro rules keeps_nonce_consumed keeps_back_to_pending keeps_edit) (simp_all add: benign_def same_match_def)

end

locale send_order = queue_order +
  assumes signed: "R st (snd (send_signed V exchange chain_id data gas b q st))"
begin

lemma keeps_signed: "keeps (send_signed V exchange chain_id data gas b q)"
  by (simp add: keeps_def signed)

lemma keeps_send_priced: "keeps (send_priced V exchange chain_id now data b gas)"
  unfolding send_priced_def Let_def by (intro rules keeps_retry_or_fail keeps_defer_until keeps_signed)

lemma keeps_send_estimated: "keeps (send_estimated V exchange chain_id now taker maker b)"
  unfolding send_estimated_def by (intro rules keeps_sign_match keeps_retry_or_fail keeps_fail_job keeps_send_priced)

lemma keeps_send_checked: "keeps (send_checked V exchange chain_id now taker maker)"
  unfolding send_checked_def Let_def
  by (intro rules keeps_job_preflight keeps_retry_or_fail keeps_retire_failed_side keeps_defer_until keeps_send_estimated) simp

lemma keeps_send_fresh: "keeps (send_fresh V exchange chain_id now)"
  unfolding send_fresh_def by (intro rules keeps_fail_job keeps_send_checked) simp

lemma keeps_send_job: "keeps (send_job V exchange chain_id)"
  unfolding send_job_def Let_def by (intro rules keeps_fill_verdict keeps_defer_until keeps_confirm keeps_send_fresh)

end

locale worker_order = node_order + queue_order
begin

lemma keeps_send_signed: "keeps (send_signed V exchange chain_id data gas b q)"
  unfolding send_signed_def by (intro rules keeps_broadcast keeps_send_outcome)

lemma keeps_reconcile: "keeps (reconcile V exchange chain_id)"
  unfolding reconcile_def Let_def
  by (intro rules keeps_find_receipt keeps_apply_receipt keeps_rebroadcast keeps_settle_consumed keeps_keep_alive
      keeps_bump_job keeps_edit) (simp_all add: benign_def same_match_def)

end

sublocale worker_order \<subseteq> send_order
  by unfold_locales (use keeps_send_signed in \<open>simp add: keeps_def\<close>)

end
