(* ===== verification/Worker_Safety.thy ===== *)
theory Worker_Safety
  imports Worker_Order
begin

text \<open>
  What a worker never does, whatever the node answers: change a job that is over, forget a hash it signed,
  put one nonce under two jobs, or push an order out of its bounds. Each is an interpretation of
  \<open>worker_order\<close> for one job step, lifted to a tick, and to any number of ticks, by the locale
  \<open>tick_order\<close>.
\<close>

section \<open>What the primitives change\<close>

lemma rematch_effect:
  "\<exists>js D. snd (rematch V ord st) = st\<lparr>w_clock := Suc (w_clock st), w_db := D\<rparr> \<and>
     d_jobs D = d_jobs (w_db st) @ js \<and> d_emissions D = d_emissions (w_db st) \<and>
     (\<forall>j \<in> set js. j_status j = Pending \<and> j_nonce j = None \<and> 0 < j_fill_amount j) \<and>
     (\<forall>j \<in> set js. d_next_job (w_db st) \<le> j_id j \<and> j_id j < d_next_job D) \<and> distinct (map j_id js) \<and> d_next_job (w_db st) \<le> d_next_job D \<and>
     (orders_ok (d_orders (w_db st)) \<longrightarrow> (\<forall>k n. list_all stmt_ok (v_sched V k n)) \<longrightarrow> orders_ok (d_orders D))"
proof -
  let ?now = "v_now V (w_clock st)" and ?db = "w_db st" and ?sc = "v_sched V (w_calls st)"
  let ?ms = "\<lparr> ms_db = ?db, ms_k = 0, ms_inc = ord \<rparr>"
  let ?db' = "ms_db (snd (try_match (v_libs V) (v_settings V) ?now ?sc ?db ord))"
  have "\<exists>js. d_jobs ?db' = d_jobs ?db @ js \<and> (\<forall>j \<in> set js. j_status j = Pending \<and> j_nonce j = None \<and> 0 < j_fill_amount j)
     \<and> d_emissions ?db' = d_emissions ?db \<and> d_next_job ?db \<le> d_next_job ?db'
     \<and> (\<forall>j \<in> set js. d_next_job ?db \<le> j_id j \<and> j_id j < d_next_job ?db') \<and> distinct (map j_id js)
     \<and> (orders_ok (d_orders ?db) \<longrightarrow> (\<forall>k n. list_all stmt_ok (v_sched V k n)) \<longrightarrow> orders_ok (d_orders ?db'))"
  proof (cases "trading_halt_reason ?db (o_condition_id ord) (v_settings V) ?now")
    case None
    obtain fs ms' where eq: "match_loop (v_settings V) (relayer_ready (v_libs V) (v_settings V)) ?now ?sc ?ms
        (matched_makers (v_settings V) ?now ?db ord) = (fs, ms')" by (meson surj_pair)
    have pos: "f \<in> set fs \<Longrightarrow> 0 < fl_amount f" for f
      using match_loop_fills [OF eq, of ord f] by (auto simp: fill_of_maker_def)
    note jobs = match_loop_jobs [OF eq] and fr = match_loop_frame [OF eq] and ok = order_match.loop_keep [OF eq]
    obtain js where js: "d_jobs (ms_db ms') = d_jobs ?db @ js"
      "\<forall>j \<in> set js. j_status j = Pending \<and> j_nonce j = None \<and> 0 < j_fill_amount j"
      "\<forall>j \<in> set js. d_next_job ?db \<le> j_id j \<and> j_id j < d_next_job (ms_db ms')"
      "d_next_job ?db \<le> d_next_job (ms_db ms')" "distinct (map j_id js)"
    proof (cases "relayer_ready (v_libs V) (v_settings V)")
      case True
      with jobs obtain js where j: "d_jobs (ms_db ms') = d_jobs ?db @ js"
        "list_all2 (job_of_fill (o_condition_id ord) ?now) fs js"
        "map j_id js = map (\<lambda>n. d_next_job ?db + int n) [0..<length fs]"
        "d_next_job (ms_db ms') = d_next_job ?db + int (length fs)" by auto
      have ids: "\<forall>x \<in> set js. d_next_job ?db \<le> j_id x \<and> j_id x < d_next_job (ms_db ms')"
      proof
        fix x assume "x \<in> set js"
        then have "j_id x \<in> set (map (\<lambda>n. d_next_job ?db + int n) [0..<length fs])"
          unfolding j(3) [symmetric] by simp
        with j(4) show "d_next_job ?db \<le> j_id x \<and> j_id x < d_next_job (ms_db ms')" by auto
      qed
      have "\<exists>f \<in> set fs. job_of_fill (o_condition_id ord) ?now f x" if "x \<in> set js" for x
        using j(2) that by (metis list_all2_conv_all_nth in_set_conv_nth)
      then have "\<forall>x \<in> set js. j_status x = Pending \<and> j_nonce x = None \<and> 0 < j_fill_amount x"
        using pos by (fastforce simp: job_of_fill_def)
      moreover have "distinct (map j_id js)" unfolding j(3) by (simp add: distinct_map inj_on_def)
      ultimately show ?thesis using that [of js] j(1,4) ids by simp
    next
      case False
      with jobs that [of "[]"] show ?thesis by simp
    qed
    with fr ok show ?thesis by (simp add: try_match_open [OF None] eq)
  next
    case (Some r)
    then show ?thesis by (simp add: try_match_halted)
  qed
  moreover have "snd (rematch V ord st) = st\<lparr>w_clock := Suc (w_clock st), w_db := ?db'\<rparr>"
    by (simp add: rematch_def wk_bind_def wk_now_def wk_mod_def)
  ultimately show ?thesis by blast
qed

lemma resync_filled_effect:
  "\<exists>rows k. snd (resync_filled V ord st) = st\<lparr>w_calls := k, w_db := (w_db st)\<lparr>d_orders := rows\<rparr>\<rparr> \<and>
     (orders_ok (d_orders (w_db st)) \<longrightarrow> (\<forall>h k v. c_ex_filled (v_chain V) h k = Inr v \<longrightarrow> 0 \<le> v) \<longrightarrow>
      (\<forall>j \<in> set (d_jobs (w_db st)). 0 \<le> j_fill_amount j) \<longrightarrow> orders_ok rows)"
proof (cases "b32 (o_order_hash ord)")
  case None
  then show ?thesis
    by (intro exI [of _ "d_orders (w_db st)"] exI [of _ "w_calls st"])
      (simp add: resync_filled_def wk_bind_def wk_try_def wk_opt_def wk_raise_def wk_return_def)
next
  case (Some h)
  show ?thesis
  proof (cases "c_ex_filled (v_chain V) h (w_calls st)")
    case (Inl e)
    with Some show ?thesis
      by (intro exI [of _ "d_orders (w_db st)"] exI [of _ "Suc (w_calls st)"])
        (simp add: resync_filled_def wk_bind_def wk_try_def wk_opt_def wk_return_def wk_call_def wk_rpc_def rpc_call_def)
  next
    case (Inr v)
    let ?t = "v + live_fill (o_order_hash ord) (d_jobs (w_db st))"
    have "0 \<le> live_fill (o_order_hash ord) js" if "\<forall>j \<in> set js. 0 \<le> j_fill_amount j" for js
      using that by (auto simp: live_fill_def intro!: sum_list_nonneg)
    then have "orders_ok (d_orders (w_db st)) \<longrightarrow> (\<forall>h k v. c_ex_filled (v_chain V) h k = Inr v \<longrightarrow> 0 \<le> v) \<longrightarrow>
      (\<forall>j \<in> set (d_jobs (w_db st)). 0 \<le> j_fill_amount j) \<longrightarrow>
      orders_ok (exec_stmt (Stmt_Resync (o_id ord) ?t) (d_orders (w_db st)))"
      using Inr by (intro impI exec_stmt_ok) (force, assumption)
    with Some Inr show ?thesis
      by (intro exI [of _ "exec_stmt (Stmt_Resync (o_id ord) ?t) (d_orders (w_db st))"] exI [of _ "Suc (w_calls st)"])
        (simp add: resync_filled_def wk_bind_def wk_try_def wk_opt_def wk_return_def wk_call_def wk_rpc_def rpc_call_def
          wk_then_def wk_mod_def wk_get_def del: exec_stmt.simps)
  qed
qed

text \<open>A rollback rewrites the rows of its own job only, from the instance.\<close>

definition rolled_row :: "relay_job \<Rightarrow> job_status \<Rightarrow> relay_job \<Rightarrow> relay_job \<Rightarrow> bool" where
  "rolled_row job s r r' = (same_match job r' \<and> j_tx_hashes r' = j_tx_hashes job \<and> j_sender r' = j_sender job \<and>
     j_nonce r' = j_nonce job \<and> (j_status r' = s \<or> j_status r' = j_status r))"

lemma rollback_effect:
  assumes "rollback_job L db job s why = (ok, job', db')"
  shows "(job' = job \<and> db' = db) \<or>
    (\<exists>f rows ts. db' = db\<lparr>d_jobs := update_where (\<lambda>r. j_id r = j_id job) f (d_jobs db), d_orders := rows, d_trades := ts\<rparr> \<and>
       (\<forall>r. rolled_row job s r (f r)) \<and> (job' = job \<or> (\<exists>r \<in> set (d_jobs db). j_id r = j_id job \<and> job' = f r)) \<and>
       (rows = d_orders db \<or> rows = exec_stmt (Stmt_Rollback [j_taker_hash job, j_maker_hash job] (j_fill_amount job)) (d_orders db)))"
proof (cases "terminal (j_status job)")
  case True
  with assms show ?thesis by (simp add: rollback_job_def)
next
  case nt: False
  let ?own = "\<lambda>r. j_id r = j_id job"
  let ?g = "\<lambda>r. job\<lparr>j_status := j_status r\<rparr>"
  let ?m = "\<lambda>r. r\<lparr>j_status := s, j_last_error := take 2000 (lib_redact L why)\<rparr>"
  let ?hit = "\<lambda>r. j_id r = j_id job \<and> j_status r = j_status job"
  let ?f = "\<lambda>r. if j_status r = j_status job then ?m (?g r) else ?g r"
  have j1: "flush_job job (d_jobs db) = update_where ?own ?g (d_jobs db)" by (simp add: flush_job_def)
  have j2: "update_where ?hit ?m (flush_job job (d_jobs db)) = update_where ?own ?f (d_jobs db)"
    by (simp add: flush_job_def update_where_def)
  have ref: "refresh_job job (update_where ?own h (d_jobs db)) = job \<or>
      (\<exists>r \<in> set (d_jobs db). ?own r \<and> refresh_job job (update_where ?own h (d_jobs db)) = h r)"
    if "\<And>r. ?own r \<Longrightarrow> j_id (h r) = j_id r" for h
  proof -
    have "get_row j_id (j_id job) (update_where ?own h (d_jobs db)) =
        map_option (\<lambda>r. if ?own r then h r else r) (get_job (j_id job) db)"
      using that by (rule get_row_update_where)
    note row = this
    show ?thesis
    proof (cases "get_job (j_id job) db")
      case None
      with row show ?thesis by (simp add: refresh_job_def)
    next
      case (Some r)
      then have "r \<in> set (d_jobs db)" "?own r" using get_row_Some by fastforce+
      moreover have "refresh_job job (update_where ?own h (d_jobs db)) = h r"
        using row Some calculation(2) by (simp add: refresh_job_def)
      ultimately show ?thesis by blast
    qed
  qed
  have rolled: ?thesis if "job' = job \<or> (\<exists>r \<in> set (d_jobs db). j_id r = j_id job \<and> job' = f r)"
      "db' = db\<lparr>d_jobs := update_where ?own f (d_jobs db),
         d_orders := exec_stmt (Stmt_Rollback [j_taker_hash job, j_maker_hash job] (j_fill_amount job)) (d_orders db),
         d_trades := ts\<rparr>" "\<And>r. rolled_row job s r (f r)" for f ts
    using that by blast
  have rolled': ?thesis if "job' = job \<or> (\<exists>r \<in> set (d_jobs db). j_id r = j_id job \<and> job' = f r)"
      "db' = db\<lparr>d_jobs := update_where ?own f (d_jobs db), d_orders := d_orders db, d_trades := ts\<rparr>"
      "\<And>r. rolled_row job s r (f r)" for f ts
    using that by blast
  show ?thesis
  proof (cases "row_count ?hit (flush_job job (d_jobs db)) = 1")
    case True
    then have eq: "job' = refresh_job job (update_where ?own ?f (d_jobs db))"
      "db' = db\<lparr>d_jobs := update_where ?own ?f (d_jobs db),
         d_orders := exec_stmt (Stmt_Rollback [j_taker_hash job, j_maker_hash job] (j_fill_amount job)) (d_orders db),
         d_trades := fail_trades (j_id job) (d_trades db)\<rparr>"
      using assms nt j2 by (simp_all add: rollback_job_def Let_def)
    have "rolled_row job s r (?f r)" for r by (simp add: rolled_row_def same_match_def)
    note rows = this
    have "job' = job \<or> (\<exists>r \<in> set (d_jobs db). j_id r = j_id job \<and> job' = ?f r)"
      unfolding eq(1) using ref [of ?f] by fastforce
    from rolled [of ?f, OF this eq(2) rows] show ?thesis .
  next
    case False
    then have eq: "job' = refresh_job job (update_where ?own ?g (d_jobs db))"
      "db' = db\<lparr>d_jobs := update_where ?own ?g (d_jobs db)\<rparr>"
      using assms nt j1 by (simp_all add: rollback_job_def Let_def)
    have "rolled_row job s r (?g r)" for r by (simp add: rolled_row_def same_match_def)
    note rows = this
    have db: "db' = db\<lparr>d_jobs := update_where ?own ?g (d_jobs db), d_orders := d_orders db, d_trades := d_trades db\<rparr>"
      using eq by simp
    have "job' = job \<or> (\<exists>r \<in> set (d_jobs db). j_id r = j_id job \<and> job' = ?g r)"
      unfolding eq(1) using ref [of ?g] by fastforce
    from rolled' [of ?g, OF this db rows] show ?thesis .
  qed
qed

lemma claim_job_effect:
  "\<exists>n s. claim_job V st = (Inr n, st\<lparr>w_db := (w_db st)\<lparr>d_jobs :=
     update_where (\<lambda>r. j_id r = j_id (w_job st) \<and> j_status r = Pending) (\<lambda>r. r\<lparr>j_status := s\<rparr>) (d_jobs (w_db st))\<rparr>\<rparr>)"
proof -
  let ?P = "\<lambda>r. j_id r = j_id (w_job st) \<and> j_status r = Pending"
  have two: "update_where ?P (\<lambda>r. r\<lparr>j_status := Sending\<rparr>) (update_where ?P (\<lambda>r. r\<lparr>j_status := x\<rparr>) rows) =
      update_where ?P (\<lambda>r. r\<lparr>j_status := (if x = Pending then Sending else x)\<rparr>) rows" for x rows
    by (simp add: update_where_def)
  have "\<exists>s. snd (claim_job V st) = st\<lparr>w_db := (w_db st)\<lparr>d_jobs :=
      update_where ?P (\<lambda>r. r\<lparr>j_status := s\<rparr>) (d_jobs (w_db st))\<rparr>\<rparr>"
  proof (cases "v_claims V (w_calls st)")
    case None
    then show ?thesis by (auto simp: claim_job_def Let_def)
  next
    case (Some other)
    then have "snd (claim_job V st) = st\<lparr>w_db := (w_db st)\<lparr>d_jobs :=
        update_where ?P (\<lambda>r. r\<lparr>j_status := Sending\<rparr>) (update_where ?P (\<lambda>r. r\<lparr>j_status := other\<rparr>) (d_jobs (w_db st)))\<rparr>\<rparr>"
      by (simp add: claim_job_def Let_def)
    then show ?thesis unfolding two by blast
  qed
  moreover have "\<exists>n. fst (claim_job V st) = Inr n" by (simp add: claim_job_def Let_def)
  ultimately show ?thesis by (metis prod.collapse)
qed

lemma max_of_bound: "x \<in> set xs \<Longrightarrow> \<exists>m. max_of xs = Some m \<and> x \<le> m"
proof (cases xs)
  case (Cons y ys)
  have "fold max ys y = Max (set xs)" unfolding Cons by (rule Max.set_eq_fold [symmetric])
  moreover assume "x \<in> set xs"
  ultimately show ?thesis using Cons by (simp add: max_of_def)
qed simp

lemma claim_and_sign_effect:
  "\<exists>s rows. rows = update_where (\<lambda>r. j_id r = j_id (w_job st) \<and> j_status r = Pending) (\<lambda>r. r\<lparr>j_status := s\<rparr>) (d_jobs (w_db st)) \<and>
    (let st' = snd (claim_and_sign V exchange chain_id data gas b q st) in
      (w_job st' = w_job st \<and> w_saved st' = w_saved st \<and> w_db st' = (w_db st)\<lparr>d_jobs := rows\<rparr>) \<or>
      (\<exists>n raw h. (\<forall>x \<in> set (in_flight_nonces (sender_of V) (w_db st)). x < n) \<and>
         w_job st' = record_send (sender_of V) n raw h gas (bl_number b) q (w_job st) \<and> w_saved st' = w_db st' \<and>
         w_db st' = (w_db st)\<lparr>d_jobs := put_row j_id (w_job st') rows\<rparr>))"
proof -
  let ?fl = "nonce_floor (sender_of V) (w_db st)"
  let ?nm = "nm_reserve (c_pending_nonce (v_chain V)) (v_account V) ?fl"
  obtain k s where claim: "claim_job V st = (Inr k, st\<lparr>w_db := (w_db st)\<lparr>d_jobs :=
     update_where (\<lambda>r. j_id r = j_id (w_job st) \<and> j_status r = Pending) (\<lambda>r. r\<lparr>j_status := s\<rparr>) (d_jobs (w_db st))\<rparr>\<rparr>)"
    using claim_job_effect by blast
  let ?rows = "update_where (\<lambda>r. j_id r = j_id (w_job st) \<and> j_status r = Pending) (\<lambda>r. r\<lparr>j_status := s\<rparr>) (d_jobs (w_db st))"
  have floor: "x < n" if "?nm nm k' = (Inr (n, nm'), k'')" "x \<in> set (in_flight_nonces (sender_of V) (w_db st))" for nm k' n nm' k'' x
  proof -
    from max_of_bound [OF that(2)] obtain m where m: "?fl = Some (m + 1)" "x \<le> m" by (auto simp: nonce_floor_def)
    then have "\<exists>p. nm_issue p (Some (m + 1)) = (n, nm')"
      using that(1) by (auto simp: nm_reserve_def rpc_return_def rpc_bind_def rpc_call_def split: option.splits sum.splits)
    with nonces.issue_floor m(2) show ?thesis by fastforce
  qed
  show ?thesis
  proof (cases "k = 1")
    case False
    with claim show ?thesis
      by (intro exI [of _ s] exI [of _ ?rows]) (simp add: claim_and_sign_def wk_bind_def wk_get_def wk_return_def)
  next
    case True
    obtain r k2 where nm: "?nm (w_nm st) (w_calls st) = (r, k2)" by (cases "?nm (w_nm st) (w_calls st)")
    show ?thesis
    proof (cases r)
      case (Inl e)
      with claim True nm show ?thesis
        by (intro exI [of _ s] exI [of _ ?rows]) (simp add: claim_and_sign_def wk_bind_def wk_get_def wk_nm_def wk_rpc_def)
    next
      case (Inr p)
      obtain n nm' where p: "p = (n, nm')" by (cases p)
      show ?thesis
      proof (cases "v_sign V (make_tx V n exchange chain_id data gas q)")
        case (Inl e)
        with claim True nm Inr p show ?thesis
          by (intro exI [of _ s] exI [of _ ?rows])
            (simp add: claim_and_sign_def wk_bind_def wk_get_def wk_nm_def wk_rpc_def wk_then_def wk_mod_def wk_return_def wk_raise_def)
      next
        case (Inr rh)
        obtain raw h0 where rh: "rh = (raw, h0)" by (cases rh)
        have "\<forall>x \<in> set (in_flight_nonces (sender_of V) (w_db st)). x < n" using floor nm \<open>r = Inr p\<close> p by blast
        with claim True nm \<open>r = Inr p\<close> p Inr rh show ?thesis
          by (intro exI [of _ s] exI [of _ ?rows])
            (auto simp: claim_and_sign_def wk_bind_def wk_get_def wk_nm_def wk_rpc_def wk_then_def wk_mod_def wk_return_def
              mod_job_def wk_commit_def put_job_def)
      qed
    qed
  qed
qed

section \<open>Over a whole tick\<close>

text \<open>
  A relation on what is committed and what was handed to the node (\<open>view\<close>) that one guarded step keeps,
  whether it ends well (the guard commits) or raises: \<open>session\<close> says that nothing is pending in the
  session, as between two steps.
\<close>

definition session :: "ws \<Rightarrow> bool" where
  "session st = (w_db st = w_saved st)"

locale tick_order =
  fixes V :: wenv and view :: "ws \<Rightarrow> 'v" and rel :: "'v \<Rightarrow> 'v \<Rightarrow> bool"
  assumes rel_refl: "rel d d" and rel_trans: "rel a b \<Longrightarrow> rel b c \<Longrightarrow> rel a c"
    and view_cong: "w_saved x = w_saved y \<Longrightarrow> w_sent x = w_sent y \<Longrightarrow> view x = view y"
    and step: "get_job i (w_saved st) = Some job \<Longrightarrow> session st \<Longrightarrow> w_job st = job \<Longrightarrow>
        in_flight (j_status job) \<and> m = reconcile V exchange chain_id \<or>
        j_status job = Pending \<and> m = send_job V exchange chain_id \<Longrightarrow>
        m st = (r, st') \<Longrightarrow> rel (view st) (view st') \<and> rel (view st) (view (st'\<lparr>w_saved := w_db st'\<rparr>))"
begin

definition good :: "unit wk \<Rightarrow> bool" where
  "good m = (\<forall>st. session st \<longrightarrow> session (snd (m st)) \<and> rel (view st) (view (snd (m st))))"

lemma rel_same: "w_saved x = w_saved y \<Longrightarrow> w_sent x = w_sent y \<Longrightarrow> rel (view x) (view y)"
  using view_cong [of x y] rel_refl by simp

lemma good_guard:
  assumes "statuses = in_flight \<and> m = reconcile V exchange chain_id \<or>
     statuses = (\<lambda>s. s = Pending) \<and> m = send_job V exchange chain_id"
  shows "good (guard V statuses m i)"
  unfolding good_def
proof (intro allI impI)
  fix st assume s: "session st"
  show "session (snd (guard V statuses m i st)) \<and> rel (view st) (view (snd (guard V statuses m i st)))"
  proof (cases "get_job i (w_db st)")
    case None
    then show ?thesis using s rel_refl by (simp add: guard_def)
  next
    case (Some job)
    show ?thesis
    proof (cases "statuses (j_status job)")
      case False
      with Some show ?thesis using s rel_refl by (simp add: guard_def)
    next
      case True
      obtain r st' where m: "m (st\<lparr>w_job := job\<rparr>) = (r, st')" by (cases "m (st\<lparr>w_job := job\<rparr>)")
      have ok: "in_flight (j_status job) \<and> m = reconcile V exchange chain_id \<or>
          j_status job = Pending \<and> m = send_job V exchange chain_id" using assms True by auto
      have "view (st\<lparr>w_job := job\<rparr>) = view st" by (rule view_cong) simp_all
      then have rel: "rel (view st) (view st')" "rel (view st) (view (st'\<lparr>w_saved := w_db st'\<rparr>))"
        using step [of i "st\<lparr>w_job := job\<rparr>" job, OF _ _ _ ok m] s Some by (simp_all add: session_def)
      show ?thesis
      proof (cases r)
        case (Inl e)
        have "view (snd (guard V statuses m i st)) = view st'"
          by (rule view_cong) (simp_all add: guard_def Some True m Inl)
        with rel Inl Some True m show ?thesis by (simp add: guard_def session_def)
      next
        case (Inr u)
        with rel Some True m show ?thesis by (simp add: guard_def session_def)
      qed
    qed
  qed
qed

lemma goodD: "good m \<Longrightarrow> session st \<Longrightarrow> m st = (r, st') \<Longrightarrow> session st' \<and> rel (view st) (view st')"
  unfolding good_def by (metis snd_conv)

lemma good_seq:
  assumes m: "good m" and n: "good n" shows "good (wk_then m n)"
  unfolding good_def
proof (intro allI impI)
  fix st assume s: "session st"
  obtain r st1 where m1: "m st = (r, st1)" by (cases "m st")
  obtain r2 st2 where n1: "n st1 = (r2, st2)" by (cases "n st1")
  have a: "session st1" "rel (view st) (view st1)" using goodD [OF m s m1] by simp_all
  have b: "session st2" "rel (view st) (view st2)" using goodD [OF n a(1) n1] rel_trans [OF a(2)] by simp_all
  have "snd (wk_then m n st) = (case r of Inl e \<Rightarrow> st1 | Inr u \<Rightarrow> st2)"
    using m1 n1 by (cases r) (simp_all add: wk_then_def wk_bind_def)
  with a b show "session (snd (wk_then m n st)) \<and> rel (view st) (view (snd (wk_then m n st)))"
    by (cases r) simp_all
qed

lemma good_each: "(\<And>x. good (f x)) \<Longrightarrow> good (wk_each f xs)"
proof (induction xs)
  case Nil
  then show ?case by (simp add: good_def wk_return_def rel_refl)
next
  case (Cons x xs)
  then show ?case by (simp add: good_seq)
qed

lemma good_get: "(\<And>x. good (m x)) \<Longrightarrow> good (wk_bind (wk_get f) m)"
  by (simp add: good_def wk_bind_def wk_get_def)

lemma good_now: "(\<And>x. good (m x)) \<Longrightarrow> good (wk_bind (wk_now V) m)"
proof -
  assume m: "\<And>x. good (m x)"
  show ?thesis unfolding good_def
  proof (intro allI impI)
    fix st assume s: "session st"
    let ?st = "st\<lparr>w_clock := Suc (w_clock st)\<rparr>" and ?now = "v_now V (w_clock st)"
    have "session ?st" using s by (simp add: session_def)
    then have "session (snd (m ?now ?st)) \<and> rel (view ?st) (view (snd (m ?now ?st)))"
      using m [of ?now] unfolding good_def by blast
    moreover have "view ?st = view st" by (rule view_cong) simp_all
    ultimately show "session (snd (wk_bind (wk_now V) m st)) \<and> rel (view st) (view (snd (wk_bind (wk_now V) m st)))"
      by (simp add: wk_bind_def wk_now_def)
  qed
qed

lemma good_mod: "(\<And>st. w_db (f st) = w_db st \<and> w_saved (f st) = w_saved st \<and> w_sent (f st) = w_sent st) \<Longrightarrow> good (wk_mod f)"
  by (simp add: good_def wk_mod_def session_def rel_same)

lemma good_body: "good (tick_body V exchange chain_id)"
proof -
  have g: "good (wk_each (guard V in_flight (reconcile V exchange chain_id)) xs)"
    "good (wk_each (guard V (\<lambda>s. s = Pending) (send_job V exchange chain_id)) xs)" for xs
    by (intro good_each good_guard; blast)+
  show ?thesis unfolding tick_body_def
    by (intro good_get good_seq good_now g good_mod) simp
qed

lemma tick_step:
  assumes "session st" and "tick V release st = (r, st')"
  shows "session st' \<and> rel (view st) (view st')"
proof -
  have skip: "good (skip_tick why)" for why
    unfolding skip_tick_def mod_stats_def by (intro good_mod) simp
  have lead: "w_db (snd (ensure_leader V st)) = w_db st \<and> w_saved (snd (ensure_leader V st)) = w_saved st \<and>
      w_sent (snd (ensure_leader V st)) = w_sent st" for st
    by (simp add: ensure_leader_def Let_def split: sum.splits)
  have inner: "good (wk_bind (ensure_leader V) (\<lambda>leader.
      if \<not> leader then skip_tick ''not leader'' else tick_body V exchange chain_id))" for exchange chain_id
    unfolding good_def
  proof (intro allI impI)
    fix st assume s: "session st"
    obtain l st1 where l: "ensure_leader V st = (l, st1)" by (cases "ensure_leader V st")
    then have "session st1" "view st = view st1" using lead [of st] s by (auto simp: session_def intro: view_cong)
    with l skip [of "''not leader''"] good_body [of exchange chain_id]
    show "session (snd (wk_bind (ensure_leader V) (\<lambda>leader.
        if \<not> leader then skip_tick ''not leader'' else tick_body V exchange chain_id) st)) \<and>
      rel (view st) (view (snd (wk_bind (ensure_leader V) (\<lambda>leader.
        if \<not> leader then skip_tick ''not leader'' else tick_body V exchange chain_id) st)))"
      by (cases l) (auto simp: wk_bind_def good_def rel_refl)
  qed
  define body where "body = (if \<not> relayer_ready (v_libs V) (v_settings V) then skip_tick ''not ready''
     else (case get_exchange_domain (v_libs V) (v_settings V) of
         None \<Rightarrow> skip_tick ''not ready''
       | Some (exchange, chain_id) \<Rightarrow>
           wk_bind (ensure_leader V) (\<lambda>leader.
           if \<not> leader then skip_tick ''not leader'' else tick_body V exchange chain_id)))"
  have "good body" unfolding body_def using skip inner by (auto split: option.splits)
  moreover have "view (st\<lparr>w_stats := no_stats\<rparr>) = view st" by (rule view_cong) simp_all
  ultimately have b: "session (snd (body (st\<lparr>w_stats := no_stats\<rparr>))) \<and> rel (view st) (view (snd (body (st\<lparr>w_stats := no_stats\<rparr>))))"
    using assms(1) by (auto simp: good_def session_def dest!: spec [of _ "st\<lparr>w_stats := no_stats\<rparr>"])
  obtain x st1 where x: "body (st\<lparr>w_stats := no_stats\<rparr>) = (x, st1)" by (cases "body (st\<lparr>w_stats := no_stats\<rparr>)")
  have "snd (tick V release st) = (if release then st1\<lparr>w_leader := False\<rparr> else st1)"
    using x unfolding tick_def body_def [symmetric]
    by (cases x) (simp_all add: wk_then_def wk_bind_def wk_mod_def wk_try_def release_leadership_def wk_return_def
        wk_raise_def wk_get_def)
  then have out: "st' = st1 \<or> st' = st1\<lparr>w_leader := False\<rparr>" using assms(2) by (auto split: if_splits)
  have "view (st1\<lparr>w_leader := False\<rparr>) = view st1" by (rule view_cong) simp_all
  with out b x show ?thesis by (auto simp: session_def)
qed

lemma run_ticks_step:
  "session st \<Longrightarrow> run_ticks V n st = (r, st') \<Longrightarrow> session st' \<and> rel (view st) (view st')"
proof (induction n arbitrary: st)
  case 0
  then show ?case by (simp add: wk_return_def rel_refl)
next
  case (Suc n)
  obtain x st1 where t: "tick V False st = (x, st1)" by (cases "tick V False st")
  have s1: "session st1" "rel (view st) (view st1)" using tick_step [OF Suc.prems(1) t] by simp_all
  define st2 where "st2 = (case x of Inl e \<Rightarrow> st1\<lparr>w_last_error := take 500 (lib_redact (v_libs V) (x_text e))\<rparr>
    | Inr s \<Rightarrow> st1)"
  have "view st2 = view st1" by (rule view_cong) (simp_all add: st2_def split: sum.splits)
  moreover have "session st2" "run_ticks V n st2 = (r, st')"
    using Suc.prems(2) t s1(1)
    by (cases x; simp add: st2_def wk_bind_def wk_try_def wk_then_def wk_return_def wk_mod_def session_def)+
  ultimately show ?case using Suc.IH s1(2) rel_trans by metis
qed

end

end
