(* ===== verification/Worker_Props.thy ===== *)
theory Worker_Props
  imports Worker_Safety
begin

text \<open>
  The safety properties of the worker over ticks, as interpretations of \<open>worker_order\<close> (one step)
  and \<open>tick_order\<close> (a whole run), and the resend rule of a consumed nonce.
\<close>

section \<open>Jobs only move forward\<close>

definition job_evolves :: "relay_job \<Rightarrow> relay_job \<Rightarrow> bool" where
  "job_evolves r r' = (same_match r r' \<and> prefix (j_tx_hashes r) (j_tx_hashes r') \<and>
     (terminal (j_status r) \<longrightarrow> r' = r))"

definition jobs_evolve :: "relay_job list \<Rightarrow> relay_job list \<Rightarrow> bool" where
  "jobs_evolve js js' = (\<forall>i r. get_row j_id i js = Some r \<longrightarrow>
     (\<exists>r'. get_row j_id i js' = Some r' \<and> job_evolves r r'))"

definition grown :: "relay_job list \<Rightarrow> int \<Rightarrow> relay_job \<Rightarrow> bool" where
  "grown S i j = (j_id j = i \<and> (\<exists>r0. get_row j_id i S = Some r0 \<and> \<not> terminal (j_status r0) \<and>
     same_match r0 j \<and> prefix (j_tx_hashes r0) (j_tx_hashes j)))"

text \<open>
  Relative to the jobs \<open>S\<close> a guarded step on job \<open>i\<close> started from.
\<close>

definition evolved :: "relay_job list \<Rightarrow> int \<Rightarrow> ws \<Rightarrow> bool" where
  "evolved S i st = (jobs_evolve S (d_jobs (w_db st)) \<and> jobs_evolve S (d_jobs (w_saved st)) \<and> grown S i (w_job st))"

lemma job_evolves_refl [simp]: "job_evolves r r"
  by (simp add: job_evolves_def)

lemma job_evolves_trans: "job_evolves a b \<Longrightarrow> job_evolves b c \<Longrightarrow> job_evolves a c"
  unfolding job_evolves_def by (auto intro: same_match_trans prefix_order.trans)

lemma jobs_evolve_refl [simp]: "jobs_evolve S S"
  by (simp add: jobs_evolve_def)

lemma jobs_evolve_trans: "jobs_evolve a b \<Longrightarrow> jobs_evolve b c \<Longrightarrow> jobs_evolve a c"
  unfolding jobs_evolve_def by (meson job_evolves_trans)

text \<open>Rewriting the rows of the step's own job with instances grown from it.\<close>

lemma jobs_evolve_own:
  assumes "jobs_evolve S js" and "\<And>r. get_row j_id i js = Some r \<Longrightarrow> P r \<Longrightarrow> grown S i (f r)"
    and "\<And>r. P r \<Longrightarrow> j_id r = i \<and> j_id (f r) = i"
  shows "jobs_evolve S (update_where P f js)"
  unfolding jobs_evolve_def
proof (intro allI impI)
  fix k r assume k: "get_row j_id k S = Some r"
  then obtain r' where r': "get_row j_id k js = Some r'" "job_evolves r r'"
    using assms(1) by (auto simp: jobs_evolve_def)
  have mem: "r' \<in> set js" "j_id r' = k" using get_row_Some [OF r'(1)] by simp_all
  have keep: "\<And>r. P r \<Longrightarrow> j_id (f r) = j_id r" using assms(3) by simp
  have eq: "get_row j_id k (update_where P f js) = Some (if P r' then f r' else r')"
    using get_row_update_where [of P j_id f, OF keep] r'(1) by simp
  show "\<exists>r'. get_row j_id k (update_where P f js) = Some r' \<and> job_evolves r r'"
  proof (cases "P r'")
    case True
    then have "k = i" using assms(3) mem by auto
    then have "grown S i (f r')" using assms(2) r'(1) True by simp
    with k \<open>k = i\<close> have "job_evolves r (f r')" by (auto simp: grown_def job_evolves_def)
    with eq True show ?thesis by simp
  next
    case False
    with eq r'(2) show ?thesis by simp
  qed
qed

lemma grown_benign: "grown S i j \<Longrightarrow> same_match j j' \<Longrightarrow> prefix (j_tx_hashes j) (j_tx_hashes j') \<Longrightarrow> grown S i j'"
  by (auto simp: grown_def same_match_def intro: prefix_order.trans)

lemma grown_row:
  assumes "jobs_evolve S js" and "grown S i j" and "get_row j_id i js = Some r"
  shows "grown S i r"
proof -
  obtain r0 where r0: "get_row j_id i S = Some r0" "\<not> terminal (j_status r0)" using assms(2) by (auto simp: grown_def)
  with assms(1,3) have "job_evolves r0 r" by (force simp: jobs_evolve_def)
  with r0 get_row_Some [OF assms(3)] show ?thesis by (auto simp: grown_def job_evolves_def)
qed

lemma evolved_own: "evolved S i st \<Longrightarrow> grown S i (w_job st) \<and> j_id (w_job st) = i"
  by (auto simp: evolved_def grown_def)

lemma evolve_put_row: "jobs_evolve S js \<Longrightarrow> grown S i j \<Longrightarrow> jobs_evolve S (put_row j_id j js)"
  unfolding put_row_def by (rule jobs_evolve_own [of _ _ i]) (auto simp: grown_def)

lemma evolved_put: "evolved S i st \<Longrightarrow> grown S i j \<Longrightarrow> evolved S i (put_job j st)"
  by (simp add: evolved_def put_job_def evolve_put_row)

lemma evolved_rollback:
  assumes "evolved S i st"
  shows "evolved S i (snd (wk_rollback V s why st))"
proof -
  obtain ok j db where eq: "rollback_job (v_libs V) (w_db st) (w_job st) s why = (ok, j, db)"
    by (cases "rollback_job (v_libs V) (w_db st) (w_job st) s why")
  note g = evolved_own [OF assms]
  show ?thesis
  proof (cases "j = w_job st \<and> db = w_db st")
    case True
    with eq assms show ?thesis by (simp add: wk_rollback_def evolved_def)
  next
    case False
    then obtain f rows ts where db: "db = (w_db st)\<lparr>d_jobs := update_where (\<lambda>r. j_id r = j_id (w_job st)) f (d_jobs (w_db st)), d_orders := rows, d_trades := ts\<rparr>"
      and f: "\<forall>r. rolled_row (w_job st) s r (f r)"
      and j: "j = w_job st \<or> (\<exists>r \<in> set (d_jobs (w_db st)). j_id r = j_id (w_job st) \<and> j = f r)"
      using rollback_effect [OF eq] by blast
    have fg: "grown S i (f r)" for r
      using f grown_benign [of S i "w_job st" "f r"] g by (simp add: rolled_row_def)
    have "jobs_evolve S (update_where (\<lambda>r. j_id r = j_id (w_job st)) f (d_jobs (w_db st)))"
    proof (rule jobs_evolve_own [of _ _ i])
      show "jobs_evolve S (d_jobs (w_db st))" using assms by (simp add: evolved_def)
      show "j_id r = i \<and> j_id (f r) = i" if "j_id r = j_id (w_job st)" for r
        using that g fg [of r] by (simp add: grown_def)
    qed (rule fg)
    moreover have "grown S i j" using j fg g by blast
    ultimately show ?thesis using eq assms db by (simp add: wk_rollback_def evolved_def)
  qed
qed

lemma jobs_evolve_append: "jobs_evolve S js \<Longrightarrow> jobs_evolve S (js @ new)"
  unfolding jobs_evolve_def get_row_append by (metis option.simps(5))

lemma evolved_claimed:
  assumes "evolved S i st"
  shows "evolved S i (snd (claim_and_sign V exchange chain_id data gas b q st))"
proof -
  let ?st' = "snd (claim_and_sign V exchange chain_id data gas b q st)"
  let ?P = "\<lambda>r. j_id r = j_id (w_job st) \<and> j_status r = Pending"
  obtain s rows where rows: "rows = update_where ?P (\<lambda>r. r\<lparr>j_status := s\<rparr>) (d_jobs (w_db st))"
    and e: "(w_job ?st' = w_job st \<and> w_saved ?st' = w_saved st \<and> w_db ?st' = (w_db st)\<lparr>d_jobs := rows\<rparr>) \<or>
      (\<exists>n raw h. w_job ?st' = record_send (sender_of V) n raw h gas (bl_number b) q (w_job st) \<and> w_saved ?st' = w_db ?st' \<and>
         w_db ?st' = (w_db st)\<lparr>d_jobs := put_row j_id (w_job ?st') rows\<rparr>)"
    using claim_and_sign_effect [of st V exchange chain_id data gas b q] unfolding Let_def by blast
  note g = evolved_own [OF assms]
  have base: "jobs_evolve S (d_jobs (w_db st))" using assms by (simp add: evolved_def)
  have "grown S i (r\<lparr>j_status := s\<rparr>)" if "get_row j_id i (d_jobs (w_db st)) = Some r" for r
    using grown_row [OF base conjunct1 [OF g] that] grown_benign [of S i r "r\<lparr>j_status := s\<rparr>"]
    by (simp add: same_match_def)
  then have r1: "jobs_evolve S rows"
    unfolding rows by (intro jobs_evolve_own [OF base, of i]) (use g in auto)
  from e show ?thesis
  proof (elim disjE exE conjE)
    assume "w_job ?st' = w_job st" "w_saved ?st' = w_saved st" "w_db ?st' = (w_db st)\<lparr>d_jobs := rows\<rparr>"
    with r1 assms show ?thesis by (simp add: evolved_def)
  next
    fix n raw h
    assume st': "w_job ?st' = record_send (sender_of V) n raw h gas (bl_number b) q (w_job st)"
      "w_saved ?st' = w_db ?st'" "w_db ?st' = (w_db st)\<lparr>d_jobs := put_row j_id (w_job ?st') rows\<rparr>"
    have gj: "grown S i (w_job ?st')" unfolding st'(1)
      by (rule grown_benign [of S i "w_job st"]) (use g in \<open>simp_all add: same_match_def record_send_def store_quote_def\<close>)
    with st' evolve_put_row [OF r1 gj] show ?thesis by (simp add: evolved_def)
  qed
qed

lemma evolved_order: "worker_order (\<lambda>st st'. evolved S i st \<longrightarrow> evolved S i st') V"
proof
  show "evolved S i st \<longrightarrow> evolved S i st" for st by simp
  show "evolved S i a \<longrightarrow> evolved S i c" if "evolved S i a \<longrightarrow> evolved S i b" "evolved S i b \<longrightarrow> evolved S i c" for a b c
    using that by simp
  have edit: "evolved S i st \<longrightarrow> evolved S i (put_job (f (w_job st)) st)" if "\<And>j. benign j (f j)" for f st
    using that [of "w_job st"] evolved_put grown_benign evolved_own unfolding benign_def by blast
  show "evolved S i st \<longrightarrow> evolved S i (put_job (f (w_job st)) st)" if "\<And>j. benign j (f j)" for f st
    using edit that .
  show "evolved S i st \<longrightarrow> evolved S i (put_job (f (w_job st)) st)" if "\<And>j. onward j (f j)" for f st
    using edit that onward_benign by metis
  show "evolved S i st \<longrightarrow> evolved S i (snd (wk_rollback V s why st))" for s why st
    using evolved_rollback by blast
  show "evolved S i st \<longrightarrow> evolved S i (snd (resync_filled V ord st))" for ord st
    using resync_filled_effect [of V ord st] by (auto simp: evolved_def)
  show "evolved S i st \<longrightarrow> evolved S i (snd (rematch V ord st))" for ord st
    using rematch_effect [of V ord st] by (auto simp: evolved_def jobs_evolve_append)
  show "evolved S i st \<longrightarrow> evolved S i (snd (claim_and_sign V exchange chain_id data gas b q st))"
    for st exchange chain_id data gas b q using evolved_claimed by blast
qed (simp_all add: evolved_def)

interpretation forward: worker_order "\<lambda>st st'. evolved S i st \<longrightarrow> evolved S i st'" V for S i V
  by (rule evolved_order)

interpretation forward_run: tick_order V w_saved "\<lambda>d d'. jobs_evolve (d_jobs d) (d_jobs d')" for V
proof
  fix i job m r exchange chain_id and st st' :: ws
  let ?d = "w_saved st"
  assume a: "get_job i ?d = Some job" "session st" "w_job st = job"
    "in_flight (j_status job) \<and> m = reconcile V exchange chain_id \<or> j_status job = Pending \<and> m = send_job V exchange chain_id"
    "m st = (r, st')"
  have db: "w_db st = ?d" using a(2) by (simp add: session_def)
  have "\<not> terminal (j_status job)" using a(4) by (cases "j_status job") auto
  with a db have "evolved (d_jobs ?d) i st" using get_row_Some [OF a(1)] by (auto simp: evolved_def grown_def)
  moreover have "forward.keeps (d_jobs ?d) i m" using a(4) forward.keeps_reconcile forward.keeps_send_job by blast
  ultimately have "evolved (d_jobs ?d) i st'" using forward.keepsD a(5) by blast
  then show "jobs_evolve (d_jobs ?d) (d_jobs (w_saved st')) \<and> jobs_evolve (d_jobs ?d) (d_jobs (w_saved (st'\<lparr>w_saved := w_db st'\<rparr>)))"
    by (simp add: evolved_def)
qed (auto intro: jobs_evolve_trans)

section \<open>One nonce, one job\<close>

definition holds_nonce :: "string \<Rightarrow> relay_job \<Rightarrow> int \<Rightarrow> bool" where
  "holds_nonce me r n = (in_flight (j_status r) \<and> j_sender r = me \<and> j_nonce r = Some n)"

definition emission_nonce :: "string \<Rightarrow> emission_distribution \<Rightarrow> int \<Rightarrow> bool" where
  "emission_nonce me e n = (in_flight (e_status e) \<and> e_sender e = me \<and> e_nonce e = Some n)"

text \<open>
  No two jobs in flight from one sender hold the same nonce, none holds that of an emissions distribution,
  a pending job holds none, and job ids are distinct and below the next one.
\<close>

definition nonces_ok :: "string \<Rightarrow> dbase \<Rightarrow> bool" where
  "nonces_ok me db =
     ((\<forall>r \<in> set (d_jobs db). \<forall>r' \<in> set (d_jobs db). \<forall>n. holds_nonce me r n \<and> holds_nonce me r' n \<longrightarrow> j_id r = j_id r') \<and>
      (\<forall>r \<in> set (d_jobs db). \<forall>e \<in> set (d_emissions db). \<forall>n. holds_nonce me r n \<longrightarrow> \<not> emission_nonce me e n) \<and>
      (\<forall>r \<in> set (d_jobs db). j_status r = Pending \<longrightarrow> j_nonce r = None) \<and>
      (\<forall>r \<in> set (d_jobs db). j_id r < d_next_job db) \<and> distinct (map j_id (d_jobs db)))"

definition nonce_free :: "string \<Rightarrow> int \<Rightarrow> int \<Rightarrow> dbase \<Rightarrow> bool" where
  "nonce_free me i n db = ((\<forall>r \<in> set (d_jobs db). j_id r \<noteq> i \<longrightarrow> \<not> holds_nonce me r n) \<and>
     (\<forall>e \<in> set (d_emissions db). \<not> emission_nonce me e n))"

definition inst_ok :: "string \<Rightarrow> int \<Rightarrow> relay_job \<Rightarrow> dbase \<Rightarrow> bool" where
  "inst_ok me i j db = ((j_status j = Pending \<longrightarrow> j_nonce j = None) \<and>
     (\<forall>n. j_sender j = me \<longrightarrow> j_nonce j = Some n \<longrightarrow> nonce_free me i n db) \<and>
     (\<forall>r \<in> set (d_jobs db). j_id r = i \<longrightarrow> j_status r = Pending \<longrightarrow> j_nonce j = None))"

definition nonce_inv :: "string \<Rightarrow> int \<Rightarrow> ws \<Rightarrow> bool" where
  "nonce_inv me i st = (j_id (w_job st) = i \<and> i < d_next_job (w_db st) \<and> nonces_ok me (w_db st) \<and> nonces_ok me (w_saved st) \<and>
     inst_ok me i (w_job st) (w_db st))"

lemma nonces_own:
  assumes "nonces_ok me db" and "d_emissions db' = d_emissions db \<and> d_next_job db' = d_next_job db"
    and "d_jobs db' = update_where P f (d_jobs db)"
    and "\<And>r. P r \<Longrightarrow> j_id r = i \<and> j_id (f r) = i"
    and "\<And>r n. r \<in> set (d_jobs db) \<Longrightarrow> P r \<Longrightarrow> holds_nonce me (f r) n \<Longrightarrow> nonce_free me i n db"
    and "\<And>r. r \<in> set (d_jobs db) \<Longrightarrow> P r \<Longrightarrow> j_status (f r) = Pending \<Longrightarrow> j_nonce (f r) = None"
  shows "nonces_ok me db'"
proof -
  have mem: "(\<exists>r \<in> set (d_jobs db). x = (if P r then f r else r))" if "x \<in> set (d_jobs db')" for x
    using that assms(3) by (auto simp: set_update_where)
  have one: "j_id x = j_id y" if x: "x \<in> set (d_jobs db')" "holds_nonce me x n" and y: "y \<in> set (d_jobs db')" "holds_nonce me y n" for x y n
  proof -
    obtain r r' where r: "r \<in> set (d_jobs db)" "x = (if P r then f r else r)"
      and r': "r' \<in> set (d_jobs db)" "y = (if P r' then f r' else r')" using mem x(1) y(1) by blast
    have other: "j_id b = i" if "nonce_free me i n db" "holds_nonce me b n" "b \<in> set (d_jobs db)" for b
      using that by (auto simp: nonce_free_def)
    show ?thesis
      using assms(1,4,5) r r' x(2) y(2) other
      by (cases "P r"; cases "P r'") (simp_all add: nonces_ok_def, blast+)
  qed
  have ems: "\<not> emission_nonce me e n" if x: "x \<in> set (d_jobs db')" "holds_nonce me x n" and "e \<in> set (d_emissions db)" for x e n
  proof -
    obtain r where r: "r \<in> set (d_jobs db)" "x = (if P r then f r else r)" using mem x(1) by blast
    show ?thesis
    proof (cases "P r")
      case True
      then have "nonce_free me i n db" using assms(5) r x(2) by simp
      with that(3) show ?thesis by (simp add: nonce_free_def)
    next
      case False
      with assms(1) r x(2) that(3) show ?thesis by (auto simp: nonces_ok_def)
    qed
  qed
  have pend: "j_nonce x = None" if "x \<in> set (d_jobs db')" "j_status x = Pending" for x
    using mem [OF that(1)] assms(1,6) that(2) by (auto simp: nonces_ok_def split: if_splits)
  have below: "j_id x < d_next_job db" if "x \<in> set (d_jobs db')" for x
  proof -
    obtain r where r: "r \<in> set (d_jobs db)" "x = (if P r then f r else r)" using mem \<open>x \<in> set (d_jobs db')\<close> by blast
    then have "j_id x = j_id r" using assms(4) by (cases "P r") simp_all
    with r(1) assms(1) show ?thesis by (simp add: nonces_ok_def)
  qed
  have "map j_id (d_jobs db') = map j_id (d_jobs db)"
    unfolding assms(3) by (rule map_update_where) (simp add: assms(4))
  then have dist: "distinct (map j_id (d_jobs db'))" using assms(1) by (simp add: nonces_ok_def)
  show ?thesis unfolding nonces_ok_def
  proof (intro conjI ballI allI impI)
    show "j_id r = j_id r'" if "r \<in> set (d_jobs db')" "r' \<in> set (d_jobs db')" "holds_nonce me r n \<and> holds_nonce me r' n" for r r' n
      using one that by blast
    show "\<not> emission_nonce me e n" if "r \<in> set (d_jobs db')" "e \<in> set (d_emissions db')" "holds_nonce me r n" for r e n
      using ems that assms(2) by simp
  qed (use pend below dist assms(2) in simp_all)
qed

lemma free_own:
  assumes "d_emissions db' = d_emissions db" and "d_jobs db' = update_where P f (d_jobs db)"
    and "\<And>r. P r \<Longrightarrow> j_id r = i \<and> j_id (f r) = i"
  shows "nonce_free me i n db' = nonce_free me i n db"
  using assms by (auto simp: nonce_free_def set_update_where)

lemma inst_put:
  assumes "inst_ok me i j db" and "j_id j = i"
  shows "inst_ok me i j (db\<lparr>d_jobs := put_row j_id j (d_jobs db)\<rparr>)"
proof -
  have "nonce_free me i n (db\<lparr>d_jobs := put_row j_id j (d_jobs db)\<rparr>) = nonce_free me i n db" for n
    by (rule free_own [where P = "\<lambda>x. j_id x = i" and f = "\<lambda>_. j"]) (simp_all add: put_row_def assms(2))
  moreover have "j_nonce j = None" if "r \<in> set (put_row j_id j (d_jobs db))" "j_id r = i" "j_status r = Pending" for r
    using assms that set_put_row [of j_id j "d_jobs db"] unfolding inst_ok_def by fast
  ultimately show ?thesis using assms(1) by (simp add: inst_ok_def)
qed

lemma nonces_put:
  assumes "nonces_ok me db" and "inst_ok me i j db" and "j_id j = i"
  shows "nonces_ok me (db\<lparr>d_jobs := put_row j_id j (d_jobs db)\<rparr>)"
proof (rule nonces_own [OF assms(1), where P = "\<lambda>x. j_id x = i" and f = "\<lambda>_. j" and i = i])
  show "nonce_free me i n db" if "holds_nonce me j n" for n
    using that assms(2) by (simp add: inst_ok_def holds_nonce_def)
  show "j_nonce j = None" if "j_status j = Pending" using that assms(2) by (simp add: inst_ok_def)
qed (simp_all add: put_row_def assms(3))

lemma nonce_put: "nonce_inv me i st \<Longrightarrow> inst_ok me i j (w_db st) \<Longrightarrow> j_id j = i \<Longrightarrow> nonce_inv me i (put_job j st)"
  by (simp add: nonce_inv_def put_job_def inst_put nonces_put)

lemma inst_benign:
  assumes "inst_ok me i j db" and "benign j j'" shows "inst_ok me i j' db"
  using assms unfolding inst_ok_def benign_def by (metis option.distinct(1))

lemma nonce_rollback:
  assumes inv: "nonce_inv me i st" and "terminal s"
  shows "nonce_inv me i (snd (wk_rollback V s why st))"
proof -
  obtain ok j db where eq: "rollback_job (v_libs V) (w_db st) (w_job st) s why = (ok, j, db)"
    by (cases "rollback_job (v_libs V) (w_db st) (w_job st) s why")
  have i: "j_id (w_job st) = i" and inst: "inst_ok me i (w_job st) (w_db st)" and ok: "nonces_ok me (w_db st)"
    using inv by (simp_all add: nonce_inv_def)
  have out: "snd (wk_rollback V s why st) = st\<lparr>w_job := j, w_db := db\<rparr>" by (simp add: wk_rollback_def eq)
  show ?thesis
  proof (cases "j = w_job st \<and> db = w_db st")
    case True
    with out inv show ?thesis by (simp add: nonce_inv_def)
  next
    case False
    then obtain f rows ts where db: "db = (w_db st)\<lparr>d_jobs := update_where (\<lambda>r. j_id r = j_id (w_job st)) f (d_jobs (w_db st)), d_orders := rows, d_trades := ts\<rparr>"
      and f: "\<And>r. rolled_row (w_job st) s r (f r)"
      and j: "j = w_job st \<or> (\<exists>r \<in> set (d_jobs (w_db st)). j_id r = j_id (w_job st) \<and> j = f r)"
      using rollback_effect [OF eq] by blast
    have static: "j_id (f r) = i" "j_nonce (f r) = j_nonce (w_job st)" "j_sender (f r) = j_sender (w_job st)"
      "j_status (f r) = Pending \<Longrightarrow> j_status r = Pending" for r
      using f [of r] i \<open>terminal s\<close> by (auto simp: rolled_row_def same_match_def)
    have free: "nonce_free me i n db = nonce_free me i n (w_db st)" for n
      by (rule free_own [where P = "\<lambda>r. j_id r = j_id (w_job st)" and f = f]) (simp_all add: db i static)
    have pend: "j_nonce (f r) = None" if "r \<in> set (d_jobs (w_db st))" "j_id r = i" "j_status (f r) = Pending" for r
      using that static inst unfolding inst_ok_def by metis
    have "nonces_ok me db"
    proof (rule nonces_own [OF ok, where P = "\<lambda>r. j_id r = j_id (w_job st)" and f = f and i = i])
      show "nonce_free me i n (w_db st)" if "holds_nonce me (f r) n" for r n
        using that static inst unfolding inst_ok_def holds_nonce_def by metis
      show "j_nonce (f r) = None"
        if "r \<in> set (d_jobs (w_db st))" "j_id r = j_id (w_job st)" "j_status (f r) = Pending" for r
        using pend [of r] that i by simp
    qed (simp_all add: db i static)
    moreover have "inst_ok me i j db"
    proof -
      have jn: "j_nonce j = j_nonce (w_job st)" "j_sender j = j_sender (w_job st)" using j static by auto
      have "j_nonce j = None" if "j_status j = Pending"
        using j that pend i inst by (auto simp: inst_ok_def)
      moreover have "j_nonce j = None" if "r \<in> set (d_jobs db)" "j_id r = i" "j_status r = Pending" for r
      proof -
        note r = that
        obtain r0 where r0: "r0 \<in> set (d_jobs (w_db st))" "r = (if j_id r0 = i then f r0 else r0)"
          using r(1) by (auto simp: db i set_update_where)
        have "j_id r0 = i" using r0(2) r(2) by (auto split: if_splits)
        with r0 pend [of r0] r(3) static(2) jn show ?thesis by simp
      qed
      ultimately show ?thesis using inst jn free unfolding inst_ok_def by simp
    qed
    moreover have "j_id j = i" using j static i by auto
    moreover have "d_next_job db = d_next_job (w_db st)" by (simp add: db)
    ultimately show ?thesis using out inv by (simp add: nonce_inv_def)
  qed
qed

lemma in_flight_nonces_mem:
  "r \<in> set (d_jobs db) \<Longrightarrow> holds_nonce me r n \<Longrightarrow> n \<in> set (in_flight_nonces me db)"
  "e \<in> set (d_emissions db) \<Longrightarrow> emission_nonce me e n \<Longrightarrow> n \<in> set (in_flight_nonces me db)"
  by (force simp: in_flight_nonces_def holds_nonce_def emission_nonce_def List.map_filter_def)+

lemma nonce_claimed:
  assumes "nonce_inv (sender_of V) i st"
  shows "nonce_inv (sender_of V) i (snd (claim_and_sign V exchange chain_id data gas b q st))"
proof -
  let ?me = "sender_of V" and ?st' = "snd (claim_and_sign V exchange chain_id data gas b q st)"
  let ?P = "\<lambda>r. j_id r = j_id (w_job st) \<and> j_status r = Pending"
  have i: "j_id (w_job st) = i" and inst: "inst_ok ?me i (w_job st) (w_db st)" and ok: "nonces_ok ?me (w_db st)"
    using assms by (simp_all add: nonce_inv_def)
  obtain s rows where rows: "rows = update_where ?P (\<lambda>r. r\<lparr>j_status := s\<rparr>) (d_jobs (w_db st))"
    and e: "(w_job ?st' = w_job st \<and> w_saved ?st' = w_saved st \<and> w_db ?st' = (w_db st)\<lparr>d_jobs := rows\<rparr>) \<or>
      (\<exists>n raw h. (\<forall>x \<in> set (in_flight_nonces ?me (w_db st)). x < n) \<and>
         w_job ?st' = record_send ?me n raw h gas (bl_number b) q (w_job st) \<and> w_saved ?st' = w_db ?st' \<and>
         w_db ?st' = (w_db st)\<lparr>d_jobs := put_row j_id (w_job ?st') rows\<rparr>)"
    using claim_and_sign_effect [of st V exchange chain_id data gas b q] unfolding Let_def by blast
  let ?db1 = "(w_db st)\<lparr>d_jobs := rows\<rparr>"
  have none: "j_nonce r = None" if "r \<in> set (d_jobs (w_db st))" "?P r" for r
    using that ok by (simp add: nonces_ok_def)
  have ok1: "nonces_ok ?me ?db1"
    by (rule nonces_own [OF ok, where P = ?P and f = "\<lambda>r. r\<lparr>j_status := s\<rparr>" and i = i])
      (simp_all add: rows i none holds_nonce_def)
  have free1: "nonce_free ?me i n ?db1 = nonce_free ?me i n (w_db st)" for n
    by (rule free_own [where P = ?P and f = "\<lambda>r. r\<lparr>j_status := s\<rparr>"]) (simp_all add: rows i)
  have pend1: "j_nonce (w_job st) = None" if "r \<in> set rows" "j_id r = i" "j_status r = Pending" for r
  proof -
    note r = that
    obtain r0 where r0: "r0 \<in> set (d_jobs (w_db st))" "r = (if ?P r0 then r0\<lparr>j_status := s\<rparr> else r0)"
      using r(1) unfolding rows set_update_where by blast
    then have "j_id r0 = i" "j_status r0 = Pending" using r i by (auto split: if_splits)
    with r0(1) inst show ?thesis by (simp add: inst_ok_def)
  qed
  from e show ?thesis
  proof (elim disjE exE conjE)
    assume "w_job ?st' = w_job st" "w_saved ?st' = w_saved st" "w_db ?st' = ?db1"
    moreover have "inst_ok ?me i (w_job st) ?db1" using inst pend1 free1 by (simp add: inst_ok_def)
    ultimately show ?thesis using assms ok1 by (simp add: nonce_inv_def)
  next
    fix n raw h
    assume above: "\<forall>x \<in> set (in_flight_nonces ?me (w_db st)). x < n"
      and st': "w_job ?st' = record_send ?me n raw h gas (bl_number b) q (w_job st)" "w_saved ?st' = w_db ?st'"
        "w_db ?st' = (w_db st)\<lparr>d_jobs := put_row j_id (w_job ?st') rows\<rparr>"
    let ?j = "record_send ?me n raw h gas (bl_number b) q (w_job st)"
    have j: "j_id ?j = i" "j_nonce ?j = Some n" "j_status ?j = Sending" "j_sender ?j = ?me"
      using i by (simp_all add: record_send_def store_quote_def)
    have free: "nonce_free ?me i n (w_db st)" unfolding nonce_free_def
      using above in_flight_nonces_mem [of _ "w_db st" ?me n] by blast
    have ok': "nonces_ok ?me (w_db ?st')"
    proof (rule nonces_own [OF ok1, where P = "\<lambda>x. j_id x = i" and f = "\<lambda>_. ?j" and i = i])
      show "nonce_free ?me i m ?db1" if "holds_nonce ?me ?j m" for m
        using that j free free1 by (simp add: holds_nonce_def)
    qed (simp_all add: j st' put_row_def)
    have "nonce_free ?me i n (w_db ?st') = nonce_free ?me i n ?db1"
      by (rule free_own [where P = "\<lambda>x. j_id x = i" and f = "\<lambda>_. ?j"]) (simp_all add: j st' put_row_def)
    moreover have "r = ?j" if "r \<in> set (d_jobs (w_db ?st'))" "j_id r = i" for r
      using that st' j by (auto simp: put_row_def set_update_where split: if_splits)
    ultimately have "inst_ok ?me i ?j (w_db ?st')" using j free free1 by (fastforce simp: inst_ok_def)
    moreover have "i < d_next_job (w_db st)" using assms by (simp add: nonce_inv_def)
    ultimately show ?thesis using ok' st' j by (simp add: nonce_inv_def)
  qed
qed

lemma nonces_append:
  assumes "nonces_ok me db" and "d_jobs D = d_jobs db @ js" and "d_emissions D = d_emissions db"
    and "\<forall>j \<in> set js. j_status j = Pending \<and> j_nonce j = None"
    and "\<forall>j \<in> set js. d_next_job db \<le> j_id j \<and> j_id j < d_next_job D" and "d_next_job db \<le> d_next_job D"
    and "distinct (map j_id js)"
  shows "nonces_ok me D" and "inst_ok me i j db \<Longrightarrow> i < d_next_job db \<Longrightarrow> inst_ok me i j D"
proof -
  have no: "\<not> holds_nonce me x n" if "x \<in> set js" for x n
    using that assms(4) by (simp add: holds_nonce_def)
  have mem: "x \<in> set (d_jobs D) \<longleftrightarrow> x \<in> set (d_jobs db) \<or> x \<in> set js" for x by (simp add: assms(2))
  have below: "\<forall>x \<in> set (d_jobs D). j_id x < d_next_job D" using assms(1,5,6) mem by (force simp: nonces_ok_def)
  have "j_id x \<noteq> j_id y" if "x \<in> set (d_jobs db)" "y \<in> set js" for x y
    using that assms(1,5) by (force simp: nonces_ok_def)
  then have dist: "distinct (map j_id (d_jobs D))" using assms(1,7) by (auto simp: assms(2) nonces_ok_def)
  have ok: "\<And>r r' n. r \<in> set (d_jobs db) \<Longrightarrow> r' \<in> set (d_jobs db) \<Longrightarrow> holds_nonce me r n \<and> holds_nonce me r' n \<Longrightarrow> j_id r = j_id r'"
    "\<And>r e n. r \<in> set (d_jobs db) \<Longrightarrow> e \<in> set (d_emissions db) \<Longrightarrow> holds_nonce me r n \<Longrightarrow> \<not> emission_nonce me e n"
    "\<And>r. r \<in> set (d_jobs db) \<Longrightarrow> j_status r = Pending \<Longrightarrow> j_nonce r = None"
    using assms(1) unfolding nonces_ok_def by blast+
  show "nonces_ok me D" unfolding nonces_ok_def
  proof (intro conjI ballI allI impI)
    show "j_id r = j_id r'" if "r \<in> set (d_jobs D)" "r' \<in> set (d_jobs D)" "holds_nonce me r n \<and> holds_nonce me r' n" for r r' n
      using that mem no ok(1) by metis
    show "\<not> emission_nonce me e n" if "r \<in> set (d_jobs D)" "e \<in> set (d_emissions D)" "holds_nonce me r n" for r e n
      using that mem no ok(2) assms(3) by metis
    show "j_nonce r = None" if "r \<in> set (d_jobs D)" "j_status r = Pending" for r
      using that mem ok(3) assms(4) by metis
  qed (use below dist in simp_all)
  show "inst_ok me i j D" if inst: "inst_ok me i j db" and i: "i < d_next_job db"
  proof -
    have new: "j_id x \<noteq> i" if "x \<in> set js" for x using that i assms(5) by force
    have "nonce_free me i n D" if "nonce_free me i n db" for n
      unfolding nonce_free_def
    proof (intro conjI ballI impI)
      show "\<not> holds_nonce me r n" if "r \<in> set (d_jobs D)" "j_id r \<noteq> i" for r
        using \<open>nonce_free me i n db\<close> that mem no by (metis nonce_free_def)
      show "\<not> emission_nonce me e n" if "e \<in> set (d_emissions D)" for e
        using \<open>nonce_free me i n db\<close> that assms(3) by (simp add: nonce_free_def)
    qed
    with inst mem new show ?thesis unfolding inst_ok_def by metis
  qed
qed

lemma nonce_order: "worker_order (\<lambda>st st'. nonce_inv (sender_of V) i st \<longrightarrow> nonce_inv (sender_of V) i st') V"
proof
  let ?I = "nonce_inv (sender_of V) i"
  show "?I a \<longrightarrow> ?I c" if "?I a \<longrightarrow> ?I b" "?I b \<longrightarrow> ?I c" for a b c using that by simp
  have edit: "?I st \<longrightarrow> ?I (put_job (f (w_job st)) st)" if b: "\<And>j. benign j (f j)" for f st
  proof
    assume inv: "?I st"
    have "inst_ok (sender_of V) i (f (w_job st)) (w_db st)"
      using inst_benign [OF _ b] inv by (simp add: nonce_inv_def)
    moreover have "j_id (f (w_job st)) = i" using inv b [of "w_job st"] by (simp add: nonce_inv_def benign_def same_match_def)
    ultimately show "?I (put_job (f (w_job st)) st)" by (rule nonce_put [OF inv])
  qed
  show "?I st \<longrightarrow> ?I (put_job (f (w_job st)) st)" if "\<And>j. benign j (f j)" for f st using edit that .
  show "?I st \<longrightarrow> ?I (put_job (f (w_job st)) st)" if "\<And>j. onward j (f j)" for f st
    using edit that onward_benign by metis
  show "?I st \<longrightarrow> ?I (snd (wk_rollback V s why st))" if "terminal s" for s why st using nonce_rollback that by blast
  show "?I st \<longrightarrow> ?I (snd (claim_and_sign V exchange chain_id data gas b q st))" for st exchange chain_id data gas b q
    using nonce_claimed by blast
  show "?I st \<longrightarrow> ?I (snd (rematch V ord st))" for st ord
  proof
    assume inv: "?I st"
    obtain js D where D: "snd (rematch V ord st) = st\<lparr>w_clock := Suc (w_clock st), w_db := D\<rparr>"
      "d_jobs D = d_jobs (w_db st) @ js" "d_emissions D = d_emissions (w_db st)"
      "\<forall>j \<in> set js. j_status j = Pending \<and> j_nonce j = None"
      "\<forall>j \<in> set js. d_next_job (w_db st) \<le> j_id j \<and> j_id j < d_next_job D" "d_next_job (w_db st) \<le> d_next_job D"
      "distinct (map j_id js)"
      using rematch_effect [of V ord st] by blast
    note app = nonces_append [OF _ D(2-7)]
    show "?I (snd (rematch V ord st))" using inv app D(1,6) by (auto simp: nonce_inv_def)
  qed
  show "?I st \<longrightarrow> ?I (snd (resync_filled V ord st))" for st ord
  proof -
    obtain rows k where "snd (resync_filled V ord st) = st\<lparr>w_calls := k, w_db := (w_db st)\<lparr>d_orders := rows\<rparr>\<rparr>"
      using resync_filled_effect [of V ord st] by blast
    then show ?thesis by (simp add: nonce_inv_def nonces_ok_def inst_ok_def nonce_free_def)
  qed
  show "?I st \<longrightarrow> ?I (st\<lparr>w_db := (w_db st)\<lparr>d_orders := exec_stmt (Stmt_Cancel k) (d_orders (w_db st))\<rparr>\<rparr>)" for st k
    by (simp add: nonce_inv_def nonces_ok_def inst_ok_def nonce_free_def)
  show "?I st \<longrightarrow> ?I (st\<lparr>w_db := (w_db st)\<lparr>d_trades := ts\<rparr>\<rparr>)" for st ts
    by (simp add: nonce_inv_def nonces_ok_def inst_ok_def nonce_free_def)
qed (simp_all add: nonce_inv_def)

interpretation nonce_step: worker_order "\<lambda>st st'. nonce_inv (sender_of V) i st \<longrightarrow> nonce_inv (sender_of V) i st'" V for i V
  by (rule nonce_order)


lemma nonce_inv_start:
  assumes "nonces_ok me d" and "get_job i d = Some job"
    and "w_db st = d" "w_saved st = d" "w_job st = job" and "live (j_status job)"
  shows "nonce_inv me i st"
proof -
  have job: "job \<in> set (d_jobs d)" "j_id job = i" using get_row_Some [OF assms(2)] by simp_all
  have only: "r = job" if "r \<in> set (d_jobs d)" "j_id r = i" for r
    using get_row_distinct [of j_id "d_jobs d" r] that assms(1,2) by (simp add: nonces_ok_def)
  have "nonce_free me i n d" if "j_sender job = me" "j_nonce job = Some n" for n
  proof -
    have "in_flight (j_status job)" using assms(1,6) job(1) that(2) by (cases "j_status job") (auto simp: nonces_ok_def)
    then have h: "holds_nonce me job n" using that by (simp add: holds_nonce_def)
    show ?thesis unfolding nonce_free_def
    proof (intro conjI ballI impI notI)
      show False if "r \<in> set (d_jobs d)" "j_id r \<noteq> i" "holds_nonce me r n" for r
        using assms(1) h job that unfolding nonces_ok_def by metis
      show False if "e \<in> set (d_emissions d)" "emission_nonce me e n" for e
        using assms(1) h job(1) that unfolding nonces_ok_def by metis
    qed
  qed
  moreover have "i < d_next_job d" "j_status job = Pending \<longrightarrow> j_nonce job = None"
    using assms(1) job by (auto simp: nonces_ok_def)
  moreover have "j_nonce job = None" if "r \<in> set (d_jobs d)" "j_id r = i" "j_status r = Pending" for r
    using only [OF that(1,2)] that(1,3) assms(1) by (simp add: nonces_ok_def)
  ultimately show ?thesis using assms(1,3,4,5) job(2) unfolding nonce_inv_def inst_ok_def by simp
qed

interpretation nonce_run: tick_order V w_saved "\<lambda>d d'. nonces_ok (sender_of V) d \<longrightarrow> nonces_ok (sender_of V) d'" for V
proof
  fix i job m r exchange chain_id and st st' :: ws
  let ?d = "w_saved st"
  assume a: "get_job i ?d = Some job" "session st" "w_job st = job"
    "in_flight (j_status job) \<and> m = reconcile V exchange chain_id \<or> j_status job = Pending \<and> m = send_job V exchange chain_id"
    "m st = (r, st')"
  have db: "w_db st = ?d" using a(2) by (simp add: session_def)
  have live: "live (j_status job)" using a(4) by (cases "j_status job") auto
  have keeps: "nonce_step.keeps V i m" using a(4) nonce_step.keeps_reconcile nonce_step.keeps_send_job by blast
  have "nonce_inv (sender_of V) i st'" if "nonces_ok (sender_of V) ?d"
    using nonce_step.keepsD [OF keeps a(5)] nonce_inv_start [OF that a(1) db refl a(3) live] by blast
  then show "(nonces_ok (sender_of V) ?d \<longrightarrow> nonces_ok (sender_of V) (w_saved st')) \<and>
      (nonces_ok (sender_of V) ?d \<longrightarrow> nonces_ok (sender_of V) (w_saved (st'\<lparr>w_saved := w_db st'\<rparr>)))"
    by (simp add: nonce_inv_def)
qed auto

section \<open>Orders stay within their amounts\<close>

definition fills_ok :: "dbase \<Rightarrow> bool" where
  "fills_ok db = (orders_ok (d_orders db) \<and> (\<forall>j \<in> set (d_jobs db). 0 \<le> j_fill_amount j))"

text \<open>What is assumed of the node and of the other transactions.\<close>

definition fair_env :: "wenv \<Rightarrow> bool" where
  "fair_env V = ((\<forall>h k v. c_ex_filled (v_chain V) h k = Inr v \<longrightarrow> 0 \<le> v) \<and>
     (\<forall>k n. list_all stmt_ok (v_sched V k n)))"

definition fill_inv :: "ws \<Rightarrow> bool" where
  "fill_inv st = (fills_ok (w_db st) \<and> fills_ok (w_saved st) \<and> 0 \<le> j_fill_amount (w_job st))"

lemma fills_put: "fills_ok db \<Longrightarrow> 0 \<le> j_fill_amount j \<Longrightarrow> fills_ok (db\<lparr>d_jobs := put_row j_id j (d_jobs db)\<rparr>)"
  using set_put_row [of j_id j "d_jobs db"] by (auto simp: fills_ok_def)

lemma fill_rollback:
  assumes "fill_inv st" shows "fill_inv (snd (wk_rollback V s why st))"
proof -
  obtain ok j db where eq: "rollback_job (v_libs V) (w_db st) (w_job st) s why = (ok, j, db)"
    by (cases "rollback_job (v_libs V) (w_db st) (w_job st) s why")
  have out: "snd (wk_rollback V s why st) = st\<lparr>w_job := j, w_db := db\<rparr>" by (simp add: wk_rollback_def eq)
  show ?thesis
  proof (cases "j = w_job st \<and> db = w_db st")
    case True
    with out assms show ?thesis by (simp add: fill_inv_def)
  next
    case False
    then obtain f rows ts where db: "db = (w_db st)\<lparr>d_jobs := update_where (\<lambda>r. j_id r = j_id (w_job st)) f (d_jobs (w_db st)), d_orders := rows, d_trades := ts\<rparr>"
      and f: "\<And>r. rolled_row (w_job st) s r (f r)"
      and j: "j = w_job st \<or> (\<exists>r \<in> set (d_jobs (w_db st)). j_id r = j_id (w_job st) \<and> j = f r)"
      and rows: "rows = d_orders (w_db st) \<or>
        rows = exec_stmt (Stmt_Rollback [j_taker_hash (w_job st), j_maker_hash (w_job st)] (j_fill_amount (w_job st))) (d_orders (w_db st))"
      using rollback_effect [OF eq] by blast
    have fill: "j_fill_amount (f r) = j_fill_amount (w_job st)" for r
      using f [of r] by (simp add: rolled_row_def same_match_def)
    have "orders_ok rows"
      using rows exec_stmt_ok [of "Stmt_Rollback [j_taker_hash (w_job st), j_maker_hash (w_job st)] (j_fill_amount (w_job st))"] assms
      by (auto simp: fill_inv_def fills_ok_def simp del: exec_stmt.simps)
    moreover have "\<forall>x \<in> set (d_jobs db). 0 \<le> j_fill_amount x"
      using assms fill by (auto simp: db set_update_where fill_inv_def fills_ok_def)
    moreover have "0 \<le> j_fill_amount j" using j fill assms by (auto simp: fill_inv_def)
    ultimately show ?thesis using out assms db by (simp add: fill_inv_def fills_ok_def)
  qed
qed

lemma fill_claimed:
  assumes "fill_inv st"
  shows "fill_inv (snd (claim_and_sign V exchange chain_id data gas b q st))"
proof -
  let ?st' = "snd (claim_and_sign V exchange chain_id data gas b q st)"
  let ?P = "\<lambda>r. j_id r = j_id (w_job st) \<and> j_status r = Pending"
  obtain s rows where rows: "rows = update_where ?P (\<lambda>r. r\<lparr>j_status := s\<rparr>) (d_jobs (w_db st))"
    and e: "(w_job ?st' = w_job st \<and> w_saved ?st' = w_saved st \<and> w_db ?st' = (w_db st)\<lparr>d_jobs := rows\<rparr>) \<or>
      (\<exists>n raw h. w_job ?st' = record_send (sender_of V) n raw h gas (bl_number b) q (w_job st) \<and> w_saved ?st' = w_db ?st' \<and>
         w_db ?st' = (w_db st)\<lparr>d_jobs := put_row j_id (w_job ?st') rows\<rparr>)"
    using claim_and_sign_effect [of st V exchange chain_id data gas b q] unfolding Let_def by blast
  have ok1: "fills_ok ((w_db st)\<lparr>d_jobs := rows\<rparr>)"
    using assms by (auto simp: rows set_update_where fill_inv_def fills_ok_def)
  from e show ?thesis
  proof (elim disjE exE conjE)
    assume "w_job ?st' = w_job st" "w_saved ?st' = w_saved st" "w_db ?st' = (w_db st)\<lparr>d_jobs := rows\<rparr>"
    with ok1 assms show ?thesis by (simp add: fill_inv_def)
  next
    fix n raw h
    assume st': "w_job ?st' = record_send (sender_of V) n raw h gas (bl_number b) q (w_job st)"
      "w_saved ?st' = w_db ?st'" "w_db ?st' = (w_db st)\<lparr>d_jobs := put_row j_id (w_job ?st') rows\<rparr>"
    have "0 \<le> j_fill_amount (w_job ?st')" using assms by (simp add: st'(1) fill_inv_def record_send_def store_quote_def)
    with fills_put [OF ok1] st' show ?thesis by (simp add: fill_inv_def)
  qed
qed

lemma fill_order: "worker_order (\<lambda>st st'. fair_env V \<longrightarrow> fill_inv st \<longrightarrow> fill_inv st') V"
proof
  show "fair_env V \<longrightarrow> fill_inv a \<longrightarrow> fill_inv c"
    if "fair_env V \<longrightarrow> fill_inv a \<longrightarrow> fill_inv b" "fair_env V \<longrightarrow> fill_inv b \<longrightarrow> fill_inv c" for a b c
    using that by blast
  have edit: "fair_env V \<longrightarrow> fill_inv st \<longrightarrow> fill_inv (put_job (f (w_job st)) st)" if b: "\<And>j. benign j (f j)" for f st
    using b [of "w_job st"] fills_put by (simp add: fill_inv_def put_job_def benign_def same_match_def)
  show "fair_env V \<longrightarrow> fill_inv st \<longrightarrow> fill_inv (put_job (f (w_job st)) st)" if "\<And>j. benign j (f j)" for f st
    using edit that .
  show "fair_env V \<longrightarrow> fill_inv st \<longrightarrow> fill_inv (put_job (f (w_job st)) st)" if "\<And>j. onward j (f j)" for f st
    using edit that onward_benign by metis
  show "fair_env V \<longrightarrow> fill_inv st \<longrightarrow> fill_inv (snd (wk_rollback V s why st))" for s why st
    using fill_rollback by blast
  show "fair_env V \<longrightarrow> fill_inv st \<longrightarrow> fill_inv (snd (claim_and_sign V exchange chain_id data gas b q st))"
    for st exchange chain_id data gas b q using fill_claimed by blast
  show "fair_env V \<longrightarrow> fill_inv st \<longrightarrow> fill_inv (snd (rematch V ord st))" for st ord
  proof (intro impI)
    assume fair: "fair_env V" and inv: "fill_inv st"
    obtain js D where D: "snd (rematch V ord st) = st\<lparr>w_clock := Suc (w_clock st), w_db := D\<rparr>"
      "d_jobs D = d_jobs (w_db st) @ js" "\<forall>j \<in> set js. 0 < j_fill_amount j"
      "orders_ok (d_orders (w_db st)) \<longrightarrow> (\<forall>k n. list_all stmt_ok (v_sched V k n)) \<longrightarrow> orders_ok (d_orders D)"
      using rematch_effect [of V ord st] by blast
    with fair inv show "fill_inv (snd (rematch V ord st))"
      by (auto simp: fill_inv_def fills_ok_def fair_env_def less_imp_le)
  qed
  show "fair_env V \<longrightarrow> fill_inv st \<longrightarrow> fill_inv (snd (resync_filled V ord st))" for st ord
  proof (intro impI)
    assume fair: "fair_env V" and inv: "fill_inv st"
    obtain rows k where "snd (resync_filled V ord st) = st\<lparr>w_calls := k, w_db := (w_db st)\<lparr>d_orders := rows\<rparr>\<rparr>"
      "orders_ok (d_orders (w_db st)) \<longrightarrow> (\<forall>h k v. c_ex_filled (v_chain V) h k = Inr v \<longrightarrow> 0 \<le> v) \<longrightarrow>
       (\<forall>j \<in> set (d_jobs (w_db st)). 0 \<le> j_fill_amount j) \<longrightarrow> orders_ok rows"
      using resync_filled_effect [of V ord st] by blast
    with fair inv show "fill_inv (snd (resync_filled V ord st))" by (simp add: fill_inv_def fills_ok_def fair_env_def)
  qed
  show "fair_env V \<longrightarrow> fill_inv st \<longrightarrow>
      fill_inv (st\<lparr>w_db := (w_db st)\<lparr>d_orders := exec_stmt (Stmt_Cancel i) (d_orders (w_db st))\<rparr>\<rparr>)" for st i
    using exec_stmt_ok [of "Stmt_Cancel i"] by (simp add: fill_inv_def fills_ok_def del: exec_stmt.simps)
qed (simp_all add: fill_inv_def fills_ok_def)

interpretation fill_step: worker_order "\<lambda>st st'. fair_env V \<longrightarrow> fill_inv st \<longrightarrow> fill_inv st'" V for V
  by (rule fill_order)

interpretation fill_run: tick_order V w_saved "\<lambda>d d'. fair_env V \<longrightarrow> fills_ok d \<longrightarrow> fills_ok d'" for V
proof
  fix i job m r exchange chain_id and st st' :: ws
  let ?d = "w_saved st"
  assume a: "get_job i ?d = Some job" "session st" "w_job st = job"
    "in_flight (j_status job) \<and> m = reconcile V exchange chain_id \<or> j_status job = Pending \<and> m = send_job V exchange chain_id"
    "m st = (r, st')"
  have db: "w_db st = ?d" using a(2) by (simp add: session_def)
  have keeps: "fill_step.keeps V m" using a(4) fill_step.keeps_reconcile fill_step.keeps_send_job by blast
  have "fill_inv st'" if "fair_env V" "fills_ok ?d"
  proof -
    have "fill_inv st" using that a(3) db get_row_Some [OF a(1)] by (simp add: fill_inv_def fills_ok_def)
    with fill_step.keepsD [OF keeps a(5)] that show ?thesis by blast
  qed
  then show "(fair_env V \<longrightarrow> fills_ok ?d \<longrightarrow> fills_ok (w_saved st')) \<and>
      (fair_env V \<longrightarrow> fills_ok ?d \<longrightarrow> fills_ok (w_saved (st'\<lparr>w_saved := w_db st'\<rparr>)))"
    by (simp add: fill_inv_def)
qed auto

end
