(* ===== verification/Relay.thy ===== *)
theory Relay
  imports Worker_Props
begin

text \<open>
  The two disciplines the relayer's safety rests on, step by step: a signed transaction is on record before
  it is sent, and a job goes back in the queue only when its nonce is provably someone else's. Then the
  properties of whole runs.
\<close>

section \<open>Computations that only ask the node\<close>

interpretation ask: run_order "\<lambda>st st'. \<exists>k. st' = st\<lparr>w_calls := k\<rparr>"
proof
  show "\<exists>k. st = st\<lparr>w_calls := k\<rparr>" for st :: ws by (rule exI [of _ "w_calls st"]) simp
  show "\<exists>k. c = a\<lparr>w_calls := k\<rparr>" if "\<exists>k. b = a\<lparr>w_calls := k\<rparr>" "\<exists>k. c = b\<lparr>w_calls := k\<rparr>" for a b c :: ws
    using that by auto
qed

lemma ask_rpc: "ask.keeps (wk_rpc m)"
  by (auto simp: ask.keeps_def wk_rpc_def split: prod.splits)

lemma ask_call: "ask.keeps (wk_call f)"
  by (simp add: wk_call_def ask_rpc)

lemma ask_find_receipt: "ask.keeps (find_receipt V hs)"
  by (induction hs) (simp, intro ask.keeps_intros, simp only: find_receipt.simps, intro ask.keeps_intros ask_call)









text \<open>Running the first step of a computation.\<close>

lemma run_first:
  "wk_bind (wk_get g) m st = m (g st) st"
  "wk_bind (wk_try (wk_call f)) m' st = m' (f (w_calls st)) (st\<lparr>w_calls := Suc (w_calls st)\<rparr>)"
  "wk_bind (wk_now V) m'' st = m'' (v_now V (w_clock st)) (st\<lparr>w_clock := Suc (w_clock st)\<rparr>)"
  "wk_then (mod_stats h) n st = n (st\<lparr>w_stats := h (w_stats st)\<rparr>)"
  "wk_then (mod_job k) n st = n (put_job (k (w_job st)) st)"
  "wk_then wk_commit n st = n (st\<lparr>w_saved := w_db st\<rparr>)"
  by (simp_all add: wk_bind_def wk_then_def wk_get_def wk_try_def wk_call_def wk_rpc_def rpc_call_def wk_now_def
      mod_stats_def mod_job_def wk_commit_def wk_mod_def)


lemma run_bind: "m0 st = (v, st2) \<Longrightarrow> wk_bind m0 m st = (case v of Inl e \<Rightarrow> (Inl e, st2) | Inr x \<Rightarrow> m x st2)"
  by (simp add: wk_bind_def split: sum.splits)

section \<open>When a fill is absent\<close>




section \<open>Staying out of the queue\<close>







section \<open>Giving a nonce up\<close>









section \<open>On record before it is sent\<close>

text \<open>Everything handed to the node was, at that moment, the transaction of a committed job in flight.\<close>

definition on_record :: "string \<Rightarrow> dbase \<Rightarrow> bool" where
  "on_record raw db = (\<exists>j \<in> set (d_jobs db). j_raw_tx j = raw \<and> in_flight (j_status j))"

definition all_on_record :: "ws \<Rightarrow> bool" where
  "all_on_record st = (\<forall>(raw, d) \<in> set (w_sent st). on_record raw d)"

lemma broadcast_effect:
  "\<exists>k. snd (broadcast V raw st) = st\<lparr>w_calls := k, w_sent := w_sent st @ [(raw, w_saved st)]\<rparr> \<or> snd (broadcast V raw st) = st"
proof (cases "sig_of raw")
  case None
  then show ?thesis
    by (simp add: broadcast_def run_first wk_bind_def wk_try_def wk_opt_def wk_raise_def wk_return_def)
next
  case (Some b)
  let ?st = "st\<lparr>w_sent := w_sent st @ [(raw, w_saved st)]\<rparr>"
  have "snd (broadcast V raw st) = ?st\<lparr>w_calls := Suc (w_calls st)\<rparr>"
    using Some by (cases "c_send_raw (v_chain V) b (w_calls st)")
      (simp_all add: broadcast_def wk_bind_def wk_try_def wk_opt_def wk_return_def wk_then_def wk_mod_def wk_call_def
        wk_rpc_def rpc_call_def)
  then show ?thesis by (intro exI [of _ "Suc (w_calls st)"] disjI1) simp
qed

lemma broadcast_on_record:
  "all_on_record st \<Longrightarrow> on_record raw (w_saved st) \<Longrightarrow> broadcast V raw st = (r, st') \<Longrightarrow> all_on_record st'"
  using broadcast_effect [of V raw st] by (auto simp: all_on_record_def)

lemma no_send_order: "handler_order (\<lambda>st st'. w_sent st' = w_sent st) V"
proof
  show "w_sent (snd (wk_rollback V s why st)) = w_sent st" for s why st
    by (simp add: wk_rollback_def split: prod.splits)
  show "w_sent (snd (resync_filled V ord st)) = w_sent st" for ord st
    using resync_filled_effect [of V ord st] by auto
  show "w_sent (snd (rematch V ord st)) = w_sent st" for ord st
    using rematch_effect [of V ord st] by auto
  show "w_sent (snd (claim_and_sign V exchange chain_id data gas b q st)) = w_sent st" for exchange chain_id data gas b q st
  proof -
    obtain n s where claim: "claim_job V st = (Inr n, st\<lparr>w_db := (w_db st)\<lparr>d_jobs := update_where
        (\<lambda>r. j_id r = j_id (w_job st) \<and> j_status r = Pending) (\<lambda>r. r\<lparr>j_status := s\<rparr>) (d_jobs (w_db st))\<rparr>\<rparr>)"
      using claim_job_effect by blast
    show ?thesis
      by (simp add: claim_and_sign_def wk_bind_def wk_get_def claim wk_return_def wk_nm_def wk_rpc_def wk_then_def wk_mod_def
          wk_raise_def mod_job_def wk_commit_def put_job_def split: prod.splits sum.splits)
  qed
qed (simp_all add: put_job_def)

interpretation silent: handler_order "\<lambda>st st'. w_sent st' = w_sent st" V for V
  by (rule no_send_order)


definition recorded :: "int \<Rightarrow> ws \<Rightarrow> bool" where
  "recorded i st = (j_id (w_job st) = i \<and> i \<in> j_id ` set (d_jobs (w_db st)) \<and> all_on_record st)"

lemma ids_kept:
  "(\<And>r. P r \<Longrightarrow> j_id (f r) = j_id r) \<Longrightarrow> j_id ` set (update_where P f rows) = j_id ` set rows"
  using map_update_where [of P j_id f rows] by (metis list.set_map)

lemma ids_put: "j_id ` set (put_row j_id j rows) = j_id ` set rows"
  unfolding put_row_def by (rule ids_kept) simp

lemma put_row_mem: "j_id j \<in> j_id ` set rows \<Longrightarrow> j \<in> set (put_row j_id j rows)"
  by (auto simp: put_row_def set_update_where image_iff)

text \<open>The claim, and what it hands on: a raw transaction that is in the committed row of the job.\<close>

lemma claim_recorded:
  assumes "recorded i st" and eq: "claim_and_sign V exchange chain_id data gas b q st = (r, st')"
  shows "recorded i st' \<and> (\<forall>n raw. r = Inr (Some (n, raw)) \<longrightarrow> on_record raw (w_saved st'))"
proof -
  let ?P = "\<lambda>r. j_id r = j_id (w_job st) \<and> j_status r = Pending"
  obtain k s where claim: "claim_job V st = (Inr k, st\<lparr>w_db := (w_db st)\<lparr>d_jobs :=
     update_where ?P (\<lambda>r. r\<lparr>j_status := s\<rparr>) (d_jobs (w_db st))\<rparr>\<rparr>)"
    using claim_job_effect by blast
  let ?rows = "update_where ?P (\<lambda>r. r\<lparr>j_status := s\<rparr>) (d_jobs (w_db st))"
  have i: "j_id (w_job st) = i" "i \<in> j_id ` set ?rows" "all_on_record st"
    using assms(1) ids_kept [of ?P "\<lambda>r. r\<lparr>j_status := s\<rparr>" "d_jobs (w_db st)"] by (simp_all add: recorded_def)
  have sent: "w_sent st' = w_sent st" using silent.keepsD [OF silent.keeps_claimed eq] .
  have aor: "all_on_record st'" using i(3) sent by (simp add: all_on_record_def)
  have out: "j_id (w_job st') = i \<and> i \<in> j_id ` set (d_jobs (w_db st')) \<and>
      (\<forall>n raw. r = Inr (Some (n, raw)) \<longrightarrow> j_raw_tx (w_job st') = raw \<and> j_status (w_job st') = Sending \<and>
         d_jobs (w_saved st') = put_row j_id (w_job st') ?rows)"
    using eq i(1,2)
    by (auto simp: claim_and_sign_def wk_bind_def wk_get_def claim wk_return_def wk_nm_def wk_rpc_def wk_then_def wk_mod_def
        wk_raise_def mod_job_def wk_commit_def put_job_def ids_put record_send_def store_quote_def
        split: prod.splits sum.splits if_splits)
  have "on_record raw (w_saved st')" if r: "r = Inr (Some (n, raw))" for n raw
  proof -
    let ?j = "w_job st'"
    have j: "j_id ?j = i" "j_raw_tx ?j = raw" "j_status ?j = Sending" "d_jobs (w_saved st') = put_row j_id ?j ?rows"
      using out r by blast+
    have "?j \<in> set (put_row j_id ?j ?rows)" by (rule put_row_mem) (use i(2) j(1) in simp)
    with j show ?thesis unfolding on_record_def by (metis status_classes(7))
  qed
  with out aor show ?thesis by (simp add: recorded_def)
qed

lemma recorded_handler: "handler_order (\<lambda>st st'. recorded i st \<longrightarrow> recorded i st') V"
proof
  show "recorded i a \<longrightarrow> recorded i c" if "recorded i a \<longrightarrow> recorded i b" "recorded i b \<longrightarrow> recorded i c" for a b c
    using that by blast
  show "recorded i st \<longrightarrow> recorded i (put_job (f (w_job st)) st)" if b: "\<And>j. onward j (f j)" for f st
    using b [of "w_job st"]
    by (simp add: recorded_def put_job_def ids_put all_on_record_def onward_def benign_def same_match_def)
  show "recorded i st \<longrightarrow> recorded i (snd (wk_rollback V s why st))" if "terminal s" for s why st
  proof
    assume inv: "recorded i st"
    obtain ok j db where eq: "rollback_job (v_libs V) (w_db st) (w_job st) s why = (ok, j, db)"
      by (cases "rollback_job (v_libs V) (w_db st) (w_job st) s why")
    have out: "snd (wk_rollback V s why st) = st\<lparr>w_job := j, w_db := db\<rparr>" by (simp add: wk_rollback_def eq)
    show "recorded i (snd (wk_rollback V s why st))"
    proof (cases "j = w_job st \<and> db = w_db st")
      case True
      with out inv show ?thesis by (simp add: recorded_def all_on_record_def)
    next
      case False
      then obtain f rows ts where db: "db = (w_db st)\<lparr>d_jobs := update_where (\<lambda>r. j_id r = j_id (w_job st)) f (d_jobs (w_db st)), d_orders := rows, d_trades := ts\<rparr>"
        and f: "\<And>r. rolled_row (w_job st) s r (f r)"
        and j: "j = w_job st \<or> (\<exists>r \<in> set (d_jobs (w_db st)). j_id r = j_id (w_job st) \<and> j = f r)"
        using rollback_effect [OF eq] by blast
      have fid: "j_id (f r) = j_id (w_job st)" for r using f [of r] by (simp add: rolled_row_def same_match_def)
      have "j_id ` set (d_jobs db) = j_id ` set (d_jobs (w_db st))" unfolding db
        by simp (rule ids_kept, simp add: fid)
      moreover have "j_id j = i" using j fid inv by (auto simp: recorded_def)
      ultimately show ?thesis using out inv by (simp add: recorded_def all_on_record_def)
    qed
  qed
  show "recorded i st \<longrightarrow> recorded i (snd (claim_and_sign V exchange chain_id data gas b q st))"
    for st exchange chain_id data gas b q
    using claim_recorded [of i st] by (metis prod.collapse)
  show "recorded i st \<longrightarrow> recorded i (snd (rematch V ord st))" for st ord
    using rematch_effect [of V ord st] by (auto simp: recorded_def all_on_record_def)
  show "recorded i st \<longrightarrow> recorded i (snd (resync_filled V ord st))" for st ord
    using resync_filled_effect [of V ord st] by (auto simp: recorded_def all_on_record_def)
qed (simp_all add: recorded_def all_on_record_def)

lemma recorded_queue: "queue_order (\<lambda>st st'. recorded i st \<longrightarrow> recorded i st') V"
  by (intro queue_order.intro queue_order_axioms.intro recorded_handler)
    (simp add: recorded_def put_job_def ids_put all_on_record_def benign_def same_match_def)

interpretation rq: queue_order "\<lambda>st st'. recorded i st \<longrightarrow> recorded i st'" V for i V
  by (rule recorded_queue)

lemma recorded_broadcast:
  assumes "recorded i st" and "on_record raw (w_saved st)" and "\<And>x. rq.keeps i (f x)"
  shows "recorded i (snd (wk_bind (broadcast V raw) f st))"
proof -
  obtain r st1 where b: "broadcast V raw st = (r, st1)" by (cases "broadcast V raw st")
  have "recorded i st1" using broadcast_effect [of V raw st] assms(1,2) b by (auto simp: recorded_def all_on_record_def)
  moreover have "snd (wk_bind (broadcast V raw) f st) = (case r of Inl e \<Rightarrow> st1 | Inr x \<Rightarrow> snd (f x st1))"
    unfolding run_bind [of "broadcast V raw" st r st1 f, OF b] by (cases r) simp_all
  moreover have "recorded i (snd (f x st1))" if "recorded i st1" for x
    using assms(3) [of x] that unfolding rq.keeps_def by blast
  ultimately show ?thesis by (simp split: sum.splits)
qed

lemma recorded_send: "send_order (\<lambda>st st'. recorded i st \<longrightarrow> recorded i st') V"
proof (intro send_order.intro send_order_axioms.intro recorded_queue impI)
  fix st exchange chain_id data gas b q
  assume inv: "recorded i st"
  obtain r st1 where c: "claim_and_sign V exchange chain_id data gas b q st = (r, st1)"
    by (cases "claim_and_sign V exchange chain_id data gas b q st")
  note cr = claim_recorded [OF inv c]
  have out: "send_signed V exchange chain_id data gas b q st = (case r of Inl e \<Rightarrow> (Inl e, st1)
      | Inr None \<Rightarrow> (Inr (), st1) | Inr (Some (nonce, raw)) \<Rightarrow>
          wk_bind (broadcast V raw) (\<lambda>(kind, err). send_outcome V exchange nonce kind err) st1)"
    unfolding send_signed_def run_bind [of "claim_and_sign V exchange chain_id data gas b q", OF c]
    by (auto simp: wk_return_def split: sum.splits option.splits prod.splits)
  show "recorded i (snd (send_signed V exchange chain_id data gas b q st))"
  proof (cases "\<exists>n raw. r = Inr (Some (n, raw))")
    case True
    then obtain n raw where r: "r = Inr (Some (n, raw))" by blast
    have "rq.keeps i (case x of (kind, err) \<Rightarrow> send_outcome V exchange n kind err)" for x
      by (cases x) (simp add: rq.keeps_send_outcome)
    with cr r have "recorded i (snd (wk_bind (broadcast V raw) (\<lambda>(kind, err). send_outcome V exchange n kind err) st1))"
      by (intro recorded_broadcast) auto
    with r out show ?thesis by simp
  next
    case False
    with out cr show ?thesis by (auto split: sum.splits option.splits)
  qed
qed

interpretation rs: send_order "\<lambda>st st'. recorded i st \<longrightarrow> recorded i st'" V for i V
  by (rule recorded_send)

text \<open>
  A job in flight whose committed row holds its raw transaction may be sent again; \<open>sends_ok\<close> is what a
  handler started there keeps.
\<close>

definition ready :: "int \<Rightarrow> ws \<Rightarrow> bool" where
  "ready i st = (recorded i st \<and> in_flight (j_status (w_job st)) \<and> on_record (j_raw_tx (w_job st)) (w_saved st))"

definition sends_ok :: "int \<Rightarrow> 'a wk \<Rightarrow> bool" where
  "sends_ok i m = (\<forall>st. ready i st \<longrightarrow> recorded i (snd (m st)))"

lemma ready_same:
  "ready i (st\<lparr>w_calls := k\<rparr>) = ready i st" "ready i (st\<lparr>w_clock := c\<rparr>) = ready i st" "ready i (st\<lparr>w_stats := t\<rparr>) = ready i st"
  by (simp_all add: ready_def recorded_def all_on_record_def)

lemma sends_okD: "sends_ok i m \<Longrightarrow> ready i st \<Longrightarrow> recorded i (snd (m st))"
  by (simp add: sends_ok_def)

lemma ok_keeps: "rq.keeps i m \<Longrightarrow> sends_ok i m"
  by (simp add: sends_ok_def rq.keeps_def ready_def)

lemma ok_ask:
  assumes m: "ask.keeps m" and f: "\<And>x. sends_ok i (f x)" shows "sends_ok i (wk_bind m f)"
  unfolding sends_ok_def
proof (intro allI impI)
  fix st assume r: "ready i st"
  obtain x st1 where x: "m st = (x, st1)" by (cases "m st")
  obtain k where k: "st1 = st\<lparr>w_calls := k\<rparr>" using ask.keepsD [OF m x] by blast
  have r1: "ready i st1" using r by (simp add: k ready_same)
  show "recorded i (snd (wk_bind m f st))"
  proof (cases x)
    case (Inl e)
    with x r1 show ?thesis by (simp add: wk_bind_def ready_def)
  next
    case (Inr y)
    with x sends_okD [OF f r1, of y] show ?thesis by (simp add: wk_bind_def)
  qed
qed

lemma ok_try: "ask.keeps m \<Longrightarrow> (\<And>x. sends_ok i (f x)) \<Longrightarrow> sends_ok i (wk_bind (wk_try m) f)"
  by (intro ok_ask ask.keeps_try)

lemma ok_now: "(\<And>x. sends_ok i (f x)) \<Longrightarrow> sends_ok i (wk_bind (wk_now V) f)"
  unfolding sends_ok_def [of i "wk_bind (wk_now V) f"] run_first by (intro allI impI sends_okD) (simp_all add: ready_same)

lemma ok_stats: "sends_ok i m \<Longrightarrow> sends_ok i (wk_then (mod_stats f) m)"
  unfolding sends_ok_def [of i "wk_then (mod_stats f) m"] run_first by (intro allI impI sends_okD) (simp_all add: ready_same)

lemma ok_job: "(\<And>st. ready i st \<Longrightarrow> recorded i (snd (f (w_job st) st))) \<Longrightarrow> sends_ok i (wk_bind (wk_get w_job) f)"
  by (simp add: sends_ok_def run_first)

lemma recorded_put: "recorded i st \<Longrightarrow> j_id j = i \<Longrightarrow> recorded i (put_job j st)"
  by (simp add: recorded_def put_job_def ids_put all_on_record_def)

lemma ok_rebroadcast: "sends_ok i (rebroadcast V exchange hashes now)"
  unfolding rebroadcast_def Let_def
proof (rule ok_job)
  fix st assume r: "ready i st"
  show "recorded i (snd ((if now < j_next_attempt_at (w_job st) then wk_return ()
      else wk_bind (broadcast V (j_raw_tx (w_job st))) (\<lambda>(kind, err).
        if kind \<in> {None, Some Known, Some Underpriced}
        then mod_job (\<lambda>j. (mark_sent now j)\<lparr>j_next_attempt_at := 0, j_last_error := []\<rparr>)
        else if kind = Some Nonce_Low
        then wk_then (nonce_consumed V exchange hashes now) (resync V)
        else if kind = Some Insufficient_Funds
        then wk_then (mod_job (\<lambda>j. j\<lparr>j_last_error := ''relayer balance low'',
               j_next_attempt_at := now + s_relayer_retry_backoff_seconds (v_settings V)\<rparr>)) deferred
        else wk_then (mod_job (\<lambda>j. j\<lparr>j_attempts := j_attempts j + 1,
               j_next_attempt_at := now + s_relayer_retry_backoff_seconds (v_settings V) * max 1 (j_attempts j + 1)\<rparr>))
          (wk_then (mod_job (\<lambda>j. if j_attempts j \<ge> s_relayer_max_attempts (v_settings V)
               then (mark_sent now j)\<lparr>j_last_error := take 2000 (''stuck: rebroadcast failing: '' @ err)\<rparr>
               else j\<lparr>j_last_error := take 2000 (''rebroadcast: '' @ err)\<rparr>))
            deferred))) st))"
  proof (cases "now < j_next_attempt_at (w_job st)")
    case True
    with r show ?thesis by (simp add: wk_return_def ready_def)
  next
    case False
    show ?thesis unfolding if_not_P [OF False]
      by (rule recorded_broadcast, use r in \<open>simp add: ready_def\<close>, use r in \<open>simp add: ready_def\<close>,
          intro rq.rules rq.keeps_nonce_consumed rq.keeps_edit)
        (simp_all add: benign_def same_match_def mark_sent_def)
  qed
qed

lemma recorded_alive:
  assumes r: "ready i st" and f: "\<And>x. rq.keeps i (f x)"
    and g: "j_id j1 = j_id (w_job st)" "j_raw_tx j1 = j_raw_tx (w_job st)" and h: "\<And>sx. j_id (h sx) = j_id (w_job sx)"
  shows "recorded i (snd ((if C then (\<lambda>sx. wk_bind (broadcast V (j_raw_tx (w_job (put_job j1 st)))) f (put_job (h sx) sx))
     else wk_return ()) (put_job j1 st)))"
proof -
  let ?st1 = "put_job j1 st"
  have r1: "recorded i ?st1" using r g by (intro recorded_put) (simp_all add: ready_def recorded_def)
  have r2: "recorded i (put_job (h ?st1) ?st1)"
    by (rule recorded_put [OF r1]) (use r g h [of ?st1] in \<open>simp add: put_job_def ready_def recorded_def\<close>)
  have saved: "on_record (j_raw_tx (w_job ?st1)) (w_saved (put_job (h ?st1) ?st1))"
    using r g by (simp add: ready_def put_job_def)
  have "recorded i (snd (wk_bind (broadcast V (j_raw_tx (w_job ?st1))) f (put_job (h ?st1) ?st1)))"
    by (rule recorded_broadcast [OF r2 saved f])
  with r1 show ?thesis by (simp add: wk_return_def)
qed

lemma ok_keep_alive: "sends_ok i (keep_alive V exchange hashes now)"
  unfolding keep_alive_def Let_def sends_ok_def run_first
  by (intro allI impI recorded_alive rq.rules rq.keeps_nonce_consumed) simp_all

text \<open>The end of a bump: the replacement is recorded, committed and sent.\<close>

lemma ok_bump_tail:
  assumes "\<And>x. rq.keeps i (f x)"
  shows "sends_ok i (wk_then (mod_job (record_bump raw h q)) (wk_bind (wk_now V) (\<lambda>now.
     wk_then (mod_job (\<lambda>j. j\<lparr>j_sent_at := Some now\<rparr>)) (wk_then wk_commit (wk_bind (broadcast V raw) f)))))"
  unfolding sends_ok_def run_first
proof (intro allI impI)
  fix st assume r: "ready i st"
  define st1 where "st1 = (put_job (record_bump raw h q (w_job st)) st)\<lparr>w_clock := Suc (w_clock (put_job (record_bump raw h q (w_job st)) st))\<rparr>"
  define j where "j = (w_job st1)\<lparr>j_sent_at := Some (v_now V (w_clock (put_job (record_bump raw h q (w_job st)) st)))\<rparr>"
  let ?st2 = "put_job j st1"
  have "recorded i (put_job (record_bump raw h q (w_job st)) st)"
    using r by (intro recorded_put) (simp_all add: ready_def recorded_def record_bump_def store_quote_def)
  then have r1: "recorded i st1" by (simp add: st1_def recorded_def all_on_record_def)
  have j: "j_id j = i" "j_raw_tx j = raw" "in_flight (j_status j)"
    using r by (simp_all add: j_def st1_def put_job_def ready_def recorded_def record_bump_def store_quote_def)
  have r2: "recorded i ?st2" by (rule recorded_put [OF r1 j(1)])
  have "j \<in> set (d_jobs (w_db ?st2))"
    using put_row_mem [of j "d_jobs (w_db st1)"] r1 j(1) by (simp add: put_job_def recorded_def)
  with j have rec: "on_record raw (w_db ?st2)" unfolding on_record_def by blast
  have "recorded i (snd (wk_bind (broadcast V raw) f (?st2\<lparr>w_saved := w_db ?st2\<rparr>)))"
    by (rule recorded_broadcast) (use r2 rec assms in \<open>simp_all add: recorded_def all_on_record_def\<close>)
  then show "recorded i (snd (wk_bind (broadcast V raw) f
      ((put_job ((w_job ((put_job (record_bump raw h q (w_job st)) st)
            \<lparr>w_clock := Suc (w_clock (put_job (record_bump raw h q (w_job st)) st))\<rparr>))
          \<lparr>j_sent_at := Some (v_now V (w_clock (put_job (record_bump raw h q (w_job st)) st)))\<rparr>)
        ((put_job (record_bump raw h q (w_job st)) st)\<lparr>w_clock := Suc (w_clock (put_job (record_bump raw h q (w_job st)) st))\<rparr>))
       \<lparr>w_saved := w_db (put_job ((w_job ((put_job (record_bump raw h q (w_job st)) st)
            \<lparr>w_clock := Suc (w_clock (put_job (record_bump raw h q (w_job st)) st))\<rparr>))
          \<lparr>j_sent_at := Some (v_now V (w_clock (put_job (record_bump raw h q (w_job st)) st)))\<rparr>)
        ((put_job (record_bump raw h q (w_job st)) st)\<lparr>w_clock := Suc (w_clock (put_job (record_bump raw h q (w_job st)) st))\<rparr>))\<rparr>)))"
    unfolding j_def st1_def .
qed

lemma ok_option: "sends_ok i m \<Longrightarrow> (\<And>x. sends_ok i (g x)) \<Longrightarrow> sends_ok i (case r of None \<Rightarrow> m | Some x \<Rightarrow> g x)"
  by (cases r) simp_all

lemma ok_sum: "(\<And>e. sends_ok i (f e)) \<Longrightarrow> (\<And>x. sends_ok i (g x)) \<Longrightarrow> sends_ok i (case r of Inl e \<Rightarrow> f e | Inr x \<Rightarrow> g x)"
  by (cases r) simp_all

lemma ok_prod: "(\<And>x y. sends_ok i (g x y)) \<Longrightarrow> sends_ok i (case p of (x, y) \<Rightarrow> g x y)"
  by (cases p) simp

lemma ok_if: "sends_ok i m \<Longrightarrow> sends_ok i n \<Longrightarrow> sends_ok i (if b then m else n)"
  by simp

lemma ask_sign_match: "ask.keeps (sign_match V taker maker exchange amount)"
  unfolding sign_match_def by (intro ask.keeps_intros)

lemma ok_set_error: "sends_ok i (set_error x)" "sends_ok i (wk_then (set_error x) deferred)"
  by (intro ok_keeps rq.rules rq.keeps_edit; simp add: benign_def same_match_def)+

lemma ok_bump_job: "sends_ok i (bump_job V exchange chain_id prior)"
  unfolding bump_job_def Let_def
  by (intro ok_ask ok_try ask.keeps_get ask.keeps_of ask_call ask_sign_match ok_option ok_sum ok_prod ok_if ok_set_error
      ok_bump_tail rq.rules rq.keeps_bump_outcome)

lemma ok_reconcile: "sends_ok i (reconcile V exchange chain_id)"
  unfolding reconcile_def Let_def
  by (intro ok_ask ask.keeps_get ok_try ask_find_receipt ok_sum ok_set_error ok_stats ok_now ok_option ok_prod ok_if
      ok_rebroadcast ok_keep_alive ok_bump_job ok_keeps rq.keeps_apply_receipt rq.keeps_settle_consumed rq.keeps_return)

interpretation record_run: tick_order V "\<lambda>st. w_sent st" "\<lambda>l l'. (\<forall>(raw, d) \<in> set l. on_record raw d) \<longrightarrow> (\<forall>(raw, d) \<in> set l'. on_record raw d)" for V
proof
  fix i job m r exchange chain_id and st st' :: ws
  assume a: "get_job i (w_saved st) = Some job" "session st" "w_job st = job"
    "in_flight (j_status job) \<and> m = reconcile V exchange chain_id \<or> j_status job = Pending \<and> m = send_job V exchange chain_id"
    "m st = (r, st')"
  have job: "job \<in> set (d_jobs (w_saved st))" "j_id job = i" using get_row_Some [OF a(1)] by simp_all
  have "all_on_record st'" if old: "all_on_record st"
  proof -
    have rec: "recorded i st" using old a(2,3) job by (auto simp: recorded_def session_def)
    from a(4) have "recorded i st'"
    proof (elim disjE conjE)
      assume fl: "in_flight (j_status job)" and m: "m = reconcile V exchange chain_id"
      have "ready i st" using rec fl a(3) job unfolding ready_def on_record_def by blast
      with sends_okD [OF ok_reconcile] m a(5) show ?thesis by (metis snd_conv)
    next
      assume "m = send_job V exchange chain_id"
      with rq.keepsD [OF rs.keeps_send_job] a(5) rec show ?thesis by blast
    qed
    then show ?thesis by (simp add: recorded_def)
  qed
  then show "((\<forall>(raw, d) \<in> set (w_sent st). on_record raw d) \<longrightarrow> (\<forall>(raw, d) \<in> set (w_sent st'). on_record raw d)) \<and>
      ((\<forall>(raw, d) \<in> set (w_sent st). on_record raw d) \<longrightarrow>
       (\<forall>(raw, d) \<in> set (w_sent (st'\<lparr>w_saved := w_db st'\<rparr>)). on_record raw d))"
    by (simp add: all_on_record_def)
qed auto


section \<open>A small run\<close>

text \<open>
  One crossing pair, its pending job 1, a confirmed job 2, and a node that accepts everything; job 3 is in
  flight with its nonce consumed by someone else.
\<close>

definition ex_cid :: string where
  "ex_cid = ''0x'' @ concat (replicate 32 ''ab'')"

definition ex_side :: "int \<Rightarrow> bool \<Rightarrow> string \<Rightarrow> order" where
  "ex_side i buy h = (ex_order i buy 500000 10)\<lparr>o_order_hash := h, o_condition_id := ex_cid, o_filled := 4, o_signature := ''0x01''\<rparr>"

definition ex_job :: "int \<Rightarrow> relay_job" where
  "ex_job i = (fst (enqueue_match (empty_db\<lparr>d_next_job := i\<rparr>) (ex_side 1 True ''0xaa'') (ex_side 2 False ''0xbb'') 4 50))"

definition ex_done :: relay_job where
  "ex_done = (ex_job 2)\<lparr>j_status := Confirmed, j_tx_hash := ''0xcc'', j_tx_hashes := [''0xcc''], j_nonce := Some 3,
     j_sender := ''0xrelayer''\<rparr>"

definition ex_lost :: relay_job where
  "ex_lost = (ex_job 3)\<lparr>j_status := Sent, j_tx_hash := ''0xdd'', j_tx_hashes := [''0xdd''], j_nonce := Some 5,
     j_sender := ''0xrelayer'', j_raw_tx := ''0x02'', j_sent_at := Some 10, j_first_sent_block := Some 1,
     j_nonce_consumed_at := Some 10\<rparr>"

definition ex_db :: dbase where
  "ex_db = empty_db\<lparr>d_orders := [ex_side 1 True ''0xaa'', ex_side 2 False ''0xbb''], d_next_order := 3,
     d_jobs := [ex_job 1, ex_done, ex_lost], d_next_job := 4\<rparr>"

definition ex_env :: wenv where
  "ex_env = \<lparr> v_libs = ex_libs, v_settings = default_settings\<lparr>s_relayer_enabled := True, s_relayer_private_key := ''k''\<rparr>,
     v_chain = chain_of ex_view, v_account = ''0xRELAYER'', v_now = (\<lambda>_. 100), v_encode = (\<lambda>_ _ _ _ _. Inr ''call''),
     v_sign = (\<lambda>t. Inr (''0xab'', ''0xEE'')), v_topic = ''0xT'', v_sched = (\<lambda>_. quiet), v_claims = (\<lambda>_. None),
     v_postgres = False, v_ping = (\<lambda>_. True), v_lock = (\<lambda>_. Inr True) \<rparr>"

definition ex_ws :: ws where
  "ex_ws = \<lparr> w_db = ex_db, w_saved = ex_db, w_job = ex_job 1, w_nm = None, w_calls = 0, w_clock = 0, w_stats = no_stats,
     w_last_error = [], w_last_tick_at = None, w_leader = False, w_sent = [] \<rparr>"

section \<open>Properties\<close>

text \<open>
  However long the worker runs and whatever the node answers, a job that
  is confirmed, failed or cancelled keeps its row unchanged, and every other job keeps its orders, its fill
  and every hash it ever signed.
\<close>

theorem finished_jobs_never_change:
  assumes "session st" and "run_ticks V n st = (r, st')" and "get_job i (w_saved st) = Some job"
  shows "\<exists>job'. get_job i (w_saved st') = Some job' \<and> (terminal (j_status job) \<longrightarrow> job' = job) \<and>
    same_match job job' \<and> prefix (j_tx_hashes job) (j_tx_hashes job')"
  using forward_run.run_ticks_step [OF assms(1,2)] assms(3) by (auto simp: jobs_evolve_def job_evolves_def)

lemma ex_session: "session ex_ws"
  by (simp add: session_def ex_ws_def)

theorem finished_jobs_never_change_witness:
  "get_job 2 (w_saved (snd (run_ticks ex_env 3 ex_ws))) = Some ex_done \<and>
   (\<exists>job'. get_job 3 (w_saved (snd (run_ticks ex_env 3 ex_ws))) = Some job' \<and> prefix [''0xdd''] (j_tx_hashes job'))"
proof -
  obtain r st' where run: "run_ticks ex_env 3 ex_ws = (r, st')" by (cases "run_ticks ex_env 3 ex_ws")
  have rows: "get_job 2 (w_saved ex_ws) = Some ex_done" "get_job 3 (w_saved ex_ws) = Some ex_lost"
    by (simp_all add: ex_ws_def ex_db_def ex_job_def ex_done_def ex_lost_def enqueue_match_def empty_db_def Let_def)
  have "terminal (j_status ex_done)" "j_tx_hashes ex_lost = [''0xdd'']" by (simp_all add: ex_done_def ex_lost_def)
  with finished_jobs_never_change [OF ex_session run rows(1)] finished_jobs_never_change [OF ex_session run rows(2)] run
  show ?thesis by auto
qed

text \<open>
  C1 (nonces_never_shared). If no two jobs in flight from the relayer hold the same nonce, and none holds
  the nonce of an emissions distribution in flight, that stays so through any run: reserve, crash between
  commit and broadcast, resync, release and resend included.
\<close>

theorem nonces_never_shared:
  assumes "session st" and "nonces_ok (sender_of V) (w_saved st)" and "run_ticks V n st = (r, st')"
  shows "nonces_ok (sender_of V) (w_saved st')"
  using nonce_run.run_ticks_step [OF assms(1,3)] assms(2) by blast

lemma ex_nonces: "nonces_ok (sender_of ex_env) (w_saved ex_ws)"
  by (simp add: nonces_ok_def holds_nonce_def emission_nonce_def ex_ws_def ex_db_def ex_job_def ex_done_def ex_lost_def
      enqueue_match_def empty_db_def Let_def)

theorem nonces_never_shared_witness:
  "nonces_ok (sender_of ex_env) (w_saved (snd (run_ticks ex_env 3 ex_ws)))"
proof -
  obtain r st' where run: "run_ticks ex_env 3 ex_ws = (r, st')" by (cases "run_ticks ex_env 3 ex_ws")
  from nonces_never_shared [OF ex_session ex_nonces run] run show ?thesis by simp
qed

text \<open>
  C15 (worker_keeps_orders_bounded). Against a node that reports non-negative fills, and next to any
  concurrent matches, no run of the worker (rollbacks, resyncs and re-matches included) leaves an order
  filled below zero or past its amount.
\<close>

theorem worker_keeps_orders_bounded:
  assumes "session st" and "fair_env V" and "fills_ok (w_saved st)" and "run_ticks V n st = (r, st')"
  shows "orders_ok (d_orders (w_saved st'))"
  using fill_run.run_ticks_step [OF assms(1,4)] assms(2,3) by (simp add: fills_ok_def)

theorem worker_keeps_orders_bounded_witness:
  "orders_ok (d_orders (w_saved (snd (run_ticks ex_env 3 ex_ws))))"
proof -
  obtain r st' where run: "run_ticks ex_env 3 ex_ws = (r, st')" by (cases "run_ticks ex_env 3 ex_ws")
  have fair: "fair_env ex_env" by (simp add: fair_env_def ex_env_def chain_of_def ex_view_def quiet_def)
  have ok: "fills_ok (w_saved ex_ws)"
    by (simp add: fills_ok_def orders_ok_def order_ok_def ex_ws_def ex_db_def ex_side_def ex_order_def ex_job_def ex_done_def
        ex_lost_def enqueue_match_def empty_db_def Let_def)
  from worker_keeps_orders_bounded [OF ex_session fair ok run] run show ?thesis by simp
qed



text \<open>
  C2 (broadcasts_are_on_record). Every transaction a worker hands to the node was, at that moment, the
  recorded raw transaction of a committed job in flight: a crash at any point can only resend the same
  bytes, never sign the fill under a second nonce while the first can mine.
\<close>

theorem broadcasts_are_on_record:
  assumes "session st" and "w_sent st = []" and "run_ticks V n st = (r, st')" and "(raw, committed) \<in> set (w_sent st')"
  shows "\<exists>j \<in> set (d_jobs committed). j_raw_tx j = raw \<and> in_flight (j_status j)"
  using record_run.run_ticks_step [OF assms(1,3)] assms(2,4) by (auto simp: on_record_def)

text \<open>After a crash between commit and broadcast: one job, still \<open>sending\<close>.\<close>

definition ex_crashed :: ws where
  "ex_crashed = (let d = empty_db\<lparr>d_jobs := [(ex_job 1)\<lparr>j_status := Sending, j_nonce := Some 7, j_raw_tx := ''0x02'',
       j_tx_hash := ''0xee'', j_tx_hashes := [''0xee'']\<rparr>], d_next_job := 2\<rparr>
     in ex_ws\<lparr>w_db := d, w_saved := d\<rparr>)"

theorem broadcasts_are_on_record_witness:
  "\<exists>committed. (''0x02'', committed) \<in> set (w_sent (snd (run_ticks ex_env 1 ex_crashed))) \<and>
     (\<exists>j \<in> set (d_jobs committed). j_raw_tx j = ''0x02'' \<and> in_flight (j_status j))"
proof -
  obtain r st' where run: "run_ticks ex_env 1 ex_crashed = (r, st')" by (cases "run_ticks ex_env 1 ex_crashed")
  have "map fst (w_sent (snd (run_ticks ex_env 1 ex_crashed))) = [''0x02'']" by code_simp
  then have "''0x02'' \<in> fst ` set (w_sent st')" using run by (metis list.set_intros(1) list.set_map snd_conv)
  then obtain d where d: "(''0x02'', d) \<in> set (w_sent st')" by auto
  have none: "session ex_crashed" "w_sent ex_crashed = []" by (simp_all add: ex_crashed_def ex_ws_def session_def Let_def)
  from broadcasts_are_on_record [OF none run d] d run show ?thesis by auto
qed

end
