(* ===== verification/Orders.thy ===== *)
theory Orders
  imports Matcher Preflight
begin

text \<open>
  The CLOB API (\<open>backend/app/orderbook/router.py\<close>): posting and cancelling an order, the book and
  the trade list. A handler takes the database it reads and returns its answer with the database it
  commits; an exception leaves without a commit, so it returns the database unchanged but for what
  other sessions did meanwhile. Those are explicit: \<open>between\<close> is what they run on the orders table
  between the duplicate check of \<open>POST /orders\<close> and its INSERT, and \<open>sched\<close> what they run during
  the match. \<open>clk n\<close> is the \<open>n\<close>-th reading of the clock by one request.
\<close>

section \<open>The request\<close>

record order_in =
  b_maker :: string
  b_is_buy :: bool
  b_condition_id :: string
  b_outcome :: int
  b_price :: int
  b_amount :: int
  b_salt :: py_value
  b_nonce :: int
  b_expiry :: int
  b_signature :: string
  b_order_hash :: string

text \<open>
  \<open>^0x[0-9a-fA-F]{n}$\<close> with \<open>re.match\<close>. In Python \<open>$\<close> also matches before a newline that ends
  the text.
\<close>

definition hex_text :: "nat \<Rightarrow> string \<Rightarrow> bool" where
  "hex_text n v =
     (startswith v ''0x'' \<and>
      (let d = drop 2 v in
       n \<le> length d \<and> list_all is_hex_char (take n d) \<and> (drop n d = [] \<or> drop n d = [CHR 0x0A])))"

definition I63 :: int where "I63 = 2 ^ 63"

definition check_fields :: "order_in \<Rightarrow> int http" where
  "check_fields body =
     (if \<not> hex_text 40 (b_maker body) then Inl (HTTPException 400 ''maker must be a 20-byte hex address'')
      else if \<not> hex_text 64 (b_condition_id body) then Inl (HTTPException 400 ''conditionId must be 0x + 64 hex'')
      else if \<not> hex_text 64 (b_order_hash body) then Inl (HTTPException 400 ''orderHash must be 0x + 64 hex'')
      else if b_outcome body \<notin> {0, 1} then Inl (HTTPException 400 ''outcome must be 0 or 1'')
      else if \<not> (0 < b_price body \<and> b_price body \<le> 1000000)
      then Inl (HTTPException 400 ''price must be in (0, 1000000]'')
      else if \<not> (0 < b_amount body \<and> b_amount body < I63) then Inl (HTTPException 400 ''amount out of range'')
      else if \<not> (0 \<le> b_nonce body \<and> b_nonce body < I63) then Inl (HTTPException 400 ''nonce out of range'')
      else if \<not> (0 < b_expiry body \<and> b_expiry body < I63) then Inl (HTTPException 400 ''expiry out of range'')
      else case u256 (b_salt body) of
        None \<Rightarrow> Inl (HTTPException 400 ''salt must be a uint256'')
      | Some salt \<Rightarrow> Inr salt)"

text \<open>\<open>OrderFields.from_body\<close> of \<open>orderbook/eip712.py\<close>; \<open>None\<close> is its \<open>ValueError\<close>.\<close>

definition from_body :: "libs \<Rightarrow> order_in \<Rightarrow> order_fields option" where
  "from_body L b =
     (case bytes32 (b_condition_id b) of
        None \<Rightarrow> None
      | Some cid \<Rightarrow>
          (case u256 (b_salt b) of
             None \<Rightarrow> None
           | Some salt \<Rightarrow> Some \<lparr> f_maker = lib_checksum L (b_maker b), f_is_buy = b_is_buy b,
               f_condition_id = cid, f_outcome = b_outcome b, f_price = b_price b,
               f_amount = b_amount b, f_salt = salt, f_nonce = b_nonce b, f_expiry = b_expiry b \<rparr>))"

text \<open>\<open>hex(n)\<close> of a natural number.\<close>

fun hex_digits :: "nat \<Rightarrow> string" where
  "hex_digits n = (if n < 16 then [hex_digit n] else hex_digits (n div 16) @ [hex_digit (n mod 16)])"

declare hex_digits.simps [simp del]

definition py_hex :: "int \<Rightarrow> string" where
  "py_hex n = ''0x'' @ hex_digits (nat n)"

section \<open>What the API shows of an order\<close>

record order_view =
  ov_order_hash :: string
  ov_maker :: string
  ov_condition_id :: string
  ov_is_buy :: bool
  ov_outcome :: int
  ov_price :: int
  ov_amount :: int
  ov_filled :: int
  ov_remaining :: int
  ov_salt :: string
  ov_nonce :: int
  ov_expiry :: int
  ov_cancelled :: bool
  ov_status :: string

definition salt_text :: "string \<Rightarrow> string" where
  "salt_text salt = (case u256 (PyStr salt) of Some n \<Rightarrow> py_str n | None \<Rightarrow> salt)"

definition order_public :: "int \<Rightarrow> order \<Rightarrow> order_view" where
  "order_public now ord =
     (let rem = o_amount ord - o_filled ord;
          status = (if o_cancelled ord then ''cancelled'' else if rem \<le> 0 then ''filled''
            else if o_expiry ord \<le> now then ''expired'' else ''open'')
      in \<lparr> ov_order_hash = o_order_hash ord, ov_maker = o_maker ord, ov_condition_id = o_condition_id ord,
           ov_is_buy = o_is_buy ord, ov_outcome = o_outcome ord, ov_price = o_price ord,
           ov_amount = o_amount ord, ov_filled = o_filled ord, ov_remaining = rem,
           ov_salt = salt_text (o_salt ord), ov_nonce = o_nonce ord, ov_expiry = o_expiry ord,
           ov_cancelled = o_cancelled ord, ov_status = status \<rparr>)"

record cancel_tuple =
  ct_maker :: string
  ct_is_buy :: bool
  ct_condition_id :: string
  ct_outcome :: int
  ct_price :: string
  ct_amount :: string
  ct_salt :: string
  ct_nonce :: string
  ct_expiry :: string

definition cancel_args :: "order \<Rightarrow> cancel_tuple" where
  "cancel_args ord = \<lparr> ct_maker = o_maker ord, ct_is_buy = o_is_buy ord,
     ct_condition_id = o_condition_id ord, ct_outcome = o_outcome ord, ct_price = py_str (o_price ord),
     ct_amount = py_str (o_amount ord), ct_salt = salt_text (o_salt ord), ct_nonce = py_str (o_nonce ord),
     ct_expiry = py_str (o_expiry ord) \<rparr>"

section \<open>POST /orders\<close>

definition open_orders :: "dbase \<Rightarrow> string \<Rightarrow> int \<Rightarrow> int \<Rightarrow> order list" where
  "open_orders db maker nonce now =
     filter (\<lambda>r. o_maker r = maker \<and> \<not> o_cancelled r \<and> o_expiry r > now \<and> o_nonce r = nonce \<and>
       o_filled r < o_amount r) (d_orders db)"

definition reserved :: "order list \<Rightarrow> order_fields \<Rightarrow> int" where
  "reserved opens new =
     (if f_is_buy new
      then (\<Sum>r\<leftarrow>filter o_is_buy opens.
              order_usdc_need (o_amount r - o_filled r) (o_price r) EXCHANGE_TAKER_FEE_BPS)
      else let cid = ''0x'' @ to_hex (f_condition_id new) in
        (\<Sum>r\<leftarrow>filter (\<lambda>r. \<not> o_is_buy r \<and> o_condition_id r = cid \<and> o_outcome r = f_outcome new) opens.
           o_amount r - o_filled r))"

text \<open>The row that a request becomes; the database hands out the id.\<close>

definition next_order_id :: "int \<Rightarrow> order list \<Rightarrow> int" where
  "next_order_id seed rows = fold (\<lambda>r n. max n (o_id r + 1)) rows seed"

definition order_row :: "int \<Rightarrow> string \<Rightarrow> int \<Rightarrow> order_in \<Rightarrow> order" where
  "order_row i order_hash salt body =
     \<lparr> o_id = i, o_order_hash = order_hash, o_maker = py_lower (b_maker body),
       o_condition_id = py_lower (b_condition_id body), o_is_buy = b_is_buy body,
       o_outcome = b_outcome body, o_price = b_price body, o_amount = b_amount body, o_filled = 0,
       o_salt = py_hex salt, o_nonce = b_nonce body, o_expiry = b_expiry body,
       o_signature = ''0x'' @ py_lower (strip0x (b_signature body)), o_cancelled = False \<rparr>"

datatype post_reply = Posted order_view "fill list" | Preflight_Failed "string list"

text \<open>
  The checks up to the duplicate test: the order's fields, its hash and its salt. An exception that
  no handler catches is answered with status 500.
\<close>

definition post_checks ::
  "libs \<Rightarrow> crypto \<Rightarrow> settings \<Rightarrow> (nat \<Rightarrow> int) \<Rightarrow> dbase \<Rightarrow> user \<Rightarrow> order_in \<Rightarrow>
   (int \<times> string \<times> order_fields \<times> string) http" where
  "post_checks L C s clk db u body =
     (if u_address u \<noteq> py_lower (b_maker body) then Inl (HTTPException 400 ''maker must match session'')
      else bind_http (check_fields body) (\<lambda>salt.
        case trading_halt_reason db (b_condition_id body) s (clk 0) of
          Some halt \<Rightarrow> Inl (HTTPException 409 (halt_text halt))
        | None \<Rightarrow>
        case get_exchange_domain L s of
          None \<Rightarrow> Inl (HTTPException 503 ''exchange not configured'')
        | Some (exchange, chain_id) \<Rightarrow>
        case from_body L body of
          None \<Rightarrow> Inl (HTTPException 500 ''Internal Server Error'')
        | Some flds \<Rightarrow>
            (let order_hash = order_hash_hex C flds exchange chain_id in
             if order_hash \<noteq> py_lower (b_order_hash body) then Inl (HTTPException 400 ''orderHash mismatch'')
             else case verify_order_signature C flds (b_signature body) exchange chain_id of
               Inl _ \<Rightarrow> Inl (HTTPException 400 ''bad signature'')
             | Inr _ \<Rightarrow>
                 if b_expiry body \<le> clk 1 + s_relayer_min_expiry_seconds s
                 then Inl (HTTPException 400 ''order expired'')
                 else if get_order order_hash db \<noteq> None then Inl (HTTPException 409 ''duplicate order'')
                 else Inr (salt, order_hash, flds, exchange))))"

text \<open>The relayer's admission: how many orders are open, and whether the chain would accept this one.\<close>

definition post_admission ::
  "libs \<Rightarrow> chain \<Rightarrow> settings \<Rightarrow> (nat \<Rightarrow> int) \<Rightarrow> nat \<Rightarrow> dbase \<Rightarrow> order_in \<Rightarrow> order_fields \<Rightarrow> string \<Rightarrow> string list http" where
  "post_admission L ch s clk k db body flds exchange =
     (if \<not> s_relayer_enabled s then Inr []
      else if \<not> relayer_ready L s then Inl (HTTPException 503 ''relayer misconfigured'')
      else
        let opens = open_orders db (py_lower (b_maker body)) (b_nonce body) (clk 2) in
        if length opens \<ge> s_relayer_max_open_orders_per_maker s
        then Inl (HTTPException 400 ''too many open orders'')
        else if \<not> s_relayer_preflight_on_post s then Inr []
        else case fst (preflight_order ch flds exchange None EXCHANGE_TAKER_FEE_BPS (reserved opens flds) k) of
          Inl _ \<Rightarrow> Inl (HTTPException 503 ''chain unavailable for preflight'')
        | Inr reasons \<Rightarrow> Inr reasons)"

definition post_order ::
  "libs \<Rightarrow> crypto \<Rightarrow> chain \<Rightarrow> settings \<Rightarrow> (nat \<Rightarrow> int) \<Rightarrow> nat \<Rightarrow> order_stmt list \<Rightarrow> sched \<Rightarrow> dbase \<Rightarrow>
   user \<Rightarrow> order_in \<Rightarrow> post_reply http \<times> dbase" where
  "post_order L C ch s clk k between sched db u body =
     (case post_checks L C s clk db u body of
        Inl e \<Rightarrow> (Inl e, db)
      | Inr (salt, order_hash, flds, exchange) \<Rightarrow>
      case post_admission L ch s clk k db body flds exchange of
        Inl e \<Rightarrow> (Inl e, db)
      | Inr reasons \<Rightarrow>
          if reasons \<noteq> [] then (Inr (Preflight_Failed reasons), db)
          else
            let rows = exec_stmts between (d_orders db);
                ord = order_row (next_order_id (d_next_order db) rows) order_hash salt body in
            if order_hash \<in> set (map o_order_hash rows)
            then (Inl (HTTPException 409 ''duplicate order''), db\<lparr>d_orders := rows\<rparr>)
            else case try_match L s (clk 3) sched
                (db\<lparr>d_orders := rows @ [ord], d_next_order := o_id ord + 1\<rparr>) ord of
              (fills, ms) \<Rightarrow> (Inr (Posted (order_public (clk 4) (ms_inc ms)) fills), ms_db ms))"

section \<open>DELETE /orders/{hash}\<close>

definition jobs_of :: "dbase \<Rightarrow> string \<Rightarrow> relay_job list" where
  "jobs_of db h = filter (\<lambda>j. j_taker_hash j = h \<or> j_maker_hash j = h) (d_jobs db)"

text \<open>Whether the signed order has been, or may be, in calldata anyone can read.\<close>

definition exposed :: "order \<Rightarrow> relay_job list \<Rightarrow> bool" where
  "exposed ord jobs =
     (let unsent = (\<Sum>j\<leftarrow>filter (\<lambda>j. j_status j = Pending \<and> j_tx_hashes j = []) jobs. j_fill_amount j)
      in o_filled ord - unsent > 0 \<or>
         list_ex (\<lambda>j. j_tx_hashes j \<noteq> [] \<or> j_status j \<in> {Sending, Sent, Confirmed}) jobs)"

text \<open>The loop over the jobs: the ids rolled back, the ids left to the chain.\<close>

fun cancel_jobs :: "libs \<Rightarrow> relay_job list \<Rightarrow> dbase \<Rightarrow> int list \<times> int list \<times> dbase" where
  "cancel_jobs L [] db = ([], [], db)"
| "cancel_jobs L (job # jobs) db =
     (case (if j_status job = Pending then rollback_job L db job Cancelled ''order cancelled''
            else (False, job, db)) of
        (ok, job', db') \<Rightarrow>
        (case cancel_jobs L jobs db' of
           (cancelled, flying, db'') \<Rightarrow>
             (if ok then (j_id job # cancelled, flying, db'')
              else if in_flight (j_status job') then (cancelled, j_id job' # flying, db'')
              else (cancelled, flying, db''))))"

record cancel_reply =
  cr_order_hash :: string
  cr_cancelled_jobs :: "int list"
  cr_in_flight_jobs :: "int list"
  cr_onchain_required :: bool
  cr_cancel_args :: cancel_tuple

definition cancel :: "libs \<Rightarrow> dbase \<Rightarrow> user \<Rightarrow> string \<Rightarrow> cancel_reply http \<times> dbase" where
  "cancel L db u order_hash =
     (let h = py_lower order_hash in
      case get_order h db of
        None \<Rightarrow> (Inl (HTTPException 404 ''not found''), db)
      | Some ord \<Rightarrow>
          if o_maker ord \<noteq> u_address u then (Inl (HTTPException 403 ''not maker''), db)
          else
            let jobs = jobs_of db h;
                exp = exposed ord jobs
            in case cancel_jobs L jobs (db\<lparr>d_orders := exec_stmt (Stmt_Cancel (o_id ord)) (d_orders db)\<rparr>) of
              (cancelled, flying, db') \<Rightarrow>
                (Inr \<lparr> cr_order_hash = h, cr_cancelled_jobs = cancelled, cr_in_flight_jobs = flying,
                   cr_onchain_required = (exp \<or> flying \<noteq> []), cr_cancel_args = cancel_args ord \<rparr>, db'))"

section \<open>GET /orderbook and GET /trades\<close>

record book_view =
  bv_bids :: "order_view list"
  bv_asks :: "order_view list"
  bv_trading_open :: bool
  bv_halt_reason :: "halt_reason option"

definition book :: "dbase \<Rightarrow> settings \<Rightarrow> (nat \<Rightarrow> int) \<Rightarrow> string \<Rightarrow> book_view" where
  "book db s clk condition_id =
     (let now = clk 0;
          halt = trading_halt_reason db condition_id s now;
          rows = filter (\<lambda>r. o_condition_id r = py_lower condition_id \<and> \<not> o_cancelled r \<and> o_expiry r > now)
            (d_orders db);
          bids = map (order_public (clk 1)) (filter (\<lambda>r. o_is_buy r \<and> o_filled r < o_amount r) rows);
          asks = map (order_public (clk 1)) (filter (\<lambda>r. \<not> o_is_buy r \<and> o_filled r < o_amount r) rows)
      in \<lparr> bv_bids = sort_key (\<lambda>v. - ov_price v) bids, bv_asks = sort_key ov_price asks,
           bv_trading_open = (halt = None), bv_halt_reason = halt \<rparr>)"

record trade_view =
  tv_id :: int
  tv_taker :: string
  tv_maker :: string
  tv_fill_amount :: int
  tv_volume :: int
  tv_fee :: int
  tv_tx_hash :: string
  tv_status :: string
  tv_relay_job_id :: "int option"
  tv_block_number :: "int option"

definition trades :: "dbase \<Rightarrow> string \<Rightarrow> trade_view list" where
  "trades db condition_id =
     map (\<lambda>t. \<lparr> tv_id = t_id t, tv_taker = t_taker t, tv_maker = t_maker t,
            tv_fill_amount = t_fill_amount t, tv_volume = t_volume t, tv_fee = t_fee t,
            tv_tx_hash = t_tx_hash t, tv_status = t_status t, tv_relay_job_id = t_relay_job_id t,
            tv_block_number = t_block_number t \<rparr>)
       (rev (sort_key t_id (filter (\<lambda>t. t_condition_id t = py_lower condition_id) (d_trades db))))"

section \<open>Numbers as text\<close>

lemma parse_digits_all:
  "list_all ok s \<Longrightarrow> s \<noteq> [] \<or> sep \<Longrightarrow>
     parse_digits ok base sep acc s = Some (fold (\<lambda>c a. a * base + hex_val c) s acc)"
  by (induction s arbitrary: sep acc) auto

lemma hex_digits_ok:
  "list_all is_hex_char (hex_digits n) \<and> hex_digits n \<noteq> [] \<and>
   fold (\<lambda>c a. a * 16 + hex_val c) (hex_digits n) 0 = int n"
proof (induction n rule: hex_digits.induct)
  case (1 n)
  have step: "int (n div 16) * 16 + int (n mod 16) = int n"
    by (metis div_mult_mod_eq of_nat_add of_nat_mult of_nat_numeral)
  show ?case
    using 1 step hex_digit_ok [of n] hex_digit_ok [of "n mod 16"]
    by (subst hex_digits.simps, subst (2) hex_digits.simps, subst (3) hex_digits.simps) simp
qed

lemma dec_digit_ok: "n < 10 \<Longrightarrow> is_digit (char_of (48 + n)) \<and> hex_val (char_of (48 + n)) = int n"
  by (simp add: is_digit_def hex_val_def Let_def)

lemma nat_digits_ok:
  "list_all is_digit (nat_digits n) \<and> nat_digits n \<noteq> [] \<and>
   fold (\<lambda>c a. a * 10 + hex_val c) (nat_digits n) 0 = int n"
proof (induction n rule: nat_digits.induct)
  case (1 n)
  have step: "int (n div 10) * 10 + int (n mod 10) = int n"
    by (metis div_mult_mod_eq of_nat_add of_nat_mult of_nat_numeral)
  show ?case
    using 1 step dec_digit_ok [of n] dec_digit_ok [of "n mod 10"]
    by (subst nat_digits.simps, subst (2) nat_digits.simps, subst (3) nat_digits.simps) simp
qed

lemma hex_char_not_space: "is_hex_char c \<Longrightarrow> \<not> is_space c"
  by (auto simp: is_hex_char_def is_space_def is_digit_def Let_def)

lemma digit_hex_char: "is_digit c \<Longrightarrow> is_hex_char c"
  by (simp add: is_hex_char_def Let_def)

lemma strip_hex: "list_all is_hex_char s \<Longrightarrow> s \<noteq> [] \<Longrightarrow> py_strip s = s"
  by (intro strip_fixed) (auto simp: list_all_iff hex_char_not_space)

lemma u256_py_hex:
  assumes "0 \<le> n" and "n \<le> U256_MAX" shows "u256 (PyStr (py_hex n)) = Some n"
proof -
  let ?d = "hex_digits (nat n)"
  have d: "list_all is_hex_char ?d" "?d \<noteq> []" "fold (\<lambda>c a. a * 16 + hex_val c) ?d 0 = n"
    using hex_digits_ok [of "nat n"] assms(1) by simp_all
  have strip: "py_strip (''0x'' @ ?d) = ''0x'' @ ?d"
  proof (rule strip_fixed)
    show "\<not> is_space (last (''0x'' @ ?d))"
      using d(1,2) by (simp add: list_all_iff hex_char_not_space)
  qed (simp_all add: is_space_def)
  have pre: "startswith (py_lower (''0x'' @ ?d)) ''0x''"
    by (simp add: startswith_def py_lower_def lower_char_def)
  have "parse_digits is_hex_char 16 True 0 ?d = Some n"
    using parse_digits_all [OF d(1), of True] d(3) by simp
  then have "parse_hex (''0x'' @ ?d) = Some n"
    using pre by (simp add: parse_hex_def)
  then show ?thesis
    using strip pre d(2) assms by (simp add: u256_def py_hex_def Let_def)
qed

lemma u256_py_str:
  assumes "0 \<le> n" and "n \<le> U256_MAX" shows "u256 (PyStr (py_str n)) = Some n"
proof -
  let ?d = "nat_digits (nat n)"
  have d: "list_all is_digit ?d" "?d \<noteq> []" "fold (\<lambda>c a. a * 10 + hex_val c) ?d 0 = n"
    using nat_digits_ok [of "nat n"] assms(1) by simp_all
  then have hex: "list_all is_hex_char ?d" by (auto simp: list_all_iff digit_hex_char)
  obtain c t where ct: "?d = c # t" using d(2) by (cases ?d) auto
  have c: "is_digit c" using d(1) ct by simp
  have "\<not> startswith (py_lower ?d) ''0x''"
  proof (cases t)
    case Nil
    then show ?thesis using ct by (simp add: startswith_def py_lower_def)
  next
    case (Cons e u)
    then have "is_digit e" using d(1) ct by simp
    then have "lower_char e \<noteq> CHR ''x''" by (auto simp: is_digit_def lower_char_def Let_def)
    then show ?thesis using ct Cons by (simp add: startswith_def py_lower_def)
  qed
  moreover have "parse_digits is_digit 10 False 0 ?d = Some n"
    using parse_digits_all [OF d(1), of False] d(2,3) by simp
  moreover have "c \<noteq> CHR ''-''" "c \<noteq> CHR ''+''" using c by (auto simp: is_digit_def)
  ultimately show ?thesis
    using strip_hex [OF hex d(2)] ct assms by (simp add: u256_def py_str_def parse_dec_def Let_def)
qed

lemma salt_text_hex: "0 \<le> n \<Longrightarrow> n \<le> U256_MAX \<Longrightarrow> salt_text (py_hex n) = py_str n"
  by (simp add: salt_text_def u256_py_hex)

section \<open>Case is invisible to hex\<close>

lemma lower_hex_char: "is_hex_char (lower_char c) = is_hex_char c"
  "ascii_space (lower_char c) = ascii_space c"
  "is_hex_char c \<Longrightarrow> hex_val (lower_char c) = hex_val c"
  by (auto simp: is_hex_char_def is_digit_def ascii_space_def hex_val_def lower_char_def Let_def)

lemma from_hex_lower: "from_hex (py_lower s) = from_hex s"
  by (induction s rule: from_hex.induct) (simp_all add: py_lower_def lower_hex_char)

lemma strip0x_lower: "strip0x (py_lower v) = py_lower (strip0x v)"
  by (simp add: strip0x_def py_lower_def drop_map comp_def)

lemma bytes32_lower: "bytes32 (py_lower v) = bytes32 v"
  by (simp add: bytes32_def strip0x_lower from_hex_lower)

lemma strip0x_prefix: "strip0x (''0x'' @ s) = s"
  by (simp add: strip0x_def startswith_def py_lower_def lower_char_def)

lemma sig_bytes_stored: "sig_bytes (''0x'' @ py_lower (strip0x sig)) = sig_bytes sig"
  by (simp only: sig_bytes_def strip0x_prefix from_hex_lower)

lemma verify_stored:
  "verify_order_signature C f (''0x'' @ py_lower (strip0x sig)) ex ch = verify_order_signature C f sig ex ch"
  by (simp only: verify_order_signature_def recover_order_signer_def sig_bytes_stored)

lemma from_hex_digits:
  "list_all is_hex_char s \<Longrightarrow> length s = 2 * n \<Longrightarrow> u = [] \<or> u = [CHR 0x0A] \<Longrightarrow>
     \<exists>bs. from_hex (s @ u) = Some bs \<and> length bs = n"
proof (induction n arbitrary: s)
  case 0
  then show ?case by (auto simp: ascii_space_def)
next
  case (Suc n)
  then obtain c d t where s: "s = c # d # t" "length t = 2 * n"
    by (cases s; cases "tl s") auto
  with Suc obtain bs where "from_hex (t @ u) = Some bs" "length bs = n" by auto
  then show ?case using s Suc.prems(1) by (simp add: hex_not_space)
qed

lemma hex_text_bytes32: "hex_text 64 v \<Longrightarrow> bytes32 v \<noteq> None"
proof -
  assume v: "hex_text 64 v"
  then have "prefix ''0x'' v" by (simp add: hex_text_def startswith_def)
  then have "strip0x v = drop 2 v"
    by (auto simp: strip0x_def startswith_def py_lower_def lower_char_def prefix_def)
  moreover have "\<exists>bs. from_hex (take 64 (drop 2 v) @ drop 64 (drop 2 v)) = Some bs \<and> length bs = 32"
    using v by (intro from_hex_digits) (auto simp: hex_text_def Let_def)
  ultimately show ?thesis by (auto simp: bytes32_def append_take_drop_id simp del: drop_drop)
qed

lemma check_fields_ok:
  "check_fields body = Inr salt \<longleftrightarrow>
     hex_text 40 (b_maker body) \<and> hex_text 64 (b_condition_id body) \<and> hex_text 64 (b_order_hash body) \<and>
     b_outcome body \<in> {0, 1} \<and> 0 < b_price body \<and> b_price body \<le> 1000000 \<and> 0 < b_amount body \<and>
     b_amount body < I63 \<and> 0 \<le> b_nonce body \<and> b_nonce body < I63 \<and> 0 < b_expiry body \<and>
     b_expiry body < I63 \<and> u256 (b_salt body) = Some salt"
  by (auto simp: check_fields_def split: option.splits)

lemma check_fields_code: "check_fields body = Inl (HTTPException code msg) \<Longrightarrow> code = 400"
  by (auto simp: check_fields_def split: if_splits option.splits)

section \<open>What a match leaves of a row\<close>

text \<open>The columns of an order that no statement ever changes.\<close>

definition static :: "order \<Rightarrow> order" where
  "static r = r\<lparr>o_filled := 0, o_cancelled := False\<rparr>"

lemma static_stmt [simp]: "static (stmt_set s r) = static r"
  by (cases s) (simp_all add: static_def)

lemma exec_stmt_static: "prefix (map static rows) (map static (exec_stmt s rows))"
proof (cases "\<exists>o'. s = Stmt_Insert o'")
  case True
  then show ?thesis by auto
next
  case False
  then have "map static (exec_stmt s rows) = map static rows" by (intro exec_stmt_column) auto
  then show ?thesis by simp
qed

interpretation grow: match_keeps "\<lambda>rows. prefix base (map static rows)" "\<lambda>_. True" for base
  by unfold_locales (auto intro: prefix_order.trans exec_stmt_static)

text \<open>An order of the book stays in it with the same static columns, whatever else runs.\<close>

lemma match_keeps_row:
  assumes "r \<in> set (d_orders db)"
  shows "\<exists>r' \<in> set (d_orders (ms_db (snd (try_match L s now sched db incoming)))). static r' = static r"
proof -
  have "prefix (map static (d_orders db)) (map static (d_orders (ms_db (snd (try_match L s now sched db incoming)))))"
    by (rule grow.match_keep) (simp_all add: list_all_iff)
  then have "set (map static (d_orders db)) \<subseteq> set (map static (d_orders (ms_db (snd (try_match L s now sched db incoming)))))"
    by (rule set_mono_prefix)
  with assms show ?thesis by fastforce
qed

lemma static_eq:
  assumes "static r' = static r"
  shows "o_id r' = o_id r" "o_order_hash r' = o_order_hash r" "o_maker r' = o_maker r"
    "o_condition_id r' = o_condition_id r" "o_is_buy r' = o_is_buy r" "o_outcome r' = o_outcome r"
    "o_price r' = o_price r" "o_amount r' = o_amount r" "o_salt r' = o_salt r" "o_nonce r' = o_nonce r"
    "o_expiry r' = o_expiry r" "o_signature r' = o_signature r"
  using assms by (cases r; cases r'; simp add: static_def)+

section \<open>What POST /orders did\<close>

lemma post_checks_ok:
  assumes "post_checks L C s clk db u body = Inr (salt, order_hash, flds, exchange)"
  obtains chain_id digest where "u_address u = py_lower (b_maker body)" "check_fields body = Inr salt"
    "trading_halt_reason db (b_condition_id body) s (clk 0) = None"
    "get_exchange_domain L s = Some (exchange, chain_id)" "from_body L body = Some flds"
    "order_hash = order_hash_hex C flds exchange chain_id" "order_hash = py_lower (b_order_hash body)"
    "verify_order_signature C flds (b_signature body) exchange chain_id = Inr digest"
    "clk 1 + s_relayer_min_expiry_seconds s < b_expiry body"
  using assms by (auto simp: post_checks_def bind_http_Inr Let_def not_le split: if_splits option.splits sum.splits)

lemma from_body_total: "check_fields body = Inr salt \<Longrightarrow> from_body L body \<noteq> None"
  using hex_text_bytes32 [of "b_condition_id body"] by (auto simp: check_fields_ok from_body_def split: option.splits)

lemma post_checks_code:
  assumes "post_checks L C s clk db u body = Inl (HTTPException code msg)"
  shows "code \<in> {400, 409, 503}"
proof (cases "check_fields body")
  case (Inl e)
  with assms check_fields_code [of body] show ?thesis
    by (cases e) (auto simp: post_checks_def split: if_splits)
next
  case (Inr salt)
  with assms from_body_total [OF Inr, of L] show ?thesis
    by (auto simp: post_checks_def Let_def split: if_splits option.splits sum.splits)
qed

lemma post_admission_code:
  "post_admission L ch s clk k db body flds exchange = Inl (HTTPException code msg) \<Longrightarrow> code \<in> {400, 503}"
  by (auto simp: post_admission_def Let_def split: if_splits sum.splits)

text \<open>The three ways the handler ends, as a case rule.\<close>

lemma post_order_cases:
  assumes "post_order L C ch s clk k between sched db u body = (res, db')"
  obtains (refused) code msg where "res = Inl (HTTPException code msg)" "code \<in> {400, 409, 503}"
      "db' = db\<lparr>d_orders := exec_stmts between (d_orders db)\<rparr> \<or> db' = db"
    | (preflight) reasons where "res = Inr (Preflight_Failed reasons)" "reasons \<noteq> []" "db' = db"
    | (posted) salt order_hash flds exchange ord fills ms where
      "post_checks L C s clk db u body = Inr (salt, order_hash, flds, exchange)"
      "post_admission L ch s clk k db body flds exchange = Inr []"
      "ord = order_row (next_order_id (d_next_order db) (exec_stmts between (d_orders db))) order_hash salt body"
      "order_hash \<notin> o_order_hash ` set (exec_stmts between (d_orders db))"
      "try_match L s (clk 3) sched
         (db\<lparr>d_orders := exec_stmts between (d_orders db) @ [ord], d_next_order := o_id ord + 1\<rparr>) ord = (fills, ms)"
      "res = Inr (Posted (order_public (clk 4) (ms_inc ms)) fills)" "db' = ms_db ms"
proof (cases "post_checks L C s clk db u body")
  case (Inl e)
  obtain code msg where e: "e = HTTPException code msg" by (cases e)
  with Inl post_checks_code [of L C s clk db u body code msg] assms refused show thesis
    by (auto simp: post_order_def)
next
  case (Inr chk)
  obtain salt order_hash flds exchange where chk: "chk = (salt, order_hash, flds, exchange)"
    by (cases chk)
  note pc = Inr [unfolded chk]
  show thesis
  proof (cases "post_admission L ch s clk k db body flds exchange")
    case (Inl e)
    obtain code msg where e: "e = HTTPException code msg" by (cases e)
    with Inl pc post_admission_code [of L ch s clk k db body flds exchange code msg] assms refused show thesis
      by (auto simp: post_order_def)
  next
    case adm: (Inr reasons)
    let ?rows = "exec_stmts between (d_orders db)"
    let ?ord = "order_row (next_order_id (d_next_order db) ?rows) order_hash salt body"
    obtain fills ms where m: "try_match L s (clk 3) sched
        (db\<lparr>d_orders := ?rows @ [?ord], d_next_order := o_id ?ord + 1\<rparr>) ?ord = (fills, ms)"
      by (metis prod.exhaust)
    show thesis
    proof (cases "reasons = []")
      case False
      with pc adm assms preflight show thesis by (auto simp: post_order_def)
    next
      case True
      show thesis
      proof (cases "order_hash \<in> o_order_hash ` set ?rows")
        case dup: True
        with pc adm True assms refused show thesis by (auto simp: post_order_def Let_def)
      next
        case False
        with pc adm True assms m posted [OF pc _ refl False m] show thesis
          by (auto simp: post_order_def Let_def)
      qed
    qed
  qed
qed

section \<open>What DELETE /orders did\<close>

text \<open>A pending job becomes this one; any other is left as it is.\<close>

definition cancelled_job :: "libs \<Rightarrow> relay_job \<Rightarrow> relay_job" where
  "cancelled_job L j = (if j_status j = Pending
     then j\<lparr>j_status := Cancelled, j_last_error := take 2000 (lib_redact L ''order cancelled'')\<rparr> else j)"

lemma cancelled_job_simps [simp]:
  "j_id (cancelled_job L j) = j_id j" "j_taker_hash (cancelled_job L j) = j_taker_hash j"
  "j_maker_hash (cancelled_job L j) = j_maker_hash j" "j_tx_hashes (cancelled_job L j) = j_tx_hashes j"
  "j_status (cancelled_job L j) = (if j_status j = Pending then Cancelled else j_status j)"
  by (simp_all add: cancelled_job_def)

definition order_marks :: "dbase \<Rightarrow> (string \<times> bool) list" where
  "order_marks db = map (\<lambda>r. (o_order_hash r, o_cancelled r)) (d_orders db)"

lemma cancel_jobs_spec:
  "cancel_jobs L jobs db = (c, f, db') \<Longrightarrow> distinct (map j_id (d_jobs db)) \<Longrightarrow> distinct (map j_id jobs) \<Longrightarrow>
   (\<And>j. j \<in> set jobs \<Longrightarrow> get_job (j_id j) db = Some j) \<Longrightarrow>
   map j_id (d_jobs db') = map j_id (d_jobs db) \<and> order_marks db' = order_marks db \<and>
   (\<forall>i. i \<notin> j_id ` set jobs \<longrightarrow> get_job i db' = get_job i db) \<and>
   (\<forall>j \<in> set jobs. get_job (j_id j) db' = Some (cancelled_job L j)) \<and>
   f = map j_id (filter (\<lambda>j. in_flight (j_status j)) jobs) \<and>
   c = map j_id (filter (\<lambda>j. j_status j = Pending) jobs)"
proof (induction jobs arbitrary: db c f)
  case Nil
  then show ?case by simp
next
  case (Cons j jobs)
  have row: "get_job (j_id j) db = Some j" using Cons.prems(4) by simp
  show ?case
  proof (cases "j_status j = Pending")
    case True
    let ?j = "cancelled_job L j"
    let ?db = "db\<lparr>d_jobs := put_row j_id ?j (d_jobs db),
        d_orders := exec_stmt (Stmt_Rollback [j_taker_hash j, j_maker_hash j] (j_fill_amount j)) (d_orders db),
        d_trades := fail_trades (j_id j) (d_trades db)\<rparr>"
    have rb: "rollback_job L db j Cancelled ''order cancelled'' = (True, ?j, ?db)"
      using rollback_done [OF Cons.prems(2) row refl] True by (simp add: cancelled_job_def)
    obtain c' f' where rest: "cancel_jobs L jobs ?db = (c', f', db')" and cf: "c = j_id j # c'" "f = f'"
      using Cons.prems(1) True rb by (auto split: prod.splits)
    have "get_job (j_id k) ?db = Some k" if "k \<in> set jobs" for k
      using that Cons.prems(3,4) by (auto simp: get_row_put_row image_iff)
    from Cons.IH [OF rest _ _ this] Cons.prems(2,3)
    have ih: "map j_id (d_jobs db') = map j_id (d_jobs ?db)" "order_marks db' = order_marks ?db"
      "\<forall>i. i \<notin> j_id ` set jobs \<longrightarrow> get_job i db' = get_job i ?db"
      "\<forall>j \<in> set jobs. get_job (j_id j) db' = Some (cancelled_job L j)"
      "f' = map j_id (filter (\<lambda>j. in_flight (j_status j)) jobs)" "c' = map j_id (filter (\<lambda>j. j_status j = Pending) jobs)"
      by auto
    have "order_marks ?db = order_marks db"
      by (simp add: order_marks_def map_update_where)
    moreover have "get_job (j_id j) db' = Some ?j"
      using ih(3) Cons.prems(3) row by (auto simp: get_row_put_row)
    moreover have "get_job i db' = get_job i db" if "i \<notin> j_id ` set (j # jobs)" for i
      using ih(3) that by (auto simp: get_row_put_row)
    ultimately show ?thesis using ih cf True by auto
  next
    case False
    obtain c' f' where rest: "cancel_jobs L jobs db = (c', f', db')"
      and cf: "c = c'" "f = (if in_flight (j_status j) then [j_id j] else []) @ f'"
      using Cons.prems(1) False by (auto split: prod.splits if_splits)
    have "cancelled_job L j = j" using False by (simp add: cancelled_job_def)
    with Cons.IH [OF rest Cons.prems(2)] Cons.prems(3,4) cf False row show ?thesis by auto
  qed
qed

lemma cancel_ok:
  assumes "cancel L db u order_hash = (Inr rep, db')"
  obtains ord c f where "get_order (py_lower order_hash) db = Some ord" "o_maker ord = u_address u"
    "cancel_jobs L (jobs_of db (py_lower order_hash))
       (db\<lparr>d_orders := exec_stmt (Stmt_Cancel (o_id ord)) (d_orders db)\<rparr>) = (c, f, db')"
    "cr_cancelled_jobs rep = c" "cr_in_flight_jobs rep = f"
    "cr_onchain_required rep = (exposed ord (jobs_of db (py_lower order_hash)) \<or> f \<noteq> [])"
  using assms by (auto simp: cancel_def Let_def split: option.splits if_splits prod.splits)

lemma jobs_of_rows:
  assumes "distinct (map j_id (d_jobs db))"
  shows "distinct (map j_id (jobs_of db h))" "j \<in> set (jobs_of db h) \<Longrightarrow> get_job (j_id j) db = Some j"
  using assms by (auto simp: jobs_of_def distinct_map intro: get_row_distinct inj_on_subset)

section \<open>Properties\<close>

text \<open>
  C13 (posted_row_is_signed_order). The row that an accepted \<open>POST /orders\<close> stores parses back into
  exactly the order fields whose hash and signature were checked: the worker later submits the very
  order the maker signed, under the hash it is stored by, and the salt text the book publishes parses
  to the signed salt. Address checksumming ignores case.
\<close>

theorem posted_row_is_signed_order:
  assumes post: "post_order L C ch s clk k between sched db u body = (Inr (Posted view fills), db')"
    and checksum: "\<And>a. lib_checksum L (py_lower a) = lib_checksum L a"
  shows "\<exists>row \<in> set (d_orders db'). \<exists>flds exchange chain_id digest.
    from_body L body = Some flds \<and> from_model L row = Some flds \<and>
    get_exchange_domain L s = Some (exchange, chain_id) \<and>
    o_order_hash row = order_hash_hex C flds exchange chain_id \<and>
    verify_order_signature C flds (o_signature row) exchange chain_id = Inr digest \<and>
    u256 (PyStr (salt_text (o_salt row))) = Some (f_salt flds)"
  using post
proof (cases rule: post_order_cases)
  case (posted salt order_hash flds exchange ord fills' ms)
  let ?rows = "exec_stmts between (d_orders db)"
  let ?db = "db\<lparr>d_orders := ?rows @ [ord], d_next_order := o_id ord + 1\<rparr>"
  obtain chain_id digest where ok: "check_fields body = Inr salt" "get_exchange_domain L s = Some (exchange, chain_id)"
    "from_body L body = Some flds" "order_hash = order_hash_hex C flds exchange chain_id"
    "verify_order_signature C flds (b_signature body) exchange chain_id = Inr digest"
    using post_checks_ok [OF posted(1)] by metis
  have salt: "u256 (b_salt body) = Some salt" "0 \<le> salt" "salt \<le> U256_MAX"
    using ok(1) u256_range [of "b_salt body" salt] by (auto simp: check_fields_ok U256_MAX_def)
  obtain row where row: "row \<in> set (d_orders db')" "static row = static ord"
    using match_keeps_row [of ord ?db L s "clk 3" sched ord] posted(5,7) by auto
  note cols = static_eq [OF row(2)]
  have "from_model L row = Some flds"
    using ok(3) cols posted(3) salt
    by (auto simp: from_model_def from_body_def order_row_def bytes32_lower u256_py_hex checksum split: option.splits)
  moreover have "verify_order_signature C flds (o_signature row) exchange chain_id = Inr digest"
    using ok(5) cols posted(3) by (simp add: order_row_def verify_stored del: append.simps)
  moreover have "f_salt flds = salt" using ok(3) salt by (auto simp: from_body_def split: option.splits)
  then have "u256 (PyStr (salt_text (o_salt row))) = Some (f_salt flds)"
    using cols posted(3) salt by (simp add: order_row_def salt_text_hex u256_py_str)
  moreover have "o_order_hash row = order_hash" using cols posted(3) by (simp add: order_row_def)
  ultimately show ?thesis using row(1) ok by blast
qed simp_all

text \<open>
  A \<open>POST /orders\<close> that is refused, by a check, by the preflight or
  by losing the race on the unique order hash, stores nothing: the committed database is that of before
  plus what other sessions ran. An exception is always one of the statuses 400, 409 and 503: no
  malformed body reaches an unhandled error.
\<close>

theorem refused_post_changes_nothing:
  assumes post: "post_order L C ch s clk k between sched db u body = (res, db')"
    and refused: "\<And>view fills. res \<noteq> Inr (Posted view fills)"
  shows "db'\<lparr>d_orders := d_orders db\<rparr> = db \<and>
    d_orders db' \<in> {d_orders db, exec_stmts between (d_orders db)} \<and>
    (\<forall>code msg. res = Inl (HTTPException code msg) \<longrightarrow> code \<in> {400, 409, 503})"
  using post
proof (cases rule: post_order_cases)
  case (refused code msg)
  then show ?thesis by auto
next
  case (preflight reasons)
  then show ?thesis by simp
next
  case (posted salt order_hash flds exchange ord fills ms)
  with refused show ?thesis by blast
qed

text \<open>The type of a stored order: what every reader of the table relies on.\<close>

definition order_wf :: "order \<Rightarrow> bool" where
  "order_wf r = (order_ok r \<and> 0 < o_price r \<and> o_price r \<le> 1000000 \<and> 0 < o_amount r \<and> o_amount r < I63 \<and>
     0 \<le> o_nonce r \<and> o_nonce r < I63 \<and> 0 < o_expiry r \<and> o_expiry r < I63 \<and> o_outcome r \<in> {0, 1} \<and>
     py_lower (o_maker r) = o_maker r \<and> bytes32 (o_condition_id r) \<noteq> None \<and> u256 (PyStr (o_salt r)) \<noteq> None)"

definition stmt_wf :: "order_stmt \<Rightarrow> bool" where
  "stmt_wf st = (stmt_ok st \<and> (case st of Stmt_Insert r \<Rightarrow> order_wf r | _ \<Rightarrow> True))"

lemma order_wf_static: "static r' = static r \<Longrightarrow> order_ok r' \<Longrightarrow> order_wf r \<Longrightarrow> order_wf r'"
  by (frule static_eq) (auto simp: order_wf_def dest: static_eq)

lemma exec_stmt_wf: "stmt_wf st \<Longrightarrow> list_all order_wf rows \<Longrightarrow> list_all order_wf (exec_stmt st rows)"
proof (cases "\<exists>r. st = Stmt_Insert r")
  case False
  assume st: "stmt_wf st" and rows: "list_all order_wf rows"
  have "order_wf (stmt_set st r)" if "stmt_where st r" "order_wf r" for r
  proof (rule order_wf_static)
    show "order_ok (stmt_set st r)"
      using that st by (intro stmt_set_ok) (simp_all add: stmt_wf_def order_wf_def)
  qed (use that in simp_all)
  with rows False show ?thesis by (auto simp: exec_update list_all_iff set_update_where)
qed (auto simp: stmt_wf_def)

interpretation wf_match: match_keeps "list_all order_wf" stmt_wf
  by unfold_locales (erule (1) exec_stmt_wf, simp_all add: stmt_wf_def)

lemma wf_from_model: "order_wf r \<Longrightarrow> from_model L r \<noteq> None"
  by (auto simp: order_wf_def from_model_def split: option.splits)

lemma order_row_wf: "check_fields body = Inr salt \<Longrightarrow> order_wf (order_row i h salt body)"
  using hex_text_bytes32 [of "b_condition_id body"] u256_range [of "b_salt body" salt]
  by (auto simp: check_fields_ok order_wf_def order_row_def order_ok_def bytes32_lower u256_py_hex U256_MAX_def)

text \<open>
  C40 (posts_keep_orders_well_typed). Every order the API stores is in the Exchange's ranges with a maker,
  condition id and salt that parse, whatever other sessions commit meanwhile (if what they insert is
  too): reading a row back into order fields never fails.
\<close>

theorem posts_keep_orders_well_typed:
  assumes "list_all order_wf (d_orders db)" and "list_all stmt_wf between" and "\<And>n. list_all stmt_wf (sched n)"
    and post: "post_order L C ch s clk k between sched db u body = (res, db')"
  shows "list_all (\<lambda>r. order_wf r \<and> from_model L r \<noteq> None) (d_orders db')"
proof -
  have rows: "list_all order_wf (exec_stmts between (d_orders db))"
    unfolding exec_stmts_def using assms(2,1) by (rule wf_match.fold_inv)
  have "list_all order_wf (d_orders db')"
    using post
  proof (cases rule: post_order_cases)
    case (posted salt order_hash flds exchange ord fills ms)
    have "check_fields body = Inr salt" using post_checks_ok [OF posted(1)] by metis
    then have "order_wf ord" unfolding posted(3) by (rule order_row_wf)
    with rows have "list_all order_wf (d_orders (db\<lparr>d_orders := exec_stmts between (d_orders db) @ [ord],
        d_next_order := o_id ord + 1\<rparr>))" by simp
    from wf_match.match_keep [where sched = sched, OF this assms(3)]
    have "list_all order_wf (d_orders (ms_db (snd (fills, ms))))" unfolding posted(5) [symmetric] .
    then show ?thesis by (simp add: posted(7))
  next
    case (refused code msg)
    from refused(3) show ?thesis by (elim disjE) (simp_all add: rows assms(1))
  next
    case (preflight reasons)
    with assms(1) show ?thesis by simp
  qed
  then show ?thesis unfolding list_all_iff using wf_from_model by blast
qed

lemma open_buys_reserved:
  "f_is_buy flds \<Longrightarrow> reserved opens flds =
     (\<Sum>r\<leftarrow>filter o_is_buy opens. order_usdc_need (o_amount r - o_filled r) (o_price r) EXCHANGE_TAKER_FEE_BPS)"
  by (simp add: reserved_def)

lemma preflight_buy:
  assumes "answers_as ch v" and "f_is_buy ord"
    and "fst (preflight_order ch ord ex None bps res k) = Inr []"
  shows "order_usdc_need (f_amount ord) (f_price ord) bps + max 0 res \<le> v_usdc_balance v (f_maker ord)"
    "order_usdc_need (f_amount ord) (f_price ord) bps + max 0 res \<le> v_usdc_allowance v (f_maker ord) ex"
    "v_ex_nonce v (f_maker ord) = f_nonce ord"
  using assms by (auto simp: preflight_order_def answers_as_def rpc_bind_def rpc_call_def rpc_return_def
      reason_if_def Let_def not_less split: if_splits)

text \<open>
  With the relayer's preflight on, an accepted buy order and all the maker's
  other open buy orders under the same Exchange nonce are together covered, fees and rounding included,
  by the maker's USDC balance and by the Exchange's allowance at the time of the check.
\<close>

theorem posted_buys_are_funded:
  assumes node: "answers_as ch v"
    and post: "post_order L C ch s clk k between sched db u body = (Inr (Posted view fills), db')"
    and on: "s_relayer_enabled s" "s_relayer_preflight_on_post s" and buy: "b_is_buy body"
    and ex: "get_exchange_domain L s = Some (exchange, chain_id)"
  shows "(\<Sum>r\<leftarrow>filter o_is_buy (open_orders db (u_address u) (b_nonce body) (clk 2)).
        order_usdc_need (o_amount r - o_filled r) (o_price r) EXCHANGE_TAKER_FEE_BPS)
      + order_usdc_need (b_amount body) (b_price body) EXCHANGE_TAKER_FEE_BPS
    \<le> min (v_usdc_balance v (lib_checksum L (b_maker body))) (v_usdc_allowance v (lib_checksum L (b_maker body)) exchange)"
  using post
proof (cases rule: post_order_cases)
  case (posted salt order_hash flds ex' ord fills' ms)
  obtain cid where ok: "u_address u = py_lower (b_maker body)" "from_body L body = Some flds"
    "get_exchange_domain L s = Some (ex', cid)"
    using post_checks_ok [OF posted(1)] by metis
  have f: "f_is_buy flds" "f_amount flds = b_amount body" "f_price flds = b_price body"
    "f_maker flds = lib_checksum L (b_maker body)"
    using ok(2) buy by (auto simp: from_body_def split: option.splits)
  let ?res = "reserved (open_orders db (py_lower (b_maker body)) (b_nonce body) (clk 2)) flds"
  have "fst (preflight_order ch flds exchange None EXCHANGE_TAKER_FEE_BPS ?res k) = Inr []"
    using posted(2) on ok(3) ex by (auto simp: post_admission_def Let_def split: if_splits sum.splits)
  note p = preflight_buy [OF node f(1) this]
  show ?thesis using p(1,2) ok(1) f open_buys_reserved [OF f(1)] by auto
qed simp_all

text \<open>
  C22 (cancel_accounts_for_every_job). After \<open>DELETE /orders\<close> the order is cancelled, and every job that
  names it is finished or reported as in flight. Unless the answer flags that an on-chain cancel is
  required, no such job ever carried a transaction: nothing anyone can replay is out there.
\<close>

theorem cancel_accounts_for_every_job:
  assumes cancel: "cancel L db u order_hash = (Inr rep, db')"
    and keys: "distinct (map j_id (d_jobs db))" "distinct (map o_order_hash (d_orders db))"
  shows "(\<forall>r \<in> set (d_orders db'). o_order_hash r = py_lower order_hash \<longrightarrow> o_cancelled r) \<and>
    (\<forall>j \<in> set (jobs_of db' (py_lower order_hash)). terminal (j_status j) \<or> j_id j \<in> set (cr_in_flight_jobs rep)) \<and>
    (\<not> cr_onchain_required rep \<longrightarrow>
       (\<forall>j \<in> set (jobs_of db' (py_lower order_hash)). j_status j \<in> {Failed, Cancelled} \<and> j_tx_hashes j = []))"
proof -
  let ?h = "py_lower order_hash"
  obtain ord c f where ord: "get_order ?h db = Some ord"
    and loop: "cancel_jobs L (jobs_of db ?h) (db\<lparr>d_orders := exec_stmt (Stmt_Cancel (o_id ord)) (d_orders db)\<rparr>) = (c, f, db')"
    and rep: "cr_in_flight_jobs rep = f" "cr_onchain_required rep = (exposed ord (jobs_of db ?h) \<or> f \<noteq> [])"
    using cancel_ok [OF cancel] by metis
  from cancel_jobs_spec [OF loop] keys(1) jobs_of_rows [OF keys(1), where h = ?h]
  have ids: "map j_id (d_jobs db') = map j_id (d_jobs db)"
    and marks: "order_marks db' = order_marks (db\<lparr>d_orders := exec_stmt (Stmt_Cancel (o_id ord)) (d_orders db)\<rparr>)"
    and other: "\<forall>i. i \<notin> j_id ` set (jobs_of db ?h) \<longrightarrow> get_job i db' = get_job i db"
    and final: "\<forall>j \<in> set (jobs_of db ?h). get_job (j_id j) db' = Some (cancelled_job L j)"
    and f: "f = map j_id (filter (\<lambda>j. in_flight (j_status j)) (jobs_of db ?h))"
    by simp_all
  have jobs: "\<exists>j0 \<in> set (jobs_of db ?h). j = cancelled_job L j0" if "j \<in> set (jobs_of db' ?h)" for j
  proof -
    have j: "get_job (j_id j) db' = Some j" "j_taker_hash j = ?h \<or> j_maker_hash j = ?h"
      using that jobs_of_rows(2) [of db'] ids keys(1) by (auto simp: jobs_of_def)
    show ?thesis
    proof (cases "j_id j \<in> j_id ` set (jobs_of db ?h)")
      case True
      with final j(1) show ?thesis by fastforce
    next
      case False
      with other j(1) have "get_job (j_id j) db = Some j" by simp
      from get_row_Some [OF this] j(2) have "j \<in> set (jobs_of db ?h)" by (simp add: jobs_of_def)
      with False show ?thesis by blast
    qed
  qed
  have "terminal (j_status j) \<or> j_id j \<in> set f" if "j \<in> set (jobs_of db' ?h)" for j
  proof -
    from jobs [OF that] obtain j0 where "j0 \<in> set (jobs_of db ?h)" "j = cancelled_job L j0" by blast
    then show ?thesis using f by (cases "j_status j0") auto
  qed
  moreover have "j_status j \<in> {Failed, Cancelled} \<and> j_tx_hashes j = []"
    if "j \<in> set (jobs_of db' ?h)" "\<not> exposed ord (jobs_of db ?h)" for j
  proof -
    from jobs [OF that(1)] obtain j0 where "j0 \<in> set (jobs_of db ?h)" "j = cancelled_job L j0" by blast
    then show ?thesis using \<open>\<not> exposed ord (jobs_of db ?h)\<close> by (cases "j_status j0") (auto simp: exposed_def list_ex_iff Let_def)
  qed
  moreover have "o_cancelled r" if "r \<in> set (d_orders db')" "o_order_hash r = ?h" for r
  proof -
    have "(?h, o_cancelled r) \<in> set (order_marks db')" using that by (force simp: order_marks_def)
    then obtain r0 where r0: "r0 \<in> set (d_orders db)" "o_order_hash r0 = ?h"
      "o_id r0 = o_id ord \<or> o_cancelled r = o_cancelled r0" "o_id r0 = o_id ord \<longrightarrow> o_cancelled r"
      unfolding marks by (auto simp: order_marks_def set_update_where split: if_splits)
    have "r0 = ord" using r0(1,2) ord get_row_distinct [OF keys(2) r0(1)] by simp
    with r0 show ?thesis by simp
  qed
  ultimately show ?thesis using rep by simp
qed

section \<open>Examples\<close>

text \<open>A maker posts a buy order on an empty book, with the relayer and its preflight on.\<close>

definition ex_api_libs :: libs where
  "ex_api_libs = ex_libs\<lparr>lib_checksum := py_lower\<rparr>"

definition ex_addr :: string where "ex_addr = ''0x'' @ replicate 40 (CHR ''a'')"
definition ex_zero_hash :: string where "ex_zero_hash = ''0x'' @ replicate 64 (CHR ''0'')"

definition ex_api_crypto :: crypto where
  "ex_api_crypto = \<lparr> cr_keccak = (\<lambda>_. replicate 32 (CHR 0x00)), cr_encode_domain = (\<lambda>i a. a),
     cr_encode_order = f_maker, cr_recover = (\<lambda>d v r s. if v = 1 then Some ex_addr else None) \<rparr>"

definition ex_api_settings :: settings where
  "ex_api_settings = default_settings\<lparr>s_relayer_enabled := True, s_relayer_private_key := ''k''\<rparr>"

definition ex_user :: user where
  "ex_user = \<lparr> u_id = 1, u_address = ex_addr, u_is_operator = False, u_cdp_user_id = [] \<rparr>"

definition ex_body :: order_in where
  "ex_body = \<lparr> b_maker = ''0x'' @ replicate 40 (CHR ''A''), b_is_buy = True,
     b_condition_id = ''0x'' @ replicate 64 (CHR ''C''), b_outcome = 0, b_price = 500000, b_amount = 100,
     b_salt = PyInt 7, b_nonce = 0, b_expiry = 1000, b_signature = ex_sig, b_order_hash = ex_zero_hash \<rparr>"

lemma ex_chars: "char_of (97::nat) = CHR ''a''" "char_of (48::nat) = CHR ''0''"
  by code_simp+

lemma ex_sig_raw: "from_hex (strip0x ex_sig) =
    Some (replicate 31 (CHR 0x00) @ [CHR 0x01] @ replicate 32 (CHR 0x00) @ [CHR 0x1c])"
  by (simp add: ex_sig_def strip0x_def startswith_def py_lower_def lower_char_def from_hex_to_hex)

lemma ex_to_hex: "to_hex (replicate n (CHR 0x00)) = replicate (2 * n) (CHR ''0'')"
  by (induction n) (simp_all add: to_hex_def hex_digit_def ex_chars)

lemma ex_body_simps [simp]:
  "py_lower (b_maker ex_body) = ex_addr" "py_lower (b_order_hash ex_body) = ex_zero_hash"
  "b_signature ex_body = ex_sig" "b_expiry ex_body = 1000" "b_is_buy ex_body" "b_nonce ex_body = 0"
  "b_amount ex_body = 100" "b_price ex_body = 500000" "u_address ex_user = ex_addr" "py_lower ex_addr = ex_addr"
  by (simp_all add: ex_body_def ex_zero_hash_def ex_addr_def ex_user_def py_lower_def lower_char_def ex_chars)

lemma ex_check_fields: "check_fields ex_body = Inr 7"
  by (simp add: check_fields_ok hex_text_def startswith_def ex_body_def ex_zero_hash_def I63_def u256_def U256_MAX_def
      list_all_iff is_hex_char_def is_digit_def Let_def)

lemma ex_settings_simps [simp]:
  "s_chain_id ex_api_settings = 31337" "s_relayer_private_key ex_api_settings = ''k''" "s_relayer_enabled ex_api_settings"
  "s_relayer_min_expiry_seconds ex_api_settings = 60" "s_relayer_preflight_on_post ex_api_settings"
  "s_relayer_max_open_orders_per_maker ex_api_settings = 100"
  by (simp_all add: ex_api_settings_def default_settings_def)

lemma ex_libs_simps [simp]:
  "lib_checksum ex_api_libs = py_lower" "lib_from_key ex_api_libs k = Some ''0xRELAYER''"
  "lib_contract_addresses ex_api_libs i = Some (\<lambda>_. Some ''0xEX'')" "lib_is_address ex_api_libs a"
  by (simp_all add: ex_api_libs_def ex_libs_def)

lemma ex_domain: "get_exchange_domain ex_api_libs ex_api_settings = Some (py_lower ''0xEX'', 31337)"
  by (simp add: get_exchange_domain_def del: py_lower_append)

lemma ex_hash: "order_hash_hex ex_api_crypto flds ex cid = ex_zero_hash"
  by (simp add: order_hash_hex_def order_digest_def ex_api_crypto_def ex_to_hex ex_zero_hash_def)

lemma ex_verify:
  "f_maker flds = ex_addr \<Longrightarrow>
   verify_order_signature ex_api_crypto flds ex_sig ex cid = Inr (order_digest ex_api_crypto flds ex cid)"
  by (simp add: verify_order_signature_def recover_order_signer_def sig_bytes_def ex_sig_raw nth_append ex_api_crypto_def)

lemma ex_from_body:
  "\<exists>flds. from_body ex_api_libs ex_body = Some flds \<and> f_maker flds = ex_addr \<and>
     f_is_buy flds \<and> f_nonce flds = 0 \<and> f_amount flds = 100 \<and> f_price flds = 500000"
proof -
  obtain flds where f: "from_body ex_api_libs ex_body = Some flds"
    using from_body_total [OF ex_check_fields] by blast
  then show ?thesis by (auto simp: from_body_def split: option.splits)
qed

lemma ex_checks:
  assumes "from_body ex_api_libs ex_body = Some flds" and "f_maker flds = ex_addr"
  shows "post_checks ex_api_libs ex_api_crypto ex_api_settings (\<lambda>_. 100) empty_db ex_user ex_body =
    Inr (7, ex_zero_hash, flds, py_lower ''0xEX'')"
  unfolding post_checks_def
  by (simp add: ex_check_fields ex_domain assms(1) ex_hash ex_verify [OF assms(2)] trading_halt_reason_def empty_db_def)

lemma ex_ready: "relayer_ready ex_api_libs ex_api_settings"
  by (simp add: relayer_ready_def relayer_account_def ex_domain py_strip_def lstrip_def is_space_def)

lemma ex_admission:
  assumes "f_maker flds = ex_addr" "f_is_buy flds" "f_nonce flds = 0" "f_amount flds = 100" "f_price flds = 500000"
  shows "post_admission ex_api_libs (chain_of ex_view) ex_api_settings (\<lambda>_. 100) 0 empty_db ex_body flds ex = Inr []"
  using assms by (simp add: post_admission_def ex_ready open_orders_def empty_db_def preflight_order_def rpc_bind_def
      rpc_call_def rpc_return_def chain_of_def ex_view_def reserved_def order_usdc_need_def ceil_div_def PRICE_SCALE_def
      BPS_def EXCHANGE_TAKER_FEE_BPS_def reason_if_def Let_def)

lemma ex_post_ok:
  "\<exists>view fills db'. post_order ex_api_libs ex_api_crypto (chain_of ex_view) ex_api_settings (\<lambda>_. 100) 0 [] quiet
     empty_db ex_user ex_body = (Inr (Posted view fills), db')"
proof -
  obtain flds where f: "from_body ex_api_libs ex_body = Some flds" "f_maker flds = ex_addr"
    "f_is_buy flds" "f_nonce flds = 0" "f_amount flds = 100" "f_price flds = 500000"
    using ex_from_body by blast
  with ex_checks [OF f(1,2)] ex_admission [OF f(2-6)] show ?thesis
    by (simp add: post_order_def exec_stmts_def empty_db_def Let_def split: prod.splits)
qed

theorem posted_row_is_signed_order_witness:
  "\<exists>row flds. from_model ex_api_libs row = Some flds \<and> from_body ex_api_libs ex_body = Some flds \<and>
     o_order_hash row = ex_zero_hash \<and> u256 (PyStr (salt_text (o_salt row))) = Some (f_salt flds)"
proof -
  obtain view fills db' where "post_order ex_api_libs ex_api_crypto (chain_of ex_view) ex_api_settings (\<lambda>_. 100) 0 []
      quiet empty_db ex_user ex_body = (Inr (Posted view fills), db')"
    using ex_post_ok by blast
  from posted_row_is_signed_order [OF this] show ?thesis by (auto simp: ex_hash)
qed

text \<open>Another request stored the same order between the duplicate check and the INSERT.\<close>

definition ex_raced :: order where
  "ex_raced = order_row 1 ex_zero_hash 7 ex_body"

theorem refused_post_changes_nothing_witness:
  "\<exists>res db'. post_order ex_api_libs ex_api_crypto (chain_of ex_view) ex_api_settings (\<lambda>_. 100) 0 [Stmt_Insert ex_raced]
     quiet empty_db ex_user ex_body = (res, db') \<and> res = Inl (HTTPException 409 ''duplicate order'') \<and>
     d_orders db' \<in> {d_orders empty_db, [ex_raced]} \<and> db'\<lparr>d_orders := []\<rparr> = empty_db"
proof -
  let ?post = "post_order ex_api_libs ex_api_crypto (chain_of ex_view) ex_api_settings (\<lambda>_. 100) 0 [Stmt_Insert ex_raced]
    quiet empty_db ex_user ex_body"
  obtain flds where f: "from_body ex_api_libs ex_body = Some flds" "f_maker flds = ex_addr"
    "f_is_buy flds" "f_nonce flds = 0" "f_amount flds = 100" "f_price flds = 500000"
    using ex_from_body by blast
  obtain db' where eq: "?post = (Inl (HTTPException 409 ''duplicate order''), db')"
    using ex_checks [OF f(1,2)] ex_admission [OF f(2-6)]
    by (simp add: post_order_def exec_stmts_def ex_raced_def order_row_def Let_def)
  with refused_post_changes_nothing [OF eq] show ?thesis by (simp add: exec_stmts_def empty_db_def)
qed

theorem posts_keep_orders_well_typed_witness:
  "\<exists>res db'. post_order ex_api_libs ex_api_crypto (chain_of ex_view) ex_api_settings (\<lambda>_. 100) 0 [Stmt_Insert ex_raced]
     quiet empty_db ex_user ex_body = (res, db') \<and> list_all (\<lambda>r. order_wf r \<and> from_model ex_api_libs r \<noteq> None) (d_orders db')"
proof -
  obtain res db' where eq: "post_order ex_api_libs ex_api_crypto (chain_of ex_view) ex_api_settings (\<lambda>_. 100) 0
      [Stmt_Insert ex_raced] quiet empty_db ex_user ex_body = (res, db')"
    by (metis prod.exhaust)
  have "order_wf ex_raced" unfolding ex_raced_def by (rule order_row_wf) (rule ex_check_fields)
  then have "list_all stmt_wf [Stmt_Insert ex_raced]" by (simp add: stmt_wf_def order_wf_def)
  from posts_keep_orders_well_typed [OF _ this _ eq] show ?thesis
    using eq by (auto simp: empty_db_def quiet_def)
qed

theorem posted_buys_are_funded_witness:
  "order_usdc_need (b_amount ex_body) (b_price ex_body) EXCHANGE_TAKER_FEE_BPS \<le> v_usdc_balance ex_view ex_addr"
proof -
  obtain view fills db' where "post_order ex_api_libs ex_api_crypto (chain_of ex_view) ex_api_settings (\<lambda>_. 100) 0 []
      quiet empty_db ex_user ex_body = (Inr (Posted view fills), db')"
    using ex_post_ok by blast
  from posted_buys_are_funded [OF chain_of_answers this _ _ _ ex_domain] show ?thesis
    by (simp add: open_orders_def empty_db_def ex_view_def)
qed

theorem cancel_accounts_for_every_job_witness:
  "\<exists>rep db'. cancel ex_libs ex_queue_db (ex_user\<lparr>u_address := ''m1''\<rparr>) ''1'' = (Inr rep, db') \<and> \<not> cr_onchain_required rep \<and>
     map j_status (jobs_of db' ''1'') = [Cancelled] \<and> (\<forall>j \<in> set (jobs_of db' ''1''). j_tx_hashes j = [])"
proof -
  have one: "py_lower ''1'' = ''1''" "py_str 1 = ''1''" "py_str 2 = ''2''" by code_simp+
  obtain rep db' where eq: "cancel ex_libs ex_queue_db (ex_user\<lparr>u_address := ''m1''\<rparr>) ''1'' = (Inr rep, db')"
    and free: "\<not> cr_onchain_required rep" and jobs: "map j_status (jobs_of db' ''1'') = [Cancelled]"
    by (simp add: cancel_def one ex_queue_db_def enqueue_match_def empty_db_def ex_order_def ex_user_def jobs_of_def
        exposed_def rollback_job_def flush_job_def row_count_def refresh_job_def Let_def)
  have "distinct (map j_id (d_jobs ex_queue_db))" "distinct (map o_order_hash (d_orders ex_queue_db))"
    by (simp_all add: ex_queue_db_def enqueue_match_def empty_db_def Let_def)
  from cancel_accounts_for_every_job [OF eq this] eq free jobs one show ?thesis by auto
qed

text \<open>
  The pattern of the condition id accepts a newline at its end, which decoding skips: the order is
  signed and submitted for the same condition, but stored under another key, where it is matched with
  no order of that market and is not counted in \<open>reserved\<close>.
\<close>

lemma from_hex_newline: "list_all is_hex_char s \<Longrightarrow> even (length s) \<Longrightarrow> from_hex (s @ [CHR 0x0A]) = from_hex s"
proof (induction s rule: from_hex.induct)
  case 1
  have "ascii_space (CHR 0x0A)" by (simp add: ascii_space_def)
  then show ?case by simp
qed (auto simp: hex_not_space)

lemma newline_condition_id_accepted:
  defines "cid \<equiv> b_condition_id ex_body @ [CHR 0x0A]"
  shows "check_fields (ex_body\<lparr>b_condition_id := cid\<rparr>) = Inr 7 \<and> bytes32 cid = bytes32 (b_condition_id ex_body) \<and>
    o_condition_id (order_row i h 7 (ex_body\<lparr>b_condition_id := cid\<rparr>)) \<noteq> o_condition_id (order_row i h 7 ex_body)"
proof (intro conjI)
  show "check_fields (ex_body\<lparr>b_condition_id := cid\<rparr>) = Inr 7"
    by (simp add: cid_def check_fields_ok hex_text_def startswith_def ex_body_def ex_zero_hash_def I63_def u256_def
        U256_MAX_def list_all_iff is_hex_char_def is_digit_def Let_def)
  show "bytes32 cid = bytes32 (b_condition_id ex_body)"
    by (simp add: cid_def bytes32_def strip0x_def startswith_def ex_body_def py_lower_def lower_char_def
        from_hex_newline list_all_iff is_hex_char_def is_digit_def Let_def)
  show "o_condition_id (order_row i h 7 (ex_body\<lparr>b_condition_id := cid\<rparr>)) \<noteq> o_condition_id (order_row i h 7 ex_body)"
    by (simp add: cid_def order_row_def py_lower_def)
qed

end
