(* ===== verification/Indexer.thy ===== *)
theory Indexer
  imports Trading "HOL-Library.State_Monad" "HOL-Library.Product_Lexorder"
begin

text \<open>
  The chain indexer (\<open>backend/app/indexer/listener.py\<close>): each tick reads the factory and AMM logs
  of the next block windows into \<open>markets\<close>, \<open>market_listings\<close> and \<open>price_points\<close> and then moves
  the checkpoint of its address set forward. A tick is a computation in the state monad over \<open>ix\<close>;
  everything read from outside the process (the node, the clock, the advisory lock) is an answer of
  \<open>ix_env\<close> that may differ at every call, with \<open>None\<close> for an exception. The normal distribution
  function behind the pm-AMM price is floating point: \<open>x_cdf_micros d l\<close> stands for
  \<open>round(cdf(d / l) * 1_000_000)\<close>.
\<close>

section \<open>Prices\<close>

definition SEED_PRICE_MICROS :: int where "SEED_PRICE_MICROS = 500000"
definition ANVIL_CHAIN_ID :: int where "ANVIL_CHAIN_ID = 31337"

definition mid_to_micros :: "int \<Rightarrow> int \<Rightarrow> int" where
  "mid_to_micros yes_reserve no_reserve =
     (let total = yes_reserve + no_reserve in
      if total \<le> 0 then SEED_PRICE_MICROS else no_reserve * 1000000 div total)"

definition pm_price_micros :: "(int \<Rightarrow> int \<Rightarrow> int) \<Rightarrow> int \<Rightarrow> int \<Rightarrow> int \<Rightarrow> int" where
  "pm_price_micros cdf yes_reserve no_reserve liquidity =
     (if liquidity \<le> 0 then mid_to_micros yes_reserve no_reserve
      else max 0 (min 1000000 (cdf (no_reserve - yes_reserve) liquidity)))"

text \<open>\<open>None\<close> where \<open>pool[0]\<close> or \<open>pool[1]\<close> raises.\<close>

definition pool_price_micros :: "(int \<Rightarrow> int \<Rightarrow> int) \<Rightarrow> int list \<Rightarrow> int option" where
  "pool_price_micros cdf pool =
     (case pool of
        yes_reserve # no_reserve # rest \<Rightarrow>
          Some (if length pool \<ge> 5 \<and> pool ! 4 > 0 then pm_price_micros cdf yes_reserve no_reserve (pool ! 4)
                else mid_to_micros yes_reserve no_reserve)
      | _ \<Rightarrow> None)"

definition build_seed_point :: "string \<Rightarrow> int \<Rightarrow> int \<Rightarrow> int \<Rightarrow> price_point" where
  "build_seed_point condition_id ts block_number log_index =
     \<lparr> pp_id = 0, pp_condition_id = condition_id, pp_ts = ts, pp_block_number = block_number,
       pp_log_index = log_index, pp_yes_price_micros = SEED_PRICE_MICROS \<rparr>"

definition build_swap_point :: "(int \<Rightarrow> int \<Rightarrow> int) \<Rightarrow> string \<Rightarrow> int \<Rightarrow> int \<Rightarrow> int \<Rightarrow> int \<Rightarrow> int \<Rightarrow> int \<Rightarrow> price_point" where
  "build_swap_point cdf condition_id ts block_number log_index yes_reserve no_reserve liquidity =
     \<lparr> pp_id = 0, pp_condition_id = condition_id, pp_ts = ts, pp_block_number = block_number,
       pp_log_index = log_index, pp_yes_price_micros = pm_price_micros cdf yes_reserve no_reserve liquidity \<rparr>"

section \<open>Windows and delays\<close>

definition resolve_start_block :: "int \<Rightarrow> int \<Rightarrow> int \<Rightarrow> int \<Rightarrow> int \<Rightarrow> int" where
  "resolve_start_block last_block start_block head chain_id lookback =
     (let low = (if start_block > 0 then start_block
                 else if chain_id = ANVIL_CHAIN_ID \<or> last_block > 0 then 1
                 else max 1 (head - lookback + 1))
      in max (last_block + 1) low)"

text \<open>The \<open>while\<close> of \<open>plan_ranges\<close>; the first argument is \<open>max_chunks - len(ranges)\<close>.\<close>

fun plan_from :: "nat \<Rightarrow> int \<Rightarrow> int \<Rightarrow> int \<Rightarrow> (int \<times> int) list" where
  "plan_from 0 lo end_block max_range = []"
| "plan_from (Suc n) lo end_block max_range =
     (if lo \<le> end_block
      then let hi = min (lo + max_range - 1) end_block in (lo, hi) # plan_from n (hi + 1) end_block max_range
      else [])"

definition plan_ranges :: "int \<Rightarrow> int \<Rightarrow> int \<Rightarrow> nat \<Rightarrow> (int \<times> int) list" where
  "plan_ranges start end_block max_range max_chunks =
     (if end_block < start \<or> max_range < 1 \<or> max_chunks < 1 then []
      else plan_from max_chunks start end_block max_range)"

definition next_delay :: "rat \<Rightarrow> nat \<Rightarrow> rat \<Rightarrow> rat" where
  "next_delay interval failures max_backoff =
     (if failures = 0 then interval else min max_backoff (interval * 2 ^ min failures 16))"

section \<open>State and environment\<close>

record created_event =
  ce_block :: int
  ce_log :: int
  ce_condition_id :: string
  ce_parent :: string
  ce_question :: string
  ce_market_type :: int
  ce_close_time :: int
  ce_creator :: string

record paused_event =
  pe_block :: int
  pe_log :: int
  pe_condition_id :: string
  pe_paused :: bool

record amm_event =
  ae_block :: int
  ae_log :: int
  ae_condition_id :: string
  ae_swap :: bool

datatype factory_event = Created created_event | Paused paused_event

record ix =
  ix_db :: dbase
  ix_saved :: dbase
  ix_calls :: nat
  ix_range :: "int option"
  ix_leader :: bool

record ix_env =
  x_settings :: settings
  x_addresses :: "(string \<Rightarrow> string option) option"
  x_factory_abi :: bool
  x_amm_abi :: bool
  x_postgres :: bool
  x_ping :: "nat \<Rightarrow> unit option"
  x_try_lock :: "nat \<Rightarrow> bool option"
  x_clock :: "nat \<Rightarrow> int"
  x_head :: "nat \<Rightarrow> int option"
  x_created :: "int \<Rightarrow> int \<Rightarrow> nat \<Rightarrow> created_event list option"
  x_paused :: "int \<Rightarrow> int \<Rightarrow> nat \<Rightarrow> paused_event list option"
  x_seeded :: "int \<Rightarrow> int \<Rightarrow> nat \<Rightarrow> amm_event list option"
  x_swaps :: "int \<Rightarrow> int \<Rightarrow> nat \<Rightarrow> amm_event list option"
  x_timestamp :: "int \<Rightarrow> nat \<Rightarrow> int option"
  x_pool :: "string \<Rightarrow> int \<Rightarrow> nat \<Rightarrow> int list option"
  x_commitments :: "string \<Rightarrow> nat \<Rightarrow> (string \<times> int) option"
  x_keccak_text :: "string \<Rightarrow> string"
  x_cdf_micros :: "int \<Rightarrow> int \<Rightarrow> int"

type_synonym 'a indexing = "(ix, 'a) state"

definition ask :: "(nat \<Rightarrow> 'a) \<Rightarrow> 'a indexing" where
  "ask f = State (\<lambda>st. (f (ix_calls st), st\<lparr>ix_calls := Suc (ix_calls st)\<rparr>))"

definition gets :: "(ix \<Rightarrow> 'a) \<Rightarrow> 'a indexing" where
  "gets f = State (\<lambda>st. (f st, st))"

definition modify :: "(ix \<Rightarrow> ix) \<Rightarrow> unit indexing" where
  "modify f = State (\<lambda>st. ((), f st))"

definition write_db :: "(dbase \<Rightarrow> dbase) \<Rightarrow> unit indexing" where
  "write_db f = modify (\<lambda>st. st\<lparr>ix_db := f (ix_db st)\<rparr>)"

definition commit :: "unit indexing" where
  "commit = modify (\<lambda>st. st\<lparr>ix_saved := ix_db st\<rparr>)"

text \<open>\<open>async with SessionLocal()\<close>: a session sees what is committed.\<close>

definition open_session :: "unit indexing" where
  "open_session = modify (\<lambda>st. st\<lparr>ix_db := ix_saved st\<rparr>)"

section \<open>Leadership\<close>

text \<open>\<open>None\<close> where the lock query raises.\<close>

definition ensure_indexer_leader :: "ix_env \<Rightarrow> bool option indexing" where
  "ensure_indexer_leader V =
     (if \<not> x_postgres V then State_Monad.return (Some True)
      else do {
        held \<leftarrow> gets ix_leader;
        alive \<leftarrow> (if held then ask (x_ping V) else State_Monad.return None);
        if alive \<noteq> None then State_Monad.return (Some True)
        else do {
          modify (\<lambda>st. st\<lparr>ix_leader := False\<rparr>);
          got \<leftarrow> ask (x_try_lock V);
          modify (\<lambda>st. st\<lparr>ix_leader := (got = Some True)\<rparr>);
          State_Monad.return got
        }
      })"

definition release_indexer_leadership :: "unit indexing" where
  "release_indexer_leadership = modify (\<lambda>st. st\<lparr>ix_leader := False\<rparr>)"

section \<open>Checkpoints\<close>

definition checkpoint_key :: "(string \<Rightarrow> string option) \<Rightarrow> string \<times> string" where
  "checkpoint_key addresses =
     (let text = (\<lambda>k. py_lower (py_strip (case addresses k of None \<Rightarrow> [] | Some a \<Rightarrow> a)))
      in (text ''MarketFactory'', text ''MarketAMM''))"

definition cp_key :: "indexer_checkpoint \<Rightarrow> string \<times> string" where
  "cp_key c = (ic_factory_address c, ic_amm_address c)"

definition read_checkpoint :: "dbase \<Rightarrow> string \<times> string \<Rightarrow> int option" where
  "read_checkpoint db key = map_option ic_last_block (get_row cp_key key (d_checkpoints db))"

definition fresh_last_block :: "dbase \<Rightarrow> settings \<Rightarrow> int \<Rightarrow> int" where
  "fresh_last_block db s head =
     (if s_indexer_start_block s > 0 then s_indexer_start_block s - 1
      else if s_chain_id s = ANVIL_CHAIN_ID then 0
      else
        let behind_head = max 0 (head - s_indexer_lookback_blocks s) in
        case d_legacy_checkpoint db of
          Some legacy \<Rightarrow> if legacy > 0 then min legacy behind_head else behind_head
        | None \<Rightarrow> behind_head)"

definition load_checkpoint :: "ix_env \<Rightarrow> string \<times> string \<Rightarrow> int \<Rightarrow> int indexing" where
  "load_checkpoint V key head = do {
     db \<leftarrow> gets ix_db;
     (case read_checkpoint db key of
        Some current \<Rightarrow> State_Monad.return current
      | None \<Rightarrow> do {
          write_db (\<lambda>db. db\<lparr>d_checkpoints := insert_ignore cp_key
            \<lparr> ic_factory_address = fst key, ic_amm_address = snd key,
              ic_last_block = fresh_last_block db (x_settings V) head \<rparr> (d_checkpoints db)\<rparr>);
          commit;
          db' \<leftarrow> gets ix_db;
          State_Monad.return (case read_checkpoint db' key of None \<Rightarrow> 0 | Some stored \<Rightarrow> stored)
        })
   }"

definition advance_checkpoint :: "string \<times> string \<Rightarrow> int \<Rightarrow> int indexing" where
  "advance_checkpoint key block = do {
     write_db (\<lambda>db. db\<lparr>d_checkpoints := update_where (\<lambda>c. cp_key c = key \<and> ic_last_block c < block)
       (\<lambda>c. c\<lparr>ic_last_block := block\<rparr>) (d_checkpoints db)\<rparr>);
     commit;
     db \<leftarrow> gets ix_db;
     State_Monad.return (case read_checkpoint db key of None \<Rightarrow> 0 | Some stored \<Rightarrow> stored)
   }"

section \<open>Factory events\<close>

definition new_market :: "created_event \<Rightarrow> market" where
  "new_market e = \<lparr> m_condition_id = ce_condition_id e,
     m_parent_condition_id = (if ce_parent e = ''0x'' @ replicate 64 (CHR ''0'') then [] else ce_parent e),
     m_question = ce_question e, m_resolution_criteria = [], m_market_type = ce_market_type e,
     m_close_time = ce_close_time e, m_paused = False, m_resolved = False, m_payout_yes = 0, m_payout_no = 0,
     m_suggested_probability = 1 / 2 \<rparr>"

definition new_listing :: "created_event \<Rightarrow> int \<Rightarrow> market_listing" where
  "new_listing e now = \<lparr> l_condition_id = ce_condition_id e, l_creator = py_lower (ce_creator e), l_salt = [],
     l_question = ce_question e, l_resolution_criteria = [], l_criteria_hash = [],
     l_close_time = ce_close_time e, l_seed_usdc = 0, l_status = Indexed, l_reject_reason = [], l_created_at = now \<rparr>"

definition put_listing :: "market_listing \<Rightarrow> unit indexing" where
  "put_listing l = write_db (\<lambda>db. db\<lparr>d_listings := put_row l_condition_id l (d_listings db)\<rparr>)"

text \<open>The listing a verified commitment and a passed or failed review leave.\<close>

definition listing_rejected :: "string \<Rightarrow> market_listing \<Rightarrow> market_listing" where
  "listing_rejected reason l = l\<lparr>l_status := Rejected, l_reject_reason := take 256 reason\<rparr>"

definition listing_accepted :: "string \<Rightarrow> int \<Rightarrow> int \<Rightarrow> market_listing \<Rightarrow> market_listing" where
  "listing_accepted question close_time seed l =
     l\<lparr>l_question := question, l_close_time := close_time, l_seed_usdc := seed, l_status := ListingConfirmed,
       l_reject_reason := []\<rparr>"

definition index_user_listing :: "ix_env \<Rightarrow> created_event \<Rightarrow> unit indexing" where
  "index_user_listing V e = do {
     let cid = ce_condition_id e;
     now0 \<leftarrow> ask (x_clock V);
     write_db (\<lambda>db. db\<lparr>d_listings := insert_ignore l_condition_id (new_listing e now0) (d_listings db)\<rparr>);
     db \<leftarrow> gets ix_db;
     (case get_listing cid db of
        None \<Rightarrow> State_Monad.return ()
      | Some l \<Rightarrow>
          if l_status l = ListingConfirmed \<or> l_status l = Rejected then State_Monad.return ()
          else do {
            answer \<leftarrow> ask (x_commitments V cid);
            (case answer of
               None \<Rightarrow> State_Monad.return ()
             | Some (onchain_hash, seed) \<Rightarrow>
                 let criteria = py_strip (l_resolution_criteria l);
                     l1 = l\<lparr>l_criteria_hash := onchain_hash\<rparr> in
                 if \<not> (criteria \<noteq> [] \<and> x_keccak_text V criteria = onchain_hash)
                 then put_listing (if is_backend_prepared (Some l1) then l1 else l1\<lparr>l_seed_usdc := seed\<rparr>)
                 else do {
                   now \<leftarrow> ask (x_clock V);
                   (case review_user_listing db cid (Some l1) (ce_question e) (ce_close_time e) (Some seed) criteria now of
                      Some reason \<Rightarrow> put_listing (listing_rejected reason l1)
                    | None \<Rightarrow> do {
                        write_db (\<lambda>db. db\<lparr>d_markets := update_where (\<lambda>m. m_condition_id m = cid)
                          (\<lambda>m. m\<lparr>m_resolution_criteria := criteria\<rparr>) (d_markets db)\<rparr>);
                        put_listing (listing_accepted (ce_question e) (ce_close_time e) seed l1)
                      })
                 })
          })
   }"

fun index_factory_event :: "ix_env \<Rightarrow> factory_event \<Rightarrow> unit indexing" where
  "index_factory_event V (Created e) = do {
     write_db (\<lambda>db. db\<lparr>d_markets := insert_ignore m_condition_id (new_market e) (d_markets db)\<rparr>);
     (if ce_market_type e = MARKET_TYPE_USER then index_user_listing V e else State_Monad.return ())
   }"
| "index_factory_event V (Paused e) =
     write_db (\<lambda>db. db\<lparr>d_markets := update_where (\<lambda>m. m_condition_id m = pe_condition_id e)
       (\<lambda>m. m\<lparr>m_paused := pe_paused e\<rparr>) (d_markets db)\<rparr>)"

fun index_factory_events :: "ix_env \<Rightarrow> factory_event list \<Rightarrow> unit indexing" where
  "index_factory_events V [] = State_Monad.return ()"
| "index_factory_events V (e # es) = do { index_factory_event V e; index_factory_events V es }"

fun fe_pos :: "factory_event \<Rightarrow> int \<times> int" where
  "fe_pos (Created e) = (ce_block e, ce_log e)"
| "fe_pos (Paused e) = (pe_block e, pe_log e)"

section \<open>AMM events\<close>

definition ae_pos :: "amm_event \<Rightarrow> int \<times> int" where
  "ae_pos e = (ae_block e, ae_log e)"

definition point_key :: "price_point \<Rightarrow> string \<times> int \<times> int" where
  "point_key p = (pp_condition_id p, pp_block_number p, pp_log_index p)"

definition event_key :: "amm_event \<Rightarrow> string \<times> int \<times> int" where
  "event_key e = (ae_condition_id e, ae_block e, ae_log e)"

definition point_exists :: "dbase \<Rightarrow> string \<times> int \<times> int \<Rightarrow> bool" where
  "point_exists db k = list_ex (\<lambda>p. point_key p = k) (d_points db)"

definition insert_point :: "price_point \<Rightarrow> unit indexing" where
  "insert_point p = write_db (\<lambda>db. db\<lparr>
     d_points := insert_ignore point_key (p\<lparr>pp_id := d_next_point db\<rparr>) (d_points db),
     d_next_point := d_next_point db + 1\<rparr>)"

fun index_points :: "ix_env \<Rightarrow> amm_event list \<Rightarrow> bool indexing" where
  "index_points V [] = State_Monad.return True"
| "index_points V (e # es) = do {
     db \<leftarrow> gets ix_db;
     (if point_exists db (event_key e) then index_points V es
      else do {
        ts \<leftarrow> ask (x_timestamp V (ae_block e));
        (case ts of
           None \<Rightarrow> State_Monad.return False
         | Some t \<Rightarrow> do {
             price \<leftarrow> (if ae_swap e then do {
                 pool \<leftarrow> ask (x_pool V (ae_condition_id e) (ae_block e));
                 State_Monad.return (case pool of None \<Rightarrow> None | Some p \<Rightarrow> pool_price_micros (x_cdf_micros V) p)
               } else State_Monad.return (Some SEED_PRICE_MICROS));
             (case price of
                None \<Rightarrow> State_Monad.return False
              | Some p \<Rightarrow> do {
                  insert_point ((build_seed_point (ae_condition_id e) t (ae_block e) (ae_log e))
                    \<lparr>pp_yes_price_micros := p\<rparr>);
                  index_points V es
                })
           })
      })
   }"

definition index_amm_history :: "ix_env \<Rightarrow> int \<Rightarrow> int \<Rightarrow> bool indexing" where
  "index_amm_history V lo hi = do {
     seeded \<leftarrow> ask (x_seeded V lo hi);
     (case seeded of
        None \<Rightarrow> State_Monad.return False
      | Some ss \<Rightarrow> do {
          swaps \<leftarrow> ask (x_swaps V lo hi);
          (case swaps of
             None \<Rightarrow> State_Monad.return False
           | Some ws \<Rightarrow> index_points V (sort_key ae_pos (ss @ ws)))
        })
   }"

section \<open>A range, a tick, the loop\<close>

definition index_range :: "ix_env \<Rightarrow> bool \<Rightarrow> int \<Rightarrow> int \<Rightarrow> bool indexing" where
  "index_range V amm lo hi = do {
     created \<leftarrow> ask (x_created V lo hi);
     (case created of
        None \<Rightarrow> State_Monad.return False
      | Some cs \<Rightarrow> do {
          paused \<leftarrow> ask (x_paused V lo hi);
          (case paused of
             None \<Rightarrow> State_Monad.return False
           | Some ps \<Rightarrow> do {
               index_factory_events V (sort_key fe_pos (map Created cs @ map Paused ps));
               (if \<not> amm then State_Monad.return True
                else do {
                  ok \<leftarrow> index_amm_history V lo hi;
                  (if ok then State_Monad.return True else do { commit; State_Monad.return False })
                })
             })
        })
   }"

fun index_chunks :: "ix_env \<Rightarrow> bool \<Rightarrow> string \<times> string \<Rightarrow> (int \<times> int) list \<Rightarrow> bool indexing" where
  "index_chunks V amm key [] = State_Monad.return True"
| "index_chunks V amm key ((lo, hi) # rest) = do {
     ok \<leftarrow> index_range V amm lo hi;
     (if \<not> ok then do {
        modify (\<lambda>st. st\<lparr>ix_range := Some (max (s_indexer_min_block_range (x_settings V)) ((hi - lo + 1) div 2))\<rparr>);
        advance_checkpoint key (lo - 1);
        State_Monad.return False
      } else do {
        advance_checkpoint key hi;
        index_chunks V amm key rest
      })
   }"

definition index_session :: "ix_env \<Rightarrow> bool \<Rightarrow> string \<times> string \<Rightarrow> int \<Rightarrow> bool indexing" where
  "index_session V amm key head = do {
     let s = x_settings V;
     open_session;
     last_block \<leftarrow> load_checkpoint V key head;
     range \<leftarrow> gets ix_range;
     let start = resolve_start_block last_block (s_indexer_start_block s) head (s_chain_id s) (s_indexer_lookback_blocks s);
     let window = (case range of None \<Rightarrow> s_indexer_max_block_range s
                   | Some w \<Rightarrow> if w = 0 then s_indexer_max_block_range s else w);
     ok \<leftarrow> index_chunks V amm key (plan_ranges start head window (s_indexer_max_chunks_per_tick s));
     (if ok then do {
        modify (\<lambda>st. st\<lparr>ix_range := Some (min (s_indexer_max_block_range s) (window * 2))\<rparr>);
        State_Monad.return True
      } else State_Monad.return False)
   }"

text \<open>\<open>None\<close> where the tick raises.\<close>

definition index_once :: "ix_env \<Rightarrow> bool option indexing" where
  "index_once V =
     (case x_addresses V of
        None \<Rightarrow> State_Monad.return (Some True)
      | Some addresses \<Rightarrow>
          if addresses ''MarketFactory'' = None then State_Monad.return (Some True)
          else do {
            leader \<leftarrow> ensure_indexer_leader V;
            (case leader of
               None \<Rightarrow> State_Monad.return None
             | Some l \<Rightarrow>
                 if \<not> l \<or> \<not> x_factory_abi V then State_Monad.return (Some True)
                 else do {
                   head \<leftarrow> ask (x_head V);
                   (case head of
                      None \<Rightarrow> State_Monad.return (Some False)
                    | Some h \<Rightarrow> do {
                        ok \<leftarrow> index_session V (addresses ''MarketAMM'' \<noteq> None \<and> x_amm_abi V)
                          (checkpoint_key addresses) h;
                        State_Monad.return (Some ok)
                      })
                 })
          })"

text \<open>
  \<open>n\<close> turns of \<open>run_indexer_loop\<close>: the delays slept. \<open>others k\<close> is what the other writers of the
  database commit before turn \<open>k\<close>, while the loop sleeps.
\<close>

fun run_indexer_loop :: "ix_env \<Rightarrow> (nat \<Rightarrow> dbase \<Rightarrow> dbase) \<Rightarrow> nat \<Rightarrow> nat \<Rightarrow> rat list indexing" where
  "run_indexer_loop V others failures 0 = State_Monad.return []"
| "run_indexer_loop V others failures (Suc n) = do {
     modify (\<lambda>st. st\<lparr>ix_saved := others 0 (ix_saved st)\<rparr>);
     ok \<leftarrow> index_once V;
     let failures' = (if ok = Some True then 0 else failures + 1);
     delays \<leftarrow> run_indexer_loop V (\<lambda>k. others (Suc k)) failures' n;
     State_Monad.return (next_delay (s_indexer_interval_seconds (x_settings V)) failures'
       (s_indexer_max_backoff_seconds (x_settings V)) # delays)
   }"

end
