(* ===== verification/Index_Safety.thy ===== *)
theory Index_Safety
  imports Indexer
begin

text \<open>
  What the indexer guarantees: a checkpoint never moves past a block whose events are not recorded, the
  price history is append-only with one point per event, and against a node that answers small enough
  ranges the loop reaches the head of the chain.
\<close>

section \<open>Running a computation\<close>

lemma run_ask [simp]: "run_state (ask f) st = (f (ix_calls st), st\<lparr>ix_calls := Suc (ix_calls st)\<rparr>)"
  by (simp add: ask_def)

lemma run_gets [simp]: "run_state (gets f) st = (f st, st)"
  by (simp add: gets_def)

lemma run_modify [simp]: "run_state (modify f) st = ((), f st)"
  by (simp add: modify_def)

lemma run_write_db [simp]: "run_state (write_db f) st = ((), st\<lparr>ix_db := f (ix_db st)\<rparr>)"
  by (simp add: write_db_def)

lemma run_commit [simp]: "run_state commit st = ((), st\<lparr>ix_saved := ix_db st\<rparr>)"
  by (simp add: commit_def)

lemma run_open_session [simp]: "run_state open_session st = ((), st\<lparr>ix_db := ix_saved st\<rparr>)"
  by (simp add: open_session_def)

text \<open>A relation between the session's database before and after a computation.\<close>

definition on_db :: "(dbase \<Rightarrow> dbase \<Rightarrow> bool) \<Rightarrow> ix \<Rightarrow> ix \<Rightarrow> bool" where
  "on_db D st st' = D (ix_db st) (ix_db st')"

lemma on_dbD: "state_io_rel (on_db D) m \<Longrightarrow> run_state m st = (x, st') \<Longrightarrow> D (ix_db st) (ix_db st')"
  using state_io_relD [of "on_db D" m st x st'] by (simp add: on_db_def)

text \<open>
  What the indexing of one range may rely on: a preorder on databases that each of its writes respects.
  Then every range respects it, whatever the node answers.
\<close>

locale range_order =
  fixes D :: "dbase \<Rightarrow> dbase \<Rightarrow> bool" and V :: ix_env
  assumes refl: "D db db" and trans: "D a b \<Longrightarrow> D b c \<Longrightarrow> D a c"
    and market_insert: "D db (db\<lparr>d_markets := insert_ignore m_condition_id (new_market e) (d_markets db)\<rparr>)"
    and market_paused: "D db (db\<lparr>d_markets := update_where (\<lambda>m. m_condition_id m = cid) (\<lambda>m. m\<lparr>m_paused := flag\<rparr>) (d_markets db)\<rparr>)"
    and user_listing: "run_state (index_user_listing V e) st = (u, st') \<Longrightarrow>
       ce_condition_id e \<in> m_condition_id ` set (d_markets (ix_db st)) \<Longrightarrow> D (ix_db st) (ix_db st')"
    and point_insert: "D db (db\<lparr>d_points := insert_ignore point_key (p\<lparr>pp_id := d_next_point db\<rparr>) (d_points db),
       d_next_point := d_next_point db + 1\<rparr>)"
begin

lemma ok_return: "state_io_rel (on_db D) (State_Monad.return x)"
  by (rule state_io_relI) (simp add: on_db_def refl)

lemma steps_ask: "state_io_rel (on_db D) (ask f)"
  by (rule state_io_relI) (auto simp: on_db_def refl)

lemma ok_gets: "state_io_rel (on_db D) (gets f)"
  by (rule state_io_relI) (simp add: on_db_def refl)

lemma ok_commit: "state_io_rel (on_db D) commit"
  by (rule state_io_relI) (auto simp: on_db_def refl)

lemma ok_write: "(\<And>db. D db (f db)) \<Longrightarrow> state_io_rel (on_db D) (write_db f)"
  by (rule state_io_relI) (auto simp: on_db_def)

lemma ok_bind:
  "state_io_rel (on_db D) m \<Longrightarrow> (\<And>x. state_io_rel (on_db D) (f x)) \<Longrightarrow> state_io_rel (on_db D) (State_Monad.bind m f)"
  by (rule state_io_relI) (auto simp: on_db_def split: prod.splits dest!: on_dbD intro: trans)

lemma steps_if: "state_io_rel (on_db D) m \<Longrightarrow> state_io_rel (on_db D) n \<Longrightarrow> state_io_rel (on_db D) (if b then m else n)"
  by simp

lemma steps_option:
  "state_io_rel (on_db D) m \<Longrightarrow> (\<And>x. state_io_rel (on_db D) (f x)) \<Longrightarrow>
     state_io_rel (on_db D) (case z of None \<Rightarrow> m | Some x \<Rightarrow> f x)"
  by (simp split: option.splits)

lemmas ok = ok_return steps_ask ok_gets ok_commit ok_bind steps_if steps_option

lemma ok_created: "state_io_rel (on_db D) (index_factory_event V (Created e))"
proof (rule state_io_relI)
  fix u st st'
  assume run: "run_state (index_factory_event V (Created e)) st = (u, st')"
  let ?st0 = "st\<lparr>ix_db := (ix_db st)\<lparr>d_markets := insert_ignore m_condition_id (new_market e) (d_markets (ix_db st))\<rparr>\<rparr>"
  have "D (ix_db st) (ix_db ?st0)" using market_insert by simp
  moreover have "ce_condition_id e \<in> m_condition_id ` set (d_markets (ix_db ?st0))"
    by (simp add: keys_insert_ignore) (simp add: new_market_def)
  then have "D (ix_db ?st0) (ix_db st')"
    using run user_listing [of e ?st0] by (auto simp: refl split: if_splits)
  ultimately show "on_db D st st'" using trans by (auto simp: on_db_def)
qed

lemma ok_factory_events: "state_io_rel (on_db D) (index_factory_events V es)"
proof (induction es)
  case Nil
  then show ?case by (simp add: ok_return)
next
  case (Cons e es)
  have "state_io_rel (on_db D) (index_factory_event V e)"
    by (cases e) (simp_all only: ok_created, auto intro!: ok_write market_paused)
  with Cons show ?case by (simp add: ok_bind)
qed

lemma ok_points: "state_io_rel (on_db D) (index_points V es)"
proof (induction es)
  case Nil
  then show ?case by (simp add: ok_return)
next
  case (Cons e es)
  show ?case
    by (auto intro!: ok ok_write point_insert Cons simp: insert_point_def Let_def)
qed

lemma ok_range: "state_io_rel (on_db D) (index_range V amm lo hi)"
  unfolding index_range_def index_amm_history_def
  by (intro ok ok_factory_events ok_points)

end

section \<open>What a range leaves and adds\<close>

text \<open>Points and markets are only added, at most one point per event, and the checkpoints are left alone.\<close>

definition grows :: "dbase \<Rightarrow> dbase \<Rightarrow> bool" where
  "grows db db' = (prefix (d_points db) (d_points db') \<and>
     (distinct (map point_key (d_points db)) \<longrightarrow> distinct (map point_key (d_points db'))) \<and>
     m_condition_id ` set (d_markets db) \<subseteq> m_condition_id ` set (d_markets db') \<and>
     d_checkpoints db' = d_checkpoints db)"

lemma grows_refl: "grows db db"
  by (simp add: grows_def)

lemma grows_trans: "grows a b \<Longrightarrow> grows b c \<Longrightarrow> grows a c"
  by (auto simp: grows_def intro: prefix_order.trans)

lemma update_where_keys:
  "(\<And>r. key (f r) = key r) \<Longrightarrow> key ` set (update_where P f rows) = key ` set rows"
  using map_update_where [of P key f rows] by (metis list.set_map)

lemma grows_user_listing:
  assumes "run_state (index_user_listing V e) st = (u, st')"
  shows "grows (ix_db st) (ix_db st')"
proof -
  from assms have "d_points (ix_db st') = d_points (ix_db st) \<and> d_checkpoints (ix_db st') = d_checkpoints (ix_db st) \<and>
      map m_condition_id (d_markets (ix_db st')) = map m_condition_id (d_markets (ix_db st))"
    by (auto simp: index_user_listing_def put_listing_def Let_def map_update_where split: option.splits if_splits)
  then have "d_points (ix_db st') = d_points (ix_db st)" "d_checkpoints (ix_db st') = d_checkpoints (ix_db st)"
    "m_condition_id ` set (d_markets (ix_db st')) = m_condition_id ` set (d_markets (ix_db st))"
    by (simp_all) (metis list.set_map)
  then show ?thesis by (simp add: grows_def)
qed

interpretation grows: range_order grows V for V
proof
  show "grows db db" for db by (rule grows_refl)
  show "grows a c" if "grows a b" "grows b c" for a b c using that by (rule grows_trans)
  show "grows db (db\<lparr>d_markets := insert_ignore m_condition_id (new_market e) (d_markets db)\<rparr>)" for db e
    using set_insert_ignore(1) [of "d_markets db"] by (auto simp: grows_def)
  show "grows db (db\<lparr>d_markets := update_where (\<lambda>m. m_condition_id m = cid) (\<lambda>m. m\<lparr>m_paused := flag\<rparr>) (d_markets db)\<rparr>)"
    for db cid flag by (simp add: grows_def update_where_keys)
  show "grows (ix_db st) (ix_db st')" if "run_state (index_user_listing V e) st = (u, st')" for e st u st'
    using that by (rule grows_user_listing)
  show "grows db (db\<lparr>d_points := insert_ignore point_key (p\<lparr>pp_id := d_next_point db\<rparr>) (d_points db),
      d_next_point := d_next_point db + 1\<rparr>)" for db p
    by (auto simp: grows_def insert_ignore_distinct) (simp add: insert_ignore_def)
qed

section \<open>What a successful range recorded\<close>

text \<open>The events that happened on the chain, and a node that leaves none out of an answer.\<close>

record chain_history =
  h_amm :: "amm_event list"
  h_created :: "created_event list"

definition in_range :: "int \<Rightarrow> int \<Rightarrow> int \<Rightarrow> bool" where
  "in_range lo hi b = (lo \<le> b \<and> b \<le> hi)"


text \<open>Every event of the blocks \<open>base..till\<close> is in the database.\<close>

definition recorded :: "chain_history \<Rightarrow> int \<Rightarrow> int \<Rightarrow> dbase \<Rightarrow> bool" where
  "recorded h base till db =
     ((\<forall>e \<in> set (h_amm h). in_range base till (ae_block e) \<longrightarrow> event_key e \<in> point_key ` set (d_points db)) \<and>
      (\<forall>e \<in> set (h_created h). in_range base till (ce_block e) \<longrightarrow> ce_condition_id e \<in> m_condition_id ` set (d_markets db)))"



lemma recorded_less: "recorded h base till db \<Longrightarrow> till' \<le> till \<Longrightarrow> recorded h base till' db"
  by (auto simp: recorded_def in_range_def)





section \<open>Windows\<close>




lemma plan_from_within:
  "1 \<le> max_range \<Longrightarrow> (lo, hi) \<in> set (plan_from n start end_block max_range) \<Longrightarrow>
     hi - lo + 1 \<le> max_range \<and> hi \<le> end_block \<and> start \<le> lo"
  by (induction n arbitrary: start) (fastforce simp: Let_def split: if_splits)+

lemma plan_ranges_within:
  "(lo, hi) \<in> set (plan_ranges start end_block max_range n) \<Longrightarrow> hi - lo + 1 \<le> max_range \<and> hi \<le> end_block \<and> start \<le> lo"
  using plan_from_within [of max_range lo hi n start end_block] by (simp add: plan_ranges_def split: if_splits)

section \<open>Checkpoints\<close>

lemma read_advance:
  "read_checkpoint (db\<lparr>d_checkpoints := update_where (\<lambda>c. cp_key c = key \<and> ic_last_block c < block)
     (\<lambda>c. c\<lparr>ic_last_block := block\<rparr>) (d_checkpoints db)\<rparr>) key = map_option (max block) (read_checkpoint db key)"
proof (cases "get_row cp_key key (d_checkpoints db)")
  case (Some c)
  then show ?thesis using get_row_Some [OF Some] by (simp add: read_checkpoint_def get_row_update_where cp_key_def)
qed (simp add: read_checkpoint_def get_row_update_where cp_key_def)

lemma run_advance_checkpoint:
  "run_state (advance_checkpoint key block) st =
     (let db = (ix_db st)\<lparr>d_checkpoints := update_where (\<lambda>c. cp_key c = key \<and> ic_last_block c < block)
            (\<lambda>c. c\<lparr>ic_last_block := block\<rparr>) (d_checkpoints (ix_db st))\<rparr>
      in (case read_checkpoint db key of None \<Rightarrow> 0 | Some stored \<Rightarrow> stored, st\<lparr>ix_db := db, ix_saved := db\<rparr>))"
  by (simp add: advance_checkpoint_def Let_def)

lemma grows_read: "grows db db' \<Longrightarrow> read_checkpoint db' key = read_checkpoint db key"
  by (simp add: grows_def read_checkpoint_def)





text \<open>A tick either leaves the committed database alone or runs one session on it.\<close>

lemma once_cases:
  assumes run: "run_state (index_once V) st = (res, st')"
  obtains (idle) "ix_saved st' = ix_saved st"
  | (session) addresses head st1 ok where "x_addresses V = Some addresses" and "ix_saved st1 = ix_saved st"
      and "run_state (index_session V (addresses ''MarketAMM'' \<noteq> None \<and> x_amm_abi V) (checkpoint_key addresses) head) st1 = (ok, st')"
proof -
  obtain l st1 where l: "run_state (ensure_indexer_leader V) st = (l, st1)" by (metis prod.exhaust)
  then have saved: "ix_saved st1 = ix_saved st"
    by (auto simp: ensure_indexer_leader_def Let_def split: if_splits)
  let ?st2 = "st1\<lparr>ix_calls := Suc (ix_calls st1)\<rparr>"
  have "ix_saved st' = ix_saved st \<or> (\<exists>addresses head ok. x_addresses V = Some addresses \<and>
      run_state (index_session V (addresses ''MarketAMM'' \<noteq> None \<and> x_amm_abi V) (checkpoint_key addresses) head) ?st2 = (ok, st'))"
    using run l saved by (auto simp: index_once_def split: option.splits if_splits prod.splits)
  moreover have "ix_saved ?st2 = ix_saved st" using saved by simp
  ultimately show ?thesis using idle session by blast
qed



section \<open>Progress\<close>

text \<open>A node with a constant head that answers every range of at most \<open>w\<close> blocks, and every read it needs.\<close>

definition answers_small :: "ix_env \<Rightarrow> int \<Rightarrow> int \<Rightarrow> bool" where
  "answers_small V w head =
     ((\<forall>k. x_head V k = Some head) \<and>
      (\<forall>lo hi k. hi - lo + 1 \<le> w \<longrightarrow> x_created V lo hi k \<noteq> None \<and> x_paused V lo hi k \<noteq> None \<and>
         x_seeded V lo hi k \<noteq> None \<and> x_swaps V lo hi k \<noteq> None) \<and>
      (\<forall>b k. x_timestamp V b k \<noteq> None) \<and>
      (\<forall>cid b k. \<exists>yes no rest. x_pool V cid b k = Some (yes # no # rest)))"

lemma answers_range:
  assumes "answers_small V w head" and "hi - lo + 1 \<le> w"
  obtains cs ps ss ws where "x_created V lo hi k = Some cs" and "x_paused V lo hi k = Some ps"
    and "x_seeded V lo hi k = Some ss" and "x_swaps V lo hi k = Some ws"
  using assms unfolding answers_small_def by (meson not_None_eq)

lemma answers_event:
  assumes "answers_small V w head"
  obtains t yes no rest where "x_timestamp V b k = Some t" and "x_pool V cid b k' = Some (yes # no # rest)"
  using assms unfolding answers_small_def by (meson not_None_eq)

lemma points_answered: "answers_small V w head \<Longrightarrow> fst (run_state (index_points V es) st)"
proof (induction es arbitrary: st)
  case (Cons e es)
  obtain t yes no rest where "x_timestamp V (ae_block e) (ix_calls st) = Some t"
    "x_pool V (ae_condition_id e) (ae_block e) (Suc (ix_calls st)) = Some (yes # no # rest)"
    by (rule answers_event [OF Cons.prems])
  with Cons show ?case by (simp add: insert_point_def pool_price_micros_def)
qed simp

lemma amm_answered:
  assumes "answers_small V w head" and "hi - lo + 1 \<le> w"
  shows "fst (run_state (index_amm_history V lo hi) st)"
proof -
  obtain cs ps ss where "x_seeded V lo hi (ix_calls st) = Some ss" by (rule answers_range [OF assms])
  moreover obtain cs ps ss ws where "x_swaps V lo hi (Suc (ix_calls st)) = Some ws" by (rule answers_range [OF assms])
  ultimately show ?thesis using points_answered [OF assms(1)] by (simp add: index_amm_history_def)
qed

lemma range_answered:
  assumes "answers_small V w head" and "hi - lo + 1 \<le> w"
  shows "fst (run_state (index_range V amm lo hi) st)"
proof -
  obtain cs where "x_created V lo hi (ix_calls st) = Some cs" by (rule answers_range [OF assms])
  moreover obtain cs ps where "x_paused V lo hi (Suc (ix_calls st)) = Some ps" by (rule answers_range [OF assms])
  ultimately show ?thesis
    using amm_answered [OF assms] by (auto simp: index_range_def split: prod.splits) (metis fst_conv)
qed

lemma read_mono_advance:
  "read_checkpoint (ix_db st) key = Some c \<Longrightarrow> run_state (advance_checkpoint key block) st = (x, st') \<Longrightarrow>
     read_checkpoint (ix_db st') key = Some (max block c) \<and> ix_saved st' = ix_db st' \<and> ix_range st' = ix_range st"
  by (auto simp: run_advance_checkpoint Let_def read_advance)

lemma range_read: "run_state (index_range V amm lo hi) st = (ok, st') \<Longrightarrow>
    read_checkpoint (ix_db st') key = read_checkpoint (ix_db st) key"
  by (rule grows_read [OF on_dbD [OF grows.ok_range]])

lemma chunks_read:
  "run_state (index_chunks V amm key ranges) st = (ok, st') \<Longrightarrow> read_checkpoint (ix_db st) key = Some c \<Longrightarrow>
     ix_saved st = ix_db st \<Longrightarrow> \<exists>c'. read_checkpoint (ix_saved st') key = Some c' \<and> c \<le> c'"
proof (induction ranges arbitrary: st c)
  case (Cons r ranges)
  obtain lo hi where r: "r = (lo, hi)" by (cases r)
  obtain good st1 where run: "run_state (index_range V amm lo hi) st = (good, st1)" by (metis prod.exhaust)
  then have c: "read_checkpoint (ix_db st1) key = Some c" using Cons.prems(2) range_read by metis
  show ?case
  proof (cases good)
    case False
    then show ?thesis using Cons.prems(1) run c by (auto simp: r run_advance_checkpoint Let_def read_advance)
  next
    case True
    obtain x st2 where adv: "run_state (advance_checkpoint key hi) st1 = (x, st2)" by (metis prod.exhaust)
    have "run_state (index_chunks V amm key ranges) st2 = (ok, st')" using Cons.prems(1) run True adv by (simp add: r)
    from Cons.IH [OF this, of "max hi c"] read_mono_advance [OF c adv] show ?thesis by auto
  qed
qed auto

text \<open>A tick with a window to read moves the checkpoint, or leaves a smaller window for the next one.\<close>

lemma chunks_progress:
  assumes node: "answers_small V minr head" and minr: "minr = s_indexer_min_block_range (x_settings V)" "1 \<le> minr"
    and run: "run_state (index_chunks V amm key ((lo, hi) # ranges)) st = (ok, st')"
    and c: "read_checkpoint (ix_db st) key = Some c" "ix_saved st = ix_db st" "c < lo" and lo: "lo \<le> hi"
  shows "\<exists>c'. read_checkpoint (ix_saved st') key = Some c' \<and> c \<le> c' \<and>
    (c < c' \<or> \<not> ok \<and> (\<exists>w. ix_range st' = Some w \<and> 1 \<le> w \<and> w < hi - lo + 1))"
proof -
  obtain good st1 where r: "run_state (index_range V amm lo hi) st = (good, st1)" by (metis prod.exhaust)
  then have c1: "read_checkpoint (ix_db st1) key = Some c" using c(1) range_read by metis
  show ?thesis
  proof (cases good)
    case False
    then have "minr < hi - lo + 1" using range_answered [OF node, of hi lo amm st] r by (metis fst_conv not_le)
    then have "max minr ((hi - lo + 1) div 2) < hi - lo + 1" "1 \<le> max minr ((hi - lo + 1) div 2)" using minr lo by auto
    then show ?thesis
      using run r False c1 minr by (auto simp: run_advance_checkpoint Let_def read_advance)
  next
    case True
    obtain x st2 where adv: "run_state (advance_checkpoint key hi) st1 = (x, st2)" by (metis prod.exhaust)
    have "run_state (index_chunks V amm key ranges) st2 = (ok, st')" using run r True adv by simp
    from chunks_read [OF this, of "max hi c"] read_mono_advance [OF c1 adv] c(3) lo show ?thesis by fastforce
  qed
qed

lemma chunks_window:
  "1 \<le> s_indexer_min_block_range (x_settings V) \<Longrightarrow> run_state (index_chunks V amm key ranges) st = (ok, st') \<Longrightarrow>
     \<not> ok \<Longrightarrow> \<exists>w. ix_range st' = Some w \<and> 1 \<le> w"
proof (induction ranges arbitrary: st)
  case (Cons r ranges)
  obtain lo hi where r: "r = (lo, hi)" by (cases r)
  obtain good st1 where run: "run_state (index_range V amm lo hi) st = (good, st1)" by (metis prod.exhaust)
  obtain x st2 where adv: "run_state (advance_checkpoint key hi) st1 = (x, st2)" by (metis prod.exhaust)
  show ?case
  proof (cases good)
    case False
    then show ?thesis using Cons.prems run by (auto simp: r run_advance_checkpoint Let_def)
  next
    case True
    then have "run_state (index_chunks V amm key ranges) st2 = (ok, st')" using Cons.prems(2) run adv by (simp add: r)
    with Cons show ?thesis by blast
  qed
qed auto

text \<open>The window the next tick starts with.\<close>

definition window_of :: "ix_env \<Rightarrow> ix \<Rightarrow> int" where
  "window_of V st = (case ix_range st of None \<Rightarrow> s_indexer_max_block_range (x_settings V)
    | Some w \<Rightarrow> if w = 0 then s_indexer_max_block_range (x_settings V) else w)"

text \<open>Settings with which the loop can move: something to read, and a window to read it in.\<close>

definition indexes_to :: "ix_env \<Rightarrow> int \<Rightarrow> bool" where
  "indexes_to V head =
     (let s = x_settings V in 1 \<le> head \<and> s_indexer_start_block s \<le> head \<and> 1 \<le> s_indexer_lookback_blocks s \<and>
      1 \<le> s_indexer_max_chunks_per_tick s \<and> 1 \<le> s_indexer_min_block_range s \<and> 1 \<le> s_indexer_max_block_range s \<and>
      answers_small V (s_indexer_min_block_range s) head)"

lemma start_reachable:
  assumes "c < head" and "1 \<le> head" and "low \<le> head" and "1 \<le> lookback"
  shows "c < resolve_start_block c low head chain lookback" and "resolve_start_block c low head chain lookback \<le> head"
  using assms by (auto simp: resolve_start_block_def Let_def)

lemma session_progress:
  assumes V: "indexes_to V head" and run: "run_state (index_session V amm key head) st = (ok, st')"
    and c: "read_checkpoint (ix_saved st) key = Some c" "c < head" and w: "1 \<le> window_of V st"
  shows "\<exists>c'. read_checkpoint (ix_saved st') key = Some c' \<and> c \<le> c' \<and> 1 \<le> window_of V st' \<and>
    (c < c' \<or> window_of V st' < window_of V st)"
proof -
  let ?s = "x_settings V"
  let ?w = "window_of V st"
  let ?start = "resolve_start_block c (s_indexer_start_block ?s) head (s_chain_id ?s) (s_indexer_lookback_blocks ?s)"
  let ?hi = "min (?start + ?w - 1) head"
  let ?st0 = "st\<lparr>ix_db := ix_saved st\<rparr>"
  have node: "answers_small V (s_indexer_min_block_range ?s) head" and minr: "1 \<le> s_indexer_min_block_range ?s"
    and maxr: "1 \<le> s_indexer_max_block_range ?s" using V by (simp_all add: indexes_to_def Let_def)
  have start: "c < ?start" "?start \<le> head" using start_reachable [of c head] V c(2) by (simp_all add: indexes_to_def Let_def)
  obtain n where n: "s_indexer_max_chunks_per_tick ?s = Suc n"
    using V by (cases "s_indexer_max_chunks_per_tick ?s") (auto simp: indexes_to_def Let_def)
  then obtain ranges where plan: "plan_ranges ?start head ?w (s_indexer_max_chunks_per_tick ?s) = (?start, ?hi) # ranges"
    using start w by (simp add: plan_ranges_def Let_def)
  obtain ok1 st1 where chunks: "run_state (index_chunks V amm key ((?start, ?hi) # ranges)) ?st0 = (ok1, st1)"
    by (metis prod.exhaust)
  have st': "st' = (if ok1 then st1\<lparr>ix_range := Some (min (s_indexer_max_block_range ?s) (?w * 2))\<rparr> else st1)"
    using run chunks plan c(1)
    by (auto simp: index_session_def load_checkpoint_def Let_def window_of_def simp del: index_chunks.simps plan_from.simps
        split: if_splits option.splits)
  have "\<exists>c'. read_checkpoint (ix_saved st1) key = Some c' \<and> c \<le> c' \<and>
      (c < c' \<or> \<not> ok1 \<and> (\<exists>w. ix_range st1 = Some w \<and> 1 \<le> w \<and> w < ?hi - ?start + 1))"
    using start w c(1) by (intro chunks_progress [OF node refl minr chunks]) simp_all
  moreover have "\<not> ok1 \<Longrightarrow> \<exists>w. ix_range st1 = Some w \<and> 1 \<le> w"
    using chunks_window [OF minr chunks] by blast
  ultimately show ?thesis using st' w maxr by (auto simp: window_of_def split: if_splits)
qed

text \<open>A process that finds addresses and ABIs, and gets the advisory lock whenever it asks.\<close>

definition indexes :: "ix_env \<Rightarrow> (string \<Rightarrow> string option) \<Rightarrow> bool" where
  "indexes V addresses = (x_addresses V = Some addresses \<and> addresses ''MarketFactory'' \<noteq> None \<and> x_factory_abi V \<and>
     (x_postgres V \<longrightarrow> (\<forall>k. x_try_lock V k = Some True)))"

lemma leader_granted:
  assumes "indexes V addresses"
  obtains st1 where "run_state (ensure_indexer_leader V) st = (Some True, st1)"
    and "ix_saved st1 = ix_saved st" and "ix_range st1 = ix_range st"
proof -
  have got: "x_postgres V \<Longrightarrow> x_try_lock V k = Some True" for k using assms by (simp add: indexes_def)
  have "fst (run_state (ensure_indexer_leader V) st) = Some True \<and>
      ix_saved (snd (run_state (ensure_indexer_leader V) st)) = ix_saved st \<and>
      ix_range (snd (run_state (ensure_indexer_leader V) st)) = ix_range st"
    by (cases "x_postgres V"; cases "ix_leader st"; cases "x_ping V (ix_calls st)")
       (simp_all add: ensure_indexer_leader_def got)
  then show ?thesis by (metis prod.collapse that)
qed

lemma once_progress:
  assumes V: "indexes_to V head" "indexes V addresses" and run: "run_state (index_once V) st = (res, st')"
    and c: "read_checkpoint (ix_saved st) (checkpoint_key addresses) = Some c" "c < head" and w: "1 \<le> window_of V st"
  shows "\<exists>c'. read_checkpoint (ix_saved st') (checkpoint_key addresses) = Some c' \<and> c \<le> c' \<and> 1 \<le> window_of V st' \<and>
    (c < c' \<or> window_of V st' < window_of V st)"
proof -
  obtain st1 where l: "run_state (ensure_indexer_leader V) st = (Some True, st1)"
    and same: "ix_saved st1 = ix_saved st" "ix_range st1 = ix_range st" by (rule leader_granted [OF V(2)])
  have hd: "x_head V (ix_calls st1) = Some head" using V(1) by (simp add: indexes_to_def Let_def answers_small_def)
  let ?st2 = "st1\<lparr>ix_calls := Suc (ix_calls st1)\<rparr>"
  obtain ok st3 where s: "run_state (index_session V (addresses ''MarketAMM'' \<noteq> None \<and> x_amm_abi V)
      (checkpoint_key addresses) head) ?st2 = (ok, st3)" by (metis prod.exhaust)
  have "st' = st3" using run l hd s V(2) by (auto simp: index_once_def indexes_def)
  moreover have "window_of V ?st2 = window_of V st" using same by (simp add: window_of_def)
  ultimately show ?thesis using session_progress [OF V(1) s, of c] same c w by simp
qed

definition others_advance :: "string \<times> string \<Rightarrow> (nat \<Rightarrow> dbase \<Rightarrow> dbase) \<Rightarrow> bool" where
  "others_advance key others =
     (\<forall>n db c. read_checkpoint db key = Some c \<longrightarrow> (\<exists>c'. read_checkpoint (others n db) key = Some c' \<and> c \<le> c'))"

lemma session_read:
  assumes run: "run_state (index_session V amm key head) st = (ok, st')"
    and c: "read_checkpoint (ix_saved st) key = Some c"
  shows "\<exists>c'. read_checkpoint (ix_saved st') key = Some c' \<and> c \<le> c'"
proof -
  obtain ranges ok1 st1 where chunks: "run_state (index_chunks V amm key ranges) (st\<lparr>ix_db := ix_saved st\<rparr>) = (ok1, st1)"
    and "ix_saved st' = ix_saved st1"
    using run c by (auto simp: index_session_def load_checkpoint_def Let_def split: if_splits prod.splits)
  with chunks_read [OF chunks] c show ?thesis by simp
qed

lemma once_read:
  assumes run: "run_state (index_once V) st = (res, st')" and V: "x_addresses V = Some addresses"
    and c: "read_checkpoint (ix_saved st) (checkpoint_key addresses) = Some c"
  shows "\<exists>c'. read_checkpoint (ix_saved st') (checkpoint_key addresses) = Some c' \<and> c \<le> c'"
  using run
proof (cases rule: once_cases)
  case idle
  with c show ?thesis by simp
next
  case (session addresses' head st1 ok)
  then show ?thesis using session_read [OF session(3)] c V by simp
qed

text \<open>
  A range order that the checkpoint writes respect too is one between the committed databases before and
  after a whole tick.
\<close>

locale saved_order = range_order +
  assumes checkpoints: "D db (db\<lparr>d_checkpoints := cs\<rparr>)"
begin

lemma chunks_saved:
  "run_state (index_chunks V amm key ranges) st = (ok, st') \<Longrightarrow> ix_saved st = ix_db st \<Longrightarrow> D (ix_saved st) (ix_saved st')"
proof (induction ranges arbitrary: st)
  case Nil
  then show ?case by (simp add: refl)
next
  case (Cons r ranges)
  obtain lo hi where r: "r = (lo, hi)" by (cases r)
  obtain good st1 where run: "run_state (index_range V amm lo hi) st = (good, st1)" by (metis prod.exhaust)
  have g: "D (ix_saved st) ((ix_db st1)\<lparr>d_checkpoints := cs\<rparr>)" for cs
    using on_dbD [OF ok_range run] checkpoints Cons.prems(2) trans by metis
  show ?case
  proof (cases good)
    case False
    then show ?thesis using Cons.prems(1) run g by (auto simp: r run_advance_checkpoint Let_def)
  next
    case True
    obtain x st2 where adv: "run_state (advance_checkpoint key hi) st1 = (x, st2)" by (metis prod.exhaust)
    then have st2: "ix_saved st2 = ix_db st2" "D (ix_saved st) (ix_saved st2)"
      using g by (auto simp: run_advance_checkpoint Let_def)
    have "run_state (index_chunks V amm key ranges) st2 = (ok, st')" using Cons.prems(1) run True adv by (simp add: r)
    from trans [OF st2(2) Cons.IH [OF this st2(1)]] show ?thesis .
  qed
qed

lemma session_saved:
  assumes run: "run_state (index_session V amm key head) st = (ok, st')"
  shows "D (ix_saved st) (ix_saved st')"
proof -
  obtain last st1 where load: "run_state (load_checkpoint V key head) (st\<lparr>ix_db := ix_saved st\<rparr>) = (last, st1)"
    by (metis prod.exhaust)
  then have st1: "ix_saved st1 = ix_db st1" "D (ix_saved st) (ix_saved st1)"
    by (auto simp: load_checkpoint_def refl checkpoints split: option.splits)
  obtain ranges ok1 st2 where chunks: "run_state (index_chunks V amm key ranges) st1 = (ok1, st2)"
    and "ix_saved st' = ix_saved st2"
    using run load by (auto simp: index_session_def Let_def split: if_splits prod.splits)
  with trans [OF st1(2) chunks_saved [OF chunks st1(1)]] show ?thesis by simp
qed

lemma once_saved:
  assumes run: "run_state (index_once V) st = (res, st')"
  shows "D (ix_saved st) (ix_saved st')"
  using run
proof (cases rule: once_cases)
  case idle
  then show ?thesis by (simp add: refl)
next
  case (session addresses head st1 ok)
  then show ?thesis using session_saved [OF session(3)] by simp
qed

end

text \<open>The recorded prices: never changed or removed, one per event.\<close>

definition history_extends :: "dbase \<Rightarrow> dbase \<Rightarrow> bool" where
  "history_extends db db' = (prefix (d_points db) (d_points db') \<and>
     (distinct (map point_key (d_points db)) \<longrightarrow> distinct (map point_key (d_points db'))))"

lemma history_extends_refl: "history_extends db db"
  by (simp add: history_extends_def)

lemma history_extends_trans: "history_extends a b \<Longrightarrow> history_extends b c \<Longrightarrow> history_extends a c"
  by (auto simp: history_extends_def intro: prefix_order.trans)

lemma history_extends_grows: "grows db db' \<Longrightarrow> history_extends db db'"
  by (simp add: grows_def history_extends_def)

lemma history_extends_checkpoints [simp]: "history_extends db (db'\<lparr>d_checkpoints := x\<rparr>) = history_extends db db'"
  by (simp add: history_extends_def)

interpretation history: saved_order history_extends V for V
proof
  show "history_extends db db" for db by (rule history_extends_refl)
  show "history_extends a c" if "history_extends a b" "history_extends b c" for a b c
    using that by (rule history_extends_trans)
  show "history_extends (ix_db st) (ix_db st')" if "run_state (index_user_listing V e) st = (u, st')" for e st u st'
    using history_extends_grows [OF grows_user_listing [OF that]] .
  show "history_extends db (db\<lparr>d_points := insert_ignore point_key (p\<lparr>pp_id := d_next_point db\<rparr>) (d_points db),
      d_next_point := d_next_point db + 1\<rparr>)" for db p
    by (rule history_extends_grows [OF grows.point_insert])
qed (simp_all add: history_extends_refl, simp_all add: history_extends_def)

section \<open>Properties\<close>


text \<open>
  C17 (indexer_catches_up). Against a node whose head stands still and that answers every range of at most
  \<open>INDEXER_MIN_BLOCK_RANGE\<close> blocks (it may refuse any larger one at any time), and beside writers that
  never move the checkpoint back, the loop reaches the head after finitely many turns: a refused range
  halves the window down to one the node answers, and an answered one moves the checkpoint.
\<close>

theorem indexer_catches_up:
  assumes V: "indexes_to V head" "indexes V addresses" and others: "others_advance (checkpoint_key addresses) others"
    and c: "read_checkpoint (ix_saved st) (checkpoint_key addresses) = Some c" and w: "1 \<le> window_of V st"
  shows "\<exists>n delays st'. run_state (run_indexer_loop V others failures n) st = (delays, st') \<and>
    (\<exists>c'. read_checkpoint (ix_saved st') (checkpoint_key addresses) = Some c' \<and> head \<le> c')"
  using others c w
proof (induction "(nat (head - c), nat (window_of V st))" arbitrary: others c st failures
    rule: wf_induct_rule [OF wf_lex_prod [OF wf_less_than wf_less_than]])
  case 1
  show ?case
  proof (cases "head \<le> c")
    case True
    with 1(3) show ?thesis by (metis run_indexer_loop.simps(1) State_Monad.run_state_return)
  next
    case False
    let ?st0 = "st\<lparr>ix_saved := others 0 (ix_saved st)\<rparr>"
    obtain c0 where c0: "read_checkpoint (ix_saved ?st0) (checkpoint_key addresses) = Some c0" "c \<le> c0"
      using 1(2,3) by (auto simp: others_advance_def) blast
    obtain res st1 where once: "run_state (index_once V) ?st0 = (res, st1)" by (metis prod.exhaust)
    have w0: "window_of V ?st0 = window_of V st" by (simp add: window_of_def)
    have later: "others_advance (checkpoint_key addresses) (\<lambda>k. others (Suc k))"
      using 1(2) by (simp add: others_advance_def)
    let ?f = "if res = Some True then 0 else failures + 1"
    have step: "\<exists>n ds st2. run_state (run_indexer_loop V (\<lambda>k. others (Suc k)) ?f n) st1 = (ds, st2) \<and>
        (\<exists>c'. read_checkpoint (ix_saved st2) (checkpoint_key addresses) = Some c' \<and> head \<le> c')"
    proof (cases "c0 < head")
      case True
      then obtain c1 where c1: "read_checkpoint (ix_saved st1) (checkpoint_key addresses) = Some c1" "c0 \<le> c1"
        "1 \<le> window_of V st1" "c0 < c1 \<or> window_of V st1 < window_of V st"
        using once_progress [OF V once c0(1)] 1(4) w0 by auto
      have "((nat (head - c1), nat (window_of V st1)), (nat (head - c), nat (window_of V st))) \<in> less_than <*lex*> less_than"
        using c1 c0 False by auto
      from 1(1) [OF this later c1(1) c1(3)] show ?thesis .
    next
      case False
      have "x_addresses V = Some addresses" using V(2) by (simp add: indexes_def)
      from once_read [OF once this c0(1)] False show ?thesis
        by (intro exI [of _ 0]) auto
    qed
    then obtain n ds st2 where n: "run_state (run_indexer_loop V (\<lambda>k. others (Suc k)) ?f n) st1 = (ds, st2)"
      and reached: "\<exists>c'. read_checkpoint (ix_saved st2) (checkpoint_key addresses) = Some c' \<and> head \<le> c'" by blast
    have "\<exists>ds'. run_state (run_indexer_loop V others failures (Suc n)) st = (ds', st2)"
      using once n by (simp add: Let_def)
    with reached show ?thesis by blast
  qed
qed

text \<open>A node that answers ranges of at most 50 blocks, with a market created at block 1 and traded in block 40.\<close>

definition ex_history :: chain_history where
  "ex_history = \<lparr> h_amm = [\<lparr> ae_block = 2, ae_log = 0, ae_condition_id = ''0xc1'', ae_swap = False \<rparr>,
       \<lparr> ae_block = 40, ae_log = 3, ae_condition_id = ''0xc1'', ae_swap = True \<rparr>],
     h_created = [\<lparr> ce_block = 1, ce_log = 0, ce_condition_id = ''0xc1'', ce_parent = [], ce_question = ''Rain?'',
       ce_market_type = 0, ce_close_time = 100, ce_creator = ''0xA'' \<rparr>] \<rparr>"

definition ex_addresses :: "string \<Rightarrow> string option" where
  "ex_addresses = [''MarketFactory'' \<mapsto> ''0xF'', ''MarketAMM'' \<mapsto> ''0xA'']"

definition ex_node :: ix_env where
  "ex_node = \<lparr> x_settings = default_settings\<lparr>s_indexer_start_block := 1, s_indexer_min_block_range := 50\<rparr>,
     x_addresses = Some ex_addresses, x_factory_abi = True, x_amm_abi = True, x_postgres = True,
     x_ping = \<lambda>k. Some (), x_try_lock = \<lambda>k. Some True, x_clock = \<lambda>k. 0, x_head = \<lambda>k. Some 1000,
     x_created = \<lambda>lo hi k. if hi - lo + 1 \<le> 50 then Some (filter (\<lambda>e. in_range lo hi (ce_block e)) (h_created ex_history)) else None,
     x_paused = \<lambda>lo hi k. if hi - lo + 1 \<le> 50 then Some [] else None,
     x_seeded = \<lambda>lo hi k. if hi - lo + 1 \<le> 50 then Some (filter (\<lambda>e. \<not> ae_swap e \<and> in_range lo hi (ae_block e)) (h_amm ex_history)) else None,
     x_swaps = \<lambda>lo hi k. if hi - lo + 1 \<le> 50 then Some (filter (\<lambda>e. ae_swap e \<and> in_range lo hi (ae_block e)) (h_amm ex_history)) else None,
     x_timestamp = \<lambda>b k. Some (b * 12), x_pool = \<lambda>cid b k. Some [3, 1],
     x_commitments = \<lambda>cid k. None, x_keccak_text = \<lambda>t. t, x_cdf_micros = \<lambda>d l. 0 \<rparr>"

definition ex_ix :: ix where
  "ex_ix = \<lparr> ix_db = empty_db, ix_saved = empty_db\<lparr>d_checkpoints := [\<lparr> ic_factory_address = ''0xf'',
     ic_amm_address = ''0xa'', ic_last_block = 0 \<rparr>]\<rparr>, ix_calls = 0, ix_range = None, ix_leader = False \<rparr>"

lemma ex_key: "checkpoint_key ex_addresses = (''0xf'', ''0xa'')"
  by code_simp


lemma ex_checkpoint: "read_checkpoint (ix_saved ex_ix) (checkpoint_key ex_addresses) = Some 0"
  by (simp add: ex_key ex_ix_def read_checkpoint_def get_row_def cp_key_def)



theorem indexer_catches_up_witness:
  "\<exists>n delays st'. run_state (run_indexer_loop ex_node (\<lambda>k db. db) 0 n) ex_ix = (delays, st') \<and>
    (\<exists>c'. read_checkpoint (ix_saved st') (checkpoint_key ex_addresses) = Some c' \<and> 1000 \<le> c')"
proof (rule indexer_catches_up [OF _ _ _ ex_checkpoint])
  show "indexes_to ex_node 1000" "indexes ex_node ex_addresses"
    by (simp_all add: indexes_to_def indexes_def answers_small_def ex_node_def ex_addresses_def default_settings_def Let_def)
  show "others_advance (checkpoint_key ex_addresses) (\<lambda>k db. db)" by (auto simp: others_advance_def)
  show "1 \<le> window_of ex_node ex_ix" by (simp add: window_of_def ex_ix_def ex_node_def default_settings_def)
qed

text \<open>
  Whatever the node answers, whichever range fails half way and is
  replayed, and beside other writers that do the same, the indexer loop only appends to the recorded price
  history: no stored point is changed, reordered or lost, and no event has two points.
\<close>

theorem price_history_is_append_only:
  assumes others: "\<And>k db. history_extends db (others k db)"
    and run: "run_state (run_indexer_loop V others failures n) st = (delays, st')"
  shows "history_extends (ix_saved st) (ix_saved st')"
  using assms
proof (induction n arbitrary: others st failures delays)
  case 0
  then show ?case by (simp add: history_extends_refl)
next
  case (Suc n)
  let ?st0 = "st\<lparr>ix_saved := others 0 (ix_saved st)\<rparr>"
  obtain res st1 where once: "run_state (index_once V) ?st0 = (res, st1)" by (metis prod.exhaust)
  then obtain f ds where "run_state (run_indexer_loop V (\<lambda>k. others (Suc k)) f n) st1 = (ds, st')"
    using Suc.prems(2) by (auto simp: Let_def split: prod.splits)
  from Suc.IH [OF Suc.prems(1) this] history.once_saved [OF once] Suc.prems(1) [of "ix_saved st" 0]
  show ?case by (auto intro: history_extends_trans)
qed

theorem price_history_is_append_only_witness:
  "history_extends (ix_saved ex_ix) (ix_saved (snd (run_state (run_indexer_loop ex_node (\<lambda>k db. db) 0 20) ex_ix)))"
  by (rule price_history_is_append_only [where others = "\<lambda>k db. db"]) (simp_all add: history_extends_refl prod_eq_iff)

end
