(* ===== verification/Failing.thy ===== *)
theory Failing
  imports Prelude "HOL-Library.State_Monad"
begin

text \<open>
  Computations that change a state and may raise: \<open>('s, 'e + 'a) state\<close>, with the exception on the left. The
  state keeps what was handed to the outside world in a list; \<open>sends_wp\<close> and \<open>safe\<close> are the two program
  logics the components use to say what that is, with one rule per construct of the code.
\<close>

section \<open>Raising and catching\<close>

definition ok :: "'a \<Rightarrow> ('s, 'e + 'a) state" where
  "ok x = State_Monad.return (Inr x)"

definition raise :: "'e \<Rightarrow> ('s, 'e + 'a) state" where
  "raise e = State_Monad.return (Inl e)"

definition op_then :: "('s, 'e + 'a) state \<Rightarrow> ('a \<Rightarrow> ('s, 'e + 'b) state) \<Rightarrow> ('s, 'e + 'b) state" where
  "op_then m f = State_Monad.bind m (\<lambda>r. case r of Inl e \<Rightarrow> State_Monad.return (Inl e) | Inr x \<Rightarrow> f x)"

text \<open>\<open>try: x = m except Exception as e: ... else: ...\<close> is \<open>State_Monad.bind m\<close>; \<open>catch\<close> is the one without else.\<close>

definition catch :: "('s, 'e + 'a) state \<Rightarrow> ('e \<Rightarrow> ('s, 'f + 'a) state) \<Rightarrow> ('s, 'f + 'a) state" where
  "catch m h = State_Monad.bind m (\<lambda>r. case r of Inl e \<Rightarrow> h e | Inr x \<Rightarrow> State_Monad.return (Inr x))"

section \<open>What a computation hands over, exactly\<close>

text \<open>
  \<open>sends_wp sent m Q\<close>: from every state, \<open>m\<close> only appends to what was handed over, and \<open>Q\<close> holds of its
  result and of what it appended.
\<close>

definition sends_wp :: "('s \<Rightarrow> 't list) \<Rightarrow> ('s, 'r) state \<Rightarrow> ('r \<Rightarrow> 't list \<Rightarrow> bool) \<Rightarrow> bool" where
  "sends_wp sent m Q = (\<forall>st. \<exists>ys. sent (snd (run_state m st)) = sent st @ ys \<and> Q (fst (run_state m st)) ys)"

lemma sends_wpD: "sends_wp sent m Q \<Longrightarrow> run_state m st = (r, st') \<Longrightarrow> \<exists>ys. sent st' = sent st @ ys \<and> Q r ys"
  unfolding sends_wp_def by (metis fst_conv snd_conv)

lemma sends_mono: "sends_wp sent m P \<Longrightarrow> (\<And>r cs. P r cs \<Longrightarrow> Q r cs) \<Longrightarrow> sends_wp sent m Q"
  unfolding sends_wp_def by meson

lemma wp_return: "Q x [] \<Longrightarrow> sends_wp sent (State_Monad.return x) Q"
  by (simp add: sends_wp_def)

lemma wp_ok: "Q (Inr x) [] \<Longrightarrow> sends_wp sent (ok x) Q"
  unfolding ok_def by (rule wp_return)

lemma wp_raise: "Q (Inl e) [] \<Longrightarrow> sends_wp sent (raise e) Q"
  unfolding raise_def by (rule wp_return)

lemma wp_bind:
  assumes m: "sends_wp sent m (\<lambda>r cs. sends_wp sent (f r) (\<lambda>r' cs'. Q r' (cs @ cs')))"
  shows "sends_wp sent (State_Monad.bind m f) Q"
  unfolding sends_wp_def
proof
  fix st
  obtain r st1 where r: "run_state m st = (r, st1)" by (metis prod.exhaust)
  obtain ys where ys: "sent st1 = sent st @ ys" "sends_wp sent (f r) (\<lambda>r' cs'. Q r' (ys @ cs'))"
    using sends_wpD [OF m r] by blast
  obtain r' st2 where r': "run_state (f r) st1 = (r', st2)" by (metis prod.exhaust)
  obtain zs where "sent st2 = sent st1 @ zs" "Q r' (ys @ zs)"
    using sends_wpD [OF ys(2) r'] by blast
  with r r' ys(1) show "\<exists>ys. sent (snd (run_state (State_Monad.bind m f) st)) = sent st @ ys \<and>
      Q (fst (run_state (State_Monad.bind m f) st)) ys"
    by (intro exI [of _ "ys @ zs"]) simp
qed

lemma wp_then:
  assumes "sends_wp sent m (\<lambda>r cs. case r of Inl e \<Rightarrow> Q (Inl e) cs | Inr x \<Rightarrow> sends_wp sent (f x) (\<lambda>r' cs'. Q r' (cs @ cs')))"
  shows "sends_wp sent (op_then m f) Q"
  unfolding op_then_def
  by (rule wp_bind, rule sends_mono [OF assms]) (auto intro: wp_return split: sum.splits)

section \<open>What a computation never hands over\<close>

text \<open>
  \<open>triple sent G I m Q\<close>: from a state with \<open>I\<close>, \<open>m\<close> only hands over what is \<open>G\<close>, and \<open>Q\<close> holds of its
  result and the state it ends in. \<open>safe\<close> is the triple of a computation that keeps \<open>I\<close>.
\<close>

definition triple :: "('s \<Rightarrow> 't list) \<Rightarrow> ('t \<Rightarrow> bool) \<Rightarrow> ('s \<Rightarrow> bool) \<Rightarrow> ('s, 'r) state \<Rightarrow> ('r \<Rightarrow> 's \<Rightarrow> bool) \<Rightarrow> bool" where
  "triple sent G I m Q = (\<forall>st. I st \<longrightarrow> Q (fst (run_state m st)) (snd (run_state m st)) \<and>
     (\<exists>ys. sent (snd (run_state m st)) = sent st @ ys \<and> list_all G ys))"

lemma tripleD: "triple sent G I m Q \<Longrightarrow> I st \<Longrightarrow> run_state m st = (r, st') \<Longrightarrow>
    Q r st' \<and> (\<exists>ys. sent st' = sent st @ ys \<and> list_all G ys)"
  unfolding triple_def by (metis fst_conv snd_conv)

lemma triple_mono: "triple sent G I m Q \<Longrightarrow> (\<And>st. J st \<Longrightarrow> I st) \<Longrightarrow> (\<And>r st. Q r st \<Longrightarrow> R r st) \<Longrightarrow> triple sent G J m R"
  unfolding triple_def by blast

lemma triple_return: "(\<And>st. I st \<Longrightarrow> Q x st) \<Longrightarrow> triple sent G I (State_Monad.return x) Q"
  by (simp add: triple_def)

lemma triple_bind:
  assumes m: "triple sent G I m R" and f: "\<And>r. triple sent G (R r) (f r) Q"
  shows "triple sent G I (State_Monad.bind m f) Q"
  unfolding triple_def
proof (intro allI impI)
  fix st assume i: "I st"
  obtain r st1 where r: "run_state m st = (r, st1)" by (metis prod.exhaust)
  obtain r' st2 where r': "run_state (f r) st1 = (r', st2)" by (metis prod.exhaust)
  obtain ys where 1: "R r st1" "sent st1 = sent st @ ys" "list_all G ys" using tripleD [OF m i r] by blast
  obtain zs where 2: "Q r' st2" "sent st2 = sent st1 @ zs" "list_all G zs" using tripleD [OF f 1(1) r'] by blast
  have "sent st2 = sent st @ ys @ zs \<and> list_all G (ys @ zs)" using 1 2 by simp
  with r r' 2(1) show "Q (fst (run_state (State_Monad.bind m f) st)) (snd (run_state (State_Monad.bind m f) st)) \<and>
      (\<exists>ys. sent (snd (run_state (State_Monad.bind m f) st)) = sent st @ ys \<and> list_all G ys)"
    by auto
qed

lemma triple_then:
  assumes m: "triple sent G I m R" and f: "\<And>x. triple sent G (R (Inr x)) (f x) Q" and e: "\<And>e st. R (Inl e) st \<Longrightarrow> Q (Inl e) st"
  shows "triple sent G I (op_then m f) Q"
  unfolding op_then_def
proof (rule triple_bind [OF m])
  show "triple sent G (R r) (case r of Inl e \<Rightarrow> State_Monad.return (Inl e) | Inr x \<Rightarrow> f x) Q" for r
    using f e by (cases r) (auto intro: triple_return)
qed

text \<open>Rules for the branches of the code.\<close>

lemma triple_if:
  "(b \<Longrightarrow> triple sent G I m Q) \<Longrightarrow> (\<not> b \<Longrightarrow> triple sent G I n Q) \<Longrightarrow> triple sent G I (if b then m else n) Q"
  by simp

lemma triple_option:
  "(x = None \<Longrightarrow> triple sent G I m Q) \<Longrightarrow> (\<And>y. x = Some y \<Longrightarrow> triple sent G I (n y) Q) \<Longrightarrow>
     triple sent G I (case x of None \<Rightarrow> m | Some y \<Rightarrow> n y) Q"
  by (simp split: option.split)

lemma triple_sum:
  "(\<And>e. x = Inl e \<Longrightarrow> triple sent G I (m e) Q) \<Longrightarrow> (\<And>y. x = Inr y \<Longrightarrow> triple sent G I (n y) Q) \<Longrightarrow>
     triple sent G I (case x of Inl e \<Rightarrow> m e | Inr y \<Rightarrow> n y) Q"
  by (simp split: sum.split)

lemma triple_pair: "(\<And>y z. x = (y, z) \<Longrightarrow> triple sent G I (m y z) Q) \<Longrightarrow> triple sent G I (case x of (y, z) \<Rightarrow> m y z) Q"
  by (simp split: prod.split)

lemmas triple_cases = triple_if triple_option triple_sum triple_pair

definition stays :: "('s \<Rightarrow> bool) \<Rightarrow> ('r \<Rightarrow> bool) \<Rightarrow> 'r \<Rightarrow> 's \<Rightarrow> bool" where
  "stays I P r st = (I st \<and> P r)"

lemma staysI [intro!]: "I st \<Longrightarrow> P r \<Longrightarrow> stays I P r st"
  by (simp add: stays_def)

abbreviation safe :: "('s \<Rightarrow> 't list) \<Rightarrow> ('s \<Rightarrow> bool) \<Rightarrow> ('t \<Rightarrow> bool) \<Rightarrow> ('s, 'r) state \<Rightarrow> ('r \<Rightarrow> bool) \<Rightarrow> bool" where
  "safe sent I G m P \<equiv> triple sent G I m (stays I P)"

lemma safe_mono: "safe sent I G m P \<Longrightarrow> (\<And>r. P r \<Longrightarrow> Q r) \<Longrightarrow> safe sent I G m Q"
  by (erule triple_mono) (auto simp: stays_def)

lemma safe_return: "P x \<Longrightarrow> safe sent I G (State_Monad.return x) P"
  by (rule triple_return) (simp add: stays_def)

lemma safe_ok: "P (Inr x) \<Longrightarrow> safe sent I G (ok x) P"
  unfolding ok_def by (rule safe_return)

lemma safe_raise: "P (Inl e) \<Longrightarrow> safe sent I G (raise e) P"
  unfolding raise_def by (rule safe_return)

lemma triple_stays: "(P r \<Longrightarrow> triple sent G I m Q) \<Longrightarrow> triple sent G (stays I P r) m Q"
  unfolding triple_def stays_def by blast

lemma safe_bind:
  assumes m: "safe sent I G m P" and f: "\<And>r. P r \<Longrightarrow> triple sent G I (f r) Q"
  shows "triple sent G I (State_Monad.bind m f) Q"
  by (rule triple_bind [OF m], rule triple_stays, rule f)

lemma safe_then:
  assumes m: "safe sent I G m P" and f: "\<And>x. P (Inr x) \<Longrightarrow> triple sent G I (f x) Q"
    and e: "\<And>e st. I st \<Longrightarrow> P (Inl e) \<Longrightarrow> Q (Inl e) st"
  shows "triple sent G I (op_then m f) Q"
  by (rule triple_then [OF m], rule triple_stays, rule f) (use e in \<open>auto simp: stays_def\<close>)

lemma safe_catch:
  assumes m: "safe sent I G m P" and h: "\<And>e. P (Inl e) \<Longrightarrow> safe sent I G (h e) Q" and x: "\<And>x. P (Inr x) \<Longrightarrow> Q (Inr x)"
  shows "safe sent I G (catch m h) Q"
  unfolding catch_def using h x by (intro safe_bind [OF m]) (auto intro!: safe_return split: sum.splits)

end
