(* ===== verification/Auth.thy ===== *)
theory Auth
  imports Queue
begin

text \<open>
  Sessions (\<open>backend/app/auth/router.py\<close>): the bearer token of a request, the operator check, and the
  two ways to sign in. Signing in with a wallet consumes the nonce the message quotes; the request reads
  the nonce first and deletes it later, so \<open>siwe\<close> is modelled in the two steps between which other
  requests run. Token signing and signature recovery are third-party code: fields of \<open>auth_env\<close>.
\<close>

section \<open>Tokens\<close>

record auth_env =
  au_libs :: libs
  au_settings :: settings
  au_encode :: "string \<Rightarrow> bool \<Rightarrow> string"
  au_decode :: "string \<Rightarrow> string option"
  au_recover :: "string \<Rightarrow> string \<Rightarrow> string + string"

abbreviation get_user :: "string \<Rightarrow> dbase \<Rightarrow> user option" where
  "get_user addr db \<equiv> get_row u_address addr (d_users db)"

definition issue :: "auth_env \<Rightarrow> string \<Rightarrow> bool \<Rightarrow> string" where
  "issue E address is_operator = au_encode E (py_lower address) is_operator"

text \<open>\<open>authorization.split(" ", 1)[1]\<close>: what follows the first space.\<close>

definition after_space :: "string \<Rightarrow> string" where
  "after_space s = tl (dropWhile (\<lambda>c. c \<noteq> CHR '' '') s)"

definition get_current_user :: "auth_env \<Rightarrow> dbase \<Rightarrow> string option \<Rightarrow> user http" where
  "get_current_user E db authorization =
     (case authorization of
        None \<Rightarrow> Inl (HTTPException 401 ''missing bearer token'')
      | Some text \<Rightarrow>
          if \<not> startswith (py_lower text) ''bearer '' then Inl (HTTPException 401 ''missing bearer token'')
          else case au_decode E (after_space text) of
            None \<Rightarrow> Inl (HTTPException 401 ''invalid token'')
          | Some addr \<Rightarrow>
              (case get_user addr db of
                 None \<Rightarrow> Inl (HTTPException 401 ''unknown user'')
               | Some u \<Rightarrow> Inr u))"

definition require_operator :: "user http \<Rightarrow> user http" where
  "require_operator who = bind_http who (\<lambda>u.
     if u_is_operator u then Inr u else Inl (HTTPException 403 ''operator only''))"

section \<open>Nonces\<close>

definition nonce :: "string \<Rightarrow> string \<Rightarrow> dbase \<Rightarrow> dbase" where
  "nonce value address db =
     (let row = \<lparr> nn_address = py_lower address, nn_nonce = value \<rparr> in
      if get_row nn_address (py_lower address) (d_nonces db) \<noteq> None
      then db\<lparr>d_nonces := put_row nn_address row (d_nonces db)\<rparr>
      else db\<lparr>d_nonces := d_nonces db @ [row]\<rparr>)"

section \<open>Signing in with a wallet\<close>

record siwe_in =
  sw_message :: string
  sw_signature :: string
  sw_address :: string

text \<open>Up to the DELETE: the recovered address and the nonce that was read.\<close>

definition siwe_check :: "auth_env \<Rightarrow> dbase \<Rightarrow> siwe_in \<Rightarrow> (string \<times> string) http" where
  "siwe_check E db body =
     (if sw_signature body \<in> {[], ''0x'', ''0x00''} then Inl (HTTPException 400 ''invalid signature'')
      else case au_recover E (sw_message body) (sw_signature body) of
        Inl err \<Rightarrow> Inl (HTTPException 400 (''ecrecover failed: '' @ err))
      | Inr recovered \<Rightarrow>
          if py_lower recovered \<noteq> py_lower (sw_address body)
          then Inl (HTTPException 400 ''signature does not match address'')
          else if \<not> substring_in (py_lower recovered) (py_lower (sw_message body))
          then Inl (HTTPException 400 ''address not in message'')
          else case get_row nn_address (py_lower recovered) (d_nonces db) of
            None \<Rightarrow> Inl (HTTPException 401 ''nonce not found'')
          | Some row \<Rightarrow>
              if \<not> substring_in (nn_nonce row) (sw_message body) then Inl (HTTPException 401 ''nonce mismatch'')
              else Inr (py_lower recovered, nn_nonce row))"

definition operator_address :: "auth_env \<Rightarrow> string option" where
  "operator_address E =
     (if s_operator_private_key (au_settings E) = [] then None
      else map_option py_lower (lib_from_key (au_libs E) (s_operator_private_key (au_settings E))))"

text \<open>The user row a sign-in leaves: \<open>f\<close> updates an existing row.\<close>

definition upsert_user :: "string \<Rightarrow> bool \<Rightarrow> string \<Rightarrow> (user \<Rightarrow> user) \<Rightarrow> dbase \<Rightarrow> dbase" where
  "upsert_user addr is_operator cdp_user_id f db =
     (case get_user addr db of
        None \<Rightarrow> db\<lparr>d_users := d_users db @ [\<lparr> u_id = d_next_user db, u_address = addr,
            u_is_operator = is_operator, u_cdp_user_id = cdp_user_id \<rparr>],
          d_next_user := d_next_user db + 1\<rparr>
      | Some u \<Rightarrow> db\<lparr>d_users := put_row u_address (f u) (d_users db)\<rparr>)"

text \<open>From the DELETE on.\<close>

definition siwe_consume :: "auth_env \<Rightarrow> dbase \<Rightarrow> string \<times> string \<Rightarrow> (string \<times> string) http \<times> dbase" where
  "siwe_consume E db claim =
     (case claim of (addr, value) \<Rightarrow>
        let gone = (\<lambda>r. nn_address r = addr \<and> nn_nonce r = value);
            db' = db\<lparr>d_nonces := filter (\<lambda>r. \<not> gone r) (d_nonces db)\<rparr>;
            is_operator = (operator_address E = Some addr) in
        if row_count gone (d_nonces db) \<noteq> 1 then (Inl (HTTPException 401 ''nonce already consumed''), db')
        else let db'' = upsert_user addr is_operator [] (\<lambda>u. u\<lparr>u_is_operator := is_operator\<rparr>) db' in
          (Inr (issue E addr is_operator, addr), db''))"

section \<open>Signing in with an embedded wallet\<close>

record cdp_user =
  cu_user_id :: string
  cu_smart_account :: string

definition upsert_cdp_session :: "auth_env \<Rightarrow> dbase \<Rightarrow> cdp_user \<Rightarrow> (string \<times> string) \<times> dbase" where
  "upsert_cdp_session E db cu =
     (let addr = py_lower (cu_smart_account cu) in
      ((issue E addr False, addr),
       upsert_user addr False (cu_user_id cu)
         (\<lambda>u. u\<lparr>u_is_operator := False, u_cdp_user_id := cu_user_id cu\<rparr>) db))"

section \<open>Interleaved requests\<close>

text \<open>
  Steps of concurrent requests: a nonce request, a wallet sign-in up to its read (\<open>Begin\<close> with the
  request's number) and from its DELETE (\<open>Finish\<close>), an embedded-wallet sign-in. A sign-in whose checks
  failed has nothing to finish.
\<close>

datatype auth_step = Issue string string | Begin nat siwe_in | Finish nat | Cdp cdp_user

record auth_state =
  as_db :: dbase
  as_open :: "nat \<Rightarrow> (string \<times> string) option"
  as_logins :: "string list"

fun auth_do :: "auth_env \<Rightarrow> auth_step \<Rightarrow> auth_state \<Rightarrow> auth_state" where
  "auth_do E (Issue value address) st = st\<lparr>as_db := nonce value address (as_db st)\<rparr>"
| "auth_do E (Begin i body) st =
     st\<lparr>as_open := (as_open st)(i := (case siwe_check E (as_db st) body of Inl _ \<Rightarrow> None | Inr claim \<Rightarrow> Some claim))\<rparr>"
| "auth_do E (Finish i) st =
     (case as_open st i of
        None \<Rightarrow> st
      | Some claim \<Rightarrow>
          (case siwe_consume E (as_db st) claim of
             (res, db) \<Rightarrow> st\<lparr>as_db := db, as_open := (as_open st)(i := None),
               as_logins := (case res of Inl _ \<Rightarrow> as_logins st | Inr (_, addr) \<Rightarrow> addr # as_logins st)\<rparr>))"
| "auth_do E (Cdp cu) st = st\<lparr>as_db := snd (upsert_cdp_session E (as_db st) cu)\<rparr>"

definition auth_run :: "auth_env \<Rightarrow> auth_step list \<Rightarrow> auth_state \<Rightarrow> auth_state" where
  "auth_run E steps st = fold (auth_do E) steps st"

section \<open>A nonce signs in once\<close>

definition nonces_of :: "string \<Rightarrow> dbase \<Rightarrow> nat" where
  "nonces_of addr db = row_count (\<lambda>r. nn_address r = addr) (d_nonces db)"

fun issues_for :: "string \<Rightarrow> auth_step \<Rightarrow> bool" where
  "issues_for addr (Issue value address) = (py_lower address = addr)"
| "issues_for addr _ = False"

lemma upsert_user_nonces [simp]: "d_nonces (upsert_user addr op cid f db) = d_nonces db"
  by (simp add: upsert_user_def split: option.splits)

lemma row_count_filter: "row_count P (filter (\<lambda>r. \<not> Q r) rows) + row_count (\<lambda>r. P r \<and> Q r) rows = row_count P rows"
  by (induction rows) (auto simp: row_count_def)

lemma row_count_key: "row_count (\<lambda>r. key r = k) rows = length (filter (\<lambda>x. x = k) (map key rows))"
  by (simp add: row_count_def filter_map o_def)

lemma row_count_put: "row_count (\<lambda>r. key r = k) (put_row key r rows) = row_count (\<lambda>r. key r = k) rows"
  by (simp only: row_count_key map_key_put_row)

lemma nonces_issue:
  "nonces_of addr (nonce value address db) \<le> nonces_of addr db + (if py_lower address = addr then 1 else 0)"
proof -
  let ?row = "\<lparr> nn_address = py_lower address, nn_nonce = value \<rparr>"
  have "row_count (\<lambda>r. nn_address r = addr) (put_row nn_address ?row (d_nonces db)) = nonces_of addr db"
    unfolding nonces_of_def by (rule row_count_put)
  then show ?thesis
    by (cases "get_row nn_address (py_lower address) (d_nonces db)") (simp_all add: nonce_def nonces_of_def Let_def row_count_def)
qed

lemma nonces_consume:
  assumes "siwe_consume E db claim = (res, db')"
  shows "nonces_of addr db' + (if \<exists>t. res = Inr (t, addr) then 1 else 0) \<le> nonces_of addr db"
proof -
  obtain a v where claim: "claim = (a, v)" by (cases claim)
  let ?gone = "\<lambda>r. nn_address r = a \<and> nn_nonce r = v"
  have left: "nonces_of addr db' = row_count (\<lambda>r. nn_address r = addr) (filter (\<lambda>r. \<not> ?gone r) (d_nonces db))"
    using assms by (auto simp: claim siwe_consume_def nonces_of_def Let_def split: if_splits)
  have split: "nonces_of addr db = nonces_of addr db' + row_count (\<lambda>r. nn_address r = addr \<and> ?gone r) (d_nonces db)"
    unfolding left unfolding nonces_of_def by (rule row_count_filter [symmetric])
  show ?thesis
  proof (cases "\<exists>t. res = Inr (t, addr)")
    case True
    then have "row_count ?gone (d_nonces db) = 1" "a = addr"
      using assms by (auto simp: claim siwe_consume_def Let_def split: if_splits)
    moreover from this have "(\<lambda>r. nn_address r = addr \<and> ?gone r) = ?gone" by auto
    ultimately show ?thesis using True split by simp
  next
    case False
    then show ?thesis using split by simp
  qed
qed

lemma auth_do_nonces:
  "length (filter (\<lambda>a. a = addr) (as_logins (auth_do E s st))) + nonces_of addr (as_db (auth_do E s st)) \<le>
   length (filter (\<lambda>a. a = addr) (as_logins st)) + nonces_of addr (as_db st) + (if issues_for addr s then 1 else 0)"
proof (cases s)
  case (Issue v address)
  then show ?thesis using nonces_issue [of addr v address "as_db st"] by simp
next
  case (Finish i)
  show ?thesis
  proof (cases "as_open st i")
    case (Some claim)
    obtain res db where "siwe_consume E (as_db st) claim = (res, db)" by (metis prod.exhaust)
    with nonces_consume [OF this, of addr] Some Finish show ?thesis by (auto split: sum.splits)
  qed (simp add: Finish)
next
  case (Cdp cu)
  then show ?thesis by (simp add: nonces_of_def upsert_cdp_session_def Let_def)
qed simp

section \<open>Properties\<close>

text \<open>
  C34 (nonce_signs_in_once). However the requests interleave, an address never signs in more often than
  nonces were stored for it or issued to it: a message is good for one sign-in, also when it is replayed
  while the first use is between its read and its delete.
\<close>

theorem nonce_signs_in_once:
  "length (filter (\<lambda>a. a = addr) (as_logins (auth_run E steps st))) + nonces_of addr (as_db (auth_run E steps st)) \<le>
   length (filter (\<lambda>a. a = addr) (as_logins st)) + nonces_of addr (as_db st) + length (filter (issues_for addr) steps)"
proof (induction steps arbitrary: st)
  case (Cons s steps)
  from Cons.IH [of "auth_do E s st"] auth_do_nonces [of addr E s st] show ?case
    by (cases "issues_for addr s") (simp_all add: auth_run_def)
qed (simp add: auth_run_def)

lemma operator_only:
  "require_operator (get_current_user E db h) = Inr u \<Longrightarrow> u_is_operator u \<and> u \<in> set (d_users db)"
  by (auto simp: require_operator_def get_current_user_def bind_http_Inr
      split: option.splits if_splits dest: get_row_Some)

text \<open>Two sign-ins race with one message: the second finds the nonce gone.\<close>

definition ex_auth :: auth_env where
  "ex_auth = \<lparr> au_libs = ex_libs, au_settings = default_settings, au_encode = (\<lambda>a b. a), au_decode = Some,
     au_recover = (\<lambda>m s. Inr ''0xAB'') \<rparr>"

lemma replayed_login_refused:
  "as_logins (auth_run ex_auth [Issue ''n1'' ''0xAb'', Begin 1 \<lparr> sw_message = ''0xab n1'', sw_signature = ''0x1'', sw_address = ''0xAB'' \<rparr>,
     Begin 2 \<lparr> sw_message = ''0xab n1'', sw_signature = ''0x1'', sw_address = ''0xAB'' \<rparr>, Finish 2, Finish 1]
     \<lparr> as_db = empty_db, as_open = (\<lambda>_. None), as_logins = [] \<rparr>) = [''0xab'']"
  by code_simp

end
