(* ===== verification/Markets.thy ===== *)
theory Markets
  imports Trading Auth "HOL-Library.State_Monad" "HOL-Library.Product_Lexorder" "HOL-Library.List_Lexorder"
    "HOL-Library.Char_ord" "HOL-Library.Multiset"
begin

text \<open>
  The read side of the markets API (\<open>backend/app/markets/router.py\<close>) and its two off-chain tables: the
  public views, the event cards, price history, live scores and the NFL schedule. A SELECT without
  ORDER BY returns rows in table order.
\<close>

section \<open>Public views\<close>

record market_public =
  mp_condition_id :: string
  mp_parent_condition_id :: "string option"
  mp_question :: string
  mp_resolution_criteria :: string
  mp_market_type :: int
  mp_close_time :: int
  mp_paused :: bool
  mp_resolved :: bool
  mp_payout_yes :: int
  mp_payout_no :: int
  mp_suggested_probability :: rat
  mp_trading_halts_at :: "int option"
  mp_trading_open :: bool
  mp_yes_price_micros :: "int option"

definition public :: "settings \<Rightarrow> int \<Rightarrow> market \<Rightarrow> int option \<Rightarrow> market_public" where
  "public s now m yes_price = \<lparr> mp_condition_id = m_condition_id m,
     mp_parent_condition_id = (if m_parent_condition_id m = [] then None else Some (m_parent_condition_id m)),
     mp_question = m_question m, mp_resolution_criteria = m_resolution_criteria m,
     mp_market_type = m_market_type m, mp_close_time = m_close_time m, mp_paused = m_paused m,
     mp_resolved = m_resolved m, mp_payout_yes = m_payout_yes m, mp_payout_no = m_payout_no m,
     mp_suggested_probability = m_suggested_probability m, mp_trading_halts_at = halts_at m s,
     mp_trading_open = trading_open m s now, mp_yes_price_micros = yes_price \<rparr>"

section \<open>Prices\<close>

definition point_rank :: "price_point \<Rightarrow> int \<times> int \<times> int \<times> int" where
  "point_rank p = (pp_ts p, pp_block_number p, pp_log_index p, pp_id p)"

definition points_of :: "dbase \<Rightarrow> string \<Rightarrow> price_point list" where
  "points_of db cid = sort_key point_rank (filter (\<lambda>p. pp_condition_id p = cid) (d_points db))"

definition latest_prices :: "dbase \<Rightarrow> string list \<Rightarrow> string \<Rightarrow> int option" where
  "latest_prices db cids cid =
     (if cid \<notin> set cids \<or> points_of db cid = [] then None
      else Some (pp_yes_price_micros (last (points_of db cid))))"

definition get_market_history :: "dbase \<Rightarrow> string \<Rightarrow> (string \<times> int \<times> int) list http" where
  "get_market_history db condition_id =
     (case get_market condition_id db of
        None \<Rightarrow> Inl (HTTPException 404 ''market not found'')
      | Some m \<Rightarrow>
          if \<not> is_listed db m then Inl (HTTPException 404 ''market not found'')
          else Inr (map (\<lambda>p. (pp_condition_id p, pp_ts p, pp_yes_price_micros p)) (points_of db condition_id)))"

section \<open>GET /markets\<close>

definition PRIMARY_TYPES :: "int list" where "PRIMARY_TYPES = [0, 2]"

record event_card =
  ec_primary :: market_public
  ec_children :: "market_public list"

datatype market_list = Cards "event_card list" | Flat "market_public list"

definition primary_ids :: "market list \<Rightarrow> string set" where
  "primary_ids visible = set (map m_condition_id (filter (\<lambda>m. m_market_type m \<in> set PRIMARY_TYPES) visible))"

text \<open>A child of a visible primary; a child without one is an orphan.\<close>

definition has_parent :: "market list \<Rightarrow> market \<Rightarrow> bool" where
  "has_parent visible m = (m_parent_condition_id m \<noteq> [] \<and> m_parent_condition_id m \<in> primary_ids visible)"

definition children_of :: "market list \<Rightarrow> string \<Rightarrow> market list" where
  "children_of visible cid = filter (\<lambda>m. m_market_type m = 1 \<and> has_parent visible m \<and> m_parent_condition_id m = cid) visible"

definition event_cards :: "(market \<Rightarrow> market_public) \<Rightarrow> market list \<Rightarrow> event_card list" where
  "event_cards pub visible =
     map (\<lambda>p. \<lparr> ec_primary = pub p, ec_children = map pub (sort_key m_condition_id (children_of visible (m_condition_id p))) \<rparr>)
       (filter (\<lambda>m. m_market_type m \<in> set PRIMARY_TYPES) visible) @
     map (\<lambda>m. \<lparr> ec_primary = pub m, ec_children = [] \<rparr>)
       (filter (\<lambda>m. m_market_type m = 1 \<and> \<not> has_parent visible m) visible)"

definition list_markets :: "dbase \<Rightarrow> settings \<Rightarrow> int \<Rightarrow> string option \<Rightarrow> bool \<Rightarrow> user http \<Rightarrow> market_list http" where
  "list_markets db s now parent_id include_paused who =
     bind_http (if include_paused then bind_http (require_operator who) (\<lambda>_. Inr (listed_clause db)) else Inr (visible_clause db))
       (\<lambda>shown.
        (case parent_id of
           Some (c # cs) \<Rightarrow>
             let rows = filter (\<lambda>m. shown m \<and> m_parent_condition_id m = c # cs) (d_markets db);
                 prices = latest_prices db (map m_condition_id rows)
             in Inr (Flat (map (\<lambda>m. public s now m (prices (m_condition_id m))) rows))
         | _ \<Rightarrow>
             let visible = filter shown (d_markets db);
                 prices = latest_prices db (map m_condition_id visible)
             in Inr (Cards (event_cards (\<lambda>m. public s now m (prices (m_condition_id m))) visible))))"

section \<open>GET /markets/{id}\<close>

record listing_public =
  lp_creator :: string
  lp_status :: listing_status
  lp_seed_usdc :: int
  lp_criteria_hash :: string

record market_detail =
  md_market :: market_public
  md_children :: "market_public list"
  md_score :: "live_score option"
  md_facts :: "string option"
  md_creator :: "string option"
  md_listing :: "listing_public option"

definition child_of :: "dbase \<Rightarrow> string \<Rightarrow> market \<Rightarrow> bool" where
  "child_of db parent m = (visible_clause db m \<and> m_market_type m = 1 \<and> m_parent_condition_id m = parent)"

definition get_listing_public :: "dbase \<Rightarrow> market \<Rightarrow> listing_public option" where
  "get_listing_public db m =
     (if m_market_type m \<noteq> 2 then None
      else map_option (\<lambda>l. \<lparr> lp_creator = l_creator l, lp_status = l_status l, lp_seed_usdc = l_seed_usdc l,
          lp_criteria_hash = l_criteria_hash l \<rparr>) (get_listing (m_condition_id m) db))"

definition get_facts :: "dbase \<Rightarrow> market \<Rightarrow> string option" where
  "get_facts db m =
     (let cid = (if m_market_type m = 0 then m_condition_id m else m_parent_condition_id m) in
      if cid = [] then None
      else Option.bind (get_row ls_condition_id cid (d_scores db)) ls_facts)"

definition get_score :: "dbase \<Rightarrow> market \<Rightarrow> live_score option" where
  "get_score db m = (if m_market_type m \<noteq> 0 then None else get_row ls_condition_id (m_condition_id m) (d_scores db))"

definition get_market_detail :: "dbase \<Rightarrow> settings \<Rightarrow> int \<Rightarrow> string \<Rightarrow> market_detail http" where
  "get_market_detail db s now condition_id =
     (case get_market condition_id db of
        None \<Rightarrow> Inl (HTTPException 404 ''market not found'')
      | Some m \<Rightarrow>
          if \<not> is_listed db m then Inl (HTTPException 404 ''market not found'')
          else
            let kids = sort_key m_condition_id (filter (child_of db (m_condition_id m)) (d_markets db));
                prices = latest_prices db (m_condition_id m # map m_condition_id kids);
                pub = (\<lambda>m. public s now m (prices (m_condition_id m)));
                listing = get_listing_public db m
            in Inr \<lparr> md_market = pub m, md_children = map pub kids, md_score = get_score db m,
                 md_facts = get_facts db m, md_creator = map_option lp_creator listing, md_listing = listing \<rparr>)"

section \<open>POST /markets/{id}/score\<close>

record score_in =
  sc_home_label :: string
  sc_away_label :: string
  sc_home_score :: "int option"
  sc_away_score :: "int option"
  sc_status :: string
  sc_period_label :: "string option"
  sc_facts :: "string option"

definition score_row :: "string \<Rightarrow> int \<Rightarrow> score_in \<Rightarrow> live_score" where
  "score_row cid now body = \<lparr> ls_condition_id = cid, ls_home_label = sc_home_label body,
     ls_away_label = sc_away_label body, ls_home_score = sc_home_score body, ls_away_score = sc_away_score body,
     ls_status = sc_status body, ls_period_label = sc_period_label body, ls_facts = sc_facts body,
     ls_updated_at = now \<rparr>"

definition upsert_score :: "dbase \<Rightarrow> int \<Rightarrow> user http \<Rightarrow> string \<Rightarrow> score_in \<Rightarrow> live_score http \<times> dbase" where
  "upsert_score db now who condition_id body =
     (case require_operator who of
        Inl e \<Rightarrow> (Inl e, db)
      | Inr _ \<Rightarrow>
      case get_market condition_id db of
        None \<Rightarrow> (Inl (HTTPException 404 ''market not found''), db)
      | Some m \<Rightarrow>
          if m_market_type m \<noteq> 0 then (Inl (HTTPException 400 ''scores only on primaries''), db)
          else if \<not> is_sports_market (Some (m_question m))
          then (Inl (HTTPException 400 ''scores only on sports primaries''), db)
          else if sc_status body = ''scheduled'' \<and> sc_home_score body = Some 0 \<and> sc_away_score body = Some 0
          then (Inl (HTTPException 400 ''scheduled games have no score yet''), db)
          else
            let row = score_row condition_id now body in
            (Inr row, db\<lparr>d_scores := (if get_row ls_condition_id condition_id (d_scores db) = None
               then d_scores db @ [row] else put_row ls_condition_id row (d_scores db))\<rparr>))"

section \<open>The schedule\<close>

text \<open>\<open>None\<close> is an omitted \<open>listedConditionId\<close>; \<open>Some ''''\<close> an explicit empty one.\<close>

record game_in =
  gi_away :: string
  gi_home :: string
  gi_kickoff_unix :: int
  gi_week :: int
  gi_season :: int
  gi_status :: string
  gi_listed_condition_id :: "string option"

definition same_game :: "game_in \<Rightarrow> schedule_game \<Rightarrow> bool" where
  "same_game game g = (g_season g = gi_season game \<and> g_week g = gi_week game \<and> g_home g = gi_home game \<and> g_away g = gi_away game)"

definition upsert_game :: "dbase \<Rightarrow> game_in \<Rightarrow> dbase" where
  "upsert_game db game =
     (case find (same_game game) (d_schedule db) of
        None \<Rightarrow> db\<lparr>d_schedule := d_schedule db @ [\<lparr> g_id = d_next_game db, g_season = gi_season game,
            g_week = gi_week game, g_home = gi_home game, g_away = gi_away game,
            g_kickoff_unix = gi_kickoff_unix game, g_status = gi_status game,
            g_listed_condition_id = (case gi_listed_condition_id game of None \<Rightarrow> [] | Some c \<Rightarrow> c) \<rparr>],
          d_next_game := d_next_game db + 1\<rparr>
      | Some existing \<Rightarrow> db\<lparr>d_schedule := put_row g_id (existing\<lparr>g_kickoff_unix := gi_kickoff_unix game,
            g_status := gi_status game,
            g_listed_condition_id := (case gi_listed_condition_id game of
                None \<Rightarrow> g_listed_condition_id existing | Some c \<Rightarrow> c)\<rparr>) (d_schedule db)\<rparr>)"

definition get_schedule :: "dbase \<Rightarrow> int option \<Rightarrow> int option \<Rightarrow> schedule_game list" where
  "get_schedule db season week =
     sort_key (\<lambda>g. (g_season g, g_week g, g_kickoff_unix g))
       (filter (\<lambda>g. (case season of None \<Rightarrow> True | Some n \<Rightarrow> g_season g = n) \<and>
          (case week of None \<Rightarrow> True | Some n \<Rightarrow> g_week g = n)) (d_schedule db))"

definition upsert_schedule :: "dbase \<Rightarrow> user http \<Rightarrow> game_in list \<Rightarrow> schedule_game list http \<times> dbase" where
  "upsert_schedule db who games =
     (case require_operator who of
        Inl e \<Rightarrow> (Inl e, db)
      | Inr _ \<Rightarrow>
          let db' = fold (\<lambda>game db. upsert_game db game) games db;
              weeks = sort (remdups (map (\<lambda>g. (gi_season g, gi_week g)) games)) in
          (Inr (concat (map (\<lambda>(season, week). sort_key g_kickoff_unix
             (filter (\<lambda>g. g_season g = season \<and> g_week g = week) (d_schedule db'))) weeks)), db'))"

section \<open>Every market on one card\<close>

lemma group_by_key:
  "distinct ks \<Longrightarrow> (\<Sum>k\<leftarrow>ks. mset (filter (\<lambda>m. Q m \<and> key m = k) xs)) = mset (filter (\<lambda>m. Q m \<and> key m \<in> set ks) xs)"
proof (induction ks)
  case (Cons k ks)
  have "mset (filter (\<lambda>m. Q m \<and> key m \<in> set (k # ks)) xs) =
      mset (filter (\<lambda>m. Q m \<and> key m = k) xs) + mset (filter (\<lambda>m. Q m \<and> key m \<in> set ks) xs)"
    using Cons.prems by (induction xs) auto
  with Cons show ?case by simp
qed simp

lemma mset_concat_cards: "mset (concat (map (\<lambda>x. f x # g x) xs)) = mset (map f xs) + (\<Sum>x\<leftarrow>xs. mset (g x))"
  by (induction xs) auto

definition card_markets :: "event_card \<Rightarrow> market_public list" where
  "card_markets c = ec_primary c # ec_children c"

lemma event_cards_markets:
  assumes "distinct (map m_condition_id (filter (\<lambda>m. m_market_type m \<in> set PRIMARY_TYPES) visible))"
  shows "mset (concat (map card_markets (event_cards pub visible))) =
    image_mset pub (mset (filter (\<lambda>m. m_market_type m \<in> {0, 1, 2}) visible))"
proof -
  let ?P = "filter (\<lambda>m. m_market_type m \<in> set PRIMARY_TYPES) visible"
  let ?Q = "\<lambda>m. m_market_type m = 1 \<and> has_parent visible m"
  let ?O = "filter (\<lambda>m. m_market_type m = 1 \<and> \<not> has_parent visible m) visible"
  have "(\<Sum>p\<leftarrow>?P. mset (children_of visible (m_condition_id p))) =
      (\<Sum>k\<leftarrow>map m_condition_id ?P. mset (filter (\<lambda>m. ?Q m \<and> m_parent_condition_id m = k) visible))"
    by (simp add: children_of_def o_def conj_assoc)
  also have "\<dots> = mset (filter (\<lambda>m. ?Q m \<and> m_parent_condition_id m \<in> set (map m_condition_id ?P)) visible)"
    by (rule group_by_key [OF assms])
  also have "\<dots> = mset (filter ?Q visible)"
    by (rule arg_cong [of _ _ mset], rule filter_cong) (auto simp: has_parent_def primary_ids_def)
  finally have kids: "(\<Sum>p\<leftarrow>?P. mset (children_of visible (m_condition_id p))) = mset (filter ?Q visible)" .
  have sum: "(\<Sum>p\<leftarrow>ps. mset (map pub (sort_key m_condition_id (children_of visible (m_condition_id p))))) =
      image_mset pub (\<Sum>p\<leftarrow>ps. mset (children_of visible (m_condition_id p)))" for ps
    by (induction ps) simp_all
  have "mset (concat (map card_markets (event_cards pub visible))) =
      image_mset pub (mset ?P + mset (filter ?Q visible) + mset ?O)"
    using kids by (simp add: event_cards_def card_markets_def o_def mset_concat_cards sum del: mset_map mset_sort)
       (simp add: comp_def)
  moreover have "mset ?P + mset (filter ?Q visible) + mset ?O = mset (filter (\<lambda>m. m_market_type m \<in> {0, 1, 2}) visible)"
  proof -
    have "mset (filter (\<lambda>m. m_market_type m \<in> {0, 1, 2}) xs) = mset (filter (\<lambda>m. m_market_type m \<in> set PRIMARY_TYPES) xs) +
        mset (filter ?Q xs) + mset (filter (\<lambda>m. m_market_type m = 1 \<and> \<not> has_parent visible m) xs)" for xs
      by (induction xs) (auto simp: PRIMARY_TYPES_def)
    then show ?thesis by simp
  qed
  ultimately show ?thesis by (simp only:)
qed

section \<open>Properties\<close>

text \<open>
  GET /markets puts every market the caller may see, primary or child, on
  exactly one card, once, and shows no other; a child sits under its own parent, or on a card of its own
  when no parent is shown.
\<close>

theorem every_market_on_one_card:
  assumes keys: "distinct (map m_condition_id (d_markets db))"
    and cards: "list_markets db s now None include_paused who = Inr (Cards cards)"
  shows "image_mset mp_condition_id (mset (concat (map card_markets cards))) =
      image_mset m_condition_id (mset (filter (\<lambda>m. (if include_paused then listed_clause db m else visible_clause db m) \<and>
        m_market_type m \<in> {0, 1, 2}) (d_markets db))) \<and>
    (\<forall>c \<in> set cards. \<forall>k \<in> set (ec_children c). mp_parent_condition_id k = Some (mp_condition_id (ec_primary c)))"
proof -
  define shown where "shown = (if include_paused then listed_clause db else visible_clause db)"
  let ?visible = "filter shown (d_markets db)"
  let ?pub = "\<lambda>m. public s now m (latest_prices db (map m_condition_id ?visible) (m_condition_id m))"
  have c: "cards = event_cards ?pub ?visible"
    using cards by (auto simp: list_markets_def bind_http_Inr shown_def Let_def split: if_splits)
  have cid: "mp_condition_id \<circ> ?pub = m_condition_id" by (auto simp: public_def)
  have "distinct (map m_condition_id (filter (\<lambda>m. m_market_type m \<in> set PRIMARY_TYPES) ?visible))"
    using keys by (simp add: distinct_map_filter)
  from event_cards_markets [OF this, of ?pub]
  have "image_mset mp_condition_id (mset (concat (map card_markets cards))) =
      image_mset m_condition_id (mset (filter (\<lambda>m. m_market_type m \<in> {0, 1, 2}) ?visible))"
    by (simp only: c multiset.map_comp cid)
  moreover have "mp_parent_condition_id k = Some (mp_condition_id (ec_primary c))"
    if "c \<in> set cards" "k \<in> set (ec_children c)" for c k
    using that by (auto simp: c event_cards_def children_of_def has_parent_def public_def)
  ultimately show ?thesis by (simp add: shown_def conj_commute)
qed

definition ex_markets_db :: dbase where
  "ex_markets_db = empty_db\<lparr>d_markets := [ex_market\<lparr>m_condition_id := ''0x1'', m_paused := False\<rparr>,
     ex_market\<lparr>m_condition_id := ''0x2'', m_market_type := 1, m_parent_condition_id := ''0x1'', m_paused := False\<rparr>,
     ex_market\<lparr>m_condition_id := ''0x3'', m_market_type := 1, m_parent_condition_id := ''0x9'', m_paused := False\<rparr>,
     ex_market\<lparr>m_condition_id := ''0x4'', m_market_type := 1, m_parent_condition_id := ''0x1''\<rparr>]\<rparr>"

theorem every_market_on_one_card_witness:
  "\<exists>cards. list_markets ex_markets_db default_settings 0 None False (Inl (HTTPException 401 [])) = Inr (Cards cards) \<and>
     image_mset mp_condition_id (mset (concat (map card_markets cards))) = {#''0x1'', ''0x2'', ''0x3''#}"
proof -
  obtain cards where cards: "list_markets ex_markets_db default_settings 0 None False (Inl (HTTPException 401 [])) = Inr (Cards cards)"
    by (simp add: list_markets_def Let_def)
  have "distinct (map m_condition_id (d_markets ex_markets_db))" by (simp add: ex_markets_db_def)
  from every_market_on_one_card [OF this cards] cards show ?thesis
    by (simp add: ex_markets_db_def ex_market_def visible_clause_def listed_clause_def MARKET_TYPE_USER_def)
qed

end
