(* ===== verification/Operator.thy ===== *)
theory Operator
  imports Failing Markets Eip712
begin

text \<open>
  The operator's transactions behind the markets API (\<open>backend/app/markets/router.py\<close>,
  \<open>backend/app/markets/chain.py\<close>): POST /markets, pause and archive. A handler's chain half is a
  computation over \<open>op_state\<close> that may raise an HTTP error; every answer of the node comes from
  \<open>op_env\<close>, one per call number, with the type name of an exception on the left. Creates are
  serialized by the process lock and the advisory lock, so a run of \<open>create_on_chain\<close> is not interleaved
  with another.
\<close>

section \<open>chain.py\<close>

text \<open>\<open>hex32\<close>: the digits with or without \<open>0x\<close>.\<close>

definition hex32 :: "string \<Rightarrow> string \<Rightarrow> string http" where
  "hex32 value field =
     (let raw = py_strip value;
          digits = (if take 2 raw = ''0x'' \<or> take 2 raw = ''0X'' then drop 2 raw else raw)
      in case from_hex digits of
        None \<Rightarrow> Inl (HTTPException 400 (field @ '' must be 32-byte hex''))
      | Some out \<Rightarrow> if length out \<noteq> 32 then Inl (HTTPException 400 (field @ '' must be 32-byte hex'')) else Inr out)"

definition to_hex32 :: "string \<Rightarrow> string" where
  "to_hex32 value = ''0x'' @ to_hex value"

definition ZERO32 :: string where "ZERO32 = replicate 32 (CHR 0x00)"

text \<open>\<open>eth_abi.encode\<close> and \<open>keccak\<close> are third-party code.\<close>

datatype abi_value = Abi_Address string | Abi_Uint int | Abi_Bytes32 string | Abi_String string

record abi_libs =
  ab_libs :: libs
  ab_keccak :: "string \<Rightarrow> string"
  ab_encode :: "abi_value list \<Rightarrow> string"

definition condition_id_for :: "abi_libs \<Rightarrow> string \<Rightarrow> string \<Rightarrow> string" where
  "condition_id_for A oracle question_id =
     to_hex32 (ab_keccak A (ab_encode A [Abi_Address (lib_checksum (ab_libs A) oracle), Abi_Bytes32 question_id]))"

definition user_question_id :: "abi_libs \<Rightarrow> string \<Rightarrow> string \<Rightarrow> string" where
  "user_question_id A creator salt =
     ab_keccak A (ab_encode A [Abi_Address (lib_checksum (ab_libs A) creator), Abi_Bytes32 salt])"

text \<open>The factory's \<open>markets(cid)\<close> struct, and the plain row made of it.\<close>

record market_struct =
  ms_condition_id :: string
  ms_parent :: string
  ms_close_time :: int
  ms_market_type :: int
  ms_paused :: bool
  ms_question :: string

record chain_row =
  cw_condition_id :: string
  cw_parent_condition_id :: string
  cw_close_time :: int
  cw_market_type :: int
  cw_paused :: "bool option"
  cw_question :: string

definition parent_text :: "string \<Rightarrow> string" where
  "parent_text parent = (if parent = ZERO32 then [] else to_hex32 parent)"

definition market_row_from_struct :: "market_struct \<Rightarrow> chain_row" where
  "market_row_from_struct m = \<lparr> cw_condition_id = to_hex32 (ms_condition_id m),
     cw_parent_condition_id = parent_text (ms_parent m), cw_close_time = ms_close_time m,
     cw_market_type = ms_market_type m, cw_paused = Some (ms_paused m), cw_question = ms_question m \<rparr>"

section \<open>Transactions\<close>

datatype op_call =
    Faucet int
  | Approve string int
  | Create_Primary string int string int
  | Create_Wildcard string string int string int
  | Set_Paused string bool

record op_tx =
  ot_call :: op_call
  ot_nonce :: int
  ot_gas :: int
  ot_gas_price :: int

text \<open>A receipt: its status and the arguments of its first \<open>MarketCreated\<close> log.\<close>

record receipt_view =
  rv_status :: int
  rv_created :: "market_struct option"

type_synonym 'a try_answer = "nat \<Rightarrow> string + 'a"

record op_env =
  oe_abi :: abi_libs
  oe_settings :: settings
  oe_config :: "string + (string \<Rightarrow> string option)"
  oe_connected :: "nat \<Rightarrow> bool"
  oe_ctf :: "string try_answer"
  oe_oracle :: "string try_answer"
  oe_exists :: "string \<Rightarrow> bool try_answer"
  oe_market :: "string \<Rightarrow> market_struct try_answer"
  oe_slots :: "string \<Rightarrow> int try_answer"
  oe_balance :: "int try_answer"
  oe_allowance :: "int try_answer"
  oe_nonce :: "int try_answer"
  oe_gas_price :: "int try_answer"
  oe_build :: "op_tx \<Rightarrow> unit try_answer"
  oe_receipt :: "op_tx \<Rightarrow> receipt_view try_answer"
  oe_close_time :: "string \<Rightarrow> int try_answer"

record op_state =
  op_calls :: nat
  op_sent :: "op_tx list"

type_synonym 'a op = "(op_state, string + 'a) state"

definition op_ask :: "'a try_answer \<Rightarrow> 'a op" where
  "op_ask f = State (\<lambda>st. (f (op_calls st), st\<lparr>op_calls := Suc (op_calls st)\<rparr>))"

text \<open>\<open>except Exception as e: raise HTTPException(500, f"..{type(e).__name__}")\<close>.\<close>

definition or_raise :: "int \<Rightarrow> string \<Rightarrow> 'a op \<Rightarrow> (op_state, 'a http) state" where
  "or_raise status what m = State_Monad.bind m (\<lambda>r. case r of
     Inl ty \<Rightarrow> raise (HTTPException status (what @ ty)) | Inr x \<Rightarrow> ok x)"

definition hand_over :: "op_tx \<Rightarrow> unit op" where
  "hand_over tx = State (\<lambda>st. (Inr (), st\<lparr>op_sent := op_sent st @ [tx]\<rparr>))"

text \<open>\<open>_operator_tx\<close>: the transaction is handed to the node once it could be built.\<close>

definition operator_tx :: "op_env \<Rightarrow> op_call \<Rightarrow> int \<Rightarrow> receipt_view op" where
  "operator_tx E call gas =
     op_then (op_ask (oe_nonce E)) (\<lambda>nonce.
     op_then (op_ask (oe_gas_price E)) (\<lambda>gas_price.
     let tx = \<lparr> ot_call = call, ot_nonce = nonce, ot_gas = gas, ot_gas_price = gas_price \<rparr> in
     op_then (op_ask (oe_build E tx)) (\<lambda>_.
     op_then (hand_over tx) (\<lambda>_.
     op_ask (oe_receipt E tx)))))"

section \<open>POST /markets\<close>

definition AMM_MIN_LP :: int where "AMM_MIN_LP = 10 ^ 4"
definition APPROVE_HEADROOM :: int where "APPROVE_HEADROOM = 100"

record create_in =
  ci_question :: string
  ci_resolution_criteria :: string
  ci_close_time :: int
  ci_question_id :: string
  ci_parent_condition_id :: string
  ci_seed_usdc :: int
  ci_market_type :: int
  ci_suggested_probability :: rat

definition approve_amount :: "int \<Rightarrow> int" where
  "approve_amount seed = seed * APPROVE_HEADROOM"

definition must_connect :: "op_env \<Rightarrow> (op_state, unit http) state" where
  "must_connect E = State_Monad.bind (op_ask (\<lambda>n. Inr (oe_connected E n))) (\<lambda>r. case r of
     Inr True \<Rightarrow> ok () | _ \<Rightarrow> raise (HTTPException 500 ''RPC not available''))"

text \<open>The result is the factory's address. A private key that does not parse is an unhandled exception.\<close>

definition load_factory_chain :: "op_env \<Rightarrow> (op_state, string http) state" where
  "load_factory_chain E =
     (case oe_config E of
        Inl err \<Rightarrow> raise (HTTPException 500 (''failed to load contract config: '' @ err))
      | Inr addresses \<Rightarrow>
          (case (addresses ''MarketFactory'', addresses ''MockUSDC'') of
             (Some factory, Some usdc) \<Rightarrow>
               op_then (must_connect E) (\<lambda>_.
               if lib_from_key (ab_libs (oe_abi E)) (s_operator_private_key (oe_settings E)) = None
               then raise (HTTPException 500 ''Internal Server Error'') else
               op_then (or_raise 500 ''failed to read factory ctf(): '' (op_ask (oe_ctf E))) (\<lambda>_.
               ok factory))
           | _ \<Rightarrow> raise (HTTPException 500 ''MarketFactory or MockUSDC address not configured'')))"

definition read_factory_market :: "op_env \<Rightarrow> string \<Rightarrow> chain_row option op" where
  "read_factory_market E cid =
     op_then (op_ask (oe_exists E cid)) (\<lambda>there.
     if \<not> there then ok None
     else op_then (op_ask (oe_market E cid)) (\<lambda>m. ok (Some (market_row_from_struct m))))"

definition create_call :: "create_in \<Rightarrow> string \<Rightarrow> string \<Rightarrow> op_call" where
  "create_call body question_id parent =
     (if ci_market_type body = 0
      then Create_Primary question_id (ci_close_time body) (ci_question body) (ci_seed_usdc body)
      else Create_Wildcard question_id parent (ci_close_time body) (ci_question body) (ci_seed_usdc body))"

datatype create_kind = Existing | Created

text \<open>A transaction that must succeed: \<open>what\<close> is the message of a raise, \<open>reverted\<close> the one of status 0.\<close>

definition must_send :: "op_env \<Rightarrow> string \<Rightarrow> string \<Rightarrow> op_call \<Rightarrow> int \<Rightarrow> (op_state, receipt_view http) state" where
  "must_send E what reverted call gas =
     op_then (or_raise 500 what (operator_tx E call gas)) (\<lambda>receipt.
     if rv_status receipt \<noteq> 1 then raise (HTTPException 500 reverted) else ok receipt)"

text \<open>Whether the market is on the factory, and else whether its condition is prepared elsewhere.\<close>

definition factory_state :: "op_env \<Rightarrow> string \<Rightarrow> (chain_row option \<times> bool) op" where
  "factory_state E question_id =
     op_then (op_ask (oe_oracle E)) (\<lambda>oracle.
     case from_hex (drop 2 (condition_id_for (oe_abi E) oracle question_id)) of
       None \<Rightarrow> raise ''ValueError''
     | Some cid \<Rightarrow>
         op_then (read_factory_market E cid) (\<lambda>onchain.
         if onchain \<noteq> None then ok (onchain, False)
         else op_then (op_ask (oe_slots E cid)) (\<lambda>slots. ok (None, slots \<noteq> 0))))"

text \<open>Faucet and approve as needed, then the create itself.\<close>

definition send_create :: "op_env \<Rightarrow> create_in \<Rightarrow> string \<Rightarrow> string \<Rightarrow> string \<Rightarrow> (op_state, (create_kind \<times> chain_row) http) state" where
  "send_create E body question_id parent factory =
     op_then (or_raise 500 ''failed to read operator USDC state: '' (op_ask (oe_balance E))) (\<lambda>balance.
     op_then (or_raise 500 ''failed to read operator USDC state: '' (op_ask (oe_allowance E))) (\<lambda>allowance.
     op_then (if balance < ci_seed_usdc body
       then op_then (must_send E ''failed to fund operator: '' ''failed to fund operator: faucet transaction failed''
          (Faucet (ci_seed_usdc body)) 100000) (\<lambda>_. ok ())
       else ok ()) (\<lambda>_.
     op_then (if allowance < ci_seed_usdc body
       then op_then (must_send E ''failed to approve USDC: '' ''failed to approve USDC: approve transaction failed''
          (Approve factory (approve_amount (ci_seed_usdc body))) 100000) (\<lambda>_. ok ())
       else ok ()) (\<lambda>_.
     op_then (must_send E ''failed to create market on chain: '' ''market creation transaction failed''
       (create_call body question_id parent) 1000000) (\<lambda>receipt.
     case rv_created receipt of
       None \<Rightarrow> raise (HTTPException 500 ''no MarketCreated event in receipt'')
     | Some event \<Rightarrow> ok (Created, (market_row_from_struct event)\<lparr>cw_paused := None\<rparr>))))))"

definition create_on_chain :: "op_env \<Rightarrow> create_in \<Rightarrow> string \<Rightarrow> string \<Rightarrow> (op_state, (create_kind \<times> chain_row) http) state" where
  "create_on_chain E body question_id parent =
     op_then (load_factory_chain E) (\<lambda>factory.
     op_then (or_raise 500 ''failed to read factory state: '' (factory_state E question_id)) (\<lambda>(onchain, elsewhere).
     case onchain of
       Some row \<Rightarrow> ok (Existing, row)
     | None \<Rightarrow>
         if elsewhere then raise (HTTPException 409 ''condition prepared outside this factory'')
         else send_create E body question_id parent factory))"

text \<open>\<open>_upsert_market_row\<close>: the row inserted, or the stored one with the chain's fields.\<close>

definition upsert_market_row :: "dbase \<Rightarrow> chain_row \<Rightarrow> create_in \<Rightarrow> market \<times> dbase" where
  "upsert_market_row db row body =
     (case get_market (cw_condition_id row) db of
        None \<Rightarrow>
          let m = \<lparr> m_condition_id = cw_condition_id row, m_parent_condition_id = cw_parent_condition_id row,
                m_question = cw_question row, m_resolution_criteria = ci_resolution_criteria body,
                m_market_type = cw_market_type row, m_close_time = cw_close_time row,
                m_paused = (cw_paused row = Some True), m_resolved = False, m_payout_yes = 0, m_payout_no = 0,
                m_suggested_probability = ci_suggested_probability body \<rparr>
          in (m, db\<lparr>d_markets := insert_ignore m_condition_id m (d_markets db)\<rparr>)
      | Some old \<Rightarrow>
          let m = old\<lparr>m_question := cw_question row, m_market_type := cw_market_type row,
                m_close_time := cw_close_time row, m_parent_condition_id := cw_parent_condition_id row,
                m_paused := (case cw_paused row of None \<Rightarrow> m_paused old | Some p \<Rightarrow> p),
                m_resolution_criteria := (if ci_resolution_criteria body = [] then m_resolution_criteria old
                  else ci_resolution_criteria body),
                m_suggested_probability := ci_suggested_probability body\<rparr>
          in (m, db\<lparr>d_markets := put_row m_condition_id m (d_markets db)\<rparr>))"

definition create_market ::
  "op_env \<Rightarrow> int \<Rightarrow> dbase \<Rightarrow> user http \<Rightarrow> create_in \<Rightarrow> op_state \<Rightarrow> market_public http \<times> dbase \<times> op_state" where
  "create_market E now db who body st =
     (let s = oe_settings E in
      case bind_http (require_operator who) (\<lambda>_.
        if s_operator_private_key s = [] then Inl (HTTPException 500 ''operator_private_key not configured'')
        else if ci_seed_usdc body < AMM_MIN_LP
        then Inl (HTTPException 422 (''seed_usdc must be at least '' @ py_str AMM_MIN_LP @ '' (MarketAMM MIN_LP, base units)''))
        else if ci_market_type body \<notin> {0, 1} then Inl (HTTPException 400 ''user markets use /markets/listing'')
        else bind_http (hex32 (ci_question_id body) ''question_id'') (\<lambda>question_id.
          if ci_market_type body = 1
          then bind_http (hex32 (ci_parent_condition_id body) ''parent_condition_id'') (\<lambda>parent. Inr (question_id, parent))
          else Inr (question_id, []))) of
        Inl e \<Rightarrow> (Inl e, db, st)
      | Inr (question_id, parent) \<Rightarrow>
          (case run_state (create_on_chain E body question_id parent) st of
             (Inl e, st') \<Rightarrow> (Inl e, db, st')
           | (Inr (kind, row), st') \<Rightarrow>
               (case upsert_market_row db row body of (m, db') \<Rightarrow> (Inr (public s now m None), db', st'))))"

section \<open>POST /markets/{id}/pause and /archive\<close>

definition pause_on_chain :: "op_env \<Rightarrow> string \<Rightarrow> (op_state, unit http) state" where
  "pause_on_chain E cid =
     (case oe_config E of
        Inl ty \<Rightarrow> raise (HTTPException 500 (''failed to load contract config: '' @ ty))
      | Inr addresses \<Rightarrow>
          if addresses ''MarketFactory'' = None then raise (HTTPException 500 ''MarketFactory address not configured'')
          else op_then (must_connect E) (\<lambda>_.
               if lib_from_key (ab_libs (oe_abi E)) (s_operator_private_key (oe_settings E)) = None
               then raise (HTTPException 500 ''Internal Server Error'') else
               op_then (must_send E ''failed to pause market on chain: '' ''setPaused transaction failed''
                 (Set_Paused cid True) 100000) (\<lambda>_. ok ())))"

definition pause_market ::
  "op_env \<Rightarrow> int \<Rightarrow> dbase \<Rightarrow> user http \<Rightarrow> string \<Rightarrow> op_state \<Rightarrow> market_public http \<times> dbase \<times> op_state" where
  "pause_market E now db who condition_id st =
     (case require_operator who of
        Inl e \<Rightarrow> (Inl e, db, st)
      | Inr _ \<Rightarrow>
      case get_market condition_id db of
        None \<Rightarrow> (Inl (HTTPException 404 ''market not found''), db, st)
      | Some m \<Rightarrow>
      if s_operator_private_key (oe_settings E) = []
      then (Inl (HTTPException 500 ''operator_private_key not configured''), db, st)
      else case hex32 condition_id ''condition_id'' of
        Inl e \<Rightarrow> (Inl e, db, st)
      | Inr cid \<Rightarrow>
      (case run_state (pause_on_chain E cid) st of
         (Inl e, st') \<Rightarrow> (Inl e, db, st')
       | (Inr _, st') \<Rightarrow>
           let m' = m\<lparr>m_paused := True\<rparr> in
           (Inr (public (oe_settings E) now m' None), db\<lparr>d_markets := put_row m_condition_id m' (d_markets db)\<rparr>, st')))"

definition oracle_close_time :: "op_env \<Rightarrow> string \<Rightarrow> (op_state, int http) state" where
  "oracle_close_time E cid =
     (case oe_config E of
        Inl ty \<Rightarrow> raise (HTTPException 503 (''failed to load contract config: '' @ ty))
      | Inr addresses \<Rightarrow>
          if addresses ''ConsensusOracle'' = None
          then raise (HTTPException 503 ''ConsensusOracle address not configured'')
          else State_Monad.bind (op_ask (oe_close_time E cid)) (\<lambda>r. case r of
            Inl ty \<Rightarrow> raise (HTTPException 503 ''chain unavailable'') | Inr t \<Rightarrow> ok t))"

definition archive_market ::
  "op_env \<Rightarrow> int \<Rightarrow> dbase \<Rightarrow> user http \<Rightarrow> string \<Rightarrow> op_state \<Rightarrow> market_public http \<times> dbase \<times> op_state" where
  "archive_market E now db who condition_id st =
     (let cid = norm_cid condition_id in
      case require_operator who of
        Inl e \<Rightarrow> (Inl e, db, st)
      | Inr _ \<Rightarrow>
      case get_market cid db of
        None \<Rightarrow> (Inl (HTTPException 404 ''market not found''), db, st)
      | Some m \<Rightarrow>
      case hex32 cid ''condition_id'' of
        Inl e \<Rightarrow> (Inl e, db, st)
      | Inr raw \<Rightarrow>
      (case run_state (oracle_close_time E raw) st of
         (Inl e, st') \<Rightarrow> (Inl e, db, st')
       | (Inr t, st') \<Rightarrow>
           if t \<noteq> 0
           then (Inl (HTTPException 409 ''market is registered on the configured oracle; pause it on the factory instead''), db, st')
           else
             let m' = m\<lparr>m_paused := True\<rparr> in
             (Inr (public (oe_settings E) now m' None),
              db\<lparr>d_markets := put_row m_condition_id m' (d_markets db),
                d_schedule := update_where (\<lambda>g. g_listed_condition_id g = cid)
                  (\<lambda>g. g\<lparr>g_listed_condition_id := []\<rparr>) (d_schedule db)\<rparr>, st')))"

section \<open>What a computation hands over\<close>

abbreviation op_wp :: "(op_state, 'r) state \<Rightarrow> ('r \<Rightarrow> op_call list \<Rightarrow> bool) \<Rightarrow> bool" where
  "op_wp \<equiv> sends_wp (\<lambda>st. map ot_call (op_sent st))"

lemma wp_ask: "(\<And>r. Q r []) \<Longrightarrow> op_wp (op_ask f) Q"
  by (simp add: sends_wp_def op_ask_def)

lemma wp_hand_over: "Q (Inr ()) [ot_call tx] \<Longrightarrow> op_wp (hand_over tx) Q"
  by (simp add: sends_wp_def hand_over_def)

lemma wp_or_raise:
  assumes "op_wp m (\<lambda>r cs. (\<forall>e. Q (Inl e) cs) \<and> (\<forall>x. r = Inr x \<longrightarrow> Q (Inr x) cs))"
  shows "op_wp (or_raise status what m) Q"
  unfolding or_raise_def
  by (rule wp_bind, rule sends_mono [OF assms]) (auto intro: wp_ok wp_raise split: sum.splits)

lemma wp_read: "(\<And>e. Q (Inl e) []) \<Longrightarrow> (\<And>x. op_wp (f x) Q) \<Longrightarrow> op_wp (op_then (or_raise status what (op_ask g)) f) Q"
  by (intro wp_then wp_or_raise wp_ask) simp

lemma wp_must_send:
  assumes "\<And>e. Q (Inl e) []" and "\<And>e. Q (Inl e) [call]" and "\<And>r. rv_status r = 1 \<Longrightarrow> Q (Inr r) [call]"
  shows "op_wp (must_send E what reverted call gas) Q"
  unfolding must_send_def operator_tx_def Let_def
  using assms by (intro wp_then wp_or_raise wp_ask) (auto intro!: wp_then wp_ask wp_hand_over wp_ok wp_raise split: sum.splits)

text \<open>The transactions of a create, from the operator's balance and the factory's allowance.\<close>

definition create_plan :: "string \<Rightarrow> create_in \<Rightarrow> string \<Rightarrow> string \<Rightarrow> int \<Rightarrow> int \<Rightarrow> op_call list" where
  "create_plan factory body question_id parent balance allowance =
     (if balance < ci_seed_usdc body then [Faucet (ci_seed_usdc body)] else []) @
     (if allowance < ci_seed_usdc body then [Approve factory (approve_amount (ci_seed_usdc body))] else []) @
     [create_call body question_id parent]"

definition create_sends :: "create_in \<Rightarrow> string \<Rightarrow> string \<Rightarrow> (create_kind \<times> chain_row) http \<Rightarrow> op_call list \<Rightarrow> bool" where
  "create_sends body question_id parent r cs =
     (case r of
        Inr (Existing, row) \<Rightarrow> cs = []
      | Inr (Created, row) \<Rightarrow> \<exists>factory balance allowance. cs = create_plan factory body question_id parent balance allowance
      | Inl e \<Rightarrow> \<exists>factory balance allowance. prefix cs (create_plan factory body question_id parent balance allowance))"

lemma create_sends_Nil: "create_sends body q p (Inl e) []" "create_sends body q p (Inr (Existing, row)) []"
  by (simp_all add: create_sends_def)

lemma create_sends_prefix: "prefix cs (create_plan factory body q p balance allowance) \<Longrightarrow> create_sends body q p (Inl e) cs"
  by (auto simp: create_sends_def)

lemma create_sends_plan: "create_sends body q p (Inr (Created, row)) (create_plan factory body q p balance allowance)"
  by (auto simp: create_sends_def)

lemma wp_load: "op_wp (load_factory_chain E) (\<lambda>r cs. cs = [])"
  unfolding load_factory_chain_def must_connect_def
  by (auto intro!: wp_raise wp_then wp_bind wp_ask wp_ok wp_or_raise split: sum.splits option.splits bool.splits)

lemma wp_factory_state: "op_wp (factory_state E q) (\<lambda>r cs. cs = [])"
  unfolding factory_state_def read_factory_market_def
  by (auto intro!: wp_raise wp_then wp_ask wp_ok split: sum.splits option.splits)

lemma wp_when:
  assumes "b \<Longrightarrow> op_wp m (\<lambda>r cs. case r of Inl e \<Rightarrow> Q (Inl e) cs | Inr x \<Rightarrow> Q (Inr ()) cs)" and "\<not> b \<Longrightarrow> Q (Inr ()) []"
  shows "op_wp (if b then op_then m (\<lambda>_. ok ()) else ok ()) Q"
  using assms by (auto intro!: wp_then wp_ok elim!: sends_mono split: sum.splits)

lemma wp_when_send:
  assumes "b \<Longrightarrow> Q (Inr ()) [call]" and "\<not> b \<Longrightarrow> Q (Inr ()) []" and "b \<Longrightarrow> (\<And>e. Q (Inl e) [] \<and> Q (Inl e) [call])"
  shows "op_wp (if b then op_then (must_send E what reverted call gas) (\<lambda>_. ok ()) else ok ()) Q"
  using assms by (intro wp_when wp_must_send) auto

lemma planned:
  assumes "pre @ rest = create_plan factory body q p balance allowance"
  shows "create_sends body q p (Inl e) pre"
  by (rule create_sends_prefix [of _ factory _ _ _ balance allowance], rule prefixI [of _ _ rest]) (simp add: assms)

lemma wp_create_tail:
  assumes plan: "pre @ [create_call body q p] = create_plan factory body q p balance allowance"
  shows "op_wp (op_then (must_send E what reverted (create_call body q p) gas) (\<lambda>receipt. case rv_created receipt of
       None \<Rightarrow> raise e1 | Some event \<Rightarrow> ok (Created, row event))) (\<lambda>r cs. create_sends body q p r (pre @ cs))"
proof -
  have "create_sends body q p (Inl e) pre" for e using planned [OF plan] .
  moreover have "create_sends body q p (Inl e) (pre @ [create_call body q p])" for e
    using planned [of "pre @ [create_call body q p]" "[]"] plan by simp
  moreover have "create_sends body q p (Inr (Created, row')) (pre @ [create_call body q p])" for row'
    using create_sends_plan plan by metis
  ultimately show ?thesis
    by (intro wp_then wp_must_send) (auto intro!: wp_ok wp_raise split: option.splits)
qed

lemma send_create_sends: "op_wp (send_create E body q p factory) (create_sends body q p)"
proof -
  let ?fund = "\<lambda>balance. if balance < ci_seed_usdc body then [Faucet (ci_seed_usdc body)] else []"
  let ?approve = "Approve factory (approve_amount (ci_seed_usdc body))"
  let ?tail = "op_then (must_send E ''failed to create market on chain: '' ''market creation transaction failed''
       (create_call body q p) 1000000) (\<lambda>receipt. case rv_created receipt of
       None \<Rightarrow> raise (HTTPException 500 ''no MarketCreated event in receipt'')
     | Some event \<Rightarrow> ok (Created, (market_row_from_struct event)\<lparr>cw_paused := None\<rparr>))"
  have second: "op_wp (op_then (if allowance < ci_seed_usdc body
       then op_then (must_send E ''failed to approve USDC: '' ''failed to approve USDC: approve transaction failed''
          ?approve 100000) (\<lambda>_. ok ()) else ok ()) (\<lambda>_. ?tail)) (\<lambda>r cs. create_sends body q p r (?fund balance @ cs))"
    for balance allowance
  proof (cases "allowance < ci_seed_usdc body")
    case True
    then have plan: "?fund balance @ [?approve, create_call body q p] = create_plan factory body q p balance allowance"
      by (simp add: create_plan_def)
    have "create_sends body q p (Inl e) (?fund balance)" "create_sends body q p (Inl e) (?fund balance @ [?approve])" for e
      using planned [OF plan] planned [of "?fund balance @ [?approve]" "[create_call body q p]"] plan by simp_all
    moreover have "op_wp ?tail (\<lambda>r cs. create_sends body q p r ((?fund balance @ [?approve]) @ cs))"
      using plan by (intro wp_create_tail) simp
    ultimately show ?thesis using True by (intro wp_then wp_when_send) simp_all
  next
    case False
    then have plan: "?fund balance @ [create_call body q p] = create_plan factory body q p balance allowance"
      by (simp add: create_plan_def)
    show ?thesis using False wp_create_tail [OF plan] by (intro wp_then wp_when_send) simp_all
  qed
  have first: "create_sends body q p (Inl e) (?fund balance)" for e balance
    using planned [of "?fund balance" "[create_call body q p]" factory body q p balance "ci_seed_usdc body"]
    by (simp add: create_plan_def)
  have whole: "op_wp (op_then (if balance < ci_seed_usdc body
       then op_then (must_send E ''failed to fund operator: '' ''failed to fund operator: faucet transaction failed''
          (Faucet (ci_seed_usdc body)) 100000) (\<lambda>_. ok ()) else ok ()) (\<lambda>_.
     op_then (if allowance < ci_seed_usdc body
       then op_then (must_send E ''failed to approve USDC: '' ''failed to approve USDC: approve transaction failed''
          ?approve 100000) (\<lambda>_. ok ()) else ok ()) (\<lambda>_. ?tail))) (create_sends body q p)" for balance allowance
  proof (cases "balance < ci_seed_usdc body")
    case True
    then show ?thesis
      using second [of allowance balance] first [of _ balance] by (intro wp_then wp_when_send) (simp_all add: create_sends_Nil)
  next
    case False
    then show ?thesis
      using second [of allowance balance] by (intro wp_then wp_when_send) simp_all
  qed
  show ?thesis
    unfolding send_create_def by (intro wp_read whole create_sends_Nil)
qed

lemma create_on_chain_sends: "op_wp (create_on_chain E body q p) (create_sends body q p)"
  unfolding create_on_chain_def
  by (rule wp_then, rule sends_mono [OF wp_load], clarsimp simp: create_sends_Nil split: sum.split,
      rule wp_then, rule wp_or_raise, rule sends_mono [OF wp_factory_state])
     (auto simp: create_sends_Nil intro!: wp_ok wp_raise sends_mono [OF send_create_sends] split: option.splits)

lemma upsert_market_row_stored:
  assumes "upsert_market_row db row body = (m, db')"
  shows "get_market (m_condition_id m) db' = Some m \<and> m_condition_id m = cw_condition_id row \<and>
    m_question m = cw_question row \<and> m_close_time m = cw_close_time row \<and> m_market_type m = cw_market_type row"
proof (cases "get_market (cw_condition_id row) db")
  case None
  then show ?thesis using assms by (auto simp: upsert_market_row_def get_insert_ignore Let_def)
next
  case (Some old)
  then have "m_condition_id old = cw_condition_id row" using get_row_Some by metis
  with Some assms show ?thesis by (auto simp: upsert_market_row_def Let_def get_row_put_row)
qed

section \<open>Properties\<close>

text \<open>
  POST /markets hands over no transaction when the market is on the factory
  already, and otherwise at most one faucet, one approve and one create, in this order, the first two only
  when the balance or the allowance is short; it answers with a market only if the whole plan went through
  (or nothing was to send) and that market is then in the database, and with an error it leaves the
  database alone.
\<close>

theorem create_sends_only_what_is_needed:
  assumes "create_market E now db who body st = (res, db', st')"
  shows "\<exists>cs. map ot_call (op_sent st') = map ot_call (op_sent st) @ cs \<and>
    (case res of
       Inl e \<Rightarrow> db' = db \<and> (\<exists>q p factory balance allowance. prefix cs (create_plan factory body q p balance allowance))
     | Inr shown \<Rightarrow> (cs = [] \<or> (\<exists>q p factory balance allowance. cs = create_plan factory body q p balance allowance)) \<and>
         (\<exists>m. get_market (mp_condition_id shown) db' = Some m \<and> shown = public (oe_settings E) now m None))"
proof (cases "st' = st \<and> db' = db \<and> (\<exists>e. res = Inl e)")
  case True
  then show ?thesis by (intro exI [of _ "[]"]) auto
next
  case False
  with assms obtain q p r st1 where run: "run_state (create_on_chain E body q p) st = (r, st1)"
    and res: "(res, db', st') = (case r of Inl e \<Rightarrow> (Inl e, db, st1)
      | Inr (kind, row) \<Rightarrow> (case upsert_market_row db row body of (m, db') \<Rightarrow> (Inr (public (oe_settings E) now m None), db', st1)))"
    by (auto simp: create_market_def Let_def split: sum.splits prod.splits)
  obtain cs where ys: "map ot_call (op_sent st1) = map ot_call (op_sent st) @ cs" "create_sends body q p r cs"
    using sends_wpD [OF create_on_chain_sends run] by blast
  show ?thesis
  proof (cases r)
    case (Inl e)
    then have "\<exists>factory balance allowance. prefix cs (create_plan factory body q p balance allowance)"
      using ys(2) by (simp add: create_sends_def)
    then have "\<exists>q p factory balance allowance. prefix cs (create_plan factory body q p balance allowance)"
      by - (rule exI [where x = q], rule exI [where x = p], assumption)
    with Inl res ys(1) show ?thesis by (intro exI [of _ "cs"]) simp
  next
    case (Inr kr)
    obtain kind row where kr: "kr = (kind, row)" by (cases kr)
    obtain m dbm where up: "upsert_market_row db row body = (m, dbm)" by (metis prod.exhaust)
    have "mp_condition_id (public (oe_settings E) now m None) = m_condition_id m" by (simp add: public_def)
    with upsert_market_row_stored [OF up] have "\<exists>m'. get_market (mp_condition_id (public (oe_settings E) now m None)) dbm = Some m' \<and>
        public (oe_settings E) now m None = public (oe_settings E) now m' None" by auto
    moreover have "cs = [] \<or> (\<exists>factory balance allowance. cs = create_plan factory body q p balance allowance)"
      using ys(2) Inr kr by (simp add: create_sends_def split: create_kind.splits)
    then have "cs = [] \<or> (\<exists>q p factory balance allowance. cs = create_plan factory body q p balance allowance)"
      by (elim disj_forward) (assumption, rule exI [where x = q], rule exI [where x = p], assumption)
    ultimately show ?thesis using res ys(1) Inr kr up by (intro exI [of _ "cs"]) simp
  qed
qed

text \<open>A create with an empty purse: faucet, approve and create are sent.\<close>

definition ex_create :: create_in where
  "ex_create = \<lparr> ci_question = ''Rain?'', ci_resolution_criteria = [], ci_close_time = 100,
     ci_question_id = ''0x'' @ replicate 64 (CHR ''1''), ci_parent_condition_id = [], ci_seed_usdc = 20000,
     ci_market_type = 0, ci_suggested_probability = 1 / 2 \<rparr>"

definition ex_op_env :: op_env where
  "ex_op_env = \<lparr> oe_abi = \<lparr> ab_libs = ex_libs, ab_keccak = (\<lambda>t. replicate 32 (CHR ''k'')), ab_encode = (\<lambda>vs. []) \<rparr>,
     oe_settings = default_settings\<lparr>s_operator_private_key := ''key''\<rparr>,
     oe_config = Inr [''MarketFactory'' \<mapsto> ''0xF'', ''MockUSDC'' \<mapsto> ''0xU''], oe_connected = (\<lambda>n. True),
     oe_ctf = (\<lambda>n. Inr ''0xC''), oe_oracle = (\<lambda>n. Inr ''0xO''), oe_exists = (\<lambda>cid n. Inr False),
     oe_market = (\<lambda>cid n. Inl ''BadFunctionCallOutput''), oe_slots = (\<lambda>cid n. Inr 0), oe_balance = (\<lambda>n. Inr 0),
     oe_allowance = (\<lambda>n. Inr 0), oe_nonce = (\<lambda>n. Inr (int n)), oe_gas_price = (\<lambda>n. Inr 1), oe_build = (\<lambda>tx n. Inr ()),
     oe_receipt = (\<lambda>tx n. Inr \<lparr> rv_status = 1, rv_created = Some \<lparr> ms_condition_id = replicate 32 (CHR ''k''), ms_parent = ZERO32,
       ms_close_time = 100, ms_market_type = 0, ms_paused = False, ms_question = ''Rain?'' \<rparr> \<rparr>),
     oe_close_time = (\<lambda>cid n. Inr 0) \<rparr>"

definition ex_operator :: user where
  "ex_operator = \<lparr> u_id = 1, u_address = ''0xop'', u_is_operator = True, u_cdp_user_id = [] \<rparr>"

theorem create_sends_only_what_is_needed_witness:
  "\<exists>cs. map ot_call (op_sent (snd (snd (create_market ex_op_env 0 empty_db (Inr ex_operator) ex_create \<lparr> op_calls = 0, op_sent = [] \<rparr>)))) = [] @ cs \<and>
    (case fst (create_market ex_op_env 0 empty_db (Inr ex_operator) ex_create \<lparr> op_calls = 0, op_sent = [] \<rparr>) of
       Inl e \<Rightarrow> (\<exists>q p factory balance allowance. prefix cs (create_plan factory ex_create q p balance allowance))
     | Inr shown \<Rightarrow> cs = [] \<or> (\<exists>q p factory balance allowance. cs = create_plan factory ex_create q p balance allowance))"
  using create_sends_only_what_is_needed [of ex_op_env 0 empty_db "Inr ex_operator" ex_create "\<lparr> op_calls = 0, op_sent = [] \<rparr>"
      "fst (create_market ex_op_env 0 empty_db (Inr ex_operator) ex_create \<lparr> op_calls = 0, op_sent = [] \<rparr>)"
      "fst (snd (create_market ex_op_env 0 empty_db (Inr ex_operator) ex_create \<lparr> op_calls = 0, op_sent = [] \<rparr>))"
      "snd (snd (create_market ex_op_env 0 empty_db (Inr ex_operator) ex_create \<lparr> op_calls = 0, op_sent = [] \<rparr>))"]
  by (auto split: sum.splits)

end
