(* ===== verification/Listing.thy ===== *)
theory Listing
  imports Operator
begin

text \<open>
  User market listing (\<open>backend/app/markets/listing.py\<close>): config, eligibility, prepare, confirm and the
  operator's review. The factory's views are answers of \<open>factory_reads\<close>, with \<open>None\<close> for an exception;
  one request reads each view once. The salt is the random bytes the request drew. A handler returns its
  reply or error and the database it leaves.
\<close>

section \<open>The factory's answers\<close>

record factory_reads =
  fr_address :: string
  fr_permissionless :: "bool option"
  fr_oracle :: "string option"
  fr_usdc :: "string option"
  fr_fee_recipient :: "string option"
  fr_min_seed_usdc :: "int option"
  fr_listing_fee_usdc :: "int option"
  fr_min_lead_time :: "int option"
  fr_max_horizon :: "int option"
  fr_listing_cooldown :: "int option"
  fr_lister_allowed :: "string \<Rightarrow> bool option"
  fr_last_listed_at :: "string \<Rightarrow> int option"
  fr_user_condition_id :: "string \<Rightarrow> string \<Rightarrow> string option"
  fr_market_exists :: "string \<Rightarrow> bool option"
  fr_markets :: "string \<Rightarrow> market_struct option"
  fr_creator_of :: "string \<Rightarrow> string option"
  fr_criteria_hash_of :: "string \<Rightarrow> string option"
  fr_seed_of :: "string \<Rightarrow> int option"

text \<open>\<open>le_config\<close> is the contract address file, with the text of the exception on the left.\<close>

record listing_env =
  le_abi :: abi_libs
  le_settings :: settings
  le_config :: "string + (string \<Rightarrow> string option)"
  le_factory :: factory_reads

definition load_factory_reader :: "listing_env \<Rightarrow> factory_reads http" where
  "load_factory_reader E =
     (case le_config E of
        Inl err \<Rightarrow> Inl (HTTPException 500 (''failed to load contract config: '' @ err))
      | Inr addresses \<Rightarrow>
          if addresses ''MarketFactory'' = None
          then Inl (HTTPException 503 ''MarketFactory address not configured'')
          else Inr (le_factory E))"

definition unavailable :: "'a option \<Rightarrow> 'a http" where
  "unavailable r = (case r of None \<Rightarrow> Inl (HTTPException 503 ''chain unavailable'') | Some x \<Rightarrow> Inr x)"

section \<open>Config\<close>

record listing_config =
  lc_permissionless :: bool
  lc_factory :: string
  lc_usdc :: string
  lc_oracle :: string
  lc_fee_recipient :: string
  lc_min_seed_usdc :: int
  lc_listing_fee_usdc :: int
  lc_min_lead_seconds :: int
  lc_max_horizon_seconds :: int
  lc_cooldown_seconds :: int

definition config_bounds :: "listing_config \<Rightarrow> listing_bounds" where
  "config_bounds cfg = \<lparr> min_seed_usdc = lc_min_seed_usdc cfg, min_lead_seconds = lc_min_lead_seconds cfg,
     max_horizon_seconds = lc_max_horizon_seconds cfg \<rparr>"

text \<open>\<open>None\<close> is an exception; \<open>Some None\<close> a factory without the listing views.\<close>

definition read_listing_config :: "listing_env \<Rightarrow> factory_reads \<Rightarrow> listing_config option option" where
  "read_listing_config E f =
     (case fr_permissionless f of
        None \<Rightarrow> (case fr_oracle f of None \<Rightarrow> None | Some _ \<Rightarrow> Some None)
      | Some permissionless \<Rightarrow>
          Option.bind (fr_usdc f) (\<lambda>usdc.
          Option.bind (fr_oracle f) (\<lambda>oracle.
          Option.bind (fr_fee_recipient f) (\<lambda>fee_recipient.
          Option.bind (fr_min_seed_usdc f) (\<lambda>min_seed.
          Option.bind (fr_listing_fee_usdc f) (\<lambda>fee.
          Option.bind (fr_min_lead_time f) (\<lambda>lead.
          Option.bind (fr_max_horizon f) (\<lambda>horizon.
          Option.bind (fr_listing_cooldown f) (\<lambda>cooldown.
          Some (Some \<lparr> lc_permissionless = permissionless,
            lc_factory = lib_checksum (ab_libs (le_abi E)) (fr_address f),
            lc_usdc = lib_checksum (ab_libs (le_abi E)) usdc, lc_oracle = lib_checksum (ab_libs (le_abi E)) oracle,
            lc_fee_recipient = fee_recipient, lc_min_seed_usdc = min_seed, lc_listing_fee_usdc = fee,
            lc_min_lead_seconds = lead, lc_max_horizon_seconds = horizon, lc_cooldown_seconds = cooldown \<rparr>))))))))))"

definition load_config :: "listing_env \<Rightarrow> (factory_reads \<times> listing_config option) http" where
  "load_config E =
     bind_http (load_factory_reader E) (\<lambda>f. map_sum id (Pair f) (unavailable (read_listing_config E f)))"

record listing_config_public =
  lcp_enabled :: bool
  lcp_config :: "listing_config option"
  lcp_chain_id :: int
  lcp_reason :: "string option"

definition get_listing_config :: "listing_env \<Rightarrow> listing_config_public" where
  "get_listing_config E =
     (let chain_id = s_chain_id (le_settings E) in
      case load_config E of
        Inl (HTTPException status detail) \<Rightarrow>
          \<lparr> lcp_enabled = False, lcp_config = None, lcp_chain_id = chain_id, lcp_reason = Some detail \<rparr>
      | Inr (f, None) \<Rightarrow> \<lparr> lcp_enabled = False, lcp_config = None, lcp_chain_id = chain_id,
          lcp_reason = Some ''factory has no listing support'' \<rparr>
      | Inr (f, Some cfg) \<Rightarrow> \<lparr> lcp_enabled = True, lcp_config = Some cfg, lcp_chain_id = chain_id, lcp_reason = None \<rparr>)"

section \<open>Eligibility\<close>

definition checksum :: "libs \<Rightarrow> string \<Rightarrow> string http" where
  "checksum L address =
     (if lib_is_address L address then Inr (lib_checksum L address)
      else Inl (HTTPException 400 ''invalid account address''))"

text \<open>\<open>or\<close> short-circuits: a permissionless factory's allow list is not read.\<close>

definition read_lister_state :: "factory_reads \<Rightarrow> string \<Rightarrow> listing_config \<Rightarrow> (bool \<times> int) option" where
  "read_lister_state f account cfg =
     Option.bind (if lc_permissionless cfg then Some True else fr_lister_allowed f account) (\<lambda>allowed.
     Option.bind (fr_last_listed_at f account) (\<lambda>last. Some (allowed, last)))"

definition cooldown_remaining :: "int \<Rightarrow> listing_config \<Rightarrow> int \<Rightarrow> int" where
  "cooldown_remaining last_listed_at cfg now =
     (if last_listed_at \<le> 0 \<or> lc_cooldown_seconds cfg \<le> 0 then 0
      else max 0 (last_listed_at + lc_cooldown_seconds cfg - now))"

definition pending_count :: "dbase \<Rightarrow> int \<Rightarrow> string \<Rightarrow> nat" where
  "pending_count db now creator =
     row_count (\<lambda>l. l_creator l = creator \<and> l_status l = Prepared \<and> now - PENDING_WINDOW_SECONDS \<le> l_created_at l)
       (d_listings db)"

record eligibility_public =
  ep_enabled :: bool
  ep_allowed :: bool
  ep_permissionless :: bool
  ep_cooldown_remaining :: int
  ep_pending :: nat
  ep_reason :: "string option"

definition listing_eligibility :: "listing_env \<Rightarrow> dbase \<Rightarrow> int \<Rightarrow> user \<Rightarrow> eligibility_public http" where
  "listing_eligibility E db now u =
     (let pending = pending_count db now (u_address u) in
      bind_http (load_config E) (\<lambda>(f, c). case c of
        None \<Rightarrow> Inr \<lparr> ep_enabled = False, ep_allowed = False, ep_permissionless = False,
          ep_cooldown_remaining = 0, ep_pending = pending, ep_reason = Some ''factory has no listing support'' \<rparr>
      | Some cfg \<Rightarrow>
          bind_http (checksum (ab_libs (le_abi E)) (u_address u)) (\<lambda>account.
          bind_http (unavailable (read_lister_state f account cfg)) (\<lambda>(allowed, last).
          Inr \<lparr> ep_enabled = True, ep_allowed = allowed, ep_permissionless = lc_permissionless cfg,
            ep_cooldown_remaining = cooldown_remaining last cfg now, ep_pending = pending,
            ep_reason = (if allowed then None else Some ''listing is invite-only'') \<rparr>))))"

section \<open>Calls\<close>

definition SELECTOR_APPROVE :: string where "SELECTOR_APPROVE = [CHR 0x09, CHR 0x5e, CHR 0xa7, CHR 0xb3]"
definition SELECTOR_CREATE_PERMISSIONLESS :: string where
  "SELECTOR_CREATE_PERMISSIONLESS = [CHR 0x4e, CHR 0x7d, CHR 0x1a, CHR 0x32]"

record listing_call =
  ll_to :: string
  ll_data :: string
  ll_value :: int

text \<open>\<open>Web3.to_hex(Web3.keccak(text=criteria.strip()))\<close>\<close>

definition criteria_hash :: "(string \<Rightarrow> string) \<Rightarrow> string \<Rightarrow> string" where
  "criteria_hash keccak criteria = to_hex32 (keccak (py_strip criteria))"

text \<open>The hash was made by \<open>criteria_hash\<close>, so \<open>hex32\<close> does not raise; its bytes are an argument.\<close>

definition build_listing_calls ::
  "abi_libs \<Rightarrow> string \<Rightarrow> string \<Rightarrow> string \<Rightarrow> int \<Rightarrow> string \<Rightarrow> string \<Rightarrow> int \<Rightarrow> int \<Rightarrow> listing_call list http" where
  "build_listing_calls A factory usdc salt close_time question criteria_hash_hex seed_usdc listing_fee_usdc =
     bind_http (hex32 criteria_hash_hex ''criteriaHash'') (\<lambda>hash.
     let factory_cs = lib_checksum (ab_libs A) factory;
         approve = SELECTOR_APPROVE @ ab_encode A [Abi_Address factory_cs, Abi_Uint (seed_usdc + listing_fee_usdc)];
         create = SELECTOR_CREATE_PERMISSIONLESS @ ab_encode A [Abi_Bytes32 salt, Abi_Uint close_time,
           Abi_String question, Abi_Bytes32 hash, Abi_Uint seed_usdc]
     in Inr [\<lparr> ll_to = lib_checksum (ab_libs A) usdc, ll_data = ''0x'' @ to_hex approve, ll_value = 0 \<rparr>,
             \<lparr> ll_to = factory_cs, ll_data = ''0x'' @ to_hex create, ll_value = 0 \<rparr>])"

section \<open>Prepare\<close>

record prepare_in =
  pi_question :: string
  pi_resolution_criteria :: string
  pi_close_time :: int
  pi_seed_usdc :: int

record prepare_public =
  pr_condition_id :: string
  pr_question_id :: string
  pr_salt :: string
  pr_criteria_hash :: string
  pr_seed_usdc :: int
  pr_listing_fee_usdc :: int
  pr_approve_amount :: int
  pr_calls :: "listing_call list"

definition prepared_row :: "string \<Rightarrow> string \<Rightarrow> string \<Rightarrow> string \<Rightarrow> string \<Rightarrow> string \<Rightarrow> int \<Rightarrow> prepare_in \<Rightarrow> market_listing" where
  "prepared_row cid creator salt question criteria hash now body = \<lparr> l_condition_id = cid, l_creator = creator,
     l_salt = to_hex32 salt, l_question = question, l_resolution_criteria = criteria, l_criteria_hash = hash,
     l_close_time = pi_close_time body, l_seed_usdc = pi_seed_usdc body, l_status = Prepared,
     l_reject_reason = [], l_created_at = now \<rparr>"

text \<open>The checks of \<open>listing_prepare\<close>: the config, and the account's checksummed address.\<close>

definition prepare_checks :: "listing_env \<Rightarrow> dbase \<Rightarrow> int \<Rightarrow> user \<Rightarrow> prepare_in \<Rightarrow> (factory_reads \<times> listing_config \<times> string) http" where
  "prepare_checks E db now u body =
     (let question = py_strip (pi_question body); criteria = py_strip (pi_resolution_criteria body);
          creator = py_lower (u_address u) in
      bind_http (checksum (ab_libs (le_abi E)) creator) (\<lambda>account.
      bind_http (load_config E) (\<lambda>(f, c). case c of
        None \<Rightarrow> Inl (HTTPException 409 ''listing not available on this factory'')
      | Some cfg \<Rightarrow>
          bind_http (unavailable (read_lister_state f account cfg)) (\<lambda>(allowed, last).
          let remaining = cooldown_remaining last cfg now in
          if \<not> allowed then Inl (HTTPException 403 ''listing is invite-only'')
          else if remaining > 0
          then Inl (HTTPException 429 (''listing cooldown: '' @ py_str remaining @ ''s remaining''))
          else bind_http (validate_listing question criteria (pi_close_time body) (pi_seed_usdc body) (config_bounds cfg) now) (\<lambda>_.
          bind_http (check_pending (int (pending_count db now creator))) (\<lambda>_.
          if is_duplicate question (open_questions db now [])
          then Inl (HTTPException 409 ''a similar market is already open'')
          else Inr (f, cfg, account)))))))"

text \<open>A second row with the condition id is the database's IntegrityError, which nothing catches.\<close>

definition listing_prepare ::
  "listing_env \<Rightarrow> dbase \<Rightarrow> int \<Rightarrow> string \<Rightarrow> user \<Rightarrow> prepare_in \<Rightarrow> prepare_public http \<times> dbase" where
  "listing_prepare E db now salt u body =
     (let A = le_abi E; question = py_strip (pi_question body); criteria = py_strip (pi_resolution_criteria body) in
      case bind_http (prepare_checks E db now u body) (\<lambda>(f, cfg, account).
        let question_id = user_question_id A account salt; cid = condition_id_for A (lc_oracle cfg) question_id in
        bind_http (unavailable (fr_user_condition_id f account salt)) (\<lambda>onchain_cid.
        if to_hex32 onchain_cid \<noteq> cid
        then Inl (HTTPException 500 ''condition id mismatch between backend and factory'')
        else
          let hash = criteria_hash (ab_keccak A) criteria in
          bind_http (build_listing_calls A (lc_factory cfg) (lc_usdc cfg) salt (pi_close_time body) question hash
            (pi_seed_usdc body) (lc_listing_fee_usdc cfg)) (\<lambda>calls.
          Inr \<lparr> pr_condition_id = cid, pr_question_id = to_hex32 question_id, pr_salt = to_hex32 salt,
            pr_criteria_hash = hash, pr_seed_usdc = pi_seed_usdc body,
            pr_listing_fee_usdc = lc_listing_fee_usdc cfg,
            pr_approve_amount = pi_seed_usdc body + lc_listing_fee_usdc cfg, pr_calls = calls \<rparr>))) of
        Inl e \<Rightarrow> (Inl e, db)
      | Inr reply \<Rightarrow>
          if get_listing (pr_condition_id reply) db \<noteq> None
          then (Inl (HTTPException 500 ''Internal Server Error''), db)
          else (Inr reply, db\<lparr>d_listings := d_listings db @ [prepared_row (pr_condition_id reply)
            (py_lower (u_address u)) salt question criteria (pr_criteria_hash reply) now body]\<rparr>))"

section \<open>Confirm\<close>

record confirm_in =
  cf_condition_id :: string
  cf_resolution_criteria :: "string option"

record onchain_listing =
  oc_question :: string
  oc_close_time :: int
  oc_market_type :: int
  oc_paused :: bool
  oc_creator :: string
  oc_criteria_hash :: string
  oc_seed_usdc :: int

text \<open>\<open>None\<close> is an exception; \<open>Some None\<close> a market that is not on the factory.\<close>

definition read_confirm_state :: "factory_reads \<Rightarrow> string \<Rightarrow> onchain_listing option option" where
  "read_confirm_state f cid =
     Option.bind (fr_market_exists f cid) (\<lambda>there.
     if \<not> there then Some None
     else Option.bind (fr_markets f cid) (\<lambda>m.
       let row = \<lparr> oc_question = ms_question m, oc_close_time = ms_close_time m, oc_market_type = ms_market_type m,
             oc_paused = ms_paused m, oc_creator = [], oc_criteria_hash = [], oc_seed_usdc = 0 \<rparr>
       in if ms_market_type m \<noteq> MARKET_TYPE_USER then Some (Some row)
          else Option.bind (fr_creator_of f cid) (\<lambda>creator.
               Option.bind (fr_criteria_hash_of f cid) (\<lambda>hash.
               Option.bind (fr_seed_of f cid) (\<lambda>seed.
               Some (Some (row\<lparr>oc_creator := py_lower creator, oc_criteria_hash := to_hex32 hash,
                 oc_seed_usdc := seed\<rparr>)))))))"

text \<open>The rows \<open>_apply_confirm\<close> inserts when the indexer has not.\<close>

definition confirm_market :: "string \<Rightarrow> onchain_listing \<Rightarrow> market" where
  "confirm_market cid oc = \<lparr> m_condition_id = cid, m_parent_condition_id = [], m_question = oc_question oc,
     m_resolution_criteria = [], m_market_type = MARKET_TYPE_USER, m_close_time = oc_close_time oc,
     m_paused = oc_paused oc, m_resolved = False, m_payout_yes = 0, m_payout_no = 0, m_suggested_probability = 1 / 2 \<rparr>"

definition confirm_listing :: "string \<Rightarrow> onchain_listing \<Rightarrow> int \<Rightarrow> market_listing" where
  "confirm_listing cid oc now = \<lparr> l_condition_id = cid, l_creator = oc_creator oc, l_salt = [],
     l_question = oc_question oc, l_resolution_criteria = [], l_criteria_hash = [], l_close_time = oc_close_time oc,
     l_seed_usdc = 0, l_status = Indexed, l_reject_reason = [], l_created_at = now \<rparr>"

definition confirmed_market :: "onchain_listing \<Rightarrow> string \<Rightarrow> string option \<Rightarrow> market \<Rightarrow> market" where
  "confirmed_market oc criteria reason m = m\<lparr>m_question := oc_question oc, m_market_type := MARKET_TYPE_USER,
     m_close_time := oc_close_time oc, m_paused := oc_paused oc,
     m_resolution_criteria := (if reason = None then criteria else [])\<rparr>"

definition confirmed_listing :: "onchain_listing \<Rightarrow> string \<Rightarrow> string option \<Rightarrow> market_listing \<Rightarrow> market_listing" where
  "confirmed_listing oc criteria reason l =
     (let l = l\<lparr>l_creator := oc_creator oc, l_criteria_hash := oc_criteria_hash oc\<rparr> in
      case reason of
        Some r \<Rightarrow> l\<lparr>l_status := Rejected, l_reject_reason := take 256 r\<rparr>
      | None \<Rightarrow> l\<lparr>l_question := oc_question oc, l_resolution_criteria := criteria, l_close_time := oc_close_time oc,
          l_seed_usdc := oc_seed_usdc oc, l_status := ListingConfirmed, l_reject_reason := []\<rparr>)"

text \<open>\<open>_apply_confirm\<close>: both rows are inserted unless they are there, then updated.\<close>

definition apply_confirm :: "dbase \<Rightarrow> int \<Rightarrow> string \<Rightarrow> onchain_listing \<Rightarrow> string \<Rightarrow> string option \<Rightarrow> dbase" where
  "apply_confirm db now cid oc criteria reason =
     db\<lparr>d_markets := update_where (\<lambda>m. m_condition_id m = cid) (confirmed_market oc criteria reason)
          (insert_ignore m_condition_id (confirm_market cid oc) (d_markets db)),
        d_listings := update_where (\<lambda>l. l_condition_id l = cid) (confirmed_listing oc criteria reason)
          (insert_ignore l_condition_id (confirm_listing cid oc now) (d_listings db))\<rparr>"

definition confirm_candidates :: "market_listing option \<Rightarrow> confirm_in \<Rightarrow> string list" where
  "confirm_candidates listing body =
     filter (\<lambda>c. c \<noteq> []) [case listing of None \<Rightarrow> [] | Some l \<Rightarrow> l_resolution_criteria l,
       case cf_resolution_criteria body of None \<Rightarrow> [] | Some c \<Rightarrow> py_strip c]"

text \<open>The checks of \<open>listing_confirm\<close>: the condition id, the on-chain listing, its criteria and the review.\<close>

definition confirm_checks ::
  "listing_env \<Rightarrow> dbase \<Rightarrow> int \<Rightarrow> user \<Rightarrow> confirm_in \<Rightarrow> (string \<times> onchain_listing \<times> string \<times> string option) http" where
  "confirm_checks E db now u body =
     bind_http (hex32 (cf_condition_id body) ''conditionId'') (\<lambda>raw.
     bind_http (load_factory_reader E) (\<lambda>f.
     bind_http (unavailable (read_confirm_state f raw)) (\<lambda>onchain. case onchain of
       None \<Rightarrow> Inl (HTTPException 409 ''not on chain yet'')
     | Some oc \<Rightarrow>
         let cid = to_hex32 raw; listing = get_listing cid db; candidates = confirm_candidates listing body in
         if oc_market_type oc \<noteq> MARKET_TYPE_USER then Inl (HTTPException 403 ''not a user-listed market'')
         else if oc_creator oc \<noteq> py_lower (u_address u) then Inl (HTTPException 403 ''not the market creator'')
         else if candidates = [] then Inl (HTTPException 400 ''resolutionCriteria required'')
         else case find (\<lambda>c. criteria_hash (ab_keccak (le_abi E)) c = oc_criteria_hash oc) candidates of
           None \<Rightarrow> Inl (HTTPException 409 ''criteria hash mismatch'')
         | Some criteria \<Rightarrow> Inr (cid, oc, criteria,
             review_user_listing db cid listing (oc_question oc) (oc_close_time oc) (Some (oc_seed_usdc oc)) criteria now))))"

definition listing_confirm ::
  "listing_env \<Rightarrow> dbase \<Rightarrow> int \<Rightarrow> user \<Rightarrow> confirm_in \<Rightarrow> market_public http \<times> dbase" where
  "listing_confirm E db now u body =
     (case confirm_checks E db now u body of
        Inl e \<Rightarrow> (Inl e, db)
      | Inr (cid, oc, criteria, reason) \<Rightarrow>
          let db' = apply_confirm db now cid oc criteria reason in
          (case reason of
             Some r \<Rightarrow> (Inl (HTTPException 422 (''listing rejected: '' @ r)), db')
           | None \<Rightarrow>
               (case get_market cid db' of
                  None \<Rightarrow> (Inl (HTTPException 500 ''Internal Server Error''), db')
                | Some m \<Rightarrow> (Inr (public (le_settings E) now m (latest_prices db' [cid] cid)), db'))))"

section \<open>Review\<close>

record review_public =
  rp_condition_id :: string
  rp_creator :: string
  rp_status :: "listing_status option"
  rp_reason :: string
  rp_question :: string
  rp_close_time :: int
  rp_paused :: bool
  rp_resolved :: bool

text \<open>\<open>None\<close> is the status \<open>unlisted\<close>.\<close>

definition listing_review :: "dbase \<Rightarrow> user http \<Rightarrow> review_public list http" where
  "listing_review db who = bind_http (require_operator who) (\<lambda>_.
     Inr (map (\<lambda>m.
         let listing = get_listing (m_condition_id m) db in
         \<lparr> rp_condition_id = m_condition_id m, rp_creator = (case listing of None \<Rightarrow> [] | Some l \<Rightarrow> l_creator l),
           rp_status = map_option l_status listing, rp_reason = (case listing of None \<Rightarrow> [] | Some l \<Rightarrow> l_reject_reason l),
           rp_question = m_question m, rp_close_time = m_close_time m, rp_paused = m_paused m, rp_resolved = m_resolved m \<rparr>)
       (filter (\<lambda>m. map_option l_status (get_listing (m_condition_id m) db) \<noteq> Some ListingConfirmed)
         (sort_key (\<lambda>m. (m_close_time m, m_condition_id m))
           (filter (\<lambda>m. m_market_type m = MARKET_TYPE_USER) (d_markets db))))))"

end
