(* ===== verification/Listing_Safety.thy ===== *)
theory Listing_Safety
  imports Listing Index_Safety Orders
begin

text \<open>
  What holds of the listing tables while the API's prepare and confirm requests and the indexer's ticks,
  of any number of processes, write them in any order: a listing is public only with verified criteria
  and a question that passed the gates.
\<close>

section \<open>The review\<close>


section \<open>Sound listings\<close>







section \<open>Prepare\<close>


section \<open>Confirm\<close>





section \<open>The indexer\<close>












section \<open>Properties\<close>










end
