(* ===== verification/Emissions.thy ===== *)
theory Emissions
  imports Worker
begin

text \<open>
  OU emissions (\<open>backend/app/emissions/router.py\<close>): POST /emissions/distribute signs one transaction per
  payload and idempotency key with the relayer's account, records it before it is broadcast, and answers a
  repeat from the record. A request runs in the worker's state \<open>ws\<close>; the partial unique index
  \<open>uq_emission_live_payload\<close> is checked at every commit. \<open>ee_others\<close> are the rows other processes commit just
  before a statement of this one, by call number.
\<close>

section \<open>The table\<close>

definition em_live :: "job_status \<Rightarrow> bool" where
  "em_live s = (s \<in> {Sending, Sent, Confirmed})"

text \<open>\<open>uq_emission_live_payload\<close>: at most one live row per payload hash and idempotency key.\<close>

definition em_key :: "emission_distribution \<Rightarrow> string \<times> string" where
  "em_key e = (e_payload_hash e, e_idempotency_key e)"

definition unique_live :: "emission_distribution list \<Rightarrow> bool" where
  "unique_live rows = distinct (map em_key (filter (\<lambda>e. em_live (e_status e)) rows))"

definition live_of :: "string \<times> string \<Rightarrow> dbase \<Rightarrow> emission_distribution list" where
  "live_of key db = sort_key e_id (filter (\<lambda>e. em_key e = key \<and> em_live (e_status e)) (d_emissions db))"

definition integrity_error :: rpc_exn where
  "integrity_error = \<lparr>x_is_revert = False, x_type = ''IntegrityError'', x_text = []\<rparr>"

definition em_commit :: "unit wk" where
  "em_commit = (\<lambda>st. if unique_live (d_emissions (w_db st)) then (Inr (), st\<lparr>w_saved := w_db st\<rparr>)
     else (Inl integrity_error, st))"

definition em_mod :: "int \<Rightarrow> (emission_distribution \<Rightarrow> emission_distribution) \<Rightarrow> unit wk" where
  "em_mod i f = wk_mod (\<lambda>st. st\<lparr>w_db := (w_db st)\<lparr>d_emissions :=
     update_where (\<lambda>e. e_id e = i) f (d_emissions (w_db st))\<rparr>\<rparr>)"

definition em_row :: "int \<Rightarrow> emission_distribution \<Rightarrow> emission_distribution wk" where
  "em_row i row = wk_get (\<lambda>st. case get_row e_id i (d_emissions (w_db st)) of None \<Rightarrow> row | Some e \<Rightarrow> e)"

section \<open>The environment and the requests\<close>

record em_env =
  ee_worker :: wenv
  ee_keccak :: "string \<Rightarrow> string"
  ee_encode :: "int \<Rightarrow> string list \<Rightarrow> int list \<Rightarrow> string"
  ee_others :: "nat \<Rightarrow> emission_distribution list"

text \<open>Commits of other processes become visible to this session's next statement.\<close>

definition em_sync :: "em_env \<Rightarrow> unit wk" where
  "em_sync E = wk_mod (\<lambda>st.
     let new = ee_others E (w_calls st); rows = d_emissions (w_saved st) @ new in
     if unique_live rows then st\<lparr>w_saved := (w_saved st)\<lparr>d_emissions := rows\<rparr>,
       w_db := (w_db st)\<lparr>d_emissions := d_emissions (w_db st) @ new\<rparr>\<rparr>
     else st)"

record recipient =
  rc_address :: string
  rc_amount :: string

record distribute_in =
  di_program :: int
  di_recipients :: "recipient list"
  di_idempotency_key :: string

record em_json =
  ej_status :: int
  ej_row :: emission_distribution
  ej_detail :: string
  ej_duplicate :: bool
  ej_unknown :: bool

definition em_reply :: "int \<Rightarrow> emission_distribution \<Rightarrow> em_json" where
  "em_reply status row = \<lparr> ej_status = status, ej_row = row, ej_detail = [], ej_duplicate = False, ej_unknown = False \<rparr>"

section \<open>Moving a row on\<close>

definition em_receipt :: "receipt \<Rightarrow> emission_distribution \<Rightarrow> emission_distribution" where
  "em_receipt r e =
     (let e = e\<lparr>e_block_number := Some (rc_block r)\<rparr> in
      if rc_status r = 1 then e\<lparr>e_status := Confirmed, e_last_error := []\<rparr>
      else e\<lparr>e_status := Failed, e_last_error := ''reverted in '' @ e_tx_hash e\<rparr>)"

text \<open>\<open>_refresh\<close>.\<close>

definition refresh_row :: "wenv \<Rightarrow> int \<Rightarrow> emission_distribution \<Rightarrow> unit wk" where
  "refresh_row V now row =
     (if \<not> in_flight (e_status row) \<or> e_tx_hash row = [] then wk_return ()
      else wk_bind (wk_try (wk_bind (wk_call (c_get_receipt (v_chain V) (e_tx_hash row))) (\<lambda>r.
        case r of
          Some rc \<Rightarrow> em_mod (e_id row) (em_receipt rc)
        | None \<Rightarrow>
            (case e_nonce row of
               None \<Rightarrow> wk_return ()
             | Some nonce \<Rightarrow>
                 if now - py_or (e_sent_at row) 0 \<ge> s_relayer_resubmit_after_seconds (v_settings V)
                 then wk_bind (wk_call (c_latest_nonce (v_chain V) (e_sender row))) (\<lambda>latest.
                   if latest > nonce
                   then em_mod (e_id row) (\<lambda>e. e\<lparr>e_status := Failed, e_last_error := ''nonce consumed by another tx''\<rparr>)
                   else wk_return ())
                 else wk_return ())))) (\<lambda>res.
        case res of
          Inl e \<Rightarrow> em_mod (e_id row) (\<lambda>r. r\<lparr>e_last_error := ''status check: '' @ redacted V e\<rparr>)
        | Inr _ \<Rightarrow> wk_return ()))"

text \<open>\<open>_mined_earlier\<close>: the rows are tried from the latest.\<close>

fun mined_earlier_in :: "wenv \<Rightarrow> emission_distribution list \<Rightarrow> emission_distribution option wk" where
  "mined_earlier_in V [] = wk_return None"
| "mined_earlier_in V (row # rows) =
     (if e_tx_hash row = [] then mined_earlier_in V rows
      else wk_bind (wk_try (wk_call (c_get_receipt (v_chain V) (e_tx_hash row)))) (\<lambda>r.
        case r of
          Inr (Some rc) \<Rightarrow>
            if rc_status rc = 1
            then wk_then (em_mod (e_id row) (em_receipt rc)) (wk_bind (em_row (e_id row) row) (\<lambda>e. wk_return (Some e)))
            else mined_earlier_in V rows
        | _ \<Rightarrow> mined_earlier_in V rows))"

definition mined_earlier :: "wenv \<Rightarrow> string \<times> string \<Rightarrow> emission_distribution option wk" where
  "mined_earlier V key =
     wk_bind (wk_get (\<lambda>st. rev (sort_key e_id (filter (\<lambda>e. em_key e = key \<and> e_status e = Failed) (d_emissions (w_db st))))))
       (mined_earlier_in V)"

text \<open>\<open>_live_rows\<close>: refreshed, committed, and read again.\<close>

definition live_rows :: "em_env \<Rightarrow> string \<times> string \<Rightarrow> int \<Rightarrow> emission_distribution list wk" where
  "live_rows E key now =
     wk_then (em_sync E)
     (wk_bind (wk_get (\<lambda>st. live_of key (w_db st))) (\<lambda>prior.
     wk_then (wk_each (refresh_row (ee_worker E) now) prior)
     (wk_then em_commit
     (wk_get (\<lambda>st. live_of key (w_db st))))))"

section \<open>Broadcasting\<close>

text \<open>What is handed to the node is recorded with the database committed then; the result is the exception.\<close>

definition em_send :: "wenv \<Rightarrow> string \<Rightarrow> rpc_exn option wk" where
  "em_send V raw_hex =
     wk_bind (wk_try (wk_bind (wk_opt (b32 raw_hex)) (\<lambda>raw.
        wk_then (wk_mod (\<lambda>st. st\<lparr>w_sent := w_sent st @ [(raw_hex, w_saved st)]\<rparr>))
          (wk_call (c_send_raw (v_chain V) raw))))) (\<lambda>r.
     case r of Inr u \<Rightarrow> wk_return None | Inl e \<Rightarrow> wk_return (Some e))"

text \<open>\<open>_duplicate\<close>.\<close>

definition duplicate :: "wenv \<Rightarrow> emission_distribution \<Rightarrow> em_json wk" where
  "duplicate V row =
     (if e_status row = Confirmed then wk_return ((em_reply 409 row)\<lparr>ej_detail := ''Already distributed''\<rparr>)
      else
        wk_then
          (if e_status row = Sending \<and> e_raw_tx row \<noteq> []
           then wk_then (wk_bind (em_send V (e_raw_tx row)) (\<lambda>err.
               case err of
                 None \<Rightarrow> em_mod (e_id row) (\<lambda>e. e\<lparr>e_status := Sent\<rparr>)
               | Some x \<Rightarrow>
                   if classify_rpc_error x \<in> {Known, Underpriced} then em_mod (e_id row) (\<lambda>e. e\<lparr>e_status := Sent\<rparr>)
                   else em_mod (e_id row) (\<lambda>e. e\<lparr>e_last_error := ''rebroadcast: '' @ redacted V x\<rparr>)))
             em_commit
           else wk_return ())
          (wk_bind (em_row (e_id row) row) (\<lambda>row. wk_return ((em_reply 202 row)\<lparr>ej_duplicate := True\<rparr>))))"

section \<open>The leader lock\<close>

text \<open>\<open>_leader_conn\<close>: whether to proceed. A failing lock query raises.\<close>

definition leader_conn :: "wenv \<Rightarrow> bool wk" where
  "leader_conn V = wk_bind (wk_get w_leader) (\<lambda>held.
     if held \<or> \<not> v_postgres V then wk_return True else wk_call (v_lock V))"

section \<open>POST /emissions/distribute\<close>

definition DISTRIBUTE_GAS_CAP :: int where "DISTRIBUTE_GAS_CAP = 10000000"

fun all_some :: "'a option list \<Rightarrow> 'a list option" where
  "all_some [] = Some []"
| "all_some (None # xs) = None"
| "all_some (Some x # xs) = map_option (Cons x) (all_some xs)"

text \<open>The checks before the chain: the relayer's address, the recipients and the amounts.\<close>

definition distribute_checks :: "wenv \<Rightarrow> distribute_in \<Rightarrow> (string \<times> string list \<times> int list) http" where
  "distribute_checks V req =
     (let s = v_settings V; L = v_libs V in
      if s_emissions_distributor_address s = [] then Inl (HTTPException 503 ''Emissions distributor not configured'')
      else if s_ou_token_address s = [] \<or> s_relayer_private_key s = []
      then Inl (HTTPException 503 ''OU token or relayer not configured'')
      else if di_program req \<notin> {0, 1, 2, 3} then Inl (HTTPException 400 ''Invalid program ID (must be 0-3)'')
      else if di_recipients req = [] then Inl (HTTPException 400 ''No recipients provided'')
      else if length (di_recipients req) > 100 then Inl (HTTPException 400 ''Too many recipients (max 100)'')
      else case relayer_account L s of
        None \<Rightarrow> Inl (HTTPException 503 ''OU token or relayer not configured'')
      | Some account \<Rightarrow>
          if \<not> lib_is_address L (s_emissions_distributor_address s) \<or>
             \<not> list_all (\<lambda>r. lib_is_address L (rc_address r)) (di_recipients req)
          then Inl (HTTPException 400 ''Invalid recipient'')
          else case all_some (map (\<lambda>r. parse_dec (py_strip (rc_amount r))) (di_recipients req)) of
            None \<Rightarrow> Inl (HTTPException 400 ''Invalid recipient'')
          | Some amounts \<Rightarrow>
              if list_ex (\<lambda>a. a \<le> 0) amounts then Inl (HTTPException 400 ''Amounts must be positive'')
              else Inr (account, map (\<lambda>r. lib_checksum L (rc_address r)) (di_recipients req), amounts))"

definition calldata :: "em_env \<Rightarrow> string \<Rightarrow> string" where
  "calldata E params = ''0x'' @ to_hex (take 4 (ee_keccak E ''distribute(uint256,address[],uint256[])'') @ params)"

definition payload_key :: "em_env \<Rightarrow> distribute_in \<Rightarrow> string \<Rightarrow> string \<times> string" where
  "payload_key E req params = (py_lower (''0x'' @ to_hex (ee_keccak E params)),
     take 128 (py_strip (di_idempotency_key req)))"

text \<open>The gas limit and the fees of the request, or the error.\<close>

definition quote :: "wenv \<Rightarrow> string \<Rightarrow> (int \<times> fee_quote) http wk" where
  "quote V data =
     (let s = v_settings V; rpc_down = wk_return (Inl (HTTPException 503 ''RPC unavailable'')) in
      wk_bind (wk_try (wk_call (c_estimate_gas (v_chain V) data))) (\<lambda>est.
      case est of
        Inl e \<Rightarrow> if classify_rpc_error e = Revert
          then wk_return (Inl (HTTPException 400 (''Distribution would revert: '' @ take 500 (lib_redact (v_libs V) (x_text e)))))
          else rpc_down
      | Inr estimate \<Rightarrow>
          wk_bind (wk_try (wk_bind (wk_call (c_latest_block (v_chain V))) (\<lambda>b.
            wk_bind (wk_try (wk_call (c_max_priority_fee (v_chain V)))) (\<lambda>t.
            wk_bind (if bl_base_fee b = None
                then wk_bind (wk_call (c_gas_price (v_chain V))) (\<lambda>g. wk_return (Some g)) else wk_return None) (\<lambda>g.
            wk_return (bl_base_fee b, (case t of Inl _ \<Rightarrow> 0 | Inr tip \<Rightarrow> tip), g)))))) (\<lambda>r.
          case r of
            Inl e \<Rightarrow> rpc_down
          | Inr (base, tip, gas_price) \<Rightarrow>
              (case quote_fees base tip gas_price s of
                 None \<Rightarrow> wk_return (Inl (HTTPException 503 ''Gas price above RELAYER_MAX_FEE_PER_GAS_WEI''))
               | Some q \<Rightarrow> wk_return (Inr
                   (min (ceil_div (estimate * (10000 + s_relayer_gas_buffer_bps s)) 10000) DISTRIBUTE_GAS_CAP, q))))))"

definition next_emission_id :: "dbase \<Rightarrow> int" where
  "next_emission_id db = Max (insert (d_next_emission db) (set (map (\<lambda>e. e_id e + 1) (d_emissions db))))"

definition distribution_row ::
  "int \<Rightarrow> distribute_in \<Rightarrow> string \<times> string \<Rightarrow> string \<Rightarrow> int \<Rightarrow> string \<Rightarrow> string \<Rightarrow> int list \<Rightarrow> int \<Rightarrow> emission_distribution" where
  "distribution_row i req key sender nonce raw h amounts now = \<lparr> e_id = i, e_program = di_program req,
     e_payload_hash = fst key, e_idempotency_key = snd key, e_sender = sender, e_nonce = Some nonce,
     e_raw_tx = raw, e_tx_hash = py_lower h, e_status = Sending, e_recipient_count = int (length (di_recipients req)),
     e_total_amount = sum_list amounts, e_block_number = None, e_last_error = [], e_sent_at = Some now \<rparr>"

definition release :: "int \<Rightarrow> unit wk" where
  "release nonce = wk_mod (\<lambda>st. st\<lparr>w_nm := nm_release nonce (w_nm st)\<rparr>)"

text \<open>After the write-ahead commit: the broadcast and what its answer means.\<close>

definition send_recorded :: "wenv \<Rightarrow> string \<times> string \<Rightarrow> emission_distribution \<Rightarrow> int \<Rightarrow> em_json wk" where
  "send_recorded V key row nonce =
     wk_bind (em_send V (e_raw_tx row)) (\<lambda>err.
     let answer = (\<lambda>f. wk_bind (em_row (e_id row) row) (\<lambda>row. wk_return (f row)));
         failed = (\<lambda>x. em_mod (e_id row) (\<lambda>e. e\<lparr>e_status := Failed,
           e_last_error := take 500 (lib_redact (v_libs V) (x_text x))\<rparr>)) in
     case map_option (\<lambda>x. (x, classify_rpc_error x)) err of
       None \<Rightarrow> wk_then (em_mod (e_id row) (\<lambda>e. e\<lparr>e_status := Sent\<rparr>)) (wk_then em_commit (answer (em_reply 200)))
     | Some (x, kind) \<Rightarrow>
         if kind = Known
         then wk_then (em_mod (e_id row) (\<lambda>e. e\<lparr>e_status := Sent\<rparr>)) (wk_then em_commit (answer (em_reply 200)))
         else if kind \<in> {Insufficient_Funds, Revert}
         then wk_then (release nonce) (wk_then (failed x) (wk_then em_commit
           (answer (\<lambda>e. (em_reply 502 e)\<lparr>ej_detail := ''Distribution failed''\<rparr>))))
         else if kind \<in> {Nonce_Low, Underpriced}
         then wk_then (resync V) (wk_then (failed x)
           (wk_bind (mined_earlier V key) (\<lambda>earlier. wk_then em_commit
             (case earlier of
                Some e \<Rightarrow> wk_return ((em_reply 200 e)\<lparr>ej_duplicate := True\<rparr>)
              | None \<Rightarrow> answer (\<lambda>e. (em_reply 502 e)\<lparr>ej_detail := ''Distribution failed''\<rparr>)))))
         else wk_then (em_mod (e_id row) (\<lambda>e. e\<lparr>e_last_error := ''broadcast unconfirmed: '' @ redacted V x\<rparr>))
           (wk_then em_commit (answer (\<lambda>e. (em_reply 202 e)\<lparr>ej_unknown := True\<rparr>))))"

text \<open>Under both locks: the second check, the nonce, the signature and the write-ahead commit.\<close>

definition sign_and_send ::
  "em_env \<Rightarrow> distribute_in \<Rightarrow> string \<times> string \<Rightarrow> string \<Rightarrow> string \<Rightarrow> int list \<Rightarrow> int \<Rightarrow> int \<Rightarrow> fee_quote \<Rightarrow> em_json http wk" where
  "sign_and_send E req key account data amounts now gas q =
     (let V = ee_worker E; s = v_settings V; sender = py_lower account in
      wk_bind (live_rows E key now) (\<lambda>live.
      if live \<noteq> [] then wk_bind (duplicate V (last live)) (\<lambda>r. wk_return (Inr r))
      else
        wk_bind (wk_get (\<lambda>st. nonce_floor sender (w_db st))) (\<lambda>fl.
        wk_bind (wk_nm V (nm_reserve (c_pending_nonce (v_chain V)) account fl)) (\<lambda>nonce.
        wk_bind (wk_of (v_sign V (make_tx V nonce (s_emissions_distributor_address s) (s_chain_id s) data gas q))) (\<lambda>(raw, h).
        wk_then (em_sync E)
        (wk_bind (wk_get (\<lambda>st. distribution_row (next_emission_id (w_db st)) req key sender nonce raw h amounts now)) (\<lambda>row.
        wk_then (wk_mod (\<lambda>st. st\<lparr>w_db := (w_db st)\<lparr>d_emissions := d_emissions (w_db st) @ [row],
            d_next_emission := e_id row + 1\<rparr>\<rparr>))
        (wk_bind (wk_try em_commit) (\<lambda>committed.
        case committed of
          Inl _ \<Rightarrow>
            wk_then (wk_mod (\<lambda>st. st\<lparr>w_db := w_saved st\<rparr>))
            (wk_then (release nonce)
            (wk_bind (live_rows E key now) (\<lambda>live.
             if live \<noteq> [] then wk_bind (duplicate V (last live)) (\<lambda>r. wk_return (Inr r))
             else wk_return (Inl (HTTPException 409 ''Concurrent distribution of this payload; retry'')))))
        | Inr _ \<Rightarrow> wk_bind (send_recorded V key row nonce) (\<lambda>r. wk_return (Inr r)))))))))))"

definition distribute :: "em_env \<Rightarrow> user http \<Rightarrow> distribute_in \<Rightarrow> em_json http wk" where
  "distribute E who req =
     (let V = ee_worker E in
      case bind_http who (\<lambda>u. if u_is_operator u then distribute_checks V req else Inl (HTTPException 403 ''operator only'')) of
        Inl e \<Rightarrow> wk_return (Inl e)
      | Inr (account, recipients, amounts) \<Rightarrow>
          let params = ee_encode E (di_program req) recipients amounts;
              data = calldata E params; key = payload_key E req params in
          wk_bind (wk_now V) (\<lambda>now.
          wk_bind (live_rows E key now) (\<lambda>live.
          if live \<noteq> [] then wk_bind (duplicate V (last live)) (\<lambda>r. wk_return (Inr r))
          else wk_bind (quote V data) (\<lambda>r. case r of
            Inl e \<Rightarrow> wk_return (Inl e)
          | Inr (gas, q) \<Rightarrow>
              wk_bind (leader_conn V) (\<lambda>leads.
              if leads then sign_and_send E req key account data amounts now gas q
              else wk_return (Inl (HTTPException 409 ''Relayer leader is active on another instance; retry'')))))))"

section \<open>GET /emissions/distributions/{id}\<close>

definition get_distribution :: "em_env \<Rightarrow> user http \<Rightarrow> int \<Rightarrow> emission_distribution http wk" where
  "get_distribution E who i =
     (case bind_http who (\<lambda>u. if u_is_operator u then Inr u else Inl (HTTPException 403 ''operator only'')) of
        Inl e \<Rightarrow> wk_return (Inl e)
      | Inr _ \<Rightarrow>
          wk_bind (wk_get (\<lambda>st. get_row e_id i (d_emissions (w_db st)))) (\<lambda>found.
          case found of
            None \<Rightarrow> wk_return (Inl (HTTPException 404 ''not found''))
          | Some row \<Rightarrow>
              wk_bind (wk_now (ee_worker E)) (\<lambda>now.
              wk_then (refresh_row (ee_worker E) now row)
              (wk_then em_commit (wk_bind (em_row i row) (\<lambda>row. wk_return (Inr row)))))))"

end
