(* ===== verification/Emission_Safety.thy ===== *)
theory Emission_Safety
  imports Emissions Relay
begin

text \<open>
  What a distribution request does with money: whatever it hands to the node is the transaction of the one
  live row of its payload and idempotency key, committed before.
\<close>

section \<open>The recorded transaction\<close>

definition recorded_live :: "string \<times> string \<Rightarrow> string \<Rightarrow> dbase \<Rightarrow> bool" where
  "recorded_live key raw db =
     (\<exists>e \<in> set (d_emissions db). e_raw_tx e = raw \<and> em_key e = key \<and> em_live (e_status e) \<and>
        (\<forall>e' \<in> set (d_emissions db). em_key e' = key \<and> em_live (e_status e') \<longrightarrow> e' = e))"

lemma unique_live_eq:
  assumes "unique_live rows" and "e \<in> set rows" "e' \<in> set rows" "em_live (e_status e)" "em_live (e_status e')" "em_key e' = em_key e"
  shows "e' = e"
  using assms unfolding unique_live_def distinct_map inj_on_def by auto

lemma recorded_liveI:
  "unique_live (d_emissions db) \<Longrightarrow> e \<in> set (d_emissions db) \<Longrightarrow> em_live (e_status e) \<Longrightarrow>
     recorded_live (em_key e) (e_raw_tx e) db"
  unfolding recorded_live_def using unique_live_eq by blast

section \<open>Careful computations\<close>

text \<open>What a computation hands over is recorded, and the index holds of what is committed.\<close>

definition careful :: "string \<times> string \<Rightarrow> ws \<Rightarrow> ws \<Rightarrow> bool" where
  "careful key st st' =
     ((\<exists>new. w_sent st' = w_sent st @ new \<and> (\<forall>x \<in> set new. recorded_live key (fst x) (snd x))) \<and>
      (unique_live (d_emissions (w_saved st)) \<longrightarrow> unique_live (d_emissions (w_saved st'))))"

lemma careful_same: "w_sent st' = w_sent st \<Longrightarrow> w_saved st' = w_saved st \<Longrightarrow> careful key st st'"
  by (simp add: careful_def)

lemma careful_trans: "careful key a b \<Longrightarrow> careful key b c \<Longrightarrow> careful key a c"
  by (auto simp: careful_def)

interpretation careful: run_order "careful key" for key
  by unfold_locales (simp add: careful_same, rule careful_trans)

lemma careful_rpc: "careful.keeps key (wk_rpc m)"
  by (rule careful.keepsI) (simp add: wk_rpc_def careful_same split: prod.splits)

lemma careful_now: "careful.keeps key (wk_now V)"
  by (rule careful.keepsI) (simp add: wk_now_def careful_same)

lemma careful_commit: "careful.keeps key em_commit"
  by (rule careful.keepsI) (simp add: em_commit_def careful_def)

lemma careful_sync: "careful.keeps key (em_sync E)"
  by (rule careful.keepsI) (simp add: em_sync_def wk_mod_def careful_def Let_def)

lemma careful_em_mod: "careful.keeps key (em_mod i f)"
  by (rule careful.keepsI) (simp add: em_mod_def wk_mod_def careful_same)

lemma careful_nm: "careful.keeps key (wk_mod (\<lambda>st. st\<lparr>w_nm := f st\<rparr>))"
  by (rule careful.keepsI) (simp add: wk_mod_def careful_same)

lemma careful_db: "careful.keeps key (wk_mod (\<lambda>st. st\<lparr>w_db := f st\<rparr>))"
  by (rule careful.keepsI) (simp add: wk_mod_def careful_same)

lemmas careful_rules = careful.keeps_intros careful_rpc careful_now careful_commit careful_sync careful_em_mod
  careful_nm careful_db

lemma careful_refresh: "careful.keeps key (refresh_row V now row)"
  unfolding refresh_row_def wk_call_def by (intro careful_rules)

lemma careful_live_rows: "careful.keeps key (live_rows E k now)"
  unfolding live_rows_def by (intro careful_rules careful_refresh)

lemma careful_quote: "careful.keeps key (quote V data)"
  unfolding quote_def wk_call_def Let_def by (intro careful_rules)

lemma careful_leader: "careful.keeps key (leader_conn V)"
  unfolding leader_conn_def wk_call_def by (intro careful_rules)

lemma careful_row: "careful.keeps key (em_row i row)"
  unfolding em_row_def by (intro careful_rules)

lemma careful_resync: "careful.keeps key (resync V)"
  unfolding resync_def by (intro careful_rules)

lemma careful_release: "careful.keeps key (release n)"
  unfolding release_def by (rule careful_nm)

lemma careful_wk_nm: "careful.keeps key (wk_nm V f)"
  unfolding wk_nm_def by (intro careful_rules)

lemma careful_mined_in: "careful.keeps key (mined_earlier_in V rows)"
proof (induction rows)
  case (Cons row rows)
  then show ?case unfolding mined_earlier_in.simps wk_call_def by (intro careful_rules careful_row)
qed (simp add: careful.keeps_return)

lemma careful_mined: "careful.keeps key (mined_earlier V k)"
  unfolding mined_earlier_def by (intro careful_rules careful_mined_in)

text \<open>A careful first step followed by careful ones.\<close>

lemma careful_bind:
  assumes "careful key st (snd (m st))" and "\<And>x. careful.keeps key (f x)"
  shows "careful key st (snd (wk_bind m f st))"
proof -
  obtain r st1 where m: "m st = (r, st1)" by (metis prod.exhaust)
  show ?thesis
  proof (cases r)
    case (Inl e)
    with m assms(1) show ?thesis by (simp add: wk_bind_def)
  next
    case (Inr x)
    have "careful key st1 (snd (f x st1))" using assms(2) by (simp add: careful.keeps_def)
    with m Inr assms(1) careful_trans [of key st st1] show ?thesis by (simp add: wk_bind_def)
  qed
qed

lemma careful_send:
  assumes "recorded_live key raw (w_saved st)"
  shows "careful key st (snd (em_send V raw st))"
  unfolding em_send_def
proof (rule careful_bind)
  show "careful key st (snd (wk_try (wk_bind (wk_opt (b32 raw)) (\<lambda>bytes.
      wk_then (wk_mod (\<lambda>st. st\<lparr>w_sent := w_sent st @ [(raw, w_saved st)]\<rparr>)) (wk_call (c_send_raw (v_chain V) bytes)))) st))"
    using assms
    by (cases "b32 raw") (auto simp: wk_try_def wk_opt_def wk_bind_def wk_then_def wk_raise_def wk_return_def wk_mod_def wk_call_def
        wk_rpc_def rpc_call_def careful_def split: prod.splits sum.splits)
qed (intro careful_rules)

section \<open>The handlers\<close>

lemma live_of_recorded:
  "unique_live (d_emissions db) \<Longrightarrow> row \<in> set (live_of key db) \<Longrightarrow> recorded_live key (e_raw_tx row) db"
  using recorded_liveI [of db row] by (simp add: live_of_def)

lemma careful_duplicate:
  assumes "unique_live (d_emissions (w_saved st))" and "row \<in> set (live_of key (w_saved st))"
  shows "careful key st (snd (duplicate V row st))"
proof (cases "e_status row = Sending \<and> e_raw_tx row \<noteq> []")
  case True
  have "careful key st (snd (em_send V (e_raw_tx row) st))"
    by (rule careful_send [OF live_of_recorded [OF assms]])
  with True show ?thesis
    unfolding duplicate_def wk_then_def
    by (simp, intro careful_bind) (intro careful_rules careful_row | assumption)+
next
  case False
  then have "duplicate V row = (if e_status row = Confirmed then wk_return ((em_reply 409 row)\<lparr>ej_detail := ''Already distributed''\<rparr>)
      else wk_then (wk_return ()) (wk_bind (em_row (e_id row) row) (\<lambda>row. wk_return ((em_reply 202 row)\<lparr>ej_duplicate := True\<rparr>))))"
    unfolding duplicate_def by (simp only: if_False)
  then have "careful.keeps key (duplicate V row)"
    by (simp only:) (intro careful_rules careful_row)
  then show ?thesis by (simp add: careful.keeps_def)
qed

text \<open>What \<open>_live_rows\<close> returns is committed.\<close>

lemma live_rows_committed:
  assumes "live_rows E key now st = (Inr found, st')"
  shows "w_saved st' = w_db st' \<and> unique_live (d_emissions (w_saved st')) \<and> found = live_of key (w_saved st')"
  using assms
  by (auto simp: live_rows_def wk_then_def wk_bind_def wk_get_def em_commit_def split: prod.splits sum.splits if_splits)

lemma careful_live_duplicate:
  assumes "\<And>st. careful.keeps key (rest st)"
  shows "careful.keeps key (wk_bind (live_rows E key now) (\<lambda>live.
     if live \<noteq> [] then wk_bind (duplicate V (last live)) (\<lambda>r. wk_return (Inr r)) else rest live))"
proof (rule careful.keepsI)
  fix st
  obtain r st1 where run: "live_rows E key now st = (r, st1)" by (metis prod.exhaust)
  have first: "careful key st st1" by (rule careful.keepsD [OF careful_live_rows run])
  show "careful key st (snd (wk_bind (live_rows E key now) (\<lambda>live.
     if live \<noteq> [] then wk_bind (duplicate V (last live)) (\<lambda>r. wk_return (Inr r)) else rest live) st))"
  proof (cases r)
    case (Inl e)
    with run first show ?thesis by (simp add: wk_bind_def)
  next
    case (Inr found)
    note committed = live_rows_committed [OF run [unfolded Inr]]
    have "careful key st1 (snd ((if found \<noteq> [] then wk_bind (duplicate V (last found)) (\<lambda>r. wk_return (Inr r)) else rest found) st1))"
    proof (cases "found = []")
      case True
      then show ?thesis using assms by (simp add: careful.keeps_def)
    next
      case False
      then have "last found \<in> set (live_of key (w_saved st1))" using committed by simp
      with False committed show ?thesis by (simp, intro careful_bind careful_duplicate careful_rules) simp_all
    qed
    with run Inr first careful_trans [of key st st1] show ?thesis by (simp add: wk_bind_def)
  qed
qed

lemma careful_send_recorded:
  assumes "recorded_live key (e_raw_tx row) (w_saved st)"
  shows "careful key st (snd (send_recorded V key row nonce st))"
  unfolding send_recorded_def Let_def
  by (rule careful_bind, rule careful_send [OF assms])
     (intro careful_rules careful_row careful_resync careful_release careful_mined)

text \<open>The write-ahead commit, and the broadcast that follows it.\<close>

lemma insert_then_send:
  assumes row: "em_key row = key" "em_live (e_status row)"
    and lost: "careful.keeps key lost"
  shows "careful key st (snd (wk_then (wk_mod (\<lambda>st. st\<lparr>w_db := (w_db st)\<lparr>d_emissions := d_emissions (w_db st) @ [row],
            d_next_emission := n\<rparr>\<rparr>))
        (wk_bind (wk_try em_commit) (\<lambda>committed. case committed of
          Inl e \<Rightarrow> lost | Inr u \<Rightarrow> wk_bind (send_recorded V key row nonce) (\<lambda>r. wk_return (Inr r)))) st))"
proof -
  let ?db = "(w_db st)\<lparr>d_emissions := d_emissions (w_db st) @ [row], d_next_emission := n\<rparr>"
  let ?st1 = "st\<lparr>w_db := ?db\<rparr>"
  show ?thesis
  proof (cases "unique_live (d_emissions ?db)")
    case False
    have "careful key ?st1 (snd (lost ?st1))" using lost by (simp add: careful.keeps_def)
    moreover have "careful key st ?st1" by (simp add: careful_same)
    ultimately have "careful key st (snd (lost ?st1))" using careful_trans by blast
    with False show ?thesis by (simp add: wk_then_def wk_bind_def wk_mod_def wk_try_def em_commit_def)
  next
    case True
    let ?st2 = "?st1\<lparr>w_saved := ?db\<rparr>"
    have "recorded_live key (e_raw_tx row) (w_saved ?st2)"
      using recorded_liveI [OF True, of row] row by simp
    then have "careful key ?st2 (snd (wk_bind (send_recorded V key row nonce) (\<lambda>r. wk_return (Inr r)) ?st2))"
      by (intro careful_bind careful_send_recorded careful_rules)
    moreover have "careful key st ?st2" using True by (simp add: careful_def)
    ultimately have "careful key st (snd (wk_bind (send_recorded V key row nonce) (\<lambda>r. wk_return (Inr r)) ?st2))"
      using careful_trans by blast
    with True show ?thesis by (simp add: wk_then_def wk_mod_def wk_try_def em_commit_def wk_bind_def)
  qed
qed

lemma careful_sign_and_send: "careful.keeps key (sign_and_send E req key account data amounts now gas q)"
proof -
  have insert: "careful.keeps key (wk_then (wk_mod (\<lambda>st. st\<lparr>w_db := (w_db st)\<lparr>d_emissions := d_emissions (w_db st) @ [row],
            d_next_emission := n\<rparr>\<rparr>))
        (wk_bind (wk_try em_commit) (\<lambda>committed. case committed of
          Inl e \<Rightarrow> lost | Inr u \<Rightarrow> wk_bind (send_recorded V key row nonce) (\<lambda>r. wk_return (Inr r)))))"
    if "em_key row = key" "em_live (e_status row)" "careful.keeps key lost" for row n lost V nonce
    using insert_then_send [OF that] by (rule careful.keepsI)
  have read: "careful.keeps key (wk_bind (wk_get f) g)" if "\<And>st. careful.keeps key (g (f st))" for f :: "ws \<Rightarrow> emission_distribution" and g :: "_ \<Rightarrow> em_json http wk"
    using that by (simp add: careful.keeps_def wk_bind_def wk_get_def)
  show ?thesis
    unfolding sign_and_send_def Let_def
    by (intro careful_live_duplicate careful.keeps_bind careful.keeps_then careful.keeps_prod read insert careful_sync careful_wk_nm
          careful_db careful_release careful.keeps_get careful.keeps_of careful.keeps_return)
       (simp_all add: distribution_row_def em_key_def em_live_def)
qed

section \<open>Properties\<close>

text \<open>
  C5 (distribution_broadcasts_are_recorded). Whatever the node answers and other processes commit, everything a
  POST /emissions/distribute request hands to the node was committed before as the signed transaction of
  the only live row of the request's payload and idempotency key; no two transactions of one payload and
  key are ever live, so a repeated or concurrent request pays nothing twice.
\<close>

theorem distribution_broadcasts_are_recorded:
  assumes "distribute E who req st = (r, st')" and "unique_live (d_emissions (w_saved st))"
  shows "(\<exists>recipients amounts new. w_sent st' = w_sent st @ new \<and>
      (\<forall>(raw, db) \<in> set new. recorded_live (payload_key E req (ee_encode E (di_program req) recipients amounts)) raw db)) \<and>
    unique_live (d_emissions (w_saved st'))"
proof -
  have "\<exists>recipients amounts. careful (payload_key E req (ee_encode E (di_program req) recipients amounts)) st st'"
  proof (cases "bind_http who (\<lambda>u. if u_is_operator u then distribute_checks (ee_worker E) req else Inl (HTTPException 403 ''operator only''))")
    case (Inl e)
    then have "st' = st" using assms(1) by (simp add: distribute_def Let_def wk_return_def)
    then show ?thesis by (simp add: careful_same)
  next
    case (Inr x)
    obtain account recipients amounts where x: "x = (account, recipients, amounts)" by (cases x) auto
    let ?key = "payload_key E req (ee_encode E (di_program req) recipients amounts)"
    have "careful.keeps ?key (distribute E who req)"
      unfolding distribute_def Let_def Inr x sum.case prod.case
      by (intro careful_rules careful_now careful_live_duplicate careful_quote careful_leader careful_sign_and_send)
    then show ?thesis using assms(1) by (meson careful.keepsD)
  qed
  then show ?thesis using assms(2) by (auto simp: careful_def case_prod_beta)
qed

text \<open>A confirmed distribution stays what it is through the check of a repeat.\<close>

lemma refresh_settled: "\<not> in_flight (e_status row) \<Longrightarrow> refresh_row V now row = wk_return ()"
  by (simp add: refresh_row_def)

lemma live_of_single:
  assumes "unique_live (d_emissions db)" and "row \<in> set (d_emissions db)" "em_live (e_status row)"
  shows "set (live_of (em_key row) db) = {row}"
  using assms unique_live_eq [OF assms(1,2)] by (auto simp: live_of_def)

lemma wk_each_idle: "(\<And>x. x \<in> set xs \<Longrightarrow> f x = wk_return ()) \<Longrightarrow> wk_each f xs = wk_return ()"
  by (induction xs) (simp_all add: wk_then_def wk_bind_def wk_return_def)

lemma live_rows_confirmed:
  assumes synced: "w_db st = w_saved st" and u: "unique_live (d_emissions (w_saved st))"
    and row: "row \<in> set (d_emissions (w_saved st))" "e_status row = Confirmed"
  shows "\<exists>found st1. live_rows E (em_key row) now st = (Inr found, st1) \<and> w_sent st1 = w_sent st \<and> found \<noteq> [] \<and> last found = row"
proof -
  obtain st1 where sync: "em_sync E st = (Inr (), st1)" and sent: "w_sent st1 = w_sent st" and db1: "w_db st1 = w_saved st1"
    and u1: "unique_live (d_emissions (w_db st1))" and row1: "row \<in> set (d_emissions (w_db st1))"
    using synced u row(1) by (auto simp: em_sync_def wk_mod_def Let_def)
  have single: "set (live_of (em_key row) (w_db st1)) = {row}"
    using live_of_single [OF u1 row1] row(2) by (simp add: em_live_def)
  then have "wk_each (refresh_row (ee_worker E) now) (live_of (em_key row) (w_db st1)) = wk_return ()"
    using row(2) by (intro wk_each_idle) (simp add: refresh_settled)
  then have "live_rows E (em_key row) now st = (Inr (live_of (em_key row) (w_db st1)), st1\<lparr>w_saved := w_db st1\<rparr>)"
    using sync u1 by (simp add: live_rows_def wk_then_def wk_bind_def wk_get_def wk_return_def em_commit_def)
  moreover have "live_of (em_key row) (w_db st1) \<noteq> [] \<and> last (live_of (em_key row) (w_db st1)) = row"
    using single last_in_set [of "live_of (em_key row) (w_db st1)"] by (cases "live_of (em_key row) (w_db st1)") auto
  ultimately show ?thesis using sent by simp
qed

text \<open>
  A request whose payload and idempotency key have a confirmed distribution is
  answered 409 with that distribution, and nothing is handed to the node.
\<close>

theorem confirmed_is_not_paid_again:
  assumes checked: "distribute_checks (ee_worker E) req = Inr (account, recipients, amounts)"
    and op: "u_is_operator u" and synced: "w_db st = w_saved st" and u: "unique_live (d_emissions (w_saved st))"
    and row: "row \<in> set (d_emissions (w_saved st))" "e_status row = Confirmed"
      "em_key row = payload_key E req (ee_encode E (di_program req) recipients amounts)"
  shows "\<exists>st'. distribute E (Inr u) req st = (Inr (Inr ((em_reply 409 row)\<lparr>ej_detail := ''Already distributed''\<rparr>)), st') \<and>
    w_sent st' = w_sent st"
proof -
  let ?now = "v_now (ee_worker E) (w_clock st)"
  let ?st = "st\<lparr>w_clock := Suc (w_clock st)\<rparr>"
  obtain found st1 where live: "live_rows E (em_key row) ?now ?st = (Inr found, st1)"
    and st1: "w_sent st1 = w_sent st" "found \<noteq> []" "last found = row"
    using live_rows_confirmed [of ?st row E ?now] synced u row(1,2) by auto
  have "duplicate (ee_worker E) row st1 = (Inr ((em_reply 409 row)\<lparr>ej_detail := ''Already distributed''\<rparr>), st1)"
    using row(2) by (simp add: duplicate_def wk_return_def)
  with live st1 checked op row(3) show ?thesis
    by (simp add: distribute_def wk_bind_def wk_now_def wk_return_def Let_def)
qed

text \<open>The relayer of the worker's example, and a distribution to one recipient.\<close>

definition ex_em_env :: em_env where
  "ex_em_env = \<lparr> ee_worker = ex_env\<lparr>v_settings := (v_settings ex_env)\<lparr>s_emissions_distributor_address := ''0xD'',
       s_ou_token_address := ''0xT''\<rparr>\<rparr>,
     ee_keccak = (\<lambda>t. t), ee_encode = (\<lambda>program rs as. ''params''), ee_others = (\<lambda>n. []) \<rparr>"

definition ex_distribute :: distribute_in where
  "ex_distribute = \<lparr> di_program = 0, di_recipients = [\<lparr> rc_address = ''0xaa'', rc_amount = ''5'' \<rparr>], di_idempotency_key = ''k1'' \<rparr>"

definition ex_paid :: emission_distribution where
  "ex_paid = (distribution_row 1 ex_distribute (payload_key ex_em_env ex_distribute ''params'') ''0xrelayer'' 7 ''0x01'' ''0xh'' [5] 0)
     \<lparr>e_status := Confirmed\<rparr>"

definition ex_paid_ws :: ws where
  "ex_paid_ws = ex_ws\<lparr>w_db := empty_db\<lparr>d_emissions := [ex_paid]\<rparr>, w_saved := empty_db\<lparr>d_emissions := [ex_paid]\<rparr>\<rparr>"

definition ex_payer :: user where
  "ex_payer = \<lparr> u_id = 1, u_address = ''0xop'', u_is_operator = True, u_cdp_user_id = [] \<rparr>"

theorem distribution_broadcasts_are_recorded_witness:
  "unique_live (d_emissions (w_saved (snd (distribute ex_em_env (Inr ex_payer) ex_distribute ex_ws)))) \<and>
   (\<exists>recipients amounts new. w_sent (snd (distribute ex_em_env (Inr ex_payer) ex_distribute ex_ws)) = w_sent ex_ws @ new \<and>
      (\<forall>(raw, db) \<in> set new. recorded_live (payload_key ex_em_env ex_distribute
         (ee_encode ex_em_env (di_program ex_distribute) recipients amounts)) raw db))"
proof -
  obtain r st' where run: "distribute ex_em_env (Inr ex_payer) ex_distribute ex_ws = (r, st')" by (metis prod.exhaust)
  have "unique_live (d_emissions (w_saved ex_ws))"
    by (simp add: ex_ws_def ex_db_def unique_live_def empty_db_def enqueue_match_def Let_def)
  from distribution_broadcasts_are_recorded [OF run this] show ?thesis by (simp add: run)
qed

theorem confirmed_is_not_paid_again_witness:
  "\<exists>st'. distribute ex_em_env (Inr ex_payer) ex_distribute ex_paid_ws =
     (Inr (Inr ((em_reply 409 ex_paid)\<lparr>ej_detail := ''Already distributed''\<rparr>)), st') \<and> w_sent st' = w_sent ex_paid_ws"
proof -
  have key: "em_key ex_paid = payload_key ex_em_env ex_distribute (ee_encode ex_em_env (di_program ex_distribute) [''0xaa''] [5])"
    by (simp add: ex_paid_def em_key_def distribution_row_def ex_em_env_def)
  have checked: "distribute_checks (ee_worker ex_em_env) ex_distribute = Inr (''0xRELAYER'', [''0xaa''], [5])"
    by code_simp
  show ?thesis
    by (rule confirmed_is_not_paid_again [OF checked _ _ _ _ _ key])
       (simp_all add: ex_payer_def ex_paid_ws_def ex_ws_def ex_paid_def distribution_row_def unique_live_def)
qed

end
