(* ===== verification/Consensus.thy ===== *)
theory Consensus
  imports Failing Eip712
begin

text \<open>
  The pure parts of the oracle job (\<open>oracles/\<close>): the outcome of a final score (\<open>resolve/winner.py\<close>), the
  agents' majority and the votes (\<open>consensus/fallback.py\<close>), the reports of one research run
  (\<open>consensus/coordinator.py\<close>), the tick's time budget (\<open>budget.py\<close>), the research cooldown
  (\<open>resolve/cooldown.py\<close>) and the comparison of keys with the chain (\<open>resolve/chain.py\<close>). Times are
  rationals.
\<close>

section \<open>winner.py\<close>

definition rstrip :: "string \<Rightarrow> string" where
  "rstrip s = rev (lstrip (rev s))"

text \<open>
  \<open>:\s*(.+?)\s+win\??\s*$\<close> at a colon, without case: the text after it is a name, spaces and \<open>win\<close> or \<open>win?\<close>.
  The shortest name takes no space at its end, and a dot matches no newline. \<open>None\<close> where the pattern
  does not match there.
\<close>

definition win_prefix :: "string \<Rightarrow> string option" where
  "win_prefix rest =
     (let low = py_lower rest; n = length rest in
      if endswith low ''win?'' then Some (take (n - 4) rest)
      else if endswith low ''win'' then Some (take (n - 3) rest)
      else None)"

definition team_name :: "string \<Rightarrow> string option" where
  "team_name rest =
     (case win_prefix rest of
        None \<Rightarrow> None
      | Some before \<Rightarrow>
          let name = rstrip (lstrip before) in
          if name = [] \<or> rstrip before = before \<or> CHR 0x0A \<in> set name then None else Some name)"

fun first_team :: "string \<Rightarrow> string option" where
  "first_team [] = None"
| "first_team (c # cs) =
     (if c = CHR '':'' then (case team_name cs of Some name \<Rightarrow> Some name | None \<Rightarrow> first_team cs) else first_team cs)"

definition yes_team :: "string \<Rightarrow> string option" where
  "yes_team question = first_team (py_strip question)"

definition same_team :: "string \<Rightarrow> string \<Rightarrow> bool" where
  "same_team left right =
     (let a = py_strip (py_lower left); b = py_strip (py_lower right) in
      if a = [] \<or> b = [] then False else a = b \<or> substring_in a b \<or> substring_in b a)"

definition score_outcome :: "string \<Rightarrow> string \<Rightarrow> string \<Rightarrow> int option \<Rightarrow> int option \<Rightarrow> int option" where
  "score_outcome question home_label away_label home_score away_score =
     (case (yes_team question, home_score, away_score) of
        (Some yes, Some home, Some away) \<Rightarrow>
          if home = away then None
          else
            (case (if same_team yes home_label then Some (home, away)
                   else if same_team yes away_label then Some (away, home) else None) of
               None \<Rightarrow> None
             | Some (yes_score, no_score) \<Rightarrow>
                 if yes_score > no_score then Some 0 else if yes_score < no_score then Some 1 else None)
      | _ \<Rightarrow> None)"

section \<open>Agents and votes\<close>

definition majority :: "int list \<Rightarrow> int option" where
  "majority agent_outcomes =
     (let yes = length (filter (\<lambda>x. x = 0) agent_outcomes); no = length (filter (\<lambda>x. x = 1) agent_outcomes) in
      if yes \<ge> 2 then Some 0 else if no \<ge> 2 then Some 1 else None)"

datatype verdict_kind = By_Agent | Agree | Arbitrate_Votes

definition combine :: "int \<Rightarrow> int \<Rightarrow> int \<Rightarrow> verdict_kind" where
  "combine agent_outcome yes_weight no_weight =
     (let total = yes_weight + no_weight in
      if total = 0 then By_Agent
      else
        let vote_out = (if yes_weight \<ge> no_weight then 0 else 1);
            opposing = (if agent_outcome = 0 then no_weight else yes_weight)
        in if vote_out = agent_outcome then Agree
           else if opposing * 3 \<ge> total * 2 then Arbitrate_Votes
           else By_Agent)"

text \<open>One agent's report, and what \<open>Coordinator.run\<close> makes of the reports.\<close>

record report =
  rp_agent :: string
  rp_outcome :: int
  rp_confidence :: "rat option"
  rp_summary :: string
  rp_evidence_hash :: string

record research =
  rs_unanimous :: bool
  rs_outcome :: "int option"
  rs_reports :: "report list"

definition coordinator_run :: "report list \<Rightarrow> research" where
  "coordinator_run reports =
     (let unanimous = (length (remdups (map rp_outcome reports)) = 1) in
      \<lparr> rs_unanimous = unanimous, rs_outcome = (if unanimous then Some (rp_outcome (hd reports)) else None),
        rs_reports = reports \<rparr>)"

lemma coordinator_unanimous:
  "rs_unanimous (coordinator_run reports) \<Longrightarrow> \<exists>out. rs_outcome (coordinator_run reports) = Some out \<and>
     reports \<noteq> [] \<and> (\<forall>r \<in> set reports. rp_outcome r = out)"
proof -
  assume "rs_unanimous (coordinator_run reports)"
  then have one: "length (remdups (map rp_outcome reports)) = 1" by (simp add: coordinator_run_def Let_def)
  then obtain out where "remdups (map rp_outcome reports) = [out]"
    by (cases "remdups (map rp_outcome reports)") auto
  then have all: "rp_outcome ` set reports = {out}" by (metis list.set(1,2) set_map set_remdups)
  then have "reports \<noteq> []" by auto
  with one all show ?thesis by (cases reports) (auto simp: coordinator_run_def Let_def)
qed

lemma agreeing_unanimous:
  assumes "reports \<noteq> []" and "\<forall>r \<in> set reports. rp_outcome r = out"
  shows "rs_unanimous (coordinator_run reports) \<and> rs_outcome (coordinator_run reports) = Some out"
proof -
  have "map rp_outcome reports = replicate (length reports) out"
    using assms(2) by (simp add: map_replicate_const [symmetric])
  then have "set (map rp_outcome reports) = {out}" using assms(1) by (cases reports) auto
  then have "length (remdups (map rp_outcome reports)) = 1" by (simp add: length_remdups_card_conv)
  then show ?thesis using assms by (cases reports) (auto simp: coordinator_run_def Let_def)
qed

section \<open>budget.py\<close>

definition SEND_MARGIN_SECONDS :: rat where "SEND_MARGIN_SECONDS = 10"
definition MIN_RECEIPT_SECONDS :: rat where "MIN_RECEIPT_SECONDS = 20"

text \<open>The deadlines are readings of the monotonic clock; without a deadline the budget is off.\<close>

record tick_budget =
  tb_deadline :: "rat option"
  tb_total :: rat
  tb_stage :: "rat option"

definition start_budget :: "rat \<Rightarrow> rat \<Rightarrow> tick_budget" where
  "start_budget seconds now =
     (if seconds > 0 then \<lparr> tb_deadline = Some (now + seconds), tb_total = seconds, tb_stage = None \<rparr>
      else \<lparr> tb_deadline = None, tb_total = 0, tb_stage = None \<rparr>)"

definition effective_deadline :: "tick_budget \<Rightarrow> rat option" where
  "effective_deadline b = map_option (\<lambda>d. case tb_stage b of None \<Rightarrow> d | Some s \<Rightarrow> min d s) (tb_deadline b)"

definition exhausted :: "tick_budget \<Rightarrow> rat \<Rightarrow> bool" where
  "exhausted b now = (case effective_deadline b of None \<Rightarrow> False | Some d \<Rightarrow> now \<ge> d)"

definition time_left :: "tick_budget \<Rightarrow> rat \<Rightarrow> rat option" where
  "time_left b now = map_option (\<lambda>d. max 0 (d - now)) (effective_deadline b)"

definition total_exhausted :: "tick_budget \<Rightarrow> rat \<Rightarrow> bool" where
  "total_exhausted b now = (case tb_deadline b of None \<Rightarrow> False | Some d \<Rightarrow> now \<ge> d)"

definition total_left :: "tick_budget \<Rightarrow> rat \<Rightarrow> rat option" where
  "total_left b now = map_option (\<lambda>d. max 0 (d - now)) (tb_deadline b)"

definition can_start :: "tick_budget \<Rightarrow> rat \<Rightarrow> rat \<Rightarrow> bool" where
  "can_start b min_seconds now =
     (case time_left b now of None \<Rightarrow> True | Some left \<Rightarrow> left > 0 \<and> left \<ge> min_seconds)"

text \<open>\<open>None\<close> is \<open>SendDeferred\<close>.\<close>

definition receipt_timeout :: "tick_budget \<Rightarrow> rat \<Rightarrow> rat \<Rightarrow> rat option" where
  "receipt_timeout b cap now =
     (case total_left b now of
        None \<Rightarrow> Some cap
      | Some left \<Rightarrow>
          let wait = min cap (left - SEND_MARGIN_SECONDS) in
          if wait < MIN_RECEIPT_SECONDS then None else Some wait)"

definition budget_stage :: "rat \<Rightarrow> rat \<Rightarrow> rat \<Rightarrow> tick_budget \<Rightarrow> tick_budget" where
  "budget_stage share reserve now b =
     (case tb_deadline b of
        None \<Rightarrow> b
      | Some d \<Rightarrow> b\<lparr>tb_stage := Some (min (now + share * tb_total b) (d - max 0 reserve))\<rparr>)"

lemma receipt_timeout_bounds:
  assumes "receipt_timeout b cap now = Some wait" and "tb_deadline b = Some d"
  shows "MIN_RECEIPT_SECONDS \<le> wait \<and> wait \<le> cap \<and> now + wait \<le> d - SEND_MARGIN_SECONDS"
  using assms by (auto simp: receipt_timeout_def total_left_def Let_def MIN_RECEIPT_SECONDS_def SEND_MARGIN_SECONDS_def
      split: if_splits)

section \<open>cooldown.py\<close>

text \<open>The rows of GET /oracle/{id}/status: the agent and the parsed \<open>createdAt\<close>.\<close>

definition ERROR_AGENT :: string where "ERROR_AGENT = ''oracle-job''"
definition ERROR_REASON :: string where "ERROR_REASON = ''research error''"
definition ZERO_HASH :: string where "ZERO_HASH = ''0x'' @ replicate 64 (CHR ''0'')"

definition newer :: "string \<times> rat option \<Rightarrow> (rat \<times> bool) option \<Rightarrow> (rat \<times> bool) option" where
  "newer row newest =
     (case row of
        (agent, None) \<Rightarrow> newest
      | (agent, Some stamp) \<Rightarrow>
          if (case newest of None \<Rightarrow> True | Some (t, _) \<Rightarrow> stamp \<ge> t)
          then Some (stamp, py_lower agent = ERROR_AGENT) else newest)"

definition last_research :: "(string \<times> rat option) list \<Rightarrow> (rat \<times> bool) option" where
  "last_research rows = fold newer rows None"

text \<open>\<open>retry_at\<close> once the status was read; times are compared as rationals and truncated at the end.\<close>

definition cooling :: "rat \<Rightarrow> rat \<Rightarrow> rat \<Rightarrow> (string \<times> rat option) list \<Rightarrow> int option" where
  "cooling clock window error_window rows =
     (case last_research rows of
        None \<Rightarrow> None
      | Some (stamp, is_error) \<Rightarrow>
          let span = (if is_error then error_window else window) in
          if span \<le> 0 \<or> clock \<ge> stamp + span then None else Some \<lfloor>stamp + span\<rfloor>)"

text \<open>\<open>" ".join(text.split())\<close>, and the marker row of a failed run, whose error was redacted before.\<close>

fun squeeze :: "string \<Rightarrow> string" where
  "squeeze [] = []"
| "squeeze (c # cs) =
     (let rest = squeeze cs in
      if \<not> is_space c then c # rest
      else if rest = [] \<or> hd rest = CHR '' '' then rest else CHR '' '' # rest)"

definition join_words :: "string \<Rightarrow> string" where
  "join_words text = lstrip (squeeze text)"

definition failure_report :: "string \<Rightarrow> report" where
  "failure_report detail = \<lparr> rp_agent = ERROR_AGENT, rp_outcome = 2, rp_confidence = Some 0,
     rp_summary = take 280 (ERROR_REASON @ '': '' @ join_words detail), rp_evidence_hash = ZERO_HASH \<rparr>"

section \<open>chain.py: pure checks\<close>

definition AGENT_KEYS :: "string list" where "AGENT_KEYS = [''alpha'', ''beta'', ''gamma'']"

definition payout_outcome :: "int \<Rightarrow> int \<Rightarrow> int option" where
  "payout_outcome yes no = (if yes > 0 \<and> no = 0 then Some 0 else if no > 0 \<and> yes = 0 then Some 1 else None)"

datatype config_problem =
    Chain_Id_Mismatch int int
  | No_Contract_Code
  | Agent_Key_Missing string
  | Not_An_Agent string string
  | Duplicate_Agent_Keys
  | Operator_Key_Missing
  | Operator_Mismatch string string

text \<open>\<open>expected\<close>: the addresses of the job's keys, by name; \<open>None\<close> when a key is missing or invalid.\<close>

definition agent_problem :: "(string \<Rightarrow> string option) \<Rightarrow> string set \<Rightarrow> string \<Rightarrow> config_problem list" where
  "agent_problem expected registered name =
     (case expected name of
        None \<Rightarrow> [Agent_Key_Missing name]
      | Some addr \<Rightarrow>
          if addr = [] then [Agent_Key_Missing name]
          else if py_lower addr \<in> registered then [] else [Not_An_Agent name addr])"

definition agent_addresses :: "(string \<Rightarrow> string option) \<Rightarrow> string list" where
  "agent_addresses expected = map py_lower (filter (\<lambda>a. a \<noteq> []) (List.map_filter expected AGENT_KEYS))"

definition compare_config :: "(string \<Rightarrow> string option) \<Rightarrow> string list \<Rightarrow> string \<Rightarrow> config_problem list" where
  "compare_config expected onchain_agents onchain_operator =
     concat (map (agent_problem expected (set (map py_lower onchain_agents))) AGENT_KEYS) @
     (if length (agent_addresses expected) = length AGENT_KEYS \<and> \<not> distinct (agent_addresses expected)
      then [Duplicate_Agent_Keys] else []) @
     (case expected ''operator'' of
        None \<Rightarrow> [Operator_Key_Missing]
      | Some operator \<Rightarrow>
          if operator = [] then [Operator_Key_Missing]
          else if py_lower operator \<noteq> py_lower onchain_operator then [Operator_Mismatch operator onchain_operator]
          else [])"

record config_reads =
  cg_env_chain :: int
  cg_rpc_chain :: int
  cg_has_code :: bool
  cg_agents :: "string list"
  cg_operator :: string
  cg_expected :: "string \<Rightarrow> string option"

definition config_problems :: "config_reads \<Rightarrow> config_problem list" where
  "config_problems c =
     (if cg_env_chain c \<noteq> cg_rpc_chain c then [Chain_Id_Mismatch (cg_env_chain c) (cg_rpc_chain c)] else []) @
     (if \<not> cg_has_code c then [No_Contract_Code]
      else compare_config (cg_expected c) (cg_agents c) (cg_operator c))"

end
