(* ===== verification/Json.thy ===== *)
theory Json
  imports Prelude Complex_Main "HOL-Library.List_Lexorder" "HOL-Library.Char_ord"
begin

text \<open>
  Data that crosses the wire: JSON values as \<open>json.loads\<close> gives them, and the parts of the API's answers the
  oracle job reads. A missing field is the value the code falls back to.
\<close>

section \<open>Values\<close>

text \<open>\<open>J_Float\<close> is a finite float; \<open>J_Special\<close> is \<open>NaN\<close>, \<open>Infinity\<close> or \<open>-Infinity\<close>.\<close>

datatype json =
    J_Null
  | J_Bool bool
  | J_Int int
  | J_Float rat
  | J_Special string
  | J_Str string
  | J_Arr "json list"
  | J_Obj "(string \<times> json) list"

text \<open>A value with the keys of every object in order, which is what \<open>json.dumps(sort_keys=True)\<close> prints.\<close>

primrec sort_keys :: "json \<Rightarrow> json" where
  "sort_keys J_Null = J_Null"
| "sort_keys (J_Bool b) = J_Bool b"
| "sort_keys (J_Int i) = J_Int i"
| "sort_keys (J_Float r) = J_Float r"
| "sort_keys (J_Special w) = J_Special w"
| "sort_keys (J_Str s) = J_Str s"
| "sort_keys (J_Arr xs) = J_Arr (map sort_keys xs)"
| "sort_keys (J_Obj kvs) = J_Obj (sort_key fst (map (map_prod id sort_keys) kvs))"

text \<open>\<open>d.get(name)\<close>; a missing key is \<open>None\<close>, as JSON's null is.\<close>

definition json_get :: "(string \<times> json) list \<Rightarrow> string \<Rightarrow> json" where
  "json_get kvs name = (case map_of kvs name of None \<Rightarrow> J_Null | Some v \<Rightarrow> v)"

section \<open>Markets as the API shows them\<close>

record market_json =
  mj_condition_id :: string
  mj_question :: string
  mj_resolution_criteria :: string
  mj_market_type :: int
  mj_parent :: string
  mj_close_time :: int
  mj_resolved :: bool
  mj_resolve_after :: int

record card_json =
  cj_primary :: market_json
  cj_children :: "market_json list"

record score_json =
  sj_status :: string
  sj_updated_at :: "rat option"
  sj_home_label :: string
  sj_away_label :: string
  sj_home_score :: "int option"
  sj_away_score :: "int option"

record detail_json =
  dj_question :: string
  dj_resolved :: bool
  dj_close_time :: int
  dj_score :: "score_json option"

definition is_sports_primary :: "market_json \<Rightarrow> bool" where
  "is_sports_primary m =
     (mj_market_type m = 0 \<and> (substring_in '' vs '' (py_lower (mj_question m)) \<or> substring_in '' vs. '' (py_lower (mj_question m))))"

end
