(* ===== verification/Resolver.thy ===== *)
theory Resolver
  imports Consensus Json Gates "HOL-Library.AList" "HOL-Library.Product_Lexorder" "HOL-Library.List_Lexorder" "HOL-Library.Char_ord"
begin

text \<open>
  The oracle job's resolvers: sports primaries (\<open>oracles/resolve/run.py\<close>), every other market
  (\<open>oracles/resolve/general.py\<close>), the 24h fallback (\<open>oracles/resolve/fallback.py\<close>), the sends
  (\<open>oracles/resolve/chain.py\<close>) and the records of them (\<open>oracles/resolve/publish.py\<close>). A run is a computation
  over \<open>tickst\<close>; everything outside the job (the API, the node, the agents, the clocks) is an answer of
  \<open>tick_env\<close>, one per call number, with an exception's text on the left. Transactions broadcast and records
  posted are kept in one log. Text of prompts and of log messages is not modelled.
\<close>

section \<open>Dual-gate primaries\<close>

definition is_dual_gate_primary :: "market_json \<Rightarrow> bool" where
  "is_dual_gate_primary m = (is_sports_primary m \<and> yes_team (mj_question m) \<noteq> None)"

definition close_order :: "market_json \<Rightarrow> int \<times> string" where
  "close_order m = (mj_close_time m, mj_condition_id m)"

definition dual_gate_primaries :: "card_json list \<Rightarrow> market_json list" where
  "dual_gate_primaries cards = sort_key close_order (filter is_dual_gate_primary (map cj_primary cards))"

section \<open>State and environment\<close>

datatype policy = Manual | Attest | Arbitrate

definition parse_policy :: "string option \<Rightarrow> policy option" where
  "parse_policy text =
     (let p = py_lower (py_strip (case text of None \<Rightarrow> ''attest'' | Some t \<Rightarrow> if t = [] then ''attest'' else t)) in
      if p = ''manual'' then Some Manual else if p = ''attest'' then Some Attest
      else if p = ''arbitrate'' then Some Arbitrate else None)"

datatype oracle_tx =
    Submit_Consensus string int string int "string list"
  | Submit_Attestation string int string int string string
  | Resolve_Fallback string
  | Resolve_Arbitrated string int

text \<open>A record posted to the API: an agent's report (as research that did not resolve, or as evidence), or the mirror.\<close>

datatype post = Post_Report string report "string option" | Post_Resolved string int

datatype tick_event = Tx oracle_tx | Posted_Record post

text \<open>\<open>SendDeferred\<close>, \<open>SendFailed\<close> with the attestations sent, or any other exception.\<close>

datatype tick_exn = Send_Deferred string | Send_Failed string "string list" | Raised string

fun exn_text :: "tick_exn \<Rightarrow> string" where
  "exn_text (Send_Deferred text) = text"
| "exn_text (Send_Failed text attested) = text"
| "exn_text (Raised text) = text"

record agent_slot =
  sl_submitted :: bool
  sl_outcome :: int

record fallback_state =
  fb_resolved :: bool
  fb_close_time :: int
  fb_now :: int
  fb_window :: int
  fb_agents :: "(string \<times> agent_slot) list"
  fb_yes_votes :: int
  fb_no_votes :: int

datatype research_input = Sports_Research string int | General_Research market_json "string option" int

text \<open>How the operator's market list fails: an HTTP status, a missing configuration, anything else.\<close>

datatype list_error = Http_Status int | Runtime_Error string | Other_Error string

record tick_env =
  te_policy :: policy
  te_cap :: nat
  te_retry_window :: rat
  te_error_window :: rat
  te_min_seconds :: rat
  te_now :: "rat option"
  te_time :: rat
  te_budget :: tick_budget
  te_oracle :: string
  te_chain_id :: int
  te_delay :: int
  te_gated_delay :: int
  te_floor :: rat
  te_mono :: "nat \<Rightarrow> rat"
  te_redact :: "string \<Rightarrow> string"
  te_operator_cards :: "nat \<Rightarrow> list_error + card_json list"
  te_cards :: "nat \<Rightarrow> string + card_json list"
  te_detail :: "string \<Rightarrow> nat \<Rightarrow> string + detail_json"
  te_status :: "string \<Rightarrow> nat \<Rightarrow> string + (string \<times> rat option) list"
  te_config :: "nat \<Rightarrow> string + config_reads"
  te_is_resolved :: "string \<Rightarrow> nat \<Rightarrow> string + bool"
  te_close_time :: "string \<Rightarrow> nat \<Rightarrow> string + int"
  te_payouts :: "string \<Rightarrow> nat \<Rightarrow> string + (int \<times> int \<times> int)"
  te_chain_now :: "nat \<Rightarrow> string + int"
  te_fallback_state :: "string \<Rightarrow> nat \<Rightarrow> string + fallback_state"
  te_fallback_preflight :: "string \<Rightarrow> nat \<Rightarrow> string + (bool \<times> string)"
  te_research :: "research_input \<Rightarrow> nat \<Rightarrow> string + report list"
  te_agent_address :: "string \<Rightarrow> string + string"
  te_sign :: "string \<Rightarrow> string \<Rightarrow> string \<Rightarrow> int \<Rightarrow> int \<Rightarrow> string + string"
  te_open :: "oracle_tx \<Rightarrow> nat \<Rightarrow> string + unit"
  te_preflight :: "oracle_tx \<Rightarrow> nat \<Rightarrow> string + unit"
  te_build :: "oracle_tx \<Rightarrow> nat \<Rightarrow> string + unit"
  te_receipt :: "oracle_tx \<Rightarrow> nat \<Rightarrow> string + int"
  te_token :: "nat \<Rightarrow> string + unit"
  te_post :: "post \<Rightarrow> nat \<Rightarrow> string + unit"

record tickst =
  tk_calls :: nat
  tk_log :: "tick_event list"
  tk_chain_now :: "int option"
  tk_researched :: nat
  tk_failed :: nat

type_synonym 'a ticking = "(tickst, tick_exn + 'a) state"

definition ask_tick :: "(nat \<Rightarrow> string + 'a) \<Rightarrow> 'a ticking" where
  "ask_tick f = State (\<lambda>st. (map_sum Raised id (f (tk_calls st)), st\<lparr>tk_calls := Suc (tk_calls st)\<rparr>))"

definition log_event :: "tick_event \<Rightarrow> unit ticking" where
  "log_event e = State (\<lambda>st. (Inr (), st\<lparr>tk_log := tk_log st @ [e]\<rparr>))"

definition get_tick :: "(tickst \<Rightarrow> 'a) \<Rightarrow> 'a ticking" where
  "get_tick f = State (\<lambda>st. (Inr (f st), st))"

definition mod_tick :: "(tickst \<Rightarrow> tickst) \<Rightarrow> unit ticking" where
  "mod_tick f = State (\<lambda>st. (Inr (), f st))"

definition read_clock :: "tick_env \<Rightarrow> rat ticking" where
  "read_clock E = ask_tick (\<lambda>n. Inr (te_mono E n))"

definition hex_bytes :: "string \<Rightarrow> string ticking" where
  "hex_bytes text =
     (case from_hex (if startswith text ''0x'' then drop 2 text else text) of
        None \<Rightarrow> raise (Raised ''ValueError'') | Some bytes \<Rightarrow> ok bytes)"

section \<open>Clocks\<close>

definition wall_clock :: "tick_env \<Rightarrow> rat" where
  "wall_clock E = (case te_now E of Some t \<Rightarrow> t | None \<Rightarrow> te_time E)"

text \<open>The chain's clock is read once per run.\<close>

definition chain_now :: "tick_env \<Rightarrow> int ticking" where
  "chain_now E =
     op_then (get_tick tk_chain_now) (\<lambda>known.
     case known of
       Some t \<Rightarrow> ok t
     | None \<Rightarrow> op_then (ask_tick (te_chain_now E)) (\<lambda>t.
         op_then (mod_tick (\<lambda>st. st\<lparr>tk_chain_now := Some t\<rparr>)) (\<lambda>_. ok t)))"

definition effective_now :: "tick_env \<Rightarrow> rat ticking" where
  "effective_now E =
     (case te_now E of
        Some t \<Rightarrow> ok t
      | None \<Rightarrow> op_then (chain_now E) (\<lambda>t. ok (max (wall_clock E) (of_int t))))"

section \<open>Sends\<close>

definition RECEIPT_TIMEOUT :: rat where "RECEIPT_TIMEOUT = 180"

text \<open>
  \<open>_send\<close>, after \<open>te_open\<close> (the account, the chain id and the contract): the budget is checked before
  anything is built, and a receipt with another status than 1 is an exception.
\<close>

definition send_tx :: "tick_env \<Rightarrow> oracle_tx \<Rightarrow> string \<Rightarrow> unit ticking" where
  "send_tx E tx label =
     op_then (ask_tick (te_open E tx)) (\<lambda>_.
     op_then (read_clock E) (\<lambda>now.
     case receipt_timeout (te_budget E) RECEIPT_TIMEOUT now of
       None \<Rightarrow> raise (Send_Deferred ''tick budget too short for a send'')
     | Some wait \<Rightarrow>
         op_then (ask_tick (te_preflight E tx)) (\<lambda>_.
         op_then (ask_tick (te_build E tx)) (\<lambda>_.
         op_then (log_event (Tx tx)) (\<lambda>_.
         op_then (ask_tick (te_receipt E tx)) (\<lambda>status.
         if status \<noteq> 1 then raise (Raised (label @ '' transaction failed'')) else ok ()))))))"

definition submit_consensus :: "tick_env \<Rightarrow> string \<Rightarrow> int \<Rightarrow> string \<Rightarrow> int \<Rightarrow> string list \<Rightarrow> unit ticking" where
  "submit_consensus E cid out evidence deadline sigs =
     send_tx E (Submit_Consensus cid out evidence deadline sigs) ''submitConsensus''"

definition submit_attestation :: "tick_env \<Rightarrow> string \<Rightarrow> int \<Rightarrow> string \<Rightarrow> int \<Rightarrow> string \<Rightarrow> string \<Rightarrow> unit ticking" where
  "submit_attestation E cid out evidence deadline name sig =
     send_tx E (Submit_Attestation cid out evidence deadline name sig) ''submitAttestation''"

definition resolve_fallback :: "tick_env \<Rightarrow> string \<Rightarrow> unit ticking" where
  "resolve_fallback E cid = send_tx E (Resolve_Fallback cid) ''resolveFallback''"

definition resolve_arbitrated :: "tick_env \<Rightarrow> string \<Rightarrow> int \<Rightarrow> unit ticking" where
  "resolve_arbitrated E cid out = send_tx E (Resolve_Arbitrated cid out) ''resolveArbitrated''"

definition CONSENSUS_DEADLINE_SECONDS :: int where "CONSENSUS_DEADLINE_SECONDS = 3600"

definition sign_all :: "tick_env \<Rightarrow> string list \<Rightarrow> string \<Rightarrow> string \<Rightarrow> int \<Rightarrow> int \<Rightarrow> string list ticking" where
  "sign_all E names cid evidence out deadline =
     foldr (\<lambda>name rest. case te_sign E name cid evidence out deadline of
         Inl err \<Rightarrow> raise (Raised err)
       | Inr sig \<Rightarrow> op_then rest (\<lambda>sigs. ok (sig # sigs))) names (ok [])"

definition sign_unanimous :: "tick_env \<Rightarrow> string \<Rightarrow> string \<Rightarrow> int \<Rightarrow> int \<Rightarrow> (int \<times> string list) ticking" where
  "sign_unanimous E cid evidence out now =
     (let deadline = now + CONSENSUS_DEADLINE_SECONDS in
      op_then (sign_all E AGENT_KEYS cid evidence out deadline) (\<lambda>sigs. ok (deadline, sigs)))"

text \<open>\<open>onchain_outcome\<close>: the denominator and the two numerators.\<close>

definition onchain_outcome :: "tick_env \<Rightarrow> string \<Rightarrow> int option ticking" where
  "onchain_outcome E cid =
     op_then (ask_tick (te_payouts E cid)) (\<lambda>(denominator, yes, no).
     ok (if denominator = 0 then None else payout_outcome yes no))"

section \<open>Records\<close>

definition post_record :: "tick_env \<Rightarrow> post \<Rightarrow> unit ticking" where
  "post_record E p = op_then (log_event (Posted_Record p)) (\<lambda>_. ask_tick (te_post E p))"

fun post_all :: "tick_env \<Rightarrow> post list \<Rightarrow> unit ticking" where
  "post_all E [] = ok ()"
| "post_all E (p # ps) = op_then (post_record E p) (\<lambda>_. post_all E ps)"

definition persist_attestations :: "tick_env \<Rightarrow> string \<Rightarrow> report list \<Rightarrow> string option \<Rightarrow> unit ticking" where
  "persist_attestations E cid reports reason =
     (if reports = [] then ok ()
      else op_then (ask_tick (te_token E)) (\<lambda>_. post_all E (map (\<lambda>r. Post_Report cid r reason) reports)))"

definition mark_resolved :: "tick_env \<Rightarrow> string \<Rightarrow> int \<Rightarrow> unit ticking" where
  "mark_resolved E cid out = op_then (ask_tick (te_token E)) (\<lambda>_. post_record E (Post_Resolved cid out))"

text \<open>\<open>record_research\<close> and \<open>record_failure\<close>: the error's text instead of an exception.\<close>

definition record_research :: "tick_env \<Rightarrow> string \<Rightarrow> report list \<Rightarrow> string \<Rightarrow> string option ticking" where
  "record_research E cid reports reason =
     catch (op_then (persist_attestations E cid reports (Some reason)) (\<lambda>_. ok None)) (\<lambda>e. ok (Some (exn_text e)))"

definition record_failure :: "tick_env \<Rightarrow> string \<Rightarrow> string \<Rightarrow> string option ticking" where
  "record_failure E cid detail = record_research E cid [failure_report (te_redact E detail)] ERROR_REASON"

text \<open>\<open>retry_at\<close>: a failed status read never blocks research.\<close>

definition retry_at :: "tick_env \<Rightarrow> string \<Rightarrow> int option ticking" where
  "retry_at E cid =
     (if te_retry_window E \<le> 0 \<and> te_error_window E = 0 then ok None
      else catch (op_then (ask_tick (te_status E cid)) (\<lambda>rows.
        ok (cooling (wall_clock E) (te_retry_window E) (te_error_window E) rows))) (\<lambda>e. ok None))"


section \<open>fallback.py\<close>

definition WINDOW :: int where "WINDOW = 86400"
definition ATTEST_DEADLINE_SECONDS :: int where "ATTEST_DEADLINE_SECONDS = 3600"

definition NO_MAJORITY :: string where "NO_MAJORITY = ''no agent majority''"
definition ARBITRATION_REQUIRED :: string where "ARBITRATION_REQUIRED = ''arbitration required''"
definition ARBITRABLE :: "string set" where "ARBITRABLE = {NO_MAJORITY, ARBITRATION_REQUIRED}"

record fragment =
  fg_submitted :: bool
  fg_attested :: "string list"
  fg_outcome :: int
  fg_matching :: nat
  fg_reason :: string
  fg_fallback_at :: "int option"
  fg_supporters :: "string list option"
  fg_notes :: "string list"
  fg_path :: "string option"
  fg_blocker :: "string option"

text \<open>What the loop over the matching reports carries.\<close>

record attesting =
  at_slots :: "(string \<times> agent_slot) list"
  at_attested :: "string list"
  at_supporters :: "string list"
  at_notes :: "string list"

definition add_note :: "string \<Rightarrow> string \<Rightarrow> attesting \<Rightarrow> attesting" where
  "add_note name text a = a\<lparr>at_notes := at_notes a @ [name @ '': '' @ text]\<rparr>"

definition add_supporter :: "string \<Rightarrow> attesting \<Rightarrow> attesting" where
  "add_supporter name a = a\<lparr>at_supporters := at_supporters a @ [name]\<rparr>"

definition set_slot :: "string \<Rightarrow> agent_slot \<Rightarrow> attesting \<Rightarrow> attesting" where
  "set_slot addr slot a = a\<lparr>at_slots := AList.update addr slot (at_slots a)\<rparr>"

definition submitted_outcomes :: "(string \<times> agent_slot) list \<Rightarrow> int list" where
  "submitted_outcomes slots = map sl_outcome (filter sl_submitted (map snd slots))"

definition raced_slot :: "tick_env \<Rightarrow> string \<Rightarrow> string \<Rightarrow> string \<Rightarrow> agent_slot option ticking" where
  "raced_slot E cid addr text =
     (if \<not> substring_in ''dup attestation'' text then ok None
      else catch (op_then (ask_tick (te_fallback_state E cid)) (\<lambda>st.
        ok (case map_of (fb_agents st) addr of
              Some slot \<Rightarrow> if sl_submitted slot then Some slot else None
            | None \<Rightarrow> None))) (\<lambda>e. ok None))"

text \<open>A send that raised: deferred, raced by a concurrent tick, or failed.\<close>

definition attest_raised :: "tick_env \<Rightarrow> string \<Rightarrow> int \<Rightarrow> string \<Rightarrow> string \<Rightarrow> tick_exn \<Rightarrow> attesting \<Rightarrow> attesting ticking" where
  "attest_raised E cid derived name addr e a =
     (case e of
        Send_Deferred text \<Rightarrow> raise (Send_Deferred text)
      | _ \<Rightarrow> op_then (raced_slot E cid addr (exn_text e)) (\<lambda>fresh. case fresh of
            None \<Rightarrow> raise (Send_Failed (''submitAttestation: '' @ exn_text e) (at_attested a))
          | Some slot \<Rightarrow>
              let a' = add_note name ''attested concurrently'' (set_slot addr slot a) in
              ok (if sl_outcome slot = derived then add_supporter name a' else a')))"

definition attest_one :: "tick_env \<Rightarrow> string \<Rightarrow> int \<Rightarrow> int \<Rightarrow> report \<Rightarrow> attesting \<Rightarrow> attesting ticking" where
  "attest_one E cid derived deadline rep a =
     (let name = rp_agent rep in
      case te_agent_address E name of
        Inl err \<Rightarrow> ok (add_note name err a)
      | Inr address \<Rightarrow>
          let addr = py_lower address in
          (case map_of (at_slots a) addr of
             None \<Rightarrow> ok (add_note name ''not an oracle agent'' a)
           | Some slot \<Rightarrow>
               if sl_submitted slot then ok (if sl_outcome slot = derived then add_supporter name a else a)
               else op_then (hex_bytes (rp_evidence_hash rep)) (\<lambda>evidence.
                 case te_sign E name cid evidence derived deadline of
                   Inl err \<Rightarrow> raise (Raised err)
                 | Inr sig \<Rightarrow>
                     State_Monad.bind (submit_attestation E cid derived evidence deadline name sig) (\<lambda>r. case r of
                       Inl e \<Rightarrow> attest_raised E cid derived name addr e a
                     | Inr _ \<Rightarrow>
                         let a' = add_supporter name (set_slot addr \<lparr> sl_submitted = True, sl_outcome = derived \<rparr> a) in
                         ok (a'\<lparr>at_attested := at_attested a' @ [name]\<rparr>)))))"

fun attest_all :: "tick_env \<Rightarrow> string \<Rightarrow> int \<Rightarrow> int \<Rightarrow> report list \<Rightarrow> attesting \<Rightarrow> attesting ticking" where
  "attest_all E cid derived deadline [] a = ok a"
| "attest_all E cid derived deadline (rep # reps) a =
     op_then (attest_one E cid derived deadline rep a) (\<lambda>a'. attest_all E cid derived deadline reps a')"

text \<open>\<open>_resolve_send\<close>: \<open>False\<close> when another sender resolved first.\<close>

definition resolve_send :: "tick_env \<Rightarrow> string \<Rightarrow> string \<Rightarrow> string list \<Rightarrow> unit ticking \<Rightarrow> bool ticking" where
  "resolve_send E cid label attested call =
     State_Monad.bind call (\<lambda>r. case r of
       Inr _ \<Rightarrow> ok True
     | Inl (Send_Deferred text) \<Rightarrow> raise (Send_Deferred text)
     | Inl e \<Rightarrow> op_then (catch (ask_tick (te_is_resolved E cid)) (\<lambda>_. ok False)) (\<lambda>raced.
         if raced then ok False else raise (Send_Failed (label @ '': '' @ exn_text e) attested)))"

definition base_fragment :: "int \<Rightarrow> nat \<Rightarrow> fragment" where
  "base_fragment derived matching = \<lparr> fg_submitted = False, fg_attested = [], fg_outcome = derived,
     fg_matching = matching, fg_reason = [], fg_fallback_at = None, fg_supporters = None, fg_notes = [],
     fg_path = None, fg_blocker = None \<rparr>"

text \<open>After the attestations: the on-chain majority, the votes, and the resolving send.\<close>

definition fallback_resolve ::
  "tick_env \<Rightarrow> string \<Rightarrow> int \<Rightarrow> bool \<Rightarrow> string \<Rightarrow> fallback_state \<Rightarrow> attesting \<Rightarrow> fragment \<Rightarrow> fragment ticking" where
  "fallback_resolve E cid derived allow_arbitrate basis st a base =
     (let agent_out = majority (submitted_outcomes (at_slots a));
          already = ok (base\<lparr>fg_reason := ''already resolved''\<rparr>);
          arbitrate = (\<lambda>blocker.
            if allow_arbitrate \<and> te_policy E = Arbitrate \<and> blocker \<in> ARBITRABLE
            then op_then (resolve_send E cid ''resolveArbitrated'' (at_attested a) (resolve_arbitrated E cid derived)) (\<lambda>sent.
              if \<not> sent then already
              else ok (base\<lparr>fg_submitted := True, fg_path := Some ''arbitrated'', fg_blocker := Some blocker,
                fg_reason := ''arbitrated''\<rparr>))
            else ok (base\<lparr>fg_reason := blocker\<rparr>)) in
      case agent_out of
        None \<Rightarrow> arbitrate NO_MAJORITY
      | Some out \<Rightarrow>
          if out \<noteq> derived then ok (base\<lparr>fg_reason := ''agent majority conflicts '' @ basis\<rparr>)
          else if combine out (fb_yes_votes st) (fb_no_votes st) = Arbitrate_Votes then arbitrate ARBITRATION_REQUIRED
          else op_then (ask_tick (te_fallback_preflight E cid)) (\<lambda>(passes, why).
            if passes
            then op_then (resolve_send E cid ''resolveFallback'' (at_attested a) (resolve_fallback E cid)) (\<lambda>sent.
              if \<not> sent then already
              else ok (base\<lparr>fg_submitted := True, fg_path := Some ''fallback'', fg_reason := ''fallback resolved''\<rparr>))
            else arbitrate why))"

definition run_fallback ::
  "tick_env \<Rightarrow> string \<Rightarrow> int \<Rightarrow> report list \<Rightarrow> bool \<Rightarrow> string \<Rightarrow> fragment ticking" where
  "run_fallback E cid derived reports allow_arbitrate basis =
     (let matching = filter (\<lambda>r. rp_outcome r = derived) reports; base = base_fragment derived (length matching) in
      if te_policy E = Manual then ok (base\<lparr>fg_reason := ''research mismatch''\<rparr>)
      else op_then (ask_tick (te_fallback_state E cid)) (\<lambda>st.
        let fallback_at = fb_close_time st + fb_window st in
        if fb_resolved st then ok (base\<lparr>fg_reason := ''already resolved''\<rparr>)
        else if fb_close_time st = 0 then ok (base\<lparr>fg_reason := ''not registered''\<rparr>)
        else if fb_now st < fallback_at then ok (base\<lparr>fg_reason := ''research mismatch'', fg_fallback_at := Some fallback_at\<rparr>)
        else if (case majority (submitted_outcomes (fb_agents st)) of None \<Rightarrow> False | Some prior \<Rightarrow> prior \<noteq> derived)
        then ok (base\<lparr>fg_reason := ''agent majority conflicts '' @ basis\<rparr>)
        else op_then (hex_bytes cid) (\<lambda>_.
          op_then (attest_all E cid derived (fb_now st + ATTEST_DEADLINE_SECONDS) matching
              \<lparr> at_slots = fb_agents st, at_attested = [], at_supporters = [], at_notes = [] \<rparr>) (\<lambda>a.
          fallback_resolve E cid derived allow_arbitrate basis st a
            (base\<lparr>fg_attested := at_attested a, fg_supporters := Some (at_supporters a), fg_notes := at_notes a\<rparr>)))))"

section \<open>Results\<close>

record entry =
  en_condition_id :: string
  en_ok :: bool
  en_submitted :: bool
  en_reason :: string
  en_at :: "int option"
  en_error :: "string option"
  en_tx_error :: bool
  en_persist_error :: "string option"
  en_outcome :: "int option"
  en_mirrored :: bool
  en_attested :: "string list"
  en_fragment :: "fragment option"

text \<open>\<open>{"conditionId": cid, "ok": True, "submitted": False, "reason": reason}\<close>.\<close>

definition skipped :: "string \<Rightarrow> string \<Rightarrow> entry" where
  "skipped cid reason = \<lparr> en_condition_id = cid, en_ok = True, en_submitted = False, en_reason = reason, en_at = None,
     en_error = None, en_tx_error = False, en_persist_error = None, en_outcome = None, en_mirrored = False,
     en_attested = [], en_fragment = None \<rparr>"

definition of_fragment :: "string \<Rightarrow> fragment \<Rightarrow> entry" where
  "of_fragment cid f = (skipped cid (fg_reason f))\<lparr>en_submitted := fg_submitted f, en_at := fg_fallback_at f,
     en_attested := fg_attested f, en_outcome := Some (fg_outcome f), en_fragment := Some f\<rparr>"

definition deferred_send :: "string \<Rightarrow> entry" where
  "deferred_send cid = skipped cid ''budget''"

definition tx_error :: "string \<Rightarrow> tick_exn \<Rightarrow> entry" where
  "tx_error cid e = (skipped cid ''tx error'')\<lparr>en_ok := False, en_tx_error := True, en_error := Some (exn_text e),
     en_attested := (case e of Send_Failed text attested \<Rightarrow> attested | _ \<Rightarrow> [])\<rparr>"

definition with_persist :: "string option \<Rightarrow> entry \<Rightarrow> entry" where
  "with_persist err en = (case err of None \<Rightarrow> en | Some text \<Rightarrow> en\<lparr>en_persist_error := Some text\<rparr>)"

definition research_failed :: "tick_env \<Rightarrow> string \<Rightarrow> string \<Rightarrow> entry ticking" where
  "research_failed E cid text =
     op_then (record_failure E cid text) (\<lambda>err.
     ok (with_persist err ((skipped cid ERROR_REASON)\<lparr>en_ok := False, en_error := Some text\<rparr>)))"

definition mirror_chain_resolved :: "tick_env \<Rightarrow> string \<Rightarrow> bool \<Rightarrow> entry ticking" where
  "mirror_chain_resolved E cid db_resolved =
     (if db_resolved then ok (skipped cid ''already resolved'')
      else op_then (onchain_outcome E cid) (\<lambda>out. case out of
          None \<Rightarrow> ok ((skipped cid ''chain resolved, payout unreadable'')\<lparr>en_ok := False\<rparr>)
        | Some v \<Rightarrow> op_then (mark_resolved E cid v) (\<lambda>_.
            ok ((skipped cid ''already resolved'')\<lparr>en_mirrored := True, en_outcome := Some v\<rparr>))))"

definition resolved_concurrently :: "tick_env \<Rightarrow> string \<Rightarrow> entry option ticking" where
  "resolved_concurrently E cid =
     op_then (catch (ask_tick (te_is_resolved E cid)) (\<lambda>e. ok False)) (\<lambda>raced.
     if \<not> raced then ok None
     else op_then (mirror_chain_resolved E cid False) (\<lambda>en.
       ok (Some (if en_ok en then en\<lparr>en_reason := ''resolved concurrently''\<rparr> else en))))"

definition supporter_reports :: "report list \<Rightarrow> fragment \<Rightarrow> report list" where
  "supporter_reports reports f =
     (case fg_supporters f of
        None \<Rightarrow> reports
      | Some names \<Rightarrow> filter (\<lambda>r. rp_agent r \<in> set names \<and> rp_outcome r = fg_outcome f) reports)"

definition persist_resolution :: "tick_env \<Rightarrow> string \<Rightarrow> report list \<Rightarrow> int \<Rightarrow> fragment option \<Rightarrow> entry ticking" where
  "persist_resolution E cid reports out f =
     op_then (catch (op_then (persist_attestations E cid reports None) (\<lambda>_.
         op_then (mark_resolved E cid out) (\<lambda>_. ok None))) (\<lambda>e. ok (Some (exn_text e)))) (\<lambda>err.
     ok (with_persist err ((skipped cid [])\<lparr>en_submitted := True, en_outcome := Some out, en_fragment := f\<rparr>)))"

text \<open>\<open>unresolved\<close>: research ran and nothing resolved, so it is recorded and the cooldown applies.\<close>

definition unresolved :: "tick_env \<Rightarrow> string \<Rightarrow> report list \<Rightarrow> entry \<Rightarrow> entry ticking" where
  "unresolved E cid reports en =
     op_then (record_research E cid reports (if en_reason en = [] then ''unresolved'' else en_reason en)) (\<lambda>err.
     ok (with_persist err en))"

section \<open>Parts both resolvers share\<close>

text \<open>The consensus send and what its failure means.\<close>

definition consensus_send :: "tick_env \<Rightarrow> string \<Rightarrow> report list \<Rightarrow> int \<Rightarrow> entry ticking" where
  "consensus_send E cid reports out =
     op_then (hex_bytes (rp_evidence_hash (hd reports))) (\<lambda>evidence.
     op_then (hex_bytes cid) (\<lambda>cid_bytes.
     op_then (effective_now E) (\<lambda>now.
     op_then (sign_unanimous E cid evidence out \<lfloor>now\<rfloor>) (\<lambda>(deadline, sigs).
     State_Monad.bind (submit_consensus E cid out evidence deadline sigs) (\<lambda>r. case r of
       Inr _ \<Rightarrow> persist_resolution E cid reports out None
     | Inl (Send_Deferred text) \<Rightarrow> ok (deferred_send cid)
     | Inl e \<Rightarrow> op_then (resolved_concurrently E cid) (\<lambda>raced.
         ok (case raced of Some en \<Rightarrow> en | None \<Rightarrow> tx_error cid e)))))))"

text \<open>The fallback and what its result means.\<close>

definition fallback_send ::
  "tick_env \<Rightarrow> string \<Rightarrow> report list \<Rightarrow> report list \<Rightarrow> int \<Rightarrow> bool \<Rightarrow> string \<Rightarrow> entry ticking" where
  "fallback_send E cid reports used derived allow_arbitrate basis =
     State_Monad.bind (run_fallback E cid derived used allow_arbitrate basis) (\<lambda>r. case r of
       Inl (Send_Deferred text) \<Rightarrow> ok (deferred_send cid)
     | Inl (Send_Failed text attested) \<Rightarrow> ok (tx_error cid (Send_Failed text attested))
     | Inl (Raised text) \<Rightarrow> raise (Raised text)
     | Inr f \<Rightarrow>
         if fg_submitted f then persist_resolution E cid (supporter_reports reports f) derived (Some f)
         else if fg_reason f = ''already resolved''
         then op_then (resolved_concurrently E cid) (\<lambda>raced.
           ok (case raced of Some en \<Rightarrow> en | None \<Rightarrow> of_fragment cid f))
         else unresolved E cid reports (of_fragment cid f))"

text \<open>
  The gate both resolvers put before research: the config, the cooldown, the budget and the caps. \<open>None\<close>
  lets research run. A failed run uses no cap slot, and attempts stop at twice the cap.
\<close>

definition research_gate :: "tick_env \<Rightarrow> bool \<Rightarrow> string \<Rightarrow> entry option ticking" where
  "research_gate E can_submit cid =
     (if \<not> can_submit then ok (Some (skipped cid ''config mismatch''))
      else op_then (retry_at E cid) (\<lambda>retry. case retry of
        Some t \<Rightarrow> ok (Some ((skipped cid ''research cooldown'')\<lparr>en_at := Some t\<rparr>))
      | None \<Rightarrow>
          op_then (read_clock E) (\<lambda>now.
          op_then (if exhausted (te_budget E) now then ok False
                   else op_then (read_clock E) (\<lambda>now. ok (can_start (te_budget E) (te_min_seconds E) now))) (\<lambda>go.
          op_then (get_tick (\<lambda>st. tk_researched st \<ge> te_cap E \<or> tk_researched st + tk_failed st \<ge> 2 * te_cap E)) (\<lambda>capped.
          ok (if \<not> go then Some (skipped cid ''budget'') else if capped then Some (skipped cid ''capped'') else None))))))"

text \<open>One research run: its reports, or the entry of a failed one.\<close>

definition research_run :: "tick_env \<Rightarrow> string \<Rightarrow> research_input \<Rightarrow> (entry + research) ticking" where
  "research_run E cid input =
     State_Monad.bind (ask_tick (te_research E input)) (\<lambda>r. case r of
       Inl e \<Rightarrow>
         op_then (read_clock E) (\<lambda>now.
         if exhausted (te_budget E) now then ok (Inl (skipped cid ''budget''))
         else op_then (mod_tick (\<lambda>st. st\<lparr>tk_failed := tk_failed st + 1\<rparr>)) (\<lambda>_.
              op_then (research_failed E cid (exn_text e)) (\<lambda>en. ok (Inl en))))
     | Inr reports \<Rightarrow>
         op_then (mod_tick (\<lambda>st. st\<lparr>tk_researched := tk_researched st + 1\<rparr>)) (\<lambda>_.
         ok (Inr (coordinator_run reports))))"

text \<open>\<open>except Exception\<close> around one market.\<close>

definition guarded :: "string \<Rightarrow> entry ticking \<Rightarrow> entry ticking" where
  "guarded cid m = catch m (\<lambda>e. ok ((skipped cid [])\<lparr>en_ok := False, en_error := Some (exn_text e)\<rparr>))"

section \<open>run.py\<close>

text \<open>The fallback of the sports gate, after a mismatch.\<close>

definition sports_mismatch :: "tick_env \<Rightarrow> string \<Rightarrow> int \<Rightarrow> research \<Rightarrow> int \<Rightarrow> entry ticking" where
  "sports_mismatch E cid derived res onchain_close =
     (if te_policy E = Manual then unresolved E cid (rs_reports res) (skipped cid ''research mismatch'')
      else op_then (chain_now E) (\<lambda>t.
        let fallback_at = onchain_close + WINDOW in
        if t < fallback_at
        then unresolved E cid (rs_reports res) ((skipped cid ''research mismatch'')\<lparr>en_at := Some fallback_at\<rparr>)
        else fallback_send E cid (rs_reports res) (rs_reports res) derived True ''score''))"

definition sports_research :: "tick_env \<Rightarrow> string \<Rightarrow> string \<Rightarrow> int \<Rightarrow> int \<Rightarrow> int \<Rightarrow> entry ticking" where
  "sports_research E cid question derived close_time onchain_close =
     op_then (research_run E cid (Sports_Research question close_time)) (\<lambda>r. case r of
       Inl en \<Rightarrow> ok en
     | Inr res \<Rightarrow>
         op_then (resolved_concurrently E cid) (\<lambda>raced. case raced of
           Some en \<Rightarrow> ok en
         | None \<Rightarrow>
             if rs_unanimous res \<and> rs_outcome res = Some derived then consensus_send E cid (rs_reports res) derived
             else sports_mismatch E cid derived res onchain_close))"

text \<open>Whether the market is still open, by the wall clock and then by the chain's.\<close>

definition still_open :: "tick_env \<Rightarrow> int \<Rightarrow> bool ticking" where
  "still_open E close_time =
     (if wall_clock E < of_int close_time then op_then (effective_now E) (\<lambda>t. ok (t < of_int close_time)) else ok False)"

text \<open>The dual gate: a final score with an outcome, then the research that has to agree with it.\<close>

definition sports_scored :: "tick_env \<Rightarrow> bool \<Rightarrow> market_json \<Rightarrow> detail_json \<Rightarrow> int \<Rightarrow> int \<Rightarrow> entry ticking" where
  "sports_scored E can_submit m detail close_time onchain_close =
     (let cid = mj_condition_id m in
      case dj_score detail of
        None \<Rightarrow> ok (skipped cid ''not final'')
      | Some score \<Rightarrow>
          if sj_status score \<noteq> ''final'' then ok (skipped cid ''not final'')
          else case score_outcome (mj_question m) (sj_home_label score) (sj_away_label score)
              (sj_home_score score) (sj_away_score score) of
            None \<Rightarrow> ok (skipped cid ''no score outcome'')
          | Some derived \<Rightarrow>
              op_then (research_gate E can_submit cid) (\<lambda>gate. case gate of
                Some en \<Rightarrow> ok en
              | None \<Rightarrow> sports_research E cid (mj_question m) derived close_time onchain_close))"

definition sports_market :: "tick_env \<Rightarrow> bool \<Rightarrow> market_json \<Rightarrow> entry ticking" where
  "sports_market E can_submit m =
     (let cid = mj_condition_id m in
      op_then (ask_tick (te_detail E cid)) (\<lambda>detail.
      op_then (ask_tick (te_is_resolved E cid)) (\<lambda>resolved.
      if resolved then mirror_chain_resolved E cid (dj_resolved detail)
      else op_then (ask_tick (te_close_time E cid)) (\<lambda>onchain_close.
      if onchain_close = 0 then ok (skipped cid ''not registered'')
      else
        let close_time = max (dj_close_time detail) onchain_close in
        op_then (still_open E close_time) (\<lambda>early.
        if early then ok (skipped cid ''not closed'')
        else sports_scored E can_submit m detail close_time onchain_close)))))"

fun resolve_each :: "('m \<Rightarrow> entry ticking) \<Rightarrow> 'm list \<Rightarrow> entry list ticking" where
  "resolve_each f [] = ok []"
| "resolve_each f (m # ms) = op_then (f m) (\<lambda>en. op_then (resolve_each f ms) (\<lambda>ens. ok (en # ens)))"

record run_summary =
  sm_ok :: bool
  sm_view :: string
  sm_attempted :: nat
  sm_research_errors :: nat
  sm_problems :: "config_problem list"
  sm_results :: "entry list"

text \<open>\<open>market_cards\<close>: the operator's list, or the public one when the API rejects that request.\<close>

definition market_cards :: "tick_env \<Rightarrow> (card_json list \<times> string) ticking" where
  "market_cards E =
     (let public = op_then (ask_tick (te_cards E)) (\<lambda>cards. ok (cards, ''public'')) in
      op_then (ask_tick (\<lambda>n. Inr (te_operator_cards E n))) (\<lambda>r. case r of
        Inr cards \<Rightarrow> ok (cards, ''operator'')
      | Inl (Http_Status status) \<Rightarrow> if 400 \<le> status \<and> status < 500 then public else raise (Raised ''HTTPStatusError'')
      | Inl (Runtime_Error text) \<Rightarrow> public
      | Inl (Other_Error text) \<Rightarrow> raise (Raised text)))"

definition summary :: "string \<Rightarrow> config_problem list \<Rightarrow> entry list \<Rightarrow> run_summary ticking" where
  "summary view problems results =
     get_tick (\<lambda>st. \<lparr> sm_ok = (problems = [] \<and> \<not> list_ex en_tx_error results), sm_view = view,
       sm_attempted = tk_researched st + tk_failed st, sm_research_errors = tk_failed st, sm_problems = problems,
       sm_results = results \<rparr>)"

definition fresh_run :: "unit ticking" where
  "fresh_run = mod_tick (\<lambda>st. st\<lparr>tk_chain_now := None, tk_researched := 0, tk_failed := 0\<rparr>)"

text \<open>Cards without a condition id are skipped.\<close>

definition run_sports :: "tick_env \<Rightarrow> run_summary ticking" where
  "run_sports E =
     op_then fresh_run (\<lambda>_.
     op_then (market_cards E) (\<lambda>(cards, view).
     op_then (ask_tick (te_config E)) (\<lambda>reads.
     let problems = config_problems reads in
     op_then (resolve_each (\<lambda>m. guarded (mj_condition_id m) (sports_market E (problems = []) m))
       (filter (\<lambda>m. mj_condition_id m \<noteq> []) (dual_gate_primaries cards))) (\<lambda>results.
     summary view problems results))))"

section \<open>general.py\<close>

record candidate =
  cn_market :: market_json
  cn_parent_question :: "string option"
  cn_parent_id :: "string option"

definition some_text :: "string \<Rightarrow> string option" where
  "some_text s = (if s = [] then None else Some s)"

text \<open>\<open>add\<close>: the first market with a condition id wins.\<close>

definition add_candidate :: "candidate \<Rightarrow> candidate list \<Rightarrow> candidate list" where
  "add_candidate c out =
     (let cid = mj_condition_id (cn_market c) in
      if cid = [] \<or> cid \<in> set (map (mj_condition_id \<circ> cn_market) out) then out else out @ [c])"

definition card_candidates :: "card_json \<Rightarrow> candidate list" where
  "card_candidates cj =
     (let p = cj_primary cj in
      (if is_dual_gate_primary p then [] else [\<lparr> cn_market = p, cn_parent_question = None, cn_parent_id = None \<rparr>]) @
      map (\<lambda>c. \<lparr> cn_market = c, cn_parent_question = some_text (mj_question p), cn_parent_id = some_text (mj_condition_id p) \<rparr>)
        (cj_children cj))"

definition candidates :: "card_json list \<Rightarrow> candidate list" where
  "candidates cards =
     sort_key (close_order \<circ> cn_market) (fold add_candidate (concat (map card_candidates cards)) [])"

datatype gate_kind = Parent_Gate | Event_Gate

definition gate_subject :: "candidate \<Rightarrow> (string \<times> gate_kind) option" where
  "gate_subject c =
     (let m = cn_market c;
          parent = (if mj_parent m \<noteq> [] then mj_parent m else case cn_parent_id c of None \<Rightarrow> [] | Some p \<Rightarrow> p) in
      if mj_market_type m = 1 \<or> mj_parent m \<noteq> [] then Some (parent, Parent_Gate)
      else if is_sports_primary m \<and> \<not> is_dual_gate_primary m then Some (mj_condition_id m, Event_Gate)
      else None)"

definition DONE_SCORE_STATUSES :: "string set" where "DONE_SCORE_STATUSES = {''final'', ''cancelled''}"

text \<open>Whether the event is over, and the subject's detail when it was read.\<close>

definition event_status :: "tick_env \<Rightarrow> string \<Rightarrow> gate_kind \<Rightarrow> (bool \<times> detail_json option) ticking" where
  "event_status E subject kind =
     (if subject = [] then ok (False, None)
      else op_then (if kind = Parent_Gate then catch (ask_tick (te_is_resolved E subject)) (\<lambda>e. ok False) else ok False) (\<lambda>resolved.
        if resolved then ok (True, None)
        else catch (op_then (ask_tick (te_detail E subject)) (\<lambda>detail.
          ok ((case dj_score detail of None \<Rightarrow> False | Some s \<Rightarrow> sj_status s \<in> DONE_SCORE_STATUSES), Some detail)))
          (\<lambda>e. ok (False, None))))"

definition parent_question :: "tick_env \<Rightarrow> candidate \<Rightarrow> detail_json option \<Rightarrow> string option ticking" where
  "parent_question E c detail =
     (case cn_parent_question c of
        Some q \<Rightarrow> ok (Some q)
      | None \<Rightarrow>
          (case Option.bind detail (\<lambda>d. some_text (dj_question d)) of
             Some q \<Rightarrow> ok (Some q)
           | None \<Rightarrow>
               if mj_parent (cn_market c) = [] then ok None
               else catch (op_then (ask_tick (te_detail E (mj_parent (cn_market c)))) (\<lambda>d. ok (some_text (dj_question d))))
                 (\<lambda>e. ok None)))"

text \<open>A confidence that is not a number between 0 and 1 counts as 0.\<close>

definition confidence :: "report \<Rightarrow> rat" where
  "confidence r = (case rp_confidence r of None \<Rightarrow> 0 | Some c \<Rightarrow> if 0 \<le> c \<and> c \<le> 1 then c else 0)"

definition backed :: "tick_env \<Rightarrow> report list \<Rightarrow> report list" where
  "backed E reports = filter (\<lambda>r. confidence r \<ge> te_floor E) reports"

definition general_fallback :: "tick_env \<Rightarrow> string \<Rightarrow> research \<Rightarrow> int \<Rightarrow> string \<Rightarrow> entry ticking" where
  "general_fallback E cid res onchain_close reason =
     (let reports = rs_reports res in
      if te_policy E = Manual then unresolved E cid reports (skipped cid reason)
      else op_then (chain_now E) (\<lambda>t.
        let fallback_at = onchain_close + WINDOW in
        if t < fallback_at then unresolved E cid reports ((skipped cid reason)\<lparr>en_at := Some fallback_at\<rparr>)
        else case majority (filter (\<lambda>v. v \<in> {0, 1}) (map rp_outcome (backed E reports))) of
          None \<Rightarrow> unresolved E cid reports (skipped cid ''no confident majority'')
        | Some agreed \<Rightarrow>
            fallback_send E cid reports (filter (\<lambda>r. rp_outcome r = agreed) (backed E reports)) agreed False ''research''))"

definition general_research :: "tick_env \<Rightarrow> candidate \<Rightarrow> detail_json option \<Rightarrow> int \<Rightarrow> int \<Rightarrow> entry ticking" where
  "general_research E c gate_detail close_time onchain_close =
     (let cid = mj_condition_id (cn_market c) in
      op_then (parent_question E c gate_detail) (\<lambda>pq.
      op_then (research_run E cid (General_Research (cn_market c) pq close_time)) (\<lambda>r. case r of
        Inl en \<Rightarrow> ok en
      | Inr res \<Rightarrow>
          op_then (resolved_concurrently E cid) (\<lambda>raced. case raced of
            Some en \<Rightarrow> ok en
          | None \<Rightarrow>
              let reports = rs_reports res in
              if reports = [] \<or> \<not> list_all (\<lambda>r. rp_outcome r \<in> {0, 1}) reports
              then unresolved E cid reports (skipped cid ''undetermined'')
              else case (if rs_unanimous res \<and> list_all (\<lambda>r. confidence r \<ge> te_floor E) reports then rs_outcome res else None) of
                Some out \<Rightarrow> consensus_send E cid reports out
              | None \<Rightarrow> general_fallback E cid res onchain_close
                  (if rs_unanimous res then ''low confidence'' else ''research split'')))))"

text \<open>After the delay: the gate, the caps, research.\<close>

definition general_gated :: "tick_env \<Rightarrow> bool \<Rightarrow> candidate \<Rightarrow> int \<Rightarrow> int \<Rightarrow> entry ticking" where
  "general_gated E can_submit c close_time onchain_close =
     (let cid = mj_condition_id (cn_market c) in
      op_then (case gate_subject c of
          None \<Rightarrow> ok (True, None, [])
        | Some (subject, kind) \<Rightarrow> op_then (event_status E subject kind) (\<lambda>(finished, detail).
            ok (finished, (if kind = Parent_Gate then detail else None),
              if kind = Parent_Gate then ''parent not final'' else ''event not final''))) (\<lambda>(finished, gate_detail, why).
      if \<not> finished then ok (skipped cid why)
      else op_then (research_gate E can_submit cid) (\<lambda>gate. case gate of
        Some en \<Rightarrow> ok en
      | None \<Rightarrow> general_research E c gate_detail close_time onchain_close)))"

definition resolve_at :: "tick_env \<Rightarrow> candidate \<Rightarrow> int \<Rightarrow> int" where
  "resolve_at E c close_time =
     (let explicit = mj_resolve_after (cn_market c) in
      if explicit \<noteq> 0 then max close_time explicit
      else close_time + (if gate_subject c \<noteq> None then te_gated_delay E else te_delay E))"

definition general_market :: "tick_env \<Rightarrow> bool \<Rightarrow> candidate \<Rightarrow> entry ticking" where
  "general_market E can_submit c =
     (let m = cn_market c; cid = mj_condition_id m in
      op_then (ask_tick (te_is_resolved E cid)) (\<lambda>resolved.
      if resolved then mirror_chain_resolved E cid (mj_resolved m)
      else op_then (ask_tick (te_close_time E cid)) (\<lambda>onchain_close.
      if onchain_close = 0 then ok (skipped cid ''not registered'')
      else
        let close_time = max (mj_close_time m) onchain_close; due = resolve_at E c close_time in
        op_then (if wall_clock E \<ge> of_int due then ok (wall_clock E) else effective_now E) (\<lambda>current.
        if current < of_int close_time then ok (skipped cid ''not closed'')
        else if current < of_int due then ok ((skipped cid ''resolve delay'')\<lparr>en_at := Some due\<rparr>)
        else general_gated E can_submit c close_time onchain_close))))"

definition run_general :: "tick_env \<Rightarrow> run_summary ticking" where
  "run_general E =
     op_then fresh_run (\<lambda>_.
     op_then (market_cards E) (\<lambda>(cards, view).
     op_then (ask_tick (te_config E)) (\<lambda>reads.
     let problems = config_problems reads in
     op_then (resolve_each (\<lambda>c. guarded (mj_condition_id (cn_market c)) (general_market E (problems = []) c)) (candidates cards)) (\<lambda>results.
     summary view problems results))))"

end
