(* ===== verification/Resolver_Safety.thy ===== *)
theory Resolver_Safety
  imports Resolver
begin

text \<open>
  What the resolvers may do with the operator's key: which transactions a run broadcasts, what it records as
  resolved, and how much research it starts.
\<close>

section \<open>Justified transactions\<close>

text \<open>The answers that justify an outcome, each at some call of the run.\<close>

definition closed_market :: "tick_env \<Rightarrow> string \<Rightarrow> bool" where
  "closed_market E cid = (\<exists>n close. te_close_time E cid n = Inr close \<and> close \<noteq> 0 \<and>
     (of_int close \<le> wall_clock E \<or> (\<exists>k t. te_chain_now E k = Inr t \<and> close \<le> t)))"

definition window_over :: "tick_env \<Rightarrow> string \<Rightarrow> bool" where
  "window_over E cid = (\<exists>n close k t. te_close_time E cid n = Inr close \<and> te_chain_now E k = Inr t \<and> close + WINDOW \<le> t)"

definition final_score :: "tick_env \<Rightarrow> string \<Rightarrow> string \<Rightarrow> int \<Rightarrow> bool" where
  "final_score E cid question out = (\<exists>n detail score. te_detail E cid n = Inr detail \<and> dj_score detail = Some score \<and>
     sj_status score = ''final'' \<and>
     score_outcome question (sj_home_label score) (sj_away_label score) (sj_home_score score) (sj_away_score score) = Some out)"

definition researched :: "tick_env \<Rightarrow> research_input \<Rightarrow> report list \<Rightarrow> bool" where
  "researched E input reports = (\<exists>n. te_research E input n = Inr reports)"

definition configured :: "tick_env \<Rightarrow> bool" where
  "configured E = (\<exists>n reads. te_config E n = Inr reads \<and> config_problems reads = [])"

fun tx_market :: "oracle_tx \<Rightarrow> string" where
  "tx_market (Submit_Consensus cid out evidence deadline sigs) = cid"
| "tx_market (Submit_Attestation cid out evidence deadline name sig) = cid"
| "tx_market (Resolve_Fallback cid) = cid"
| "tx_market (Resolve_Arbitrated cid out) = cid"

text \<open>What the agents said, for a transaction that carries the outcome \<open>out\<close>.\<close>

fun backs :: "tick_env \<Rightarrow> report list \<Rightarrow> int \<Rightarrow> oracle_tx \<Rightarrow> bool" where
  "backs E reports out (Submit_Consensus cid v evidence deadline sigs) =
     (v = out \<and> reports \<noteq> [] \<and> (\<forall>r \<in> set reports. rp_outcome r = out))"
| "backs E reports out (Submit_Attestation cid v evidence deadline name sig) =
     (v = out \<and> te_policy E \<noteq> Manual \<and> window_over E cid \<and> (\<exists>r \<in> set reports. rp_agent r = name \<and> rp_outcome r = out))"
| "backs E reports out (Resolve_Fallback cid) = (te_policy E \<noteq> Manual \<and> window_over E cid)"
| "backs E reports out (Resolve_Arbitrated cid v) = (v = out \<and> te_policy E = Arbitrate \<and> window_over E cid)"

text \<open>Sports: the outcome is the one of the final score, and the agents back it.\<close>

definition sports_tx :: "tick_env \<Rightarrow> oracle_tx \<Rightarrow> bool" where
  "sports_tx E tx = (configured E \<and> closed_market E (tx_market tx) \<and>
     (\<exists>question kickoff reports out. final_score E (tx_market tx) question out \<and>
        researched E (Sports_Research question kickoff) reports \<and> backs E reports out tx))"

text \<open>Every other market: determinate reports, confidence at the floor, and never an arbitration.\<close>

definition general_tx :: "tick_env \<Rightarrow> oracle_tx \<Rightarrow> bool" where
  "general_tx E tx = (configured E \<and> closed_market E (tx_market tx) \<and> (\<forall>cid v. tx \<noteq> Resolve_Arbitrated cid v) \<and>
     (\<exists>input reports out. researched E input reports \<and> (\<forall>r \<in> set reports. rp_outcome r \<in> {0, 1}) \<and>
        backs E (backed E reports) out tx \<and> (\<forall>cid v ev dl sigs. tx = Submit_Consensus cid v ev dl sigs \<longrightarrow> backed E reports = reports)))"

fun resolves :: "string \<Rightarrow> int \<Rightarrow> oracle_tx \<Rightarrow> bool" where
  "resolves cid out (Submit_Consensus c v evidence deadline sigs) = (c = cid \<and> v = out)"
| "resolves cid out (Submit_Attestation c v evidence deadline name sig) = False"
| "resolves cid out (Resolve_Fallback c) = (c = cid)"
| "resolves cid out (Resolve_Arbitrated c v) = (c = cid \<and> v = out)"

text \<open>A market is mirrored as resolved when the chain's payout says so, or a resolving transaction of it succeeded.\<close>

definition resolution_known :: "tick_env \<Rightarrow> string \<Rightarrow> int \<Rightarrow> bool" where
  "resolution_known E cid out =
     ((\<exists>n denominator yes no. te_payouts E cid n = Inr (denominator, yes, no) \<and> denominator \<noteq> 0 \<and>
        payout_outcome yes no = Some out) \<or>
      (\<exists>tx n. resolves cid out tx \<and> te_receipt E tx n = Inr 1))"

fun event_ok :: "tick_env \<Rightarrow> (oracle_tx \<Rightarrow> bool) \<Rightarrow> tick_event \<Rightarrow> bool" where
  "event_ok E good (Tx tx) = good tx"
| "event_ok E good (Posted_Record (Post_Report cid rep reason)) = True"
| "event_ok E good (Posted_Record (Post_Resolved cid out)) = resolution_known E cid out"

section \<open>The state of a run\<close>

text \<open>The chain clock is one the node gave; \<open>a\<close> research runs are still within the cap, and \<open>b\<close> attempts.\<close>

definition tick_inv :: "tick_env \<Rightarrow> nat \<Rightarrow> nat \<Rightarrow> tickst \<Rightarrow> bool" where
  "tick_inv E a b st = ((\<forall>t. tk_chain_now st = Some t \<longrightarrow> (\<exists>k. te_chain_now E k = Inr t)) \<and>
     tk_researched st + a \<le> te_cap E \<and> tk_researched st + tk_failed st + b \<le> 2 * te_cap E)"

abbreviation job :: "tick_env \<Rightarrow> (oracle_tx \<Rightarrow> bool) \<Rightarrow> nat \<Rightarrow> 'r ticking \<Rightarrow> (tick_exn + 'r \<Rightarrow> bool) \<Rightarrow> bool" where
  "job E good a m P \<equiv> safe tk_log (tick_inv E a a) (event_ok E good) m P"

lemma tick_inv_frame [simp]:
  "tick_inv E a b (st\<lparr>tk_calls := n\<rparr>) = tick_inv E a b st" "tick_inv E a b (st\<lparr>tk_log := es\<rparr>) = tick_inv E a b st"
  by (simp_all add: tick_inv_def)

lemma map_raised [simp]:
  "map_sum Raised id x = Inr y \<longleftrightarrow> x = Inr y" "map_sum Raised id x = Inl e \<longleftrightarrow> (\<exists>text. x = Inl text \<and> e = Raised text)"
  by (cases x; auto)+

lemma job_ask: "(\<And>n. P (map_sum Raised id (f n))) \<Longrightarrow> job E good a (ask_tick f) P"
  by (simp add: triple_def ask_tick_def stays_def)

lemma job_ask_then:
  assumes "\<And>x n. f n = Inr x \<Longrightarrow> triple tk_log (event_ok E good) (tick_inv E a a) (k x) Q"
    and "\<And>e st. tick_inv E a a st \<Longrightarrow> Q (Inl (Raised e)) st"
  shows "triple tk_log (event_ok E good) (tick_inv E a a) (op_then (ask_tick f) k) Q"
proof (rule safe_then)
  show "job E good a (ask_tick f) (\<lambda>r. case r of Inl e \<Rightarrow> \<exists>text. e = Raised text | Inr x \<Rightarrow> \<exists>n. f n = Inr x)"
  proof (rule job_ask)
    show "case map_sum Raised id (f n) of Inl e \<Rightarrow> \<exists>text. e = Raised text | Inr x \<Rightarrow> \<exists>n. f n = Inr x" for n
      by (cases "f n") auto
  qed
qed (use assms in auto)

lemma job_log: "event_ok E good ev \<Longrightarrow> P (Inr ()) \<Longrightarrow> job E good a (log_event ev) P"
  by (simp add: triple_def log_event_def stays_def)

lemma job_get: "(\<And>x. P (Inr x)) \<Longrightarrow> job E good a (get_tick f) P"
  by (simp add: triple_def get_tick_def stays_def)

lemma job_clock: "(\<And>r. P r) \<Longrightarrow> job E good a (read_clock E) P"
  unfolding read_clock_def by (intro job_ask)

lemma job_hex: "(\<And>r. P r) \<Longrightarrow> job E good a (hex_bytes t) P"
  by (auto simp: hex_bytes_def intro!: safe_raise safe_ok split: option.splits)

lemma job_chain_now:
  assumes "\<And>t k. te_chain_now E k = Inr t \<Longrightarrow> P (Inr t)" and "\<And>e. P (Inl (Raised e))"
  shows "job E good a (chain_now E) P"
  using assms
  by (fastforce simp: triple_def stays_def chain_now_def op_then_def get_tick_def ask_tick_def mod_tick_def ok_def tick_inv_def split: sum.splits option.splits)

lemma job_effective_now:
  assumes "\<And>t. te_now E = Some t \<Longrightarrow> P (Inr t)" and "\<And>t k. te_now E = None \<Longrightarrow> te_chain_now E k = Inr t \<Longrightarrow> P (Inr (max (wall_clock E) (of_int t)))"
    and "\<And>e. P (Inl (Raised e))"
  shows "job E good a (effective_now E) P"
proof (cases "te_now E")
  case None
  have "job E good a (chain_now E) (\<lambda>r. case r of Inl e \<Rightarrow> \<exists>t. e = Raised t | Inr t \<Rightarrow> \<exists>k. te_chain_now E k = Inr t)"
    by (rule job_chain_now) auto
  then show ?thesis
    unfolding effective_now_def using None assms(2,3) by simp (erule safe_then; auto intro!: safe_ok)
next
  case (Some t)
  then show ?thesis using assms(1) by (simp add: effective_now_def safe_ok)
qed

section \<open>What each part hands over\<close>

lemma job_send:
  assumes "good tx" and "\<And>n. te_receipt E tx n = Inr 1 \<Longrightarrow> P (Inr ())" and "\<And>e. P (Inl e)"
  shows "job E good a (send_tx E tx label) P"
  unfolding send_tx_def
proof (rule job_ask_then)
  have sent: "job E good a (op_then (log_event (Tx tx)) (\<lambda>_. op_then (ask_tick (te_receipt E tx)) (\<lambda>status.
      if status \<noteq> 1 then raise (Raised (label @ '' transaction failed'')) else ok ()))) P"
    using assms by (intro safe_then [OF job_log [where P = "\<lambda>r. True"]]) (auto intro!: job_ask_then safe_raise safe_ok)
  show "job E good a (op_then (read_clock E) (\<lambda>now. case receipt_timeout (te_budget E) RECEIPT_TIMEOUT now of
      None \<Rightarrow> raise (Send_Deferred ''tick budget too short for a send'')
    | Some wait \<Rightarrow> op_then (ask_tick (te_preflight E tx)) (\<lambda>_. op_then (ask_tick (te_build E tx)) (\<lambda>_.
        op_then (log_event (Tx tx)) (\<lambda>_. op_then (ask_tick (te_receipt E tx)) (\<lambda>status.
        if status \<noteq> 1 then raise (Raised (label @ '' transaction failed'')) else ok ())))))) P"
    using sent assms(3)
    by (intro safe_then [OF job_clock [where P = "\<lambda>r. True"]]) (auto intro!: job_ask_then safe_raise split: option.splits)
qed (use assms(3) in auto)

lemma job_post: "event_ok E good (Posted_Record p) \<Longrightarrow> (\<And>r. P r) \<Longrightarrow> job E good a (post_record E p) P"
  unfolding post_record_def by (rule safe_then [OF job_log [where P = "\<lambda>r. True"]]) (auto intro: job_ask)

lemma job_post_all: "list_all (\<lambda>p. event_ok E good (Posted_Record p)) ps \<Longrightarrow> (\<And>r. P r) \<Longrightarrow> job E good a (post_all E ps) P"
  by (induction ps) (auto intro!: safe_ok safe_then [OF job_post [where P = "\<lambda>r. True"]])

lemma job_persist: "(\<And>r. P r) \<Longrightarrow> job E good a (persist_attestations E cid reports reason) P"
  by (auto simp: persist_attestations_def list_all_iff intro!: safe_ok job_ask_then job_post_all)

lemma job_mark: "resolution_known E cid out \<Longrightarrow> (\<And>r. P r) \<Longrightarrow> job E good a (mark_resolved E cid out) P"
  by (auto simp: mark_resolved_def intro!: job_ask_then job_post)

lemma job_record: "(\<And>r. P r) \<Longrightarrow> job E good a (record_research E cid reports reason) P"
  unfolding record_research_def
  by (rule safe_catch [where P = "\<lambda>r. True"])
     (auto intro!: safe_ok safe_then [OF job_persist [where P = "\<lambda>r. True"]])

lemma job_unresolved: "(\<And>r. P r) \<Longrightarrow> job E good a (unresolved E cid reports en) P"
  unfolding unresolved_def by (rule safe_then [OF job_record [where P = "\<lambda>r. True"]]) (auto intro: safe_ok)

lemma job_research_failed: "(\<And>r. P r) \<Longrightarrow> job E good a (research_failed E cid text) P"
  unfolding research_failed_def record_failure_def
  by (rule safe_then [OF job_record [where P = "\<lambda>r. True"]]) (auto intro: safe_ok)

lemma job_mirror: "(\<And>r. P r) \<Longrightarrow> job E good a (mirror_chain_resolved E cid resolved) P"
proof -
  assume P: "\<And>r. P r"
  have out: "job E good a (onchain_outcome E cid) (\<lambda>r. \<forall>v. r = Inr (Some v) \<longrightarrow> resolution_known E cid v)"
    unfolding onchain_outcome_def by (fastforce simp: resolution_known_def intro!: job_ask_then safe_ok split: if_splits)
  show ?thesis
    unfolding mirror_chain_resolved_def
    by (cases resolved) (auto intro!: P safe_ok safe_then [OF out] safe_then [OF job_mark [where P = "\<lambda>r. True"]] split: option.splits)
qed

lemma job_raced: "(\<And>r. P r) \<Longrightarrow> job E good a (resolved_concurrently E cid) P"
  unfolding resolved_concurrently_def
  by (rule safe_then [OF safe_catch [where P = "\<lambda>r. True" and Q = "\<lambda>r. True"]])
     (auto intro!: job_ask safe_ok safe_then [OF job_mirror [where P = "\<lambda>r. True"]])

lemma job_persist_resolution:
  assumes "resolution_known E cid out" and "\<And>r. P r"
  shows "job E good a (persist_resolution E cid reports out f) P"
  unfolding persist_resolution_def
  by (rule safe_then [OF safe_catch [where P = "\<lambda>r. True" and Q = "\<lambda>r. True"]])
     (auto intro!: assms safe_ok safe_then [OF job_persist [where P = "\<lambda>r. True"]] safe_then [OF job_mark [where P = "\<lambda>r. True"]])

lemma job_sign: "(\<And>r. P r) \<Longrightarrow> job E good a (sign_unanimous E cid evidence out now) P"
proof -
  assume P: "\<And>r. P r"
  have "job E good a (sign_all E names cid evidence out deadline) (\<lambda>r. True)" for names deadline
    by (induction names) (auto simp: sign_all_def intro!: safe_ok safe_raise safe_then [where P = "\<lambda>r. True"] split: sum.splits)
  then show ?thesis
    unfolding sign_unanimous_def Let_def by (rule safe_then) (auto intro: P safe_ok)
qed

lemma job_consensus:
  assumes good: "\<And>evidence deadline sigs. good (Submit_Consensus cid out evidence deadline sigs)" and P: "\<And>r. P r"
  shows "job E good a (consensus_send E cid reports out) P"
proof -
  have send: "job E good a (submit_consensus E cid out evidence deadline sigs) (\<lambda>r. r = Inr () \<longrightarrow> resolution_known E cid out)"
    for evidence deadline sigs
    unfolding submit_consensus_def using good
    by (intro job_send) (auto simp: resolution_known_def intro!: exI [of _ "Submit_Consensus cid out evidence deadline sigs"])
  show ?thesis
    unfolding consensus_send_def
    by (auto intro!: P safe_ok safe_then [OF job_hex [where P = "\<lambda>r. True"]] safe_then [OF job_effective_now [where P = "\<lambda>r. True"]]
        safe_then [OF job_sign [where P = "\<lambda>r. True"]] safe_bind [OF send] job_persist_resolution
        safe_then [OF job_raced [where P = "\<lambda>r. True"]] split: sum.splits tick_exn.splits)
qed

section \<open>The fallback\<close>

text \<open>The transactions a fallback with outcome \<open>derived\<close> and these reports may need.\<close>

definition fallback_ok :: "tick_env \<Rightarrow> (oracle_tx \<Rightarrow> bool) \<Rightarrow> string \<Rightarrow> int \<Rightarrow> report list \<Rightarrow> bool \<Rightarrow> bool" where
  "fallback_ok E good cid derived reports allow = (te_policy E \<noteq> Manual \<longrightarrow>
     (\<forall>r \<in> set reports. rp_outcome r = derived \<longrightarrow> (\<forall>ev dl sig. good (Submit_Attestation cid derived ev dl (rp_agent r) sig))) \<and>
     good (Resolve_Fallback cid) \<and> (allow \<and> te_policy E = Arbitrate \<longrightarrow> good (Resolve_Arbitrated cid derived)))"

lemma job_attest_raised: "(\<And>r. P r) \<Longrightarrow> job E good a (attest_raised E cid derived name addr e ats) P"
proof -
  assume P: "\<And>r. P r"
  have raced: "job E good a (raced_slot E cid addr t) (\<lambda>r. True)" for t
    unfolding raced_slot_def
    by (auto intro!: safe_ok safe_catch [where P = "\<lambda>r. True"] job_ask_then)
  show ?thesis
    unfolding attest_raised_def
    by (auto intro!: P safe_raise safe_then [OF raced] safe_ok simp: Let_def split: tick_exn.splits option.splits)
qed

lemma job_attest_one:
  assumes good: "\<And>ev dl sig. good (Submit_Attestation cid derived ev dl (rp_agent rep) sig)" and P: "\<And>r. P r"
  shows "job E good a (attest_one E cid derived deadline rep ats) P"
proof -
  have send: "job E good a (submit_attestation E cid derived ev dl (rp_agent rep) sig) (\<lambda>r. True)" for ev dl sig
    unfolding submit_attestation_def by (intro job_send good) auto
  show ?thesis
    unfolding attest_one_def Let_def
    by (intro triple_cases safe_ok safe_raise safe_then [OF job_hex [where P = "\<lambda>r. True"]] safe_bind [OF send]
        job_attest_raised staysI P TrueI)
qed

lemma job_attest_all:
  assumes "\<And>rep ev dl sig. rep \<in> set reps \<Longrightarrow> good (Submit_Attestation cid derived ev dl (rp_agent rep) sig)" and P: "\<And>r. P r"
  shows "job E good a (attest_all E cid derived deadline reps ats) P"
  using assms(1)
proof (induction reps arbitrary: ats)
  case Nil
  then show ?case by (simp add: P safe_ok)
next
  case (Cons rep reps)
  show ?case
    unfolding attest_all.simps
    by (rule safe_then [OF job_attest_one [where P = "\<lambda>r. True"]]) (auto intro!: P Cons.IH Cons.prems)
qed

lemma job_resolve_send:
  assumes call: "job E good a call (\<lambda>r. r = Inr () \<longrightarrow> R)" and "R \<Longrightarrow> P (Inr True)" "P (Inr False)" "\<And>e. P (Inl e)"
  shows "job E good a (resolve_send E cid label attested call) P"
  unfolding resolve_send_def
  by (rule safe_bind [OF call])
     (auto intro!: assms(2-) safe_ok safe_raise safe_then [OF safe_catch [where P = "\<lambda>r. True" and Q = "\<lambda>r. True"]] job_ask
      split: sum.splits tick_exn.splits)

text \<open>What a fragment that claims to have resolved the market rests on.\<close>

definition fragment_known :: "tick_env \<Rightarrow> string \<Rightarrow> int \<Rightarrow> tick_exn + fragment \<Rightarrow> bool" where
  "fragment_known E cid derived r = (case r of Inl e \<Rightarrow> True | Inr f \<Rightarrow> fg_submitted f \<longrightarrow> resolution_known E cid derived)"

lemma fragment_known_simps [simp]:
  "fragment_known E cid derived (Inl e)" "fragment_known E cid derived (Inr f) = (fg_submitted f \<longrightarrow> resolution_known E cid derived)"
  by (simp_all add: fragment_known_def)

lemma job_resolving:
  assumes "good tx" and "resolves cid derived tx"
  shows "job E good a (send_tx E tx label) (\<lambda>r. r = Inr () \<longrightarrow> resolution_known E cid derived)"
  using assms by (intro job_send) (auto simp: resolution_known_def)

lemma job_fallback_resolve:
  assumes ok: "fallback_ok E good cid derived reports allow" and pol: "te_policy E \<noteq> Manual" and base: "\<not> fg_submitted base"
  shows "job E good a (fallback_resolve E cid derived allow basis st ats base) (fragment_known E cid derived)"
proof -
  have fb: "job E good a (resolve_fallback E cid) (\<lambda>r. r = Inr () \<longrightarrow> resolution_known E cid derived)"
    unfolding resolve_fallback_def using ok pol by (intro job_resolving) (simp_all add: fallback_ok_def)
  have arb: "job E good a (resolve_arbitrated E cid derived) (\<lambda>r. r = Inr () \<longrightarrow> resolution_known E cid derived)"
    if "allow" "te_policy E = Arbitrate"
    unfolding resolve_arbitrated_def using ok pol that by (intro job_resolving) (simp_all add: fallback_ok_def)
  let ?sent = "\<lambda>r. r = Inr True \<longrightarrow> resolution_known E cid derived"
  have sent: "job E good a (resolve_send E cid label att call) ?sent" if "job E good a call (\<lambda>r. r = Inr () \<longrightarrow> resolution_known E cid derived)" for label att call
    by (rule job_resolve_send [OF that]) auto
  show ?thesis
    unfolding fallback_resolve_def Let_def
    by (intro triple_cases safe_ok safe_then [OF sent [OF arb]] safe_then [OF sent [OF fb]] job_ask_then staysI)
       (auto simp: base)
qed

lemma job_fallback:
  assumes ok: "fallback_ok E good cid derived reports allow"
  shows "job E good a (run_fallback E cid derived reports allow basis) (fragment_known E cid derived)"
proof (cases "te_policy E = Manual")
  case False
  have attest: "job E good a (attest_all E cid derived deadline (filter (\<lambda>r. rp_outcome r = derived) reports) ats) (\<lambda>r. True)" for deadline ats
    using ok False by (intro job_attest_all) (auto simp: fallback_ok_def)
  show ?thesis
    unfolding run_fallback_def Let_def using False
    by (auto intro!: safe_ok job_ask_then safe_then [OF job_hex [where P = "\<lambda>r. True"]] safe_then [OF attest]
        job_fallback_resolve [OF ok] simp: base_fragment_def)
qed (simp add: run_fallback_def Let_def safe_ok base_fragment_def)

lemma job_fallback_send:
  assumes ok: "fallback_ok E good cid derived used allow" and P: "\<And>r. P r"
  shows "job E good a (fallback_send E cid reports used derived allow basis) P"
  unfolding fallback_send_def
  by (rule safe_bind [OF job_fallback [OF ok]])
     (auto intro!: P safe_ok safe_raise job_persist_resolution job_unresolved safe_then [OF job_raced [where P = "\<lambda>r. True"]]
      split: sum.splits tick_exn.splits)

section \<open>Research\<close>

lemma tick_inv_less: "tick_inv E 1 1 st \<Longrightarrow> tick_inv E 0 0 st"
  by (auto simp: tick_inv_def)

text \<open>A gate that lets research run leaves room under both caps.\<close>

lemma gate_caps:
  "triple tk_log (event_ok E good) (tick_inv E 0 0) (research_gate E can_submit cid)
     (\<lambda>r st. tick_inv E 0 0 st \<and> (r = Inr None \<longrightarrow> can_submit \<and> tick_inv E 1 1 st))"
proof -
  let ?Q = "\<lambda>r st. tick_inv E 0 0 st \<and> (r = Inr None \<longrightarrow> can_submit \<and> tick_inv E 1 1 st)"
  have retry: "job E good 0 (retry_at E cid) (\<lambda>r. True)"
    unfolding retry_at_def by (auto intro!: safe_ok safe_catch [where P = "\<lambda>r. True"] job_ask_then)
  have start: "job E good 0 (if exhausted (te_budget E) now then ok False
      else op_then (read_clock E) (\<lambda>now. ok (can_start (te_budget E) (te_min_seconds E) now))) (\<lambda>r. True)" for now
    by (auto intro!: safe_ok safe_then [OF job_clock [where P = "\<lambda>r. True"]])
  have capped: "triple tk_log (event_ok E good) (tick_inv E 0 0)
      (op_then (get_tick (\<lambda>st. tk_researched st \<ge> te_cap E \<or> tk_researched st + tk_failed st \<ge> 2 * te_cap E)) (\<lambda>capped.
       ok (if \<not> go then Some (skipped cid ''budget'') else if capped then Some (skipped cid ''capped'') else None))) ?Q"
    if can_submit for go
    using that by (auto simp: triple_def op_then_def get_tick_def ok_def tick_inv_def)
  show ?thesis
    unfolding research_gate_def
    by (intro triple_if triple_option safe_then [OF retry] safe_then [OF job_clock [where P = "\<lambda>r. True"]] safe_then [OF start] capped)
       (auto intro!: triple_return simp: ok_def)
qed

lemma research_counts:
  "triple tk_log (event_ok E good) (tick_inv E 1 1) (research_run E cid input)
     (stays (tick_inv E 0 0) (\<lambda>r. \<forall>res. r = Inr (Inr res) \<longrightarrow> (\<exists>reports. researched E input reports \<and> res = coordinator_run reports)))"
  (is "triple _ _ _ _ ?Q")
proof -
  have answer: "job E good 1 (ask_tick (te_research E input)) (\<lambda>r. \<forall>reports. r = Inr reports \<longrightarrow> researched E input reports)"
    by (rule job_ask) (auto simp: researched_def)
  have failed: "triple tk_log (event_ok E good) (tick_inv E 1 1) (op_then (mod_tick (\<lambda>st. st\<lparr>tk_failed := tk_failed st + 1\<rparr>)) (\<lambda>_.
      op_then (research_failed E cid t) (\<lambda>en. ok (Inl en)))) ?Q" for t
  proof (rule triple_then)
    show "triple tk_log (event_ok E good) (tick_inv E 1 1) (mod_tick (\<lambda>st. st\<lparr>tk_failed := tk_failed st + 1\<rparr>))
        (stays (tick_inv E 0 0) (\<lambda>r. r = Inr ()))"
      by (auto simp: triple_def mod_tick_def tick_inv_def stays_def)
  qed (auto intro!: triple_stays safe_ok safe_then [OF job_research_failed [where P = "\<lambda>r. True"]] simp: stays_def)
  have counted: "triple tk_log (event_ok E good) (tick_inv E 1 1) (op_then (mod_tick (\<lambda>st. st\<lparr>tk_researched := tk_researched st + 1\<rparr>)) (\<lambda>_.
      ok (Inr (coordinator_run reports)))) ?Q" if "researched E input reports" for reports
    using that by (auto simp: triple_def op_then_def mod_tick_def ok_def tick_inv_def stays_def)
  show ?thesis
    unfolding research_run_def
    by (intro safe_bind [OF answer] triple_sum safe_then [OF job_clock [where P = "\<lambda>r. True"]] triple_if failed counted)
       (auto intro!: triple_return simp: ok_def tick_inv_less)
qed

section \<open>Sports\<close>

lemma sports_research_ok:
  assumes conf: "configured E" and closed: "closed_market E cid" and final: "final_score E cid question derived"
    and close: "te_close_time E cid n = Inr onchain_close"
  shows "triple tk_log (event_ok E (sports_tx E)) (tick_inv E 1 1)
    (sports_research E cid question derived close_time onchain_close) (stays (tick_inv E 0 0) (\<lambda>r. True))"
proof -
  let ?input = "Sports_Research question close_time"
  have mismatch: "job E (sports_tx E) 0 (sports_mismatch E cid derived (coordinator_run reports) onchain_close) (\<lambda>r. True)"
    if "researched E ?input reports" for reports
  proof -
    have "fallback_ok E (sports_tx E) cid derived (rs_reports (coordinator_run reports)) True" if "window_over E cid"
      unfolding fallback_ok_def sports_tx_def using \<open>researched E ?input reports\<close> that conf closed final
      by (auto simp: coordinator_run_def Let_def)
    then have "job E (sports_tx E) 0 (fallback_send E cid (rs_reports (coordinator_run reports)) (rs_reports (coordinator_run reports))
        derived True ''score'') (\<lambda>r. True)" if "window_over E cid"
      using that by (intro job_fallback_send) auto
    moreover have "window_over E cid" if "te_chain_now E k = Inr t" "\<not> t < onchain_close + WINDOW" for t k
      unfolding window_over_def using close that by (metis not_less)
    ultimately show ?thesis
      unfolding sports_mismatch_def Let_def
      by (intro triple_if job_unresolved safe_then [OF job_chain_now [where P = "\<lambda>r. case r of Inl e \<Rightarrow> True | Inr t \<Rightarrow> \<exists>k. te_chain_now E k = Inr t"]])
         auto
  qed
  have consensus: "job E (sports_tx E) 0 (consensus_send E cid (rs_reports (coordinator_run reports)) derived) (\<lambda>r. True)"
    if "researched E ?input reports" "rs_unanimous (coordinator_run reports)" "rs_outcome (coordinator_run reports) = Some derived" for reports
  proof (rule job_consensus)
    have "reports \<noteq> [] \<and> (\<forall>r \<in> set reports. rp_outcome r = derived)"
      using coordinator_unanimous [OF that(2)] that(3) by auto
    then show "sports_tx E (Submit_Consensus cid derived evidence deadline sigs)" for evidence deadline sigs
      unfolding sports_tx_def using that(1) conf closed final by auto
  qed simp
  show ?thesis
    unfolding sports_research_def
    by (rule triple_then [OF research_counts], rule triple_stays)
       (auto intro!: triple_cases safe_ok safe_then [OF job_raced [where P = "\<lambda>r. True"]] mismatch consensus simp: stays_def)
qed

lemma job_still_open:
  assumes "\<And>k t. te_chain_now E k = Inr t \<Longrightarrow> close_time \<le> t \<Longrightarrow> P (Inr False)" and "of_int close_time \<le> wall_clock E \<Longrightarrow> P (Inr False)"
    and "P (Inr True)" and "\<And>e. P (Inl e)"
  shows "job E good a (still_open E close_time) P"
proof -
  have "job E good a (effective_now E) (\<lambda>r. \<forall>t. r = Inr t \<longrightarrow> wall_clock E < of_int close_time \<longrightarrow>
      \<not> t < of_int close_time \<longrightarrow> (\<exists>k u. te_chain_now E k = Inr u \<and> close_time \<le> u))"
    by (rule job_effective_now) (auto simp: wall_clock_def max_def not_less split: if_splits)
  moreover have "P (Inr (t < of_int close_time))"
    if "\<not> t < of_int close_time \<longrightarrow> (\<exists>k u. te_chain_now E k = Inr u \<and> close_time \<le> u)" for t
    using that assms by (cases "t < of_int close_time") auto
  ultimately show ?thesis
    unfolding still_open_def using assms
    by (cases "wall_clock E < of_int close_time") (auto intro!: safe_ok elim!: safe_then)
qed

text \<open>Research after the gate, for both resolvers.\<close>

lemma after_gate:
  assumes m: "can_submit \<Longrightarrow> triple tk_log (event_ok E good) (tick_inv E 1 1) m (stays (tick_inv E 0 0) (\<lambda>r. True))"
  shows "triple tk_log (event_ok E good) (\<lambda>st. tick_inv E 0 0 st \<and> (Inr gate = Inr None \<longrightarrow> can_submit \<and> tick_inv E 1 1 st))
      (case gate of Some en \<Rightarrow> ok en | None \<Rightarrow> m) (stays (tick_inv E 0 0) (\<lambda>r. True))"
proof (cases gate)
  case None
  show ?thesis
  proof (cases can_submit)
    case True
    show ?thesis unfolding None option.case by (rule triple_mono [OF m [OF True]]) (use True in auto)
  qed (use None in \<open>simp add: triple_def\<close>)
qed (auto intro!: triple_return simp: ok_def)

lemma closed_marketI:
  assumes "te_close_time E cid n = Inr onchain_close" "onchain_close \<noteq> 0"
    and "of_int (max close_time onchain_close) \<le> wall_clock E \<or> (\<exists>k t. te_chain_now E k = Inr t \<and> max close_time onchain_close \<le> t)"
  shows "closed_market E cid"
proof -
  have "(of_int onchain_close :: rat) \<le> of_int (max close_time onchain_close)" by simp
  then have "of_int onchain_close \<le> wall_clock E \<or> (\<exists>k t. te_chain_now E k = Inr t \<and> onchain_close \<le> t)"
    using assms(3) by (auto intro: order_trans)
  then show ?thesis using assms(1,2) unfolding closed_market_def by blast
qed

lemma job_sports_scored:
  assumes submit: "can_submit \<longrightarrow> configured E" and closed: "closed_market E (mj_condition_id m)"
    and d: "te_detail E (mj_condition_id m) n1 = Inr detail" and c: "te_close_time E (mj_condition_id m) n2 = Inr onchain_close"
  shows "job E (sports_tx E) 0 (sports_scored E can_submit m detail close_time onchain_close) (\<lambda>r. True)"
proof -
  have gated: "job E (sports_tx E) 0 (op_then (research_gate E can_submit (mj_condition_id m)) (\<lambda>gate. case gate of Some en \<Rightarrow> ok en
      | None \<Rightarrow> sports_research E (mj_condition_id m) (mj_question m) derived close_time onchain_close)) (\<lambda>r. True)"
    if "final_score E (mj_condition_id m) (mj_question m) derived" for derived
    by (rule triple_then [OF gate_caps], rule after_gate, rule sports_research_ok)
       (use submit closed c that in auto)
  show ?thesis
    unfolding sports_scored_def Let_def
  proof (intro triple_cases safe_ok TrueI gated)
    show "final_score E (mj_condition_id m) (mj_question m) derived" if "dj_score detail = Some score" "\<not> sj_status score \<noteq> ''final''"
      "score_outcome (mj_question m) (sj_home_label score) (sj_away_label score) (sj_home_score score) (sj_away_score score) = Some derived"
      for score derived
      unfolding final_score_def using d that by blast
  qed
qed

lemma job_sports_market:
  assumes "can_submit \<longrightarrow> configured E"
  shows "job E (sports_tx E) 0 (sports_market E can_submit m) (\<lambda>r. True)"
  unfolding sports_market_def Let_def
proof (intro job_ask_then triple_if job_mirror safe_ok TrueI)
  fix detail n1 resolved n2 onchain_close n3
  assume d: "te_detail E (mj_condition_id m) n1 = Inr detail"
    and c: "te_close_time E (mj_condition_id m) n3 = Inr onchain_close" "onchain_close \<noteq> 0"
  have "job E (sports_tx E) 0 (still_open E (max (dj_close_time detail) onchain_close))
      (\<lambda>r. r = Inr False \<longrightarrow> closed_market E (mj_condition_id m))"
    by (rule job_still_open) (use closed_marketI [OF c] in auto)
  then show "job E (sports_tx E) 0 (op_then (still_open E (max (dj_close_time detail) onchain_close)) (\<lambda>early.
      if early then ok (skipped (mj_condition_id m) ''not closed'')
      else sports_scored E can_submit m detail (max (dj_close_time detail) onchain_close) onchain_close)) (\<lambda>r. True)"
    by (rule safe_then) (use assms d c in \<open>auto intro!: safe_ok job_sports_scored\<close>)
qed auto

text \<open>One market's failure ends in an entry; the markets follow one another.\<close>

lemma job_guarded: "job E good a m P \<Longrightarrow> job E good a (guarded cid m) (\<lambda>r. True)"
  unfolding guarded_def by (erule safe_catch) (auto intro: safe_ok)

lemma job_each: "(\<And>m. job E good a (f m) (\<lambda>r. True)) \<Longrightarrow> job E good a (resolve_each f ms) (\<lambda>r. True)"
proof (induction ms)
  case (Cons m ms)
  then show ?case
    by (auto intro!: safe_ok safe_then [where P = "\<lambda>r. True"])
qed (simp add: safe_ok)

text \<open>A whole run, of either resolver.\<close>

definition within_caps :: "tick_env \<Rightarrow> tick_exn + run_summary \<Rightarrow> bool" where
  "within_caps E r = (\<forall>sm. r = Inr sm \<longrightarrow> sm_attempted sm \<le> 2 * te_cap E \<and> sm_attempted sm \<le> te_cap E + sm_research_errors sm)"

lemma job_cards: "job E good a (market_cards E) (\<lambda>r. True)"
  unfolding market_cards_def Let_def
  by (auto intro!: job_ask_then safe_ok safe_raise split: sum.splits list_error.splits)

lemma run_ok:
  assumes each: "\<And>problems cards. (problems = [] \<longrightarrow> configured E) \<Longrightarrow> job E good 0 (resolve_each (f problems) (ms cards)) (\<lambda>r. True)"
  shows "triple tk_log (event_ok E good) (\<lambda>st. True)
    (op_then fresh_run (\<lambda>_. op_then (market_cards E) (\<lambda>(cards, view). op_then (ask_tick (te_config E)) (\<lambda>reads.
      op_then (resolve_each (f (config_problems reads)) (ms cards)) (\<lambda>results. summary view (config_problems reads) results)))))
    (\<lambda>r st. within_caps E r)"
proof (rule triple_then)
  show "triple tk_log (event_ok E good) (\<lambda>st. True) fresh_run (\<lambda>r st. r = Inr () \<and> tick_inv E 0 0 st)"
    by (simp add: triple_def fresh_run_def mod_tick_def tick_inv_def)
  have results: "triple tk_log (event_ok E good) (tick_inv E 0 0) (summary view problems results) (\<lambda>r st. within_caps E r)" for view problems results
    by (auto simp: triple_def summary_def get_tick_def tick_inv_def within_caps_def)
  have each': "job E good 0 (resolve_each (f (config_problems reads)) (ms cards)) (\<lambda>r. True)" if "te_config E n = Inr reads" for reads cards n
    using that by (intro each) (auto simp: configured_def)
  have rest: "triple tk_log (event_ok E good) (tick_inv E 0 0) (op_then (market_cards E) (\<lambda>(cards, view). op_then (ask_tick (te_config E)) (\<lambda>reads.
      op_then (resolve_each (f (config_problems reads)) (ms cards)) (\<lambda>results. summary view (config_problems reads) results))))
      (\<lambda>r st. within_caps E r)"
    by (intro safe_then [OF job_cards] triple_pair job_ask_then safe_then [OF each'] results) (auto simp: within_caps_def)
  then show "triple tk_log (event_ok E good) ((\<lambda>r st. r = Inr () \<and> tick_inv E 0 0 st) (Inr x)) (op_then (market_cards E) (\<lambda>(cards, view).
      op_then (ask_tick (te_config E)) (\<lambda>reads. op_then (resolve_each (f (config_problems reads)) (ms cards))
      (\<lambda>results. summary view (config_problems reads) results)))) (\<lambda>r st. within_caps E r)" for x :: unit
    by simp
qed simp

lemma run_sports_ok: "triple tk_log (event_ok E (sports_tx E)) (\<lambda>st. True) (run_sports E) (\<lambda>r st. within_caps E r)"
  unfolding run_sports_def Let_def
  by (rule run_ok [where f = "\<lambda>problems m. guarded (mj_condition_id m) (sports_market E (problems = []) m)"])
     (intro job_each job_guarded [OF job_sports_market])

section \<open>Every other market\<close>

lemma general_research_ok:
  assumes conf: "configured E" and closed: "closed_market E (mj_condition_id (cn_market c))"
    and close: "te_close_time E (mj_condition_id (cn_market c)) n = Inr onchain_close"
  shows "triple tk_log (event_ok E (general_tx E)) (tick_inv E 1 1)
    (general_research E c gate_detail close_time onchain_close) (stays (tick_inv E 0 0) (\<lambda>r. True))"
proof -
  let ?cid = "mj_condition_id (cn_market c)"
  have question: "job E (general_tx E) 1 (parent_question E c gate_detail) (\<lambda>r. True)"
    unfolding parent_question_def
    by (auto intro!: safe_ok safe_catch [where P = "\<lambda>r. True"] job_ask_then split: option.splits)
  have good: "general_tx E tx" if "tx_market tx = ?cid" "\<And>cid v. tx \<noteq> Resolve_Arbitrated cid v" "researched E input reports"
    "list_all (\<lambda>r. rp_outcome r \<in> {0, 1}) reports" "backs E (backed E reports) out tx"
    "\<And>cid v ev dl sigs. tx = Submit_Consensus cid v ev dl sigs \<Longrightarrow> backed E reports = reports" for tx input reports out
    unfolding general_tx_def using that conf closed
    by (intro conjI allI exI [of _ input] exI [of _ reports] exI [of _ out]) (auto simp: list_all_iff)
  have fallback: "job E (general_tx E) 0 (general_fallback E ?cid (coordinator_run reports) onchain_close why) (\<lambda>r. True)"
    if r: "researched E input reports" "list_all (\<lambda>r. rp_outcome r \<in> {0, 1}) reports" for input reports why
  proof -
    have send: "job E (general_tx E) 0 (fallback_send E ?cid reports (filter (\<lambda>r. rp_outcome r = agreed) (backed E reports)) agreed False ''research'') (\<lambda>r. True)"
      if "window_over E ?cid" for agreed
      by (rule job_fallback_send) (auto simp: fallback_ok_def that intro!: good [OF _ _ r, where out = agreed])
    have over: "window_over E ?cid" if "te_chain_now E k = Inr t" "\<not> t < onchain_close + WINDOW" for t k
      unfolding window_over_def using close that by (metis not_less)
    have reports: "rs_reports (coordinator_run reports) = reports" by (simp add: coordinator_run_def Let_def)
    show ?thesis
      unfolding general_fallback_def Let_def reports
      by (intro triple_cases job_unresolved safe_then [OF job_chain_now [where P = "\<lambda>r. case r of Inl e \<Rightarrow> True | Inr t \<Rightarrow> \<exists>k. te_chain_now E k = Inr t"]] send)
         (auto intro: over)
  qed
  have consensus: "job E (general_tx E) 0 (consensus_send E ?cid reports out) (\<lambda>r. True)"
    if r: "researched E input reports" "list_all (\<lambda>r. rp_outcome r \<in> {0, 1}) reports" and "rs_unanimous (coordinator_run reports)"
      "list_all (\<lambda>r. confidence r \<ge> te_floor E) reports" "rs_outcome (coordinator_run reports) = Some out" for input reports out
  proof (rule job_consensus)
    have b: "backed E reports = reports" using that(4) by (simp add: backed_def list_all_iff filter_id_conv)
    have "reports \<noteq> [] \<and> (\<forall>r \<in> set reports. rp_outcome r = out)"
      using coordinator_unanimous [OF that(3)] that(5) by auto
    then show "general_tx E (Submit_Consensus ?cid out evidence deadline sigs)" for evidence deadline sigs
      by (intro good [OF _ _ r]) (auto simp: b)
  qed simp
  show ?thesis
    unfolding general_research_def Let_def
  proof (rule safe_then [OF question], rule triple_then [OF research_counts], rule triple_stays)
    fix pq and x :: "entry + research"
    assume x: "\<forall>res. Inr x = Inr (Inr res) \<longrightarrow> (\<exists>reports. researched E (General_Research (cn_market c) pq close_time) reports \<and> res = coordinator_run reports)"
    show "job E (general_tx E) 0 (case x of Inl en \<Rightarrow> ok en
        | Inr res \<Rightarrow> op_then (resolved_concurrently E ?cid) (\<lambda>raced. case raced of Some en \<Rightarrow> ok en
          | None \<Rightarrow> if rs_reports res = [] \<or> \<not> list_all (\<lambda>r. rp_outcome r \<in> {0, 1}) (rs_reports res)
              then unresolved E ?cid (rs_reports res) (skipped ?cid ''undetermined'')
              else case if rs_unanimous res \<and> list_all (\<lambda>r. te_floor E \<le> confidence r) (rs_reports res) then rs_outcome res else None of
                None \<Rightarrow> general_fallback E ?cid res onchain_close (if rs_unanimous res then ''low confidence'' else ''research split'')
              | Some out \<Rightarrow> consensus_send E ?cid (rs_reports res) out)) (\<lambda>r. True)"
    proof (intro triple_cases safe_ok safe_then [OF job_raced [where P = "\<lambda>r. True"]] job_unresolved TrueI staysI)
      fix res :: research and raced :: "entry option"
      assume res: "x = Inr res" and det: "\<not> (rs_reports res = [] \<or> \<not> list_all (\<lambda>r. rp_outcome r \<in> {0, 1}) (rs_reports res))"
      obtain reports where r: "researched E (General_Research (cn_market c) pq close_time) reports" "res = coordinator_run reports"
        using x res by blast
      have eq: "rs_reports res = reports" using r(2) by (simp add: coordinator_run_def Let_def)
      show "job E (general_tx E) 0 (general_fallback E ?cid res onchain_close why) (\<lambda>r. True)" for why
        using fallback [OF r(1)] det r(2) eq by simp
      show "job E (general_tx E) 0 (consensus_send E ?cid (rs_reports res) out) (\<lambda>r. True)"
        if "(if rs_unanimous res \<and> list_all (\<lambda>r. te_floor E \<le> confidence r) (rs_reports res) then rs_outcome res else None) = Some out" for out
        using consensus [OF r(1)] det that r(2) eq by (auto split: if_splits)
    qed auto
  qed (auto simp: stays_def tick_inv_less)
qed

lemma job_event_status: "(\<And>r. P r) \<Longrightarrow> job E good a (event_status E subject kind) P"
proof -
  assume P: "\<And>r. P r"
  have resolved: "job E good a (if kind = Parent_Gate then catch (ask_tick (te_is_resolved E subject)) (\<lambda>e. ok False) else ok False) (\<lambda>r. True)"
    by (auto intro!: safe_ok safe_catch [where P = "\<lambda>r. True"] job_ask)
  show ?thesis
    unfolding event_status_def
    by (intro triple_if P safe_ok safe_then [OF resolved] safe_catch [where P = "\<lambda>r. True"] job_ask_then staysI TrueI)
qed

lemma job_general_market:
  assumes "can_submit \<longrightarrow> configured E"
  shows "job E (general_tx E) 0 (general_market E can_submit c) (\<lambda>r. True)"
proof -
  let ?cid = "mj_condition_id (cn_market c)"
  have gated: "job E (general_tx E) 0 (general_gated E can_submit c close_time onchain_close) (\<lambda>r. True)"
    if "closed_market E ?cid" "te_close_time E ?cid n = Inr onchain_close" for close_time onchain_close n
  proof -
    have subject: "job E (general_tx E) 0 (case gate_subject c of None \<Rightarrow> ok (True, None, [])
        | Some (subject, kind) \<Rightarrow> op_then (event_status E subject kind) (\<lambda>(finished, detail).
            ok (finished, (if kind = Parent_Gate then detail else None),
              if kind = Parent_Gate then ''parent not final'' else ''event not final''))) (\<lambda>r. True)"
      by (auto intro!: safe_ok safe_then [OF job_event_status [where P = "\<lambda>r. True"]] split: option.splits)
    show ?thesis
      unfolding general_gated_def Let_def
      by (rule safe_then [OF subject]) (use assms that in \<open>auto intro!: safe_ok triple_then [OF gate_caps] after_gate general_research_ok\<close>)
  qed
  have current: "job E (general_tx E) 0 (if wall_clock E \<ge> of_int due then ok (wall_clock E) else effective_now E)
      (\<lambda>r. \<forall>t. r = Inr t \<longrightarrow> t \<le> wall_clock E \<or> (\<exists>k u. te_chain_now E k = Inr u \<and> t = of_int u))" for due
    by (intro triple_if safe_ok job_effective_now) (fastforce simp: wall_clock_def max_def)+
  show ?thesis
    unfolding general_market_def Let_def
  proof (intro job_ask_then triple_if job_mirror safe_ok TrueI safe_then [OF current] staysI)
    fix onchain_close n1 t
    assume c: "te_close_time E ?cid n1 = Inr onchain_close" "onchain_close \<noteq> 0"
      and t: "\<forall>u. Inr t = Inr u \<longrightarrow> u \<le> wall_clock E \<or> (\<exists>k v. te_chain_now E k = Inr v \<and> u = of_int v)"
        "\<not> t < of_int (max (mj_close_time (cn_market c)) onchain_close)"
    have "of_int (max (mj_close_time (cn_market c)) onchain_close) \<le> wall_clock E \<or>
        (\<exists>k v. te_chain_now E k = Inr v \<and> max (mj_close_time (cn_market c)) onchain_close \<le> v)"
      using t by (auto simp: not_less intro: order_trans)
    then show "job E (general_tx E) 0 (general_gated E can_submit c (max (mj_close_time (cn_market c)) onchain_close) onchain_close) (\<lambda>r. True)"
      by (intro gated [OF closed_marketI [OF c] c(1)])
  qed auto
qed

lemma run_general_ok: "triple tk_log (event_ok E (general_tx E)) (\<lambda>st. True) (run_general E) (\<lambda>r st. within_caps E r)"
  unfolding run_general_def Let_def
  by (rule run_ok [where f = "\<lambda>problems c. guarded (mj_condition_id (cn_market c)) (general_market E (problems = []) c)" and ms = candidates])
     (intro job_each job_guarded [OF job_general_market])

end
