(* ===== verification/Resolver_Progress.thy ===== *)
theory Resolver_Progress
  imports Resolver_Safety
begin

text \<open>
  When the sports resolver does resolve: with answers that settle the market and a node that takes the
  transaction, the consensus is broadcast in the same run.
\<close>

section \<open>A market ready to resolve\<close>

text \<open>The API and the chain agree that the market is closed, its score is final and no cooldown holds it.\<close>

definition market_settled :: "tick_env \<Rightarrow> market_json \<Rightarrow> int \<Rightarrow> int \<Rightarrow> int \<Rightarrow> bool" where
  "market_settled E m api_close onchain_close out =
     ((\<forall>n. te_is_resolved E (mj_condition_id m) n = Inr False \<and> te_close_time E (mj_condition_id m) n = Inr onchain_close) \<and>
      onchain_close \<noteq> 0 \<and> of_int (max api_close onchain_close) \<le> wall_clock E \<and>
      (\<forall>n. \<exists>detail score. te_detail E (mj_condition_id m) n = Inr detail \<and> dj_close_time detail = api_close \<and>
         dj_score detail = Some score \<and> sj_status score = ''final'' \<and>
         score_outcome (mj_question m) (sj_home_label score) (sj_away_label score) (sj_home_score score) (sj_away_score score) = Some out) \<and>
      (\<forall>n rows. te_status E (mj_condition_id m) n = Inr rows \<longrightarrow>
         cooling (wall_clock E) (te_retry_window E) (te_error_window E) rows = None))"

text \<open>The agents agree on \<open>out\<close> and sign it, and the node mines the consensus.\<close>

definition agents_agree :: "tick_env \<Rightarrow> market_json \<Rightarrow> int \<Rightarrow> int \<Rightarrow> report list \<Rightarrow> bool" where
  "agents_agree E m close_time out reports =
     ((\<forall>n. te_research E (Sports_Research (mj_question m) close_time) n = Inr reports) \<and>
      reports \<noteq> [] \<and> (\<forall>r \<in> set reports. rp_outcome r = out) \<and>
      (\<forall>text \<in> {rp_evidence_hash (hd reports), mj_condition_id m}.
         from_hex (if startswith text ''0x'' then drop 2 text else text) \<noteq> None) \<and>
      (\<forall>name \<in> set AGENT_KEYS. \<forall>evidence deadline. \<exists>sig. te_sign E name (mj_condition_id m) evidence out deadline = Inr sig))"

definition node_mines :: "tick_env \<Rightarrow> string \<Rightarrow> int \<Rightarrow> bool" where
  "node_mines E cid out = (tb_deadline (te_budget E) = None \<and> (\<forall>n. \<exists>t. te_chain_now E n = Inr t) \<and>
     (\<forall>evidence deadline sigs n. let tx = Submit_Consensus cid out evidence deadline sigs in
        te_open E tx n = Inr () \<and> te_preflight E tx n = Inr () \<and> te_build E tx n = Inr () \<and> te_receipt E tx n = Inr 1))"

section \<open>Steps that cannot fail\<close>

text \<open>\<open>does I m Q\<close>: from a state with \<open>I\<close>, \<open>m\<close> ends with \<open>Q\<close>, and what was broadcast stays in the log.\<close>

abbreviation does :: "(tickst \<Rightarrow> bool) \<Rightarrow> 'r ticking \<Rightarrow> (tick_exn + 'r \<Rightarrow> tickst \<Rightarrow> bool) \<Rightarrow> bool" where
  "does I m Q \<equiv> triple tk_log (\<lambda>_. True) I m Q"

text \<open>A condition on the counters of a run; calls, log and clock are free.\<close>

definition below_caps :: "tick_env \<Rightarrow> tickst \<Rightarrow> bool" where
  "below_caps E st = (tk_researched st < te_cap E \<and> tk_researched st + tk_failed st < 2 * te_cap E)"

definition sent_consensus :: "string \<Rightarrow> int \<Rightarrow> tickst \<Rightarrow> bool" where
  "sent_consensus cid out st = (\<exists>evidence deadline sigs. Tx (Submit_Consensus cid out evidence deadline sigs) \<in> set (tk_log st))"

lemma below_caps_frame [simp]:
  "below_caps E (st\<lparr>tk_calls := n\<rparr>) = below_caps E st" "below_caps E (st\<lparr>tk_log := es\<rparr>) = below_caps E st"
  "below_caps E (st\<lparr>tk_chain_now := t\<rparr>) = below_caps E st"
  by (simp_all add: below_caps_def)

lemma sent_consensus_frame [simp]:
  "sent_consensus cid out (st\<lparr>tk_calls := n\<rparr>) = sent_consensus cid out st"
  "sent_consensus cid out st \<Longrightarrow> sent_consensus cid out (st\<lparr>tk_log := tk_log st @ es\<rparr>)"
  by (auto simp: sent_consensus_def)


lemma does_weaken: "does I m Q \<Longrightarrow> (\<And>st. J st \<Longrightarrow> I st) \<Longrightarrow> (\<And>r st. Q r st \<Longrightarrow> R r st) \<Longrightarrow> does J m R"
  by (rule triple_mono)

lemma does_then:
  assumes "does I m (\<lambda>r st. r = Inr x \<and> J st)" and "does J (k x) Q"
  shows "does I (op_then m k) Q"
  by (rule triple_then [OF assms(1)]) (use assms(2) in \<open>auto simp: triple_def\<close>)

lemma does_ask:
  assumes "\<forall>n. f n = Inr x" and "\<And>st n. I st \<Longrightarrow> I (st\<lparr>tk_calls := n\<rparr>)"
  shows "does I (ask_tick f) (\<lambda>r st. r = Inr x \<and> I st)"
  using assms by (auto simp: triple_def ask_tick_def)

lemma does_ask_then:
  assumes total: "\<And>n. \<exists>x. f n = Inr x" and frame: "\<And>st n. I st \<Longrightarrow> I (st\<lparr>tk_calls := n\<rparr>)"
    and k: "\<And>x n. f n = Inr x \<Longrightarrow> does I (k x) Q"
  shows "does I (op_then (ask_tick f) k) Q"
proof (rule triple_then)
  show "does I (ask_tick f) (\<lambda>r st. (\<exists>n x. f n = Inr x \<and> r = Inr x) \<and> I st)"
    unfolding triple_def ask_tick_def
  proof (intro allI impI)
    fix st assume "I st"
    obtain x where "f (tk_calls st) = Inr x" using total by blast
    with frame [OF \<open>I st\<close>] show "((\<exists>n x. f n = Inr x \<and> fst (run_state (State (\<lambda>st. (map_sum Raised id (f (tk_calls st)), st\<lparr>tk_calls := Suc (tk_calls st)\<rparr>))) st) = Inr x) \<and>
        I (snd (run_state (State (\<lambda>st. (map_sum Raised id (f (tk_calls st)), st\<lparr>tk_calls := Suc (tk_calls st)\<rparr>))) st))) \<and>
        (\<exists>ys. tk_log (snd (run_state (State (\<lambda>st. (map_sum Raised id (f (tk_calls st)), st\<lparr>tk_calls := Suc (tk_calls st)\<rparr>))) st)) = tk_log st @ ys \<and> list_all (\<lambda>_. True) ys)"
      by auto
  qed
  show "does (\<lambda>st. (\<exists>n y. f n = Inr y \<and> Inr x = Inr y) \<and> I st) (k x) Q" for x
    using k [of _ x] by (cases "\<exists>n. f n = Inr x") (auto simp: triple_def)
qed auto

lemma does_ok: "(\<And>st. I st \<Longrightarrow> Q (Inr x) st) \<Longrightarrow> does I (ok x) Q"
  unfolding ok_def by (rule triple_return)

lemma does_keep:
  assumes "does I m Q"
  shows "does (\<lambda>st. I st \<and> sent_consensus cid out st) m (\<lambda>r st. Q r st \<and> sent_consensus cid out st)"
  using assms unfolding triple_def sent_consensus_def by fastforce

text \<open>Whatever the API answers, posting only appends.\<close>

abbreviation appends :: "'r ticking \<Rightarrow> bool" where
  "appends m \<equiv> does (\<lambda>_. True) m (\<lambda>_ _. True)"

lemma appends_then: "appends m \<Longrightarrow> (\<And>x. appends (k x)) \<Longrightarrow> appends (op_then m k)"
  by (rule triple_then) auto

lemma appends_ask: "appends (ask_tick f)"
  by (simp add: triple_def ask_tick_def)

lemma appends_post: "appends (post_record E p)"
  unfolding post_record_def by (rule appends_then) (auto simp: triple_def log_event_def appends_ask ask_tick_def)

lemma appends_post_all: "appends (post_all E ps)"
  by (induction ps) (auto intro!: appends_then appends_post does_ok)

lemma does_persist:
  "does (\<lambda>_. True) (persist_resolution E cid reports out f)
     (\<lambda>r st. \<exists>en. r = Inr en \<and> en_submitted en \<and> en_outcome en = Some out)"
proof -
  have posts: "appends (op_then (persist_attestations E cid reports None) (\<lambda>_. op_then (mark_resolved E cid out) (\<lambda>_. ok None)))" for reports
    unfolding persist_attestations_def mark_resolved_def
    by (auto intro!: appends_then appends_ask appends_post appends_post_all does_ok)
  have "does (\<lambda>_. True) (catch (op_then (persist_attestations E cid reports None) (\<lambda>_. op_then (mark_resolved E cid out) (\<lambda>_. ok None)))
      (\<lambda>e. ok (Some (exn_text e)))) (\<lambda>r st. \<exists>err. r = Inr err)"
    unfolding catch_def by (rule triple_bind [OF posts]) (auto intro!: does_ok triple_return split: sum.splits)
  moreover have "does I (ok (with_persist err ((skipped cid [])\<lparr>en_submitted := True, en_outcome := Some out, en_fragment := f\<rparr>)))
      (\<lambda>r st. \<exists>en. r = Inr en \<and> en_submitted en \<and> en_outcome en = Some out)" for I err
    by (rule does_ok) (cases err; simp add: with_persist_def)
  ultimately show ?thesis
    unfolding persist_resolution_def by (rule triple_then) simp
qed

section \<open>The steps of a ready market\<close>

lemma does_gate:
  assumes "market_settled E m api_close onchain_close out" and "tb_deadline (te_budget E) = None"
  shows "does (below_caps E) (research_gate E True (mj_condition_id m)) (\<lambda>r st. r = Inr None \<and> below_caps E st)"
proof -
  have retry: "does (below_caps E) (retry_at E (mj_condition_id m)) (\<lambda>r st. r = Inr None \<and> below_caps E st)"
    using assms(1) unfolding retry_at_def market_settled_def
    by (auto simp: triple_def catch_def op_then_def ask_tick_def ok_def split: sum.splits)
  have clock: "does (below_caps E) (op_then (read_clock E) (\<lambda>now. op_then
      (if exhausted (te_budget E) now then ok False else op_then (read_clock E) (\<lambda>now. ok (can_start (te_budget E) (te_min_seconds E) now))) (\<lambda>go.
      op_then (get_tick (\<lambda>st. tk_researched st \<ge> te_cap E \<or> tk_researched st + tk_failed st \<ge> 2 * te_cap E)) (\<lambda>capped.
      ok (if \<not> go then Some (skipped (mj_condition_id m) ''budget'') else if capped then Some (skipped (mj_condition_id m) ''capped'') else None)))))
      (\<lambda>r st. r = Inr None \<and> below_caps E st)"
    using assms(2)
    by (auto simp: triple_def op_then_def read_clock_def ask_tick_def get_tick_def ok_def exhausted_def effective_deadline_def
        can_start_def time_left_def below_caps_def)
  show ?thesis
    unfolding research_gate_def by (auto intro!: does_then [OF retry] clock)
qed

lemma does_research:
  assumes "agents_agree E m close_time out reports"
  shows "does (below_caps E) (research_run E (mj_condition_id m) (Sports_Research (mj_question m) close_time))
    (\<lambda>r st. r = Inr (Inr (coordinator_run reports)))"
  using assms unfolding research_run_def agents_agree_def
  by (auto simp: triple_def op_then_def ask_tick_def mod_tick_def ok_def)

lemma does_raced:
  assumes "market_settled E m api_close onchain_close out"
  shows "does (\<lambda>_. True) (resolved_concurrently E (mj_condition_id m)) (\<lambda>r st. r = Inr None \<and> True)"
  using assms unfolding resolved_concurrently_def market_settled_def
  by (auto simp: triple_def op_then_def catch_def ask_tick_def ok_def)

lemma does_hex:
  assumes "from_hex (if startswith text ''0x'' then drop 2 text else text) \<noteq> None"
  shows "\<exists>bytes. does (\<lambda>_. True) (hex_bytes text) (\<lambda>r st. r = Inr bytes \<and> True)"
proof -
  obtain bytes where "from_hex (if startswith text ''0x'' then drop 2 text else text) = Some bytes"
    using assms by blast
  then have "hex_bytes text = ok bytes" unfolding hex_bytes_def by (simp only: option.case)
  then show ?thesis by (auto intro!: does_ok)
qed

lemma does_now:
  assumes "node_mines E cid out"
  shows "does (\<lambda>_. True) (effective_now E) (\<lambda>r st. \<exists>t. r = Inr t)"
proof -
  have clock: "does (\<lambda>_. True) (chain_now E) (\<lambda>r st. \<exists>t. r = Inr t)"
    unfolding chain_now_def
  proof (rule triple_then [where R = "\<lambda>r st. \<exists>x. r = Inr x"])
    show "does (\<lambda>_. True) (get_tick tk_chain_now) (\<lambda>r st. \<exists>x. r = Inr x)"
      by (simp add: triple_def get_tick_def)
    have "does (\<lambda>_. True) (ask_tick (te_chain_now E)) (\<lambda>r st. \<exists>x. r = Inr x)"
      using assms by (auto simp: triple_def ask_tick_def node_mines_def)
    then have read: "does (\<lambda>_. True) (op_then (ask_tick (te_chain_now E)) (\<lambda>t.
        op_then (mod_tick (\<lambda>st. st\<lparr>tk_chain_now := Some t\<rparr>)) (\<lambda>_. ok t))) (\<lambda>r st. \<exists>t. r = Inr t)"
      by (rule triple_then) (simp_all add: triple_def op_then_def mod_tick_def ok_def)
    show "does (\<lambda>st. \<exists>x. Inr known = Inr x) (case known of Some t \<Rightarrow> ok t
        | None \<Rightarrow> op_then (ask_tick (te_chain_now E)) (\<lambda>t. op_then (mod_tick (\<lambda>st. st\<lparr>tk_chain_now := Some t\<rparr>)) (\<lambda>_. ok t)))
        (\<lambda>r st. \<exists>t. r = Inr t)" for known :: "int option"
      using read by (cases known) (auto intro!: does_ok)
  qed auto
  show ?thesis
    unfolding effective_now_def
    by (cases "te_now E") (auto intro!: does_ok triple_then [OF clock])
qed

lemma does_sign:
  assumes "\<forall>name \<in> set names. \<forall>evidence deadline. \<exists>sig. te_sign E name cid evidence out deadline = Inr sig"
  shows "\<exists>sigs. does (\<lambda>_. True) (sign_all E names cid evidence out deadline) (\<lambda>r st. r = Inr sigs \<and> True)"
  using assms
proof (induction names)
  case (Cons name names)
  obtain sig where sig: "te_sign E name cid evidence out deadline = Inr sig" using Cons.prems by (meson list.set_intros(1))
  obtain sigs where "does (\<lambda>_. True) (sign_all E names cid evidence out deadline) (\<lambda>r st. r = Inr sigs \<and> True)"
    using Cons by auto
  then have "does (\<lambda>_. True) (op_then (sign_all E names cid evidence out deadline) (\<lambda>sigs. ok (sig # sigs))) (\<lambda>r st. r = Inr (sig # sigs) \<and> True)"
    by (rule does_then) (auto intro: does_ok)
  with sig show ?case by (auto simp: sign_all_def)
qed (auto simp: sign_all_def intro: does_ok)

lemma does_submit:
  assumes "node_mines E cid out"
  shows "does (\<lambda>_. True) (submit_consensus E cid out evidence deadline sigs) (\<lambda>r st. r = Inr () \<and> sent_consensus cid out st)"
  using assms unfolding submit_consensus_def send_tx_def node_mines_def
  by (auto simp: Let_def triple_def op_then_def ask_tick_def read_clock_def log_event_def ok_def receipt_timeout_def total_left_def
      sent_consensus_def)

lemma does_consensus:
  assumes agree: "agents_agree E m close_time out reports" and node: "node_mines E (mj_condition_id m) out"
  shows "does (\<lambda>_. True) (consensus_send E (mj_condition_id m) reports out)
    (\<lambda>r st. \<exists>en. r = Inr en \<and> en_submitted en \<and> en_outcome en = Some out \<and> sent_consensus (mj_condition_id m) out st)"
    (is "does _ _ ?Q")
proof -
  let ?cid = "mj_condition_id m"
  obtain evidence where evidence: "does (\<lambda>_. True) (hex_bytes (rp_evidence_hash (hd reports))) (\<lambda>r st. r = Inr evidence \<and> True)"
    using agree does_hex unfolding agents_agree_def by blast
  obtain cid_bytes where cid: "does (\<lambda>_. True) (hex_bytes ?cid) (\<lambda>r st. r = Inr cid_bytes \<and> True)"
    using agree does_hex unfolding agents_agree_def by blast
  have signers: "\<forall>name \<in> set AGENT_KEYS. \<forall>evidence deadline. \<exists>sig. te_sign E name ?cid evidence out deadline = Inr sig"
    using agree by (simp add: agents_agree_def)
  have persist: "does (sent_consensus ?cid out) (persist_resolution E ?cid reports out None) ?Q"
    by (rule does_weaken [OF does_keep [OF does_persist, where cid = ?cid and out = out]]) auto
  have sent: "does (\<lambda>_. True) (State_Monad.bind (submit_consensus E ?cid out evidence deadline sigs) (\<lambda>r. case r of
       Inr _ \<Rightarrow> persist_resolution E ?cid reports out None
     | Inl (Send_Deferred text) \<Rightarrow> ok (deferred_send ?cid)
     | Inl e \<Rightarrow> op_then (resolved_concurrently E ?cid) (\<lambda>raced. ok (case raced of Some en \<Rightarrow> en | None \<Rightarrow> tx_error ?cid e)))) ?Q"
    for deadline sigs
  proof (rule triple_bind [OF does_submit [OF node]])
    show "does (\<lambda>st. r = Inr () \<and> sent_consensus ?cid out st) (case r of Inr _ \<Rightarrow> persist_resolution E ?cid reports out None
        | Inl (Send_Deferred text) \<Rightarrow> ok (deferred_send ?cid)
        | Inl e \<Rightarrow> op_then (resolved_concurrently E ?cid) (\<lambda>raced. ok (case raced of Some en \<Rightarrow> en | None \<Rightarrow> tx_error ?cid e))) ?Q"
      for r :: "tick_exn + unit"
      using persist by (cases r) (auto simp: triple_def)
  qed
  have signed: "\<exists>p. does (\<lambda>_. True) (sign_unanimous E ?cid evidence out now) (\<lambda>r st. r = Inr p \<and> True)" for now
  proof -
    obtain sigs where "does (\<lambda>_. True) (sign_all E AGENT_KEYS ?cid evidence out (now + CONSENSUS_DEADLINE_SECONDS)) (\<lambda>r st. r = Inr sigs \<and> True)"
      using does_sign [OF signers] by blast
    then have "does (\<lambda>_. True) (sign_unanimous E ?cid evidence out now) (\<lambda>r st. r = Inr (now + CONSENSUS_DEADLINE_SECONDS, sigs) \<and> True)"
      unfolding sign_unanimous_def Let_def by (rule does_then) (auto intro: does_ok)
    then show ?thesis by blast
  qed
  have rest: "does (\<lambda>_. True) (op_then (sign_unanimous E ?cid evidence out now) (\<lambda>(deadline, sigs).
     State_Monad.bind (submit_consensus E ?cid out evidence deadline sigs) (\<lambda>r. case r of
       Inr _ \<Rightarrow> persist_resolution E ?cid reports out None
     | Inl (Send_Deferred text) \<Rightarrow> ok (deferred_send ?cid)
     | Inl e \<Rightarrow> op_then (resolved_concurrently E ?cid) (\<lambda>raced. ok (case raced of Some en \<Rightarrow> en | None \<Rightarrow> tx_error ?cid e))))) ?Q"
    for now
  proof -
    obtain p where p: "does (\<lambda>_. True) (sign_unanimous E ?cid evidence out now) (\<lambda>r st. r = Inr p \<and> True)" using signed by blast
    show ?thesis by (rule does_then [OF p]) (cases p, simp add: sent)
  qed
  show ?thesis
    unfolding consensus_send_def
    by (rule does_then [OF evidence], rule does_then [OF cid], rule triple_then [OF does_now [OF node]])
       (auto intro: does_weaken [OF rest])
qed

text \<open>The whole market.\<close>

lemma does_sports_market:
  assumes settled: "market_settled E m api_close onchain_close out"
    and agree: "agents_agree E m (max api_close onchain_close) out reports" and node: "node_mines E (mj_condition_id m) out"
  shows "does (below_caps E) (sports_market E True m)
    (\<lambda>r st. \<exists>en. r = Inr en \<and> en_submitted en \<and> en_outcome en = Some out \<and> sent_consensus (mj_condition_id m) out st)"
    (is "does _ _ ?Q")
proof -
  let ?cid = "mj_condition_id m" and ?close = "max api_close onchain_close"
  have res: "rs_unanimous (coordinator_run reports)" "rs_outcome (coordinator_run reports) = Some out" "rs_reports (coordinator_run reports) = reports"
    using agree agreeing_unanimous [of reports out] by (auto simp: agents_agree_def coordinator_run_def Let_def)
  have research: "does (below_caps E) (sports_research E ?cid (mj_question m) out ?close onchain_close) ?Q"
    unfolding sports_research_def
  proof (rule does_then [OF does_weaken [OF does_research [OF agree]], where J = "\<lambda>_. True"])
    show "does (\<lambda>_. True) (case Inr (coordinator_run reports) of Inl en \<Rightarrow> ok en | Inr res \<Rightarrow>
        op_then (resolved_concurrently E ?cid) (\<lambda>raced. case raced of Some en \<Rightarrow> ok en
        | None \<Rightarrow> if rs_unanimous res \<and> rs_outcome res = Some out then consensus_send E ?cid (rs_reports res) out
            else sports_mismatch E ?cid out res onchain_close)) ?Q"
      unfolding sum.case by (rule does_then [OF does_raced [OF settled]]) (simp add: res does_consensus [OF agree node])
  qed auto
  have gated: "does (below_caps E) (op_then (research_gate E True ?cid) (\<lambda>gate. case gate of Some en \<Rightarrow> ok en
      | None \<Rightarrow> sports_research E ?cid (mj_question m) out ?close onchain_close)) ?Q"
    by (rule does_then [OF does_gate [OF settled]]) (use node research in \<open>auto simp: node_mines_def\<close>)
  have closed: "still_open E ?close = ok False" "onchain_close \<noteq> 0"
    using settled by (auto simp: market_settled_def still_open_def not_less)
  show ?thesis
    unfolding sports_market_def Let_def
  proof (intro does_ask_then)
    fix detail n1 resolved n2
    assume "te_detail E ?cid n1 = Inr detail" and r: "te_is_resolved E ?cid n2 = Inr resolved"
    then obtain score where d: "dj_close_time detail = api_close" "dj_score detail = Some score" "sj_status score = ''final''"
      "score_outcome (mj_question m) (sj_home_label score) (sj_away_label score) (sj_home_score score) (sj_away_score score) = Some out"
      using settled unfolding market_settled_def by (metis sum.inject(2))
    have "does (below_caps E) (ok False) (\<lambda>r st. r = Inr False \<and> below_caps E st)"
      by (rule does_ok) simp
    then have body: "does (below_caps E) (op_then (ok False) (\<lambda>early.
        if early then ok (skipped ?cid ''not closed'') else sports_scored E True m detail ?close onchain_close)) ?Q"
      by (rule does_then) (simp add: sports_scored_def Let_def d gated)
    show "does (below_caps E) (if resolved then mirror_chain_resolved E ?cid (dj_resolved detail)
        else op_then (ask_tick (te_close_time E ?cid)) (\<lambda>onchain_close.
          if onchain_close = 0 then ok (skipped ?cid ''not registered'')
          else op_then (still_open E (max (dj_close_time detail) onchain_close)) (\<lambda>early.
            if early then ok (skipped ?cid ''not closed'')
            else sports_scored E True m detail (max (dj_close_time detail) onchain_close) onchain_close))) ?Q"
      using settled r body closed d(1) by (auto simp: market_settled_def intro!: does_ask_then)
  qed (use settled in \<open>auto simp: market_settled_def\<close>)
qed

end
