(* ===== verification/Resolver_Props.thy ===== *)
theory Resolver_Props
  imports Resolver_Progress
begin

text \<open>
  The properties of the oracle job's resolvers, with one run of each on a market that resolves.
\<close>

section \<open>A run\<close>

text \<open>One closed sports market with a final score, one closed child market, agents that agree, and a working node.\<close>

definition demo_tick :: tick_env where
  "demo_tick = \<lparr> te_policy = Attest, te_cap = 1, te_retry_window = 0, te_error_window = 0, te_min_seconds = 0, te_now = Some 20,
     te_time = 20, te_budget = \<lparr> tb_deadline = None, tb_total = 0, tb_stage = None \<rparr>, te_oracle = ''0x'', te_chain_id = 1,
     te_delay = 0, te_gated_delay = 0, te_floor = 1, te_mono = (\<lambda>_. 0),
     te_redact = id, te_operator_cards = (\<lambda>_. Inl (Http_Status 403)),
     te_cards = (\<lambda>_. Inr [\<lparr> cj_primary = \<lparr> mj_condition_id = ''0x0a'', mj_question = ''A vs B: A win?'', mj_resolution_criteria = [], mj_market_type = 0,
        mj_parent = [], mj_close_time = 10, mj_resolved = False, mj_resolve_after = 0 \<rparr>, cj_children = [\<lparr> mj_condition_id = ''0x0b'', mj_question = ''q'', mj_resolution_criteria = [], mj_market_type = 2,
        mj_parent = [], mj_close_time = 10, mj_resolved = False, mj_resolve_after = 0 \<rparr>] \<rparr>]),
     te_detail = (\<lambda>_ _. Inr \<lparr> dj_question = ''A vs B: A win?'', dj_resolved = False, dj_close_time = 10,
        dj_score = Some \<lparr> sj_status = ''final'', sj_updated_at = None, sj_home_label = ''A'', sj_away_label = ''B'', sj_home_score = Some 2, sj_away_score = Some 1 \<rparr> \<rparr>),
     te_status = (\<lambda>_ _. Inr []),
     te_config = (\<lambda>_. Inr \<lparr> cg_env_chain = 1, cg_rpc_chain = 1, cg_has_code = True, cg_agents = [''a'', ''b'', ''c''], cg_operator = ''o'',
        cg_expected = map_of [(''alpha'', ''a''), (''beta'', ''b''), (''gamma'', ''c''), (''operator'', ''o'')] \<rparr>),
     te_is_resolved = (\<lambda>_ _. Inr False), te_close_time = (\<lambda>_ _. Inr 10), te_payouts = (\<lambda>_ _. Inr (0, 0, 0)),
     te_chain_now = (\<lambda>_. Inr 20), te_fallback_state = (\<lambda>_ _. Inl ''e''), te_fallback_preflight = (\<lambda>_ _. Inl ''e''),
     te_research = (\<lambda>_ _. Inr [\<lparr> rp_agent = ''alpha'', rp_outcome = 0, rp_confidence = Some 1, rp_summary = [], rp_evidence_hash = ''0x01'' \<rparr>]),
     te_agent_address = (\<lambda>_. Inr ''a''), te_sign = (\<lambda>_ _ _ _ _. Inr ''s''), te_open = (\<lambda>_ _. Inr ()), te_preflight = (\<lambda>_ _. Inr ()),
     te_build = (\<lambda>_ _. Inr ()), te_receipt = (\<lambda>_ _. Inr 1), te_token = (\<lambda>_. Inr ()), te_post = (\<lambda>_ _. Inr ()) \<rparr>"

definition fresh_tick :: tickst where
  "fresh_tick = \<lparr> tk_calls = 0, tk_log = [], tk_chain_now = None, tk_researched = 0, tk_failed = 0 \<rparr>"

section \<open>What a run broadcasts\<close>





text \<open>Whatever fails, a run of either resolver starts at most twice the cap of
  research runs, and beyond the cap only as many as failed.\<close>
theorem research_stays_within_caps:
  assumes "run_state m st = (Inr sm, st')" and "m = run_sports E \<or> m = run_general E"
  shows "sm_attempted sm \<le> 2 * te_cap E \<and> sm_attempted sm \<le> te_cap E + sm_research_errors sm"
  using assms tripleD [OF run_sports_ok TrueI, of E st] tripleD [OF run_general_ok TrueI, of E st]
  unfolding within_caps_def by blast

theorem research_stays_within_caps_witness:
  "\<exists>sm. fst (run_state (run_sports demo_tick) fresh_tick) = Inr sm \<and> sm_attempted sm = 1 \<and> sm_attempted sm \<le> 2 * te_cap demo_tick"
proof -
  obtain sm st' where r: "run_state (run_sports demo_tick) fresh_tick = (Inr sm, st')"
    and one: "sm_attempted sm = 1"
  proof -
    have "(case fst (run_state (run_sports demo_tick) fresh_tick) of Inl e \<Rightarrow> False | Inr sm \<Rightarrow> sm_attempted sm = 1)"
      by code_simp
    then show thesis
      by (cases "run_state (run_sports demo_tick) fresh_tick") (auto split: sum.splits intro: that)
  qed
  then show ?thesis
    using research_stays_within_caps [OF r disjI1 [OF refl]] by auto
qed

section \<open>What a run does send\<close>




end
