(* ===== verification/Oracle_Api.thy ===== *)
theory Oracle_Api
  imports Auth Trading Consensus Json
begin

text \<open>
  The oracle routes of the API (\<open>backend/app/oracle/router.py\<close>): the agents' reports and the mirror of a
  resolution, both written by the oracle job, the public status, and the holders' votes. A vote is two
  statements with a chain read between them, so its request is two steps that others interleave with.
  \<open>json.loads\<close> is the parameter \<open>loads\<close>.
\<close>

section \<open>Reports\<close>

definition UINT8_MAX :: int where "UINT8_MAX = 255"

record attest_in =
  ai_condition_id :: string
  ai_agent :: string
  ai_outcome :: int
  ai_evidence_hash :: string
  ai_summary :: string
  ai_evidence_json :: string
  ai_signature :: string

definition attest_valid :: "attest_in \<Rightarrow> bool" where
  "attest_valid body = (length (ai_condition_id body) \<le> 66 \<and> length (ai_agent body) \<le> 42 \<and>
     0 \<le> ai_outcome body \<and> ai_outcome body \<le> UINT8_MAX \<and> length (ai_evidence_hash body) \<le> 66)"

datatype report_kind = Research_Kind | Resolution_Kind

definition is_research_marker :: "json \<Rightarrow> bool" where
  "is_research_marker item = (case item of J_Obj kvs \<Rightarrow> map_of kvs ''kind'' = Some (J_Str ''research'') | _ \<Rightarrow> False)"

text \<open>Text that is no JSON is resolution evidence, like the rows from before the marker.\<close>

definition attestation_kind :: "(string \<Rightarrow> json option) \<Rightarrow> string \<Rightarrow> report_kind" where
  "attestation_kind loads evidence =
     (case loads (if evidence = [] then ''[]'' else evidence) of
        None \<Rightarrow> Resolution_Kind
      | Some data \<Rightarrow>
          let items = (case data of J_Arr xs \<Rightarrow> xs | x \<Rightarrow> [x]) in
          if list_ex is_research_marker items then Research_Kind else Resolution_Kind)"

text \<open>\<open>attest\<close>: \<open>now\<close> is the time in whole seconds.\<close>

definition attest :: "dbase \<Rightarrow> user http \<Rightarrow> int \<Rightarrow> attest_in \<Rightarrow> int http \<times> dbase" where
  "attest db who now body =
     (case require_operator who of
        Inl e \<Rightarrow> (Inl e, db)
      | Inr u \<Rightarrow>
          if \<not> attest_valid body then (Inl (HTTPException 422 ''validation error''), db)
          else let i = d_next_attestation db;
              row = \<lparr> a_id = i, a_condition_id = ai_condition_id body, a_agent = py_lower (ai_agent body),
                a_outcome = ai_outcome body, a_evidence_hash = ai_evidence_hash body, a_summary = ai_summary body,
                a_evidence_json = ai_evidence_json body, a_signature = ai_signature body, a_created_at = Some now \<rparr> in
          (Inr i, db\<lparr>d_attestations := d_attestations db @ [row], d_next_attestation := i + 1\<rparr>))"

record resolved_in =
  ri_condition_id :: string
  ri_outcome :: int

text \<open>\<open>mark_resolved\<close>: the market's payouts.\<close>

definition set_resolved :: "int \<Rightarrow> market \<Rightarrow> market" where
  "set_resolved out m = m\<lparr>m_resolved := True, m_payout_yes := (if out = 0 then 1 else 0), m_payout_no := (if out = 0 then 0 else 1)\<rparr>"

definition post_resolved :: "dbase \<Rightarrow> user http \<Rightarrow> resolved_in \<Rightarrow> market http \<times> dbase" where
  "post_resolved db who body =
     (case require_operator who of
        Inl e \<Rightarrow> (Inl e, db)
      | Inr u \<Rightarrow>
          if length (ri_condition_id body) > 66 then (Inl (HTTPException 422 ''validation error''), db)
          else if ri_outcome body \<notin> {0, 1} then (Inl (HTTPException 400 ''outcome must be 0 or 1''), db)
          else case get_market (ri_condition_id body) db of
            None \<Rightarrow> (Inl (HTTPException 404 ''market not found''), db)
          | Some m \<Rightarrow>
              let m' = set_resolved (ri_outcome body) m in
              (Inr m', db\<lparr>d_markets := put_row m_condition_id m' (d_markets db)\<rparr>))"

section \<open>The status\<close>

record status_public =
  sp_rows :: "(attestation \<times> report_kind) list"
  sp_votes :: "vote list"
  sp_unanimous :: bool

definition resolution_outcomes :: "(attestation \<times> report_kind) list \<Rightarrow> int list" where
  "resolution_outcomes rows = map (a_outcome \<circ> fst) (filter (\<lambda>(a, kind). kind = Resolution_Kind) rows)"

definition status :: "(string \<Rightarrow> json option) \<Rightarrow> dbase \<Rightarrow> string \<Rightarrow> status_public" where
  "status loads db cid =
     (let atts = sort_key a_id (filter (\<lambda>a. a_condition_id a = cid) (d_attestations db));
          rows = map (\<lambda>a. (a, attestation_kind loads (a_evidence_json a))) atts;
          outcomes = resolution_outcomes rows in
      \<lparr> sp_rows = rows, sp_votes = filter (\<lambda>v. vt_condition_id v = cid) (d_votes db),
        sp_unanimous = (length outcomes \<ge> 3 \<and> length (remdups outcomes) = 1) \<rparr>)"

text \<open>What the job's cooldown reads of it: the agent and \<open>createdAt\<close>.\<close>

definition status_rows :: "status_public \<Rightarrow> (string \<times> rat option) list" where
  "status_rows s = map (\<lambda>(a, kind). (a_agent a, map_option of_int (a_created_at a))) (sp_rows s)"

section \<open>Votes\<close>

record vote_in =
  vi_condition_id :: string
  vi_outcome :: int

definition vote_valid :: "vote_in \<Rightarrow> bool" where
  "vote_valid body = (length (vi_condition_id body) \<le> 66 \<and> 0 \<le> vi_outcome body \<and> vi_outcome body \<le> 1)"

text \<open>The caller's balances of the two outcomes; a failed read is the text on the left.\<close>

definition read_position_weight :: "(string \<Rightarrow> string \<Rightarrow> int \<Rightarrow> string + int) \<Rightarrow> string \<Rightarrow> string \<Rightarrow> string + int" where
  "read_position_weight balance cid holder =
     (case balance cid holder 0 of
        Inl err \<Rightarrow> Inl err
      | Inr yes \<Rightarrow> (case balance cid holder 1 of Inl err \<Rightarrow> Inl err | Inr no \<Rightarrow> Inr (yes + no)))"

definition vote_key :: "vote \<Rightarrow> string \<times> string" where
  "vote_key v = (vt_condition_id v, vt_voter v)"

text \<open>Up to the chain read: the market and the voter.\<close>

definition vote_check :: "dbase \<Rightarrow> user http \<Rightarrow> vote_in \<Rightarrow> (string \<times> string) http" where
  "vote_check db who body =
     bind_http who (\<lambda>u.
        let cid = norm_cid (vi_condition_id body); voter = py_lower (u_address u) in
        if \<not> vote_valid body then Inl (HTTPException 422 ''validation error'')
        else if length cid \<noteq> 66 then Inl (HTTPException 400 ''conditionId must be 32-byte hex'')
        else if get_market cid db = None then Inl (HTTPException 404 ''market not found'')
        else if get_row vote_key (cid, voter) (d_votes db) \<noteq> None then Inl (HTTPException 409 ''already voted'')
        else Inr (cid, voter))"

definition vote_weight :: "string + int \<Rightarrow> int http" where
  "vote_weight weight =
     (case weight of
        Inl err \<Rightarrow> Inl (HTTPException 503 ''chain unavailable'')
      | Inr w \<Rightarrow> if w \<le> 0 then Inl (HTTPException 403 ''only holders of this market can vote'') else Inr (min w (2 ^ 63 - 1)))"

text \<open>From the INSERT on: the unique index decides, and the row count says who won.\<close>

definition vote_insert :: "dbase \<Rightarrow> string \<times> string \<Rightarrow> int \<Rightarrow> string + int \<Rightarrow> (string \<times> int) http \<times> dbase" where
  "vote_insert db key out weight =
     (case vote_weight weight of
        Inl e \<Rightarrow> (Inl e, db)
      | Inr w \<Rightarrow>
          let row = \<lparr> vt_id = d_next_vote db, vt_condition_id = fst key, vt_voter = snd key, vt_outcome = out, vt_weight = w \<rparr>;
              inserted = (get_row vote_key (vote_key row) (d_votes db) = None);
              db' = db\<lparr>d_votes := insert_ignore vote_key row (d_votes db),
                d_next_vote := (if inserted then d_next_vote db + 1 else d_next_vote db)\<rparr> in
          (if inserted then Inr (snd key, w) else Inl (HTTPException 409 ''already voted''), db'))"

text \<open>The whole request, when nothing comes between.\<close>

definition vote_request ::
  "(string \<Rightarrow> string \<Rightarrow> int \<Rightarrow> string + int) \<Rightarrow> dbase \<Rightarrow> user http \<Rightarrow> vote_in \<Rightarrow> (string \<times> int) http \<times> dbase" where
  "vote_request balance db who body =
     (case vote_check db who body of
        Inl e \<Rightarrow> (Inl e, db)
      | Inr key \<Rightarrow> vote_insert db key (vi_outcome body) (read_position_weight balance (fst key) (snd key)))"

section \<open>Interleaved requests\<close>

text \<open>A request is open between its check and its insert; each read of the chain may answer anything.\<close>

datatype oracle_step =
    Vote_Check nat "user http" vote_in
  | Vote_Insert nat "string + int"
  | Attest "user http" int attest_in
  | Resolve "user http" resolved_in

record oracle_state =
  os_db :: dbase
  os_open :: "nat \<Rightarrow> ((string \<times> string) \<times> int) option"
  os_counted :: "(string \<times> string \<times> int) list"

fun oracle_do :: "oracle_step \<Rightarrow> oracle_state \<Rightarrow> oracle_state" where
  "oracle_do (Vote_Check i who body) st =
     (case vote_check (os_db st) who body of
        Inl e \<Rightarrow> st
      | Inr key \<Rightarrow> st\<lparr>os_open := (os_open st)(i := Some (key, vi_outcome body))\<rparr>)"
| "oracle_do (Vote_Insert i weight) st =
     (case os_open st i of
        None \<Rightarrow> st
      | Some (key, out) \<Rightarrow>
          (case vote_insert (os_db st) key out weight of (r, db) \<Rightarrow>
             st\<lparr>os_db := db, os_open := (os_open st)(i := None),
               os_counted := os_counted st @ (case r of Inl e \<Rightarrow> [] | Inr (voter, w) \<Rightarrow> [(fst key, voter, w)])\<rparr>))"
| "oracle_do (Attest who now body) st = st\<lparr>os_db := snd (attest (os_db st) who now body)\<rparr>"
| "oracle_do (Resolve who body) st = st\<lparr>os_db := snd (post_resolved (os_db st) who body)\<rparr>"

definition oracle_run :: "oracle_step list \<Rightarrow> oracle_state \<Rightarrow> oracle_state" where
  "oracle_run steps st = fold oracle_do steps st"

section \<open>Votes\<close>

definition votes_since :: "vote list \<Rightarrow> oracle_state \<Rightarrow> bool" where
  "votes_since old st = (\<exists>new. d_votes (os_db st) = old @ new \<and> distinct (map vote_key (old @ new)) \<and>
     map (\<lambda>v. (vt_condition_id v, vt_voter v, vt_weight v)) new = os_counted st \<and>
     list_all (\<lambda>v. 1 \<le> vt_weight v \<and> vt_weight v \<le> 2 ^ 63 - 1) new)"

lemma vote_weight_range: "vote_weight weight = Inr w \<Longrightarrow> 1 \<le> w \<and> w \<le> 2 ^ 63 - 1"
  by (auto simp: vote_weight_def split: sum.splits if_splits)

lemma votes_insert:
  assumes "votes_since old st" and "vote_insert (os_db st) key out weight = (r, db)"
  shows "votes_since old (st\<lparr>os_db := db, os_open := opn,
    os_counted := os_counted st @ (case r of Inl e \<Rightarrow> [] | Inr (voter, w) \<Rightarrow> [(fst key, voter, w)])\<rparr>)"
proof (cases "vote_weight weight")
  case (Inl e)
  then show ?thesis using assms by (auto simp: vote_insert_def votes_since_def)
next
  case (Inr w)
  let ?row = "\<lparr> vt_id = d_next_vote (os_db st), vt_condition_id = fst key, vt_voter = snd key, vt_outcome = out, vt_weight = w \<rparr>"
  obtain new where new: "d_votes (os_db st) = old @ new" "distinct (map vote_key (old @ new))"
    "map (\<lambda>v. (vt_condition_id v, vt_voter v, vt_weight v)) new = os_counted st"
    "list_all (\<lambda>v. 1 \<le> vt_weight v \<and> vt_weight v \<le> 2 ^ 63 - 1) new"
    using assms(1) unfolding votes_since_def by blast
  show ?thesis
  proof (cases "get_row vote_key (vote_key ?row) (d_votes (os_db st)) = None")
    case True
    have res: "r = Inr (snd key, w)" "d_votes db = old @ new @ [?row]"
      using assms(2) True new(1) by (auto simp: vote_insert_def Inr Let_def insert_ignore_def)
    have "distinct (map vote_key (old @ new @ [?row]))"
      using new(1,2) True by (auto simp: get_row_None)
    then show ?thesis
      using new res vote_weight_range [OF Inr] unfolding votes_since_def by (intro exI [of _ "new @ [?row]"]) auto
  next
    case False
    then have "\<exists>e. r = Inl e" "d_votes db = d_votes (os_db st)"
      using assms(2) by (auto simp: vote_insert_def Inr Let_def insert_ignore_def)
    then show ?thesis using new unfolding votes_since_def by auto
  qed
qed

lemma votes_do:
  assumes v: "votes_since old st"
  shows "votes_since old (oracle_do s st)"
proof (cases s)
  case (Vote_Insert i weight)
  show ?thesis
  proof (cases "os_open st i")
    case (Some p)
    obtain key out where p: "p = (key, out)" by (cases p)
    obtain r db where "vote_insert (os_db st) key out weight = (r, db)" by (metis prod.exhaust)
    then show ?thesis using votes_insert [OF v] Some by (simp add: Vote_Insert p)
  qed (use v in \<open>simp add: Vote_Insert\<close>)
next
  case (Vote_Check i who body)
  then show ?thesis using v by (auto simp: votes_since_def split: sum.splits)
next
  case (Attest who now body)
  then show ?thesis using v by (auto simp: votes_since_def attest_def Let_def split: sum.splits)
next
  case (Resolve who body)
  have "d_votes (snd (post_resolved db who body)) = d_votes db" for db
    by (auto simp: post_resolved_def Let_def split: sum.splits option.splits)
  then show ?thesis using v by (simp add: Resolve votes_since_def)
qed

lemma votes_run: "votes_since old st \<Longrightarrow> votes_since old (oracle_run steps st)"
  unfolding oracle_run_def by (induction steps arbitrary: st) (auto intro: votes_do)

text \<open>
  C14 (one_vote_per_holder). However vote requests, reports and resolutions interleave, and whatever the chain
  answers between a request's check and its insert, the table only grows by the votes that were accepted:
  each accepted request added exactly one row with the weight it was told, no holder has two votes on a
  market, no vote is changed or lost, and every weight is positive and fits the column.
\<close>

theorem one_vote_per_holder:
  assumes "distinct (map vote_key (d_votes (os_db st)))" and "os_counted st = []"
  shows "\<exists>new. d_votes (os_db (oracle_run steps st)) = d_votes (os_db st) @ new \<and>
    distinct (map vote_key (d_votes (os_db st) @ new)) \<and>
    map (\<lambda>v. (vt_condition_id v, vt_voter v, vt_weight v)) new = os_counted (oracle_run steps st) \<and>
    list_all (\<lambda>v. 1 \<le> vt_weight v \<and> vt_weight v \<le> 2 ^ 63 - 1) new"
proof -
  have "votes_since (d_votes (os_db st)) st" using assms by (simp add: votes_since_def)
  from votes_run [OF this, of steps] show ?thesis unfolding votes_since_def .
qed

definition ex_market_id :: string where "ex_market_id = ''0x'' @ replicate 64 (CHR ''a'')"

definition ex_oracle :: oracle_state where
  "ex_oracle = \<lparr> os_db = empty_db\<lparr>d_markets := [\<lparr> m_condition_id = ex_market_id, m_parent_condition_id = [], m_question = ''q'',
       m_resolution_criteria = [], m_market_type = 0, m_close_time = 10, m_paused = False, m_resolved = False,
       m_payout_yes = 0, m_payout_no = 0, m_suggested_probability = 0 \<rparr>]\<rparr>, os_open = (\<lambda>_. None), os_counted = [] \<rparr>"

definition ex_voter :: user where
  "ex_voter = \<lparr> u_id = 1, u_address = ''0xv'', u_is_operator = True, u_cdp_user_id = [] \<rparr>"

text \<open>Two requests of one holder pass the check; the first insert wins.\<close>

definition ex_race :: "oracle_step list" where
  "ex_race = [Vote_Check 1 (Inr ex_voter) \<lparr> vi_condition_id = ex_market_id, vi_outcome = 0 \<rparr>,
     Vote_Check 2 (Inr ex_voter) \<lparr> vi_condition_id = ex_market_id, vi_outcome = 1 \<rparr>, Vote_Insert 2 (Inr 7), Vote_Insert 1 (Inr 9)]"

theorem one_vote_per_holder_witness:
  "(\<exists>new. d_votes (os_db (oracle_run ex_race ex_oracle)) = [] @ new \<and> distinct (map vote_key ([] @ new)) \<and>
     map (\<lambda>v. (vt_condition_id v, vt_voter v, vt_weight v)) new = os_counted (oracle_run ex_race ex_oracle) \<and>
     list_all (\<lambda>v. 1 \<le> vt_weight v \<and> vt_weight v \<le> 2 ^ 63 - 1) new) \<and>
   map (\<lambda>(cid, voter, w). (voter, w)) (os_counted (oracle_run ex_race ex_oracle)) = [(''0xv'', 7)]"
proof
  have "d_votes (os_db ex_oracle) = []" "os_counted ex_oracle = []" by (simp_all add: ex_oracle_def empty_db_def)
  then show "\<exists>new. d_votes (os_db (oracle_run ex_race ex_oracle)) = [] @ new \<and> distinct (map vote_key ([] @ new)) \<and>
     map (\<lambda>v. (vt_condition_id v, vt_voter v, vt_weight v)) new = os_counted (oracle_run ex_race ex_oracle) \<and>
     list_all (\<lambda>v. 1 \<le> vt_weight v \<and> vt_weight v \<le> 2 ^ 63 - 1) new"
    using one_vote_per_holder [of ex_oracle ex_race] by simp
  show "map (\<lambda>(cid, voter, w). (voter, w)) (os_counted (oracle_run ex_race ex_oracle)) = [(''0xv'', 7)]"
    by code_simp
qed

section \<open>Research records and the job\<close>

text \<open>The marker \<open>persist_research\<close> writes.\<close>

definition research_marker :: "string \<Rightarrow> json" where
  "research_marker reason = J_Arr [J_Obj [(''kind'', J_Str ''research''), (''reason'', J_Str reason)]]"

lemma status_attest:
  assumes "attest db who now body = (Inr i, db')"
  shows "d_attestations db' = d_attestations db @ [\<lparr> a_id = d_next_attestation db, a_condition_id = ai_condition_id body,
     a_agent = py_lower (ai_agent body), a_outcome = ai_outcome body, a_evidence_hash = ai_evidence_hash body,
     a_summary = ai_summary body, a_evidence_json = ai_evidence_json body, a_signature = ai_signature body, a_created_at = Some now \<rparr>]"
  using assms by (auto simp: attest_def Let_def split: if_splits sum.splits)

lemma resolution_outcomes_status:
  "resolution_outcomes (sp_rows (status loads db cid)) =
     map a_outcome (sort_key a_id (filter (\<lambda>a. a_condition_id a = cid \<and> attestation_kind loads (a_evidence_json a) = Resolution_Kind) (d_attestations db)))"
  by (simp add: resolution_outcomes_def status_def Let_def filter_map o_def filter_sort conj_commute)

lemma status_unanimous:
  "sp_unanimous (status loads db cid) = (let outs = resolution_outcomes (sp_rows (status loads db cid)) in length outs \<ge> 3 \<and> length (remdups outs) = 1)"
  by (simp add: status_def Let_def)

text \<open>
  A report the job records for a research run that did not resolve never
  changes whether a market counts as unanimous, and no vote.
\<close>

theorem research_records_decide_nothing:
  assumes "loads (ai_evidence_json body) = Some (research_marker reason)" and "ai_evidence_json body \<noteq> []"
  shows "sp_unanimous (status loads (snd (attest db who now body)) cid) = sp_unanimous (status loads db cid) \<and>
    sp_votes (status loads (snd (attest db who now body)) cid) = sp_votes (status loads db cid)"
proof -
  have kind: "attestation_kind loads (ai_evidence_json body) = Research_Kind"
    using assms by (simp add: attestation_kind_def research_marker_def is_research_marker_def)
  obtain r db' where r: "attest db who now body = (r, db')" by (metis prod.exhaust)
  show ?thesis
  proof (cases r)
    case (Inl e)
    then have "db' = db" using r by (auto simp: attest_def Let_def split: if_splits sum.splits)
    then show ?thesis by (simp add: r)
  next
    case (Inr i)
    have votes: "d_votes db' = d_votes db" using r by (auto simp: attest_def Let_def split: if_splits sum.splits)
    have "resolution_outcomes (sp_rows (status loads db' cid)) = resolution_outcomes (sp_rows (status loads db cid))"
      using kind by (simp add: resolution_outcomes_status status_attest [OF r [unfolded Inr]])
    then show ?thesis by (simp add: r status_unanimous votes) (simp add: status_def votes Let_def)
  qed
qed

text \<open>The newest row decides the cooldown.\<close>

lemma newest_stamp:
  "(case fold newer rows acc of None \<Rightarrow> True | Some (t, e) \<Rightarrow> (\<exists>agent. (agent, Some t) \<in> set rows) \<or> acc = Some (t, e))"
proof (induction rows arbitrary: acc)
  case (Cons row rows)
  show ?case
    using Cons.IH [of "newer row acc"] by (cases row; cases "snd row") (auto simp: newer_def split: option.splits if_splits)
qed (simp split: option.splits)

lemma last_research_newest:
  assumes "\<And>agent s. (agent, Some s) \<in> set rows \<Longrightarrow> s \<le> t"
  shows "last_research (rows @ [(agent, Some t)]) = Some (t, py_lower agent = ERROR_AGENT)"
proof -
  have "case last_research rows of None \<Rightarrow> True | Some (s, e) \<Rightarrow> s \<le> t"
    using newest_stamp [of rows None] assms unfolding last_research_def by (auto split: option.splits)
  then show ?thesis by (auto simp: last_research_def newer_def split: option.splits)
qed

lemma sort_key_last: "(\<And>y. y \<in> set ys \<Longrightarrow> f y \<le> f x) \<Longrightarrow> sort_key f (ys @ [x]) = sort_key f ys @ [x]"
  for f :: "'a \<Rightarrow> 'b::linorder"
proof -
  assume le: "\<And>y. y \<in> set ys \<Longrightarrow> f y \<le> f x"
  have "sorted (map f (sort_key f ys @ [x]))" using le by (auto simp: sorted_append)
  moreover have "filter (\<lambda>y. f k = f y) (sort_key f ys @ [x]) = filter (\<lambda>y. f k = f y) (ys @ [x])" for k
    using sort_key_stable [of f "f k" ys] by (simp add: eq_commute)
  ultimately show ?thesis by (intro properties_for_sort_key) auto
qed

text \<open>
  A research run the job recorded is the newest row the job's next tick
  reads, so the market is skipped until the cooldown of its kind is over: the short one after a failed run, the
  long one after a run that did not resolve.
\<close>

theorem recorded_research_cools_down:
  assumes "attest db who now body = (Inr i, db')" and "cid = ai_condition_id body"
    and "\<And>a. a \<in> set (d_attestations db) \<Longrightarrow> a_id a < d_next_attestation db"
    and "\<And>a t. a \<in> set (d_attestations db) \<Longrightarrow> a_created_at a = Some t \<Longrightarrow> t \<le> now"
    and "hold = (if py_lower (ai_agent body) = ERROR_AGENT then error_window else window)"
    and "0 < hold" and "clock < of_int now + hold"
  shows "cooling clock window error_window (status_rows (status loads db' cid)) = Some \<lfloor>of_int now + hold\<rfloor>"
proof -
  let ?old = "sort_key a_id (filter (\<lambda>a. a_condition_id a = cid) (d_attestations db))"
  let ?new = "\<lparr> a_id = d_next_attestation db, a_condition_id = cid, a_agent = py_lower (ai_agent body), a_outcome = ai_outcome body,
     a_evidence_hash = ai_evidence_hash body, a_summary = ai_summary body, a_evidence_json = ai_evidence_json body,
     a_signature = ai_signature body, a_created_at = Some now \<rparr>"
  have "sort_key a_id (filter (\<lambda>a. a_condition_id a = cid) (d_attestations db) @ [?new]) = ?old @ [?new]"
    by (rule sort_key_last) (use assms(3) in \<open>auto intro: less_imp_le\<close>)
  then have rows: "status_rows (status loads db' cid) =
      map (\<lambda>a. (a_agent a, map_option of_int (a_created_at a))) ?old @ [(py_lower (ai_agent body), Some (of_int now))]"
    by (simp add: status_rows_def status_def Let_def o_def status_attest [OF assms(1)] assms(2))
  have "last_research (status_rows (status loads db' cid)) = Some (of_int now, py_lower (py_lower (ai_agent body)) = ERROR_AGENT)"
    unfolding rows by (rule last_research_newest) (use assms(4) in \<open>auto simp: eq_commute [of "Some s" for s]\<close>)
  then show ?thesis
    using assms(5-7) by (simp add: cooling_def Let_def split: if_splits)
qed

text \<open>A small \<open>json.loads\<close> that knows the marker, and two posts: a report and a research record.\<close>

definition ex_loads :: "string \<Rightarrow> json option" where
  "ex_loads text = (if text = ''r'' then Some (research_marker ''split'') else if text = ''[]'' then Some (J_Arr []) else None)"

definition ex_post :: "string \<Rightarrow> string \<Rightarrow> attest_in" where
  "ex_post agent evidence = \<lparr> ai_condition_id = ex_market_id, ai_agent = agent, ai_outcome = 0, ai_evidence_hash = [], ai_summary = [],
     ai_evidence_json = evidence, ai_signature = [] \<rparr>"

theorem research_records_decide_nothing_witness:
  "sp_unanimous (status ex_loads (snd (attest empty_db (Inr ex_voter) 5 (ex_post ''a'' ''r''))) ex_market_id) = False \<and>
   length (sp_rows (status ex_loads (snd (attest empty_db (Inr ex_voter) 5 (ex_post ''a'' ''r''))) ex_market_id)) = 1"
proof
  have "sp_unanimous (status ex_loads empty_db ex_market_id) = False" by (simp add: status_def empty_db_def Let_def resolution_outcomes_def)
  then show "sp_unanimous (status ex_loads (snd (attest empty_db (Inr ex_voter) 5 (ex_post ''a'' ''r''))) ex_market_id) = False"
    using research_records_decide_nothing [of ex_loads "ex_post ''a'' ''r''" "''split''" empty_db "Inr ex_voter" 5 ex_market_id]
    by (simp add: ex_loads_def ex_post_def)
  show "length (sp_rows (status ex_loads (snd (attest empty_db (Inr ex_voter) 5 (ex_post ''a'' ''r''))) ex_market_id)) = 1"
    by code_simp
qed

theorem recorded_research_cools_down_witness:
  "cooling 6 100 50 (status_rows (status ex_loads (snd (attest empty_db (Inr ex_voter) 5 (ex_post ''Oracle-Job'' ''r''))) ex_market_id)) = Some 55"
proof -
  have "attest empty_db (Inr ex_voter) 5 (ex_post ''Oracle-Job'' ''r'') = (Inr 1, snd (attest empty_db (Inr ex_voter) 5 (ex_post ''Oracle-Job'' ''r'')))"
    "py_lower ''Oracle-Job'' = ERROR_AGENT"
    by code_simp+
  then show ?thesis
    using recorded_research_cools_down [of empty_db "Inr ex_voter" 5 "ex_post ''Oracle-Job'' ''r''" 1 _ ex_market_id 50 50 100 6 ex_loads]
    by (simp add: ex_post_def empty_db_def)
qed

end
