(* ===== verification/Fiat.thy ===== *)
theory Fiat
  imports Oracle_Api
begin

text \<open>
  Fiat ramps and their KYC gate (\<open>backend/app/kyc/router.py\<close>, \<open>backend/app/ramps/router.py\<close>). Amounts are
  rationals; \<open>float\<close>, \<open>Decimal\<close>, \<open>json.loads\<close>, \<open>hmac\<close> and URL encoding are the functions of \<open>fiat_env\<close>. An
  exception no handler catches is the answer 500.
\<close>

section \<open>Text\<close>

definition upper_char :: "char \<Rightarrow> char" where
  "upper_char c = (let n = (of_char c :: nat) in if 97 \<le> n \<and> n \<le> 122 then char_of (n - 32) else c)"

definition py_upper :: "string \<Rightarrow> string" where
  "py_upper s = map upper_char s"

fun split_comma :: "string \<Rightarrow> string list" where
  "split_comma [] = [[]]"
| "split_comma (c # cs) =
     (if c = CHR '','' then [] # split_comma cs
      else (case split_comma cs of [] \<Rightarrow> [[c]] | w # ws \<Rightarrow> (c # w) # ws))"

section \<open>The gate\<close>

datatype decimal = Finite rat | Not_Finite

record fiat_env =
  fe_settings :: settings
  fe_float :: "string \<Rightarrow> rat option"
  fe_decimal :: "string \<Rightarrow> decimal option"
  fe_plain :: "rat \<Rightarrow> string"
  fe_urlencode :: "(string \<times> string) list \<Rightarrow> string"
  fe_hmac :: "string \<Rightarrow> string \<Rightarrow> string"
  fe_loads :: "string \<Rightarrow> json option"
  fe_str :: "json \<Rightarrow> string"

definition internal_error :: http_error where
  "internal_error = HTTPException 500 ''Internal Server Error''"

definition DAY :: int where "DAY = 86400"

definition restricted_jurisdictions :: "settings \<Rightarrow> string list" where
  "restricted_jurisdictions s = map (py_upper \<circ> py_strip) (filter (\<lambda>j. py_strip j \<noteq> []) (split_comma (s_kyc_restricted_jurisdictions s)))"

abbreviation get_kyc :: "string \<Rightarrow> dbase \<Rightarrow> kyc_record option" where
  "get_kyc addr db \<equiv> get_row k_address addr (d_kyc db)"

definition is_restricted :: "settings \<Rightarrow> kyc_record option \<Rightarrow> bool" where
  "is_restricted s record =
     (case record of
        None \<Rightarrow> False
      | Some r \<Rightarrow> k_jurisdiction r \<noteq> [] \<and> py_upper (k_jurisdiction r) \<in> set (restricted_jurisdictions s))"

text \<open>The caller's completed ramps of the last 24 hours.\<close>

definition recent_txs :: "dbase \<Rightarrow> string \<Rightarrow> int \<Rightarrow> ramp_tx list" where
  "recent_txs db address now =
     filter (\<lambda>t. rt_address t = address \<and> rt_created_at t \<ge> now - DAY \<and> rt_status t \<in> {''completed'', ''success''}) (d_ramps db)"

fun sum_amounts :: "(string \<Rightarrow> rat option) \<Rightarrow> ramp_tx list \<Rightarrow> rat option" where
  "sum_amounts flt [] = Some 0"
| "sum_amounts flt (t # ts) =
     (if rt_amount t = [] then sum_amounts flt ts
      else (case (flt (rt_amount t), sum_amounts flt ts) of (Some a, Some b) \<Rightarrow> Some (a + b) | _ \<Rightarrow> None))"

definition daily_volume :: "fiat_env \<Rightarrow> dbase \<Rightarrow> string \<Rightarrow> int \<Rightarrow> rat http" where
  "daily_volume E db address now =
     (case sum_amounts (fe_float E) (recent_txs db address now) of None \<Rightarrow> Inl internal_error | Some v \<Rightarrow> Inr v)"

definition PASSING :: "string set" where "PASSING = {''pass'', ''not_required''}"

definition enforce_kyc_gate :: "fiat_env \<Rightarrow> dbase \<Rightarrow> int \<Rightarrow> rat \<Rightarrow> user \<Rightarrow> unit http" where
  "enforce_kyc_gate E db now notional_usdc user =
     (if notional_usdc \<le> 0 then Inl (HTTPException 400 ''Invalid amount'')
      else
        let record = get_kyc (u_address user) db in
        bind_http (daily_volume E db (u_address user) now) (\<lambda>volume.
        if \<not> (volume + notional_usdc \<ge> s_kyc_threshold_usdc (fe_settings E) \<or> is_restricted (fe_settings E) record)
        then Inr ()
        else case record of
          None \<Rightarrow> Inl (HTTPException 403 ''KYC required but not started. Complete KYC verification to proceed.'')
        | Some r \<Rightarrow>
            if k_status r \<notin> PASSING then Inl (HTTPException 403 (''KYC verification required. Current status: '' @ k_status r))
            else Inr ()))"

section \<open>KYC routes\<close>

definition two_letters :: "string \<Rightarrow> bool" where
  "two_letters s = (s = [] \<or> (length s = 2 \<and> list_all (\<lambda>c. 65 \<le> (of_char c :: nat) \<and> (of_char c :: nat) \<le> 90) s))"

text \<open>\<open>kyc_session\<close>: a jurisdiction is written once.\<close>

definition kyc_session :: "dbase \<Rightarrow> user http \<Rightarrow> int \<Rightarrow> string \<Rightarrow> kyc_record http \<times> dbase" where
  "kyc_session db who now jurisdiction =
     (case who of
        Inl e \<Rightarrow> (Inl e, db)
      | Inr u \<Rightarrow>
          if \<not> two_letters jurisdiction then (Inl (HTTPException 422 ''validation error''), db)
          else (case get_kyc (u_address u) db of
             Some r \<Rightarrow>
               if jurisdiction \<noteq> [] \<and> k_jurisdiction r \<noteq> [] \<and> jurisdiction \<noteq> py_upper (k_jurisdiction r)
               then (Inl (HTTPException 409 ''jurisdiction already set''), db)
               else
                 let r' = r\<lparr>k_jurisdiction := (if jurisdiction \<noteq> [] then jurisdiction else k_jurisdiction r), k_updated_at := now\<rparr> in
                 (Inr r', db\<lparr>d_kyc := put_row k_address r' (d_kyc db)\<rparr>)
           | None \<Rightarrow>
               let r = \<lparr> k_address = u_address u, k_status = ''pending'', k_jurisdiction = jurisdiction, k_updated_at = now \<rparr> in
               (Inr r, db\<lparr>d_kyc := d_kyc db @ [r]\<rparr>)))"

definition kyc_status :: "dbase \<Rightarrow> user http \<Rightarrow> int \<Rightarrow> kyc_record http" where
  "kyc_status db who now =
     bind_http who (\<lambda>u.
       case get_kyc (u_address u) db of
         None \<Rightarrow> Inr \<lparr> k_address = u_address u, k_status = ''not_started'', k_jurisdiction = [], k_updated_at = now \<rparr>
       | Some r \<Rightarrow> Inr r)"

record kyc_check_public =
  kc_allowed :: bool
  kc_reason :: string
  kc_status :: string

definition kyc_check :: "fiat_env \<Rightarrow> dbase \<Rightarrow> user http \<Rightarrow> int \<Rightarrow> rat \<Rightarrow> kyc_check_public http" where
  "kyc_check E db who now notional_usdc =
     bind_http who (\<lambda>u.
        let record = get_kyc (u_address u) db in
        if notional_usdc \<le> 0 then Inl (HTTPException 422 ''validation error'')
        else bind_http (daily_volume E db (u_address u) now) (\<lambda>volume.
        if \<not> (volume + notional_usdc \<ge> s_kyc_threshold_usdc (fe_settings E) \<or> is_restricted (fe_settings E) record)
        then Inr \<lparr> kc_allowed = True, kc_reason = ''Below threshold and not restricted'',
          kc_status = (case record of None \<Rightarrow> ''not_required'' | Some r \<Rightarrow> k_status r) \<rparr>
        else case record of
          None \<Rightarrow> Inr \<lparr> kc_allowed = False, kc_reason = ''KYC required but not started'', kc_status = ''not_started'' \<rparr>
        | Some r \<Rightarrow>
            if k_status r \<in> PASSING
            then Inr \<lparr> kc_allowed = True, kc_reason = ''KYC passed'', kc_status = k_status r \<rparr>
            else Inr \<lparr> kc_allowed = False, kc_reason = ''KYC status: '' @ k_status r, kc_status = k_status r \<rparr>))"

section \<open>Ramps\<close>





text \<open>A field of the payload, when it is text that fits its column.\<close>

definition text_field :: "(string \<times> json) list \<Rightarrow> string \<Rightarrow> string \<Rightarrow> nat \<Rightarrow> string option" where
  "text_field payload name dflt limit =
     (case map_of payload name of
        None \<Rightarrow> if length dflt \<le> limit then Some dflt else None
      | Some (J_Str s) \<Rightarrow> if length s \<le> limit then Some s else None
      | Some _ \<Rightarrow> None)"

text \<open>The new or updated row; the webhook of a known transaction changes its status and amount.\<close>

definition upsert_ramp :: "dbase \<Rightarrow> int \<Rightarrow> string \<Rightarrow> string \<Rightarrow> string \<Rightarrow> string \<Rightarrow> dbase" where
  "upsert_ramp db now provider_id address amount stat =
     (case get_row rt_provider_id provider_id (d_ramps db) of
        Some t \<Rightarrow> db\<lparr>d_ramps := put_row rt_provider_id (t\<lparr>rt_status := stat, rt_amount := amount\<rparr>) (d_ramps db)\<rparr>
      | None \<Rightarrow> db\<lparr>d_ramps := d_ramps db @ [\<lparr> rt_id = d_next_ramp db, rt_address = address, rt_amount = amount,
            rt_provider_id = provider_id, rt_status = stat, rt_created_at = now \<rparr>], d_next_ramp := d_next_ramp db + 1\<rparr>)"

definition webhook_fields :: "fiat_env \<Rightarrow> string \<Rightarrow> (string \<times> string \<times> string \<times> string) http" where
  "webhook_fields E body =
     (case fe_loads E body of
        Some (J_Obj payload) \<Rightarrow>
          let amount = fe_str E (case map_of payload ''cryptoAmount'' of None \<Rightarrow> J_Int 0 | Some v \<Rightarrow> v) in
          (case (text_field payload ''externalTransactionId'' [] 255, text_field payload ''walletAddress'' [] 42,
              text_field payload ''status'' ''unknown'' 32) of
             (Some provider_id, Some address, Some stat) \<Rightarrow>
               if length amount > 64 then Inl (HTTPException 400 ''Invalid webhook payload'')
               else Inr (provider_id, address, amount, stat)
           | _ \<Rightarrow> Inl (HTTPException 400 ''Invalid webhook payload''))
      | _ \<Rightarrow> Inl internal_error)"

definition moonpay_webhook :: "fiat_env \<Rightarrow> dbase \<Rightarrow> int \<Rightarrow> string \<Rightarrow> string \<Rightarrow> unit http \<times> dbase" where
  "moonpay_webhook E db now body signature =
     (if s_moonpay_secret (fe_settings E) = [] then (Inl (HTTPException 503 ''MoonPay not configured''), db)
      else if signature \<noteq> fe_hmac E (s_moonpay_secret (fe_settings E)) body then (Inl (HTTPException 401 ''Invalid signature''), db)
      else case webhook_fields E body of
        Inl e \<Rightarrow> (Inl e, db)
      | Inr (provider_id, address, amount, stat) \<Rightarrow> (Inr (), upsert_ramp db now provider_id address amount stat))"

definition app_id :: "fiat_env \<Rightarrow> string" where
  "app_id E = (if s_coinbase_onramp_app_id (fe_settings E) = [] then ''demo'' else s_coinbase_onramp_app_id (fe_settings E))"

definition onramp_url :: "fiat_env \<Rightarrow> string \<Rightarrow> string" where
  "onramp_url E address = ''https://pay.coinbase.com/buy?appId='' @ app_id E @ ''&destinationWallets='' @
     ''[{%22address%22:%22'' @ address @ ''%22,%22blockchains%22:[%22base%22],%22assets%22:[%22USDC%22]}]''"

definition offramp_url :: "fiat_env \<Rightarrow> string \<Rightarrow> string" where
  "offramp_url E address = ''https://pay.coinbase.com/offramp?appId='' @ app_id E @ ''&address='' @ address @ ''&asset=USDC''"

section \<open>Sequences of requests\<close>

datatype fiat_step = Session "user http" int string | Webhook int string string

fun fiat_do :: "fiat_env \<Rightarrow> fiat_step \<Rightarrow> dbase \<Rightarrow> dbase" where
  "fiat_do E (Session who now jurisdiction) db = snd (kyc_session db who now jurisdiction)"
| "fiat_do E (Webhook now body signature) db = snd (moonpay_webhook E db now body signature)"

definition fiat_run :: "fiat_env \<Rightarrow> fiat_step list \<Rightarrow> dbase \<Rightarrow> dbase" where
  "fiat_run E steps db = fold (fiat_do E) steps db"

text \<open>What an address can do to its own record: nothing but declare a jurisdiction, once.\<close>

definition kyc_grows :: "kyc_record option \<Rightarrow> kyc_record option \<Rightarrow> bool" where
  "kyc_grows old new =
     (case (old, new) of
        (None, None) \<Rightarrow> True
      | (None, Some r) \<Rightarrow> k_status r = ''pending''
      | (Some r, Some r') \<Rightarrow> k_status r' = k_status r \<and>
          (k_jurisdiction r \<noteq> [] \<longrightarrow> py_upper (k_jurisdiction r') = py_upper (k_jurisdiction r))
      | (Some r, None) \<Rightarrow> False)"

lemma upper_letters [simp]: "two_letters s \<Longrightarrow> py_upper s = s"
  by (auto simp: two_letters_def py_upper_def upper_char_def list_all_iff Let_def intro!: map_idI)

lemma kyc_grows_refl [simp]: "kyc_grows r r"
  by (simp add: kyc_grows_def split: option.split)

lemma kyc_grows_trans: "kyc_grows a b \<Longrightarrow> kyc_grows b c \<Longrightarrow> kyc_grows a c"
  by (auto simp: kyc_grows_def py_upper_def split: option.splits)

lemma kyc_session_grows: "kyc_grows (get_kyc addr db) (get_kyc addr (snd (kyc_session db who now jurisdiction)))"
proof -
  have "kyc_grows (get_kyc addr db) (get_kyc addr (snd (kyc_session db (Inr u) now jurisdiction)))" if "two_letters jurisdiction" for u
    using that
    by (auto simp: kyc_session_def Let_def get_row_put_row get_row_append kyc_grows_def split: option.splits dest: get_row_Some)
  then show ?thesis by (cases who) (auto simp: kyc_session_def)
qed

lemma webhook_kyc [simp]: "d_kyc (snd (moonpay_webhook E db now body signature)) = d_kyc db"
  by (auto simp: moonpay_webhook_def upsert_ramp_def split: sum.splits option.splits)

lemma fiat_do_grows: "kyc_grows (get_kyc addr db) (get_kyc addr (fiat_do E s db))"
  by (cases s) (simp_all add: kyc_session_grows)

text \<open>
  C27 (kyc_is_never_self_granted). No sequence of KYC and ramp requests changes the status of a KYC record: the
  records it creates are pending, and a jurisdiction that was declared stays the same, so a user can neither
  pass the gate by their own requests nor leave a restricted jurisdiction.
\<close>

theorem kyc_is_never_self_granted:
  "kyc_grows (get_kyc addr db) (get_kyc addr (fiat_run E steps db))"
  unfolding fiat_run_def
proof (induction steps arbitrary: db)
  case (Cons s steps)
  show ?case using kyc_grows_trans [OF fiat_do_grows Cons.IH] by simp
qed simp

section \<open>The gate decides\<close>

text \<open>
  \<open>POST /kyc/check\<close> answers that an amount is allowed exactly when the gate
  lets a session of that amount through at the same moment.
\<close>

theorem kyc_check_agrees_with_gate:
  assumes "0 < amount"
  shows "(\<exists>r. kyc_check E db (Inr u) now amount = Inr r \<and> kc_allowed r) \<longleftrightarrow> enforce_kyc_gate E db now amount u = Inr ()"
  using assms
  by (cases "daily_volume E db (u_address u) now"; cases "get_kyc (u_address u) db")
     (auto simp: kyc_check_def enforce_kyc_gate_def Let_def)


definition ex_fiat :: fiat_env where
  "ex_fiat = \<lparr> fe_settings = default_settings\<lparr>s_moonpay_api_key := ''k'', s_moonpay_secret := ''s'', s_kyc_restricted_jurisdictions := ''us, KP''\<rparr>,
     fe_float = (\<lambda>t. if t = ''100'' then Some 100 else None), fe_decimal = (\<lambda>t. if t = ''100'' then Some (Finite 100) else None),
     fe_plain = (\<lambda>_. ''100''), fe_urlencode = (\<lambda>_. ''q''), fe_hmac = (\<lambda>_ _. ''h''), fe_loads = (\<lambda>_. None), fe_str = (\<lambda>_. []) \<rparr>"

definition ex_ramped :: dbase where
  "ex_ramped = empty_db\<lparr>d_ramps := [\<lparr> rt_id = 1, rt_address = ''0xv'', rt_amount = ''100'', rt_provider_id = ''p'', rt_status = ''completed'',
     rt_created_at = 0 \<rparr>], d_kyc := [\<lparr> k_address = ''0xv'', k_status = ''pending'', k_jurisdiction = ''FR'', k_updated_at = 0 \<rparr>]\<rparr>"

theorem kyc_check_agrees_with_gate_witness:
  "enforce_kyc_gate ex_fiat ex_ramped 5 500 ex_voter \<noteq> Inr () \<and>
   \<not> (\<exists>r. kyc_check ex_fiat ex_ramped (Inr ex_voter) 5 500 = Inr r \<and> kc_allowed r)"
proof -
  have gate: "enforce_kyc_gate ex_fiat ex_ramped 5 500 ex_voter \<noteq> Inr ()" by code_simp
  have "0 < (500 :: rat)" by simp
  from kyc_check_agrees_with_gate [OF this, of ex_fiat ex_ramped ex_voter 5] gate show ?thesis by blast
qed


section \<open>Webhooks\<close>

text \<open>A delivered webhook that is delivered again changes nothing.\<close>

lemma put_row_put: "key r = key r' \<Longrightarrow> put_row key r (put_row key r' rows) = put_row key r rows"
  by (auto simp: put_row_def update_where_def)

lemma put_row_absent: "get_row key (key r) rows = None \<Longrightarrow> put_row key r rows = rows"
  by (induction rows) (auto simp: put_row_def update_where_def split: if_splits)

lemma upsert_ramp_again:
  "upsert_ramp (upsert_ramp db now i addr amount stat) now' i addr amount stat = upsert_ramp db now i addr amount stat"
proof (cases "get_row rt_provider_id i (d_ramps db)")
  case None
  let ?r = "\<lparr> rt_id = d_next_ramp db, rt_address = addr, rt_amount = amount, rt_provider_id = i, rt_status = stat, rt_created_at = now \<rparr>"
  have "put_row rt_provider_id ?r (d_ramps db @ [?r]) = d_ramps db @ [?r]"
    using put_row_absent [of rt_provider_id ?r "d_ramps db"] None by (simp add: put_row_def update_where_def)
  with None show ?thesis by (simp add: upsert_ramp_def get_row_append)
next
  case (Some t)
  then have "rt_provider_id t = i" by (auto dest: get_row_Some)
  with Some show ?thesis by (simp add: upsert_ramp_def get_row_put_row put_row_put)
qed

text \<open>
  Delivering a webhook twice is the same as delivering it once, at whatever
  later time the second delivery comes.
\<close>

theorem webhook_replay_is_idempotent:
  "snd (moonpay_webhook E (snd (moonpay_webhook E db now body signature)) now' body signature) =
   snd (moonpay_webhook E db now body signature)"
  by (auto simp: moonpay_webhook_def upsert_ramp_again split: sum.splits)

end
