(* ===== verification/Tick_Job.thy ===== *)
theory Tick_Job
  imports Consensus
begin

text \<open>
  One tick of the oracle job: the single-flight lease (\<open>oracles/tick_lease.py\<close>), the stages under the time
  budget and the exit code (\<open>oracles/job.py\<close>), and the wait for a canonical receipt that every send ends with
  (\<open>oracles/chain_tx.py\<close>, the same code as \<open>backend/app/chain_tx.py\<close>).
\<close>

section \<open>Canonical receipts\<close>

text \<open>A hash as a JSON-RPC client may give it.\<close>

datatype hash_value = No_Hash | Hash_Text string | Hash_Bytes string

definition hash_bytes :: "hash_value \<Rightarrow> string" where
  "hash_bytes v =
     (case v of
        No_Hash \<Rightarrow> []
      | Hash_Text t \<Rightarrow>
          (case from_hex (if take 2 t \<in> {''0x'', ''0X''} then drop 2 t else t) of None \<Rightarrow> [] | Some bytes \<Rightarrow> bytes)
      | Hash_Bytes bytes \<Rightarrow> bytes)"

definition ZERO_BLOCK_HASH :: string where "ZERO_BLOCK_HASH = replicate 32 (CHR 0x00)"

record block_receipt =
  br_block_hash :: hash_value
  br_block_number :: "int option"
  br_status :: int

definition is_preconfirmation :: "block_receipt \<Rightarrow> bool" where
  "is_preconfirmation r =
     (length (hash_bytes (br_block_hash r)) \<noteq> 32 \<or> hash_bytes (br_block_hash r) = ZERO_BLOCK_HASH \<or> br_block_number r = None)"

text \<open>
  The node: the first receipt web3 waits for, then at every poll the receipt (\<open>None\<close> when the transaction is
  not found) and the hash of a block (\<open>None\<close> when there is none); an exception is on the left. \<open>delay\<close> is the
  time a poll takes beyond its sleep.
\<close>

record receipt_env =
  rc_first :: "string + block_receipt"
  rc_receipt :: "nat \<Rightarrow> string + block_receipt option"
  rc_block :: "int \<Rightarrow> nat \<Rightarrow> string + hash_value option"
  rc_delay :: "nat \<Rightarrow> rat"

definition is_canonical :: "receipt_env \<Rightarrow> block_receipt option \<Rightarrow> nat \<Rightarrow> string + bool" where
  "is_canonical E receipt n =
     (case receipt of
        None \<Rightarrow> Inr False
      | Some r \<Rightarrow>
          if is_preconfirmation r then Inr False
          else (case rc_block E (the (br_block_number r)) n of
              Inl err \<Rightarrow> Inl err
            | Inr None \<Rightarrow> Inr False
            | Inr (Some h) \<Rightarrow> Inr (hash_bytes h = hash_bytes (br_block_hash r))))"

definition TIMED_OUT :: string where "TIMED_OUT = ''transaction receipt not in a canonical block''"

text \<open>The loop, from poll \<open>n\<close> at time \<open>now\<close>; a loop that never ended would be \<open>None\<close>.\<close>

partial_function (option) poll_canonical ::
  "receipt_env \<Rightarrow> rat \<Rightarrow> rat \<Rightarrow> block_receipt option \<Rightarrow> rat \<Rightarrow> nat \<Rightarrow> (string + block_receipt) option" where
  [code]: "poll_canonical E poll deadline receipt now n =
     (case is_canonical E receipt n of
        Inl err \<Rightarrow> Some (Inl err)
      | Inr found \<Rightarrow>
          if found then Some (Inr (the receipt))
          else if deadline - now \<le> 0 then Some (Inl TIMED_OUT)
          else (case rc_receipt E n of
              Inl err \<Rightarrow> Some (Inl err)
            | Inr receipt' \<Rightarrow>
                poll_canonical E poll deadline receipt' (now + min poll (deadline - now) + rc_delay E n) (Suc n)))"

definition POLL_SECONDS :: rat where "POLL_SECONDS = 1 / 4"

definition wait_canonical_receipt :: "receipt_env \<Rightarrow> rat \<Rightarrow> rat \<Rightarrow> rat \<Rightarrow> (string + block_receipt) option" where
  "wait_canonical_receipt E timeout poll start =
     (let deadline = start + timeout in
      case rc_first E of
        Inl err \<Rightarrow> Some (Inl err)
      | Inr r \<Rightarrow> poll_canonical E poll deadline (Some r) (start + rc_delay E 0) 1)"

section \<open>The lease\<close>

record execution =
  xc_name :: string
  xc_created :: "rat option"
  xc_completed :: bool

definition older_running :: "execution list \<Rightarrow> execution \<Rightarrow> string list" where
  "older_running executions mine =
     map xc_name (filter (\<lambda>x. \<not> (xc_name x = xc_name mine \<or> xc_completed x) \<and>
       (case (xc_created x, xc_created mine) of (Some t, Some u) \<Rightarrow> t < u | _ \<Rightarrow> False)) executions)"

definition MAX_PAGES :: nat where "MAX_PAGES = 10"

text \<open>At most \<open>MAX_PAGES\<close> pages; a page is its executions and the token of the next one.\<close>

fun list_executions :: "nat \<Rightarrow> (string \<Rightarrow> string + execution list \<times> string) \<Rightarrow> string \<Rightarrow> string + execution list" where
  "list_executions 0 get page = Inr []"
| "list_executions (Suc k) get page =
     (case get page of
        Inl err \<Rightarrow> Inl err
      | Inr (xs, token) \<Rightarrow>
          if token = [] then Inr xs
          else (case list_executions k get token of Inl err \<Rightarrow> Inl err | Inr ys \<Rightarrow> Inr (xs @ ys)))"

text \<open>Whether the tick may run, and who holds the lease; the own execution is read first.\<close>

definition cloud_run_lease ::
  "bool \<Rightarrow> (string + execution) \<Rightarrow> (string \<Rightarrow> string + execution list \<times> string) \<Rightarrow> string + bool \<times> string list" where
  "cloud_run_lease enabled mine get =
     (if \<not> enabled then Inr (True, [])
      else case mine of
        Inl err \<Rightarrow> Inl err
      | Inr me \<Rightarrow>
          (case list_executions MAX_PAGES get [] of
             Inl err \<Rightarrow> Inl err
           | Inr executions \<Rightarrow> let holders = older_running executions me in Inr (holders = [], holders)))"

section \<open>Stages\<close>

datatype stage = Scores | Resolve_Sports | Resolve_General | Schedule_Games | List_Markets

definition STAGES :: "stage list" where
  "STAGES = [Scores, Resolve_Sports, Resolve_General, Schedule_Games, List_Markets]"

definition AUTH_STAGES :: "stage set" where "AUTH_STAGES = {Scores, Schedule_Games, List_Markets}"
definition CRITICAL_STAGES :: "stage set" where "CRITICAL_STAGES = {Resolve_Sports, List_Markets}"
definition MAX_RESERVE_FRACTION :: rat where "MAX_RESERVE_FRACTION = 1 / 4"

text \<open>A stage's summary: \<open>ok\<close> (when it has one), the skip, an error, the deferred results and entries.\<close>

record stage_out =
  so_ok :: "bool option"
  so_skipped :: string
  so_error :: string
  so_deferred_results :: nat
  so_deferred_entries :: nat
  so_deferred :: bool

definition stage_skip :: "bool \<Rightarrow> string \<Rightarrow> bool \<Rightarrow> stage_out" where
  "stage_skip fine why deferred = \<lparr> so_ok = Some fine, so_skipped = why, so_error = [], so_deferred_results = 0,
     so_deferred_entries = 0, so_deferred = deferred \<rparr>"

definition stage_error :: "string \<Rightarrow> stage_out" where
  "stage_error text = \<lparr> so_ok = Some False, so_skipped = [], so_error = text, so_deferred_results = 0,
     so_deferred_entries = 0, so_deferred = False \<rparr>"

text \<open>
  The world of a tick: the clock, the environment variables (a bad one raises), the lease, the preflight and
  the stage runners, which get the budget they run under. \<open>None\<close> is a guard that is not configured.
\<close>

record job_env =
  jb_mono :: "nat \<Rightarrow> rat"
  jb_budget_seconds :: rat
  jb_share :: "stage \<Rightarrow> string + rat"
  jb_reserve_seconds :: "string + rat"
  jb_lease :: "(string + bool \<times> string list) option"
  jb_preflight :: "(string + bool) option"
  jb_runner :: "stage \<Rightarrow> tick_budget \<Rightarrow> nat \<Rightarrow> string + stage_out"

text \<open>A run counts its clock reads and stage calls.\<close>

type_synonym 'a jobrun = "(nat, 'a) state"

definition job_clock :: "job_env \<Rightarrow> rat jobrun" where
  "job_clock E = State (\<lambda>n. (jb_mono E n, Suc n))"

definition reserve :: "job_env \<Rightarrow> tick_budget \<Rightarrow> string + rat" where
  "reserve E b =
     (case jb_reserve_seconds E of
        Inl err \<Rightarrow> Inl err
      | Inr v \<Rightarrow> Inr (if tb_deadline b = None \<or> tb_total b = 0 then v else min v (tb_total b * MAX_RESERVE_FRACTION)))"

definition run_stage :: "job_env \<Rightarrow> tick_budget \<Rightarrow> stage \<Rightarrow> stage_out jobrun" where
  "run_stage E b name =
     (case (if name = List_Markets then Inr 0 else reserve E b) of
        Inl err \<Rightarrow> State_Monad.return (stage_error err)
      | Inr kept \<Rightarrow>
          (case jb_share E name of
             Inl err \<Rightarrow> State_Monad.return (stage_error err)
           | Inr share \<Rightarrow>
               State_Monad.bind (job_clock E) (\<lambda>now.
               State (\<lambda>n. (case jb_runner E name (budget_stage share kept now b) n of
                  Inl err \<Rightarrow> stage_error err | Inr out \<Rightarrow> out, Suc n)))))"

definition stage_starved :: "job_env \<Rightarrow> tick_budget \<Rightarrow> stage \<Rightarrow> bool jobrun" where
  "stage_starved E b name =
     State_Monad.bind (job_clock E) (\<lambda>t1.
     if total_exhausted b t1 then State_Monad.return True
     else State_Monad.bind (job_clock E) (\<lambda>t2.
       State_Monad.return (case total_left b t2 of
           None \<Rightarrow> False
         | Some left \<Rightarrow>
             if name = List_Markets then False
             else (case reserve E b of Inl err \<Rightarrow> False | Inr kept \<Rightarrow> left \<le> kept))))"

definition stage_step :: "job_env \<Rightarrow> tick_budget \<Rightarrow> bool \<Rightarrow> stage \<Rightarrow> stage_out jobrun" where
  "stage_step E b auth_ok name =
     (if name \<in> AUTH_STAGES \<and> \<not> auth_ok then State_Monad.return (stage_skip False ''preflight'' False)
      else State_Monad.bind (stage_starved E b name) (\<lambda>starved.
        if starved then State_Monad.return
          (if name \<in> CRITICAL_STAGES then stage_skip False ''budget'' False else stage_skip True ''budget'' True)
        else run_stage E b name))"

fun run_stages :: "job_env \<Rightarrow> tick_budget \<Rightarrow> bool \<Rightarrow> stage list \<Rightarrow> (stage \<times> stage_out) list jobrun" where
  "run_stages E b auth_ok [] = State_Monad.return []"
| "run_stages E b auth_ok (name # names) =
     State_Monad.bind (stage_step E b auth_ok name) (\<lambda>out.
     State_Monad.bind (run_stages E b auth_ok names) (\<lambda>outs. State_Monad.return ((name, out) # outs)))"

text \<open>\<open>deferred_counts\<close>\<close>

definition deferred_count :: "stage_out \<Rightarrow> nat" where
  "deferred_count out = (if so_skipped out = ''budget'' then 1 else so_deferred_results out + so_deferred_entries out)"

definition deferred_counts :: "(stage \<times> stage_out) list \<Rightarrow> (stage \<times> nat) list" where
  "deferred_counts outs = filter (\<lambda>(name, k). k \<noteq> 0) (map (\<lambda>(name, out). (name, deferred_count out)) outs)"

record tick_summary =
  ts_skipped :: bool
  ts_preflight :: "bool option"
  ts_stages :: "(stage \<times> stage_out) list"
  ts_deferred :: "(stage \<times> nat) list"

text \<open>A lease check that raises is taken as acquired; a preflight that raises has failed.\<close>

definition run_tick :: "job_env \<Rightarrow> tick_summary jobrun" where
  "run_tick E =
     (let held = (case jb_lease E of None \<Rightarrow> True | Some (Inl err) \<Rightarrow> True | Some (Inr (acquired, holders)) \<Rightarrow> acquired) in
      if \<not> held
      then State_Monad.return \<lparr> ts_skipped = True, ts_preflight = None, ts_stages = [], ts_deferred = [] \<rparr>
      else State_Monad.bind (job_clock E) (\<lambda>now.
        let b = start_budget (jb_budget_seconds E) now;
            preflight = map_option (\<lambda>r. case r of Inl err \<Rightarrow> False | Inr fine \<Rightarrow> fine) (jb_preflight E) in
        State_Monad.bind (run_stages E b (preflight \<noteq> Some False) STAGES) (\<lambda>outs.
        State_Monad.return \<lparr> ts_skipped = False, ts_preflight = preflight, ts_stages = outs, ts_deferred = deferred_counts outs \<rparr>)))"

definition exit_code :: "tick_summary \<Rightarrow> int" where
  "exit_code s =
     (if ts_preflight s = Some False \<or> list_ex (\<lambda>(name, out). so_ok out = Some False) (ts_stages s) then 1 else 0)"

section \<open>The wait ends\<close>

lemma is_canonical_some: "is_canonical E receipt n = Inr True \<Longrightarrow> is_canonical E (Some (the receipt)) n = Inr True"
  by (cases receipt) (auto simp: is_canonical_def)

lemma poll_canonical_ends:
  assumes "0 < poll" and "\<And>n. 0 \<le> rc_delay E n" and "deadline - now \<le> of_nat k * poll"
  shows "\<exists>r. poll_canonical E poll deadline receipt now n = Some r \<and>
    (\<forall>x. r = Inr x \<longrightarrow> (\<exists>n. is_canonical E (Some x) n = Inr True))"
  using assms(3)
proof (induction k arbitrary: receipt now n)
  case 0
  then show ?case
    by (subst poll_canonical.simps) (auto split: sum.splits dest: is_canonical_some)
next
  case (Suc k)
  have "deadline - (now + min poll (deadline - now) + rc_delay E n) \<le> of_nat k * poll"
  proof (cases "deadline - now \<le> poll")
    case True
    have "0 \<le> of_nat k * poll" using assms(1) by simp
    with True assms(2) [of n] show ?thesis by simp
  next
    case False
    with Suc.prems assms(2) [of n] show ?thesis by (simp add: algebra_simps)
  qed
  note rest = Suc.IH [OF this, of _ "Suc n"]
  show ?case
    using rest by (subst poll_canonical.simps) (auto split: sum.splits dest: is_canonical_some)
qed

text \<open>
  C37 (canonical_wait_ends). Whatever the node answers, the wait for a receipt returns after finitely many polls,
  and a receipt it returns is in the block that the node named, at that moment, as the one at its height:
  never a pre-confirmation.
\<close>

theorem canonical_wait_ends:
  assumes "0 < poll" and "\<And>n. 0 \<le> rc_delay E n"
  shows "\<exists>r. wait_canonical_receipt E timeout poll start = Some r \<and>
    (\<forall>x. r = Inr x \<longrightarrow> (\<exists>n. is_canonical E (Some x) n = Inr True))"
proof -
  obtain k where "(timeout - rc_delay E 0) / poll \<le> of_nat k" using real_arch_simple by blast
  then have "start + timeout - (start + rc_delay E 0) \<le> of_nat k * poll"
    using assms(1) by (simp add: field_simps)
  from poll_canonical_ends [OF assms this] show ?thesis
    by (auto simp: wait_canonical_receipt_def Let_def split: sum.splits)
qed

text \<open>A pre-confirmation first, then the transaction is not found, then a receipt in the block of its height.\<close>

definition ex_receipt :: "string \<Rightarrow> block_receipt" where
  "ex_receipt h = \<lparr> br_block_hash = Hash_Bytes h, br_block_number = Some 7, br_status = 1 \<rparr>"

definition ex_receipts :: receipt_env where
  "ex_receipts = \<lparr> rc_first = Inr (ex_receipt ZERO_BLOCK_HASH),
     rc_receipt = (\<lambda>n. Inr (if n < 2 then None else Some (ex_receipt (replicate 32 (CHR 0x01))))),
     rc_block = (\<lambda>b n. Inr (Some (Hash_Bytes (replicate 32 (CHR 0x01))))), rc_delay = (\<lambda>_. 0) \<rparr>"

theorem canonical_wait_ends_witness:
  "wait_canonical_receipt ex_receipts 60 POLL_SECONDS 0 = Some (Inr (ex_receipt (replicate 32 (CHR 0x01)))) \<and>
   (\<exists>n. is_canonical ex_receipts (Some (ex_receipt (replicate 32 (CHR 0x01)))) n = Inr True)"
proof -
  have eval: "wait_canonical_receipt ex_receipts 60 POLL_SECONDS 0 = Some (Inr (ex_receipt (replicate 32 (CHR 0x01))))"
    by code_simp
  have "0 < POLL_SECONDS" "\<And>n. 0 \<le> rc_delay ex_receipts n" by (simp_all add: POLL_SECONDS_def ex_receipts_def)
  from canonical_wait_ends [OF this, of 60 0] eval show ?thesis by simp
qed

section \<open>The lease is exclusive\<close>

text \<open>
  C32 (lease_is_exclusive). Two executions of the job that see each other running both get the lease only when
  they were created at the same instant: of two that overlap, the younger one does not run its tick.
\<close>

theorem lease_is_exclusive:
  assumes "cloud_run_lease True (Inr a) geta = Inr (True, holders)" and "cloud_run_lease True (Inr b) getb = Inr (True, holders')"
    and "list_executions MAX_PAGES geta [] = Inr xs" and "b \<in> set xs" and "list_executions MAX_PAGES getb [] = Inr ys" and "a \<in> set ys"
    and "\<not> xc_completed a" and "\<not> xc_completed b" and "xc_name a \<noteq> xc_name b"
    and "xc_created a = Some t" and "xc_created b = Some u"
  shows "t = u"
proof -
  have "older_running xs a = []" "older_running ys b = []"
    using assms(1-3,5) by (auto simp: cloud_run_lease_def Let_def)
  then have "\<not> u < t" "\<not> t < u"
    using assms(4,6-11) by (auto simp: older_running_def filter_empty_conv)
  then show ?thesis by simp
qed

definition ex_exec :: "string \<Rightarrow> rat \<Rightarrow> execution" where
  "ex_exec name t = \<lparr> xc_name = name, xc_created = Some t, xc_completed = False \<rparr>"

definition ex_page :: "string \<Rightarrow> string + execution list \<times> string" where
  "ex_page token = Inr ([ex_exec ''a'' 1, ex_exec ''b'' 2], [])"

theorem lease_is_exclusive_witness:
  "cloud_run_lease True (Inr (ex_exec ''a'' 1)) ex_page = Inr (True, []) \<and>
   \<not> (\<exists>holders'. cloud_run_lease True (Inr (ex_exec ''b'' 2)) ex_page = Inr (True, holders'))"
proof -
  have a: "cloud_run_lease True (Inr (ex_exec ''a'' 1)) ex_page = Inr (True, [])" by code_simp
  have page: "list_executions MAX_PAGES ex_page [] = Inr [ex_exec ''a'' 1, ex_exec ''b'' 2]" by code_simp
  have "(1 :: rat) = 2" if "cloud_run_lease True (Inr (ex_exec ''b'' 2)) ex_page = Inr (True, h)" for h
    by (rule lease_is_exclusive [OF a that page _ page]) (simp_all add: ex_exec_def)
  with a show ?thesis by auto
qed

section \<open>Stages\<close>

text \<open>What a stage's summary can be.\<close>

definition stage_ran :: "job_env \<Rightarrow> tick_budget \<Rightarrow> stage \<Rightarrow> stage_out \<Rightarrow> bool" where
  "stage_ran E b name out = (\<exists>share kept now k. jb_runner E name (budget_stage share kept now b) k = Inr out \<and>
     (name \<noteq> List_Markets \<longrightarrow> reserve E b = Inr kept))"

lemma run_stage_out:
  "run_state (run_stage E b name) n = (out, n') \<Longrightarrow> (\<exists>err. out = stage_error err) \<or> stage_ran E b name out"
  by (auto simp: run_stage_def job_clock_def stage_ran_def split: sum.splits if_splits)

lemma stage_step_out:
  assumes "run_state (stage_step E b auth_ok name) n = (out, n')"
  shows "(\<exists>err. out = stage_error err) \<or> (\<exists>why deferred. out = stage_skip False why deferred) \<or>
    (name \<notin> CRITICAL_STAGES \<and> out = stage_skip True ''budget'' True) \<or> stage_ran E b name out"
proof (cases "name \<in> AUTH_STAGES \<and> \<not> auth_ok")
  case False
  obtain starved m where m: "run_state (stage_starved E b name) n = (starved, m)" by (metis prod.exhaust)
  show ?thesis
    using assms False m run_stage_out [of E b name m out n'] by (cases starved) (auto simp: stage_step_def split: if_splits)
qed (use assms in \<open>auto simp: stage_step_def\<close>)

lemma run_stages_out:
  assumes "run_state (run_stages E b auth_ok names) n = (outs, n')"
  shows "map fst outs = names \<and> (\<forall>name out. (name, out) \<in> set outs \<longrightarrow> (\<exists>m m'. run_state (stage_step E b auth_ok name) m = (out, m')))"
  using assms
proof (induction names arbitrary: n n' outs)
  case (Cons name names)
  obtain out m where m: "run_state (stage_step E b auth_ok name) n = (out, m)" by (metis prod.exhaust)
  obtain rest m' where r: "run_state (run_stages E b auth_ok names) m = (rest, m')" by (metis prod.exhaust)
  have "outs = (name, out) # rest" using Cons.prems m r by auto
  with Cons.IH [OF r] m show ?case by auto
qed simp

lemma run_tick_stages:
  assumes "run_state (run_tick E) n = (s, n')" and "\<not> ts_skipped s"
  shows "\<exists>now auth_ok m. run_state (run_stages E (start_budget (jb_budget_seconds E) now) auth_ok STAGES) m = (ts_stages s, n')"
proof -
  obtain outs k where r: "run_state (run_stages E (start_budget (jb_budget_seconds E) (jb_mono E n))
      (map_option (\<lambda>r. case r of Inl err \<Rightarrow> False | Inr fine \<Rightarrow> fine) (jb_preflight E) \<noteq> Some False) STAGES) (Suc n) = (outs, k)"
    by (metis prod.exhaust)
  have "s = \<lparr> ts_skipped = False, ts_preflight = map_option (\<lambda>r. case r of Inl err \<Rightarrow> False | Inr fine \<Rightarrow> fine) (jb_preflight E),
      ts_stages = outs, ts_deferred = deferred_counts outs \<rparr>" "n' = k"
    using assms r by (auto simp: run_tick_def Let_def job_clock_def split: if_splits)
  with r show ?thesis by auto
qed

text \<open>
  C31 (clean_exit_means_stages_ran). When a tick that holds the lease exits with 0, every stage is in the summary
  in the order of the code, and each one is what its runner returned, except that scores, general resolution and
  the schedule may have been left out for the budget; a resolution or listing stage that was skipped or raised,
  and a failed preflight, always show in the exit code.
\<close>

theorem clean_exit_means_stages_ran:
  assumes "run_state (run_tick E) n = (s, n')" and "exit_code s = 0" and "\<not> ts_skipped s"
  shows "map fst (ts_stages s) = STAGES \<and> ts_preflight s \<noteq> Some False \<and>
    (\<forall>(name, out) \<in> set (ts_stages s). (\<exists>b k. jb_runner E name b k = Inr out) \<or>
       (name \<notin> CRITICAL_STAGES \<and> out = stage_skip True ''budget'' True))"
proof -
  obtain now auth_ok m where r: "run_state (run_stages E (start_budget (jb_budget_seconds E) now) auth_ok STAGES) m = (ts_stages s, n')"
    using run_tick_stages [OF assms(1,3)] by blast
  have fine: "ts_preflight s \<noteq> Some False" "\<And>name out. (name, out) \<in> set (ts_stages s) \<Longrightarrow> so_ok out \<noteq> Some False"
    using assms(2) by (auto simp: exit_code_def list_ex_iff split: if_splits)
  have "(\<exists>b k. jb_runner E name b k = Inr out) \<or> (name \<notin> CRITICAL_STAGES \<and> out = stage_skip True ''budget'' True)"
    if mem: "(name, out) \<in> set (ts_stages s)" for name out
  proof -
    obtain k k' where "run_state (stage_step E (start_budget (jb_budget_seconds E) now) auth_ok name) k = (out, k')"
      using run_stages_out [OF r] mem by blast
    from stage_step_out [OF this] fine(2) [OF mem] show ?thesis
      by (auto simp: stage_error_def stage_skip_def stage_ran_def)
  qed
  then show ?thesis using run_stages_out [OF r] fine(1) by auto
qed

lemma budget_stage_frame [simp]:
  "tb_deadline (budget_stage share kept t b) = tb_deadline b" "tb_total (budget_stage share kept t b) = tb_total b"
  "reserve E (budget_stage share kept t b) = reserve E b"
  by (cases "tb_deadline b"; cases "jb_reserve_seconds E"; simp add: budget_stage_def reserve_def)+

lemma stage_deadline:
  "tb_deadline b = Some d \<Longrightarrow> \<exists>deadline. effective_deadline (budget_stage share kept t b) = Some deadline \<and> deadline \<le> d - kept"
  by (auto simp: budget_stage_def effective_deadline_def min_def max_def)

text \<open>
  Under a tick budget, every stage before the listing runs with a deadline that
  leaves the listing's reserve of seconds before the end of the tick.
\<close>

theorem listing_keeps_its_reserve:
  assumes "run_state (run_tick E) n = (s, n')" and "\<not> ts_skipped s" and "(name, out) \<in> set (ts_stages s)" and "name \<noteq> List_Markets"
    and "so_ok out \<noteq> Some False" and "so_skipped out = []" and "0 < jb_budget_seconds E"
  shows "\<exists>b k d kept. jb_runner E name b k = Inr out \<and> tb_deadline b = Some d \<and> reserve E b = Inr kept \<and>
    (\<exists>deadline. effective_deadline b = Some deadline \<and> deadline \<le> d - kept)"
proof -
  obtain now auth_ok m where r: "run_state (run_stages E (start_budget (jb_budget_seconds E) now) auth_ok STAGES) m = (ts_stages s, n')"
    using run_tick_stages [OF assms(1,2)] by blast
  obtain k k' where step: "run_state (stage_step E (start_budget (jb_budget_seconds E) now) auth_ok name) k = (out, k')"
    using run_stages_out [OF r] assms(3) by blast
  have "stage_ran E (start_budget (jb_budget_seconds E) now) name out"
    using stage_step_out [OF step] assms(5,6) by (auto simp: stage_error_def stage_skip_def)
  then obtain share kept t i where ran: "jb_runner E name (budget_stage share kept t (start_budget (jb_budget_seconds E) now)) i = Inr out"
    "reserve E (start_budget (jb_budget_seconds E) now) = Inr kept"
    using assms(4) unfolding stage_ran_def by blast
  show ?thesis
    by (rule exI [of _ "budget_stage share kept t (start_budget (jb_budget_seconds E) now)"], rule exI [of _ i],
        rule exI [of _ "now + jb_budget_seconds E"], rule exI [of _ kept])
       (use ran assms(7) stage_deadline [of "start_budget (jb_budget_seconds E) now" "now + jb_budget_seconds E" share kept t] in
         \<open>simp add: start_budget_def\<close>)
qed

text \<open>A tick with a budget of 780 seconds whose stages all run, the listing keeping 120 of them.\<close>

definition ex_out :: stage_out where
  "ex_out = \<lparr> so_ok = Some True, so_skipped = [], so_error = [], so_deferred_results = 0, so_deferred_entries = 0, so_deferred = False \<rparr>"

definition ex_executions :: job_env where
  "ex_executions = \<lparr> jb_mono = (\<lambda>n. of_nat n), jb_budget_seconds = 780, jb_share = (\<lambda>_. Inr 1), jb_reserve_seconds = Inr 120,
     jb_lease = Some (Inl ''e''), jb_preflight = Some (Inr True), jb_runner = (\<lambda>_ _ _. Inr ex_out) \<rparr>"

lemma ex_job_tick:
  "exit_code (fst (run_state (run_tick ex_executions) 0)) = 0" "\<not> ts_skipped (fst (run_state (run_tick ex_executions) 0))"
  "ts_stages (fst (run_state (run_tick ex_executions) 0)) = map (\<lambda>name. (name, ex_out)) STAGES"
  by code_simp+

theorem clean_exit_means_stages_ran_witness:
  "map fst (ts_stages (fst (run_state (run_tick ex_executions) 0))) = STAGES \<and> exit_code (fst (run_state (run_tick ex_executions) 0)) = 0"
  using clean_exit_means_stages_ran [OF prod.collapse [symmetric] ex_job_tick(1,2)] ex_job_tick(1) by blast

theorem listing_keeps_its_reserve_witness:
  "\<exists>b k d kept. jb_runner ex_executions Scores b k = Inr ex_out \<and> tb_deadline b = Some d \<and> reserve ex_executions b = Inr kept \<and>
    (\<exists>deadline. effective_deadline b = Some deadline \<and> deadline \<le> d - kept)"
proof (rule listing_keeps_its_reserve [OF prod.collapse [symmetric] ex_job_tick(2)])
  show "(Scores, ex_out) \<in> set (ts_stages (fst (run_state (run_tick ex_executions) 0)))"
    by (simp add: ex_job_tick(3) STAGES_def)
qed (simp_all add: ex_out_def ex_executions_def)

end
