(* ===== verification/Agents.thy ===== *)
theory Agents
  imports Consensus Json
begin

text \<open>
  What the research agents make of their input and of a language model's answer
  (\<open>oracles/agents/cursor_runtime.py\<close>, \<open>base.py\<close>, \<open>alpha.py\<close>, \<open>beta.py\<close>, \<open>gamma.py\<close>): untrusted text is cleaned
  before it enters a prompt, and the model's JSON is accepted only when it is unambiguous. The model itself is
  an arbitrary JSON object. Text is ASCII here, so a limit in bytes is one in characters; \<open>text_of\<close> is \<open>str\<close> on
  the JSON values that are no strings.
\<close>

section \<open>Cleaning untrusted text\<close>

definition FENCE_TOKENS :: "string list" where "FENCE_TOKENS = [''<<<'', ''>>>'', [CHR 0x22]]"

text \<open>\<open>s.replace(token, "")\<close>, for a token that is not empty.\<close>

function remove_all :: "string \<Rightarrow> string \<Rightarrow> string" where
  "remove_all token s =
     (case s of
        [] \<Rightarrow> []
      | c # cs \<Rightarrow>
          if token \<noteq> [] \<and> startswith s token then remove_all token (drop (length token) s)
          else c # remove_all token cs)"
  by pat_completeness auto
termination by (relation "measure (\<lambda>(token, s). length s)") auto

declare remove_all.simps [simp del]

definition has_token :: "string \<Rightarrow> bool" where
  "has_token s = list_ex (\<lambda>token. substring_in token s) FENCE_TOKENS"

definition remove_tokens :: "string \<Rightarrow> string" where
  "remove_tokens s = fold remove_all FENCE_TOKENS s"

lemma length_remove_all: "length (remove_all token s) \<le> length s"
proof (induction token s rule: remove_all.induct)
  case (1 token s)
  then show ?case by (subst remove_all.simps) (auto split: list.split)
qed

lemma length_remove_found: "substring_in token s \<Longrightarrow> token \<noteq> [] \<Longrightarrow> length (remove_all token s) < length s"
proof (induction token s rule: remove_all.induct)
  case (1 token s)
  show ?case
  proof (cases s)
    case (Cons c cs)
    show ?thesis
    proof (cases "startswith s token")
      case True
      have "length (remove_all token s) \<le> length (drop (length token) s)"
        using True Cons 1(4) length_remove_all [of token "drop (length token) s"] by (subst remove_all.simps) simp
      also have "\<dots> < length s" using Cons 1(4) by simp
      finally show ?thesis .
    next
      case False
      then have "substring_in token cs" using 1(3) Cons by (simp add: startswith_def)
      then show ?thesis using 1(2) [OF Cons] False 1(4) Cons by (subst remove_all.simps) simp
    qed
  qed (use 1 in simp)
qed

lemma remove_all_same:
  "length (remove_all token s) = length s \<Longrightarrow> token \<noteq> [] \<Longrightarrow> remove_all token s = s"
proof (induction token s rule: remove_all.induct)
  case (1 token s)
  show ?case
  proof (cases s)
    case (Cons c cs)
    have "\<not> startswith s token"
    proof
      assume "startswith s token"
      then have "substring_in token s" using Cons by (simp add: startswith_def)
      from length_remove_found [OF this 1(4)] 1(3) show False by simp
    qed
    then have eq: "remove_all token s = c # remove_all token cs"
      using Cons by (subst remove_all.simps) simp
    then have "remove_all token cs = cs" using 1(2) [OF Cons] 1(3,4) Cons \<open>\<not> startswith s token\<close> by simp
    with eq Cons show ?thesis by simp
  qed (simp add: remove_all.simps)
qed

lemma length_fold_remove: "length (fold remove_all ts s) \<le> length s"
proof (induction ts arbitrary: s)
  case (Cons t ts)
  from Cons [of "remove_all t s"] length_remove_all [of t s] show ?case by simp
qed simp

lemma fold_remove_shrinks:
  "token \<in> set ts \<Longrightarrow> [] \<notin> set ts \<Longrightarrow> substring_in token s \<Longrightarrow> length (fold remove_all ts s) < length s"
proof (induction ts)
  case (Cons t ts)
  show ?case
  proof (cases "length (remove_all t s) < length s")
    case True
    then show ?thesis using length_fold_remove [of ts "remove_all t s"] by simp
  next
    case False
    then have "length (remove_all t s) = length s" using length_remove_all [of t s] by simp
    moreover from this have "t \<noteq> token" using length_remove_found [of t s] Cons.prems by auto
    ultimately show ?thesis using Cons remove_all_same [of t s] by auto
  qed
qed simp

lemma remove_tokens_shrinks: "has_token s \<Longrightarrow> length (remove_tokens s) < length s"
  unfolding has_token_def remove_tokens_def list_ex_iff
  by (elim bexE, rule fold_remove_shrinks) (auto simp: FENCE_TOKENS_def)

text \<open>Removing one token can splice a new one together, so it is repeated until none is left.\<close>

function strip_tokens :: "string \<Rightarrow> string" where
  "strip_tokens s = (if has_token s then strip_tokens (remove_tokens s) else s)"
  by pat_completeness auto
termination by (relation "measure length") (auto intro: remove_tokens_shrinks)

declare strip_tokens.simps [simp del]

definition is_control :: "char \<Rightarrow> bool" where
  "is_control c = (let n = (of_char c :: nat) in n \<le> 31 \<or> n = 127)"

definition blank_controls :: "string \<Rightarrow> string" where
  "blank_controls s = map (\<lambda>c. if is_control c then CHR '' '' else c) s"

fun split_lines :: "string \<Rightarrow> string list" where
  "split_lines [] = [[]]"
| "split_lines (c # cs) =
     (if c = CHR 0x0A then [] # split_lines cs
      else (case split_lines cs of [] \<Rightarrow> [[c]] | w # ws \<Rightarrow> (c # w) # ws))"

fun join_lines :: "string list \<Rightarrow> string" where
  "join_lines [] = []"
| "join_lines [w] = w"
| "join_lines (w # ws) = w @ CHR 0x0A # join_lines ws"

definition clean_line :: "string \<Rightarrow> string" where
  "clean_line s = join_words (blank_controls s)"

definition sanitize_untrusted :: "string \<Rightarrow> nat \<Rightarrow> bool \<Rightarrow> string" where
  "sanitize_untrusted text limit keep_newlines =
     (let cleaned = strip_tokens text;
          body = (if keep_newlines
            then join_lines (filter (\<lambda>w. w \<noteq> []) (map clean_line (split_lines (map (\<lambda>c. if c = CHR 0x0D then CHR 0x0A else c) cleaned))))
            else clean_line cleaned) in
      py_strip (take limit body))"

section \<open>Cleaned text\<close>




















section \<open>Research input\<close>

definition MAX_QUESTION_BYTES_agent :: nat where "MAX_QUESTION_BYTES_agent = 256"
definition MAX_CONTEXT_CHARS :: nat where "MAX_CONTEXT_CHARS = 2400"
definition MAX_CRITERIA_CHARS_general :: nat where "MAX_CRITERIA_CHARS_general = 2000"

record prompt_input =
  pi_question :: string
  pi_context :: "string option"
  pi_as_of :: int

text \<open>\<open>research_input\<close> of the general resolver; the close time is printed as a time stamp.\<close>

definition general_research_input :: "market_json \<Rightarrow> string option \<Rightarrow> int \<Rightarrow> prompt_input" where
  "general_research_input market parent_question close_time =
     (let parent = sanitize_untrusted (case parent_question of None \<Rightarrow> [] | Some q \<Rightarrow> q) MAX_QUESTION_BYTES_agent False;
          criteria = sanitize_untrusted (mj_resolution_criteria market) MAX_CRITERIA_CHARS_general True;
          ls = (if parent = [] then [] else [''Parent market: '' @ parent]) @
            (if criteria = [] then [] else [''Resolution criteria: '' @ criteria]) in
      \<lparr> pi_question = sanitize_untrusted (mj_question market) MAX_QUESTION_BYTES_agent False,
        pi_context = (if join_lines ls = [] then None else Some (join_lines ls)), pi_as_of = close_time \<rparr>)"

section \<open>Game dates\<close>

text \<open>Days since 1970 of a date, and the date at the start of a text.\<close>

definition leap_year :: "int \<Rightarrow> bool" where
  "leap_year y = (y mod 4 = 0 \<and> (y mod 100 \<noteq> 0 \<or> y mod 400 = 0))"

definition month_days :: "int \<Rightarrow> int list" where
  "month_days y = [31, if leap_year y then 29 else 28, 31, 30, 31, 30, 31, 31, 30, 31, 30, 31]"

definition day_number :: "int \<Rightarrow> int \<Rightarrow> int \<Rightarrow> int" where
  "day_number y m d =
     365 * (y - 1) + (y - 1) div 4 - (y - 1) div 100 + (y - 1) div 400 + sum_list (take (nat (m - 1)) (month_days y)) + d - 719163"

definition digits_value :: "string \<Rightarrow> int" where
  "digits_value s = fold (\<lambda>c n. 10 * n + int (of_char c - 48)) s 0"

definition date_prefix :: "string \<Rightarrow> int option" where
  "date_prefix text =
     (let t = take 10 (lstrip text); y = take 4 t; m = take 2 (drop 5 t); d = take 2 (drop 8 t);
          year = digits_value y; month = digits_value m; day = digits_value d in
      if length t = 10 \<and> list_all is_digit (y @ m @ d) \<and> t ! 4 = CHR ''-'' \<and> t ! 7 = CHR ''-'' \<and>
         1 \<le> year \<and> 1 \<le> month \<and> month \<le> 12 \<and> 1 \<le> day \<and> day \<le> month_days year ! nat (month - 1)
      then Some (day_number year month day) else None)"

definition GAME_DATE_TOLERANCE_DAYS :: int where "GAME_DATE_TOLERANCE_DAYS = 1"

text \<open>The kickoff is the job's own stamp, here its seconds; only text can start with a date.\<close>

definition game_date_matches :: "json \<Rightarrow> int \<Rightarrow> bool" where
  "game_date_matches v kickoff =
     (case v of
        J_Str s \<Rightarrow> (case date_prefix s of None \<Rightarrow> False | Some day \<Rightarrow> \<bar>day - kickoff div 86400\<bar> \<le> GAME_DATE_TOLERANCE_DAYS)
      | _ \<Rightarrow> False)"

section \<open>Verdicts\<close>

definition UNDETERMINED :: int where "UNDETERMINED = 2"

definition parse_verdict :: "(string \<times> json) list \<Rightarrow> string + int \<times> rat" where
  "parse_verdict data =
     (let bad_outcome = Inl ''cursor agent outcome must be 0, 1 or 2'';
          bad_confidence = Inl ''cursor agent confidence must be a number in [0, 1]'';
          conf = json_get data ''confidence'' in
      case json_get data ''outcome'' of
        J_Null \<Rightarrow> Inr (UNDETERMINED, 0)
      | J_Int out \<Rightarrow>
          if out \<notin> {0, 1, UNDETERMINED} then bad_outcome
          else if conf = J_Null \<and> out = UNDETERMINED then Inr (UNDETERMINED, 0)
          else (case conf of
              J_Int c \<Rightarrow> if 0 \<le> c \<and> c \<le> 1 then Inr (out, of_int c) else bad_confidence
            | J_Float c \<Rightarrow> if 0 \<le> c \<and> c \<le> 1 then Inr (out, c) else bad_confidence
            | _ \<Rightarrow> bad_confidence)
      | _ \<Rightarrow> bad_outcome)"

text \<open>\<open>text_of\<close> and the time stamp of a day, from the standard library.\<close>

record agent_libs =
  al_str :: "json \<Rightarrow> string"
  al_day :: "int \<Rightarrow> string"
  al_sha256 :: "int \<Rightarrow> string list \<Rightarrow> string \<Rightarrow> string"

fun truthy :: "json \<Rightarrow> bool" where
  "truthy J_Null = False"
| "truthy (J_Bool b) = b"
| "truthy (J_Int i) = (i \<noteq> 0)"
| "truthy (J_Float r) = (r \<noteq> 0)"
| "truthy (J_Special w) = True"
| "truthy (J_Str s) = (s \<noteq> [])"
| "truthy (J_Arr xs) = (xs \<noteq> [])"
| "truthy (J_Obj kvs) = (kvs \<noteq> [])"

text \<open>\<open>str(v or default)\<close>.\<close>

definition text_of :: "agent_libs \<Rightarrow> json \<Rightarrow> string \<Rightarrow> string" where
  "text_of L v default_text = (if truthy v then (case v of J_Str s \<Rightarrow> s | _ \<Rightarrow> al_str L v) else default_text)"

record search_hit =
  sh_url :: string
  sh_content :: string

text \<open>The hits with a URL; a list that is missing or has none is an error.\<close>

definition search_hits :: "agent_libs \<Rightarrow> json \<Rightarrow> string + search_hit list" where
  "search_hits L v =
     (let hits = (case v of
          J_Arr items \<Rightarrow> concat (map (\<lambda>item. case item of
              J_Obj kvs \<Rightarrow> (let url = text_of L (json_get kvs ''url'') [] in
                if url = [] then [] else [\<lparr> sh_url = url, sh_content = text_of L (json_get kvs ''content'') [] \<rparr>])
            | _ \<Rightarrow> []) items)
        | _ \<Rightarrow> []) in
      if hits = [] then Inl ''search_hits required from cursor agent'' else Inr hits)"

text \<open>What a loop over a JSON value gives, and the URLs of it that are hits; an unhashable element raises.\<close>

definition json_items :: "json \<Rightarrow> string + json list" where
  "json_items v =
     (if \<not> truthy v then Inr []
      else case v of
        J_Arr xs \<Rightarrow> Inr xs
      | J_Str s \<Rightarrow> Inr (map (\<lambda>c. J_Str [c]) s)
      | J_Obj kvs \<Rightarrow> Inr (map (J_Str \<circ> fst) kvs)
      | _ \<Rightarrow> Inl ''TypeError'')"

definition unhashable :: "json \<Rightarrow> bool" where
  "unhashable v = (case v of J_Arr xs \<Rightarrow> True | J_Obj kvs \<Rightarrow> True | _ \<Rightarrow> False)"

definition known_urls :: "string set \<Rightarrow> json \<Rightarrow> string + string list" where
  "known_urls urls v =
     (case json_items v of
        Inl err \<Rightarrow> Inl err
      | Inr items \<Rightarrow>
          if list_ex unhashable items then Inl ''TypeError''
          else Inr (concat (map (\<lambda>item. case item of J_Str s \<Rightarrow> if s \<in> urls then [s] else [] | _ \<Rightarrow> []) items)))"

record live_verdict =
  lv_hits :: "search_hit list"
  lv_outcome :: int
  lv_confidence :: rat
  lv_summary :: string
  lv_urls :: "string list"

text \<open>\<open>live_research\<close> after the model answered with the object \<open>data\<close>.\<close>

definition live_research :: "agent_libs \<Rightarrow> int option \<Rightarrow> (string \<times> json) list \<Rightarrow> string + live_verdict" where
  "live_research L kickoff data =
     (case search_hits L (json_get data ''search_hits'') of
        Inl err \<Rightarrow> Inl err
      | Inr hits \<Rightarrow>
          (case known_urls (sh_url ` set hits) (json_get data ''evidence_urls'') of
             Inl err \<Rightarrow> Inl err
           | Inr urls \<Rightarrow>
               (case parse_verdict data of
                  Inl err \<Rightarrow> Inl err
                | Inr (out, conf) \<Rightarrow>
                    let summary = take 280 (text_of L (json_get data ''summary'') []);
                        date = json_get data ''game_date'' in
                    (case kickoff of
                       Some k \<Rightarrow>
                         if out \<noteq> UNDETERMINED \<and> \<not> game_date_matches date k
                         then Inr \<lparr> lv_hits = hits, lv_outcome = UNDETERMINED, lv_confidence = 0,
                           lv_summary = take 280 (''game_date '' @ take 32 (text_of L date ''missing'') @ '' is not the '' @
                             al_day L k @ '' game; '' @ summary), lv_urls = urls \<rparr>
                         else Inr \<lparr> lv_hits = hits, lv_outcome = out, lv_confidence = conf, lv_summary = summary, lv_urls = urls \<rparr>
                     | None \<Rightarrow> Inr \<lparr> lv_hits = hits, lv_outcome = out, lv_confidence = conf, lv_summary = summary, lv_urls = urls \<rparr>))))"

text \<open>
  \<open>AlphaAgent.research\<close> (beta and gamma are the same): the verdict as a report whose evidence hash commits to
  outcome, URLs and summary.
\<close>

definition agent_research :: "agent_libs \<Rightarrow> string \<Rightarrow> int option \<Rightarrow> (string \<times> json) list \<Rightarrow> string + report" where
  "agent_research L name kickoff data =
     (case live_research L kickoff data of
        Inl err \<Rightarrow> Inl err
      | Inr v \<Rightarrow>
          if list_ex (\<lambda>url. url \<notin> sh_url ` set (lv_hits v)) (lv_urls v) then Inl ''Evidence URL not found in search hits''
          else Inr \<lparr> rp_agent = name, rp_outcome = lv_outcome v, rp_confidence = Some (lv_confidence v), rp_summary = lv_summary v,
            rp_evidence_hash = ''0x'' @ al_sha256 L (lv_outcome v) (lv_urls v) (lv_summary v) \<rparr>)"

text \<open>The heuristic of the mock agents.\<close>

definition heuristic_infer :: "string \<Rightarrow> search_hit list \<Rightarrow> int" where
  "heuristic_infer question hits =
     (let joined = (case map sh_content hits of [] \<Rightarrow> [] | w # ws \<Rightarrow> foldl (\<lambda>a b. a @ '' '' @ b) w ws);
          text = py_lower joined @ '' '' @ py_lower question;
          count = (\<lambda>ws. length (filter (\<lambda>w. substring_in w text) ws)) in
      if substring_in ''who won'' (py_lower question) \<and> substring_in ''chiefs'' text then 0
      else if count [''yes'', ''defeated'', ''won'', ''fumble'', ''true''] \<ge> count [''no'', ''did not'', ''false'', ''zero fumble''] then 0
      else 1)"

section \<open>Verdicts are strict\<close>

lemma parse_verdict_range: "parse_verdict data = Inr (out, conf) \<Longrightarrow> out \<in> {0, 1, 2} \<and> 0 \<le> conf \<and> conf \<le> 1"
  by (auto simp: parse_verdict_def UNDETERMINED_def Let_def split: json.splits if_splits)

lemma known_urls_subset: "known_urls urls v = Inr us \<Longrightarrow> set us \<subseteq> urls"
  by (auto simp: known_urls_def split: sum.splits if_splits json.splits)

text \<open>
  Whatever JSON a model returns, a verdict that is accepted names outcome 0, 1 or 2
  with a confidence between 0 and 1, cites only URLs that were among its search hits, and, for a game with a
  kickoff, decides the outcome only when the date it reports is within a day of that kickoff.
\<close>

theorem live_verdicts_are_strict:
  assumes "live_research L kickoff data = Inr v"
  shows "lv_outcome v \<in> {0, 1, 2} \<and> 0 \<le> lv_confidence v \<and> lv_confidence v \<le> 1 \<and> length (lv_summary v) \<le> 280 \<and>
    set (lv_urls v) \<subseteq> sh_url ` set (lv_hits v) \<and> lv_hits v \<noteq> [] \<and>
    (\<forall>k. kickoff = Some k \<and> lv_outcome v \<noteq> UNDETERMINED \<longrightarrow>
       (\<exists>text day. json_get data ''game_date'' = J_Str text \<and> date_prefix text = Some day \<and> \<bar>day - k div 86400\<bar> \<le> 1))"
proof -
  obtain hits urls out conf where parts: "search_hits L (json_get data ''search_hits'') = Inr hits"
    "known_urls (sh_url ` set hits) (json_get data ''evidence_urls'') = Inr urls" "parse_verdict data = Inr (out, conf)"
    using assms unfolding live_research_def by (auto split: sum.splits)
  have matches: "\<exists>text day. v = J_Str text \<and> date_prefix text = Some day \<and> \<bar>day - k div 86400\<bar> \<le> 1" if "game_date_matches v k" for v k
    using that by (auto simp: game_date_matches_def GAME_DATE_TOLERANCE_DAYS_def split: json.splits option.splits)
  have hits: "hits \<noteq> []" using parts(1) by (auto simp: search_hits_def Let_def split: if_splits)
  show ?thesis
    using assms parse_verdict_range [OF parts(3)] known_urls_subset [OF parts(2)] hits matches
    by (auto simp: live_research_def parts Let_def UNDETERMINED_def split: option.splits if_splits)
qed

definition ex_agent_libs :: agent_libs where
  "ex_agent_libs = \<lparr> al_str = (\<lambda>_. ''?''), al_day = (\<lambda>_. ''2024-10-04''), al_sha256 = (\<lambda>_ _ _. ''aa'') \<rparr>"

definition ex_answer :: "string \<Rightarrow> (string \<times> json) list" where
  "ex_answer date = [(''outcome'', J_Int 0), (''confidence'', J_Float (9 / 10)), (''game_date'', J_Str date), (''summary'', J_Str ''s''),
     (''search_hits'', J_Arr [J_Obj [(''url'', J_Str ''u''), (''content'', J_Str ''c'')]]), (''evidence_urls'', J_Arr [J_Str ''u'', J_Str ''x''])]"

text \<open>A date next to the kickoff's decides; the date of another meeting makes the same answer undetermined.\<close>

lemma ex_verdicts:
  "map_sum id (\<lambda>v. (lv_outcome v, lv_urls v)) (live_research ex_agent_libs (Some (20000 * 86400)) (ex_answer ''2024-10-03'')) = Inr (0, [''u''])"
  "map_sum id lv_outcome (live_research ex_agent_libs (Some (20000 * 86400)) (ex_answer ''2023-10-04'')) = Inr 2"
  by code_simp+

theorem live_verdicts_are_strict_witness:
  "\<exists>v. live_research ex_agent_libs (Some (20000 * 86400)) (ex_answer ''2024-10-03'') = Inr v \<and> lv_outcome v = 0 \<and>
     (\<exists>text day. json_get (ex_answer ''2024-10-03'') ''game_date'' = J_Str text \<and> date_prefix text = Some day \<and> \<bar>day - 20000\<bar> \<le> 1)"
proof -
  obtain v where v: "live_research ex_agent_libs (Some (20000 * 86400)) (ex_answer ''2024-10-03'') = Inr v" "lv_outcome v = 0"
    using ex_verdicts(1) by (cases "live_research ex_agent_libs (Some (20000 * 86400)) (ex_answer ''2024-10-03'')") auto
  have kickoff: "(20000 :: int) * 86400 div 86400 = 20000" by simp
  have "\<exists>text day. json_get (ex_answer ''2024-10-03'') ''game_date'' = J_Str text \<and> date_prefix text = Some day \<and> \<bar>day - 20000\<bar> \<le> 1"
    using live_verdicts_are_strict [OF v(1)] v(2) unfolding UNDETERMINED_def kickoff by (metis zero_neq_numeral kickoff)
  with v show ?thesis by blast
qed

end
