(* ===== verification/Scouts.thy ===== *)
theory Scouts
  imports Agents "HOL-Library.Product_Lexorder" "HOL-Library.Multiset"
begin

text \<open>
  The scouts of the oracle job: live scores (\<open>oracles/scores/scout.py\<close>, \<open>scores/job.py\<close>) and the NFL schedule
  (\<open>oracles/schedule/scout.py\<close>, \<open>schedule/teams.py\<close>). A live scout's answer is an arbitrary JSON object; what
  three of them agree on is published. The regex heuristics of the mock scouts are not modelled.
\<close>

section \<open>Questions\<close>

definition is_word_char :: "char \<Rightarrow> bool" where
  "is_word_char c = (is_alnum_lower c \<or> (let n = (of_char c :: nat) in 65 \<le> n \<and> n \<le> 90) \<or> c = CHR ''_'')"

text \<open>\<open>\bword\b\<close>: the word with no word character on either side.\<close>

fun has_word :: "string \<Rightarrow> bool \<Rightarrow> string \<Rightarrow> bool" where
  "has_word w boundary [] = False"
| "has_word w boundary (c # cs) =
     ((boundary \<and> prefix w (c # cs) \<and> (case drop (length w) (c # cs) of [] \<Rightarrow> True | d # ds \<Rightarrow> \<not> is_word_char d)) \<or>
      has_word w (\<not> is_word_char c) cs)"

definition requested_facts :: "string \<Rightarrow> string list" where
  "requested_facts question =
     (let q = py_lower question in
      if substring_in ''fumble'' q then [''fumbles'']
      else if substring_in ''score first'' q \<or> substring_in ''first score'' q then [''first_scorer'']
      else if substring_in ''total'' q \<or> has_word ''over'' True q then [''total_points'']
      else [''home_score'', ''away_score''])"

text \<open>
  \<open>^([^:?]+?)\s+vs\.?\s+([^:?]+?)(?::|$)\<close>, without case: the text before the first \<open>vs\<close> that matches, and the
  text after it up to a colon or the end.
\<close>

definition no_mark :: "char \<Rightarrow> bool" where
  "no_mark c = (c \<noteq> CHR '':'' \<and> c \<noteq> CHR ''?'')"

definition teams_at :: "string \<Rightarrow> nat \<Rightarrow> (string \<times> string) option" where
  "teams_at q i =
     (let before = take i q; after = drop (i + 2) q;
          rest = (if prefix ''.'' after then drop 1 after else after);
          name = takeWhile no_mark rest; stop = dropWhile no_mark rest in
      if prefix ''vs'' (py_lower (drop i q)) \<and> length before \<ge> 2 \<and> is_space (before ! (i - 1)) \<and> list_all no_mark before \<and>
         length name \<ge> 2 \<and> is_space (name ! 0) \<and> (stop = [] \<or> prefix '':'' stop)
      then Some (py_strip before, py_strip name) else None)"

definition parse_teams :: "string \<Rightarrow> string \<times> string" where
  "parse_teams question =
     (let q = py_strip question in
      case List.map_filter (teams_at q) [0..<length q] of [] \<Rightarrow> (''Home'', ''Away'') | teams # _ \<Rightarrow> teams)"

section \<open>Score reports\<close>

record score_report =
  sr_home_label :: string
  sr_away_label :: string
  sr_home_score :: "int option"
  sr_away_score :: "int option"
  sr_status :: string
  sr_period_label :: json
  sr_summary :: string
  sr_evidence_urls :: "string list"
  sr_facts :: "(string \<times> json) list"
  sr_game_date :: "string option"

definition SCORE_STATUSES :: "string list" where
  "SCORE_STATUSES = [''scheduled'', ''in_progress'', ''final'', ''postponed'', ''cancelled'']"

definition DATED :: "string list" where "DATED = [''in_progress'', ''final'', ''cancelled'']"
definition SCORELESS :: "string list" where "SCORELESS = [''scheduled'', ''postponed'', ''cancelled'']"

text \<open>What three reports must agree on; the facts are the requested keys in one order, printed with sorted keys.\<close>

definition score_key ::
  "score_report \<Rightarrow> string \<times> string \<times> int option \<times> int option \<times> string \<times> (string \<times> json) list" where
  "score_key r = (py_lower (sr_home_label r), py_lower (sr_away_label r), sr_home_score r, sr_away_score r, sr_status r,
     map (map_prod id sort_keys) (sr_facts r))"

definition json_of_score :: "int option \<Rightarrow> json" where
  "json_of_score s = (case s of None \<Rightarrow> J_Null | Some i \<Rightarrow> J_Int i)"

text \<open>A requested fact; an absent score fact is the report's own score.\<close>

definition fact_value :: "(string \<times> json) list \<Rightarrow> int option \<Rightarrow> int option \<Rightarrow> string \<Rightarrow> json" where
  "fact_value src home away key =
     (let v = json_get src key in
      if v = J_Null \<and> key = ''home_score'' then json_of_score home
      else if v = J_Null \<and> key = ''away_score'' then json_of_score away
      else v)"

definition canonicalize :: "score_report \<Rightarrow> string \<Rightarrow> score_report" where
  "canonicalize report question =
     (let (home, away) = parse_teams question; keys = requested_facts question;
          status = (if sr_status report \<in> set SCORE_STATUSES then sr_status report else ''scheduled'');
          scoreless = (status \<in> set SCORELESS) in
      report\<lparr>sr_home_label := home, sr_away_label := away, sr_status := status,
        sr_home_score := (if scoreless then None else sr_home_score report),
        sr_away_score := (if scoreless then None else sr_away_score report),
        sr_facts := map (\<lambda>key. (key, if scoreless then J_Null else fact_value (sr_facts report) (sr_home_score report) (sr_away_score report) key)) keys\<rparr>)"

text \<open>\<open>check_game_date\<close>: an error, or nothing.\<close>

definition check_game_date :: "string \<Rightarrow> json \<Rightarrow> int option \<Rightarrow> string + unit" where
  "check_game_date status game_date kickoff =
     (case kickoff of
        None \<Rightarrow> Inr ()
      | Some k \<Rightarrow>
          if status \<notin> set DATED then Inr ()
          else if game_date_matches game_date k then Inr ()
          else Inl ''score report game_date does not match kickoff'')"

text \<open>\<open>_int_or_none\<close>; \<open>num\<close> is \<open>int\<close> on text.\<close>

definition int_or_none :: "(string \<Rightarrow> int option) \<Rightarrow> json \<Rightarrow> string + int option" where
  "int_or_none num v =
     (case v of
        J_Null \<Rightarrow> Inr None
      | J_Int i \<Rightarrow> Inr (Some i)
      | J_Bool b \<Rightarrow> Inr (Some (if b then 1 else 0))
      | J_Float r \<Rightarrow> Inr (Some (if r \<ge> 0 then \<lfloor>r\<rfloor> else \<lceil>r\<rceil>))
      | J_Str s \<Rightarrow> if s = [] then Inr None else (case num s of None \<Rightarrow> Inl ''ValueError'' | Some i \<Rightarrow> Inr (Some i))
      | J_Special w \<Rightarrow> Inl (if w = ''NaN'' then ''ValueError'' else ''OverflowError'')
      | _ \<Rightarrow> Inl ''TypeError'')"

text \<open>The status of an answer; one that is no known text counts as scheduled.\<close>

definition answer_status :: "json \<Rightarrow> string + string" where
  "answer_status v =
     (if \<not> truthy v then Inr ''scheduled''
      else case v of
        J_Str s \<Rightarrow> Inr (if s \<in> set SCORE_STATUSES then s else ''scheduled'')
      | J_Arr xs \<Rightarrow> Inl ''TypeError''
      | J_Obj kvs \<Rightarrow> Inl ''TypeError''
      | _ \<Rightarrow> Inr ''scheduled'')"

definition missing_fact :: "string \<Rightarrow> string \<Rightarrow> (string \<times> json) list \<Rightarrow> bool" where
  "missing_fact question status facts =
     (status \<notin> set SCORELESS \<and> list_ex (\<lambda>key. json_get facts key = J_Null) (requested_facts question))"

text \<open>\<open>_cursor_extract\<close> on the model's object.\<close>

definition cursor_extract ::
  "agent_libs \<Rightarrow> (string \<Rightarrow> int option) \<Rightarrow> string \<Rightarrow> int option \<Rightarrow> (string \<times> json) list \<Rightarrow> string + score_report" where
  "cursor_extract L num question kickoff data =
     (let (home, away) = parse_teams question; keys = requested_facts question in
      case search_hits L (json_get data ''search_hits'') of
        Inl err \<Rightarrow> Inl err
      | Inr hits \<Rightarrow>
      (case known_urls (sh_url ` set hits) (json_get data ''evidence_urls'') of
        Inl err \<Rightarrow> Inl err
      | Inr urls \<Rightarrow>
      (case (int_or_none num (json_get data ''home_score''), int_or_none num (json_get data ''away_score''), answer_status (json_get data ''status'')) of
        (Inr home_score, Inr away_score, Inr status) \<Rightarrow>
          let scoreless = (status \<in> set SCORELESS);
              home_score' = (if scoreless then None else home_score);
              away_score' = (if scoreless then None else away_score);
              src = (case json_get data ''facts'' of J_Obj kvs \<Rightarrow> kvs | _ \<Rightarrow> []);
              facts = map (\<lambda>key. (key, if scoreless then J_Null else fact_value src home_score' away_score' key)) keys;
              game_date = json_get data ''game_date'' in
          if missing_fact question status facts then Inl ''missing requested fact''
          else (case check_game_date status game_date kickoff of
              Inl err \<Rightarrow> Inl err
            | Inr _ \<Rightarrow> Inr \<lparr> sr_home_label = text_of L (json_get data ''home_label'') home,
                sr_away_label = text_of L (json_get data ''away_label'') away, sr_home_score = home_score', sr_away_score = away_score',
                sr_status = status, sr_period_label = json_get data ''period_label'',
                sr_summary = take 280 (text_of L (json_get data ''summary'') []), sr_evidence_urls = urls, sr_facts = facts,
                sr_game_date = (if truthy game_date then Some (take 32 (text_of L game_date [])) else None) \<rparr>)
      | (Inl err, _, _) \<Rightarrow> Inl err | (_, Inl err, _) \<Rightarrow> Inl err | (_, _, Inl err) \<Rightarrow> Inl err)))"

text \<open>\<open>scout\<close> of a slot whose model answered, or failed.\<close>

definition scout ::
  "agent_libs \<Rightarrow> (string \<Rightarrow> int option) \<Rightarrow> string \<Rightarrow> int option \<Rightarrow> string + (string \<times> json) list \<Rightarrow> string + score_report" where
  "scout L num question kickoff answer =
     (case answer of
        Inl err \<Rightarrow> Inl err
      | Inr data \<Rightarrow>
          (case cursor_extract L num question kickoff data of Inl err \<Rightarrow> Inl err | Inr r \<Rightarrow> Inr (canonicalize r question)))"

fun collect_reports :: "('a \<Rightarrow> string + 'b) \<Rightarrow> 'a list \<Rightarrow> string + 'b list" where
  "collect_reports f [] = Inr []"
| "collect_reports f (x # xs) =
     (case f x of
        Inl err \<Rightarrow> Inl err
      | Inr r \<Rightarrow> (case collect_reports f xs of Inl err \<Rightarrow> Inl err | Inr rs \<Rightarrow> Inr (r # rs)))"

text \<open>\<open>ScoreCoordinator.run\<close>: the report to publish, when the slots agree.\<close>

definition agreed_report :: "score_report list \<Rightarrow> score_report option" where
  "agreed_report reports = (if length (remdups (map score_key reports)) = 1 then Some (hd reports) else None)"

definition score_coordinator ::
  "agent_libs \<Rightarrow> (string \<Rightarrow> int option) \<Rightarrow> string \<Rightarrow> int option \<Rightarrow> (string + (string \<times> json) list) list \<Rightarrow> string + score_report option" where
  "score_coordinator L num question kickoff answers =
     (case collect_reports (scout L num question kickoff) answers of
        Inl err \<Rightarrow> Inl err
      | Inr reports \<Rightarrow> Inr (agreed_report reports))"

section \<open>Games to scout\<close>

definition sports_primaries :: "card_json list \<Rightarrow> market_json list" where
  "sports_primaries cards = filter is_sports_primary (map cj_primary cards)"

definition DONE_SCORES :: "string set" where "DONE_SCORES = {''final'', ''cancelled''}"
definition BACKLOG_ROTATE_SECONDS :: int where "BACKLOG_ROTATE_SECONDS = 900"

definition skip_fresh :: "score_json option \<Rightarrow> rat \<Rightarrow> rat \<Rightarrow> bool" where
  "skip_fresh score now window =
     (case score of
        None \<Rightarrow> False
      | Some s \<Rightarrow>
          sj_status s \<noteq> ''in_progress'' \<and> (case sj_updated_at s of None \<Rightarrow> False | Some t \<Rightarrow> now - t < window))"

definition eligible_games :: "market_json list \<Rightarrow> rat \<Rightarrow> rat \<Rightarrow> market_json list" where
  "eligible_games primaries clock max_age =
     filter (\<lambda>p. mj_condition_id p \<noteq> [] \<and> \<not> mj_resolved p \<and> of_int (mj_close_time p) \<le> clock \<and>
        \<not> (max_age \<noteq> 0 \<and> mj_close_time p \<noteq> 0 \<and> clock - of_int (mj_close_time p) > max_age))
       (sort_key (\<lambda>p. (mj_close_time p, mj_condition_id p)) primaries)"

definition is_recent :: "rat \<Rightarrow> rat \<Rightarrow> market_json \<Rightarrow> bool" where
  "is_recent clock recent p = (mj_close_time p = 0 \<or> clock - of_int (mj_close_time p) \<le> recent)"

text \<open>The backlog starts at another game every rotation step.\<close>

definition rotate_backlog :: "rat \<Rightarrow> market_json list \<Rightarrow> market_json list" where
  "rotate_backlog clock backlog =
     (let shift = (if backlog = [] then 0 else nat ((\<lfloor>clock\<rfloor> div BACKLOG_ROTATE_SECONDS) mod int (length backlog))) in
      drop shift backlog @ take shift backlog)"

text \<open>A game whose detail cannot be read, is resolved or has a done or fresh score takes no slot.\<close>

definition wanted :: "(string \<Rightarrow> string + detail_json option) \<Rightarrow> rat \<Rightarrow> rat \<Rightarrow> market_json \<Rightarrow> bool" where
  "wanted fetch now window p =
     (case fetch (mj_condition_id p) of
        Inl err \<Rightarrow> False
      | Inr None \<Rightarrow> True
      | Inr (Some d) \<Rightarrow> \<not> dj_resolved d \<and> (case dj_score d of None \<Rightarrow> True | Some s \<Rightarrow> sj_status s \<notin> DONE_SCORES) \<and>
          \<not> skip_fresh (dj_score d) now window)"

fun pick_games :: "(market_json \<Rightarrow> bool) \<Rightarrow> nat \<Rightarrow> market_json list \<Rightarrow> market_json list \<Rightarrow> market_json list" where
  "pick_games ok_game cap selected [] = selected"
| "pick_games ok_game cap selected (p # ps) =
     (if length selected \<ge> cap then selected
      else if ok_game p then pick_games ok_game cap (selected @ [p]) ps
      else pick_games ok_game cap selected ps)"

definition select_targets ::
  "market_json list \<Rightarrow> (string \<Rightarrow> string + detail_json option) \<Rightarrow> rat \<Rightarrow> nat \<Rightarrow> rat \<Rightarrow> rat \<Rightarrow> rat \<Rightarrow> market_json list" where
  "select_targets primaries fetch now cap window max_age recent =
     (let eligible = eligible_games primaries now max_age;
          backlog = filter (\<lambda>p. \<not> is_recent now recent p) eligible in
      pick_games (wanted fetch now window) cap [] (filter (is_recent now recent) eligible @ rotate_backlog now backlog))"

section \<open>The schedule\<close>

definition NICKNAMES :: "string list" where
  "NICKNAMES = [''bills'', ''dolphins'', ''jets'', ''patriots'', ''ravens'', ''browns'', ''bengals'', ''steelers'', ''texans'',
     ''colts'', ''jaguars'', ''titans'', ''chiefs'', ''raiders'', ''chargers'', ''broncos'', ''eagles'', ''giants'', ''commanders'',
     ''cowboys'', ''lions'', ''bears'', ''vikings'', ''packers'', ''saints'', ''buccaneers'', ''falcons'', ''panthers'', ''49ers'',
     ''rams'', ''seahawks'', ''cardinals'']"

text \<open>
  \<open>_ORDERED\<close> is the names by falling length; names of one length come in the order of a hash set, so the order is
  an argument.
\<close>

definition name_order :: "string list \<Rightarrow> bool" where
  "name_order ordered = (set ordered = set NICKNAMES \<and> sorted_wrt (\<lambda>a b. length a \<ge> length b) ordered)"

definition capitalize :: "string \<Rightarrow> string" where
  "capitalize nick = (if nick = ''49ers'' then nick
     else case nick of [] \<Rightarrow> [] | c # cs \<Rightarrow> (if (of_char c :: nat) \<ge> 97 \<and> (of_char c :: nat) \<le> 122 then char_of ((of_char c :: nat) - 32) else c) # cs)"

definition canonicalize_team :: "string list \<Rightarrow> string \<Rightarrow> string option" where
  "canonicalize_team ordered raw =
     (let folded = py_lower (py_strip raw) in
      if py_strip raw = [] then None
      else map_option capitalize (find (\<lambda>nick. folded = nick \<or> substring_in nick folded \<or> substring_in folded nick) ordered))"

record nfl_game =
  ng_away :: string
  ng_home :: string
  ng_kickoff_unix :: int
  ng_week :: int
  ng_season :: int
  ng_status :: string

text \<open>\<open>int(v)\<close> of a field, \<open>None\<close> for the errors that drop the row; an infinite number is not among them.\<close>

definition game_number :: "(string \<Rightarrow> int option) \<Rightarrow> json \<Rightarrow> string + int option" where
  "game_number num v =
     (case int_or_none num v of
        Inl err \<Rightarrow> if err = ''OverflowError'' then Inl err else Inr None
      | Inr n \<Rightarrow> Inr n)"

definition canonicalize_game ::
  "agent_libs \<Rightarrow> (string \<Rightarrow> int option) \<Rightarrow> string list \<Rightarrow> (string \<times> json) list \<Rightarrow> string + nfl_game option" where
  "canonicalize_game L num ordered raw =
     (case (canonicalize_team ordered (text_of L (json_get raw ''away'') []), canonicalize_team ordered (text_of L (json_get raw ''home'') [])) of
        (Some away, Some home) \<Rightarrow>
          let status = py_lower (text_of L (json_get raw ''status'') ''scheduled'') in
          if status \<notin> set SCORE_STATUSES then Inr None
          else (case game_number num (json_get raw ''kickoff_unix'') of
              Inl err \<Rightarrow> Inl err
            | Inr None \<Rightarrow> Inr None
            | Inr (Some kickoff) \<Rightarrow>
            (case game_number num (json_get raw ''week'') of
              Inl err \<Rightarrow> Inl err
            | Inr None \<Rightarrow> Inr None
            | Inr (Some week) \<Rightarrow>
            (case game_number num (json_get raw ''season'') of
              Inl err \<Rightarrow> Inl err
            | Inr None \<Rightarrow> Inr None
            | Inr (Some season) \<Rightarrow>
                Inr (Some \<lparr> ng_away = away, ng_home = home, ng_kickoff_unix = kickoff, ng_week = week, ng_season = season, ng_status = status \<rparr>))))
      | _ \<Rightarrow> Inr None)"

text \<open>The evidence of a schedule answer must be among its search hits.\<close>

definition schedule_evidence :: "agent_libs \<Rightarrow> (string \<times> json) list \<Rightarrow> string + unit" where
  "schedule_evidence L data =
     (case json_get data ''search_hits'' of
        J_Arr (h # hs) \<Rightarrow>
          let urls = concat (map (\<lambda>item. case item of J_Obj kvs \<Rightarrow> [text_of L (json_get kvs ''url'') []] | _ \<Rightarrow> []) (h # hs)) in
          (case json_items (json_get data ''evidence_urls'') of
             Inl err \<Rightarrow> Inl err
           | Inr items \<Rightarrow>
               if list_all (\<lambda>item. case item of J_Str s \<Rightarrow> s \<in> set urls | _ \<Rightarrow> False) items then Inr ()
               else Inl ''Evidence URL not found in search hits'')
      | _ \<Rightarrow> Inl ''search_hits required from cursor agent'')"

text \<open>\<open>_cursor_extract\<close> of the schedule: the games without duplicates, in the order given.\<close>

definition extract_games ::
  "agent_libs \<Rightarrow> (string \<Rightarrow> int option) \<Rightarrow> string list \<Rightarrow> (string \<times> json) list \<Rightarrow> string + nfl_game list" where
  "extract_games L num ordered data =
     (case schedule_evidence L data of
        Inl err \<Rightarrow> Inl err
      | Inr _ \<Rightarrow>
          let raw = (case json_get data ''games'' of J_Arr xs \<Rightarrow> xs | _ \<Rightarrow> []) in
          (case collect_reports (\<lambda>item. case item of J_Obj kvs \<Rightarrow> canonicalize_game L num ordered kvs | _ \<Rightarrow> Inr None) raw of
             Inl err \<Rightarrow> Inl err
           | Inr found \<Rightarrow>
               let games = rev (remdups (rev (List.map_filter id found))) in
               if games = [] then Inl ''no canonical NFL games'' else Inr games))"

definition game_order :: "nfl_game \<Rightarrow> int \<times> int \<times> int \<times> string \<times> string" where
  "game_order g = (ng_season g, ng_week g, ng_kickoff_unix g, ng_away g, ng_home g)"

definition matchup :: "nfl_game \<Rightarrow> int \<times> int \<times> string \<times> string" where
  "matchup g = (ng_season g, ng_week g, ng_away g, ng_home g)"

text \<open>The rows of every report, and of those the ones no other agreed row covers.\<close>

definition common_games :: "nfl_game list list \<Rightarrow> nfl_game list" where
  "common_games reports = filter (\<lambda>g. list_all (\<lambda>r. g \<in> set r) reports) (remdups (concat reports))"

definition agreed_games :: "nfl_game list list \<Rightarrow> nfl_game list \<times> nfl_game list" where
  "agreed_games reports =
     (let common = common_games reports;
          agreed = filter (\<lambda>g. length (filter (\<lambda>h. matchup h = matchup g) common) = 1) common;
          disputed = filter (\<lambda>g. g \<notin> set agreed) (remdups (concat reports)) in
      (sort_key game_order agreed, sort_key game_order disputed))"

text \<open>\<open>ScheduleCoordinator.run\<close> of the live slots: what is posted, and what is disputed.\<close>

definition schedule_coordinator ::
  "agent_libs \<Rightarrow> (string \<Rightarrow> int option) \<Rightarrow> string list \<Rightarrow> (string + (string \<times> json) list) list \<Rightarrow> string + nfl_game list \<times> nfl_game list" where
  "schedule_coordinator L num ordered answers =
     (case collect_reports (\<lambda>answer. case answer of Inl err \<Rightarrow> Inl err | Inr data \<Rightarrow> extract_games L num ordered data) answers of
        Inl err \<Rightarrow> Inl err
      | Inr reports \<Rightarrow> Inr (agreed_games reports))"

section \<open>The score job\<close>

text \<open>
  What the job meets: its clock, the settings, the budget before each target, the answers of the three agents of
  a market and what posting a score gives.
\<close>

record scout_env =
  sc_now :: rat
  sc_cap :: nat
  sc_window :: rat
  sc_max_age :: rat
  sc_recent :: rat
  sc_detail :: "string \<Rightarrow> string + detail_json option"
  sc_may_start :: "nat \<Rightarrow> bool"
  sc_answers :: "string \<Rightarrow> (string + (string \<times> json) list) list"
  sc_post :: "string \<Rightarrow> score_report \<Rightarrow> string + unit"

datatype scout_result = Sc_Budget | Sc_Failed string | Sc_Done bool

definition kickoff_of :: "market_json \<Rightarrow> int option" where
  "kickoff_of p = (if mj_close_time p \<le> 0 then None else Some (mj_close_time p))"

text \<open>One target: the score that is posted, if any, and the result.\<close>

definition scout_target ::
  "agent_libs \<Rightarrow> (string \<Rightarrow> int option) \<Rightarrow> scout_env \<Rightarrow> nat \<Rightarrow> market_json \<Rightarrow> (string \<times> score_report) option \<times> scout_result" where
  "scout_target L num E i p =
     (let cid = mj_condition_id p in
      if \<not> sc_may_start E i then (None, Sc_Budget)
      else case score_coordinator L num (mj_question p) (kickoff_of p) (sc_answers E cid) of
        Inl err \<Rightarrow> (None, Sc_Failed err)
      | Inr None \<Rightarrow> (None, Sc_Done False)
      | Inr (Some report) \<Rightarrow>
          (Some (cid, report), case sc_post E cid report of Inl err \<Rightarrow> Sc_Failed err | Inr _ \<Rightarrow> Sc_Done True))"

definition score_targets :: "scout_env \<Rightarrow> card_json list \<Rightarrow> market_json list" where
  "score_targets E cards =
     select_targets (sports_primaries cards) (sc_detail E) (sc_now E) (sc_cap E) (sc_window E) (sc_max_age E) (sc_recent E)"

text \<open>\<open>run_job\<close>, from the list of markets: the scores posted, and a result for every target.\<close>

definition score_job ::
  "agent_libs \<Rightarrow> (string \<Rightarrow> int option) \<Rightarrow> scout_env \<Rightarrow> card_json list \<Rightarrow> (string \<times> score_report) list \<times> (string \<times> scout_result) list" where
  "score_job L num E cards =
     (let targets = score_targets E cards; visits = map (\<lambda>(i, p). scout_target L num E i p) (enumerate 0 targets) in
      (List.map_filter fst visits, zip (map mj_condition_id targets) (map snd visits)))"

end
