(* ===== verification/Scout_Props.thy ===== *)
theory Scout_Props
  imports Scouts
begin

text \<open>What the scouts publish, which games they visit, and when a schedule row is agreed.\<close>

section \<open>Agreement\<close>





section \<open>What one scout reports\<close>










section \<open>Which games are visited\<close>

lemma pick_games_take: "pick_games ok_game cap sel ps = sel @ take (cap - length sel) (filter ok_game ps)"
  by (induction ps arbitrary: sel) (auto simp: take_Cons')





definition ex_game :: market_json where
  "ex_game = \<lparr> mj_condition_id = ''0x01'', mj_question = ''Bills vs Jets: Bills win?'', mj_resolution_criteria = [], mj_market_type = 0,
     mj_parent = [], mj_close_time = 20000 * 86400, mj_resolved = False, mj_resolve_after = 0 \<rparr>"













section \<open>No game starves\<close>

lemma mod_step:
  assumes "k < n"
  shows "\<exists>i < n. nat ((t + int i) mod int n) = k"
proof -
  define i where "i = nat ((int k - t) mod int n)"
  have "i < n" using assms by (simp add: i_def nat_less_iff)
  moreover have "int i mod int n = (int k - t) mod int n" using assms by (simp add: i_def)
  then have "(t + int i) mod int n = int k mod int n" by (metis add_diff_cancel_left' add_diff_eq mod_add_right_eq)
  then have "nat ((t + int i) mod int n) = k" using assms by simp
  ultimately show ?thesis by blast
qed

lemma rotated_to_front:
  assumes "p \<in> set backlog"
  shows "\<exists>i < length backlog. \<exists>rest. rotate_backlog (now + of_nat (900 * i)) backlog = p # rest"
proof -
  obtain k where k: "k < length backlog" "backlog ! k = p" using assms by (auto simp: in_set_conv_nth)
  obtain i where i: "i < length backlog" "nat ((\<lfloor>now\<rfloor> div 900 + int i) mod int (length backlog)) = k"
    using mod_step [OF k(1)] by blast
  have "\<lfloor>now + of_nat (900 * i)\<rfloor> = \<lfloor>now\<rfloor> + 900 * int i"
    using floor_add_int [of now "int (900 * i)"] by simp
  then have "\<lfloor>now + of_nat (900 * i)\<rfloor> div 900 = \<lfloor>now\<rfloor> div 900 + int i" by simp
  then have "rotate_backlog (now + of_nat (900 * i)) backlog = drop k backlog @ take k backlog"
    using i(2) assms by (auto simp: rotate_backlog_def BACKLOG_ROTATE_SECONDS_def)
  also have "\<dots> = p # drop (Suc k) backlog @ take k backlog" using k Cons_nth_drop_Suc [of k backlog] by simp
  finally show ?thesis using i(1) by blast
qed

lemma quiet_selection:
  assumes "\<forall>q \<in> set primaries. mj_close_time q \<noteq> 0 \<and> t - of_int (mj_close_time q) > recent" and "0 \<le> recent" and "t \<le> now"
  shows "select_targets primaries fetch now cap window 0 recent =
    take cap (filter (wanted fetch now window) (rotate_backlog now (eligible_games primaries t 0)))"
proof -
  have old: "of_int (mj_close_time q) \<le> t \<and> of_int (mj_close_time q) \<le> now" if mem: "q \<in> set primaries" for q
    using bspec [OF assms(1) mem] assms(2,3) by linarith
  then have same: "eligible_games primaries now 0 = eligible_games primaries t 0"
    unfolding eligible_games_def by (intro filter_cong refl) simp
  have "filter (is_recent now recent) (eligible_games primaries t 0) = []"
    "filter (\<lambda>p. \<not> is_recent now recent p) (eligible_games primaries t 0) = eligible_games primaries t 0"
    using assms by (fastforce simp: eligible_games_def is_recent_def filter_empty_conv intro!: filter_True)+
  then show ?thesis unfolding select_targets_def same Let_def by (simp add: pick_games_take del: filter_filter)
qed

text \<open>
  C25 (no_game_starves). In a quiet period, when every game kicked off longer ago than the recent window, every
  open game that still wants a score is scouted within as many ticks of 15 minutes as there are games, whatever
  the other games do and however small the cap.
\<close>

theorem no_game_starves:
  assumes "\<forall>q \<in> set primaries. mj_close_time q \<noteq> 0 \<and> now - of_int (mj_close_time q) > recent" and "0 \<le> recent" and "0 < cap"
    and "p \<in> set primaries" and "mj_condition_id p \<noteq> []" and "\<not> mj_resolved p"
    and "\<forall>k \<le> length primaries. wanted fetch (now + of_nat (900 * k)) window p"
  shows "\<exists>k \<le> length primaries. p \<in> set (select_targets primaries fetch (now + of_nat (900 * k)) cap window 0 recent)"
proof -
  let ?backlog = "eligible_games primaries now 0"
  have "of_int (mj_close_time p) \<le> now" using assms(1,2,4) by force
  then have "p \<in> set ?backlog" using assms by (simp add: eligible_games_def)
  from rotated_to_front [OF this, of now] obtain k rest where k: "k < length ?backlog"
    "rotate_backlog (now + of_nat (900 * k)) ?backlog = p # rest" by blast
  have "length ?backlog \<le> length primaries"
    unfolding eligible_games_def by (rule order_trans [OF length_filter_le]) simp
  then have le: "k \<le> length primaries" using k(1) by simp
  have sel: "select_targets primaries fetch (now + of_nat (900 * k)) cap window 0 recent =
      take cap (filter (wanted fetch (now + of_nat (900 * k)) window) (p # rest))"
    using quiet_selection [OF assms(1,2), of "now + of_nat (900 * k)"] k(2) by simp
  have "p \<in> set (select_targets primaries fetch (now + of_nat (900 * k)) cap window 0 recent)"
    unfolding sel using assms(3,7) le by (cases cap) auto
  with le show ?thesis by blast
qed

text \<open>Two stuck games and a cap of one: the second has its turn.\<close>

definition ex_backlog :: "market_json list" where
  "ex_backlog = [ex_game\<lparr>mj_close_time := 1\<rparr>, ex_game\<lparr>mj_condition_id := ''0x02'', mj_close_time := 2\<rparr>]"

theorem no_game_starves_witness:
  "\<exists>k \<le> length ex_backlog. ex_game\<lparr>mj_condition_id := ''0x02'', mj_close_time := 2\<rparr> \<in>
     set (select_targets ex_backlog (\<lambda>_. Inr None) (1000000 + of_nat (900 * k)) 1 600 0 129600)"
  by (rule no_game_starves) (simp_all add: ex_backlog_def ex_game_def wanted_def)

section \<open>Schedules\<close>

text \<open>A row every report has.\<close>

definition in_every :: "nfl_game list list \<Rightarrow> nfl_game \<Rightarrow> bool" where
  "in_every reports g = (reports \<noteq> [] \<and> (\<forall>r \<in> set reports. g \<in> set r))"

lemma set_common_games: "g \<in> set (common_games reports) \<longleftrightarrow> in_every reports g"
  by (cases reports) (auto simp: common_games_def in_every_def list_all_iff)

lemma distinct_common_games: "distinct (common_games reports)"
  by (simp add: common_games_def)

lemma one_in_distinct:
  assumes "distinct xs" and "g \<in> set xs" and "P g"
  shows "length (filter P xs) = 1 \<longleftrightarrow> (\<forall>h \<in> set xs. P h \<longrightarrow> h = g)"
proof -
  have "length (filter P xs) = card ({h. P h} \<inter> set xs)" using assms(1) by (rule distinct_length_filter)
  moreover have "card ({h. P h} \<inter> set xs) = 1 \<longleftrightarrow> {h. P h} \<inter> set xs = {g}"
    by (metis IntI One_nat_def assms(2,3) card_1_singleton_iff mem_Collect_eq singletonD)
  ultimately show ?thesis using assms(2,3) by auto
qed

text \<open>The rows that stay: in every report, and alone on their matchup.\<close>

definition agreed_row :: "nfl_game list list \<Rightarrow> nfl_game \<Rightarrow> bool" where
  "agreed_row reports g = (in_every reports g \<and> (\<forall>h. in_every reports h \<and> matchup h = matchup g \<longrightarrow> h = g))"

definition agreed_list :: "nfl_game list list \<Rightarrow> nfl_game list" where
  "agreed_list reports = filter (\<lambda>g. length (filter (\<lambda>h. matchup h = matchup g) (common_games reports)) = 1) (common_games reports)"

lemma set_agreed_list: "g \<in> set (agreed_list reports) \<longleftrightarrow> agreed_row reports g"
proof (cases "in_every reports g")
  case True
  then have "g \<in> set (common_games reports)" by (simp add: set_common_games)
  from one_in_distinct [OF distinct_common_games this, of "\<lambda>h. matchup h = matchup g"] this show ?thesis
    by (auto simp: agreed_list_def agreed_row_def set_common_games)
qed (simp add: agreed_list_def agreed_row_def set_common_games)

lemma agreed_games_list: "fst (agreed_games reports) = sort_key game_order (agreed_list reports)"
  by (simp add: agreed_games_def agreed_list_def Let_def)

lemma game_order_inj: "inj_on game_order (set (agreed_list reports))"
proof (rule inj_onI)
  fix g h
  assume "g \<in> set (agreed_list reports)" "h \<in> set (agreed_list reports)" "game_order g = game_order h"
  moreover from this(3) have "matchup h = matchup g" by (simp add: game_order_def matchup_def)
  ultimately show "g = h" unfolding set_agreed_list agreed_row_def by simp
qed

lemma sort_key_same_set:
  assumes "distinct xs" and "distinct ys" and "set xs = set ys" and "inj_on f (set xs)"
  shows "sort_key f xs = sort_key f ys"
proof (rule sort_key_inj_key_eq)
  show "mset xs = mset (sort_key f ys)" using assms(1-3) by (simp add: set_eq_iff_mset_eq_distinct)
qed (use assms(4) in simp_all)

text \<open>
  C30 (schedule_needs_every_scout). A schedule row is posted exactly when every scout reported that very row and no
  other agreed row is about the same matchup; every other reported row is disputed, and none is both. The rows
  posted do not depend on the order of the scouts or of their rows.
\<close>

theorem schedule_needs_every_scout:
  assumes "set (map set reports') = set (map set reports)"
  shows "(\<forall>g. g \<in> set (fst (agreed_games reports)) \<longleftrightarrow>
      reports \<noteq> [] \<and> (\<forall>r \<in> set reports. g \<in> set r) \<and>
      (\<forall>h. (\<forall>r \<in> set reports. h \<in> set r) \<and> matchup h = matchup g \<longrightarrow> h = g)) \<and>
    (\<forall>g. g \<in> set (snd (agreed_games reports)) \<longleftrightarrow> (\<exists>r \<in> set reports. g \<in> set r) \<and> g \<notin> set (fst (agreed_games reports))) \<and>
    distinct (fst (agreed_games reports)) \<and> distinct (map matchup (fst (agreed_games reports))) \<and>
    fst (agreed_games reports') = fst (agreed_games reports)"
proof (intro conjI)
  let ?agreed = "agreed_list reports"
  have agreed: "set (fst (agreed_games reports)) = set ?agreed" by (simp add: agreed_games_list)
  show "\<forall>g. g \<in> set (fst (agreed_games reports)) \<longleftrightarrow> reports \<noteq> [] \<and> (\<forall>r \<in> set reports. g \<in> set r) \<and>
      (\<forall>h. (\<forall>r \<in> set reports. h \<in> set r) \<and> matchup h = matchup g \<longrightarrow> h = g)"
    unfolding agreed set_agreed_list agreed_row_def in_every_def by blast
  show "\<forall>g. g \<in> set (snd (agreed_games reports)) \<longleftrightarrow> (\<exists>r \<in> set reports. g \<in> set r) \<and> g \<notin> set (fst (agreed_games reports))"
    by (auto simp: agreed_games_def Let_def)
  show "distinct (fst (agreed_games reports))" by (simp add: agreed_games_list agreed_list_def distinct_common_games)
  then show "distinct (map matchup (fst (agreed_games reports)))"
    unfolding distinct_map agreed by (auto simp: inj_on_def set_agreed_list agreed_row_def)
  have "in_every reports' g \<longleftrightarrow> in_every reports g" for g
  proof -
    have "reports' \<noteq> [] \<longleftrightarrow> reports \<noteq> []" using arg_cong [OF assms, of "\<lambda>S. S = {}"] by simp
    moreover have "(\<forall>r \<in> set reports'. g \<in> set r) \<longleftrightarrow> (\<forall>R \<in> set (map set reports'). g \<in> R)" by simp
    ultimately show ?thesis unfolding in_every_def assms by simp
  qed
  then have "set (agreed_list reports') = set ?agreed" by (auto simp: set_agreed_list agreed_row_def)
  then show "fst (agreed_games reports') = fst (agreed_games reports)"
    unfolding agreed_games_list using game_order_inj [of reports]
    by (intro sort_key_same_set) (simp_all add: agreed_list_def distinct_common_games)
qed

definition ex_nfl :: "string \<Rightarrow> int \<Rightarrow> nfl_game" where
  "ex_nfl home kickoff = \<lparr> ng_away = ''Bills'', ng_home = home, ng_kickoff_unix = kickoff, ng_week = 3, ng_season = 2026, ng_status = ''scheduled'' \<rparr>"

text \<open>Two scouts agree on one row, in another order; a kickoff they differ on is disputed.\<close>

theorem schedule_needs_every_scout_witness:
  "fst (agreed_games [[ex_nfl ''Rams'' 7, ex_nfl ''Jets'' 5], [ex_nfl ''Jets'' 5, ex_nfl ''Rams'' 8]]) = [ex_nfl ''Jets'' 5] \<and>
   fst (agreed_games [[ex_nfl ''Jets'' 5, ex_nfl ''Rams'' 8], [ex_nfl ''Rams'' 7, ex_nfl ''Jets'' 5]]) = [ex_nfl ''Jets'' 5]"
proof -
  let ?r = "[[ex_nfl ''Rams'' 7, ex_nfl ''Jets'' 5], [ex_nfl ''Jets'' 5, ex_nfl ''Rams'' 8]]"
  let ?r' = "[[ex_nfl ''Jets'' 5, ex_nfl ''Rams'' 8], [ex_nfl ''Rams'' 7, ex_nfl ''Jets'' 5]]"
  have "fst (agreed_games ?r) = [ex_nfl ''Jets'' 5]" by code_simp
  moreover have "fst (agreed_games ?r') = fst (agreed_games ?r)"
    using schedule_needs_every_scout [of ?r' ?r] by (simp add: insert_commute)
  ultimately show ?thesis by simp
qed

text \<open>
  Abbreviations of cities are matched inside nicknames: whatever order the names have, the Chicago Bears become
  the Chiefs, the New England Patriots the Buccaneers and the Philadelphia Eagles the Dolphins.
\<close>

lemma wrong_names:
  "py_strip ''CHI'' = ''CHI''" "py_strip ''NE'' = ''NE''" "py_strip ''PHI'' = ''PHI''"
  "py_lower ''CHI'' = ''chi''" "py_lower ''NE'' = ''ne''" "py_lower ''PHI'' = ''phi''"
  "filter (\<lambda>n. ''chi'' = n \<or> substring_in n ''chi'' \<or> substring_in ''chi'' n) NICKNAMES = [''chiefs'']"
  "filter (\<lambda>n. ''ne'' = n \<or> substring_in n ''ne'' \<or> substring_in ''ne'' n) NICKNAMES = [''buccaneers'']"
  "filter (\<lambda>n. ''phi'' = n \<or> substring_in n ''phi'' \<or> substring_in ''phi'' n) NICKNAMES = [''dolphins'']"
  "capitalize ''chiefs'' = ''Chiefs''" "capitalize ''buccaneers'' = ''Buccaneers''" "capitalize ''dolphins'' = ''Dolphins''"
  by code_simp+

lemma wrong_team_for_abbreviation:
  assumes "name_order ordered"
  shows "canonicalize_team ordered ''CHI'' = Some ''Chiefs''" and "canonicalize_team ordered ''NE'' = Some ''Buccaneers''"
    and "canonicalize_team ordered ''PHI'' = Some ''Dolphins''"
proof -
  have only: "canonicalize_team ordered raw = Some (capitalize nick)"
    if raw: "py_strip raw \<noteq> []" "py_lower (py_strip raw) = folded"
      and only: "filter (\<lambda>n. folded = n \<or> substring_in n folded \<or> substring_in folded n) NICKNAMES = [nick]" for raw folded nick
  proof -
    let ?P = "\<lambda>n. folded = n \<or> substring_in n folded \<or> substring_in folded n"
    have "set (filter ?P NICKNAMES) = {nick}" by (simp only: only) simp
    then have iff: "n \<in> set ordered \<and> ?P n \<longleftrightarrow> n = nick" for n
      using assms unfolding name_order_def set_filter by blast
    then obtain n where n: "find ?P ordered = Some n" by (cases "find ?P ordered") (auto simp: find_None_iff)
    then have "n = nick" using iff [of n] by (auto simp: find_Some_iff)
    with n show ?thesis using raw by (simp add: canonicalize_team_def Let_def)
  qed
  show "canonicalize_team ordered ''CHI'' = Some ''Chiefs''"
    using only [of "''CHI''" "''chi''" "''chiefs''", unfolded wrong_names] by simp
  show "canonicalize_team ordered ''NE'' = Some ''Buccaneers''"
    using only [of "''NE''" "''ne''" "''buccaneers''", unfolded wrong_names] by simp
  show "canonicalize_team ordered ''PHI'' = Some ''Dolphins''"
    using only [of "''PHI''" "''phi''" "''dolphins''", unfolded wrong_names] by simp
qed

end
