(* ===== verification/Listing_Job.thy ===== *)
theory Listing_Job
  imports Failing Json "HOL-Library.AList" "HOL-Library.Product_Lexorder"
begin

text \<open>
  The listing stage of the oracle job (\<open>oracles/listing/run.py\<close>, \<open>listing/questions.py\<close>): once every game of a
  week is done, the winner markets of the next week's games are created and linked to their schedule rows. A run
  is a computation over \<open>listst\<close>; the API, the node, the clock and the operator's token are answers of
  \<open>list_env\<close>, one per call number. What the run posts is kept in a log, with the outcome of each create.
\<close>

section \<open>Rows and questions\<close>

text \<open>A schedule row; a missing link is the empty text.\<close>

record sched_row =
  sw_away :: string
  sw_home :: string
  sw_kickoff :: int
  sw_week :: int
  sw_season :: int
  sw_status :: "string option"
  sw_listed :: string

text \<open>A row with the market it is linked to.\<close>

record linked_row =
  lw_row :: sched_row
  lw_link :: string

definition winner_question :: "string \<Rightarrow> string \<Rightarrow> string" where
  "winner_question home away = home @ '' vs '' @ away @ '': '' @ home @ '' win?''"

definition row_question :: "sched_row \<Rightarrow> string" where
  "row_question g = winner_question (sw_home g) (sw_away g)"

definition MIN_LEAD_SECONDS :: int where "MIN_LEAD_SECONDS = 600"
definition DONE_STATUSES :: "string set" where "DONE_STATUSES = {''final'', ''postponed'', ''cancelled''}"
definition STALE_STATUSES :: "string option set" where "STALE_STATUSES = {None, Some ''scheduled'', Some ''in_progress''}"

text \<open>The first market with the question and the kickoff; a market without a close time links nothing.\<close>

definition cards_by_key :: "market_json list \<Rightarrow> ((string \<times> int) \<times> string) list" where
  "cards_by_key primaries =
     map (\<lambda>p. ((mj_question p, mj_close_time p), mj_condition_id p))
       (filter (\<lambda>p. mj_condition_id p \<noteq> [] \<and> mj_question p \<noteq> [] \<and> mj_close_time p \<noteq> 0) primaries)"

definition listed_cid :: "((string \<times> int) \<times> string) list \<Rightarrow> sched_row \<Rightarrow> string" where
  "listed_cid cards g =
     (if sw_listed g \<noteq> [] then sw_listed g
      else case map_of cards (row_question g, sw_kickoff g) of None \<Rightarrow> [] | Some cid \<Rightarrow> cid)"

definition link_row :: "((string \<times> int) \<times> string) list \<Rightarrow> sched_row \<Rightarrow> linked_row" where
  "link_row cards g = \<lparr> lw_row = g, lw_link = listed_cid cards g \<rparr>"

text \<open>The live statuses by market; a row's own status is the fallback.\<close>

type_synonym live_status = "(string \<times> string option) list"

definition game_status :: "live_status \<Rightarrow> linked_row \<Rightarrow> string option" where
  "game_status live g =
     (case (if lw_link g = [] then None else map_of live (lw_link g)) of
        Some (Some s) \<Rightarrow> Some s
      | _ \<Rightarrow> sw_status (lw_row g))"

definition is_stale :: "rat \<Rightarrow> int \<Rightarrow> sched_row \<Rightarrow> string option \<Rightarrow> bool" where
  "is_stale now grace g st = (st \<in> STALE_STATUSES \<and> of_int (sw_kickoff g + grace) < now)"

definition game_done :: "live_status \<Rightarrow> rat \<Rightarrow> int \<Rightarrow> linked_row \<Rightarrow> bool" where
  "game_done live now grace g =
     ((case game_status live g of None \<Rightarrow> False | Some s \<Rightarrow> s \<in> DONE_STATUSES) \<or> is_stale now grace (lw_row g) (game_status live g))"

definition blocking_games :: "linked_row list \<Rightarrow> live_status \<Rightarrow> rat \<Rightarrow> int \<Rightarrow> linked_row list" where
  "blocking_games games live now grace = filter (\<lambda>g. \<not> game_done live now grace g) games"

definition week_complete :: "linked_row list \<Rightarrow> live_status \<Rightarrow> rat \<Rightarrow> int \<Rightarrow> bool" where
  "week_complete games live now grace = (games \<noteq> [] \<and> blocking_games games live now grace = [])"

section \<open>State and environment\<close>

record create_req =
  cr_question :: string
  cr_criteria :: string
  cr_close_time :: int
  cr_question_id :: string
  cr_seed :: int
  cr_market_type :: int

datatype create_error = Conflict string | Create_Failed string

text \<open>A create and whether it is settled (it succeeded, or the condition is taken), or an upsert of a row.\<close>

datatype list_event = Post_Create create_req bool | Post_Row sched_row

text \<open>The entries of the result lists, in the order they are made.\<close>

datatype list_note =
    Created string "string option" int
  | Skipped string
  | Too_Late string
  | Inactive string
  | Error string string
  | Squatted string string string
  | Blocked int int "(sched_row \<times> string option) list"
  | Assumed_Done int int sched_row "string option"
  | Collision string int int
  | Orphaned string string int int
  | Paused_Link string string
  | Link_Error string string
  | Deferred string

datatype link_state = Link_Ok | Orphan | Paused | Unknown

text \<open>The chain is asked for a market's close time, when the job has a chain.\<close>

record list_env =
  le_now :: rat
  le_grace :: int
  le_cards :: "nat \<Rightarrow> string + market_json list"
  le_schedule :: "nat \<Rightarrow> string + sched_row list"
  le_detail :: "string \<Rightarrow> nat \<Rightarrow> string + score_json option"
  le_close :: "(string \<Rightarrow> nat \<Rightarrow> string + int) option"
  le_exhausted :: "nat \<Rightarrow> bool"
  le_token :: "nat \<Rightarrow> string + unit"
  le_seed :: "string + int"
  le_question_id :: "int \<Rightarrow> int \<Rightarrow> string \<Rightarrow> string \<Rightarrow> int \<Rightarrow> string"
  le_create :: "create_req \<Rightarrow> nat \<Rightarrow> create_error + string option"
  le_upsert :: "sched_row \<Rightarrow> nat \<Rightarrow> string + unit"

record listst =
  ls_calls :: nat
  ls_log :: "list_event list"
  ls_notes :: "list_note list"
  ls_links :: "(string \<times> link_state) list"
  ls_seen :: "string list"
  ls_token :: bool

type_synonym 'a in_listing = "(listst, string + 'a) state"

definition ask_list :: "(nat \<Rightarrow> 'e + 'a) \<Rightarrow> (listst, 'e + 'a) state" where
  "ask_list f = State (\<lambda>st. (f (ls_calls st), st\<lparr>ls_calls := Suc (ls_calls st)\<rparr>))"

definition get_list :: "(listst \<Rightarrow> 'a) \<Rightarrow> 'a in_listing" where
  "get_list f = State (\<lambda>st. (Inr (f st), st))"

definition mod_list :: "(listst \<Rightarrow> listst) \<Rightarrow> unit in_listing" where
  "mod_list f = State (\<lambda>st. (Inr (), f st))"

definition tell :: "list_note \<Rightarrow> unit in_listing" where
  "tell n = mod_list (\<lambda>st. st\<lparr>ls_notes := ls_notes st @ [n]\<rparr>)"

definition log_list :: "list_event \<Rightarrow> unit in_listing" where
  "log_list e = mod_list (\<lambda>st. st\<lparr>ls_log := ls_log st @ [e]\<rparr>)"

section \<open>Links and rows\<close>

text \<open>\<open>check_link\<close>: whether the linked market is registered on the configured oracle, asked once per run.\<close>

definition ask_link :: "list_env \<Rightarrow> string list \<Rightarrow> string \<Rightarrow> link_state in_listing" where
  "ask_link E visible cid =
     (case le_close E of
        None \<Rightarrow> ok Unknown
      | Some close \<Rightarrow>
          State_Monad.bind (ask_list (close cid)) (\<lambda>r. case r of
            Inl err \<Rightarrow> op_then (tell (Link_Error cid err)) (\<lambda>_. ok Unknown)
          | Inr t \<Rightarrow> ok (if t = 0 then Orphan else if py_lower cid \<in> set visible then Link_Ok else Paused)))"

definition check_link :: "list_env \<Rightarrow> string list \<Rightarrow> string \<Rightarrow> link_state in_listing" where
  "check_link E visible cid =
     op_then (get_list (\<lambda>st. map_of (ls_links st) cid)) (\<lambda>known.
     case known of
       Some s \<Rightarrow> ok s
     | None \<Rightarrow> op_then (ask_link E visible cid) (\<lambda>s.
         op_then (mod_list (\<lambda>st. st\<lparr>ls_links := (cid, s) # ls_links st\<rparr>)) (\<lambda>_. ok s)))"

definition operator_token :: "list_env \<Rightarrow> unit in_listing" where
  "operator_token E =
     op_then (get_list ls_token) (\<lambda>minted.
     if minted then ok ()
     else op_then (ask_list (le_token E)) (\<lambda>_. mod_list (\<lambda>st. st\<lparr>ls_token := True\<rparr>)))"

definition schedule_body :: "sched_row \<Rightarrow> string \<Rightarrow> sched_row" where
  "schedule_body g cid =
     g\<lparr>sw_status := Some (case sw_status g of None \<Rightarrow> ''scheduled'' | Some s \<Rightarrow> if s = [] then ''scheduled'' else s), sw_listed := cid\<rparr>"

definition post_row :: "list_env \<Rightarrow> sched_row \<Rightarrow> unit in_listing" where
  "post_row E row = op_then (log_list (Post_Row row)) (\<lambda>_. ask_list (le_upsert E row))"

definition clear_link :: "list_env \<Rightarrow> sched_row \<Rightarrow> string \<Rightarrow> unit in_listing" where
  "clear_link E g q =
     catch (op_then (operator_token E) (\<lambda>_. post_row E (schedule_body g []))) (\<lambda>err. tell (Error q (''unlink orphan: '' @ err)))"

section \<open>Creating a market\<close>

definition row_question_id :: "list_env \<Rightarrow> sched_row \<Rightarrow> string" where
  "row_question_id E g = le_question_id E (sw_season g) (sw_week g) (sw_away g) (sw_home g) (sw_kickoff g)"

definition create_body :: "list_env \<Rightarrow> sched_row \<Rightarrow> int \<Rightarrow> create_req" where
  "create_body E g seed = \<lparr> cr_question = row_question g, cr_criteria = ''NFL winner; YES if named team wins'',
     cr_close_time = sw_kickoff g, cr_question_id = row_question_id E g, cr_seed = seed, cr_market_type = 0 \<rparr>"

definition add_seen :: "string \<Rightarrow> unit in_listing" where
  "add_seen qid = mod_list (\<lambda>st. st\<lparr>ls_seen := qid # ls_seen st\<rparr>)"

text \<open>The create and what follows from its answer; \<open>True\<close> when a market was created.\<close>

definition send_listing :: "list_env \<Rightarrow> sched_row \<Rightarrow> create_req \<Rightarrow> bool in_listing" where
  "send_listing E g body =
     (let q = cr_question body; qid = cr_question_id body in
      State_Monad.bind (ask_list (le_create E body)) (\<lambda>r. case r of
        Inl (Conflict detail) \<Rightarrow>
          op_then (log_list (Post_Create body True)) (\<lambda>_.
          op_then (tell (Squatted q qid detail)) (\<lambda>_.
          op_then (add_seen qid) (\<lambda>_. ok False)))
      | Inl (Create_Failed err) \<Rightarrow>
          op_then (log_list (Post_Create body False)) (\<lambda>_.
          op_then (tell (Error q err)) (\<lambda>_. ok False))
      | Inr created \<Rightarrow>
          op_then (log_list (Post_Create body True)) (\<lambda>_.
          op_then (add_seen qid) (\<lambda>_.
          op_then (tell (Created q created (cr_close_time body))) (\<lambda>_.
          case created of
            None \<Rightarrow> ok True
          | Some cid \<Rightarrow>
              if cid = [] then ok True
              else catch (op_then (post_row E (schedule_body g cid)) (\<lambda>_. ok True)) (\<lambda>_. ok True))))))"

definition list_game :: "list_env \<Rightarrow> string list \<Rightarrow> sched_row \<Rightarrow> bool in_listing" where
  "list_game E listed g =
     (let q = row_question g; qid = row_question_id E g in
      op_then (get_list (\<lambda>st. qid \<in> set (ls_seen st))) (\<lambda>seen.
      if seen then op_then (tell (Skipped q)) (\<lambda>_. ok False)
      else
        op_then (if q \<in> set listed then tell (Collision q (sw_season g) (sw_week g)) else ok ()) (\<lambda>_.
        if (case sw_status g of None \<Rightarrow> ''scheduled'' | Some s \<Rightarrow> if s = [] then ''scheduled'' else s) \<noteq> ''scheduled''
        then op_then (tell (Inactive q)) (\<lambda>_. ok False)
        else if of_int (sw_kickoff g) \<le> le_now E + of_int MIN_LEAD_SECONDS then op_then (tell (Too_Late q)) (\<lambda>_. ok False)
        else op_then (ask_list (\<lambda>n. Inr (le_exhausted E n))) (\<lambda>spent.
          if spent then op_then (tell (Deferred q)) (\<lambda>_. ok False)
          else op_then (operator_token E) (\<lambda>_.
            case le_seed E of
              Inl err \<Rightarrow> raise err
            | Inr seed \<Rightarrow> send_listing E g (create_body E g seed))))))"

section \<open>A week\<close>

definition list_row :: "list_env \<Rightarrow> string list \<Rightarrow> string list \<Rightarrow> linked_row \<Rightarrow> unit in_listing" where
  "list_row E visible listed g =
     (let q = row_question (lw_row g); linked = lw_link g;
          create = op_then (list_game E listed (lw_row g)) (\<lambda>made.
            if \<not> made \<and> linked \<noteq> [] \<and> sw_listed (lw_row g) \<noteq> [] then clear_link E (lw_row g) q else ok ()) in
      if linked = [] then create
      else op_then (check_link E visible linked) (\<lambda>s.
        op_then (if s = Paused then tell (Paused_Link q linked) else ok ()) (\<lambda>_.
        if s \<noteq> Orphan then tell (Skipped q)
        else op_then (tell (Orphaned q linked (sw_season (lw_row g)) (sw_week (lw_row g)))) (\<lambda>_. create))))"

fun each_row :: "('a \<Rightarrow> unit in_listing) \<Rightarrow> 'a list \<Rightarrow> unit in_listing" where
  "each_row f [] = ok ()"
| "each_row f (x # xs) = op_then (f x) (\<lambda>_. each_row f xs)"

definition week_of :: "linked_row \<Rightarrow> int \<times> int" where
  "week_of g = (sw_season (lw_row g), sw_week (lw_row g))"

definition week_games :: "linked_row list \<Rightarrow> int \<times> int \<Rightarrow> linked_row list" where
  "week_games rows week = filter (\<lambda>g. week_of g = week) rows"

definition note_assumed :: "list_env \<Rightarrow> live_status \<Rightarrow> linked_row \<Rightarrow> unit in_listing" where
  "note_assumed E live g =
     (let s = game_status live g in
      if (case s of None \<Rightarrow> True | Some t \<Rightarrow> t \<notin> DONE_STATUSES) \<and> is_stale (le_now E) (le_grace E) (lw_row g) s
      then tell (Assumed_Done (sw_season (lw_row g)) (sw_week (lw_row g)) (lw_row g) s) else ok ())"

definition list_week :: "list_env \<Rightarrow> live_status \<Rightarrow> string list \<Rightarrow> string list \<Rightarrow> linked_row list \<Rightarrow> int \<times> int \<Rightarrow> unit in_listing" where
  "list_week E live visible listed rows week =
     (let games = week_games rows week; nxt = week_games rows (fst week, snd week + 1);
          blocking = blocking_games games live (le_now E) (le_grace E) in
      if nxt = [] then ok ()
      else op_then (each_row (note_assumed E live) games) (\<lambda>_.
        if \<not> week_complete games live (le_now E) (le_grace E)
        then tell (Blocked (fst week) (snd week) (map (\<lambda>g. (lw_row g, game_status live g)) blocking))
        else each_row (list_row E visible listed) nxt))"

section \<open>A run\<close>

text \<open>A detail that cannot be read leaves the row's own status.\<close>

fun live_statuses :: "list_env \<Rightarrow> string list \<Rightarrow> live_status in_listing" where
  "live_statuses E [] = ok []"
| "live_statuses E (cid # cids) =
     State_Monad.bind (ask_list (le_detail E cid)) (\<lambda>r.
     op_then (live_statuses E cids) (\<lambda>rest.
     ok ((cid, case r of Inr (Some score) \<Rightarrow> Some (sj_status score) | _ \<Rightarrow> None) # rest)))"

text \<open>\<open>run\<close>, after the configuration was read; the second component of the result is \<open>linkCheck\<close>.\<close>

definition listing_run :: "list_env \<Rightarrow> unit in_listing" where
  "listing_run E =
     op_then (ask_list (le_cards E)) (\<lambda>primaries.
     op_then (ask_list (le_schedule E)) (\<lambda>schedule.
     let named = filter (\<lambda>p. mj_condition_id p \<noteq> []) primaries;
         visible = map (py_lower \<circ> mj_condition_id) named;
         listed = map mj_question (filter (\<lambda>p. mj_question p \<noteq> []) named);
         rows = map (link_row (cards_by_key primaries)) schedule;
         cids = sort (remdups (filter (\<lambda>cid. cid \<noteq> []) (map lw_link rows))) in
     op_then (live_statuses E cids) (\<lambda>live.
     each_row (list_week E live visible listed rows) (sort (remdups (map week_of rows))))))"

definition link_check :: "list_env \<Rightarrow> list_note list \<Rightarrow> string" where
  "link_check E notes =
     (if le_close E = None then ''off''
      else if list_ex (\<lambda>n. case n of Link_Error cid err \<Rightarrow> True | _ \<Rightarrow> False) notes then ''errors'' else ''on'')"

definition listing_ok :: "list_note list \<Rightarrow> bool" where
  "listing_ok notes = (\<not> list_ex (\<lambda>n. case n of Error q err \<Rightarrow> True | _ \<Rightarrow> False) notes)"

definition fresh_listing :: listst where
  "fresh_listing = \<lparr> ls_calls = 0, ls_log = [], ls_notes = [], ls_links = [], ls_seen = [], ls_token = False \<rparr>"

end
