(* ===== verification/Listing_Job_Safety.thy ===== *)
theory Listing_Job_Safety
  imports Listing_Job
begin

text \<open>
  What a run of the listing stage may post: markets of games whose week is next and that have no live market yet,
  each once, and links that follow the markets.
\<close>

section \<open>Justified posts\<close>

text \<open>A game is over: its market's live score or its row says so, or it kicked off longer ago than the grace.\<close>

definition game_over :: "list_env \<Rightarrow> linked_row \<Rightarrow> bool" where
  "game_over E g =
     ((\<exists>n score. lw_link g \<noteq> [] \<and> le_detail E (lw_link g) n = Inr (Some score) \<and> sj_status score \<in> DONE_STATUSES) \<or>
      (\<exists>s. sw_status (lw_row g) = Some s \<and> s \<in> DONE_STATUSES) \<or> of_int (sw_kickoff (lw_row g) + le_grace E) < le_now E)"

definition last_week_over :: "list_env \<Rightarrow> linked_row list \<Rightarrow> linked_row \<Rightarrow> bool" where
  "last_week_over E rows g =
     (let before = (sw_season (lw_row g), sw_week (lw_row g) - 1) in
      (\<exists>h \<in> set rows. week_of h = before) \<and> (\<forall>h \<in> set rows. week_of h = before \<longrightarrow> game_over E h))"

text \<open>No market is linked, or the chain does not know the one that is.\<close>

definition unregistered :: "list_env \<Rightarrow> string \<Rightarrow> bool" where
  "unregistered E cid = (\<exists>close n. le_close E = Some close \<and> close cid n = Inr 0)"

definition unlinked :: "list_env \<Rightarrow> linked_row \<Rightarrow> bool" where
  "unlinked E g = (lw_link g = [] \<or> unregistered E (lw_link g))"

definition creatable :: "list_env \<Rightarrow> sched_row \<Rightarrow> bool" where
  "creatable E g = (sw_status g \<in> {None, Some [], Some ''scheduled''} \<and> of_int (sw_kickoff g) > le_now E + of_int MIN_LEAD_SECONDS)"

fun justified :: "list_env \<Rightarrow> sched_row \<Rightarrow> list_event \<Rightarrow> bool" where
  "justified E g (Post_Create body settled) =
     (creatable E g \<and> (\<exists>seed. le_seed E = Inr seed \<and> body = create_body E g seed))"
| "justified E g (Post_Row row) =
     ((creatable E g \<and> (\<exists>seed cid n. le_seed E = Inr seed \<and> cid \<noteq> [] \<and> le_create E (create_body E g seed) n = Inr (Some cid) \<and>
         row = schedule_body g cid)) \<or>
      (sw_listed g \<noteq> [] \<and> row = schedule_body g []))"

definition allowed :: "list_env \<Rightarrow> linked_row list \<Rightarrow> list_event \<Rightarrow> bool" where
  "allowed E rows ev = (\<exists>g \<in> set rows. unlinked E g \<and> last_week_over E rows g \<and> justified E (lw_row g) ev)"

section \<open>One market per game\<close>

fun settles :: "list_event \<Rightarrow> string option" where
  "settles (Post_Create body True) = Some (cr_question_id body)"
| "settles _ = None"

definition settled :: "list_event list \<Rightarrow> string list" where
  "settled evs = List.map_filter settles evs"

lemma settled_simps [simp]:
  "settled [] = []" "settled (xs @ ys) = settled xs @ settled ys" "settled [Post_Row row] = []"
  "settled [Post_Create body False] = []" "settled [Post_Create body True] = [cr_question_id body]"
  by (simp_all add: settled_def map_filter_def)

text \<open>No create is sent for a question id that is settled.\<close>

definition once :: "list_event list \<Rightarrow> bool" where
  "once evs = (\<forall>xs body s ys. evs = xs @ Post_Create body s # ys \<longrightarrow> cr_question_id body \<notin> set (settled xs))"

lemma once_append:
  assumes "once evs" and "\<And>body s. ev = Post_Create body s \<Longrightarrow> cr_question_id body \<notin> set (settled evs)"
  shows "once (evs @ [ev])"
  unfolding once_def
proof (intro allI impI)
  fix xs body s ys
  assume eq: "evs @ [ev] = xs @ Post_Create body s # ys"
  show "cr_question_id body \<notin> set (settled xs)"
  proof (cases ys rule: rev_exhaust)
    case Nil
    with eq assms(2) show ?thesis by simp
  next
    case (snoc zs z)
    with eq have "evs = xs @ Post_Create body s # zs" by simp
    with assms(1) show ?thesis unfolding once_def by blast
  qed
qed

lemma once_distinct: "once evs \<Longrightarrow> distinct (settled evs)"
proof (induction evs rule: rev_induct)
  case (snoc ev evs)
  have "once evs" unfolding once_def using snoc.prems unfolding once_def by (metis append_Cons append_assoc)
  moreover have "ev = Post_Create body s \<Longrightarrow> cr_question_id body \<notin> set (settled evs)" for body s
    using snoc.prems unfolding once_def by blast
  ultimately show ?case using snoc.IH by (cases ev rule: settles.cases) auto
qed simp

section \<open>The state of a run\<close>

text \<open>
  Cached orphans are unregistered, and what is settled was seen, but for \<open>extra\<close>; \<open>busy\<close> is the question id of
  the game that is being listed.
\<close>

definition list_inv :: "list_env \<Rightarrow> string option \<Rightarrow> string set \<Rightarrow> listst \<Rightarrow> bool" where
  "list_inv E busy extra st =
     ((\<forall>cid. map_of (ls_links st) cid = Some Orphan \<longrightarrow> unregistered E cid) \<and> once (ls_log st) \<and>
      set (settled (ls_log st)) \<subseteq> set (ls_seen st) \<union> extra \<and> (\<forall>q. busy = Some q \<longrightarrow> q \<notin> set (ls_seen st)))"

abbreviation listing :: "list_env \<Rightarrow> (list_event \<Rightarrow> bool) \<Rightarrow> string option \<Rightarrow> string set \<Rightarrow> (listst, 'r) state \<Rightarrow> ('r \<Rightarrow> bool) \<Rightarrow> bool" where
  "listing E G busy extra m P \<equiv> safe ls_log (list_inv E busy extra) G m P"

lemma list_inv_frame [simp]:
  "list_inv E b x (st\<lparr>ls_calls := n\<rparr>) = list_inv E b x st" "list_inv E b x (st\<lparr>ls_notes := ns\<rparr>) = list_inv E b x st"
  "list_inv E b x (st\<lparr>ls_token := t\<rparr>) = list_inv E b x st"
  by (simp_all add: list_inv_def)

lemma list_inv_idle: "list_inv E b x st \<Longrightarrow> list_inv E None x st"
  by (simp add: list_inv_def)

lemma run_tell: "P (Inr ()) \<Longrightarrow> listing E G b x (tell n) P"
  by (simp add: triple_def tell_def mod_list_def stays_def)

lemma run_ask_list: "(\<And>n. P (f n)) \<Longrightarrow> listing E G b x (ask_list f) P"
  by (simp add: triple_def ask_list_def stays_def)

lemma run_get: "(\<And>y. P (Inr y)) \<Longrightarrow> listing E G b x (get_list f) P"
  by (simp add: triple_def get_list_def stays_def)

lemma run_token: "(\<And>r. P r) \<Longrightarrow> listing E G b x (operator_token E) P"
  unfolding operator_token_def
  by (intro safe_then [where P = "\<lambda>_. True"] run_get triple_cases safe_ok run_ask_list)
    (auto simp: triple_def mod_list_def stays_def)

lemma run_log_row: "G (Post_Row row) \<Longrightarrow> P (Inr ()) \<Longrightarrow> listing E G b x (log_list (Post_Row row)) P"
  by (auto simp: triple_def log_list_def mod_list_def stays_def list_inv_def intro!: once_append)

lemma run_post_row: "G (Post_Row row) \<Longrightarrow> (\<And>r. P r) \<Longrightarrow> listing E G b x (post_row E row) P"
  unfolding post_row_def by (intro safe_then [where P = "\<lambda>r. r = Inr ()"] run_log_row run_ask_list) auto

section \<open>Handlers\<close>

lemma run_log_create:
  assumes "G (Post_Create body s)"
  shows "triple ls_log G (list_inv E (Some (cr_question_id body)) {}) (log_list (Post_Create body s))
    (stays (list_inv E None (if s then {cr_question_id body} else {})) (\<lambda>r. r = Inr ()))"
proof -
  have "once (ls_log st @ [Post_Create body s])" if inv: "list_inv E (Some (cr_question_id body)) {} st" for st
    using inv by (intro once_append) (auto simp: list_inv_def)
  then show ?thesis using assms
    by (cases s) (auto simp: triple_def log_list_def mod_list_def list_inv_def stays_def)
qed

lemma run_add_seen: "P (Inr ()) \<Longrightarrow> triple ls_log G (list_inv E None {q}) (add_seen q) (stays (list_inv E None {}) P)"
  by (auto simp: triple_def add_seen_def mod_list_def stays_def list_inv_def)

lemma run_check_link:
  "listing E G b x (check_link E visible cid) (\<lambda>r. r = Inr Orphan \<longrightarrow> unregistered E cid)"
proof -
  have known: "triple ls_log G (list_inv E b x) (get_list (\<lambda>st. map_of (ls_links st) cid))
      (stays (list_inv E b x) (\<lambda>r. r = Inr (Some Orphan) \<longrightarrow> unregistered E cid))"
    by (auto simp: triple_def get_list_def stays_def list_inv_def)
  have asked: "listing E G b x (ask_link E visible cid) (\<lambda>r. r = Inr Orphan \<longrightarrow> unregistered E cid)"
    unfolding ask_link_def
  proof (intro triple_option safe_ok)
    fix close assume "le_close E = Some close"
    then show "listing E G b x (State_Monad.bind (ask_list (close cid)) (\<lambda>r. case r of
          Inl err \<Rightarrow> op_then (tell (Link_Error cid err)) (\<lambda>_. ok Unknown)
        | Inr t \<Rightarrow> ok (if t = 0 then Orphan else if py_lower cid \<in> set visible then Link_Ok else Paused)))
        (\<lambda>r. r = Inr Orphan \<longrightarrow> unregistered E cid)"
      by (intro safe_bind [OF run_ask_list [where P = "\<lambda>r. r = Inr 0 \<longrightarrow> unregistered E cid"]] triple_sum
          safe_then [OF run_tell [where P = "\<lambda>r. r = Inr ()"]] safe_ok) (auto simp: unregistered_def)
  qed simp
  have cache: "listing E G b x (mod_list (\<lambda>st. st\<lparr>ls_links := (cid, s) # ls_links st\<rparr>)) (\<lambda>r. r = Inr ())"
    if new: "s = Orphan \<longrightarrow> unregistered E cid" for s
    using new by (auto simp: triple_def mod_list_def stays_def list_inv_def)
  show ?thesis
    unfolding check_link_def
    by (rule safe_then [OF known], rule triple_option, rule safe_then [OF asked], rule safe_then [OF cache])
      (auto intro: safe_ok simp: stays_def)
qed

lemma run_link_created:
  assumes "G (Post_Row (schedule_body g cid))" and "P (Inr True)"
  shows "listing E G b x (catch (op_then (post_row E (schedule_body g cid)) (\<lambda>_. ok True)) (\<lambda>_. ok True)) P"
  by (rule safe_catch [where P = "\<lambda>r. \<forall>y. r = Inr y \<longrightarrow> y"], rule safe_then [OF run_post_row [where P = "\<lambda>_. True"]])
    (use assms in \<open>auto intro: safe_ok\<close>)

lemma run_send_listing:
  assumes create: "\<And>s. G (Post_Create body s)"
    and link: "\<And>cid n. cid \<noteq> [] \<Longrightarrow> le_create E body n = Inr (Some cid) \<Longrightarrow> G (Post_Row (schedule_body g cid))"
    and "\<And>r. P r"
  shows "triple ls_log G (list_inv E (Some (cr_question_id body)) {}) (send_listing E g body) (stays (list_inv E None {}) P)"
proof -
  let ?q = "cr_question_id body"
  have asked: "listing E G (Some ?q) {} (ask_list (le_create E body)) (\<lambda>r. \<exists>n. le_create E body n = r)"
    by (rule run_ask_list) blast
  have settle: "triple ls_log G (list_inv E (Some ?q) {}) (op_then (log_list (Post_Create body True)) (\<lambda>_. f)) Q"
    if f: "triple ls_log G (list_inv E None {?q}) f Q" for f :: "bool in_listing" and Q
  proof (rule triple_then [OF run_log_create])
    show "G (Post_Create body True)" by (rule create)
    show "triple ls_log G (stays (list_inv E None (if True then {?q} else {})) (\<lambda>r. r = Inr ()) (Inr x)) f Q" for x
      using f by (intro triple_stays) simp
  qed (simp add: stays_def)
  have seen: "triple ls_log G (list_inv E None {?q}) (op_then (add_seen ?q) (\<lambda>_. f)) Q"
    if f: "triple ls_log G (list_inv E None {}) f Q" for f :: "bool in_listing" and Q
    by (rule triple_then [OF run_add_seen [where P = "\<lambda>r. r = Inr ()"]], simp, rule triple_stays, rule f) (simp add: stays_def)
  have told: "listing E G None x (op_then (tell n) (\<lambda>_. f)) P" if f: "listing E G None x f P" for n f x
    by (rule safe_then [OF run_tell [where P = "\<lambda>r. r = Inr ()"]]) (use f in auto)
  show ?thesis
    unfolding send_listing_def Let_def
  proof (rule safe_bind [OF asked])
    fix r
    assume "\<exists>n. le_create E body n = r"
    then obtain n where r: "le_create E body n = r" ..
    show "triple ls_log G (list_inv E (Some ?q) {})
      (case r of
        Inl (Conflict detail) \<Rightarrow>
          op_then (log_list (Post_Create body True)) (\<lambda>_. op_then (tell (Squatted (cr_question body) ?q detail)) (\<lambda>_.
          op_then (add_seen ?q) (\<lambda>_. ok False)))
      | Inl (Create_Failed err) \<Rightarrow>
          op_then (log_list (Post_Create body False)) (\<lambda>_. op_then (tell (Error (cr_question body) err)) (\<lambda>_. ok False))
      | Inr created \<Rightarrow>
          op_then (log_list (Post_Create body True)) (\<lambda>_. op_then (add_seen ?q) (\<lambda>_.
          op_then (tell (Created (cr_question body) created (cr_close_time body))) (\<lambda>_. case created of
            None \<Rightarrow> ok True
          | Some cid \<Rightarrow>
              if cid = [] then ok True
              else catch (op_then (post_row E (schedule_body g cid)) (\<lambda>_. ok True)) (\<lambda>_. ok True)))))
      (stays (list_inv E None {}) P)"
    proof (cases r)
      case (Inl e)
      show ?thesis
      proof (cases e)
        case (Conflict detail)
        have "triple ls_log G (list_inv E None {?q}) (op_then (tell (Squatted (cr_question body) ?q detail)) (\<lambda>_.
            op_then (add_seen ?q) (\<lambda>_. ok False))) (stays (list_inv E None {}) P)"
          by (rule triple_then [OF run_tell [where P = "\<lambda>r. r = Inr ()"]], simp, rule triple_stays, rule seen, rule safe_ok, rule assms(3))
            (simp add: stays_def)
        then show ?thesis unfolding Inl Conflict by (simp add: settle)
      next
        case (Create_Failed err)
        show ?thesis
          unfolding Inl Create_Failed sum.case create_error.case
        proof (rule triple_then [OF run_log_create])
          show "G (Post_Create body False)" by (rule create)
          show "triple ls_log G (stays (list_inv E None (if False then {?q} else {})) (\<lambda>r. r = Inr ()) (Inr x))
              (op_then (tell (Error (cr_question body) err)) (\<lambda>_. ok False)) (stays (list_inv E None {}) P)" for x
            by (intro triple_stays) (simp, intro told safe_ok assms(3))
        qed (simp add: stays_def)
      qed
    next
      case (Inr created)
      have "listing E G None {} (case created of None \<Rightarrow> ok True
          | Some cid \<Rightarrow> if cid = [] then ok True
              else catch (op_then (post_row E (schedule_body g cid)) (\<lambda>_. ok True)) (\<lambda>_. ok True)) P"
        using r by (intro triple_cases safe_ok run_link_created link [of _ n] assms(3)) (auto simp: Inr)
      from seen [OF told [OF this]] show ?thesis unfolding Inr sum.case by (rule settle)
    qed
  qed
qed

lemma creatable_status:
  "(case sw_status g of None \<Rightarrow> ''scheduled'' | Some s \<Rightarrow> if s = [] then ''scheduled'' else s) = ''scheduled'' \<longleftrightarrow>
    sw_status g \<in> {None, Some [], Some ''scheduled''}"
  by (auto split: option.split)

lemma run_list_game:
  assumes "\<And>ev. justified E g ev \<Longrightarrow> G ev" and "\<And>r. P r"
  shows "listing E G None {} (list_game E listed g) P"
proof -
  let ?q = "row_question_id E g"
  have told: "listing E G b x (op_then (tell n) (\<lambda>_. f)) P" if f: "listing E G b x f P" for n f b x
    by (rule safe_then [OF run_tell [where P = "\<lambda>r. r = Inr ()"]]) (use f in auto)
  have idle: "triple ls_log G (list_inv E (Some ?q) {}) m (stays (list_inv E None {}) P)"
    if m: "listing E G (Some ?q) {} m P" for m :: "bool in_listing"
    using m by (rule triple_mono) (auto simp: stays_def list_inv_idle)
  have looked: "triple ls_log G (list_inv E None {}) (get_list (\<lambda>st. ?q \<in> set (ls_seen st)))
      (\<lambda>r. list_inv E (if r = Inr False then Some ?q else None) {})"
    by (auto simp: triple_def get_list_def list_inv_def)
  have free: "triple ls_log G (list_inv E (Some ?q) {})
      (op_then (operator_token E) (\<lambda>_. case le_seed E of Inl err \<Rightarrow> raise err | Inr seed \<Rightarrow> send_listing E g (create_body E g seed)))
      (stays (list_inv E None {}) P)" if c: "creatable E g"
  proof (rule safe_then [OF run_token [where P = "\<lambda>_. True"]])
    show "triple ls_log G (list_inv E (Some ?q) {})
        (case le_seed E of Inl err \<Rightarrow> raise err | Inr seed \<Rightarrow> send_listing E g (create_body E g seed)) (stays (list_inv E None {}) P)"
    proof (rule triple_sum)
      show "triple ls_log G (list_inv E (Some ?q) {}) (raise err) (stays (list_inv E None {}) P)" for err
        by (intro idle safe_raise assms(2))
    next
      fix seed assume seed: "le_seed E = Inr seed"
      have qid: "cr_question_id (create_body E g seed) = ?q" by (simp add: create_body_def)
      have "triple ls_log G (list_inv E (Some (cr_question_id (create_body E g seed))) {}) (send_listing E g (create_body E g seed))
          (stays (list_inv E None {}) P)"
      proof (rule run_send_listing)
        show "G (Post_Create (create_body E g seed) s)" for s by (rule assms(1)) (use c seed in auto)
        show "G (Post_Row (schedule_body g cid))" if "cid \<noteq> []" "le_create E (create_body E g seed) n = Inr (Some cid)" for cid n
          by (rule assms(1)) (unfold justified.simps, use c seed that in blast)
      qed (rule assms(2))
      then show "triple ls_log G (list_inv E (Some ?q) {}) (send_listing E g (create_body E g seed)) (stays (list_inv E None {}) P)"
        unfolding qid .
    qed
  qed (auto simp: stays_def assms(2) list_inv_idle)
  show ?thesis
    unfolding list_game_def Let_def
  proof (rule triple_then [OF looked])
    fix seen
    show "triple ls_log G (list_inv E (if Inr seen = Inr False then Some ?q else None) {})
      (if seen then op_then (tell (Skipped (row_question g))) (\<lambda>_. ok False)
       else op_then (if row_question g \<in> set listed then tell (Collision (row_question g) (sw_season g) (sw_week g)) else ok ()) (\<lambda>_.
        if (case sw_status g of None \<Rightarrow> ''scheduled'' | Some s \<Rightarrow> if s = [] then ''scheduled'' else s) \<noteq> ''scheduled''
        then op_then (tell (Inactive (row_question g))) (\<lambda>_. ok False)
        else if of_int (sw_kickoff g) \<le> le_now E + of_int MIN_LEAD_SECONDS
        then op_then (tell (Too_Late (row_question g))) (\<lambda>_. ok False)
        else op_then (ask_list (\<lambda>n. Inr (le_exhausted E n))) (\<lambda>spent.
          if spent then op_then (tell (Deferred (row_question g))) (\<lambda>_. ok False)
          else op_then (operator_token E) (\<lambda>_.
            case le_seed E of Inl err \<Rightarrow> raise err | Inr seed \<Rightarrow> send_listing E g (create_body E g seed)))))
      (stays (list_inv E None {}) P)"
    proof (cases seen)
      case True
      then show ?thesis using told [OF safe_ok [OF assms(2)], of None "{}"] by simp
    next
      case False
      then have seen: "seen = False" by simp
      have small: "triple ls_log G (list_inv E (Some ?q) {}) (op_then (tell n) (\<lambda>_. ok False)) (stays (list_inv E None {}) P)" for n
        by (intro idle told safe_ok assms(2))
      show ?thesis
        unfolding seen creatable_status sum.inject simp_thms if_True if_False
        apply (rule safe_then [where P = "\<lambda>_. True"])
          apply (rule triple_if)
           apply (rule run_tell, simp)
          apply (rule safe_ok, simp)
         apply (rule triple_if, rule small)
         apply (rule triple_if, rule small)
         apply (rule safe_then [OF run_ask_list [where P = "\<lambda>_. True"]], simp)
          apply (rule triple_if, rule small)
          apply (rule free)
        by (auto simp: creatable_def stays_def assms(2) list_inv_idle)
    qed
  qed (auto simp: stays_def assms(2))
qed

lemma run_clear_link:
  assumes "G (Post_Row (schedule_body g []))" and "\<And>r. P r"
  shows "listing E G b x (clear_link E g q) P"
  unfolding clear_link_def
  by (rule safe_catch [where P = "\<lambda>_. True"], rule safe_then [OF run_token [where P = "\<lambda>_. True"]])
    (use assms in \<open>auto intro: run_post_row run_tell\<close>)

text \<open>One row of the next week; the posts it makes are justified when no registered market is linked to it.\<close>

lemma run_list_row:
  assumes G: "\<And>ev. unlinked E g \<Longrightarrow> justified E (lw_row g) ev \<Longrightarrow> G ev" and P: "\<And>r. P r"
  shows "listing E G None {} (list_row E visible listed g) P"
proof -
  let ?g = "lw_row g"
  let ?create = "op_then (list_game E listed ?g) (\<lambda>made.
      if \<not> made \<and> lw_link g \<noteq> [] \<and> sw_listed ?g \<noteq> [] then clear_link E ?g (row_question ?g) else ok ())"
  have create: "listing E G None {} ?create P" if free: "unlinked E g"
  proof (rule safe_then [OF run_list_game [where P = "\<lambda>_. True"]])
    fix made
    show "listing E G None {} (if \<not> made \<and> lw_link g \<noteq> [] \<and> sw_listed ?g \<noteq> [] then clear_link E ?g (row_question ?g) else ok ()) P"
      by (intro triple_if run_clear_link G [OF free] safe_ok P) simp
  qed (use G [OF free] P in auto)
  have told: "listing E G None {} (op_then (tell n) (\<lambda>_. f)) P" if f: "listing E G None {} f P" for n f
    by (rule safe_then [OF run_tell [where P = "\<lambda>r. r = Inr ()"]]) (use f in auto)
  show ?thesis
    unfolding list_row_def Let_def
  proof (rule triple_if)
    assume "lw_link g = []"
    then show "listing E G None {} ?create P" by (intro create) (simp add: unlinked_def)
  next
    assume "lw_link g \<noteq> []"
    show "listing E G None {} (op_then (check_link E visible (lw_link g)) (\<lambda>s.
        op_then (if s = Paused then tell (Paused_Link (row_question ?g) (lw_link g)) else ok ()) (\<lambda>_.
        if s \<noteq> Orphan then tell (Skipped (row_question ?g))
        else op_then (tell (Orphaned (row_question ?g) (lw_link g) (sw_season ?g) (sw_week ?g))) (\<lambda>_. ?create)))) P"
    proof (rule safe_then [OF run_check_link])
      fix s
      assume s: "Inr s = Inr Orphan \<longrightarrow> unregistered E (lw_link g)"
      show "listing E G None {} (op_then (if s = Paused then tell (Paused_Link (row_question ?g) (lw_link g)) else ok ()) (\<lambda>_.
        if s \<noteq> Orphan then tell (Skipped (row_question ?g))
        else op_then (tell (Orphaned (row_question ?g) (lw_link g) (sw_season ?g) (sw_week ?g))) (\<lambda>_. ?create))) P"
      proof (rule safe_then [where P = "\<lambda>_. True"])
        show "listing E G None {} (if s \<noteq> Orphan then tell (Skipped (row_question ?g))
          else op_then (tell (Orphaned (row_question ?g) (lw_link g) (sw_season ?g) (sw_week ?g))) (\<lambda>_. ?create)) P"
          by (intro triple_if run_tell P told create) (use s in \<open>simp add: unlinked_def\<close>)
      qed (auto intro: triple_if run_tell safe_ok P)
    qed (simp add: stays_def P)
  qed
qed

lemma run_each_row:
  assumes "\<And>g. g \<in> set gs \<Longrightarrow> listing E G b x (f g) (\<lambda>_. True)"
  shows "listing E G b x (each_row f gs) (\<lambda>_. True)"
  using assms
proof (induction gs)
  case (Cons g gs)
  show ?case
    unfolding each_row.simps
    by (rule safe_then [where P = "\<lambda>_. True"]) (use Cons in auto)
qed (simp add: safe_ok)

text \<open>The statuses come from the details.\<close>

definition read_live :: "list_env \<Rightarrow> live_status \<Rightarrow> bool" where
  "read_live E live = (\<forall>cid s. map_of live cid = Some (Some s) \<longrightarrow> (\<exists>n score. le_detail E cid n = Inr (Some score) \<and> sj_status score = s))"

lemma run_live_statuses:
  "listing E G b x (live_statuses E cids) (\<lambda>r. \<forall>live. r = Inr live \<longrightarrow> read_live E live)"
proof (induction cids)
  case (Cons cid cids)
  have asked: "listing E G b x (ask_list (le_detail E cid)) (\<lambda>r. \<exists>n. le_detail E cid n = r)"
    by (rule run_ask_list) blast
  show ?case
    unfolding live_statuses.simps
  proof (rule safe_bind [OF asked])
    fix r
    assume "\<exists>n. le_detail E cid n = r"
    then obtain n where r: "le_detail E cid n = r" ..
    show "listing E G b x (op_then (live_statuses E cids) (\<lambda>rest.
        ok ((cid, case r of Inr (Some score) \<Rightarrow> Some (sj_status score) | _ \<Rightarrow> None) # rest))) (\<lambda>r. \<forall>live. r = Inr live \<longrightarrow> read_live E live)"
    proof (rule safe_then [OF Cons.IH])
      fix rest
      assume "\<forall>live. Inr rest = Inr live \<longrightarrow> read_live E live"
      then show "listing E G b x (ok ((cid, case r of Inr (Some score) \<Rightarrow> Some (sj_status score) | _ \<Rightarrow> None) # rest))
          (\<lambda>r. \<forall>live. r = Inr live \<longrightarrow> read_live E live)"
        using r by (intro safe_ok) (fastforce simp: read_live_def split: sum.splits option.splits)
    qed (simp add: stays_def)
  qed
qed (auto intro!: safe_ok simp: read_live_def)

lemma done_is_over:
  assumes "read_live E live" and "game_done live (le_now E) (le_grace E) g"
  shows "game_over E g"
proof (cases "is_stale (le_now E) (le_grace E) (lw_row g) (game_status live g)")
  case True
  then show ?thesis by (simp add: is_stale_def game_over_def)
next
  case False
  then obtain s where "game_status live g = Some s" "s \<in> DONE_STATUSES"
    using assms(2) by (auto simp: game_done_def split: option.splits)
  then show ?thesis
    using assms(1) unfolding game_status_def game_over_def read_live_def
    by (auto split: option.splits if_splits) blast+
qed

lemma run_list_week:
  assumes live: "read_live E live"
  shows "listing E (allowed E rows) None {} (list_week E live visible listed rows week) (\<lambda>_. True)"
proof -
  let ?games = "week_games rows week"
  have assumed: "listing E G None {} (note_assumed E live g) (\<lambda>_. True)" for g G
    by (simp add: note_assumed_def Let_def safe_ok run_tell)
  have next_week: "listing E (allowed E rows) None {} (list_row E visible listed g) (\<lambda>_. True)"
    if complete: "week_complete ?games live (le_now E) (le_grace E)" and g: "g \<in> set (week_games rows (fst week, snd week + 1))" for g
  proof (rule run_list_row)
    fix ev
    assume free: "unlinked E g" and just: "justified E (lw_row g) ev"
    have week: "(sw_season (lw_row g), sw_week (lw_row g) - 1) = week" and mem: "g \<in> set rows"
      using g by (auto simp: week_games_def week_of_def)
    have "\<forall>h \<in> set ?games. game_over E h"
      using complete done_is_over [OF live] by (auto simp: week_complete_def blocking_games_def filter_empty_conv)
    moreover have "?games \<noteq> []" using complete by (simp add: week_complete_def)
    then obtain h where "h \<in> set ?games" by (cases ?games) auto
    ultimately have "last_week_over E rows g"
      unfolding last_week_over_def Let_def week by (auto simp: week_games_def)
    with free just mem show "allowed E rows ev" unfolding allowed_def by blast
  qed simp
  show ?thesis
    unfolding list_week_def Let_def
    by (intro triple_if safe_ok safe_then [OF run_each_row [OF assumed]] run_tell run_each_row next_week) auto
qed

lemma triple_events: "triple sent G I m Q \<Longrightarrow> (\<And>ev. G ev \<Longrightarrow> H ev) \<Longrightarrow> triple sent H I m Q"
  unfolding triple_def by (meson list.pred_mono_strong)

lemma run_listing:
  "listing E (\<lambda>ev. \<exists>n m primaries schedule. le_cards E n = Inr primaries \<and> le_schedule E m = Inr schedule \<and>
     allowed E (map (link_row (cards_by_key primaries)) schedule) ev) None {} (listing_run E) (\<lambda>_. True)"
proof -
  have asked: "listing E G None {} (ask_list f) (\<lambda>r. \<exists>n. f n = r)" for f :: "nat \<Rightarrow> string + 'b" and G
    by (rule run_ask_list) blast
  show ?thesis
    unfolding listing_run_def Let_def
  proof (rule safe_then [OF asked], rule safe_then [OF asked], rule safe_then [OF run_live_statuses], rule run_each_row)
    fix primaries schedule live week
    assume "\<exists>n. le_cards E n = Inr primaries" "\<exists>n. le_schedule E n = Inr schedule" "\<forall>l. Inr live = Inr l \<longrightarrow> read_live E l"
    then have "read_live E live" "allowed E (map (link_row (cards_by_key primaries)) schedule) ev \<Longrightarrow>
        \<exists>n m primaries schedule. le_cards E n = Inr primaries \<and> le_schedule E m = Inr schedule \<and>
          allowed E (map (link_row (cards_by_key primaries)) schedule) ev" for ev by blast+
    from triple_events [OF run_list_week [OF this(1)] this(2)]
    show "listing E (\<lambda>ev. \<exists>n m primaries schedule. le_cards E n = Inr primaries \<and> le_schedule E m = Inr schedule \<and>
        allowed E (map (link_row (cards_by_key primaries)) schedule) ev) None {}
      (list_week E live (map (py_lower \<circ> mj_condition_id) (filter (\<lambda>p. mj_condition_id p \<noteq> []) primaries))
        (map mj_question (filter (\<lambda>p. mj_question p \<noteq> []) (filter (\<lambda>p. mj_condition_id p \<noteq> []) primaries)))
        (map (link_row (cards_by_key primaries)) schedule) week) (\<lambda>_. True)" .
  qed (simp_all add: stays_def)
qed

section \<open>Properties\<close>

lemma fresh_inv: "list_inv E None {} fresh_listing"
  by (simp add: list_inv_def fresh_listing_def once_def)

text \<open>
  C9 (listings_are_justified). Everything a run of the listing stage posts is about a game of the schedule that no
  registered market is linked to and whose previous week is over, each of its games by a final, postponed or
  cancelled status or by the grace period. A market is created only for a scheduled game that kicks off in the
  future, with its question, kickoff and question id; a row is linked only to a market that the create of that
  game returned, and unlinked only from a market the chain does not know.
\<close>

theorem listings_are_justified:
  assumes "ev \<in> set (ls_log (snd (run_state (listing_run E) fresh_listing)))"
  shows "\<exists>n m primaries schedule. le_cards E n = Inr primaries \<and> le_schedule E m = Inr schedule \<and>
    (\<exists>g \<in> set (map (link_row (cards_by_key primaries)) schedule). unlinked E g \<and>
       last_week_over E (map (link_row (cards_by_key primaries)) schedule) g \<and> justified E (lw_row g) ev)"
proof -
  obtain r st where run: "run_state (listing_run E) fresh_listing = (r, st)" by (metis prod.exhaust)
  obtain ys where "ls_log st = ls_log fresh_listing @ ys"
    "list_all (\<lambda>ev. \<exists>n m primaries schedule. le_cards E n = Inr primaries \<and> le_schedule E m = Inr schedule \<and>
       allowed E (map (link_row (cards_by_key primaries)) schedule) ev) ys"
    using tripleD [OF run_listing fresh_inv run] by blast
  with assms run show ?thesis by (simp add: fresh_listing_def list_all_iff allowed_def)
qed

text \<open>
  In one run no create is sent for a question id whose market was created, or found
  taken, before; so no game gets two markets, however often the schedule repeats it.
\<close>

theorem one_market_per_game:
  "distinct (settled (ls_log (snd (run_state (listing_run E) fresh_listing)))) \<and>
   once (ls_log (snd (run_state (listing_run E) fresh_listing)))"
proof -
  obtain r st where run: "run_state (listing_run E) fresh_listing = (r, st)" by (metis prod.exhaust)
  have "stays (list_inv E None {}) (\<lambda>_. True) r st" using tripleD [OF run_listing fresh_inv run] by (rule conjunct1)
  then have "once (ls_log st)" by (simp add: stays_def list_inv_def)
  with once_distinct [OF this] run show ?thesis by simp
qed

text \<open>A finished week, a next week with one new game, one game on an unknown market and one that is live.\<close>

definition ex_row :: "string \<Rightarrow> int \<Rightarrow> int \<Rightarrow> string \<Rightarrow> string \<Rightarrow> sched_row" where
  "ex_row home week kickoff st listed = \<lparr> sw_away = ''Jets'', sw_home = home, sw_kickoff = kickoff, sw_week = week, sw_season = 2026,
     sw_status = Some st, sw_listed = listed \<rparr>"

definition ex_listing :: list_env where
  "ex_listing = \<lparr> le_now = 5000, le_grace = 28800, le_cards = (\<lambda>_. Inr []),
     le_schedule = (\<lambda>_. Inr [ex_row ''Bills'' 1 100 ''final'' [], ex_row ''Rams'' 2 9000 ''scheduled'' [],
        ex_row ''Bears'' 2 9000 ''scheduled'' ''0xa'', ex_row ''Lions'' 2 9000 ''scheduled'' ''0xb'']),
     le_detail = (\<lambda>_ _. Inr None), le_close = Some (\<lambda>cid n. Inr (if cid = ''0xa'' then 0 else 7)), le_exhausted = (\<lambda>_. False),
     le_token = (\<lambda>_. Inr ()), le_seed = Inr 200, le_question_id = (\<lambda>season week away home kickoff. home),
     le_create = (\<lambda>body n. if cr_question_id body = ''Rams'' then Inr (Some ''0x1'') else Inl (Create_Failed ''503'')),
     le_upsert = (\<lambda>_ _. Inr ()) \<rparr>"

lemma ex_listing_log:
  "ls_log (snd (run_state (listing_run ex_listing) fresh_listing)) =
     [Post_Create (create_body ex_listing (ex_row ''Rams'' 2 9000 ''scheduled'' []) 200) True,
      Post_Row (ex_row ''Rams'' 2 9000 ''scheduled'' ''0x1''),
      Post_Create (create_body ex_listing (ex_row ''Bears'' 2 9000 ''scheduled'' ''0xa'') 200) False,
      Post_Row (ex_row ''Bears'' 2 9000 ''scheduled'' [])]"
  by code_simp

theorem listings_are_justified_witness:
  "Post_Row (ex_row ''Bears'' 2 9000 ''scheduled'' []) \<in> set (ls_log (snd (run_state (listing_run ex_listing) fresh_listing))) \<and>
   (\<exists>primaries schedule. le_schedule ex_listing 0 = Inr schedule \<and>
     (\<exists>g \<in> set (map (link_row (cards_by_key primaries)) schedule). unlinked ex_listing g))"
proof -
  have mem: "Post_Row (ex_row ''Bears'' 2 9000 ''scheduled'' []) \<in> set (ls_log (snd (run_state (listing_run ex_listing) fresh_listing)))"
    unfolding ex_listing_log by simp
  obtain n m primaries schedule g where g: "le_schedule ex_listing m = Inr schedule"
    "g \<in> set (map (link_row (cards_by_key primaries)) schedule)" "unlinked ex_listing g"
    using listings_are_justified [OF mem] by blast
  have "le_schedule ex_listing 0 = Inr schedule" using g(1) by (simp add: ex_listing_def)
  with mem g(2,3) show ?thesis by blast
qed

end
