(* ===== verification/Sponsor.thy ===== *)
theory Sponsor
  imports Listing Json
begin

text \<open>
  Sponsored user operations (\<open>backend/app/aa/router.py\<close>) and the paymaster's stamp (\<open>aa/bundler.py\<close>). Bytes are
  char lists. ABI decoding, keccak, signatures and the embedded-wallet service are third-party code: fields of
  \<open>sponsor_env\<close>.
\<close>

section \<open>Calls\<close>

definition SELECTOR_SET_APPROVAL :: string where "SELECTOR_SET_APPROVAL = [CHR 0xa2, CHR 0x2c, CHR 0xb4, CHR 0x65]"
definition SELECTOR_BUY_USDC :: string where "SELECTOR_BUY_USDC = [CHR 0xa9, CHR 0xc9, CHR 0x80, CHR 0x25]"
definition SELECTOR_SELL_USDC :: string where "SELECTOR_SELL_USDC = [CHR 0xd4, CHR 0xbd, CHR 0x65, CHR 0xf0]"
definition SELECTOR_MATCH_ORDERS :: string where "SELECTOR_MATCH_ORDERS = [CHR 0xe9, CHR 0xf2, CHR 0xcd, CHR 0x3e]"

datatype call_value = Val_Int int | Val_Text string

record cdp_call =
  cc_to :: string
  cc_data :: string
  cc_value :: call_value

text \<open>\<open>hex_to_bytes\<close>: an odd number of characters is padded in front.\<close>

definition hex_to_bytes :: "string \<Rightarrow> string option" where
  "hex_to_bytes value =
     (let raw = removeprefix_0x value in
      if raw = [] then Some [] else from_hex (if odd (length raw) then CHR ''0'' # raw else raw))"

definition value_int :: "call_value \<Rightarrow> int option" where
  "value_int v =
     (case v of
        Val_Int n \<Rightarrow> Some n
      | Val_Text t \<Rightarrow>
          let raw = py_strip t in
          if raw = [] then Some 0
          else if startswith raw ''0x'' \<or> startswith raw ''0X'' then (if length raw = 2 then None else parse_hex raw)
          else parse_dec raw)"

text \<open>The low 20 bytes of the word at \<open>offset\<close>.\<close>

definition extract_address :: "string \<Rightarrow> nat \<Rightarrow> string" where
  "extract_address call_data offset = ''0x'' @ to_hex (drop 12 (take 32 (drop offset call_data)))"

definition validate_call :: "string \<Rightarrow> string \<Rightarrow> int \<Rightarrow> settings \<Rightarrow> bool" where
  "validate_call to call_data value s =
     (let selector = take 4 call_data; to_lower = py_lower to; amm = py_lower (s_amm_address s);
          usdc = py_lower (s_usdc_address s); ctf = py_lower (s_ctf_address s); factory = py_lower (s_factory_address s) in
      if value \<noteq> 0 then False
      else if length call_data < 4 then False
      else if selector = SELECTOR_MATCH_ORDERS then False
      else if amm = [] then False
      else if to_lower = usdc \<and> selector = SELECTOR_APPROVE
      then (if length call_data < 36 then False
        else py_lower (extract_address call_data 4) \<in> (if factory \<noteq> [] then {amm, factory} else {amm}))
      else if to_lower = ctf \<and> selector = SELECTOR_SET_APPROVAL
      then (if length call_data < 36 then False else py_lower (extract_address call_data 4) = amm)
      else if to_lower = amm \<and> selector \<in> {SELECTOR_BUY_USDC, SELECTOR_SELL_USDC} then True
      else factory \<noteq> [] \<and> to_lower = factory \<and> selector = SELECTOR_CREATE_PERMISSIONLESS)"

definition trade_condition_id :: "string \<Rightarrow> string \<Rightarrow> settings \<Rightarrow> string option" where
  "trade_condition_id to call_data s =
     (let amm = py_lower (s_amm_address s) in
      if amm = [] \<or> py_lower to \<noteq> amm \<or> length call_data < 36 then None
      else if take 4 call_data \<notin> {SELECTOR_BUY_USDC, SELECTOR_SELL_USDC} then None
      else Some (''0x'' @ to_hex (take 32 (drop 4 call_data))))"

record listing_call_args =
  la_salt :: string
  la_close_time :: int
  la_question :: string
  la_criteria_hash :: string
  la_seed_usdc :: int

text \<open>
  \<open>sp_decode\<close> decodes the arguments of \<open>createPermissionlessMarket\<close>; \<open>sp_send\<close> is the wallet service's answer,
  \<open>sp_digest\<close> the hash of the stamped fields, and \<open>sp_sign\<close> and \<open>sp_recover\<close> the operator's signature and its
  address.
\<close>

record sponsored_call =
  sc_to :: string
  sc_value :: string
  sc_data :: string

record user_operation =
  uo_user_id :: string
  uo_address :: string
  uo_calls :: "sponsored_call list"

record stamped_op =
  st_sender :: string
  st_nonce :: int
  st_init_code :: string
  st_call_data :: string
  st_account_gas_limits :: string
  st_pre_verification_gas :: int
  st_gas_fees :: string

record sponsor_env =
  sp_libs :: libs
  sp_settings :: settings
  sp_decode :: "string \<Rightarrow> (string \<times> int \<times> string \<times> string \<times> int) option"
  sp_send :: "user_operation \<Rightarrow> (string \<times> json) list http"
  sp_digest :: "stamped_op \<Rightarrow> int \<Rightarrow> int \<Rightarrow> string \<Rightarrow> int \<Rightarrow> string"
  sp_sign :: "string \<Rightarrow> string \<Rightarrow> string"
  sp_recover :: "string \<Rightarrow> string \<Rightarrow> string option"

definition listing_args :: "sponsor_env \<Rightarrow> string \<Rightarrow> string \<Rightarrow> listing_call_args option http" where
  "listing_args E to call_data =
     (let factory = py_lower (s_factory_address (sp_settings E)) in
      if factory = [] \<or> py_lower to \<noteq> factory \<or> take 4 call_data \<noteq> SELECTOR_CREATE_PERMISSIONLESS then Inr None
      else case sp_decode E (drop 4 call_data) of
        None \<Rightarrow> Inl (HTTPException 400 ''Invalid call data'')
      | Some (salt, close_time, question, crit_hash, seed) \<Rightarrow>
          Inr (Some \<lparr> la_salt = ''0x'' @ to_hex salt, la_close_time = close_time, la_question = question,
            la_criteria_hash = ''0x'' @ to_hex crit_hash, la_seed_usdc = seed \<rparr>))"

text \<open>The first prepared row of the user and the salt must be the listing that is sent.\<close>

definition require_prepared_listing :: "dbase \<Rightarrow> user \<Rightarrow> listing_call_args \<Rightarrow> unit http" where
  "require_prepared_listing db u args =
     (case find (\<lambda>l. l_creator l = py_lower (u_address u) \<and> l_salt l = la_salt args \<and> l_status l = Prepared) (d_listings db) of
        None \<Rightarrow> Inl (HTTPException 403 ''listing not prepared'')
      | Some row \<Rightarrow>
          if l_question row \<noteq> la_question args \<or> py_lower (l_criteria_hash row) \<noteq> la_criteria_hash args \<or>
             l_close_time row \<noteq> la_close_time args \<or> l_seed_usdc row \<noteq> la_seed_usdc args
          then Inl (HTTPException 403 ''listing differs from the prepared listing'')
          else Inr ())"

section \<open>POST /aa/cdp-send\<close>

text \<open>One call: what is sent, the market it trades on and the listing it makes.\<close>

definition check_call :: "sponsor_env \<Rightarrow> cdp_call \<Rightarrow> (sponsored_call \<times> string option \<times> listing_call_args option) http" where
  "check_call E call =
     (case (value_int (cc_value call), hex_to_bytes (cc_data call)) of
        (Some value, Some call_data) \<Rightarrow>
          if \<not> validate_call (cc_to call) call_data value (sp_settings E) then Inl (HTTPException 403 ''Operation not allowed'')
          else bind_http (listing_args E (cc_to call) call_data) (\<lambda>listing.
            if \<not> lib_is_address (sp_libs E) (cc_to call) then Inl (HTTPException 500 ''Internal Server Error'')
            else Inr (\<lparr> sc_to = lib_checksum (sp_libs E) (cc_to call), sc_value = ''0'',
                sc_data = (if startswith (cc_data call) ''0x'' then cc_data call else ''0x'' @ cc_data call) \<rparr>,
              trade_condition_id (cc_to call) call_data (sp_settings E), listing))
      | _ \<Rightarrow> Inl (HTTPException 400 ''Invalid call data''))"

fun each_http :: "('a \<Rightarrow> 'b http) \<Rightarrow> 'a list \<Rightarrow> 'b list http" where
  "each_http f [] = Inr []"
| "each_http f (x # xs) = bind_http (f x) (\<lambda>y. bind_http (each_http f xs) (\<lambda>ys. Inr (y # ys)))"

definition check_trade :: "sponsor_env \<Rightarrow> dbase \<Rightarrow> int \<Rightarrow> string \<Rightarrow> unit http" where
  "check_trade E db now cid =
     (case trading_halt_reason db cid (sp_settings E) now of
        None \<Rightarrow> Inr () | Some reason \<Rightarrow> Inl (HTTPException 409 (halt_text reason)))"

text \<open>The checks of the request, and the operation that is handed to the wallet service.\<close>

definition cdp_operation :: "sponsor_env \<Rightarrow> dbase \<Rightarrow> int \<Rightarrow> user \<Rightarrow> cdp_call list \<Rightarrow> user_operation http" where
  "cdp_operation E db now u calls =
     (if calls = [] then Inl (HTTPException 400 ''calls required'')
      else bind_http (each_http (check_call E) calls) (\<lambda>checked.
        bind_http (each_http (check_trade E db now) (List.map_filter (fst \<circ> snd) checked)) (\<lambda>_.
        bind_http (each_http (require_prepared_listing db u) (List.map_filter (snd \<circ> snd) checked)) (\<lambda>_.
        if u_cdp_user_id u = [] then Inl (HTTPException 403 ''CDP user required'')
        else if \<not> lib_is_address (sp_libs E) (u_address u) then Inl (HTTPException 400 ''Invalid smart account'')
        else Inr \<lparr> uo_user_id = u_cdp_user_id u, uo_address = lib_checksum (sp_libs E) (u_address u), uo_calls = map fst checked \<rparr>))))"

definition json_or :: "json \<Rightarrow> json \<Rightarrow> json" where
  "json_or a b = (case a of J_Null \<Rightarrow> b | J_Bool x \<Rightarrow> if x then a else b | J_Int i \<Rightarrow> if i = 0 then b else a
     | J_Float r \<Rightarrow> if r = 0 then b else a | J_Str s \<Rightarrow> if s = [] then b else a | J_Arr xs \<Rightarrow> if xs = [] then b else a
     | J_Obj kvs \<Rightarrow> if kvs = [] then b else a | J_Special w \<Rightarrow> a)"

definition cdp_send :: "sponsor_env \<Rightarrow> dbase \<Rightarrow> int \<Rightarrow> user \<Rightarrow> cdp_call list \<Rightarrow> user_operation option \<times> (json \<times> json) http" where
  "cdp_send E db now u calls =
     (case cdp_operation E db now u calls of
        Inl e \<Rightarrow> (None, Inl e)
      | Inr op \<Rightarrow>
          (Some op, bind_http (sp_send E op) (\<lambda>result.
            Inr (json_or (json_get result ''userOpHash'') (json_get result ''user_op_hash''),
                 json_or (json_get result ''transactionHash'') (json_get result ''transaction_hash'')))))"

definition sponsor_userop :: "unit http" where
  "sponsor_userop = Inl (HTTPException 410 ''Use Coinbase CDP sponsored user operations'')"

section \<open>The paymaster's stamp\<close>

definition VERIFICATION_GAS :: int where "VERIFICATION_GAS = 100000"
definition POST_OP_GAS :: int where "POST_OP_GAS = 80000"
definition VALID_AFTER :: int where "VALID_AFTER = 0"
definition VALID_UNTIL_SKEW :: int where "VALID_UNTIL_SKEW = 300"

text \<open>\<open>n.to_bytes(k, "big")\<close>; \<open>None\<close> is the \<open>OverflowError\<close>.\<close>

fun be_bytes :: "nat \<Rightarrow> int \<Rightarrow> string" where
  "be_bytes 0 n = []"
| "be_bytes (Suc k) n = be_bytes k (n div 256) @ [char_of (n mod 256)]"

definition to_bytes :: "nat \<Rightarrow> int \<Rightarrow> string option" where
  "to_bytes k n = (if 0 \<le> n \<and> n < 256 ^ k then Some (be_bytes k n) else None)"

definition pad32 :: "string \<Rightarrow> string" where
  "pad32 value = (if length value \<ge> 32 then drop (length value - 32) value else replicate (32 - length value) (CHR 0x00) @ value)"

text \<open>\<open>operator_digest\<close>: the gas fields are padded before they are hashed with the rest.\<close>

definition operator_digest :: "sponsor_env \<Rightarrow> stamped_op \<Rightarrow> int \<Rightarrow> int \<Rightarrow> string" where
  "operator_digest E op valid_until valid_after =
     sp_digest E (op\<lparr>st_sender := lib_checksum (sp_libs E) (st_sender op), st_account_gas_limits := pad32 (st_account_gas_limits op),
       st_gas_fees := pad32 (st_gas_fees op)\<rparr>) valid_until valid_after
       (lib_checksum (sp_libs E) (s_paymaster_address (sp_settings E))) (s_chain_id (sp_settings E))"

definition stamp_paymaster_and_data :: "sponsor_env \<Rightarrow> int \<Rightarrow> stamped_op \<Rightarrow> string + string" where
  "stamp_paymaster_and_data E now op =
     (let s = sp_settings E; valid_until = now + VALID_UNTIL_SKEW in
      if s_paymaster_address s = [] then Inl ''paymaster not configured''
      else if s_operator_private_key s = [] then Inl ''operator key not configured''
      else case hex_to_bytes (s_paymaster_address s) of
        None \<Rightarrow> Inl ''ValueError''
      | Some paymaster \<Rightarrow>
          if length paymaster \<noteq> 20 then Inl ''paymaster address''
          else case (to_bytes 16 VERIFICATION_GAS, to_bytes 16 POST_OP_GAS, to_bytes 6 valid_until, to_bytes 6 VALID_AFTER) of
            (Some verification, Some post_op, Some until, Some after) \<Rightarrow>
              Inr (''0x'' @ to_hex (paymaster @ verification @ post_op @ until @ after @
                sp_sign E (s_operator_private_key s) (operator_digest E op valid_until VALID_AFTER)))
          | _ \<Rightarrow> Inl ''OverflowError'')"

definition slice :: "string \<Rightarrow> nat \<Rightarrow> nat \<Rightarrow> string" where
  "slice bs a b = take (b - a) (drop a bs)"

definition verify_operator_stamp :: "sponsor_env \<Rightarrow> stamped_op \<Rightarrow> string \<Rightarrow> bool" where
  "verify_operator_stamp E op bs =
     (let s = sp_settings E in
      if length bs < 129 \<or> s_paymaster_address s = [] \<or> s_operator_private_key s = [] then False
      else if Some (take 20 bs) \<noteq> hex_to_bytes (s_paymaster_address s) then False
      else
        let digest = operator_digest E op (from_bytes (slice bs 52 58)) (from_bytes (slice bs 58 64)) in
        (case (sp_recover E digest (slice bs 64 129), lib_from_key (sp_libs E) (s_operator_private_key s)) of
           (Some recovered, Some operator) \<Rightarrow> py_lower recovered = py_lower operator
         | _ \<Rightarrow> False))"

end
