(* ===== verification/Sponsor_Safety.thy ===== *)
theory Sponsor_Safety
  imports Sponsor
begin

text \<open>What the API sponsors, and the paymaster's stamp read back.\<close>

section \<open>Requests\<close>

lemma each_http_all: "each_http f xs = Inr ys \<Longrightarrow> list_all2 (\<lambda>x y. f x = Inr y) xs ys"
  by (induction xs arbitrary: ys) (auto simp: bind_http_Inr)

lemma each_http_mem:
  assumes "each_http f xs = Inr ys" and "y \<in> set ys"
  shows "\<exists>x \<in> set xs. f x = Inr y"
  using assms by (induction xs arbitrary: ys) (auto simp: bind_http_Inr)

lemma each_http_ok:
  assumes "each_http f xs = Inr ys" and "x \<in> set xs"
  shows "\<exists>y. f x = Inr y"
  using assms by (induction xs arbitrary: ys) (auto simp: bind_http_Inr)

lemma map_filter_mem: "x \<in> set xs \<Longrightarrow> f x = Some y \<Longrightarrow> y \<in> set (List.map_filter f xs)"
  by (force simp: map_filter_def)

text \<open>The data that is sent are the bytes that were checked.\<close>

lemma hex_to_bytes_sent: "hex_to_bytes (if startswith d ''0x'' then d else ''0x'' @ d) = hex_to_bytes d"
proof (cases "startswith d ''0x''")
  case False
  then have "removeprefix_0x d = d" by (simp add: removeprefix_0x_def)
  moreover have "removeprefix_0x (''0x'' @ d) = d" by (simp add: removeprefix_0x_def startswith_def)
  ultimately show ?thesis using False by (simp add: hex_to_bytes_def)
qed simp

lemma even_to_hex: "even (length (to_hex bs))"
  by (simp add: to_hex_def length_concat comp_def sum_list_triv)

lemma hex_to_bytes_hex: "hex_to_bytes (''0x'' @ to_hex bs) = Some bs"
proof -
  have "removeprefix_0x (''0x'' @ to_hex bs) = to_hex bs" by (simp add: removeprefix_0x_def startswith_def)
  moreover have "to_hex bs = [] \<longleftrightarrow> bs = []" by (cases bs) (auto simp: to_hex_def)
  ultimately show ?thesis using even_to_hex [of bs] by (simp add: hex_to_bytes_def from_hex_to_hex Let_def)
qed

section \<open>Allowed calls\<close>

definition sponsored_trade :: "sponsor_env \<Rightarrow> dbase \<Rightarrow> int \<Rightarrow> string \<Rightarrow> string \<Rightarrow> bool" where
  "sponsored_trade E db now to data =
     (py_lower to = py_lower (s_amm_address (sp_settings E)) \<and> take 4 data \<in> {SELECTOR_BUY_USDC, SELECTOR_SELL_USDC} \<and>
      (length data \<ge> 36 \<longrightarrow> trading_halt_reason db (''0x'' @ to_hex (take 32 (drop 4 data))) (sp_settings E) now = None))"

definition sponsored_approval :: "sponsor_env \<Rightarrow> string \<Rightarrow> string \<Rightarrow> bool" where
  "sponsored_approval E to data =
     (let s = sp_settings E; spender = py_lower (extract_address data 4) in
      (py_lower to = py_lower (s_usdc_address s) \<and> take 4 data = SELECTOR_APPROVE \<and>
        (spender = py_lower (s_amm_address s) \<or> (s_factory_address s \<noteq> [] \<and> spender = py_lower (s_factory_address s)))) \<or>
      (py_lower to = py_lower (s_ctf_address s) \<and> take 4 data = SELECTOR_SET_APPROVAL \<and> spender = py_lower (s_amm_address s)))"

definition sponsored_listing :: "sponsor_env \<Rightarrow> dbase \<Rightarrow> user \<Rightarrow> string \<Rightarrow> string \<Rightarrow> bool" where
  "sponsored_listing E db u to data =
     (py_lower to = py_lower (s_factory_address (sp_settings E)) \<and> take 4 data = SELECTOR_CREATE_PERMISSIONLESS \<and>
      (\<exists>salt crit row. sp_decode E (drop 4 data) = Some (salt, l_close_time row, l_question row, crit, l_seed_usdc row) \<and>
         row \<in> set (d_listings db) \<and> l_creator row = py_lower (u_address u) \<and> l_status row = Prepared \<and>
         l_salt row = ''0x'' @ to_hex salt \<and> py_lower (l_criteria_hash row) = ''0x'' @ to_hex crit))"

lemma validate_call_kinds:
  assumes "validate_call to data value s"
  shows "value = 0 \<and> s_amm_address s \<noteq> [] \<and>
    ((py_lower to = py_lower (s_usdc_address s) \<and> take 4 data = SELECTOR_APPROVE \<and>
        (py_lower (extract_address data 4) = py_lower (s_amm_address s) \<or>
         s_factory_address s \<noteq> [] \<and> py_lower (extract_address data 4) = py_lower (s_factory_address s))) \<or>
     (py_lower to = py_lower (s_ctf_address s) \<and> take 4 data = SELECTOR_SET_APPROVAL \<and>
        py_lower (extract_address data 4) = py_lower (s_amm_address s)) \<or>
     (py_lower to = py_lower (s_amm_address s) \<and> take 4 data \<in> {SELECTOR_BUY_USDC, SELECTOR_SELL_USDC}) \<or>
     (s_factory_address s \<noteq> [] \<and> py_lower to = py_lower (s_factory_address s) \<and> take 4 data = SELECTOR_CREATE_PERMISSIONLESS))"
  using assms unfolding validate_call_def Let_def
  by (simp add: py_lower_def split: if_splits) auto

lemma prepared_listing:
  assumes "require_prepared_listing db u args = Inr x"
  shows "\<exists>row \<in> set (d_listings db). l_creator row = py_lower (u_address u) \<and> l_salt row = la_salt args \<and> l_status row = Prepared \<and>
    l_question row = la_question args \<and> py_lower (l_criteria_hash row) = la_criteria_hash args \<and>
    l_close_time row = la_close_time args \<and> l_seed_usdc row = la_seed_usdc args"
  using assms unfolding require_prepared_listing_def
  by (auto simp: find_Some_iff split: option.splits if_splits intro!: nth_mem)

text \<open>What a call that passed its checks may be, once the trades and listings of the request passed theirs.\<close>

lemma checked_call:
  assumes "check_call E call = Inr (sent, trade, listing)"
    and trade_ok: "\<And>cid. trade = Some cid \<Longrightarrow> trading_halt_reason db cid (sp_settings E) now = None"
    and listing_ok: "\<And>args. listing = Some args \<Longrightarrow> require_prepared_listing db u args = Inr ()"
  shows "\<exists>data. hex_to_bytes (cc_data call) = Some data \<and> hex_to_bytes (sc_data sent) = Some data \<and> sc_value sent = ''0'' \<and>
    value_int (cc_value call) = Some 0 \<and> sc_to sent = lib_checksum (sp_libs E) (cc_to call) \<and>
    (sponsored_approval E (cc_to call) data \<or> sponsored_trade E db now (cc_to call) data \<or> sponsored_listing E db u (cc_to call) data)"
proof -
  let ?s = "sp_settings E"
  obtain data v where d: "hex_to_bytes (cc_data call) = Some data" "value_int (cc_value call) = Some v"
    "validate_call (cc_to call) data v ?s" "listing_args E (cc_to call) data = Inr listing"
    "trade = trade_condition_id (cc_to call) data ?s"
    "sent = \<lparr> sc_to = lib_checksum (sp_libs E) (cc_to call), sc_value = ''0'',
       sc_data = (if startswith (cc_data call) ''0x'' then cc_data call else ''0x'' @ cc_data call) \<rparr>"
    using assms(1) unfolding check_call_def by (auto simp: bind_http_Inr split: option.splits if_splits)
  note kinds = validate_call_kinds [OF d(3)]
  have trade: "sponsored_trade E db now (cc_to call) data"
    if k: "py_lower (cc_to call) = py_lower (s_amm_address ?s)" "take 4 data \<in> {SELECTOR_BUY_USDC, SELECTOR_SELL_USDC}"
  proof -
    have "trade = Some (''0x'' @ to_hex (take 32 (drop 4 data)))" if "length data \<ge> 36"
      using k kinds that unfolding d(5) trade_condition_id_def Let_def by (auto simp: py_lower_def)
    with trade_ok k show ?thesis unfolding sponsored_trade_def by blast
  qed
  have listing: "sponsored_listing E db u (cc_to call) data"
    if k: "s_factory_address ?s \<noteq> []" "py_lower (cc_to call) = py_lower (s_factory_address ?s)" "take 4 data = SELECTOR_CREATE_PERMISSIONLESS"
  proof -
    have "py_lower (s_factory_address ?s) \<noteq> []" using k(1) by (simp add: py_lower_def)
    then obtain salt close question crit seed where dec: "sp_decode E (drop 4 data) = Some (salt, close, question, crit, seed)"
      "listing = Some \<lparr> la_salt = ''0x'' @ to_hex salt, la_close_time = close, la_question = question,
         la_criteria_hash = ''0x'' @ to_hex crit, la_seed_usdc = seed \<rparr>"
      using d(4) k(2,3) unfolding listing_args_def Let_def by (auto split: option.splits if_splits)
    from prepared_listing [OF listing_ok [OF dec(2)]] obtain row where
      "row \<in> set (d_listings db)" "l_creator row = py_lower (u_address u)" "l_salt row = ''0x'' @ to_hex salt" "l_status row = Prepared"
      "l_question row = question" "py_lower (l_criteria_hash row) = ''0x'' @ to_hex crit" "l_close_time row = close" "l_seed_usdc row = seed"
      by auto
    with dec(1) k show ?thesis unfolding sponsored_listing_def by blast
  qed
  have "sponsored_approval E (cc_to call) data \<or> sponsored_trade E db now (cc_to call) data \<or> sponsored_listing E db u (cc_to call) data"
    using kinds trade listing unfolding sponsored_approval_def Let_def by blast
  with kinds d(1,2) show ?thesis unfolding d(6) by (auto simp: hex_to_bytes_sent)
qed

text \<open>
  C4 (sponsored_calls_are_allowed). Whatever calls a client sends, the operation the API hands to the wallet
  service is in the signed-in user's own account and consists of the same calls, without value, each of which
  approves USDC to the AMM or the factory, or shares to the AMM, trades on the AMM in a market that is open, or
  creates exactly the listing the API prepared for this user. The data that is sent decodes to the bytes that
  were checked.
\<close>

theorem sponsored_calls_are_allowed:
  assumes "fst (cdp_send E db now u calls) = Some op"
  shows "uo_user_id op = u_cdp_user_id u \<and> u_cdp_user_id u \<noteq> [] \<and> uo_address op = lib_checksum (sp_libs E) (u_address u) \<and>
    calls \<noteq> [] \<and>
    list_all2 (\<lambda>call sent. \<exists>data. hex_to_bytes (cc_data call) = Some data \<and> hex_to_bytes (sc_data sent) = Some data \<and>
        sc_value sent = ''0'' \<and> value_int (cc_value call) = Some 0 \<and> sc_to sent = lib_checksum (sp_libs E) (cc_to call) \<and>
        (sponsored_approval E (cc_to call) data \<or> sponsored_trade E db now (cc_to call) data \<or> sponsored_listing E db u (cc_to call) data))
      calls (uo_calls op)"
proof -
  have "cdp_operation E db now u calls = Inr op"
    using assms unfolding cdp_send_def by (cases "cdp_operation E db now u calls") simp_all
  then obtain checked ts ls where c: "calls \<noteq> []" "each_http (check_call E) calls = Inr checked"
    "each_http (check_trade E db now) (List.map_filter (fst \<circ> snd) checked) = Inr ts"
    "each_http (require_prepared_listing db u) (List.map_filter (snd \<circ> snd) checked) = Inr ls"
    "u_cdp_user_id u \<noteq> []" "op = \<lparr> uo_user_id = u_cdp_user_id u, uo_address = lib_checksum (sp_libs E) (u_address u), uo_calls = map fst checked \<rparr>"
    unfolding cdp_operation_def by (auto simp: bind_http_Inr split: if_splits)
  have each: "\<exists>data. hex_to_bytes (cc_data call) = Some data \<and> hex_to_bytes (sc_data (fst y)) = Some data \<and>
      sc_value (fst y) = ''0'' \<and> value_int (cc_value call) = Some 0 \<and> sc_to (fst y) = lib_checksum (sp_libs E) (cc_to call) \<and>
      (sponsored_approval E (cc_to call) data \<or> sponsored_trade E db now (cc_to call) data \<or> sponsored_listing E db u (cc_to call) data)"
    if y: "check_call E call = Inr y" "y \<in> set checked" for call y
  proof -
    obtain sent trade listing where eq: "y = (sent, trade, listing)" by (cases y)
    have "trading_halt_reason db cid (sp_settings E) now = None" if "trade = Some cid" for cid
    proof -
      have "cid \<in> set (List.map_filter (fst \<circ> snd) checked)" using y(2) eq that by (intro map_filter_mem) auto
      from each_http_ok [OF c(3) this] show ?thesis by (auto simp: check_trade_def split: option.splits)
    qed
    moreover have "require_prepared_listing db u args = Inr ()" if "listing = Some args" for args
    proof -
      have "args \<in> set (List.map_filter (snd \<circ> snd) checked)" using y(2) eq that by (intro map_filter_mem) auto
      from each_http_ok [OF c(4) this] show ?thesis by auto
    qed
    ultimately show ?thesis using checked_call [OF y(1) [unfolded eq]] unfolding eq by simp
  qed
  have "list_all2 (\<lambda>call y. check_call E call = Inr y \<and> y \<in> set checked) calls checked"
    using each_http_all [OF c(2)] by (auto simp: list_all2_conv_all_nth)
  then show ?thesis
    unfolding c(6) by (auto simp: c(1,5) list.rel_map elim!: list.rel_mono_strong dest!: each)
qed

definition ex_sponsor :: sponsor_env where
  "ex_sponsor = \<lparr>
     sp_libs = \<lparr> lib_from_key = (\<lambda>_. Some ''0xop''), lib_contract_addresses = (\<lambda>_. None), lib_is_address = (\<lambda>_. True),
       lib_checksum = (\<lambda>a. a), lib_redact = (\<lambda>t. t) \<rparr>,
     sp_settings = default_settings\<lparr>s_amm_address := ''0xaa'', s_operator_private_key := ''k'',
       s_paymaster_address := ''0x'' @ to_hex (replicate 20 (CHR 0x07))\<rparr>,
     sp_decode = (\<lambda>_. None), sp_send = (\<lambda>_. Inr [(''userOpHash'', J_Str ''h'')]),
     sp_digest = (\<lambda>op until after paymaster chain. ''d''), sp_sign = (\<lambda>key digest. replicate 65 (CHR 0x01)),
     sp_recover = (\<lambda>digest sig. Some ''0xop'') \<rparr>"

definition ex_cdp_user :: user where
  "ex_cdp_user = \<lparr> u_id = 1, u_address = ''0xbb'', u_is_operator = False, u_cdp_user_id = ''c'' \<rparr>"

definition ex_buy :: cdp_call where
  "ex_buy = \<lparr> cc_to = ''0xaa'', cc_data = ''0x'' @ to_hex (SELECTOR_BUY_USDC @ replicate 32 (CHR 0x05)), cc_value = Val_Text ''0x0'' \<rparr>"

lemma ex_buy_data: "hex_to_bytes (cc_data ex_buy) = Some (SELECTOR_BUY_USDC @ replicate 32 (CHR 0x05))"
  unfolding ex_buy_def cdp_call.select_convs by (rule hex_to_bytes_hex)

lemma ex_small: "py_lower ''0xaa'' = ''0xaa''" "value_int (Val_Text ''0x0'') = Some 0"
  by code_simp+

lemma ex_buy_call: "\<exists>sent cid. check_call ex_sponsor ex_buy = Inr (sent, Some cid, None) \<and> sc_to sent = ''0xaa''"
proof -
  have "s_amm_address (sp_settings ex_sponsor) = ''0xaa''" "s_factory_address (sp_settings ex_sponsor) = []"
    "s_usdc_address (sp_settings ex_sponsor) = []" "s_ctf_address (sp_settings ex_sponsor) = []" "cc_to ex_buy = ''0xaa''"
    "cc_value ex_buy = Val_Text ''0x0''" "lib_is_address (sp_libs ex_sponsor) ''0xaa''" "lib_checksum (sp_libs ex_sponsor) ''0xaa'' = ''0xaa''"
    by (simp_all add: ex_sponsor_def ex_buy_def default_settings_def)
  moreover have "py_lower [] = []" by (simp add: py_lower_def)
  ultimately show ?thesis
    by (simp add: check_call_def ex_buy_data ex_small validate_call_def listing_args_def trade_condition_id_def
        SELECTOR_BUY_USDC_def SELECTOR_MATCH_ORDERS_def SELECTOR_SELL_USDC_def)
qed

text \<open>A buy is sponsored, one in a closed market is not.\<close>

theorem sponsored_calls_are_allowed_witness:
  "\<exists>op. fst (cdp_send ex_sponsor empty_db 5 ex_cdp_user [ex_buy]) = Some op \<and> uo_user_id op = ''c'' \<and> length (uo_calls op) = 1 \<and>
     hex_to_bytes (sc_data (hd (uo_calls op))) = Some (SELECTOR_BUY_USDC @ replicate 32 (CHR 0x05))"
proof -
  obtain sent cid where "check_call ex_sponsor ex_buy = Inr (sent, Some cid, None)" using ex_buy_call by blast
  then have "fst (cdp_send ex_sponsor empty_db 5 ex_cdp_user [ex_buy]) \<noteq> None"
    by (simp add: cdp_send_def cdp_operation_def map_filter_def check_trade_def trading_halt_reason_def empty_db_def get_row_def
        ex_cdp_user_def ex_sponsor_def)
  then obtain op where op: "fst (cdp_send ex_sponsor empty_db 5 ex_cdp_user [ex_buy]) = Some op" by auto
  from sponsored_calls_are_allowed [OF op] obtain sent where "uo_calls op = [sent]"
    "hex_to_bytes (sc_data sent) = hex_to_bytes (cc_data ex_buy)" "uo_user_id op = ''c''"
    by (auto simp: list_all2_Cons1 ex_cdp_user_def)
  with op show ?thesis by (simp add: ex_buy_data)
qed

section \<open>The stamp\<close>

lemma length_be_bytes [simp]: "length (be_bytes k n) = k"
  by (induction k arbitrary: n) simp_all

lemma from_bytes_snoc: "from_bytes (bs @ [c]) = from_bytes bs * 256 + of_char c"
  by (simp add: from_bytes_def)

lemma from_be_bytes: "0 \<le> n \<Longrightarrow> n < 256 ^ k \<Longrightarrow> from_bytes (be_bytes k n) = n"
proof (induction k arbitrary: n)
  case (Suc k)
  have "n div 256 < 256 ^ k" using Suc.prems by (intro div_lessI) simp_all
  then have "from_bytes (be_bytes k (n div 256)) = n div 256" using Suc by simp
  then show ?case by (simp add: from_bytes_snoc)
qed (simp add: from_bytes_def)

lemma to_bytes_some: "to_bytes k n = Some bs \<Longrightarrow> length bs = k \<and> from_bytes bs = n"
  by (auto simp: to_bytes_def from_be_bytes split: if_splits)

definition ex_op :: stamped_op where
  "ex_op = \<lparr> st_sender = ''0xbb'', st_nonce = 1, st_init_code = [], st_call_data = ''c'', st_account_gas_limits = [CHR 0x01],
     st_pre_verification_gas = 2, st_gas_fees = [CHR 0x02] \<rparr>"

text \<open>
  C33 (stamp_verifies). A stamp the paymaster's signer makes is 129 bytes that the verifier accepts for the same
  operation, and it is valid from the start until five minutes from now.
\<close>

theorem stamp_verifies:
  assumes "stamp_paymaster_and_data E now op = Inr stamped"
    and "lib_from_key (sp_libs E) (s_operator_private_key (sp_settings E)) = Some operator"
    and "\<And>digest. length (sp_sign E (s_operator_private_key (sp_settings E)) digest) = 65"
    and "\<And>digest. sp_recover E digest (sp_sign E (s_operator_private_key (sp_settings E)) digest) = Some operator"
  shows "\<exists>bs. hex_to_bytes stamped = Some bs \<and> length bs = 129 \<and> verify_operator_stamp E op bs \<and>
    from_bytes (slice bs 52 58) = now + 300 \<and> from_bytes (slice bs 58 64) = 0"
proof -
  let ?s = "sp_settings E"
  let ?sig = "sp_sign E (s_operator_private_key ?s) (operator_digest E op (now + VALID_UNTIL_SKEW) VALID_AFTER)"
  obtain pm gas post until start where p: "s_paymaster_address ?s \<noteq> []" "s_operator_private_key ?s \<noteq> []"
    "hex_to_bytes (s_paymaster_address ?s) = Some pm" "length pm = 20" "to_bytes 16 VERIFICATION_GAS = Some gas"
    "to_bytes 16 POST_OP_GAS = Some post" "to_bytes 6 (now + VALID_UNTIL_SKEW) = Some until" "to_bytes 6 VALID_AFTER = Some start"
    "stamped = ''0x'' @ to_hex (pm @ gas @ post @ until @ start @ ?sig)"
    using assms(1) unfolding stamp_paymaster_and_data_def Let_def by (auto split: if_splits option.splits)
  define bs where "bs = pm @ gas @ post @ until @ start @ ?sig"
  have len: "length gas = 16" "length post = 16" "length until = 6" "length start = 6" "length ?sig = 65"
    using p(5-8) to_bytes_some assms(3) by blast+
  have parts: "length bs = 129" "take 20 bs = pm" "slice bs 52 58 = until" "slice bs 58 64 = start" "slice bs 64 129 = ?sig"
    using len p(4) by (simp_all add: bs_def slice_def)
  have times: "from_bytes until = now + VALID_UNTIL_SKEW" "from_bytes start = VALID_AFTER" using p(7,8) to_bytes_some by blast+
  have "verify_operator_stamp E op bs"
    unfolding verify_operator_stamp_def Let_def parts times using p(1-3) assms(2,4) by simp
  moreover have "hex_to_bytes stamped = Some bs" unfolding p(9) bs_def [symmetric] by (rule hex_to_bytes_hex)
  ultimately show ?thesis using parts times by (auto simp: VALID_UNTIL_SKEW_def VALID_AFTER_def)
qed

theorem stamp_verifies_witness:
  "\<exists>stamped bs. stamp_paymaster_and_data ex_sponsor 1000 ex_op = Inr stamped \<and> hex_to_bytes stamped = Some bs \<and>
     verify_operator_stamp ex_sponsor ex_op bs \<and> from_bytes (slice bs 52 58) = 1300"
proof -
  have "\<not> isl (stamp_paymaster_and_data ex_sponsor 1000 ex_op)"
    by (simp add: stamp_paymaster_and_data_def ex_sponsor_def hex_to_bytes_hex [simplified] to_bytes_def VERIFICATION_GAS_def POST_OP_GAS_def
        VALID_AFTER_def VALID_UNTIL_SKEW_def Let_def)
  then obtain stamped where s: "stamp_paymaster_and_data ex_sponsor 1000 ex_op = Inr stamped"
    by (cases "stamp_paymaster_and_data ex_sponsor 1000 ex_op") auto
  have keys: "lib_from_key (sp_libs ex_sponsor) k = Some ''0xop''" "length (sp_sign ex_sponsor k d) = 65"
    "sp_recover ex_sponsor d x = Some ''0xop''" for k d x
    by (simp_all add: ex_sponsor_def)
  have "\<exists>bs. hex_to_bytes stamped = Some bs \<and> length bs = 129 \<and> verify_operator_stamp ex_sponsor ex_op bs \<and>
      from_bytes (slice bs 52 58) = 1000 + 300 \<and> from_bytes (slice bs 58 64) = 0"
    by (rule stamp_verifies [OF s keys(1,2)]) (simp add: keys)
  then have "\<exists>bs. hex_to_bytes stamped = Some bs \<and> verify_operator_stamp ex_sponsor ex_op bs \<and> from_bytes (slice bs 52 58) = 1300"
    by auto
  with s show ?thesis by blast
qed

end
