(* ===== verification/Api_Views.thy ===== *)
theory Api_Views
  imports Relay Operator
begin

text \<open>
  The routes that read: the relayer's jobs and status (\<open>backend/app/relayer/router.py\<close>, with the process-wide
  workers of \<open>relayer/worker.py\<close>), portfolios (\<open>portfolio/router.py\<close>), AMM quotes (\<open>amm/router.py\<close>) and contract
  addresses (\<open>chain/router.py\<close>, \<open>contract_addresses.py\<close>). Views of contracts are answers of the environment.
\<close>

section \<open>Relay jobs\<close>

definition JOB_STATUSES :: "job_status list" where
  "JOB_STATUSES = [Pending, Sending, Sent, Confirmed, Failed, Cancelled]"

definition job_not_found :: "'a http" where
  "job_not_found = Inl (HTTPException 404 ''not found'')"

definition job_makers :: "dbase \<Rightarrow> relay_job \<Rightarrow> string set" where
  "job_makers db job = {py_lower (o_maker r) | r. r \<in> set (d_orders db) \<and> o_order_hash r \<in> {j_taker_hash job, j_maker_hash job}}"

lemma job_makers_code [code]:
  "job_makers db job = set (map (\<lambda>r. py_lower (o_maker r))
     (filter (\<lambda>r. o_order_hash r \<in> {j_taker_hash job, j_maker_hash job}) (d_orders db)))"
  by (auto simp: job_makers_def)

definition get_job_route :: "libs \<Rightarrow> dbase \<Rightarrow> user \<Rightarrow> int \<Rightarrow> job_view http" where
  "get_job_route L db u job_id =
     (case get_job job_id db of
        None \<Rightarrow> job_not_found
      | Some job \<Rightarrow>
          if \<not> u_is_operator u \<and> u_address u \<notin> job_makers db job then job_not_found
          else Inr (job_public L job))"

text \<open>\<open>status\<close> is the query parameter; a limit outside 1 to 200 is refused after the caller is known.\<close>

definition list_jobs :: "libs \<Rightarrow> dbase \<Rightarrow> user http \<Rightarrow> string option \<Rightarrow> int \<Rightarrow> job_view list http" where
  "list_jobs L db who st limit =
     bind_http (require_operator who) (\<lambda>_.
        let newest = rev (sort_key j_id (d_jobs db)); named = (st \<noteq> None \<and> st \<noteq> Some []) in
        if limit < 1 \<or> limit > 200 then Inl (HTTPException 422 ''Unprocessable Entity'')
        else if named \<and> the st \<notin> set (map job_status_text JOB_STATUSES)
        then Inl (HTTPException 400 ''status must be one of pending, sending, sent, confirmed, failed, cancelled'')
        else Inr (map (job_public L) (take (nat limit)
          (if named then filter (\<lambda>j. job_status_text (j_status j) = the st) newest else newest))))"

section \<open>The process's workers\<close>

text \<open>A worker is known by the account and the settings it was built with; \<open>wr_id\<close> is its identity.\<close>

record worker_ref =
  wr_id :: nat
  wr_account :: string
  wr_settings :: settings

record process =
  pr_next :: nat
  pr_active :: "worker_ref option"
  pr_running :: bool
  pr_manual :: "worker_ref option"

definition build_worker :: "libs \<Rightarrow> settings \<Rightarrow> process \<Rightarrow> worker_ref option \<times> process" where
  "build_worker L s p =
     (case relayer_account L s of
        None \<Rightarrow> (None, p)
      | Some account \<Rightarrow> (Some \<lparr> wr_id = pr_next p, wr_account = account, wr_settings = s \<rparr>, p\<lparr>pr_next := Suc (pr_next p)\<rparr>))"

definition maybe_start_relayer :: "libs \<Rightarrow> settings \<Rightarrow> process \<Rightarrow> bool \<times> process" where
  "maybe_start_relayer L s p =
     (if \<not> (s_relayer_enabled s \<and> s_relayer_worker_enabled s) then (False, p)
      else if \<not> relayer_ready L s then (False, p)
      else case build_worker L s p of
        (None, p') \<Rightarrow> (False, p')
      | (Some w, p') \<Rightarrow> (True, p'\<lparr>pr_active := Some w, pr_running := True\<rparr>))"

definition stop_relayer_state :: "process \<Rightarrow> process" where
  "stop_relayer_state p = p\<lparr>pr_active := None, pr_running := False\<rparr>"

definition manual_worker :: "libs \<Rightarrow> settings \<Rightarrow> process \<Rightarrow> worker_ref option \<times> process" where
  "manual_worker L s p =
     (case relayer_account L s of
        None \<Rightarrow> (None, p)
      | Some account \<Rightarrow>
          (case pr_manual p of
             Some w \<Rightarrow> if wr_account w = account \<and> wr_settings w = s then (Some w, p)
               else (case build_worker L s p of (w', p') \<Rightarrow> (w', p'\<lparr>pr_manual := w'\<rparr>))
           | None \<Rightarrow> (case build_worker L s p of (w', p') \<Rightarrow> (w', p'\<lparr>pr_manual := w'\<rparr>))))"

text \<open>POST /relayer/tick: the worker that ticks, and whether it releases the leader lock after.\<close>

definition tick_worker :: "libs \<Rightarrow> settings \<Rightarrow> user http \<Rightarrow> process \<Rightarrow> (worker_ref \<times> bool) http \<times> process" where
  "tick_worker L s who p =
     (case require_operator who of
        Inl e \<Rightarrow> (Inl e, p)
      | Inr _ \<Rightarrow>
          if \<not> relayer_ready L s then (Inl (HTTPException 409 ''relayer not enabled or not ready''), p)
          else (case pr_active p of
              Some w \<Rightarrow> (Inr (w, False), p)
            | None \<Rightarrow> (case manual_worker L s p of
                (None, p') \<Rightarrow> (Inl (HTTPException 409 ''relayer not enabled or not ready''), p')
              | (Some w, p') \<Rightarrow> (Inr (w, True), p'))))"

definition tick_route :: "wenv \<Rightarrow> user http \<Rightarrow> process \<Rightarrow> ws \<Rightarrow> tick_stats http \<times> process \<times> ws" where
  "tick_route V who p st =
     (case tick_worker (v_libs V) (v_settings V) who p of
        (Inl e, p') \<Rightarrow> (Inl e, p', st)
      | (Inr (w, release), p') \<Rightarrow>
          (case tick V release st of
             (Inl e, st') \<Rightarrow> (Inl (HTTPException 500 ''Internal Server Error''), p', st')
           | (Inr stats, st') \<Rightarrow> (Inr stats, p', st')))"

section \<open>Relayer status\<close>

record relayer_status_out =
  ry_enabled :: bool
  ry_worker_enabled :: bool
  ry_ready :: bool
  ry_worker_running :: bool
  ry_address :: "string option"
  ry_next_nonce :: "int option"
  ry_balance :: "int option"
  ry_counts :: "(job_status \<times> nat) list"
  ry_last_error :: string
  ry_last_tick_at :: "int option"

text \<open>
  The nonce manager of the address, the node's answer and the last error and tick of the worker that is active or
  was ticked by hand are arguments.
\<close>

definition last_job_error :: "dbase \<Rightarrow> string" where
  "last_job_error db =
     (case filter (\<lambda>j. j_last_error j \<noteq> []) (rev (sort_key j_id (d_jobs db))) of [] \<Rightarrow> [] | j # js \<Rightarrow> j_last_error j)"

definition relayer_status ::
  "libs \<Rightarrow> settings \<Rightarrow> dbase \<Rightarrow> user http \<Rightarrow> process \<Rightarrow> (string \<Rightarrow> nonce_manager) \<Rightarrow> (string \<Rightarrow> int option) \<Rightarrow>
     (string \<times> int option) option \<Rightarrow> relayer_status_out http" where
  "relayer_status L s db who p managers balances ticked =
     bind_http (require_operator who) (\<lambda>_.
       let address = relayer_account L s; ready = relayer_ready L s in
       Inr \<lparr> ry_enabled = s_relayer_enabled s, ry_worker_enabled = s_relayer_worker_enabled s, ry_ready = ready,
         ry_worker_running = pr_running p, ry_address = address,
         ry_next_nonce = Option.bind address (\<lambda>a. nm_peek (managers a)),
         ry_balance = (if ready then Option.bind address balances else None),
         ry_counts = map (\<lambda>st. (st, length (filter (\<lambda>j. j_status j = st) (d_jobs db)))) JOB_STATUSES,
         ry_last_error = lib_redact L (if last_job_error db \<noteq> [] then last_job_error db
           else case ticked of None \<Rightarrow> [] | Some (err, t) \<Rightarrow> err),
         ry_last_tick_at = Option.bind ticked snd \<rparr>)"

section \<open>Contract addresses\<close>

text \<open>The deployment file of the chain wins; without one the addresses come from the settings.\<close>

definition env_addresses :: "settings \<Rightarrow> (string \<times> string) list" where
  "env_addresses s = filter (\<lambda>(name, addr). addr \<noteq> [])
     [(''MarketFactory'', s_factory_address s), (''MockUSDC'', s_usdc_address s), (''ConditionalTokens'', s_ctf_address s),
      (''MarketAMM'', s_amm_address s), (''Exchange'', s_exchange_address s), (''ConsensusOracle'', s_oracle_address s),
      (''FeeVault'', s_fee_vault_address s), (''RevenueToken'', s_ou_token_address s), (''OverUnderPaymaster'', s_paymaster_address s),
      (''EntryPoint'', s_entrypoint_address s), (''MockEntryPoint'', s_entrypoint_address s),
      (''SimpleAccountFactory'', s_account_factory_address s)]"

definition get_contract_addresses ::
  "(int \<Rightarrow> (string \<Rightarrow> string option) option) \<Rightarrow> settings \<Rightarrow> int option \<Rightarrow> string \<Rightarrow> string option" where
  "get_contract_addresses files s chain_id =
     (case files (case chain_id of None \<Rightarrow> s_chain_id s | Some c \<Rightarrow> c) of
        Some deployed \<Rightarrow> deployed
      | None \<Rightarrow> map_of (env_addresses s))"

definition checksum_setting :: "libs \<Rightarrow> string \<Rightarrow> string option" where
  "checksum_setting L v =
     (let raw = py_strip v in if raw = [] \<or> \<not> lib_is_address L raw then None else Some (lib_checksum L raw))"

definition chain_addresses :: "libs \<Rightarrow> settings \<Rightarrow> int \<times> (string \<times> string option) list" where
  "chain_addresses L s = (s_chain_id s,
     [(''MockUSDC'', checksum_setting L (s_usdc_address s)), (''ConditionalTokens'', checksum_setting L (s_ctf_address s)),
      (''MarketAMM'', checksum_setting L (s_amm_address s)), (''MarketFactory'', checksum_setting L (s_factory_address s)),
      (''ConsensusOracle'', checksum_setting L (s_oracle_address s)), (''FeeVault'', checksum_setting L (s_fee_vault_address s)),
      (''Exchange'', checksum_setting L (s_exchange_address s))])"

section \<open>AMM quotes\<close>

text \<open>How a call of a contract view ends.\<close>

datatype view_answer = View_Value int | View_Reverted string | View_Bad_Arguments | View_Failed

record amm_views =
  av_addresses :: "(string \<Rightarrow> string option)"
  av_quote_buy :: "string \<Rightarrow> bool \<Rightarrow> int \<Rightarrow> view_answer"
  av_quote_sell :: "string \<Rightarrow> bool \<Rightarrow> int \<Rightarrow> view_answer"

definition revert_reason :: "string \<Rightarrow> string" where
  "revert_reason message =
     (let t = py_strip message; low = py_lower t;
          rest = (if startswith low ''execution reverted:'' then py_strip (drop 19 t)
            else if startswith low ''execution reverted'' then py_strip (drop 18 t) else t) in
      if rest = [] then ''execution reverted'' else rest)"

datatype amm_quote_out = Quote_Sell bool int int | Quote_Buy bool int int

definition view_http :: "view_answer \<Rightarrow> int http" where
  "view_http v =
     (case v of
        View_Value n \<Rightarrow> Inr n
      | View_Reverted message \<Rightarrow> Inl (HTTPException 422 (revert_reason message))
      | View_Bad_Arguments \<Rightarrow> Inl (HTTPException 400 ''invalid quote arguments'')
      | View_Failed \<Rightarrow> Inl (HTTPException 503 ''RPC unavailable''))"

definition U256_BOUND :: int where "U256_BOUND = 2 ^ 256"

text \<open>Amounts outside uint256 are refused before the handler.\<close>

definition amm_quote ::
  "amm_views \<Rightarrow> settings \<Rightarrow> dbase \<Rightarrow> int \<Rightarrow> string \<Rightarrow> bool \<Rightarrow> int \<Rightarrow> bool option \<Rightarrow> int option \<Rightarrow> amm_quote_out http" where
  "amm_quote A s db now market_id buy_yes usdc_in sell_yes token_amount =
     (if \<not> (0 \<le> usdc_in \<and> usdc_in < U256_BOUND) \<or> (\<exists>n \<in> set_option token_amount. \<not> (0 \<le> n \<and> n < U256_BOUND))
      then Inl (HTTPException 422 ''Unprocessable Entity'')
      else case trading_halt_reason db market_id s now of
        Some reason \<Rightarrow> Inl (HTTPException 409 (halt_text reason))
      | None \<Rightarrow>
          bind_http (hex32 market_id ''market_id'') (\<lambda>cid.
               if av_addresses A ''MarketAMM'' = None then Inl (HTTPException 503 ''MarketAMM address not configured'')
               else (case (sell_yes, token_amount) of
                   (Some yes, Some n) \<Rightarrow> bind_http (view_http (av_quote_sell A cid yes n)) (\<lambda>out. Inr (Quote_Sell yes n out))
                 | _ \<Rightarrow> bind_http (view_http (av_quote_buy A cid buy_yes usdc_in)) (\<lambda>out. Inr (Quote_Buy buy_yes usdc_in out)))))"

section \<open>Portfolios\<close>

record position =
  ps_question :: string
  ps_side :: string
  ps_size :: int
  ps_condition_id :: string
  ps_outcome :: nat

text \<open>\<open>pf_balance\<close>: the balance of a position, \<open>None\<close> when the call fails.\<close>

record portfolio_env =
  pf_addresses :: "string + (string \<Rightarrow> string option)"
  pf_abi :: "string + unit"
  pf_connected :: bool
  pf_balance :: "string \<Rightarrow> nat \<Rightarrow> string \<Rightarrow> int option"

text \<open>The non-zero balances, market by market; one failing call fails the request.\<close>

fun market_positions :: "portfolio_env \<Rightarrow> string \<Rightarrow> (string \<times> string) list \<Rightarrow> position list option" where
  "market_positions E owner [] = Some []"
| "market_positions E owner ((cid, question) # ms) =
     (case from_hex (drop 2 cid) of
        None \<Rightarrow> None
      | Some bytes \<Rightarrow>
          (case (pf_balance E bytes 0 owner, pf_balance E bytes 1 owner, market_positions E owner ms) of
             (Some yes, Some no, Some rest) \<Rightarrow>
               Some ((if yes > 0 then [\<lparr> ps_question = question, ps_side = ''YES'', ps_size = yes, ps_condition_id = cid, ps_outcome = 0 \<rparr>] else []) @
                 (if no > 0 then [\<lparr> ps_question = question, ps_side = ''NO'', ps_size = no, ps_condition_id = cid, ps_outcome = 1 \<rparr>] else []) @ rest)
           | _ \<Rightarrow> None))"

record open_order =
  oo_order_hash :: string
  oo_condition_id :: string
  oo_is_buy :: bool
  oo_price :: int
  oo_remaining :: int

record portfolio_view =
  pv_address :: string
  pv_positions :: "position list"
  pv_open_orders :: "open_order list"
  pv_trades :: "trade list"

definition portfolio_orders :: "dbase \<Rightarrow> string \<Rightarrow> open_order list" where
  "portfolio_orders db addr =
     map (\<lambda>r. \<lparr> oo_order_hash = o_order_hash r, oo_condition_id = o_condition_id r, oo_is_buy = o_is_buy r, oo_price = o_price r,
         oo_remaining = o_amount r - o_filled r \<rparr>)
       (filter (\<lambda>r. o_maker r = addr \<and> \<not> o_cancelled r \<and> o_filled r < o_amount r) (d_orders db))"

definition portfolio :: "portfolio_env \<Rightarrow> dbase \<Rightarrow> string \<Rightarrow> portfolio_view http" where
  "portfolio E db address =
     (let addr = py_lower address in
      case pf_addresses E of
        Inl err \<Rightarrow> Inl (HTTPException 503 (''Cannot load contract addresses: '' @ err))
      | Inr addresses \<Rightarrow>
          if addresses ''ConditionalTokens'' = None then Inl (HTTPException 503 ''ConditionalTokens address not configured'')
          else case pf_abi E of
            Inl err \<Rightarrow> Inl (HTTPException 503 (''Cannot load CTF ABI: '' @ err))
          | Inr _ \<Rightarrow>
              if \<not> pf_connected E then Inl (HTTPException 503 ''RPC not connected'')
              else (case market_positions E addr (map (\<lambda>m. (m_condition_id m, m_question m)) (d_markets db)) of
                  None \<Rightarrow> Inl (HTTPException 503 ''Failed to query CTF balances'')
                | Some positions \<Rightarrow>
                    Inr \<lparr> pv_address = addr, pv_positions = positions, pv_open_orders = portfolio_orders db addr,
                      pv_trades = filter (\<lambda>t. t_taker t = addr \<or> t_maker t = addr) (d_trades db) \<rparr>))"

text \<open>GET /fee-vault/nav: the value, and whether it is simulated.\<close>

definition fee_vault_nav :: "(string + (string \<Rightarrow> string option)) \<Rightarrow> int option \<Rightarrow> int \<times> bool" where
  "fee_vault_nav addresses nav =
     (case addresses of
        Inl err \<Rightarrow> (0, True)
      | Inr get \<Rightarrow> if get ''FeeVault'' = None then (0, True) else (case nav of None \<Rightarrow> (0, True) | Some n \<Rightarrow> (n, False)))"

section \<open>What the views disclose\<close>

lemma get_row_filter_other: "(\<And>r. f r = k \<Longrightarrow> \<not> P r) \<Longrightarrow> get_row f k (filter P rows) = None"
  by (auto simp: get_row_def find_None_iff)

lemma get_row_map_same: "(\<And>r. f (h r) = f r) \<Longrightarrow> get_row f k (map h rows) = map_option h (get_row f k rows)"
  unfolding get_row_def by (induction rows) auto

text \<open>
  To anyone but the operator and the makers of its two orders, the relay job route
  answers exactly as if the job did not exist; and to nobody does it show the raw transaction.
\<close>

theorem jobs_are_not_disclosed:
  assumes "\<not> u_is_operator u" and "\<forall>job. get_job i db = Some job \<longrightarrow> u_address u \<notin> job_makers db job"
  shows "get_job_route L db u i = get_job_route L (db\<lparr>d_jobs := filter (\<lambda>j. j_id j \<noteq> i) (d_jobs db)\<rparr>) u i \<and>
    (\<forall>db' v raw. get_job_route L (db'\<lparr>d_jobs := map (\<lambda>j. j\<lparr>j_raw_tx := raw\<rparr>) (d_jobs db')\<rparr>) v i = get_job_route L db' v i)"
proof
  have "get_job i (db\<lparr>d_jobs := filter (\<lambda>j. j_id j \<noteq> i) (d_jobs db)\<rparr>) = None"
    by (simp add: get_row_filter_other)
  then show "get_job_route L db u i = get_job_route L (db\<lparr>d_jobs := filter (\<lambda>j. j_id j \<noteq> i) (d_jobs db)\<rparr>) u i"
    using assms by (simp add: get_job_route_def split: option.split)
next
  have "get_job i (db'\<lparr>d_jobs := map (\<lambda>j. j\<lparr>j_raw_tx := raw\<rparr>) (d_jobs db')\<rparr>) =
      map_option (\<lambda>j. j\<lparr>j_raw_tx := raw\<rparr>) (get_job i db')" for db' :: dbase and raw
    by (simp add: get_row_map_same)
  then show "\<forall>db' v raw. get_job_route L (db'\<lparr>d_jobs := map (\<lambda>j. j\<lparr>j_raw_tx := raw\<rparr>) (d_jobs db')\<rparr>) v i = get_job_route L db' v i"
    by (auto simp: get_job_route_def job_makers_def job_public_def split: option.split)
qed

definition ex_view_job :: relay_job where
  "ex_view_job = \<lparr> j_id = 7, j_kind = ''match_orders'', j_condition_id = ''0x1'', j_taker_hash = ''t'', j_maker_hash = ''m'',
     j_fill_amount = 1, j_sender = [], j_status = Pending, j_attempts = 0, j_nonce = None, j_tx_hash = [], j_tx_hashes = [],
     j_raw_tx = ''secret'', j_gas_limit = None, j_max_fee = None, j_max_priority_fee = None, j_block_number = None,
     j_last_error = [], j_next_attempt_at = 0, j_sent_at = None, j_confirmed_at = None, j_matched_at = 0,
     j_first_sent_block = None, j_nonce_consumed_at = None \<rparr>"

definition ex_stranger :: user where
  "ex_stranger = \<lparr> u_id = 1, u_address = ''0xaa'', u_is_operator = False, u_cdp_user_id = [] \<rparr>"

theorem jobs_are_not_disclosed_witness:
  "get_job_route L (empty_db\<lparr>d_jobs := [ex_view_job]\<rparr>) ex_stranger 7 = Inl (HTTPException 404 ''not found'')"
proof -
  have "get_job_route L (empty_db\<lparr>d_jobs := [ex_view_job]\<rparr>) ex_stranger 7 =
      get_job_route L (empty_db\<lparr>d_jobs := [ex_view_job], d_jobs := filter (\<lambda>j. j_id j \<noteq> 7) (d_jobs (empty_db\<lparr>d_jobs := [ex_view_job]\<rparr>))\<rparr>)
        ex_stranger 7"
    by (rule conjunct1 [OF jobs_are_not_disclosed]) (simp_all add: ex_stranger_def job_makers_def empty_db_def)
  then show ?thesis by (simp add: get_job_route_def job_not_found_def ex_view_job_def get_row_def)
qed

section \<open>Ticks by hand\<close>

lemma manual_worker_kept:
  assumes "manual_worker L s p = (Some w, p')"
  shows "pr_manual p' = Some w \<and> manual_worker L s p' = (Some w, p') \<and> relayer_account L s = Some (wr_account w) \<and> pr_active p' = pr_active p"
  using assms by (auto simp: manual_worker_def build_worker_def split: option.splits prod.splits if_splits)

lemma released_tick: "tick V True st = (r, st') \<Longrightarrow> \<not> w_leader st'"
  unfolding tick_def wk_then_def wk_bind_def wk_try_def release_leadership_def wk_mod_def
  by (auto simp: wk_raise_def wk_get_def split: prod.splits sum.splits)

text \<open>
  While no background worker runs, every tick an operator asks for runs on
  one worker of the process, the one the next request gets too, so that requests queue on one lock; and the
  leader lock is free again when the tick is over, also when it failed.
\<close>

theorem manual_ticks_share_one_worker:
  assumes "tick_worker (v_libs V) (v_settings V) who p = (Inr (w, release), p')" and "pr_active p = None"
  shows "release \<and> pr_manual p' = Some w \<and> pr_active p' = None \<and>
    tick_worker (v_libs V) (v_settings V) who p' = (Inr (w, release), p') \<and>
    \<not> w_leader (snd (snd (tick_route V who p st)))"
proof -
  let ?L = "v_libs V" and ?s = "v_settings V"
  have ok: "\<exists>u. require_operator who = Inr u" "relayer_ready ?L ?s" and m: "manual_worker ?L ?s p = (Some w, p')" "release"
    using assms unfolding tick_worker_def by (auto split: sum.splits if_splits option.splits prod.splits)
  have kept: "pr_manual p' = Some w" "manual_worker ?L ?s p' = (Some w, p')" "pr_active p' = None"
    using manual_worker_kept [OF m(1)] assms(2) by auto
  have again: "tick_worker ?L ?s who p' = (Inr (w, True), p')"
    unfolding tick_worker_def kept using ok by auto
  obtain r st' where t: "tick V True st = (r, st')" by (metis prod.exhaust)
  have "snd (snd (tick_route V who p st)) = st'"
    unfolding tick_route_def assms(1) using m(2) t by (cases r) simp_all
  with released_tick [OF t] kept again m(2) show ?thesis by simp
qed

definition ex_process :: process where
  "ex_process = \<lparr> pr_next = 0, pr_active = None, pr_running = False, pr_manual = None \<rparr>"

definition ex_op_session :: "user http" where
  "ex_op_session = Inr (ex_stranger\<lparr>u_is_operator := True\<rparr>)"

theorem manual_ticks_share_one_worker_witness:
  "\<exists>w p'. tick_worker (v_libs ex_env) (v_settings ex_env) ex_op_session ex_process = (Inr (w, True), p') \<and>
     tick_worker (v_libs ex_env) (v_settings ex_env) ex_op_session p' = (Inr (w, True), p') \<and>
     \<not> w_leader (snd (snd (tick_route ex_env ex_op_session ex_process (ex_ws\<lparr>w_leader := True\<rparr>))))"
proof -
  have "\<not> isl (fst (tick_worker (v_libs ex_env) (v_settings ex_env) ex_op_session ex_process))" by code_simp
  then obtain w release p' where t: "tick_worker (v_libs ex_env) (v_settings ex_env) ex_op_session ex_process = (Inr (w, release), p')"
    by (metis isl_def prod.exhaust_sel sum.exhaust_sel)
  have "pr_active ex_process = None" by (simp add: ex_process_def)
  from manual_ticks_share_one_worker [OF t this, of "ex_ws\<lparr>w_leader := True\<rparr>"] t show ?thesis by auto
qed

end
