(* ===== verification/Trading_Gate.thy ===== *)
theory Trading_Gate
  imports Orders Sponsor_Safety Api_Views
begin











end
