(* ===== verification/Cdp.thy ===== *)
theory Cdp
  imports Auth Agents
begin

text \<open>
  The embedded-wallet service (\<open>backend/app/cdp.py\<close>) and the sign-ins through it (\<open>auth/router.py\<close>). The service's
  answers, its SDK and the text of JSON values that are no strings are fields of \<open>cdp_env\<close>.
\<close>

section \<open>Users\<close>

text \<open>A user as the HTTP API or as the SDK gives it: a JSON object, or an object with attributes.\<close>

datatype cdp_object = Cdp_Dict "(string \<times> json) list" | Cdp_Attributes "(string \<times> json) list"



text \<open>\<open>x or y\<close>.\<close>

definition or_json :: "json \<Rightarrow> json \<Rightarrow> json" where
  "or_json a b = (if truthy a then a else b)"




section \<open>Requests\<close>

text \<open>An answer: a status and a body, which is empty, JSON or neither. \<open>None\<close> is a transport error.\<close>

datatype cdp_body = Empty_Body | Json_Body json | Other_Body

record cdp_env =
  cd_settings :: settings
  cd_str :: "json \<Rightarrow> string"
  cd_jwt :: "string \<Rightarrow> string \<Rightarrow> string option"
  cd_http :: "string \<Rightarrow> string \<Rightarrow> json option \<Rightarrow> (int \<times> cdp_body) option"
  cd_sdk :: bool
  cd_validate :: "string \<Rightarrow> cdp_object option"

definition require_cdp :: "cdp_env \<Rightarrow> unit http" where
  "require_cdp E =
     (if s_cdp_project_id (cd_settings E) = [] \<or> s_cdp_api_key_secret (cd_settings E) = []
      then Inl (HTTPException 503 ''CDP not configured'') else Inr ())"

definition cdp_failed :: "int \<Rightarrow> 'a http" where
  "cdp_failed status = Inl (HTTPException status ''CDP request failed'')"

definition cdp_request :: "cdp_env \<Rightarrow> string \<Rightarrow> string \<Rightarrow> json option \<Rightarrow> json http" where
  "cdp_request E meth path body =
     bind_http (require_cdp E) (\<lambda>_.
       let full = startswith path ''/platform''; request_path = (if full then path else ''/platform'' @ path);
           url_path = (if full then drop 9 path else path) in
       if cd_jwt E meth request_path = None then Inl (HTTPException 503 ''CDP not configured'')
       else case cd_http E meth url_path body of
         None \<Rightarrow> Inl (HTTPException 500 ''Internal Server Error'')
       | Some (status, content) \<Rightarrow>
           if status \<ge> 400 then cdp_failed (if status \<in> {400, 401, 403, 404} then status else 502)
           else (case content of Empty_Body \<Rightarrow> Inr (J_Obj []) | Json_Body v \<Rightarrow> Inr v | Other_Body \<Rightarrow> cdp_failed 502))"

text \<open>\<open>data.get\<close> of an answer that is no object is an exception.\<close>

definition answer_object :: "json \<Rightarrow> (string \<times> json) list http" where
  "answer_object v = (case v of J_Obj kvs \<Rightarrow> Inr kvs | _ \<Rightarrow> Inl (HTTPException 500 ''Internal Server Error''))"


definition auth_path :: "cdp_env \<Rightarrow> string \<Rightarrow> string" where
  "auth_path E rest = ''/v2/embedded-wallet-api/projects/'' @ s_cdp_project_id (cd_settings E) @ rest"

definition sign_in_with_email :: "cdp_env \<Rightarrow> string \<Rightarrow> json http" where
  "sign_in_with_email E email =
     bind_http (require_cdp E) (\<lambda>_.
       if email = [] then Inl (HTTPException 400 ''missing email'')
       else bind_http (cdp_request E ''POST'' (auth_path E ''/auth/init'')
           (Some (J_Obj [(''type'', J_Str ''email''), (''email'', J_Str email)]))) (\<lambda>v.
         bind_http (answer_object v) (\<lambda>data.
         let flow_id = or_json (json_get data ''flowId'') (json_get data ''flow_id'') in
         if \<not> truthy flow_id then cdp_failed 502 else Inr flow_id)))"


definition send_user_operation :: "cdp_env \<Rightarrow> string \<Rightarrow> string \<Rightarrow> json \<Rightarrow> json http" where
  "send_user_operation E user_id address calls =
     bind_http (require_cdp E) (\<lambda>_. cdp_request E ''POST''
       (''/v2/embedded-wallet-api/end-users/'' @ user_id @ ''/evm/smart-accounts/'' @ address @ ''/send'')
       (Some (J_Obj [(''network'', J_Str ''base-sepolia''), (''calls'', calls), (''useCdpPaymaster'', J_Bool True)])))"

section \<open>Routes\<close>



section \<open>Who signs in\<close>









end
