(* ===== verification/Operator_Auth.thy ===== *)
theory Operator_Auth
  imports Markets Eip712 Json
begin

text \<open>
  The operator preflight of a tick (\<open>oracles/operator_auth.py\<close>, with \<open>mint_operator_jwt\<close> of
  \<open>scores/publish.py\<close>): the job probes an operator route, and signs in with its key once when the API does not
  know the operator yet. The client is a function of the requests, over any state: the second half of the theory
  runs the preflight against the model of the API (\<open>Auth\<close>, \<open>Markets\<close>).
\<close>

section \<open>The client\<close>

text \<open>An answer is a status and a body, JSON or not; a transport error is the text on the left.\<close>

datatype api_request = Probe string | Get_Nonce string | Post_Siwe siwe_in

type_synonym api_answer = "string + int \<times> json option"
type_synonym 's api_client = "api_request \<Rightarrow> 's \<Rightarrow> api_answer \<times> 's"

text \<open>
  The job's environment variables; \<open>pe_netloc\<close> is the host part of a URL, \<open>pe_stamp\<close> the time in the message,
  \<open>pe_encode\<close> and \<open>pe_sign\<close> sign a token and a message.
\<close>

record preflight_env =
  pe_api_url :: string
  pe_key :: string
  pe_jwt_secret :: string
  pe_ttl :: "string + int"
  pe_chain_id :: string
  pe_libs :: libs
  pe_netloc :: "string \<Rightarrow> string"
  pe_stamp :: string
  pe_encode :: "string \<Rightarrow> string \<Rightarrow> int \<Rightarrow> string + string"
  pe_sign :: "string \<Rightarrow> string \<Rightarrow> string"

definition STATEMENT :: string where "STATEMENT = ''OverUnder oracle operator bootstrap''"

definition BOOTSTRAP_ON :: "(int \<times> string) set" where
  "BOOTSTRAP_ON = {(401, ''unknown user''), (403, ''operator only'')}"

definition operator_key :: "preflight_env \<Rightarrow> string + string" where
  "operator_key E =
     (let key = py_strip (pe_key E) in
      if key = [] then Inl ''OPERATOR_PRIVATE_KEY missing''
      else if lib_from_key (pe_libs E) key = None then Inl ''OPERATOR_PRIVATE_KEY invalid''
      else Inr key)"

text \<open>The key and its address.\<close>

definition job_operator :: "preflight_env \<Rightarrow> string + string \<times> string" where
  "job_operator E =
     (case operator_key E of
        Inl err \<Rightarrow> Inl err
      | Inr key \<Rightarrow> (case lib_from_key (pe_libs E) key of None \<Rightarrow> Inl ''OPERATOR_PRIVATE_KEY invalid'' | Some a \<Rightarrow> Inr (key, a)))"

definition message_chain_id :: "preflight_env \<Rightarrow> int" where
  "message_chain_id E =
     (let raw = (if pe_chain_id E = [] then ''0'' else pe_chain_id E) in
      case parse_dec (py_strip raw) of None \<Rightarrow> 1 | Some n \<Rightarrow> if n = 0 then 1 else n)"

definition build_siwe_message :: "preflight_env \<Rightarrow> string \<Rightarrow> string \<Rightarrow> string \<Rightarrow> string" where
  "build_siwe_message E api_url address quoted =
     (let domain = (if pe_netloc E api_url = [] then api_url else pe_netloc E api_url); nl = [CHR 0x0A] in
      domain @ '' wants you to sign in with your Ethereum account:'' @ nl @ address @ nl @ nl @ STATEMENT @ nl @ nl @
      ''URI: '' @ api_url @ nl @ ''Version: 1'' @ nl @ ''Chain ID: '' @ py_str (message_chain_id E) @ nl @
      ''Nonce: '' @ quoted @ nl @ ''Issued At: '' @ pe_stamp E)"

definition answer_detail :: "json option \<Rightarrow> string" where
  "answer_detail body =
     (case body of
        Some (J_Obj kvs) \<Rightarrow> (case json_get kvs ''detail'' of J_Str s \<Rightarrow> s | _ \<Rightarrow> [])
      | _ \<Rightarrow> [])"

text \<open>
  \<open>mint_operator_jwt\<close>: the token of the job's own address, or the type of the exception. What the key library
  raises on an invalid key has no name here: the preflight checked the key before.
\<close>

definition mint_operator_jwt :: "preflight_env \<Rightarrow> string + string" where
  "mint_operator_jwt E =
     (let secret = py_strip (pe_jwt_secret E); key = py_strip (pe_key E) in
      if secret = [] \<or> key = [] then Inl ''RuntimeError''
      else case lib_from_key (pe_libs E) key of
        None \<Rightarrow> Inl ''Exception''
      | Some a \<Rightarrow> (case pe_ttl E of Inl err \<Rightarrow> Inl ''ValueError'' | Inr ttl \<Rightarrow> pe_encode E secret (py_lower a) ttl))"

section \<open>Signing in\<close>

definition rstrip_text :: "string \<Rightarrow> string" where
  "rstrip_text s = rev (lstrip (rev s))"

definition siwe_failed :: "int \<Rightarrow> json option \<Rightarrow> string" where
  "siwe_failed status body = rstrip_text (''siwe failed: '' @ py_str status @ '' '' @ answer_detail body)"

text \<open>How the sign-in ends: a failure of the API (\<open>RuntimeError\<close>), of the transport, or done.\<close>

datatype siwe_end = Siwe_Refused string | Siwe_Unreachable string | Siwe_Done

definition siwe_bootstrap :: "preflight_env \<Rightarrow> 's api_client \<Rightarrow> string \<Rightarrow> 's \<Rightarrow> siwe_end \<times> 's" where
  "siwe_bootstrap E client api_url s =
     (case job_operator E of
        Inl err \<Rightarrow> (Siwe_Refused err, s)
      | Inr (key, address) \<Rightarrow>
          (case client (Get_Nonce (py_lower address)) s of
             (Inl err, s') \<Rightarrow> (Siwe_Unreachable err, s')
           | (Inr (status, body), s') \<Rightarrow>
               if status \<noteq> 200 then (Siwe_Refused (siwe_failed status body), s')
               else (case (case body of Some (J_Obj kvs) \<Rightarrow> json_get kvs ''nonce'' | _ \<Rightarrow> J_Null) of
                   J_Str (c # cs) \<Rightarrow>
                     let message = build_siwe_message E api_url address (c # cs) in
                     (case client (Post_Siwe \<lparr> sw_message = message, sw_signature = ''0x'' @ to_hex (pe_sign E key message), sw_address = address \<rparr>) s' of
                        (Inl err, s'') \<Rightarrow> (Siwe_Unreachable err, s'')
                      | (Inr (status, body), s'') \<Rightarrow>
                          (if status \<noteq> 200 then Siwe_Refused (siwe_failed status body) else Siwe_Done, s''))
                 | _ \<Rightarrow> (Siwe_Refused ''siwe failed: nonce missing from response'', s'))))"

section \<open>The preflight\<close>

definition auth_cause :: "int \<Rightarrow> string \<Rightarrow> string \<Rightarrow> bool \<Rightarrow> string" where
  "auth_cause status detail operator bootstrapped =
     (let lowered = py_lower (py_strip detail); or_none = (\<lambda>t. if detail = [] then t else detail) in
      if status = 401 \<and> lowered = ''invalid token''
      then ''invalid token: job JWT_SECRET differs from API JWT_SECRET (API reads OU_JWT_SECRET unstripped; check trailing newline)''
      else if status = 401 \<and> lowered = ''unknown user''
      then (if bootstrapped then ''unknown user after SIWE bootstrap'' else ''unknown user'')
      else if status = 401 then ''unauthorized: '' @ or_none ''no detail''
      else if status = 403 \<and> lowered = ''operator only''
      then ''operator only: API OPERATOR_PRIVATE_KEY does not derive '' @ operator @ '' (or has whitespace)''
      else if status = 403 then ''forbidden: '' @ or_none ''non-JSON response''
      else if status = 404 then ''probe route missing: check OU_API_URL''
      else if status \<ge> 500 then ''api unreachable: '' @ py_str status
      else ''unexpected probe status '' @ py_str status @ '': '' @ or_none ''no detail'')"

record preflight =
  pf_ok :: bool
  pf_operator :: "string option"
  pf_status :: "int option"
  pf_detail :: string
  pf_bootstrapped :: bool
  pf_cause :: string

definition no_preflight :: preflight where
  "no_preflight = \<lparr> pf_ok = False, pf_operator = None, pf_status = None, pf_detail = [], pf_bootstrapped = False, pf_cause = [] \<rparr>"

text \<open>The verdict on the last probe.\<close>

definition probed :: "string \<Rightarrow> bool \<Rightarrow> api_answer \<Rightarrow> preflight" where
  "probed operator bootstrapped answer =
     (let r = no_preflight\<lparr>pf_operator := Some operator, pf_bootstrapped := bootstrapped\<rparr> in
      case answer of
        Inl err \<Rightarrow> r\<lparr>pf_cause := ''api unreachable: '' @ err\<rparr>
      | Inr (status, body) \<Rightarrow>
          let detail = answer_detail body; r' = r\<lparr>pf_status := Some status, pf_detail := detail\<rparr> in
          if 200 \<le> status \<and> status < 300 then r'\<lparr>pf_ok := True\<rparr>
          else r'\<lparr>pf_cause := auth_cause status detail operator bootstrapped\<rparr>)"

definition needs_bootstrap :: "api_answer \<Rightarrow> bool" where
  "needs_bootstrap answer =
     (case answer of Inl err \<Rightarrow> False | Inr (status, body) \<Rightarrow> (status, py_lower (py_strip (answer_detail body))) \<in> BOOTSTRAP_ON)"

definition job_api_url :: "preflight_env \<Rightarrow> string" where
  "job_api_url E = rev (dropWhile (\<lambda>c. c = CHR ''/'') (rev (py_strip (pe_api_url E))))"

definition auth_preflight :: "preflight_env \<Rightarrow> 's api_client \<Rightarrow> 's \<Rightarrow> preflight \<times> 's" where
  "auth_preflight E client s =
     (let api_url = job_api_url E in
      if api_url = [] then (no_preflight\<lparr>pf_cause := ''config: OU_API_URL missing''\<rparr>, s)
      else case job_operator E of
        Inl err \<Rightarrow> (no_preflight\<lparr>pf_cause := ''config: '' @ err\<rparr>, s)
      | Inr (key, a) \<Rightarrow>
          let operator = py_lower a; known = no_preflight\<lparr>pf_operator := Some operator\<rparr> in
          if py_strip (pe_jwt_secret E) = [] then (known\<lparr>pf_cause := ''config: JWT_SECRET missing''\<rparr>, s)
          else case mint_operator_jwt E of
            Inl exn \<Rightarrow> (known\<lparr>pf_cause := ''config: operator JWT mint failed ('' @ exn @ '')''\<rparr>, s)
          | Inr token \<Rightarrow>
              (case client (Probe token) s of (answer, s1) \<Rightarrow>
                 if \<not> needs_bootstrap answer then (probed operator False answer, s1)
                 else (case siwe_bootstrap E client api_url s1 of
                     (Siwe_Refused err, s2) \<Rightarrow>
                       (known\<lparr>pf_status := (case answer of Inl e \<Rightarrow> None | Inr (status, body) \<Rightarrow> Some status),
                          pf_detail := (case answer of Inl e \<Rightarrow> [] | Inr (status, body) \<Rightarrow> answer_detail body), pf_cause := err\<rparr>, s2)
                   | (Siwe_Unreachable err, s2) \<Rightarrow> (known\<lparr>pf_cause := ''api unreachable: '' @ err\<rparr>, s2)
                   | (Siwe_Done, s2) \<Rightarrow>
                       (case client (Probe token) s2 of (answer', s3) \<Rightarrow> (probed operator True answer', s3)))))"

section \<open>The API as the client's other side\<close>

definition answer_of :: "('a \<Rightarrow> json) \<Rightarrow> 'a http \<Rightarrow> api_answer" where
  "answer_of show_body r =
     Inr (case r of
        Inl (HTTPException status detail) \<Rightarrow> (status, Some (J_Obj [(''detail'', J_Str detail)]))
      | Inr x \<Rightarrow> (200, Some (show_body x)))"

text \<open>
  The routes of the model, over the database; \<open>fresh\<close> is the random nonce. A sign-in whose checks pass goes on
  to its DELETE at once.
\<close>

definition model_api :: "auth_env \<Rightarrow> string \<Rightarrow> dbase api_client" where
  "model_api A fresh request db =
     (case request of
        Probe token \<Rightarrow>
          (case upsert_schedule db (get_current_user A db (Some (''Bearer '' @ token))) [] of
             (r, db') \<Rightarrow> (answer_of (\<lambda>rows. J_Arr []) r, db'))
      | Get_Nonce address \<Rightarrow> (answer_of (\<lambda>v. J_Obj [(''nonce'', J_Str v)]) (Inr fresh), nonce fresh address db)
      | Post_Siwe body \<Rightarrow>
          (case siwe_check A db body of
             Inl e \<Rightarrow> (answer_of (\<lambda>u :: unit. J_Null) (Inl e), db)
           | Inr claim \<Rightarrow>
               (case siwe_consume A db claim of
                  (r, db') \<Rightarrow> (answer_of (\<lambda>(token, addr). J_Obj [(''token'', J_Str token), (''address'', J_Str addr)]) r, db'))))"

section \<open>A fresh database\<close>

text \<open>What a probe sees: whether the user of the token is known, and an operator.\<close>

definition is_operator_row :: "string \<Rightarrow> dbase \<Rightarrow> bool" where
  "is_operator_row addr db = (case get_user addr db of None \<Rightarrow> False | Some u \<Rightarrow> u_is_operator u)"

lemma after_bearer: "after_space (''Bearer '' @ token) = token"
  by (simp add: after_space_def)

lemma bearer_lower: "startswith (py_lower (''Bearer '' @ token)) ''bearer ''"
proof -
  have "py_lower ''Bearer '' = ''bearer ''" by code_simp
  then show ?thesis by (simp only: startswith_def py_lower_append prefix_def) blast
qed

lemma bearer_user:
  assumes "au_decode A token = Some addr"
  shows "get_current_user A db (Some (''Bearer '' @ token)) =
    (case get_user addr db of None \<Rightarrow> Inl (HTTPException 401 ''unknown user'') | Some u \<Rightarrow> Inr u)"
  by (simp only: get_current_user_def option.case assms after_bearer bearer_lower not_True_eq_False if_False)

lemma probe_model:
  assumes "au_decode A token = Some addr"
  shows "model_api A fresh (Probe token) db =
    (if is_operator_row addr db then Inr (200, Some (J_Arr []))
     else if get_user addr db = None then Inr (401, Some (J_Obj [(''detail'', J_Str ''unknown user'')]))
     else Inr (403, Some (J_Obj [(''detail'', J_Str ''operator only'')])), db)"
proof -
  have "model_api A fresh (Probe token) db =
     (case upsert_schedule db (case get_user addr db of None \<Rightarrow> Inl (HTTPException 401 ''unknown user'') | Some u \<Rightarrow> Inr u) [] of
        (r, db') \<Rightarrow> (answer_of (\<lambda>rows. J_Arr []) r, db'))"
    by (simp only: model_api_def api_request.case bearer_user [OF assms])
  then show ?thesis
    by (simp add: upsert_schedule_def require_operator_def answer_of_def is_operator_row_def split: option.split)
qed

lemma bootstrap_wanted:
  "needs_bootstrap (Inr (401, Some (J_Obj [(''detail'', J_Str ''unknown user'')])))"
  "needs_bootstrap (Inr (403, Some (J_Obj [(''detail'', J_Str ''operator only'')])))"
  "\<not> needs_bootstrap (Inr (200, Some (J_Arr [])))"
  by code_simp+

lemma in_the_middle: "substring_in u (v @ u @ w)"
  by (auto simp: substring_in_sublist sublist_def)

lemma message_address: "substring_in (py_lower address) (py_lower (build_siwe_message E api_url address quoted))"
proof -
  obtain v w where "build_siwe_message E api_url address quoted = v @ address @ w"
    unfolding build_siwe_message_def Let_def by (metis append.assoc)
  then show ?thesis using in_the_middle by (simp add: py_lower_append)
qed

lemma message_nonce: "substring_in quoted (build_siwe_message E api_url address quoted)"
proof -
  obtain v w where "build_siwe_message E api_url address quoted = v @ quoted @ w"
    unfolding build_siwe_message_def Let_def by (metis append.assoc)
  then show ?thesis using in_the_middle by simp
qed

text \<open>The nonce row after a request for one.\<close>

lemma nonce_stored:
  assumes "py_lower address = address"
  shows "get_row nn_address address (d_nonces (nonce value address db)) = Some \<lparr> nn_address = address, nn_nonce = value \<rparr>"
proof (cases "get_row nn_address address (d_nonces db)")
  case None
  then show ?thesis using assms by (simp add: nonce_def Let_def get_row_append)
next
  case (Some r)
  then show ?thesis using assms by (simp add: nonce_def Let_def get_row_put_row)
qed

lemma nonce_keys:
  assumes "distinct (map nn_address (d_nonces db))"
  shows "distinct (map nn_address (d_nonces (nonce value address db)))"
  using assms by (auto simp: nonce_def Let_def map_key_put_row get_row_None)

lemma nonce_users [simp]: "d_users (nonce value address db) = d_users db"
  by (simp add: nonce_def Let_def)

lemma one_nonce:
  assumes "distinct (map nn_address rows)" and "get_row nn_address addr rows = Some \<lparr> nn_address = addr, nn_nonce = value \<rparr>"
  shows "row_count (\<lambda>r. nn_address r = addr \<and> nn_nonce r = value) rows = 1"
  using row_count_one [OF assms(1), of addr "\<lambda>r. nn_nonce r = value"] assms(2) by simp

lemma sign_in_accepted:
  assumes "au_recover A message signature = Inr a" and "signature \<notin> {[], ''0x'', ''0x00''}"
    and "substring_in (py_lower a) (py_lower message)" and "substring_in value message"
    and "get_row nn_address (py_lower a) (d_nonces db) = Some \<lparr> nn_address = py_lower a, nn_nonce = value \<rparr>"
    and "distinct (map nn_address (d_nonces db))"
  shows "model_api A fresh (Post_Siwe \<lparr> sw_message = message, sw_signature = signature, sw_address = a \<rparr>) db =
    (let op = (operator_address A = Some (py_lower a));
         db' = db\<lparr>d_nonces := filter (\<lambda>r. \<not> (nn_address r = py_lower a \<and> nn_nonce r = value)) (d_nonces db)\<rparr> in
      (Inr (200, Some (J_Obj [(''token'', J_Str (issue A (py_lower a) op)), (''address'', J_Str (py_lower a))])),
       upsert_user (py_lower a) op [] (\<lambda>u. u\<lparr>u_is_operator := op\<rparr>) db'))"
proof -
  have "siwe_check A db \<lparr> sw_message = message, sw_signature = signature, sw_address = a \<rparr> = Inr (py_lower a, value)"
    using assms by (simp add: siwe_check_def)
  moreover have "row_count (\<lambda>r. nn_address r = py_lower a \<and> nn_nonce r = value) (d_nonces db) = 1"
    by (rule one_nonce [OF assms(6,5)])
  ultimately show ?thesis
    by (simp add: model_api_def siwe_consume_def answer_of_def Let_def)
qed

lemma operator_after_sign_in:
  assumes "\<And>u. u_address (f u) = u_address u" and "\<And>u. u_is_operator (f u)"
  shows "is_operator_row addr (upsert_user addr True [] f db)"
    and "b \<noteq> addr \<Longrightarrow> get_user b (upsert_user addr True [] f db) = get_user b db"
proof -
  show "is_operator_row addr (upsert_user addr True [] f db)"
  proof (cases "get_user addr db")
    case None
    then show ?thesis by (simp add: is_operator_row_def upsert_user_def get_row_append)
  next
    case (Some u)
    then have "u_address (f u) = addr" using assms(1) get_row_Some [OF Some] by simp
    then show ?thesis using Some assms(2) by (simp add: is_operator_row_def upsert_user_def get_row_put_row)
  qed
  show "get_user b (upsert_user addr True [] f db) = get_user b db" if "b \<noteq> addr"
  proof (cases "get_user addr db")
    case None
    then show ?thesis using that by (simp add: upsert_user_def get_row_append split: option.split)
  next
    case (Some u)
    then have "u_address (f u) = addr" using assms(1) get_row_Some [OF Some] by simp
    then show ?thesis using Some that by (simp add: upsert_user_def get_row_put_row)
  qed
qed

text \<open>The sign-in of a job whose key is the API's operator key.\<close>

lemma bootstrap_model:
  assumes "job_operator E = Inr (key, a)" and "operator_address A = Some (py_lower a)"
    and "\<And>m. au_recover A m (''0x'' @ to_hex (pe_sign E key m)) = Inr a" and "\<And>m. length (pe_sign E key m) = 65"
    and "fresh \<noteq> []" and "distinct (map nn_address (d_nonces db))"
  shows "\<exists>db'. siwe_bootstrap E (model_api A fresh) api_url db = (Siwe_Done, db') \<and> is_operator_row (py_lower a) db' \<and>
    (\<forall>b. b \<noteq> py_lower a \<longrightarrow> get_user b db' = get_user b db)"
proof -
  obtain c cs where fresh: "fresh = c # cs" using assms(5) by (cases fresh) auto
  define message where "message = build_siwe_message E api_url a fresh"
  define stored where "stored = nonce fresh (py_lower a) db"
  define signed where "signed = ''0x'' @ to_hex (pe_sign E key message)"
  have "length (to_hex (pe_sign E key message)) = 130" using assms(4) by (simp add: to_hex_def length_concat comp_def sum_list_triv)
  then have long: "signed \<notin> {[], ''0x'', ''0x00''}" unfolding signed_def by auto
  have recovered: "au_recover A message signed = Inr a" unfolding signed_def by (rule assms(3))
  have stored_row: "get_row nn_address (py_lower a) (d_nonces stored) = Some \<lparr> nn_address = py_lower a, nn_nonce = fresh \<rparr>"
    unfolding stored_def by (rule nonce_stored) (simp add: py_lower_idem)
  have keys: "distinct (map nn_address (d_nonces stored))" unfolding stored_def by (rule nonce_keys [OF assms(6)])
  define gone where "gone = stored\<lparr>d_nonces := filter (\<lambda>r. \<not> (nn_address r = py_lower a \<and> nn_nonce r = fresh)) (d_nonces stored)\<rparr>"
  define db' where "db' = upsert_user (py_lower a) True [] (\<lambda>u. u\<lparr>u_is_operator := True\<rparr>) gone"
  have answer: "\<exists>body. model_api A fresh (Post_Siwe \<lparr> sw_message = message, sw_signature = signed, sw_address = a \<rparr>) stored = (Inr (200, body), db')"
    unfolding sign_in_accepted [OF recovered long message_address [of a E api_url fresh, folded message_def]
        message_nonce [of fresh E api_url a, folded message_def] stored_row keys]
    using assms(2) by (simp add: Let_def db'_def gone_def)
  have asked: "model_api A fresh (Get_Nonce (py_lower a)) db = (Inr (200, Some (J_Obj [(''nonce'', J_Str fresh)])), stored)"
    by (simp add: model_api_def answer_of_def stored_def)
  have "siwe_bootstrap E (model_api A fresh) api_url db = (Siwe_Done, db')"
    using answer asked unfolding fresh signed_def
    by (auto simp: siwe_bootstrap_def assms(1) json_get_def message_def [unfolded fresh, symmetric] Let_def)
  moreover have "is_operator_row (py_lower a) db'" "\<forall>b. b \<noteq> py_lower a \<longrightarrow> get_user b db' = get_user b db"
    unfolding db'_def by (auto simp: operator_after_sign_in gone_def stored_def)
  ultimately show ?thesis by blast
qed

text \<open>
  C36 (preflight_bootstraps_operator). When the job holds the API's operator key and the two share the token
  secret, the preflight passes whatever the database holds: with an operator row it only probes, without one, or
  with one that lost its flag, it signs in once. Afterwards the operator's row is there with its flag, and no
  other user's row has changed.
\<close>

theorem preflight_bootstraps_operator:
  assumes "job_api_url E \<noteq> []" and "job_operator E = Inr (key, a)" and "operator_address A = Some (py_lower a)"
    and "mint_operator_jwt E = Inr token" and "au_decode A token = Some (py_lower a)"
    and "\<And>m. au_recover A m (''0x'' @ to_hex (pe_sign E key m)) = Inr a" and "\<And>m. length (pe_sign E key m) = 65"
    and "fresh \<noteq> []" and "distinct (map nn_address (d_nonces db))"
    and "auth_preflight E (model_api A fresh) db = (r, db')"
  shows "pf_ok r \<and> pf_operator r = Some (py_lower a) \<and> pf_bootstrapped r = (\<not> is_operator_row (py_lower a) db) \<and>
    is_operator_row (py_lower a) db' \<and> (\<forall>b. b \<noteq> py_lower a \<longrightarrow> get_user b db' = get_user b db)"
proof -
  have secret: "py_strip (pe_jwt_secret E) \<noteq> []" using assms(4) by (auto simp: mint_operator_jwt_def Let_def)
  note probe = probe_model [OF assms(5)]
  show ?thesis
  proof (cases "is_operator_row (py_lower a) db")
    case True
    then show ?thesis
      using assms(1,10) secret
      by (auto simp: auth_preflight_def Let_def assms(2,4) probe bootstrap_wanted probed_def no_preflight_def)
  next
    case False
    obtain db'' where boot: "siwe_bootstrap E (model_api A fresh) (job_api_url E) db = (Siwe_Done, db'')"
      "is_operator_row (py_lower a) db''" "\<forall>b. b \<noteq> py_lower a \<longrightarrow> get_user b db'' = get_user b db"
      using bootstrap_model [OF assms(2,3,6-9)] by blast
    then show ?thesis
      using assms(1,10) secret False
      by (auto simp: auth_preflight_def Let_def assms(2,4) probe bootstrap_wanted probed_def no_preflight_def split: if_splits)
  qed
qed

text \<open>An empty database and a key the API shares.\<close>

definition ex_preflight :: preflight_env where
  "ex_preflight = \<lparr> pe_api_url = ''https://api'', pe_key = ''k'', pe_jwt_secret = ''s'', pe_ttl = Inr 60, pe_chain_id = ''8453'',
     pe_libs = ex_libs\<lparr>lib_from_key := (\<lambda>k. Some ''0xAb'')\<rparr>, pe_netloc = (\<lambda>u. ''api''), pe_stamp = ''now'',
     pe_encode = (\<lambda>secret sub ttl. Inr sub), pe_sign = (\<lambda>k m. replicate 65 (CHR 0x00)) \<rparr>"

definition ex_api :: auth_env where
  "ex_api = ex_auth\<lparr>au_libs := ex_libs\<lparr>lib_from_key := (\<lambda>k. Some ''0xAb'')\<rparr>, au_settings := default_settings\<lparr>s_operator_private_key := ''k''\<rparr>,
     au_recover := (\<lambda>m s. Inr ''0xAb'')\<rparr>"

lemma ex_preflight_config:
  "job_api_url ex_preflight \<noteq> []" "job_operator ex_preflight = Inr (''k'', ''0xAb'')"
  "operator_address ex_api = Some (py_lower ''0xAb'')" "mint_operator_jwt ex_preflight = Inr ''0xab''"
  "au_decode ex_api ''0xab'' = Some (py_lower ''0xAb'')"
  by code_simp+

theorem preflight_bootstraps_operator_witness:
  "pf_ok (fst (auth_preflight ex_preflight (model_api ex_api ''n1'') empty_db)) \<and>
   pf_bootstrapped (fst (auth_preflight ex_preflight (model_api ex_api ''n1'') empty_db)) \<and>
   is_operator_row ''0xab'' (snd (auth_preflight ex_preflight (model_api ex_api ''n1'') empty_db))"
proof -
  have lower: "py_lower ''0xAb'' = ''0xab''" by code_simp
  have none: "\<not> is_operator_row ''0xab'' empty_db" by code_simp
  obtain r db' where run: "auth_preflight ex_preflight (model_api ex_api ''n1'') empty_db = (r, db')" by (metis prod.exhaust)
  have "pf_ok r \<and> pf_operator r = Some (py_lower ''0xAb'') \<and> pf_bootstrapped r = (\<not> is_operator_row (py_lower ''0xAb'') empty_db) \<and>
    is_operator_row (py_lower ''0xAb'') db' \<and> (\<forall>b. b \<noteq> py_lower ''0xAb'' \<longrightarrow> get_user b db' = get_user b empty_db)"
  proof (rule preflight_bootstraps_operator [OF ex_preflight_config _ _ _ _ run])
    show "au_recover ex_api m (''0x'' @ to_hex (pe_sign ex_preflight ''k'' m)) = Inr ''0xAb''" for m by (simp add: ex_api_def)
    show "length (pe_sign ex_preflight ''k'' m) = 65" for m by (simp add: ex_preflight_def)
  qed (simp_all add: empty_db_def)
  then show ?thesis by (simp add: run lower none)
qed

end
