(* ===== verification/Market_Audit.thy ===== *)
theory Market_Audit
  imports Resolver Listing_Job Orders
begin

text \<open>
  The market audit (\<open>scripts/audit_markets.py\<close>): what it reads of the chain, the bucket it puts every listed market
  in, the coverage of the schedule and the exit code. Explanatory notes and hints are constructors with the values
  they print; rendering them is not modelled. What the script copies of the job's code (\<open>yes_team\<close>, \<open>score_outcome\<close>,
  \<open>is_sports_primary\<close>, \<open>winner_question\<close>, \<open>link_games\<close>) is the job's own definition here.
\<close>

section \<open>Reading the chain\<close>

datatype call_arg = Arg_Hex string | Arg_Int int

text \<open>\<open>[0-9a-fA-F]*$\<close>: the dollar also matches before a final line break.\<close>

definition hex_only :: "string \<Rightarrow> bool" where
  "hex_only s = list_all is_hex_char (if s \<noteq> [] \<and> last s = CHR 0x0A then butlast s else s)"

definition rjust64 :: "string \<Rightarrow> string" where
  "rjust64 s = replicate (64 - length s) (CHR ''0'') @ s"

definition encode_arg :: "call_arg \<Rightarrow> string + string" where
  "encode_arg arg =
     (case arg of
        Arg_Int n \<Rightarrow> if n < 0 \<or> n \<ge> 2 ^ 256 then Inl ''uint256 out of range'' else Inr (rjust64 (hex_digits (nat n)))
      | Arg_Hex s \<Rightarrow>
          let body = strip0x s in
          if length body > 64 \<or> \<not> hex_only body then Inl ''bad hex argument'' else Inr (rjust64 (py_lower body)))"

fun encode_args :: "call_arg list \<Rightarrow> string + string" where
  "encode_args [] = Inr []"
| "encode_args (a # as) =
     (case encode_arg a of
        Inl err \<Rightarrow> Inl err
      | Inr w \<Rightarrow> (case encode_args as of Inl err \<Rightarrow> Inl err | Inr ws \<Rightarrow> Inr (w @ ws)))"

text \<open>The selectors of the script are eight lower-case hex digits.\<close>

definition encode_call :: "string \<Rightarrow> call_arg list \<Rightarrow> string + string" where
  "encode_call selector args =
     (let sel = (if startswith selector ''0x'' then drop 2 selector else selector) in
      if length sel \<noteq> 8 \<or> \<not> hex_only sel then Inl ''bad selector''
      else case encode_args args of Inl err \<Rightarrow> Inl err | Inr ws \<Rightarrow> Inr (''0x'' @ py_lower sel @ ws))"

definition first_word :: "string \<Rightarrow> string + string" where
  "first_word h =
     (let body = strip0x h in
      if body = [] then Inl ''empty eth_call result (no contract at that address?)''
      else if \<not> hex_only body \<or> length body < 64 then Inl ''short or malformed eth_call result''
      else Inr (take 64 body))"

definition decode_uint :: "string \<Rightarrow> string + int" where
  "decode_uint h =
     (case first_word h of
        Inl err \<Rightarrow> Inl err
      | Inr w \<Rightarrow> (case parse_digits is_hex_char 16 False 0 (py_strip w) of None \<Rightarrow> Inl ''ValueError'' | Some n \<Rightarrow> Inr n))"

definition decode_bool :: "string \<Rightarrow> string + bool" where
  "decode_bool h =
     (case decode_uint h of
        Inl err \<Rightarrow> Inl err
      | Inr n \<Rightarrow> if n > 1 then Inl ''not a bool word'' else Inr (n = 1))"

definition decode_address :: "string \<Rightarrow> string + string" where
  "decode_address h = (case first_word h of Inl err \<Rightarrow> Inl err | Inr w \<Rightarrow> Inr (''0x'' @ py_lower (drop 24 w)))"

text \<open>\<open>ChainReader\<close>: an \<open>eth_call\<close> to an address, with the addresses that were given or read before.\<close>

record chain_reader =
  rd_call :: "string \<Rightarrow> string \<Rightarrow> string + string"
  rd_oracle :: string
  rd_ctf :: "string option"
  rd_factory :: "string option"

definition ZERO_ADDR :: string where "ZERO_ADDR = ''0x'' @ replicate 40 (CHR ''0'')"

definition err_bind :: "string + 'a \<Rightarrow> ('a \<Rightarrow> string + 'b) \<Rightarrow> string + 'b" where
  "err_bind m f = (case m of Inl err \<Rightarrow> Inl err | Inr x \<Rightarrow> f x)"

definition read_view :: "chain_reader \<Rightarrow> string \<Rightarrow> string \<Rightarrow> call_arg list \<Rightarrow> string + string" where
  "read_view R to selector args = err_bind (encode_call selector args) (rd_call R to)"

definition ctf_address :: "chain_reader \<Rightarrow> string + string" where
  "ctf_address R =
     (case rd_ctf R of Some a \<Rightarrow> Inr a | None \<Rightarrow> err_bind (read_view R (rd_oracle R) ''0x22a9339f'' []) decode_address)"

definition factory_address :: "chain_reader \<Rightarrow> string + string" where
  "factory_address R =
     (case rd_factory R of Some a \<Rightarrow> Inr a | None \<Rightarrow> err_bind (read_view R (rd_oracle R) ''0xc45a0155'' []) decode_address)"

definition operator_view :: "chain_reader \<Rightarrow> string + string" where
  "operator_view R = err_bind (read_view R (rd_oracle R) ''0x570ca735'' []) decode_address"

definition read_close_time :: "chain_reader \<Rightarrow> string \<Rightarrow> string + int" where
  "read_close_time R cid = err_bind (read_view R (rd_oracle R) ''0xc6836f18'' [Arg_Hex cid]) decode_uint"

definition read_oracle_resolved :: "chain_reader \<Rightarrow> string \<Rightarrow> string + bool" where
  "read_oracle_resolved R cid = err_bind (read_view R (rd_oracle R) ''0x8920870e'' [Arg_Hex cid]) decode_bool"

definition read_attestations :: "chain_reader \<Rightarrow> string \<Rightarrow> string + int" where
  "read_attestations R cid = err_bind (read_view R (rd_oracle R) ''0xd65ddd52'' [Arg_Hex cid]) decode_uint"

definition read_ctf_resolved :: "chain_reader \<Rightarrow> string \<Rightarrow> string + bool" where
  "read_ctf_resolved R cid =
     err_bind (ctf_address R) (\<lambda>ctf. err_bind (read_view R ctf ''0xdd34de67'' [Arg_Hex cid]) (\<lambda>h.
     err_bind (decode_uint h) (\<lambda>n. Inr (n > 0))))"

definition read_payout :: "chain_reader \<Rightarrow> string \<Rightarrow> string \<Rightarrow> int \<Rightarrow> string + int" where
  "read_payout R ctf cid i = err_bind (read_view R ctf ''0x0504c814'' [Arg_Hex cid, Arg_Int i]) decode_uint"

definition read_payouts :: "chain_reader \<Rightarrow> string \<Rightarrow> string + int \<times> int" where
  "read_payouts R cid =
     err_bind (ctf_address R) (\<lambda>ctf. err_bind (read_payout R ctf cid 0) (\<lambda>yes.
     err_bind (read_payout R ctf cid 1) (\<lambda>no. Inr (yes, no))))"

definition read_ctf_oracle :: "chain_reader \<Rightarrow> string \<Rightarrow> string + string" where
  "read_ctf_oracle R cid =
     err_bind (ctf_address R) (\<lambda>ctf. err_bind (read_view R ctf ''0xa81a2677'' [Arg_Hex cid]) decode_address)"

definition read_market_exists :: "chain_reader \<Rightarrow> string \<Rightarrow> string + bool option" where
  "read_market_exists R cid =
     err_bind (factory_address R) (\<lambda>factory.
     if factory = ZERO_ADDR then Inr None
     else err_bind (read_view R factory ''0xd8d03989'' [Arg_Hex cid]) (\<lambda>h. err_bind (decode_bool h) (\<lambda>b. Inr (Some b))))"

record chain_snap =
  sn_close :: "int option"
  sn_oracle_resolved :: "bool option"
  sn_ctf_resolved :: "bool option"
  sn_payouts :: "(int \<times> int) option"
  sn_ctf_oracle :: "string option"
  sn_market_exists :: "bool option"
  sn_attestations :: "int option"
  sn_error :: "string option"

definition no_snap :: chain_snap where
  "no_snap = \<lparr> sn_close = None, sn_oracle_resolved = None, sn_ctf_resolved = None, sn_payouts = None, sn_ctf_oracle = None,
     sn_market_exists = None, sn_attestations = None, sn_error = None \<rparr>"

text \<open>One read after the other; the first that fails ends the snapshot, which keeps what was read.\<close>

definition snap_read :: "string + 'a \<Rightarrow> chain_snap \<Rightarrow> ('a \<Rightarrow> chain_snap) \<Rightarrow> chain_snap" where
  "snap_read m s f = (case m of Inl err \<Rightarrow> s\<lparr>sn_error := Some err\<rparr> | Inr x \<Rightarrow> f x)"

definition snapshot :: "chain_reader \<Rightarrow> string \<Rightarrow> chain_snap" where
  "snapshot R cid =
     snap_read (read_close_time R cid) no_snap (\<lambda>close. let s = no_snap\<lparr>sn_close := Some close\<rparr> in
     if close = 0 then snap_read (read_ctf_oracle R cid) s (\<lambda>a. s\<lparr>sn_ctf_oracle := Some a\<rparr>)
     else snap_read (read_oracle_resolved R cid) s (\<lambda>res. let s = s\<lparr>sn_oracle_resolved := Some res\<rparr> in
     snap_read (read_ctf_resolved R cid) s (\<lambda>done. let s = s\<lparr>sn_ctf_resolved := Some done\<rparr>;
       rest = (\<lambda>s. snap_read (read_market_exists R cid) s (\<lambda>e. s\<lparr>sn_market_exists := e\<rparr>)) in
     if done then snap_read (read_payouts R cid) s (\<lambda>p. rest (s\<lparr>sn_payouts := Some p\<rparr>))
     else snap_read (read_attestations R cid) s (\<lambda>n. rest (s\<lparr>sn_attestations := Some n\<rparr>)))))"

section \<open>Markets\<close>

datatype market_role = Primary_Role | Child_Role | Orphan_Child

text \<open>A card of the API, or a bare market.\<close>

datatype audit_card = Event_Card card_json | Bare_Market market_json

type_synonym listed_market = "market_json \<times> market_role"

text \<open>Markets by the lower-case id; a child without a parent gets the card's primary.\<close>

definition add_market :: "market_role \<Rightarrow> string \<Rightarrow> market_json \<Rightarrow> listed_market list \<Rightarrow> listed_market list" where
  "add_market role card_parent m out =
     (let cid = py_lower (mj_condition_id m) in
      if cid = [] \<or> cid \<in> set (map (py_lower \<circ> mj_condition_id \<circ> fst) out) then out
      else out @ [((if card_parent \<noteq> [] \<and> mj_parent m = [] then m\<lparr>mj_parent := card_parent\<rparr> else m), role)])"

fun flatten_card :: "audit_card \<Rightarrow> listed_market list \<Rightarrow> listed_market list" where
  "flatten_card (Event_Card cj) out =
     (let p = cj_primary cj in
      fold (add_market Child_Role (mj_condition_id p)) (cj_children cj)
        (add_market (if mj_market_type p = 1 then Orphan_Child else Primary_Role) [] p out))"
| "flatten_card (Bare_Market m) out =
     (if mj_market_type m = 1 then add_market (if mj_parent m \<noteq> [] then Child_Role else Orphan_Child) [] m out
      else add_market Primary_Role [] m out)"

definition flatten_cards :: "audit_card list \<Rightarrow> listed_market list" where
  "flatten_cards cards = fold flatten_card cards []"

datatype resolver_kind = Sports_Kind | General_Kind | Manual_Kind

definition market_kind :: "market_json \<Rightarrow> bool \<Rightarrow> resolver_kind" where
  "market_kind m general_enabled =
     (if is_dual_gate_primary m then Sports_Kind else if general_enabled then General_Kind else Manual_Kind)"

definition audit_gate_subject :: "market_json \<Rightarrow> (string \<times> gate_kind) option" where
  "audit_gate_subject m =
     (if mj_market_type m = 1 \<or> mj_parent m \<noteq> [] then Some (mj_parent m, Parent_Gate)
      else if is_sports_primary m \<and> \<not> is_dual_gate_primary m then Some (mj_condition_id m, Event_Gate)
      else None)"

definition general_resolve_at :: "market_json \<Rightarrow> int \<Rightarrow> int \<Rightarrow> int \<Rightarrow> int" where
  "general_resolve_at m effective_close delay_s gated_delay_s =
     (let explicit = mj_resolve_after m in
      if explicit \<noteq> 0 then max effective_close explicit
      else effective_close + (if audit_gate_subject m \<noteq> None then gated_delay_s else delay_s))"

text \<open>The detail of a market: its public part, whether it is paused, and its score.\<close>

record audit_detail =
  ad_market :: market_json
  ad_paused :: bool
  ad_score :: "score_json option"

definition score_view :: "audit_detail option \<Rightarrow> score_json option" where
  "score_view d = Option.bind d ad_score"

record gate_view =
  gv_found :: bool
  gv_status :: "string option"
  gv_resolved :: bool
  gv_feed :: bool

text \<open>The chain's answer, when there is one, decides whether the subject resolved.\<close>

definition gate_view_of :: "market_json option \<Rightarrow> audit_detail option \<Rightarrow> bool option \<Rightarrow> gate_view" where
  "gate_view_of subject detail resolved =
     \<lparr> gv_found = (subject \<noteq> None), gv_status = map_option sj_status (score_view detail),
       gv_resolved = (case resolved of Some r \<Rightarrow> r | None \<Rightarrow> (case subject of None \<Rightarrow> False | Some m \<Rightarrow> mj_resolved m)),
       gv_feed = (case subject of None \<Rightarrow> True | Some m \<Rightarrow> is_sports_primary m) \<rparr>"

definition GATE_DONE_STATUSES :: "string set" where "GATE_DONE_STATUSES = {''final'', ''cancelled''}"

record gate_row =
  gr_kind :: gate_kind
  gr_subject :: string
  gr_status :: "string option"
  gr_done :: bool
  gr_found :: bool
  gr_feed :: bool

definition gate_row_of :: "market_json \<Rightarrow> audit_detail option \<Rightarrow> gate_view option \<Rightarrow> gate_row option" where
  "gate_row_of m detail gate =
     (case audit_gate_subject m of
        None \<Rightarrow> None
      | Some (subject, kind) \<Rightarrow>
          let view = (if kind = Event_Gate then gate_view_of (Some m) detail (Some False)
            else case gate of Some v \<Rightarrow> v | None \<Rightarrow> gate_view_of None None None) in
          Some \<lparr> gr_kind = kind, gr_subject = subject, gr_status = gv_status view,
            gr_done = (gv_resolved view \<or> (case gv_status view of None \<Rightarrow> False | Some s \<Rightarrow> s \<in> GATE_DONE_STATUSES)),
            gr_found = gv_found view, gr_feed = gv_feed view \<rparr>)"

definition audit_payout_outcome :: "(int \<times> int) option \<Rightarrow> int option" where
  "audit_payout_outcome p = (if p = Some (1, 0) then Some 0 else if p = Some (0, 1) then Some 1 else None)"

section \<open>Classification\<close>

datatype bucket = Not_Registered | Mismatch | Overdue_Final | Overdue_General | Overdue_No_Final | Manual | Live_Game
  | Awaiting_General | Open_Market | Resolved_Market

definition BUCKETS :: "bucket list" where
  "BUCKETS = [Not_Registered, Mismatch, Overdue_Final, Overdue_General, Overdue_No_Final, Manual, Live_Game, Awaiting_General, Open_Market, Resolved_Market]"

definition FINDING_BUCKETS :: "bucket set" where
  "FINDING_BUCKETS = {Not_Registered, Mismatch, Overdue_Final, Overdue_General, Overdue_No_Final}"

datatype flag = Chain_Error | Overdue | Early_Final | Fallback_Window | Cancelled_Score | Detail_Error | Detail_Missing | Unscheduled

definition WARNING_FLAGS :: "flag set" where "WARNING_FLAGS = {Early_Final, Unscheduled, Detail_Missing, Detail_Error}"

datatype mismatch_field = Resolved_Field | Ctf_Resolved_Field | Payouts_Field | Close_Time_Field | Market_Exists_Field

record audit_settings =
  as_grace :: int
  as_delay :: int
  as_gated_delay :: int
  as_general :: bool
  as_ignore_manual :: bool
  as_strict :: bool

definition FALLBACK_WINDOW :: int where "FALLBACK_WINDOW = 86400"

definition effective_close :: "int \<Rightarrow> chain_snap option \<Rightarrow> int" where
  "effective_close db_close chain =
     (case Option.bind chain sn_close of None \<Rightarrow> db_close | Some c \<Rightarrow> if c \<noteq> 0 then max db_close c else db_close)"

definition mismatch_fields :: "market_json \<Rightarrow> int \<times> int \<Rightarrow> chain_snap \<Rightarrow> mismatch_field list" where
  "mismatch_fields m db_payouts s =
     (case sn_oracle_resolved s of None \<Rightarrow> [] | Some r \<Rightarrow> if r \<noteq> mj_resolved m then [Resolved_Field] else []) @
     (case (sn_oracle_resolved s, sn_ctf_resolved s) of (Some r, Some c) \<Rightarrow> if r \<noteq> c then [Ctf_Resolved_Field] else [] | _ \<Rightarrow> []) @
     (case sn_payouts s of
        None \<Rightarrow> []
      | Some p \<Rightarrow> if mj_resolved m \<and> sn_ctf_resolved s = Some True \<and> p \<noteq> db_payouts then [Payouts_Field] else []) @
     (case sn_close s of None \<Rightarrow> [] | Some c \<Rightarrow> if c \<noteq> mj_close_time m then [Close_Time_Field] else []) @
     (if sn_market_exists s = Some False then [Market_Exists_Field] else [])"

text \<open>A score that says nothing yet.\<close>

definition unfinished :: "string option \<Rightarrow> bool" where
  "unfinished status = (status \<in> {None, Some ''scheduled'', Some ''in_progress''})"

text \<open>The first bucket that matches.\<close>

definition audit_bucket ::
  "audit_settings \<Rightarrow> int \<Rightarrow> market_json \<Rightarrow> int \<times> int \<Rightarrow> audit_detail option \<Rightarrow> chain_snap option \<Rightarrow> gate_view option \<Rightarrow> bucket" where
  "audit_bucket S now m db_payouts detail chain gate =
     (let kind = market_kind m (as_general S); effective = effective_close (mj_close_time m) chain; age = now - effective;
          status = map_option sj_status (score_view detail) in
      if Option.bind chain sn_close = Some 0 then Not_Registered
      else if (case chain of None \<Rightarrow> False | Some s \<Rightarrow> mismatch_fields m db_payouts s \<noteq> []) then Mismatch
      else if mj_resolved m then Resolved_Market
      else if kind = Manual_Kind then Manual
      else if now < effective then Open_Market
      else if kind = General_Kind then
        (if now < general_resolve_at m effective (as_delay S) (as_gated_delay S) then Awaiting_General
         else case gate_row_of m detail gate of
           None \<Rightarrow> Overdue_General
         | Some g \<Rightarrow>
             if gr_done g then Overdue_General
             else if \<not> gr_feed g \<or> (age \<le> as_grace S \<and> unfinished (gr_status g)) then Awaiting_General
             else Overdue_No_Final)
      else if age \<le> as_grace S \<and> unfinished status then Live_Game
      else if status = Some ''final'' then Overdue_Final
      else Overdue_No_Final)"

definition audit_derived :: "market_json \<Rightarrow> audit_detail option \<Rightarrow> int option" where
  "audit_derived m detail =
     Option.bind (score_view detail) (\<lambda>s. score_outcome (mj_question m) (sj_home_label s) (sj_away_label s) (sj_home_score s) (sj_away_score s))"

text \<open>What the row says beside its bucket, in the order of the code.\<close>

datatype audit_note =
    Chain_Read_Failed string
  | No_Ctf_Oracle
  | Other_Ctf_Oracle string
  | Mismatch_Note "mismatch_field list"
  | No_Resolver
  | No_Criteria
  | Final_Before_Close
  | General_Eligible_In int "gate_kind option"
  | No_Parent_Feed
  | Waits_For_Score gate_kind "string option"
  | Parent_Not_Found
  | No_Score_Outcome
  | Postponed_Note
  | No_Score_Posted
  | Score_Still string
  | Past_Fallback "int option"
  | Cancelled_Note
  | Detail_Fetch_Failed string
  | No_Schedule_Row

definition chain_notes :: "chain_snap option \<Rightarrow> bucket \<Rightarrow> mismatch_field list \<Rightarrow> audit_note list" where
  "chain_notes chain b differing =
     (case Option.bind chain sn_error of None \<Rightarrow> [] | Some err \<Rightarrow> [Chain_Read_Failed err]) @
     (if b = Not_Registered then
        (case Option.bind chain sn_ctf_oracle of
           None \<Rightarrow> [] | Some a \<Rightarrow> if a = ZERO_ADDR then [No_Ctf_Oracle] else if a \<noteq> [] then [Other_Ctf_Oracle a] else [])
      else if b = Mismatch then [Mismatch_Note differing] else [])"

definition general_notes :: "int \<Rightarrow> int \<Rightarrow> gate_row option \<Rightarrow> bucket \<Rightarrow> audit_note list" where
  "general_notes now due g b =
     (if now < due
      then [General_Eligible_In (due - now) (case g of None \<Rightarrow> None | Some r \<Rightarrow> if gr_done r then None else Some (gr_kind r))]
      else case g of
        None \<Rightarrow> []
      | Some r \<Rightarrow>
          if gr_done r then []
          else if \<not> gr_feed r then [No_Parent_Feed]
          else if b = Awaiting_General \<or> gr_found r then [Waits_For_Score (gr_kind r) (gr_status r)]
          else [Parent_Not_Found])"

definition sports_notes :: "bucket \<Rightarrow> string option \<Rightarrow> int option \<Rightarrow> audit_note list" where
  "sports_notes b status derived =
     (if b = Overdue_Final then (if derived = None then [No_Score_Outcome] else [])
      else if b = Overdue_No_Final then
        (case status of
           None \<Rightarrow> [No_Score_Posted]
         | Some s \<Rightarrow> if s = ''postponed'' then [Postponed_Note] else if s = ''cancelled'' then [] else [Score_Still s])
      else [])"

datatype next_step = Mismatch_Hint "mismatch_field list" bool bool | No_Outcome_Hint | Cancelled_Hint | Gate_Missing_Hint
  | Bucket_Hint bucket | Chain_Error_Hint | Flag_Hint flag

record audit_row =
  ar_market :: market_json
  ar_role :: market_role
  ar_kind :: resolver_kind
  ar_bucket :: bucket
  ar_flags :: "flag list"
  ar_notes :: "audit_note list"
  ar_effective :: int
  ar_age :: int
  ar_payouts :: "int \<times> int"
  ar_score :: "score_json option"
  ar_derived :: "int option"
  ar_chain_outcome :: "int option"
  ar_chain :: "chain_snap option"
  ar_mismatch :: "mismatch_field list"
  ar_gate :: "gate_row option"
  ar_warnings :: "flag list"
  ar_finding :: bool
  ar_hint :: "next_step option"

text \<open>\<open>_hint\<close>: the next step for the row, if there is one.\<close>

definition audit_hint :: "audit_row \<Rightarrow> next_step option" where
  "audit_hint r =
     (if ar_bucket r = Mismatch
      then Some (Mismatch_Hint (ar_mismatch r) (Option.bind (ar_chain r) sn_oracle_resolved = Some True) (mj_resolved (ar_market r)))
      else if ar_bucket r = Overdue_Final \<and> ar_derived r = None then Some No_Outcome_Hint
      else if ar_bucket r = Overdue_No_Final \<and> Cancelled_Score \<in> set (ar_flags r) then Some Cancelled_Hint
      else if ar_bucket r = Overdue_No_Final \<and> (case ar_gate r of None \<Rightarrow> False | Some g \<Rightarrow> \<not> gr_found g) then Some Gate_Missing_Hint
      else if ar_bucket r \<in> FINDING_BUCKETS then Some (Bucket_Hint (ar_bucket r))
      else if ar_bucket r = Manual \<and> Overdue \<in> set (ar_flags r) then Some (Bucket_Hint Manual)
      else if Chain_Error \<in> set (ar_flags r) then Some Chain_Error_Hint
      else map_option Flag_Hint (find (\<lambda>f. f \<in> WARNING_FLAGS) (ar_flags r)))"

definition finalize_row :: "audit_settings \<Rightarrow> audit_row \<Rightarrow> audit_row" where
  "finalize_row S r =
     (let warnings = filter (\<lambda>f. f \<in> WARNING_FLAGS) (ar_flags r);
          finding = (ar_bucket r \<in> FINDING_BUCKETS \<or> Chain_Error \<in> set (ar_flags r) \<or>
            (ar_bucket r = Manual \<and> Overdue \<in> set (ar_flags r) \<and> \<not> as_ignore_manual S) \<or> (as_strict S \<and> warnings \<noteq> [])) in
      r\<lparr>ar_warnings := warnings, ar_finding := finding, ar_hint := audit_hint r\<rparr>)"

definition audit_flags ::
  "audit_settings \<Rightarrow> int \<Rightarrow> market_json \<Rightarrow> resolver_kind \<Rightarrow> bucket \<Rightarrow> int \<Rightarrow> string option \<Rightarrow> chain_snap option \<Rightarrow> flag list" where
  "audit_flags S now m kind b age status chain =
     (if Option.bind chain sn_error \<noteq> None then [Chain_Error] else []) @
     (if b = Manual \<and> age \<ge> 0 then [Overdue] else []) @
     (if b = Open_Market \<and> kind = Sports_Kind \<and> status = Some ''final'' then [Early_Final] else []) @
     (if b \<in> {Overdue_Final, Overdue_General} \<and> age \<ge> FALLBACK_WINDOW then [Fallback_Window] else []) @
     (if status = Some ''cancelled'' \<and> \<not> mj_resolved m then [Cancelled_Score] else [])"

text \<open>\<open>classify\<close>.\<close>

definition classify ::
  "audit_settings \<Rightarrow> int \<Rightarrow> listed_market \<Rightarrow> int \<times> int \<Rightarrow> audit_detail option \<Rightarrow> chain_snap option \<Rightarrow> gate_view option \<Rightarrow> audit_row" where
  "classify S now lm db_payouts detail chain gate =
     (let m = fst lm; kind = market_kind m (as_general S); b = audit_bucket S now m db_payouts detail chain gate;
          effective = effective_close (mj_close_time m) chain; age = now - effective;
          status = map_option sj_status (score_view detail); derived = audit_derived m detail;
          differing = (case chain of None \<Rightarrow> [] | Some s \<Rightarrow> if sn_close s = Some 0 then [] else mismatch_fields m db_payouts s);
          g = (if kind = General_Kind then gate_row_of m detail gate else None);
          flags = audit_flags S now m kind b age status chain;
          settled = b \<in> {Not_Registered, Mismatch, Resolved_Market, Manual};
          notes = chain_notes chain b differing @ (if b = Manual \<and> age \<ge> 0 then [No_Resolver] else []) @
            (if \<not> settled \<and> kind = General_Kind \<and> py_strip (mj_resolution_criteria m) = [] then [No_Criteria] else []) @
            (if Early_Final \<in> set flags then [Final_Before_Close] else []) @
            (if settled \<or> b = Open_Market then []
             else if kind = General_Kind
             then general_notes now (general_resolve_at m effective (as_delay S) (as_gated_delay S)) g b
             else sports_notes b status derived) @
            (if Fallback_Window \<in> set flags then [Past_Fallback (Option.bind chain sn_attestations)] else []) @
            (if Cancelled_Score \<in> set flags then [Cancelled_Note] else []) in
      finalize_row S \<lparr> ar_market = m, ar_role = snd lm, ar_kind = kind, ar_bucket = b, ar_flags = flags, ar_notes = notes,
        ar_effective = effective, ar_age = age, ar_payouts = db_payouts, ar_score = score_view detail, ar_derived = derived,
        ar_chain_outcome = audit_payout_outcome (Option.bind chain sn_payouts), ar_chain = chain, ar_mismatch = differing,
        ar_gate = g, ar_warnings = [], ar_finding = False, ar_hint = None \<rparr>)"

section \<open>The schedule\<close>

definition link_games :: "sched_row list \<Rightarrow> market_json list \<Rightarrow> linked_row list" where
  "link_games schedule sports = map (link_row (cards_by_key sports)) schedule"

text \<open>Live statuses by the lower-case id.\<close>

definition audit_game_status :: "live_status \<Rightarrow> linked_row \<Rightarrow> string option" where
  "audit_game_status scores g =
     (case (if lw_link g = [] then None else map_of scores (py_lower (lw_link g))) of
        Some (Some s) \<Rightarrow> Some s
      | _ \<Rightarrow> sw_status (lw_row g))"

definition listing_stale :: "sched_row \<Rightarrow> string option \<Rightarrow> int \<Rightarrow> int \<Rightarrow> bool" where
  "listing_stale g status now grace_s =
     (status \<in> {None, Some ''scheduled'', Some ''in_progress''} \<and> sw_kickoff g + grace_s < now)"

definition week_complete_new :: "linked_row list \<Rightarrow> live_status \<Rightarrow> int \<Rightarrow> int \<Rightarrow> bool" where
  "week_complete_new games scores now grace_s =
     (games \<noteq> [] \<and> list_all (\<lambda>g. let status = audit_game_status scores g in
        (case status of None \<Rightarrow> False | Some s \<Rightarrow> s \<in> {''final'', ''postponed'', ''cancelled''}) \<or>
        listing_stale (lw_row g) status now grace_s) games)"

definition week_complete_legacy :: "linked_row list \<Rightarrow> live_status \<Rightarrow> bool" where
  "week_complete_legacy games scores =
     (games \<noteq> [] \<and> list_all (\<lambda>g. case map_of scores (row_question (lw_row g)) of
        Some status \<Rightarrow> status = Some ''final''
      | None \<Rightarrow> sw_status (lw_row g) = Some ''final'') games)"

datatype detail_answer = Detail audit_detail | No_Detail | Detail_Failed string

definition detail_of :: "(string \<times> detail_answer) list \<Rightarrow> string \<Rightarrow> audit_detail option" where
  "detail_of details key = (case map_of details key of Some (Detail d) \<Rightarrow> Some d | _ \<Rightarrow> None)"

record week_row =
  wr_week :: "int \<times> int"
  wr_games :: nat
  wr_counts :: "(string \<times> nat) list"
  wr_listed :: nat
  wr_listed_found :: nat
  wr_stale :: "sched_row list"
  wr_complete_legacy :: bool
  wr_complete_new :: bool
  wr_has_next :: bool
  wr_listable :: nat
  wr_missed :: nat
  wr_inactive :: nat

datatype orphan_reason = Detail_Error_Orphan | Missing_Orphan | Paused_Orphan | Not_In_List

record coverage =
  cv_weeks :: "week_row list"
  cv_orphans :: "(sched_row \<times> orphan_reason) list"
  cv_unscheduled :: "string list"

definition REPORTED_STATUSES :: "string list" where
  "REPORTED_STATUSES = [''final'', ''in_progress'', ''scheduled'', ''postponed'', ''cancelled'']"

text \<open>A game of the next week without a market of its question: inactive, too late, or listable.\<close>

definition inactive_game :: "sched_row \<Rightarrow> bool" where
  "inactive_game g = (case sw_status g of None \<Rightarrow> False | Some s \<Rightarrow> s \<noteq> [] \<and> s \<noteq> ''scheduled'')"

definition late_game :: "int \<Rightarrow> sched_row \<Rightarrow> bool" where
  "late_game now g = (sw_kickoff g \<le> now + MIN_LEAD_SECONDS)"

definition week_report ::
  "int \<Rightarrow> int \<Rightarrow> int \<Rightarrow> string list \<Rightarrow> string list \<Rightarrow> live_status \<Rightarrow> live_status \<Rightarrow> linked_row list \<Rightarrow> int \<times> int \<Rightarrow> week_row" where
  "week_report now grace_s listing_grace_s cids questions scores legacy rows week =
     (let games = week_games rows week; nxt = week_games rows (fst week, snd week + 1);
          open_next = filter (\<lambda>g. row_question g \<notin> set questions) (map lw_row nxt);
          links = filter (\<lambda>c. c \<noteq> []) (map lw_link games) in
      \<lparr> wr_week = week, wr_games = length games,
        wr_counts = map (\<lambda>s. (s, length (filter (\<lambda>g. audit_game_status scores g = Some s) games))) REPORTED_STATUSES,
        wr_listed = length links, wr_listed_found = length (filter (\<lambda>c. py_lower c \<in> set cids) links),
        wr_stale = map lw_row (filter (\<lambda>g. audit_game_status scores g \<in> {Some ''scheduled'', Some ''in_progress''} \<and>
          sw_kickoff (lw_row g) + grace_s < now) games),
        wr_complete_legacy = week_complete_legacy games legacy,
        wr_complete_new = week_complete_new games scores now listing_grace_s,
        wr_has_next = (nxt \<noteq> []),
        wr_listable = length (filter (\<lambda>g. \<not> inactive_game g \<and> \<not> late_game now g) open_next),
        wr_missed = length (filter (\<lambda>g. \<not> inactive_game g \<and> late_game now g) open_next),
        wr_inactive = length (filter inactive_game open_next) \<rparr>)"

definition orphan_of :: "(string \<times> detail_answer) list \<Rightarrow> string list \<Rightarrow> sched_row \<Rightarrow> (sched_row \<times> orphan_reason) option" where
  "orphan_of details cids g =
     (let key = py_lower (sw_listed g) in
      if sw_listed g = [] \<or> key \<in> set cids then None
      else Some (g, case map_of details key of
          Some (Detail_Failed err) \<Rightarrow> Detail_Error_Orphan
        | Some (Detail d) \<Rightarrow> if ad_paused d then Paused_Orphan else Not_In_List
        | _ \<Rightarrow> Missing_Orphan))"

definition schedule_coverage ::
  "sched_row list \<Rightarrow> market_json list \<Rightarrow> (string \<times> detail_answer) list \<Rightarrow> int \<Rightarrow> int \<Rightarrow> int \<Rightarrow> coverage" where
  "schedule_coverage schedule markets details now grace_s listing_grace_s =
     (let cids = map (py_lower \<circ> mj_condition_id) markets; sports = filter is_sports_primary markets;
          questions = map mj_question sports; rows = link_games schedule sports;
          status_of = (\<lambda>key. map_option sj_status (score_view (detail_of details key)));
          legacy = rev (map (\<lambda>m. (mj_question m, status_of (py_lower (mj_condition_id m))))
            (filter (\<lambda>m. mj_question m \<noteq> [] \<and> mj_condition_id m \<noteq> []) sports));
          scores = map (\<lambda>c. (py_lower c, status_of (py_lower c))) (filter (\<lambda>c. c \<noteq> []) (map lw_link rows)) in
      \<lparr> cv_weeks = map (week_report now grace_s listing_grace_s cids questions scores legacy rows) (sort (remdups (map week_of rows))),
        cv_orphans = List.map_filter (orphan_of details cids) schedule,
        cv_unscheduled = map mj_condition_id (filter (\<lambda>m. is_dual_gate_primary m \<and> \<not> mj_resolved m \<and>
          mj_question m \<notin> set (map row_question schedule)) markets) \<rparr>)"

section \<open>The report\<close>

text \<open>
  What one audit meets. \<open>ae_payouts\<close> are the two payout fields of a listed market; a detail is fetched once per id.
\<close>

record audit_env =
  ae_cards :: "string + audit_card list"
  ae_schedule :: "string + sched_row list"
  ae_payouts :: "string \<Rightarrow> int \<times> int"
  ae_detail :: "string \<Rightarrow> detail_answer"
  ae_reader :: "chain_reader option"
  ae_now :: int
  ae_settings :: audit_settings
  ae_listing_grace :: int

definition load_detail :: "audit_env \<Rightarrow> string \<Rightarrow> (string \<times> detail_answer) list \<Rightarrow> (string \<times> detail_answer) list" where
  "load_detail E cid details =
     (if map_of details (py_lower cid) \<noteq> None then details else details @ [(py_lower cid, ae_detail E cid)])"

text \<open>The parents of the markets the general resolver takes.\<close>

definition gate_parents :: "bool \<Rightarrow> market_json list \<Rightarrow> string list" where
  "gate_parents general_enabled markets =
     List.map_filter (\<lambda>m. if market_kind m general_enabled \<noteq> General_Kind then None
       else case audit_gate_subject m of
         Some (subject, kind) \<Rightarrow> if kind = Parent_Gate \<and> subject \<noteq> [] then Some subject else None
       | None \<Rightarrow> None) markets"

definition load_details :: "audit_env \<Rightarrow> sched_row list \<Rightarrow> market_json list \<Rightarrow> (string \<times> detail_answer) list" where
  "load_details E schedule markets =
     (let cids = map (py_lower \<circ> mj_condition_id) markets; unlisted = (\<lambda>c. c \<noteq> [] \<and> py_lower c \<notin> set cids) in
      fold (load_detail E)
        (map mj_condition_id (filter is_sports_primary markets) @ filter unlisted (map sw_listed schedule) @
         filter unlisted (gate_parents (as_general (ae_settings E)) markets)) [])"

definition market_of :: "market_json list \<Rightarrow> string \<Rightarrow> market_json option" where
  "market_of markets key = find (\<lambda>m. py_lower (mj_condition_id m) = key) markets"

definition snap_of :: "audit_env \<Rightarrow> market_json list \<Rightarrow> string \<Rightarrow> chain_snap option" where
  "snap_of E markets key =
     (case (ae_reader E, market_of markets key) of
        (Some R, Some m) \<Rightarrow> Some (snapshot R (mj_condition_id m))
      | _ \<Rightarrow> None)"

definition parent_gate :: "audit_env \<Rightarrow> market_json list \<Rightarrow> (string \<times> detail_answer) list \<Rightarrow> string \<Rightarrow> gate_view" where
  "parent_gate E markets details parent =
     (let key = py_lower parent;
          resolved = (case Option.bind (snap_of E markets key) sn_oracle_resolved of
            Some r \<Rightarrow> Some r
          | None \<Rightarrow> (case (ae_reader E, market_of markets key) of
              (Some R, None) \<Rightarrow> (case read_oracle_resolved R parent of Inl err \<Rightarrow> None | Inr r \<Rightarrow> Some r)
            | _ \<Rightarrow> None)) in
      gate_view_of (case market_of markets key of Some m \<Rightarrow> Some m | None \<Rightarrow> map_option ad_market (detail_of details key))
        (detail_of details key) resolved)"

definition audit_row_of :: "audit_env \<Rightarrow> market_json list \<Rightarrow> (string \<times> detail_answer) list \<Rightarrow> coverage \<Rightarrow> listed_market \<Rightarrow> audit_row" where
  "audit_row_of E markets details cov lm =
     (let m = fst lm; key = py_lower (mj_condition_id m);
          gate = (case audit_gate_subject m of
            Some (subject, kind) \<Rightarrow> if kind = Parent_Gate \<and> subject \<noteq> [] then Some (parent_gate E markets details subject) else None
          | None \<Rightarrow> None);
          row = classify (ae_settings E) (ae_now E) lm (ae_payouts E (mj_condition_id m)) (detail_of details key) (snap_of E markets key) gate;
          detail_flags = (if \<not> is_sports_primary m then []
            else case map_of details key of Some (Detail_Failed err) \<Rightarrow> [Detail_Error] | Some No_Detail \<Rightarrow> [Detail_Missing] | _ \<Rightarrow> []);
          detail_notes = (if \<not> is_sports_primary m then []
            else case map_of details key of Some (Detail_Failed err) \<Rightarrow> [Detail_Fetch_Failed err] | _ \<Rightarrow> []);
          late = (key \<in> set (map py_lower (cv_unscheduled cov))) in
      finalize_row (ae_settings E) (row\<lparr>ar_flags := ar_flags row @ detail_flags @ (if late then [Unscheduled] else []),
        ar_notes := ar_notes row @ detail_notes @ (if late then [No_Schedule_Row] else [])\<rparr>))"

record audit_report =
  rt_rows :: "audit_row list"
  rt_summary :: "(bucket \<times> nat) list"
  rt_findings :: nat
  rt_warnings :: nat
  rt_coverage :: coverage
  rt_exit_code :: int

definition bucket_order :: "bucket \<Rightarrow> nat" where
  "bucket_order b = length (takeWhile (\<lambda>x. x \<noteq> b) BUCKETS)"

definition row_order :: "audit_row \<Rightarrow> nat \<times> int \<times> string" where
  "row_order r = (bucket_order (ar_bucket r), ar_effective r, mj_condition_id (ar_market r))"

text \<open>The oracle's getters, read first: the addresses of the other contracts.\<close>

definition check_getters :: "audit_env \<Rightarrow> string + unit" where
  "check_getters E =
     (case ae_reader E of
        None \<Rightarrow> Inr ()
      | Some R \<Rightarrow>
          err_bind (ctf_address R) (\<lambda>ctf. err_bind (factory_address R) (\<lambda>factory. err_bind (operator_view R) (\<lambda>operator.
          if ctf = ZERO_ADDR then Inl ''ConsensusOracle.ctf() is zero (wrong --oracle?)'' else Inr ()))))"

definition build_report :: "audit_env \<Rightarrow> string + audit_report" where
  "build_report E =
     err_bind (ae_cards E) (\<lambda>cards. err_bind (ae_schedule E) (\<lambda>schedule. err_bind (check_getters E) (\<lambda>_.
     let listed = flatten_cards cards; markets = map fst listed; details = load_details E schedule markets; S = ae_settings E;
         cov = schedule_coverage schedule markets details (ae_now E) (as_grace S) (ae_listing_grace E);
         rows = sort_key row_order (map (audit_row_of E markets details cov) listed);
         schedule_warnings = sum_list (map (\<lambda>w. length (wr_stale w) + wr_missed w) (cv_weeks cov));
         findings = length (filter ar_finding rows) + length (cv_orphans cov) + (if as_strict S then schedule_warnings else 0) in
     Inr \<lparr> rt_rows = rows, rt_summary = map (\<lambda>b. (b, length (filter (\<lambda>r. ar_bucket r = b) rows))) BUCKETS, rt_findings = findings,
       rt_warnings = sum_list (map (\<lambda>r. length (ar_warnings r)) rows) + schedule_warnings, rt_coverage = cov,
       rt_exit_code = (if findings > 0 then 1 else 0) \<rparr>)))"

end
