(* ===== verification/Audit_Props.thy ===== *)
theory Audit_Props
  imports Market_Audit Resolver_Props
begin

text \<open>
  The audit against the job it describes: the bucket of a market is what the next visit of the resolver does with
  it, and its week rule is that of the listing stage.
\<close>

section \<open>One world, two readers\<close>


definition clock_kept :: "int \<Rightarrow> tickst \<Rightarrow> bool" where
  "clock_kept now st = (case tk_chain_now st of None \<Rightarrow> True | Some t \<Rightarrow> t \<le> now)"



text \<open>A visit that sends, posts and researches nothing.\<close>

definition effectless :: "tickst \<Rightarrow> tickst \<Rightarrow> bool" where
  "effectless st st' = (tk_log st' = tk_log st \<and> tk_researched st' = tk_researched st \<and> tk_failed st' = tk_failed st)"

definition skips :: "entry ticking \<Rightarrow> tickst \<Rightarrow> string \<Rightarrow> bool" where
  "skips visit st why = (\<exists>en st'. run_state visit st = (Inr en, st') \<and> en_reason en = why \<and> effectless st st')"

text \<open>From \<open>st\<close>, the visit comes without effect to \<open>rest\<close>.\<close>

definition reaches :: "'a ticking \<Rightarrow> tickst \<Rightarrow> 'a ticking \<Rightarrow> bool" where
  "reaches visit st rest = (\<exists>st'. run_state visit st = run_state rest st' \<and> effectless st st')"

lemma quiet_refl [simp]: "effectless st st"
  by (simp add: effectless_def)

lemma quiet_trans: "effectless st st' \<Longrightarrow> effectless st' st'' \<Longrightarrow> effectless st st''"
  by (simp add: effectless_def)

lemma quiet_calls [simp]: "effectless st (st'\<lparr>tk_calls := n\<rparr>) = effectless st st'" "effectless st (st'\<lparr>tk_chain_now := t\<rparr>) = effectless st st'"
  by (simp_all add: effectless_def)

lemma clock_kept_calls [simp]: "clock_kept now (st\<lparr>tk_calls := n\<rparr>) = clock_kept now st"
  by (simp add: clock_kept_def)

lemma run_then: "run_state (op_then m k) st =
    (case run_state m st of (Inl e, st') \<Rightarrow> (Inl e, st') | (Inr x, st') \<Rightarrow> run_state (k x) st')"
  by (simp add: op_then_def split: prod.split sum.split)

lemma run_state_ok [simp]: "run_state (ok x) st = (Inr x, st)"
  by (simp add: ok_def)

lemma run_state_ask_tick [simp]: "run_state (ask_tick f) st = (map_sum Raised id (f (tk_calls st)), st\<lparr>tk_calls := Suc (tk_calls st)\<rparr>)"
  by (simp add: ask_tick_def)

text \<open>A step that gives \<open>x\<close> without effect.\<close>

definition gives :: "int \<Rightarrow> 'a ticking \<Rightarrow> 'a \<Rightarrow> bool" where
  "gives now m x = (\<forall>st. clock_kept now st \<longrightarrow> (\<exists>st'. run_state m st = (Inr x, st') \<and> effectless st st' \<and> clock_kept now st'))"




lemma skips_then: "gives now m x \<Longrightarrow> clock_kept now st \<Longrightarrow> (\<And>st. clock_kept now st \<Longrightarrow> skips (k x) st why) \<Longrightarrow> skips (op_then m k) st why"
  unfolding gives_def skips_def by (metis (no_types, lifting) quiet_trans run_then case_prod_conv sum.case(2))

lemma reaches_then: "gives now m x \<Longrightarrow> clock_kept now st \<Longrightarrow> (\<And>st. clock_kept now st \<Longrightarrow> reaches (k x) st rest) \<Longrightarrow> reaches (op_then m k) st rest"
  unfolding gives_def reaches_def by (metis (no_types, lifting) quiet_trans run_then case_prod_conv sum.case(2))


lemma reaches_self: "reaches m st m"
  unfolding reaches_def by (intro exI [of _ st]) simp


section \<open>The general resolver\<close>









section \<open>Coming to a step\<close>






lemma skipped_reason [simp]: "en_reason (skipped cid why) = why"
  by (simp add: skipped_def)




lemma skips_quietly: "effectless st st' \<Longrightarrow> run_state m st = (Inr en, st') \<Longrightarrow> en_reason en = why \<Longrightarrow> skips m st why"
  by (auto simp: skips_def)













section \<open>The sports resolver\<close>












section \<open>The schedule\<close>

text \<open>Over links in lower case, the week rule of the audit is the job's.\<close>

lemma audit_week_matches_listing:
  assumes "\<forall>g\<in>set games. py_lower (lw_link g) = lw_link g"
  shows "week_complete_new games scores now grace = week_complete games scores (of_int now) grace"
proof -
  have "audit_game_status scores g = game_status scores g" if "g \<in> set games" for g
    using assms that by (simp add: audit_game_status_def game_status_def)
  then show ?thesis
    by (auto simp: week_complete_new_def week_complete_def blocking_games_def game_done_def is_stale_def listing_stale_def
        DONE_STATUSES_def STALE_STATUSES_def list_all_iff filter_empty_conv Let_def split: option.splits simp flip: of_int_add)
qed

end
