(* ===== verification/Migrations.thy ===== *)
theory Migrations
  imports Prelude "HOL-Library.List_Lexorder" "HOL-Library.Char_ord"
begin

text \<open>
  The schema upgrades at start-up (\<open>backend/app/db.py\<close>, \<open>backend/app/relayer/schema.py\<close>) over the tables of
  \<open>backend/app/models.py\<close>, on Postgres and SQLite. A database maps names to tables, a row is a function of the
  column's name (\<open>SNull\<close> where the table has no such column), and an SQL error is the text on the left: the
  transaction ends there. On Postgres the index behind a unique constraint carries the constraint's name and is
  among the table's indexes, as the inspector reports it. The advisory lock makes start-ups run one after the
  other; here one runs at a time.
\<close>

section \<open>Tables\<close>

datatype sql_type = T_Integer | T_BigInteger | T_SmallInteger | T_String nat | T_Text | T_Boolean | T_DateTime | T_JSON | T_Float
  | T_Other string

datatype sql_value = SNull | SInt int | SText string

datatype sql_default = Constant sql_value | Current_Time

record sql_column =
  sc_name :: string
  sc_type :: sql_type
  sc_nullable :: bool
  sc_default :: "sql_default option"

record sql_index =
  ix_name :: string
  ix_columns :: "string list"
  ix_unique :: bool
  ix_live :: bool

type_synonym sql_row = "string \<Rightarrow> sql_value"

record sql_table =
  tb_columns :: "sql_column list"
  tb_rows :: "sql_row list"
  tb_uniques :: "(string \<times> string list) list"
  tb_indexes :: "sql_index list"

type_synonym sql_schema = "string \<Rightarrow> sql_table option"

record sql_connection =
  cx_dialect :: string
  cx_now :: sql_value

definition has_column :: "string \<Rightarrow> sql_table \<Rightarrow> bool" where
  "has_column c t = (c \<in> set (map sc_name (tb_columns t)))"

definition has_index :: "string \<Rightarrow> sql_table \<Rightarrow> bool" where
  "has_index n t = (n \<in> set (map ix_name (tb_indexes t)))"

section \<open>The tables of the models\<close>

text \<open>A column with its type, whether it may be null, and its server default.\<close>

definition col :: "string \<Rightarrow> sql_type \<Rightarrow> sql_column" where
  "col n ty = \<lparr> sc_name = n, sc_type = ty, sc_nullable = False, sc_default = None \<rparr>"

definition nullable :: "sql_column \<Rightarrow> sql_column" where
  "nullable c = c\<lparr>sc_nullable := True\<rparr>"

definition defaulting :: "sql_default \<Rightarrow> sql_column \<Rightarrow> sql_column" where
  "defaulting d c = c\<lparr>sc_default := Some d\<rparr>"

definition stamped :: "string \<Rightarrow> sql_column" where
  "stamped n = defaulting Current_Time (col n T_DateTime)"

definition plain_index :: "string \<Rightarrow> string list \<Rightarrow> sql_index" where
  "plain_index n cs = \<lparr> ix_name = n, ix_columns = cs, ix_unique = False, ix_live = False \<rparr>"

definition unique_index :: "string \<Rightarrow> string list \<Rightarrow> sql_index" where
  "unique_index n cs = \<lparr> ix_name = n, ix_columns = cs, ix_unique = True, ix_live = False \<rparr>"

definition new_table :: "sql_column list \<Rightarrow> (string \<times> string list) list \<Rightarrow> sql_index list \<Rightarrow> sql_table" where
  "new_table cols uniques ixs = \<lparr> tb_columns = cols, tb_rows = [], tb_uniques = uniques, tb_indexes = ixs \<rparr>"

definition users_table :: sql_table where
  "users_table = new_table
     [col ''id'' T_Integer, col ''address'' (T_String 42), col ''is_operator'' T_Boolean,
      defaulting (Constant (SText [])) (col ''cdp_user_id'' (T_String 100)), stamped ''created_at'']
     [] [unique_index ''ix_users_address'' [''address'']]"

definition nonces_table :: sql_table where
  "nonces_table = new_table [col ''address'' (T_String 42), col ''nonce'' (T_String 64)] [] []"

definition markets_table :: sql_table where
  "markets_table = new_table
     [col ''condition_id'' (T_String 66), col ''parent_condition_id'' (T_String 66), col ''question'' (T_String 512),
      col ''resolution_criteria'' T_Text, col ''market_type'' T_Integer, col ''close_time'' T_Integer, col ''paused'' T_Boolean,
      col ''resolved'' T_Boolean, col ''payout_yes'' T_Integer, col ''payout_no'' T_Integer, col ''suggested_probability'' T_Float] [] []"

definition orders_table :: sql_table where
  "orders_table = new_table
     [col ''id'' T_Integer, col ''order_hash'' (T_String 66), col ''maker'' (T_String 42), col ''condition_id'' (T_String 66),
      col ''is_buy'' T_Boolean, col ''outcome'' T_Integer, col ''price'' T_BigInteger, col ''amount'' T_BigInteger,
      col ''filled'' T_BigInteger, col ''salt'' (T_String 78), col ''nonce'' T_BigInteger, col ''expiry'' T_BigInteger,
      col ''signature'' T_Text, col ''cancelled'' T_Boolean] []
     [unique_index ''ix_orders_order_hash'' [''order_hash''], plain_index ''ix_orders_maker'' [''maker''],
      plain_index ''ix_orders_condition_id'' [''condition_id'']]"

definition trades_table :: sql_table where
  "trades_table = new_table
     [col ''id'' T_Integer, col ''condition_id'' (T_String 66), col ''taker'' (T_String 42), col ''maker'' (T_String 42),
      col ''fill_amount'' T_BigInteger, col ''volume'' T_BigInteger, col ''fee'' T_BigInteger, col ''tx_hash'' (T_String 66),
      defaulting (Constant (SText ''offchain'')) (col ''status'' (T_String 16)), nullable (col ''relay_job_id'' T_Integer),
      nullable (col ''block_number'' T_BigInteger), stamped ''created_at''] []
     [plain_index ''ix_trades_condition_id'' [''condition_id''], plain_index ''ix_trades_relay_job_id'' [''relay_job_id'']]"

definition attestations_table :: sql_table where
  "attestations_table = new_table
     [col ''id'' T_Integer, col ''condition_id'' (T_String 66), col ''agent'' (T_String 42), col ''outcome'' T_Integer,
      col ''evidence_hash'' (T_String 66), col ''summary'' T_Text, col ''evidence_json'' T_Text, col ''signature'' T_Text,
      nullable (stamped ''created_at'')] [] [plain_index ''ix_attestations_condition_id'' [''condition_id'']]"

definition VOTE_UNIQUE :: string where "VOTE_UNIQUE = ''uq_vote_condition_voter''"
definition PRICE_POINT_UNIQUE :: string where "PRICE_POINT_UNIQUE = ''uq_price_point_event''"
definition PRICE_POINT_KEY :: "string list" where "PRICE_POINT_KEY = [''condition_id'', ''block_number'', ''log_index'']"
definition EMISSION_LIVE_UNIQUE :: string where "EMISSION_LIVE_UNIQUE = ''uq_emission_live_payload''"

definition votes_table :: sql_table where
  "votes_table = new_table
     [col ''id'' T_Integer, col ''condition_id'' (T_String 66), col ''voter'' (T_String 42), col ''outcome'' T_Integer,
      col ''weight'' T_BigInteger] []
     [unique_index VOTE_UNIQUE [''condition_id'', ''voter''], plain_index ''ix_votes_condition_id'' [''condition_id'']]"

definition checkpoints_table :: sql_table where
  "checkpoints_table = new_table [col ''id'' T_Integer, col ''last_block'' T_Integer] [] []"

definition indexer_checkpoints_table :: sql_table where
  "indexer_checkpoints_table = new_table
     [col ''factory_address'' (T_String 42), col ''amm_address'' (T_String 42), col ''last_block'' T_BigInteger] [] []"

definition price_points_table :: sql_table where
  "price_points_table = new_table
     [col ''id'' T_Integer, col ''condition_id'' (T_String 66), col ''ts'' T_Integer, col ''block_number'' T_Integer,
      col ''log_index'' T_Integer, col ''yes_price_micros'' T_Integer] []
     [unique_index PRICE_POINT_UNIQUE PRICE_POINT_KEY, plain_index ''ix_price_points_condition_id'' [''condition_id''],
      plain_index ''ix_price_points_ts'' [''ts'']]"

definition live_scores_table :: sql_table where
  "live_scores_table = new_table
     [col ''condition_id'' (T_String 66), col ''home_label'' (T_String 128), col ''away_label'' (T_String 128),
      nullable (col ''home_score'' T_Integer), nullable (col ''away_score'' T_Integer), col ''status'' (T_String 16),
      nullable (col ''period_label'' (T_String 16)), nullable (col ''facts'' T_JSON), stamped ''updated_at''] [] []"

definition nfl_schedule_games_table :: sql_table where
  "nfl_schedule_games_table = new_table
     [col ''id'' T_Integer, col ''season'' T_Integer, col ''week'' T_Integer, col ''home'' (T_String 128),
      col ''away'' (T_String 128), col ''kickoff_unix'' T_Integer, col ''status'' (T_String 16), col ''listed_condition_id'' (T_String 66)]
     [(''uq_nfl_schedule_game'', [''season'', ''week'', ''home'', ''away''])] []"

definition ramp_txs_table :: sql_table where
  "ramp_txs_table = new_table
     [col ''id'' T_Integer, col ''address'' (T_String 42), col ''amount'' (T_String 64), col ''provider_id'' (T_String 255),
      col ''status'' (T_String 32), stamped ''created_at'', stamped ''updated_at''] []
     [plain_index ''ix_ramp_txs_address'' [''address''], unique_index ''ix_ramp_txs_provider_id'' [''provider_id'']]"

definition kyc_records_table :: sql_table where
  "kyc_records_table = new_table
     [col ''address'' (T_String 42), col ''status'' (T_String 32), col ''jurisdiction'' (T_String 2), stamped ''updated_at''] []
     [plain_index ''ix_kyc_records_address'' [''address'']]"

definition market_listings_table :: sql_table where
  "market_listings_table = new_table
     [col ''condition_id'' (T_String 66), col ''creator'' (T_String 42), col ''salt'' (T_String 66), col ''question'' (T_String 512),
      col ''resolution_criteria'' T_Text, col ''criteria_hash'' (T_String 66), col ''close_time'' T_Integer, col ''seed_usdc'' T_BigInteger,
      col ''status'' (T_String 16), defaulting (Constant (SText [])) (col ''reject_reason'' (T_String 256)), stamped ''created_at''] []
     [plain_index ''ix_market_listings_creator'' [''creator'']]"

definition relay_jobs_table :: sql_table where
  "relay_jobs_table = new_table
     [col ''id'' T_Integer, col ''kind'' (T_String 32), col ''condition_id'' (T_String 66), col ''taker_hash'' (T_String 66),
      col ''maker_hash'' (T_String 66), col ''fill_amount'' T_BigInteger, col ''sender'' (T_String 42), col ''status'' (T_String 16),
      col ''attempts'' T_Integer, nullable (col ''nonce'' T_BigInteger), col ''tx_hash'' (T_String 66), col ''tx_hashes'' T_JSON,
      col ''raw_tx'' T_Text, nullable (col ''gas_limit'' T_BigInteger), nullable (col ''max_fee_per_gas'' T_BigInteger),
      nullable (col ''max_priority_fee_per_gas'' T_BigInteger), nullable (col ''block_number'' T_BigInteger), col ''last_error'' T_Text,
      col ''next_attempt_at'' T_BigInteger, stamped ''created_at'', stamped ''updated_at'', nullable (col ''sent_at'' T_BigInteger),
      nullable (col ''confirmed_at'' T_BigInteger), col ''matched_at'' T_BigInteger, nullable (col ''first_sent_block'' T_BigInteger),
      nullable (col ''nonce_consumed_at'' T_BigInteger)] []
     [plain_index ''ix_relay_jobs_condition_id'' [''condition_id''], plain_index ''ix_relay_jobs_taker_hash'' [''taker_hash''],
      plain_index ''ix_relay_jobs_maker_hash'' [''maker_hash''], plain_index ''ix_relay_jobs_status'' [''status'']]"

definition emission_distributions_table :: sql_table where
  "emission_distributions_table = new_table
     [col ''id'' T_Integer, col ''program'' T_Integer, col ''payload_hash'' (T_String 66), col ''idempotency_key'' (T_String 128),
      col ''sender'' (T_String 42), nullable (col ''nonce'' T_BigInteger), col ''raw_tx'' T_Text, col ''tx_hash'' (T_String 66),
      col ''status'' (T_String 16), col ''recipient_count'' T_Integer, col ''total_amount'' (T_String 80),
      nullable (col ''block_number'' T_BigInteger), col ''last_error'' T_Text, nullable (col ''sent_at'' T_BigInteger), stamped ''created_at''] []
     [(unique_index EMISSION_LIVE_UNIQUE [''payload_hash'', ''idempotency_key''])\<lparr>ix_live := True\<rparr>,
      plain_index ''ix_emission_distributions_payload_hash'' [''payload_hash''],
      plain_index ''ix_emission_distributions_idempotency_key'' [''idempotency_key''], plain_index ''ix_emission_distributions_status'' [''status'']]"

definition METADATA :: "(string \<times> sql_table) list" where
  "METADATA =
     [(''users'', users_table), (''nonces'', nonces_table), (''markets'', markets_table), (''orders'', orders_table),
      (''trades'', trades_table), (''attestations'', attestations_table), (''votes'', votes_table),
      (''checkpoints'', checkpoints_table), (''indexer_checkpoints'', indexer_checkpoints_table),
      (''price_points'', price_points_table), (''live_scores'', live_scores_table),
      (''nfl_schedule_games'', nfl_schedule_games_table), (''ramp_txs'', ramp_txs_table), (''kyc_records'', kyc_records_table),
      (''market_listings'', market_listings_table), (''relay_jobs'', relay_jobs_table),
      (''emission_distributions'', emission_distributions_table)]"

definition postgresql :: "sql_connection \<Rightarrow> bool" where
  "postgresql cx = (cx_dialect cx = ''postgresql'')"

definition created :: "sql_connection \<Rightarrow> sql_table \<Rightarrow> sql_table" where
  "created cx t =
     (if postgresql cx then t\<lparr>tb_indexes := tb_indexes t @ map (\<lambda>u. unique_index (fst u) (snd u)) (tb_uniques t)\<rparr> else t)"

text \<open>\<open>create_all\<close>: the tables that are missing.\<close>

definition create_all :: "sql_connection \<Rightarrow> sql_schema \<Rightarrow> sql_schema" where
  "create_all cx db n = (case db n of Some t \<Rightarrow> Some t | None \<Rightarrow> map_option (created cx) (map_of METADATA n))"

section \<open>Statements\<close>

text \<open>A helper looks for its table first.\<close>

definition alter :: "string \<Rightarrow> (sql_table \<Rightarrow> string + sql_table) \<Rightarrow> sql_schema \<Rightarrow> string + sql_schema" where
  "alter n f db = (case db n of None \<Rightarrow> Inr db | Some t \<Rightarrow> map_sum id (\<lambda>t'. db(n \<mapsto> t')) (f t))"

definition default_value :: "sql_connection \<Rightarrow> sql_column \<Rightarrow> sql_value" where
  "default_value cx c = (case sc_default c of None \<Rightarrow> SNull | Some (Constant v) \<Rightarrow> v | Some Current_Time \<Rightarrow> cx_now cx)"

text \<open>\<open>ALTER TABLE ADD COLUMN\<close>, behind the test for the column's name.\<close>

definition ensure_column :: "sql_connection \<Rightarrow> sql_column \<Rightarrow> sql_table \<Rightarrow> sql_table" where
  "ensure_column cx c t =
     (if has_column (sc_name c) t then t
      else t\<lparr>tb_columns := tb_columns t @ [c], tb_rows := map (\<lambda>r. r(sc_name c := default_value cx c)) (tb_rows t)\<rparr>)"

definition narrow_int :: "sql_type \<Rightarrow> bool" where
  "narrow_int ty = (ty = T_Integer \<or> ty = T_SmallInteger)"

text \<open>\<open>ALTER COLUMN TYPE BIGINT\<close> of the columns that are narrow.\<close>

definition widen :: "string list \<Rightarrow> sql_table \<Rightarrow> sql_table" where
  "widen cs t = t\<lparr>tb_columns := map (\<lambda>c. if sc_name c \<in> set cs \<and> narrow_int (sc_type c) then c\<lparr>sc_type := T_BigInteger\<rparr> else c) (tb_columns t)\<rparr>"

text \<open>\<open>CREATE [UNIQUE] INDEX IF NOT EXISTS\<close>; rows with a null in the key are never duplicates.\<close>

definition row_key :: "string list \<Rightarrow> sql_row \<Rightarrow> sql_value list" where
  "row_key cs r = map r cs"

definition LIVE_STATUSES :: "sql_value set" where "LIVE_STATUSES = {SText ''sending'', SText ''sent'', SText ''confirmed''}"

definition index_covers :: "sql_index \<Rightarrow> sql_row \<Rightarrow> bool" where
  "index_covers ix r = (SNull \<notin> set (row_key (ix_columns ix) r) \<and> (ix_live ix \<longrightarrow> r ''status'' \<in> LIVE_STATUSES))"

definition create_index :: "sql_index \<Rightarrow> sql_table \<Rightarrow> string + sql_table" where
  "create_index ix t =
     (if has_index (ix_name ix) t then Inr t
      else if \<not> list_all (\<lambda>c. has_column c t) (ix_columns ix) then Inl ''no such column''
      else if ix_unique ix \<and> \<not> distinct (map (row_key (ix_columns ix)) (filter (index_covers ix) (tb_rows t))) then Inl ''duplicate key''
      else Inr (t\<lparr>tb_indexes := tb_indexes t @ [ix]\<rparr>))"

definition sql_then :: "string + 'a \<Rightarrow> ('a \<Rightarrow> string + 'b) \<Rightarrow> string + 'b" where
  "sql_then m f = (case m of Inl err \<Rightarrow> Inl err | Inr x \<Rightarrow> f x)"

section \<open>Late columns\<close>

definition ensure_live_score_facts :: "sql_connection \<Rightarrow> sql_schema \<Rightarrow> string + sql_schema" where
  "ensure_live_score_facts cx = alter ''live_scores'' (Inr \<circ> ensure_column cx (nullable (col ''facts'' T_JSON)))"

definition ensure_user_cdp_user_id :: "sql_connection \<Rightarrow> sql_schema \<Rightarrow> string + sql_schema" where
  "ensure_user_cdp_user_id cx =
     alter ''users'' (Inr \<circ> ensure_column cx (defaulting (Constant (SText [])) (nullable (col ''cdp_user_id'' (T_String 100)))))"

definition trade_columns :: "sql_connection \<Rightarrow> sql_table \<Rightarrow> string + sql_table" where
  "trade_columns cx t =
     create_index (plain_index ''ix_trades_relay_job_id'' [''relay_job_id''])
       (ensure_column cx (nullable (col ''block_number'' T_BigInteger))
         (ensure_column cx (nullable (col ''relay_job_id'' T_Integer))
           (ensure_column cx (defaulting (Constant (SText ''offchain'')) (nullable (col ''status'' (T_String 16)))) t)))"

definition ensure_trade_relay_columns :: "sql_connection \<Rightarrow> sql_schema \<Rightarrow> string + sql_schema" where
  "ensure_trade_relay_columns cx = alter ''trades'' (trade_columns cx)"

definition ORDER_WIDE :: "string list" where "ORDER_WIDE = [''price'', ''amount'', ''filled'', ''nonce'', ''expiry'']"
definition TRADE_WIDE :: "string list" where "TRADE_WIDE = [''fill_amount'', ''volume'', ''fee'']"

fun text_type :: "sql_type \<Rightarrow> bool" where
  "text_type (T_String n) = True"
| "text_type T_Text = True"
| "text_type ty = False"

text \<open>\<open>salt::text\<close>.\<close>

fun as_text :: "sql_value \<Rightarrow> sql_value" where
  "as_text (SInt n) = SText (py_str n)"
| "as_text v = v"

definition text_salt :: "sql_table \<Rightarrow> sql_table" where
  "text_salt t =
     (if list_ex (\<lambda>c. sc_name c = ''salt'' \<and> \<not> text_type (sc_type c)) (tb_columns t)
      then t\<lparr>tb_columns := map (\<lambda>c. if sc_name c = ''salt'' then c\<lparr>sc_type := T_String 78\<rparr> else c) (tb_columns t),
             tb_rows := map (\<lambda>r. r(''salt'' := as_text (r ''salt''))) (tb_rows t)\<rparr>
      else t)"

definition ensure_order_wide_columns :: "sql_connection \<Rightarrow> sql_schema \<Rightarrow> string + sql_schema" where
  "ensure_order_wide_columns cx db =
     (if \<not> postgresql cx then Inr db
      else sql_then (alter ''orders'' (Inr \<circ> text_salt \<circ> widen ORDER_WIDE) db) (alter ''trades'' (Inr \<circ> widen TRADE_WIDE)))"

text \<open>No default while the column is added, so that rows from before keep a null.\<close>

definition set_default :: "string \<Rightarrow> sql_default \<Rightarrow> sql_table \<Rightarrow> sql_table" where
  "set_default n d t = t\<lparr>tb_columns := map (\<lambda>c. if sc_name c = n then defaulting d c else c) (tb_columns t)\<rparr>"

definition attestation_created_at :: "sql_connection \<Rightarrow> sql_table \<Rightarrow> sql_table" where
  "attestation_created_at cx t =
     (if has_column ''created_at'' t then t
      else let added = ensure_column cx (nullable (col ''created_at'' T_DateTime)) t in
           if postgresql cx then set_default ''created_at'' Current_Time added else added)"

definition ensure_attestation_created_at :: "sql_connection \<Rightarrow> sql_schema \<Rightarrow> string + sql_schema" where
  "ensure_attestation_created_at cx = alter ''attestations'' (Inr \<circ> attestation_created_at cx)"

definition ensure_market_listing_reason :: "sql_connection \<Rightarrow> sql_schema \<Rightarrow> string + sql_schema" where
  "ensure_market_listing_reason cx =
     alter ''market_listings'' (Inr \<circ> ensure_column cx (defaulting (Constant (SText [])) (nullable (col ''reject_reason'' (T_String 256)))))"

definition ensure_vote_weight_bigint :: "sql_connection \<Rightarrow> sql_schema \<Rightarrow> string + sql_schema" where
  "ensure_vote_weight_bigint cx db = (if postgresql cx then alter ''votes'' (Inr \<circ> widen [''weight'']) db else Inr db)"

section \<open>Unique keys\<close>

text \<open>An id that is greater, and keys that are equal, as SQL compares them: a null compares as unknown.\<close>

definition sql_greater :: "sql_value \<Rightarrow> sql_value \<Rightarrow> bool" where
  "sql_greater a b = (case (a, b) of (SInt m, SInt n) \<Rightarrow> m > n | _ \<Rightarrow> False)"

definition sql_equal :: "sql_value list \<Rightarrow> sql_value list \<Rightarrow> bool" where
  "sql_equal xs ys = (xs = ys \<and> SNull \<notin> set xs)"

text \<open>\<open>MIN(id)\<close> of each group, over the ids that are not null; \<open>GROUP BY\<close> puts nulls together.\<close>

definition group_min :: "string list \<Rightarrow> sql_row list \<Rightarrow> sql_row \<Rightarrow> sql_value" where
  "group_min cs rows r =
     (case List.map_filter (\<lambda>s. case s ''id'' of SInt n \<Rightarrow> Some n | _ \<Rightarrow> None) (filter (\<lambda>s. row_key cs s = row_key cs r) rows) of
        [] \<Rightarrow> SNull | n # ns \<Rightarrow> SInt (foldl min n ns))"

definition drop_duplicates :: "sql_connection \<Rightarrow> string list \<Rightarrow> sql_table \<Rightarrow> sql_table" where
  "drop_duplicates cx cs t =
     (let rows = tb_rows t in
      t\<lparr>tb_rows :=
        (if postgresql cx
         then filter (\<lambda>a. \<not> list_ex (\<lambda>b. sql_greater (a ''id'') (b ''id'') \<and> sql_equal (row_key cs a) (row_key cs b)) rows) rows
         else filter (\<lambda>a. a ''id'' \<in> set (map (group_min cs rows) rows)) rows)\<rparr>)"

definition unique_key :: "sql_connection \<Rightarrow> string \<Rightarrow> string list \<Rightarrow> sql_table \<Rightarrow> string + sql_table" where
  "unique_key cx name cs t =
     (if has_index name t then Inr t
      else if \<not> list_all (\<lambda>c. has_column c t) cs then Inl ''no such column''
      else create_index (unique_index name cs) (drop_duplicates cx cs t))"

definition ensure_price_point_unique :: "sql_connection \<Rightarrow> sql_schema \<Rightarrow> string + sql_schema" where
  "ensure_price_point_unique cx = alter ''price_points'' (unique_key cx PRICE_POINT_UNIQUE PRICE_POINT_KEY)"

definition ensure_vote_unique :: "sql_connection \<Rightarrow> sql_schema \<Rightarrow> string + sql_schema" where
  "ensure_vote_unique cx = alter ''votes'' (unique_key cx VOTE_UNIQUE [''condition_id'', ''voter''])"

text \<open>Live duplicates are never deleted: the index is left out.\<close>

definition EMISSION_INDEX :: sql_index where
  "EMISSION_INDEX = (unique_index EMISSION_LIVE_UNIQUE [''payload_hash'', ''idempotency_key''])\<lparr>ix_live := True\<rparr>"

definition live_duplicates :: "sql_table \<Rightarrow> nat" where
  "live_duplicates t =
     (let keys = map (row_key [''payload_hash'', ''idempotency_key'']) (filter (\<lambda>r. r ''status'' \<in> LIVE_STATUSES) (tb_rows t)) in
      length (filter (\<lambda>k. length (filter (\<lambda>x. x = k) keys) > 1) (remdups keys)))"

definition emission_live_unique :: "sql_table \<Rightarrow> string + sql_table" where
  "emission_live_unique t =
     (if has_index EMISSION_LIVE_UNIQUE t then Inr t
      else if \<not> list_all (\<lambda>c. has_column c t) [''payload_hash'', ''idempotency_key'', ''status''] then Inl ''no such column''
      else if live_duplicates t > 0 then Inr t
      else create_index EMISSION_INDEX t)"

definition ensure_emission_live_unique :: "sql_connection \<Rightarrow> sql_schema \<Rightarrow> string + sql_schema" where
  "ensure_emission_live_unique cx = alter ''emission_distributions'' emission_live_unique"

section \<open>schema.py\<close>

definition OLD_PAIR_KEY :: string where "OLD_PAIR_KEY = ''uq_relay_job_pair''"
definition PAIR_COLUMNS :: "string list" where "PAIR_COLUMNS = [''maker_hash'', ''taker_hash'']"

definition NEW_COLUMNS :: "sql_column list" where
  "NEW_COLUMNS =
     [defaulting (Constant (SInt 0)) (nullable (col ''matched_at'' T_BigInteger)), nullable (col ''first_sent_block'' T_BigInteger),
      nullable (col ''nonce_consumed_at'' T_BigInteger)]"

definition ensure_relay_job_columns :: "sql_connection \<Rightarrow> sql_table \<Rightarrow> sql_table" where
  "ensure_relay_job_columns cx t = fold (ensure_column cx) NEW_COLUMNS t"

definition pair_keys :: "sql_table \<Rightarrow> string list \<times> string list" where
  "pair_keys t =
     (let constraints = map fst (filter (\<lambda>u. fst u = OLD_PAIR_KEY \<or> sort (snd u) = PAIR_COLUMNS) (tb_uniques t)) in
      (constraints, map ix_name (filter (\<lambda>ix. ix_unique ix \<and> sort (ix_columns ix) = PAIR_COLUMNS \<and> ix_name ix \<notin> set constraints) (tb_indexes t))))"

definition drop_index :: "string \<Rightarrow> sql_table \<Rightarrow> sql_table" where
  "drop_index n t = t\<lparr>tb_indexes := filter (\<lambda>ix. ix_name ix \<noteq> n) (tb_indexes t)\<rparr>"

text \<open>A constraint goes with its index.\<close>

definition drop_constraint :: "string \<Rightarrow> sql_table \<Rightarrow> sql_table" where
  "drop_constraint n t = (drop_index n t)\<lparr>tb_uniques := filter (\<lambda>u. fst u \<noteq> n) (tb_uniques t)\<rparr>"

definition drop_pair_keys :: "sql_table \<Rightarrow> sql_table" where
  "drop_pair_keys t =
     (let t = drop_constraint OLD_PAIR_KEY t; (constraints, indexes) = pair_keys t in
      fold drop_index (filter (\<lambda>n. n \<noteq> []) indexes)
        (fold drop_constraint (filter (\<lambda>n. n \<noteq> [] \<and> n \<noteq> OLD_PAIR_KEY) constraints) t))"

text \<open>
  \<open>_rebuild_sqlite\<close>: the old table is renamed, the model's table created, the rows copied column by column and the
  old table dropped. The rename fails when the other name is taken, the copy when a column that is not nullable
  gets a null.
\<close>

definition copied_row :: "sql_connection \<Rightarrow> sql_table \<Rightarrow> sql_row \<Rightarrow> sql_row" where
  "copied_row cx old r n =
     (case find (\<lambda>c. sc_name c = n) (tb_columns relay_jobs_table) of
        None \<Rightarrow> SNull
      | Some c \<Rightarrow>
          if \<not> has_column n old then default_value cx c
          else if n \<in> {''created_at'', ''updated_at''} \<and> r n = SNull then cx_now cx else r n)"

definition rebuild_sqlite :: "sql_connection \<Rightarrow> bool \<Rightarrow> sql_table \<Rightarrow> string + sql_table" where
  "rebuild_sqlite cx leftover old =
     (if leftover then Inl ''table relay_jobs_pairkey_old already exists''
      else let rows = map (copied_row cx old) (tb_rows old) in
      if list_ex (\<lambda>r. list_ex (\<lambda>c. \<not> sc_nullable c \<and> r (sc_name c) = SNull) (tb_columns relay_jobs_table)) rows
      then Inl ''NOT NULL constraint failed''
      else Inr (relay_jobs_table\<lparr>tb_rows := rows\<rparr>))"

definition relay_job_schema :: "sql_connection \<Rightarrow> bool \<Rightarrow> sql_table \<Rightarrow> string + sql_table" where
  "relay_job_schema cx leftover t =
     (let t = ensure_relay_job_columns cx t in
      if postgresql cx then Inr (drop_pair_keys t)
      else if cx_dialect cx = ''sqlite'' \<and> pair_keys t \<noteq> ([], []) then rebuild_sqlite cx leftover t
      else Inr t)"

definition ensure_relayer_schema :: "sql_connection \<Rightarrow> sql_schema \<Rightarrow> string + sql_schema" where
  "ensure_relayer_schema cx db = alter ''relay_jobs'' (relay_job_schema cx (db ''relay_jobs_pairkey_old'' \<noteq> None)) db"

section \<open>Start-up\<close>

fun in_turn :: "(sql_schema \<Rightarrow> string + sql_schema) list \<Rightarrow> sql_schema \<Rightarrow> string + sql_schema" where
  "in_turn [] db = Inr db"
| "in_turn (f # fs) db = sql_then (f db) (in_turn fs)"

definition run_migrations :: "sql_connection \<Rightarrow> sql_schema \<Rightarrow> string + sql_schema" where
  "run_migrations cx db =
     in_turn [ensure_live_score_facts cx, ensure_user_cdp_user_id cx, ensure_trade_relay_columns cx, ensure_order_wide_columns cx,
       ensure_attestation_created_at cx, ensure_relayer_schema cx, ensure_market_listing_reason cx, ensure_vote_weight_bigint cx,
       ensure_price_point_unique cx, ensure_vote_unique cx, ensure_emission_live_unique cx] (create_all cx db)"

end
