(* ===== verification/Migration_Props.thy ===== *)
theory Migration_Props
  imports Migrations
begin

text \<open>
  What the migrations at start-up guarantee: a second start-up changes nothing, one vote per voter remains and it is the
  first, and no other row is lost. The steps are first taken apart into what they do to each table.
\<close>

section \<open>The effect on each table\<close>

fun thread :: "(sql_table \<Rightarrow> string + sql_table) list \<Rightarrow> sql_table \<Rightarrow> string + sql_table" where
  "thread [] t = Inr t"
| "thread (f # fs) t = sql_then (f t) (thread fs)"

definition upgrades :: "sql_connection \<Rightarrow> bool \<Rightarrow> (string \<times> (sql_table \<Rightarrow> string + sql_table)) list" where
  "upgrades cx leftover =
     [(''live_scores'', Inr \<circ> ensure_column cx (nullable (col ''facts'' T_JSON))),
      (''users'', Inr \<circ> ensure_column cx (defaulting (Constant (SText [])) (nullable (col ''cdp_user_id'' (T_String 100))))),
      (''trades'', trade_columns cx)] @
     (if postgresql cx then [(''orders'', Inr \<circ> text_salt \<circ> widen ORDER_WIDE), (''trades'', Inr \<circ> widen TRADE_WIDE)] else []) @
     [(''attestations'', Inr \<circ> attestation_created_at cx), (''relay_jobs'', relay_job_schema cx leftover),
      (''market_listings'', Inr \<circ> ensure_column cx (defaulting (Constant (SText [])) (nullable (col ''reject_reason'' (T_String 256)))))] @
     (if postgresql cx then [(''votes'', Inr \<circ> widen [''weight''])] else []) @
     [(''price_points'', unique_key cx PRICE_POINT_UNIQUE PRICE_POINT_KEY), (''votes'', unique_key cx VOTE_UNIQUE [''condition_id'', ''voter'']),
      (''emission_distributions'', emission_live_unique)]"

definition of_table :: "string \<Rightarrow> (string \<times> (sql_table \<Rightarrow> string + sql_table)) list \<Rightarrow> (sql_table \<Rightarrow> string + sql_table) list" where
  "of_table n L = map snd (filter (\<lambda>u. fst u = n) L)"

abbreviation upgrade_all :: "(string \<times> (sql_table \<Rightarrow> string + sql_table)) list \<Rightarrow> sql_schema \<Rightarrow> string + sql_schema" where
  "upgrade_all L \<equiv> in_turn (map (\<lambda>u. alter (fst u) (snd u)) L)"

lemma sql_then_simps [simp]: "sql_then (Inl e) f = Inl e" "sql_then (Inr x) f = f x"
  by (simp_all add: sql_then_def)

lemma sql_then_Inr: "sql_then m f = Inr y \<longleftrightarrow> (\<exists>x. m = Inr x \<and> f x = Inr y)"
  by (cases m) auto

lemma alter_Inr: "alter n f db = Inr db' \<longleftrightarrow>
    (case db n of None \<Rightarrow> db' = db | Some t \<Rightarrow> \<exists>t'. f t = Inr t' \<and> db' = db(n \<mapsto> t'))"
  by (cases "db n"; cases "f (the (db n))") (auto simp: alter_def)

lemma alter_same: "db n = None \<or> (\<exists>t. db n = Some t \<and> f t = Inr t) \<Longrightarrow> alter n f db = Inr db"
  by (auto simp: alter_def fun_upd_idem)

lemma in_turn_append: "in_turn (fs @ gs) db = sql_then (in_turn fs db) (in_turn gs)"
  by (induction fs arbitrary: db) (auto simp: sql_then_def split: sum.split)

lemma upgrade_all_table:
  assumes "upgrade_all L db = Inr db'"
  shows "case db n of None \<Rightarrow> db' n = None | Some t \<Rightarrow> \<exists>t'. db' n = Some t' \<and> thread (of_table n L) t = Inr t'"
  using assms
proof (induction L arbitrary: db)
  case Nil
  then show ?case by (simp add: of_table_def split: option.split)
next
  case (Cons u L)
  then obtain db1 where step: "alter (fst u) (snd u) db = Inr db1" and rest: "upgrade_all L db1 = Inr db'"
    by (auto simp: sql_then_Inr)
  show ?case
    using step Cons.IH [OF rest] by (cases "fst u = n") (auto simp: alter_Inr of_table_def split: option.splits)
qed

lemma upgrade_all_same:
  assumes "\<And>n f t. (n, f) \<in> set L \<Longrightarrow> db n = Some t \<Longrightarrow> f t = Inr t"
  shows "upgrade_all L db = Inr db"
  using assms
proof (induction L)
  case (Cons u L)
  have "alter (fst u) (snd u) db = Inr db"
    by (rule alter_same) (use Cons.prems [of "fst u" "snd u"] in \<open>cases "db (fst u)"; auto\<close>)
  moreover have "upgrade_all L db = Inr db" by (rule Cons.IH) (use Cons.prems in auto)
  ultimately show ?case by simp
qed simp

lemma in_turn_cong:
  assumes "P db" and "list_all2 (\<lambda>f g. \<forall>db. P db \<longrightarrow> f db = g db \<and> (\<forall>db'. g db = Inr db' \<longrightarrow> P db')) fs gs"
  shows "in_turn fs db = in_turn gs db"
  using assms(2,1)
proof (induction fs gs arbitrary: db rule: list_all2_induct)
  case (Cons f fs g gs)
  then have "f db = g db" "\<forall>db'. g db = Inr db' \<longrightarrow> P db'" by auto
  then show ?case using Cons.IH by (cases "g db") auto
qed simp

lemma alter_other: "alter n f db = Inr db' \<Longrightarrow> m \<noteq> n \<Longrightarrow> db' m = db m"
  by (auto simp: alter_Inr split: option.splits)

lemma order_wide_other: "ensure_order_wide_columns cx db = Inr db' \<Longrightarrow> m \<noteq> ''orders'' \<Longrightarrow> m \<noteq> ''trades'' \<Longrightarrow> db' m = db m"
  by (auto simp: ensure_order_wide_columns_def sql_then_Inr alter_other split: if_splits)

lemma run_migrations_upgrades:
  "run_migrations cx db = upgrade_all (upgrades cx (db ''relay_jobs_pairkey_old'' \<noteq> None)) (create_all cx db)"
proof -
  let ?old = "\<lambda>d. d ''relay_jobs_pairkey_old''"
  have known: "?old (create_all cx db) = ?old db"
    by (simp add: create_all_def METADATA_def split: option.split)
  define P where "P d \<longleftrightarrow> (?old d \<noteq> None) = (?old db \<noteq> None)" for d :: sql_schema
  have start: "P (create_all cx db)" by (simp add: P_def known)
  have kept: "P d \<Longrightarrow> alter n f d = Inr d' \<Longrightarrow> n \<noteq> ''relay_jobs_pairkey_old'' \<Longrightarrow> P d'" for n f d d'
    using alter_other [of n f d d' "''relay_jobs_pairkey_old''"] by (simp add: P_def)
  let ?leftover = "?old db \<noteq> None"
  let ?steps = "[ensure_live_score_facts cx, ensure_user_cdp_user_id cx, ensure_trade_relay_columns cx, ensure_order_wide_columns cx,
       ensure_attestation_created_at cx, alter ''relay_jobs'' (relay_job_schema cx ?leftover), ensure_market_listing_reason cx,
       ensure_vote_weight_bigint cx, ensure_price_point_unique cx, ensure_vote_unique cx, ensure_emission_live_unique cx]"
  have "run_migrations cx db = in_turn ?steps (create_all cx db)"
    unfolding run_migrations_def
  proof (rule in_turn_cong [where P = P, OF start], intro list_all2_Cons [THEN iffD2] conjI list_all2_Nil [THEN iffD2] allI impI TrueI)
  qed (auto simp: ensure_live_score_facts_def ensure_user_cdp_user_id_def ensure_trade_relay_columns_def
      ensure_attestation_created_at_def ensure_relayer_schema_def ensure_market_listing_reason_def ensure_vote_weight_bigint_def
      ensure_price_point_unique_def ensure_vote_unique_def ensure_emission_live_unique_def P_def sql_then_Inr
      dest: order_wide_other [where m = "''relay_jobs_pairkey_old''"] alter_other [where m = "''relay_jobs_pairkey_old''"] split: if_splits)
  also have "\<dots> = upgrade_all (upgrades cx ?leftover) (create_all cx db)"
    by (cases "postgresql cx") (simp_all add: upgrades_def ensure_live_score_facts_def ensure_user_cdp_user_id_def ensure_trade_relay_columns_def
      ensure_order_wide_columns_def ensure_attestation_created_at_def ensure_market_listing_reason_def ensure_vote_weight_bigint_def
      ensure_price_point_unique_def ensure_vote_unique_def ensure_emission_live_unique_def sql_then_def split: sum.split)
  finally show ?thesis .
qed

section \<open>Upgrades of a table\<close>

lemma has_column_ensure [simp]: "has_column c (ensure_column cx c' t) = (has_column c t \<or> c = sc_name c')"
  by (auto simp: ensure_column_def has_column_def)

lemma has_index_ensure [simp]: "has_index n (ensure_column cx c t) = has_index n t"
  by (simp add: ensure_column_def has_index_def)

lemma ensure_column_same: "has_column (sc_name c) t \<Longrightarrow> ensure_column cx c t = t"
  by (simp add: ensure_column_def)

lemma column_names [simp]: "sc_name (col n ty) = n" "sc_name (nullable c) = sc_name c" "sc_name (defaulting d c) = sc_name c"
  by (simp_all add: col_def nullable_def defaulting_def)

lemma widen_simps [simp]: "has_column c (widen cs t) = has_column c t" "has_index n (widen cs t) = has_index n t"
    "tb_rows (widen cs t) = tb_rows t" "tb_indexes (widen cs t) = tb_indexes t" "tb_uniques (widen cs t) = tb_uniques t"
  by (auto simp: has_column_def has_index_def widen_def image_iff)

lemma widen_again [simp]: "widen cs (widen cs t) = widen cs t"
  by (rule sql_table.equality) (auto simp: widen_def narrow_int_def)

lemma create_index_Inr:
  assumes "create_index ix t = Inr t'"
  shows "has_index (ix_name ix) t' \<and> tb_columns t' = tb_columns t \<and> tb_rows t' = tb_rows t"
  using assms by (auto simp: create_index_def has_index_def split: if_splits)

lemma create_index_same: "has_index (ix_name ix) t \<Longrightarrow> create_index ix t = Inr t"
  by (simp add: create_index_def)

lemma unique_key_Inr:
  assumes "unique_key cx name cs t = Inr t'"
  shows "has_index name t' \<and> tb_columns t' = tb_columns t"
  using assms by (auto simp: unique_key_def drop_duplicates_def unique_index_def Let_def dest!: create_index_Inr split: if_splits)

lemma unique_key_again: "unique_key cx name cs t = Inr t' \<Longrightarrow> unique_key cx' name cs t' = Inr t'"
  by (drule unique_key_Inr) (simp add: unique_key_def)

lemma widen_columns: "tb_columns t' = tb_columns (widen cs t) \<Longrightarrow> widen cs t' = t'"
  by (cases t') (auto simp: widen_def narrow_int_def)

lemma trade_columns_Inr:
  assumes "trade_columns cx t = Inr t'"
  shows "has_column ''status'' t' \<and> has_column ''relay_job_id'' t' \<and> has_column ''block_number'' t' \<and> has_index ''ix_trades_relay_job_id'' t'"
  using create_index_Inr [OF assms [unfolded trade_columns_def]]
  by (simp add: has_column_def ensure_column_def plain_index_def) 

lemma trade_columns_same:
  assumes "has_column ''status'' t" "has_column ''relay_job_id'' t" "has_column ''block_number'' t" "has_index ''ix_trades_relay_job_id'' t"
  shows "trade_columns cx t = Inr t"
  using assms by (simp add: trade_columns_def ensure_column_same create_index_same plain_index_def)

lemma text_salt_again: "text_salt (text_salt t) = text_salt t"
proof -
  have "\<forall>c\<in>set (tb_columns (text_salt t)). sc_name c = ''salt'' \<longrightarrow> text_type (sc_type c)"
    by (auto simp: text_salt_def list_ex_iff)
  then have "\<not> list_ex (\<lambda>c. sc_name c = ''salt'' \<and> \<not> text_type (sc_type c)) (tb_columns (text_salt t))"
    by (auto simp: list_ex_iff)
  then show ?thesis by (simp only: text_salt_def [of "text_salt t"] if_False)
qed

lemma text_salt_widen: "widen cs (text_salt (widen cs t)) = text_salt (widen cs t)"
  by (rule sql_table.equality) (auto simp: text_salt_def widen_def narrow_int_def)

lemma emission_again: "emission_live_unique t = Inr t' \<Longrightarrow> emission_live_unique t' = Inr t'"
  by (auto simp: emission_live_unique_def EMISSION_INDEX_def unique_index_def dest!: create_index_Inr split: if_splits)

lemma attestation_again: "attestation_created_at cx (attestation_created_at cx' t) = attestation_created_at cx' t"
  by (auto simp: attestation_created_at_def set_default_def has_column_def ensure_column_def Let_def image_iff)

text \<open>No unique key over the pair of hashes is left, except an unnamed one.\<close>

definition no_pair_key :: "sql_table \<Rightarrow> bool" where
  "no_pair_key t =
     ((\<forall>u\<in>set (tb_uniques t). fst u \<noteq> OLD_PAIR_KEY \<and> (sort (snd u) = PAIR_COLUMNS \<longrightarrow> fst u = [])) \<and>
      (\<forall>ix\<in>set (tb_indexes t). ix_name ix \<noteq> OLD_PAIR_KEY \<and> (ix_unique ix \<and> sort (ix_columns ix) = PAIR_COLUMNS \<longrightarrow> ix_name ix = [])))"

lemma fold_drop_index: "fold drop_index ns t = t\<lparr>tb_indexes := filter (\<lambda>ix. ix_name ix \<notin> set ns) (tb_indexes t)\<rparr>"
  by (induction ns arbitrary: t) (auto simp: drop_index_def intro!: arg_cong [where f = "\<lambda>xs. t\<lparr>tb_indexes := xs\<rparr>" for t] filter_cong)

lemma fold_drop_constraint:
  "fold drop_constraint ns t = t\<lparr>tb_uniques := filter (\<lambda>u. fst u \<notin> set ns) (tb_uniques t), tb_indexes := filter (\<lambda>ix. ix_name ix \<notin> set ns) (tb_indexes t)\<rparr>"
  by (induction ns arbitrary: t) (auto simp: drop_constraint_def drop_index_def intro!: sql_table.equality filter_cong)

lemma drop_pair_keys_clean: "no_pair_key (drop_pair_keys t)"
  unfolding no_pair_key_def drop_pair_keys_def fold_drop_index fold_drop_constraint pair_keys_def drop_constraint_def drop_index_def Let_def
  by (auto simp: image_iff) 

lemma drop_pair_keys_same:
  assumes "no_pair_key t"
  shows "drop_pair_keys t = t"
proof -
  have old: "drop_constraint OLD_PAIR_KEY t = t"
    using assms by (intro sql_table.equality) (auto simp: drop_constraint_def drop_index_def no_pair_key_def intro!: filter_True)
  have "filter (\<lambda>n. n \<noteq> [] \<and> n \<noteq> OLD_PAIR_KEY) (fst (pair_keys t)) = []" "filter (\<lambda>n. n \<noteq> []) (snd (pair_keys t)) = []"
    using assms by (auto simp: pair_keys_def no_pair_key_def filter_empty_conv Let_def)
  then show ?thesis by (cases "pair_keys t") (simp add: drop_pair_keys_def old)
qed

lemma new_columns: "map sc_name NEW_COLUMNS = [''matched_at'', ''first_sent_block'', ''nonce_consumed_at'']"
  by (simp add: NEW_COLUMNS_def)

lemma fold_ensure_columns: "has_column c (fold (ensure_column cx) cs t) = (has_column c t \<or> c \<in> set (map sc_name cs))"
  by (induction cs arbitrary: t) auto

lemma fold_ensure_same: "(\<And>c. c \<in> set cs \<Longrightarrow> has_column (sc_name c) t) \<Longrightarrow> fold (ensure_column cx) cs t = t"
  by (induction cs) (auto simp: ensure_column_same)

lemma relay_columns_same: "has_column ''matched_at'' t \<Longrightarrow> has_column ''first_sent_block'' t \<Longrightarrow> has_column ''nonce_consumed_at'' t \<Longrightarrow>
    ensure_relay_job_columns cx t = t"
  unfolding ensure_relay_job_columns_def by (rule fold_ensure_same) (auto simp: NEW_COLUMNS_def)

lemma drop_pair_keys_columns [simp]: "tb_columns (drop_pair_keys t) = tb_columns t" "tb_rows (drop_pair_keys t) = tb_rows t"
  by (simp_all add: drop_pair_keys_def fold_drop_index fold_drop_constraint drop_constraint_def drop_index_def Let_def split: prod.split)

lemma rebuilt_table: "pair_keys (relay_jobs_table\<lparr>tb_rows := rows\<rparr>) = ([], [])"
    "has_column ''matched_at'' (relay_jobs_table\<lparr>tb_rows := rows\<rparr>)" "has_column ''first_sent_block'' (relay_jobs_table\<lparr>tb_rows := rows\<rparr>)"
    "has_column ''nonce_consumed_at'' (relay_jobs_table\<lparr>tb_rows := rows\<rparr>)"
  by (simp_all add: pair_keys_def relay_jobs_table_def new_table_def plain_index_def has_column_def Let_def)

lemma relay_again:
  assumes "relay_job_schema cx leftover t = Inr t'" and "cx_dialect cx' = cx_dialect cx"
  shows "relay_job_schema cx' leftover' t' = Inr t'"
proof -
  let ?t = "ensure_relay_job_columns cx t"
  have columns: "has_column ''matched_at'' ?t" "has_column ''first_sent_block'' ?t" "has_column ''nonce_consumed_at'' ?t"
    by (simp_all add: ensure_relay_job_columns_def fold_ensure_columns NEW_COLUMNS_def)
  have dialect: "postgresql cx' = postgresql cx" using assms(2) by (simp add: postgresql_def)
  consider (pg) "postgresql cx" "t' = drop_pair_keys ?t"
    | (rebuilt) rows where "\<not> postgresql cx" "t' = relay_jobs_table\<lparr>tb_rows := rows\<rparr>"
    | (same) "\<not> postgresql cx" "t' = ?t" "\<not> (cx_dialect cx = ''sqlite'' \<and> pair_keys ?t \<noteq> ([], []))"
    using assms(1) by (auto simp: relay_job_schema_def rebuild_sqlite_def Let_def split: if_splits)
  then show ?thesis
  proof cases
    case pg
    then have "ensure_relay_job_columns cx' t' = t'"
      using columns by (intro relay_columns_same) (simp_all add: has_column_def)
    then show ?thesis using pg dialect by (simp add: relay_job_schema_def drop_pair_keys_same drop_pair_keys_clean)
  next
    case rebuilt
    then show ?thesis using dialect by (simp add: relay_job_schema_def relay_columns_same rebuilt_table)
  next
    case same
    then show ?thesis using dialect columns assms(2) by (auto simp: relay_job_schema_def relay_columns_same Let_def)
  qed
qed

section \<open>A second start-up\<close>

lemma upgrades_of:
  "of_table ''live_scores'' (upgrades cx leftover) = [Inr \<circ> ensure_column cx (nullable (col ''facts'' T_JSON))]"
  "of_table ''users'' (upgrades cx leftover) =
     [Inr \<circ> ensure_column cx (defaulting (Constant (SText [])) (nullable (col ''cdp_user_id'' (T_String 100))))]"
  "of_table ''trades'' (upgrades cx leftover) = trade_columns cx # (if postgresql cx then [Inr \<circ> widen TRADE_WIDE] else [])"
  "of_table ''orders'' (upgrades cx leftover) = (if postgresql cx then [Inr \<circ> text_salt \<circ> widen ORDER_WIDE] else [])"
  "of_table ''attestations'' (upgrades cx leftover) = [Inr \<circ> attestation_created_at cx]"
  "of_table ''relay_jobs'' (upgrades cx leftover) = [relay_job_schema cx leftover]"
  "of_table ''market_listings'' (upgrades cx leftover) =
     [Inr \<circ> ensure_column cx (defaulting (Constant (SText [])) (nullable (col ''reject_reason'' (T_String 256))))]"
  "of_table ''votes'' (upgrades cx leftover) =
     (if postgresql cx then [Inr \<circ> widen [''weight'']] else []) @ [unique_key cx VOTE_UNIQUE [''condition_id'', ''voter'']]"
  "of_table ''price_points'' (upgrades cx leftover) = [unique_key cx PRICE_POINT_UNIQUE PRICE_POINT_KEY]"
  "of_table ''emission_distributions'' (upgrades cx leftover) = [emission_live_unique]"
  by (simp_all add: of_table_def upgrades_def)

lemma upgraded_names: "(n, f) \<in> set (upgrades cx leftover) \<Longrightarrow>
    n \<in> {''live_scores'', ''users'', ''trades'', ''orders'', ''attestations'', ''relay_jobs'', ''market_listings'', ''votes'', ''price_points'',
      ''emission_distributions''}"
  by (auto simp: upgrades_def split: if_splits)

lemma in_of_table: "(n, f) \<in> set L \<Longrightarrow> f \<in> set (of_table n L)"
  by (force simp: of_table_def)

lemma trades_again:
  assumes "thread (of_table ''trades'' (upgrades cx leftover)) t = Inr t'"
  shows "trade_columns cx' t' = Inr t'" "postgresql cx \<Longrightarrow> widen TRADE_WIDE t' = t'"
proof -
  obtain t1 where t1: "trade_columns cx t = Inr t1" "t' = (if postgresql cx then widen TRADE_WIDE t1 else t1)"
    using assms by (auto simp: upgrades_of sql_then_Inr split: if_splits)
  then show "trade_columns cx' t' = Inr t'" by (auto dest!: trade_columns_Inr intro!: trade_columns_same)
  show "widen TRADE_WIDE t' = t'" if "postgresql cx" using t1 that by simp
qed

lemma votes_again:
  assumes "thread (of_table ''votes'' (upgrades cx leftover)) t = Inr t'"
  shows "unique_key cx' VOTE_UNIQUE cs t' = Inr t'" "postgresql cx \<Longrightarrow> widen [''weight''] t' = t'"
proof -
  have "unique_key cx VOTE_UNIQUE [''condition_id'', ''voter''] (if postgresql cx then widen [''weight''] t else t) = Inr t'"
    using assms by (auto simp: upgrades_of sql_then_Inr split: if_splits)
  note votes = unique_key_Inr [OF this]
  show "unique_key cx' VOTE_UNIQUE cs t' = Inr t'" using votes by (simp add: unique_key_def)
  show "widen [''weight''] t' = t'" if "postgresql cx" using votes that by (auto intro!: widen_columns)
qed

lemma upgrade_again:
  assumes "thread (of_table n (upgrades cx leftover)) t = Inr t'" and "(n, f) \<in> set (upgrades cx' leftover')"
    and "cx_dialect cx' = cx_dialect cx"
  shows "f t' = Inr t'"
proof -
  have dialect: "postgresql cx' = postgresql cx" using assms(3) by (simp add: postgresql_def)
  have f: "f \<in> set (of_table n (upgrades cx' leftover'))" by (rule in_of_table [OF assms(2)])
  from upgraded_names [OF assms(2)] show ?thesis
  proof (elim insertE emptyE)
    assume n: "n = ''trades''"
    show ?thesis using f trades_again [OF assms(1) [unfolded n]] by (auto simp: n upgrades_of dialect split: if_splits)
  next
    assume n: "n = ''votes''"
    show ?thesis using f votes_again [OF assms(1) [unfolded n]] by (auto simp: n upgrades_of dialect split: if_splits)
  next
    assume n: "n = ''relay_jobs''"
    show ?thesis using f assms(1) relay_again [OF _ assms(3)] by (auto simp: n upgrades_of sql_then_Inr)
  qed (use f assms(1) in \<open>auto simp: upgrades_of sql_then_Inr dialect text_salt_again text_salt_widen attestation_again ensure_column_same
      dest: unique_key_again emission_again split: if_splits\<close>)
qed

lemma create_all_present:
  assumes "upgrade_all L (create_all cx db) = Inr db'"
  shows "create_all cx' db' = db'"
proof
  fix n
  have "db' n = None \<Longrightarrow> map_of METADATA n = None"
    using upgrade_all_table [OF assms, of n] by (auto simp: create_all_def split: option.splits)
  then show "create_all cx' db' n = db' n" by (auto simp: create_all_def split: option.split)
qed

text \<open>
  C39 (migrations_are_idempotent). Start-up migrations are idempotent: when a start-up succeeds on any database,
  a second one on the same dialect succeeds and changes neither a table nor a row, at whatever time it runs.
\<close>

theorem migrations_are_idempotent:
  assumes "run_migrations cx db = Inr db'" and "cx_dialect cx' = cx_dialect cx"
  shows "run_migrations cx' db' = Inr db'"
proof -
  let ?L = "upgrades cx (db ''relay_jobs_pairkey_old'' \<noteq> None)"
  have run: "upgrade_all ?L (create_all cx db) = Inr db'" using assms(1) by (simp add: run_migrations_upgrades)
  have "f t' = Inr t'" if table: "(n, f) \<in> set (upgrades cx' leftover)" "db' n = Some t'" for n f leftover t'
  proof -
    obtain t where "thread (of_table n ?L) t = Inr t'"
      using upgrade_all_table [OF run, of n] table(2) by (auto split: option.splits)
    then show ?thesis using upgrade_again table(1) assms(2) by blast
  qed
  then show ?thesis
    unfolding run_migrations_upgrades create_all_present [OF run] by (rule upgrade_all_same)
qed

section \<open>Start-up succeeds\<close>

definition row_id :: "sql_row \<Rightarrow> int" where
  "row_id r = (case r ''id'' of SInt n \<Rightarrow> n | _ \<Rightarrow> 0)"

text \<open>Rows with their primary keys, and no null in the key.\<close>

definition keyed :: "string list \<Rightarrow> sql_row list \<Rightarrow> bool" where
  "keyed cs rows =
     (distinct (map row_id rows) \<and> (\<forall>r\<in>set rows. r ''id'' = SInt (row_id r) \<and> SNull \<notin> set (row_key cs r)))"

text \<open>The row is the first one of its key.\<close>

definition first_of_key :: "string list \<Rightarrow> sql_row list \<Rightarrow> sql_row \<Rightarrow> bool" where
  "first_of_key cs rows r = (\<forall>s\<in>set rows. row_key cs s = row_key cs r \<longrightarrow> row_id r \<le> row_id s)"

lemma foldl_min: "foldl min (n :: int) ns = Min (set (n # ns))"
proof -
  have "(\<lambda>x s. min s x) = (min :: int \<Rightarrow> int \<Rightarrow> int)" by (intro ext) (rule min.commute)
  then show ?thesis by (simp only: Min.set_eq_fold foldl_conv_fold)
qed

lemma map_filter_Some: "(\<And>x. x \<in> set xs \<Longrightarrow> f x = Some (g x)) \<Longrightarrow> List.map_filter f xs = map g xs"
  by (induction xs) auto

lemma keyed_id: "keyed cs rows \<Longrightarrow> r \<in> set rows \<Longrightarrow> r ''id'' = SInt (row_id r)"
  by (simp add: keyed_def)

lemma keyed_null: "keyed cs rows \<Longrightarrow> r \<in> set rows \<Longrightarrow> SNull \<notin> set (row_key cs r)"
  by (simp add: keyed_def)

lemma group_min_keyed:
  assumes "keyed cs rows" and "b \<in> set rows"
  shows "group_min cs rows b = SInt (Min (row_id ` {s \<in> set rows. row_key cs s = row_key cs b}))"
proof -
  let ?g = "filter (\<lambda>s. row_key cs s = row_key cs b) rows"
  have "List.map_filter (\<lambda>s. case s ''id'' of SInt n \<Rightarrow> Some n | _ \<Rightarrow> None) ?g = map row_id ?g"
    by (rule map_filter_Some) (simp add: keyed_id [OF assms(1)])
  moreover have "?g \<noteq> []" using assms(2) by (auto simp: filter_empty_conv)
  ultimately show ?thesis
    by (cases ?g) (auto simp: group_min_def foldl_min simp flip: set_filter)
qed

lemma drop_duplicates_first:
  assumes "keyed cs (tb_rows t)"
  shows "tb_rows (drop_duplicates cx cs t) = filter (first_of_key cs (tb_rows t)) (tb_rows t)"
proof -
  let ?rows = "tb_rows t"
  have same: "a = b" if "a \<in> set ?rows" "b \<in> set ?rows" "row_id a = row_id b" for a b
    using assms that by (auto simp: keyed_def distinct_map inj_on_def)
  have pg: "(\<not> list_ex (\<lambda>b. sql_greater (a ''id'') (b ''id'') \<and> sql_equal (row_key cs a) (row_key cs b)) ?rows) = first_of_key cs ?rows a"
    if "a \<in> set ?rows" for a
  proof -
    have "sql_greater (a ''id'') (b ''id'') = (row_id b < row_id a)" "sql_equal (row_key cs a) (row_key cs b) = (row_key cs b = row_key cs a)"
      if "b \<in> set ?rows" for b
      using keyed_null [OF assms \<open>a \<in> set ?rows\<close>]
      by (auto simp: sql_greater_def sql_equal_def keyed_id [OF assms that] keyed_id [OF assms \<open>a \<in> set ?rows\<close>])
    then show ?thesis by (auto simp: first_of_key_def list_ex_iff not_less)
  qed
  have lite: "(a ''id'' \<in> set (map (group_min cs ?rows) ?rows)) = first_of_key cs ?rows a" if a: "a \<in> set ?rows" for a
  proof -
    have id: "a ''id'' = SInt (row_id a)" using assms a by (simp add: keyed_def)
    have "(a ''id'' = group_min cs ?rows b) \<longleftrightarrow> row_key cs a = row_key cs b \<and> first_of_key cs ?rows a" if b: "b \<in> set ?rows" for b
    proof -
      let ?ids = "row_id ` {s \<in> set ?rows. row_key cs s = row_key cs b}"
      have ids: "finite ?ids" "?ids \<noteq> {}" using b by auto
      have "row_id a = Min ?ids \<longleftrightarrow> row_id a \<in> ?ids \<and> (\<forall>i\<in>?ids. row_id a \<le> i)"
        by (subst eq_commute) (rule Min_eq_iff [OF ids])
      also have "\<dots> \<longleftrightarrow> row_key cs a = row_key cs b \<and> first_of_key cs ?rows a"
      proof -
        have "row_id a \<in> ?ids \<longleftrightarrow> row_key cs a = row_key cs b" using a same [OF a] by (auto simp: image_iff)
        moreover have "(\<forall>i\<in>?ids. row_id a \<le> i) \<longleftrightarrow> first_of_key cs ?rows a" if "row_key cs a = row_key cs b"
          using that by (auto simp: first_of_key_def)
        ultimately show ?thesis by blast
      qed
      finally show ?thesis by (simp add: id group_min_keyed [OF assms b])
    qed
    then show ?thesis using a by auto
  qed
  have "tb_rows (drop_duplicates cx cs t) =
      (if postgresql cx
       then filter (\<lambda>a. \<not> list_ex (\<lambda>b. sql_greater (a ''id'') (b ''id'') \<and> sql_equal (row_key cs a) (row_key cs b)) ?rows) ?rows
       else filter (\<lambda>a. a ''id'' \<in> set (map (group_min cs ?rows) ?rows)) ?rows)"
    by (simp add: drop_duplicates_def Let_def)
  also have "\<dots> = filter (first_of_key cs ?rows) ?rows"
  proof (cases "postgresql cx")
    case True
    show ?thesis unfolding if_P [OF True] by (rule filter_cong [OF refl]) (rule pg)
  next
    case False
    show ?thesis unfolding if_not_P [OF False] by (rule filter_cong [OF refl]) (rule lite)
  qed
  finally show ?thesis .
qed

lemma first_distinct:
  assumes "keyed cs rows"
  shows "distinct (map (row_key cs) (filter (first_of_key cs rows) rows))"
proof -
  have "distinct rows" using assms by (auto simp: keyed_def distinct_map)
  moreover have "inj_on (row_key cs) (set (filter (first_of_key cs rows) rows))"
  proof (rule inj_onI)
    fix a b assume ab: "a \<in> set (filter (first_of_key cs rows) rows)" "b \<in> set (filter (first_of_key cs rows) rows)" "row_key cs a = row_key cs b"
    then have "row_id a = row_id b" by (auto simp: first_of_key_def intro: antisym)
    then show "a = b" using assms ab by (auto simp: keyed_def distinct_map inj_on_def)
  qed
  ultimately show ?thesis by (simp add: distinct_map)
qed

lemma unique_key_rows:
  assumes "list_all (\<lambda>c. has_column c t) cs" and "keyed cs (tb_rows t)" and "\<not> has_index name t"
  shows "\<exists>t'. unique_key cx name cs t = Inr t' \<and> tb_rows t' = filter (first_of_key cs (tb_rows t)) (tb_rows t)"
proof -
  note rows = drop_duplicates_first [OF assms(2), of cx]
  have "has_index name (drop_duplicates cx cs t) = has_index name t" "has_column c (drop_duplicates cx cs t) = has_column c t" for c
    by (simp_all add: drop_duplicates_def has_index_def has_column_def Let_def)
  moreover have "distinct (map (row_key cs) (filter (index_covers (unique_index name cs)) (filter (first_of_key cs (tb_rows t)) (tb_rows t))))"
    by (rule distinct_map_filter [OF first_distinct [OF assms(2)]])
  ultimately show ?thesis
    using assms(1,3) by (simp add: unique_key_def create_index_def unique_index_def rows)
qed

text \<open>
  A database start-up can upgrade: the columns of its keys are there, votes and price points have their ids and
  keys, and, where SQLite has to rebuild the relay jobs, the other name is free and no value the model needs is missing.
\<close>

definition copyable :: "sql_table \<Rightarrow> bool" where
  "copyable t =
     (\<forall>c\<in>set (tb_columns relay_jobs_table). \<not> sc_nullable c \<longrightarrow>
        (if has_column (sc_name c) t
         then sc_name c \<in> {''created_at'', ''updated_at''} \<or> (\<forall>r\<in>set (tb_rows t). r (sc_name c) \<noteq> SNull)
         else sc_default c \<noteq> None \<or> sc_name c = ''matched_at''))"

definition upgradable_table :: "string \<Rightarrow> sql_table \<Rightarrow> bool" where
  "upgradable_table n t =
     (if n = ''votes'' then list_all (\<lambda>c. has_column c t) [''condition_id'', ''voter''] \<and> keyed [''condition_id'', ''voter''] (tb_rows t)
      else if n = ''price_points'' then list_all (\<lambda>c. has_column c t) PRICE_POINT_KEY \<and> keyed PRICE_POINT_KEY (tb_rows t)
      else if n = ''emission_distributions'' then list_all (\<lambda>c. has_column c t) [''payload_hash'', ''idempotency_key'', ''status'']
      else n = ''relay_jobs'' \<longrightarrow> copyable t)"

definition upgradable :: "sql_connection \<Rightarrow> sql_schema \<Rightarrow> bool" where
  "upgradable cx db = (cx_now cx \<noteq> SNull \<and> db ''relay_jobs_pairkey_old'' = None \<and> (\<forall>n t. db n = Some t \<longrightarrow> upgradable_table n t))"

lemma upgrade_all_succeeds:
  assumes "\<And>n t. db n = Some t \<Longrightarrow> \<exists>t'. thread (of_table n L) t = Inr t'"
  shows "\<exists>db'. upgrade_all L db = Inr db'"
  using assms
proof (induction L arbitrary: db)
  case (Cons u L)
  obtain n f where u: "u = (n, f)" by (cases u)
  show ?case
  proof (cases "db n")
    case None
    have "\<exists>db'. upgrade_all L db = Inr db'"
    proof (rule Cons.IH)
      fix m s assume "db m = Some s"
      then show "\<exists>s'. thread (of_table m L) s = Inr s'"
        using Cons.prems [of m s] None by (cases "m = n") (auto simp: of_table_def u)
    qed
    moreover have "alter n f db = Inr db" using None by (simp add: alter_def)
    ultimately show ?thesis by (simp add: u)
  next
    case (Some t)
    then obtain t1 where t1: "f t = Inr t1" using Cons.prems [of n t] by (auto simp: of_table_def u sql_then_Inr)
    have "\<exists>db'. upgrade_all L (db(n \<mapsto> t1)) = Inr db'"
    proof (rule Cons.IH)
      fix m s assume "(db(n \<mapsto> t1)) m = Some s"
      then show "\<exists>s'. thread (of_table m L) s = Inr s'"
        using Cons.prems [of m s] Cons.prems [of n t] Some t1 by (cases "m = n") (auto simp: of_table_def u sql_then_Inr)
    qed
    moreover have "alter n f db = Inr (db(n \<mapsto> t1))" using Some t1 by (simp add: alter_def)
    ultimately show ?thesis by (simp add: u)
  qed
qed simp

lemma distinct_if_counts: "(\<And>x. x \<in> set xs \<Longrightarrow> length (filter (\<lambda>y. y = x) xs) \<le> 1) \<Longrightarrow> distinct xs"
proof (induction xs)
  case (Cons a xs)
  have "filter (\<lambda>y. y = a) xs = []" using Cons.prems [of a] by (simp add: le_Suc_eq)
  moreover have "distinct xs"
  proof (rule Cons.IH)
    fix x assume "x \<in> set xs"
    then show "length (filter (\<lambda>y. y = x) xs) \<le> 1" using Cons.prems [of x] by (simp split: if_splits)
  qed
  ultimately show ?case by (auto simp: filter_empty_conv)
qed simp

lemma emission_succeeds:
  assumes "list_all (\<lambda>c. has_column c t) [''payload_hash'', ''idempotency_key'', ''status'']"
  shows "\<exists>t'. emission_live_unique t = Inr t'"
proof (cases "has_index EMISSION_LIVE_UNIQUE t \<or> live_duplicates t > 0")
  case True
  then show ?thesis using assms by (auto simp: emission_live_unique_def)
next
  case False
  let ?key = "row_key [''payload_hash'', ''idempotency_key'']"
  let ?live = "filter (\<lambda>r. r ''status'' \<in> LIVE_STATUSES) (tb_rows t)"
  have "length (filter (\<lambda>y. y = k) (map ?key ?live)) \<le> 1" if "k \<in> set (map ?key ?live)" for k
  proof -
    have "filter (\<lambda>k. length (filter (\<lambda>x. x = k) (map ?key ?live)) > 1) (remdups (map ?key ?live)) = []"
      using False unfolding live_duplicates_def Let_def by simp
    then show ?thesis using that unfolding filter_empty_conv set_remdups by (meson not_less)
  qed
  then have "distinct (map ?key ?live)" by (rule distinct_if_counts)
  then have "distinct (map ?key (filter (\<lambda>r. SNull \<notin> set (?key r)) ?live))" by (rule distinct_map_filter)
  moreover have "filter (index_covers EMISSION_INDEX) (tb_rows t) = filter (\<lambda>r. SNull \<notin> set (?key r)) ?live"
    by (auto simp: index_covers_def EMISSION_INDEX_def unique_index_def intro!: filter_cong)
  ultimately show ?thesis
    using assms False by (simp add: emission_live_unique_def create_index_def EMISSION_INDEX_def unique_index_def)
qed

lemma plain_succeeds: "list_all (\<lambda>c. has_column c t) cs \<Longrightarrow> \<exists>t'. create_index (plain_index n cs) t = Inr t'"
  by (auto simp: create_index_def plain_index_def)

lemma trades_succeed: "\<exists>t'. trade_columns cx t = Inr t'"
  unfolding trade_columns_def by (rule plain_succeeds) simp

lemma unique_succeeds:
  assumes "list_all (\<lambda>c. has_column c t) cs" and "keyed cs (tb_rows t)"
  shows "\<exists>t'. unique_key cx name cs t = Inr t'"
proof (cases "has_index name t")
  case False
  then show ?thesis using unique_key_rows [OF assms] by blast
qed (simp add: unique_key_def)

text \<open>A column that is added changes no other.\<close>

definition rows_kept :: "sql_table \<Rightarrow> sql_table \<Rightarrow> bool" where
  "rows_kept t t' = list_all2 (\<lambda>r r'. \<forall>n. has_column n t \<longrightarrow> r' n = r n) (tb_rows t) (tb_rows t')"

lemma rows_kept_same: "tb_rows t' = tb_rows t \<Longrightarrow> rows_kept t t'"
  by (simp add: rows_kept_def list_all2_refl)

lemma rows_kept_trans:
  assumes "rows_kept t t'" and "rows_kept t' t''" and "\<And>n. has_column n t \<Longrightarrow> has_column n t'"
  shows "rows_kept t t''"
  using assms(1,2) unfolding rows_kept_def by (rule list_all2_trans [rotated]) (use assms(3) in auto)

lemma ensure_column_kept: "rows_kept t (ensure_column cx c t)"
  by (auto simp: rows_kept_def ensure_column_def list_all2_map2 list_all2_refl has_column_def intro!: list_all2_refl)

lemma fold_ensure_kept: "rows_kept t (fold (ensure_column cx) cs t)"
proof (induction cs arbitrary: t)
  case (Cons c cs)
  show ?case by (simp, rule rows_kept_trans [OF ensure_column_kept Cons.IH]) simp
qed (simp add: rows_kept_same)

lemma new_matched_at:
  assumes "\<not> has_column ''matched_at'' t" and "r \<in> set (tb_rows (ensure_relay_job_columns cx t))"
  shows "r ''matched_at'' = SInt 0"
  using assms
  by (auto simp: ensure_relay_job_columns_def NEW_COLUMNS_def ensure_column_def has_column_def default_value_def defaulting_def nullable_def
      col_def split: if_splits)

lemma find_named: "distinct (map sc_name xs) \<Longrightarrow> c \<in> set xs \<Longrightarrow> find (\<lambda>x. sc_name x = sc_name c) xs = Some c"
  by (induction xs) (auto simp: image_iff)

lemma relay_columns:
  "distinct (map sc_name (tb_columns relay_jobs_table))"
  "\<forall>c\<in>set (tb_columns relay_jobs_table). sc_default c \<in> {None, Some Current_Time}"
  "\<forall>c\<in>set (tb_columns relay_jobs_table). \<not> sc_nullable c \<longrightarrow> sc_name c \<notin> {''first_sent_block'', ''nonce_consumed_at''}"
  by code_simp+

lemma relay_succeeds:
  assumes "copyable t" and "cx_now cx \<noteq> SNull"
  shows "\<exists>t'. relay_job_schema cx False t = Inr t'"
proof -
  let ?t = "ensure_relay_job_columns cx t"
  have "copied_row cx ?t r (sc_name c) \<noteq> SNull"
    if r: "r \<in> set (tb_rows ?t)" and c: "c \<in> set (tb_columns relay_jobs_table)" "\<not> sc_nullable c" for r c
  proof -
    have found: "find (\<lambda>x. sc_name x = sc_name c) (tb_columns relay_jobs_table) = Some c"
      by (rule find_named [OF relay_columns(1) c(1)])
    have kept: "rows_kept t ?t" unfolding ensure_relay_job_columns_def by (rule fold_ensure_kept)
    then obtain r0 where r0: "r0 \<in> set (tb_rows t)" "\<And>n. has_column n t \<Longrightarrow> r n = r0 n"
      using r unfolding rows_kept_def list_all2_conv_all_nth by (metis in_set_conv_nth)
    have rule: "if has_column (sc_name c) t
         then sc_name c \<in> {''created_at'', ''updated_at''} \<or> (\<forall>r\<in>set (tb_rows t). r (sc_name c) \<noteq> SNull)
         else sc_default c \<noteq> None \<or> sc_name c = ''matched_at''"
      using assms(1) c unfolding copyable_def by blast
    have default: "sc_default c = None \<or> sc_default c = Some Current_Time"
      using c(1) relay_columns(2) by blast
    have columns: "has_column n ?t = (has_column n t \<or> n \<in> {''matched_at'', ''first_sent_block'', ''nonce_consumed_at''})" for n
      unfolding ensure_relay_job_columns_def fold_ensure_columns new_columns by auto
    have names: "sc_name c \<notin> {''first_sent_block'', ''nonce_consumed_at''}"
      using c relay_columns(3) by blast
    have row: "copied_row cx ?t r (sc_name c) =
        (if \<not> has_column (sc_name c) ?t then default_value cx c
         else if sc_name c \<in> {''created_at'', ''updated_at''} \<and> r (sc_name c) = SNull then cx_now cx else r (sc_name c))"
      unfolding copied_row_def found by simp
    show ?thesis
    proof (cases "has_column (sc_name c) t")
      case True
      then have "has_column (sc_name c) ?t" "r (sc_name c) = r0 (sc_name c)" using columns r0(2) by auto
      then show ?thesis using True rule r0(1) assms(2) unfolding row by auto
    next
      case False
      show ?thesis
      proof (cases "sc_name c = ''matched_at''")
        case True
        then have "has_column (sc_name c) ?t" "r (sc_name c) = SInt 0" using False columns new_matched_at [OF _ r] by auto
        then show ?thesis unfolding row by simp
      next
        case other: False
        then have absent: "\<not> has_column (sc_name c) ?t" using False names unfolding columns by blast
        have "sc_default c = Some Current_Time" using rule default False other by presburger
        then show ?thesis using assms(2) absent unfolding row default_value_def by simp
      qed
    qed
  qed
  then have "\<not> list_ex (\<lambda>r. list_ex (\<lambda>c. \<not> sc_nullable c \<and> r (sc_name c) = SNull) (tb_columns relay_jobs_table)) (map (copied_row cx ?t) (tb_rows ?t))"
    by (auto simp: list_ex_iff)
  then show ?thesis unfolding relay_job_schema_def rebuild_sqlite_def Let_def by auto
qed

lemma fresh_upgradable: "map_of METADATA n = Some t \<Longrightarrow> upgradable_table n (created cx t)"
proof -
  have "\<forall>u\<in>set METADATA. upgradable_table (fst u) (snd u)" by code_simp
  moreover assume "map_of METADATA n = Some t"
  ultimately have "upgradable_table n t" using map_of_SomeD by fastforce
  moreover have "tb_columns (created cx t) = tb_columns t" "tb_rows (created cx t) = tb_rows t" by (simp_all add: created_def)
  ultimately show ?thesis by (simp only: upgradable_table_def has_column_def copyable_def)
qed

lemma upgrades_succeed:
  assumes "upgradable_table n t" and "cx_now cx \<noteq> SNull"
  shows "\<exists>t'. thread (of_table n (upgrades cx False)) t = Inr t'"
proof -
  consider "n \<in> {''live_scores'', ''users'', ''orders'', ''attestations'', ''market_listings''}" | "n = ''trades''" | "n = ''relay_jobs''"
    | "n = ''votes''" | "n = ''price_points''" | "n = ''emission_distributions''" | "of_table n (upgrades cx False) = []"
    using upgraded_names [of n _ cx False] by (force simp: of_table_def filter_empty_conv)
  then show ?thesis
  proof cases
    case 2
    then show ?thesis using trades_succeed [of cx t] by (auto simp: upgrades_of)
  next
    case 3
    then show ?thesis using relay_succeeds [of t cx] assms by (auto simp: upgrades_of upgradable_table_def)
  next
    case 4
    have "\<exists>t'. unique_key cx VOTE_UNIQUE [''condition_id'', ''voter''] (if postgresql cx then widen [''weight''] t else t) = Inr t'"
      by (rule unique_succeeds) (use assms(1) 4 in \<open>simp_all add: upgradable_table_def\<close>)
    then show ?thesis using 4 by (auto simp: upgrades_of split: if_splits)
  next
    case 5
    then have "\<exists>t'. unique_key cx PRICE_POINT_UNIQUE PRICE_POINT_KEY t = Inr t'"
      by (intro unique_succeeds) (use assms(1) in \<open>simp_all add: upgradable_table_def\<close>)
    then show ?thesis using 5 by (auto simp: upgrades_of)
  next
    case 6
    then show ?thesis using emission_succeeds [of t] assms(1) by (auto simp: upgrades_of upgradable_table_def)
  qed (auto simp: upgrades_of)
qed

lemma run_succeeds:
  assumes "upgradable cx db"
  shows "\<exists>db'. run_migrations cx db = Inr db'"
proof -
  have "upgrade_all (upgrades cx False) (create_all cx db) = run_migrations cx db"
    using assms by (simp add: run_migrations_upgrades upgradable_def)
  moreover have "\<exists>db'. upgrade_all (upgrades cx False) (create_all cx db) = Inr db'"
  proof (rule upgrade_all_succeeds)
    fix n t assume "create_all cx db n = Some t"
    then have "upgradable_table n t"
      using assms by (auto simp: create_all_def upgradable_def fresh_upgradable split: option.splits)
    then show "\<exists>t'. thread (of_table n (upgrades cx False)) t = Inr t'"
      using assms by (auto simp: upgradable_def intro: upgrades_succeed)
  qed
  ultimately show ?thesis by simp
qed

text \<open>
  C38 (first_votes_survive). On a database that start-up can upgrade, with votes from before the unique key, start-up
  succeeds on either dialect, and what remains of the votes is exactly the first vote of every voter on every
  market: one vote per key, the rows unchanged and in their order.
\<close>

theorem first_votes_survive:
  assumes "upgradable cx db" and "db ''votes'' = Some t" and "\<not> has_index VOTE_UNIQUE t"
  shows "\<exists>db' t'. run_migrations cx db = Inr db' \<and> db' ''votes'' = Some t' \<and> has_index VOTE_UNIQUE t' \<and>
    tb_rows t' = filter (first_of_key [''condition_id'', ''voter''] (tb_rows t)) (tb_rows t) \<and>
    distinct (map (row_key [''condition_id'', ''voter'']) (tb_rows t'))"
proof -
  let ?cs = "[''condition_id'', ''voter'']"
  let ?t = "if postgresql cx then widen [''weight''] t else t"
  obtain db' where db': "run_migrations cx db = Inr db'" using run_succeeds [OF assms(1)] by blast
  have keyed: "list_all (\<lambda>c. has_column c t) ?cs" "keyed ?cs (tb_rows t)"
    using assms(1,2) by (auto simp: upgradable_def upgradable_table_def dest!: spec [of _ "''votes''"])
  obtain t' where t': "db' ''votes'' = Some t'" "unique_key cx VOTE_UNIQUE ?cs ?t = Inr t'"
    using upgrade_all_table [OF db' [unfolded run_migrations_upgrades], of "''votes''"] assms(2)
    by (auto simp: create_all_def upgrades_of sql_then_Inr split: if_splits)
  have "tb_rows t' = filter (first_of_key ?cs (tb_rows t)) (tb_rows t)"
    using unique_key_rows [of ?t ?cs VOTE_UNIQUE cx] keyed assms(3) t'(2) by simp
  then show ?thesis using db' t' unique_key_Inr [OF t'(2)] first_distinct [OF keyed(2)] by auto
qed

section \<open>Rows\<close>

text \<open>What may become of a value: a numeric salt is written as text, a missing time of a relay job is filled in.\<close>

definition value_kept :: "string \<Rightarrow> string \<Rightarrow> sql_value \<Rightarrow> sql_value \<Rightarrow> bool" where
  "value_kept n c v v' =
     (v' = v \<or> n = ''orders'' \<and> c = ''salt'' \<and> v' = as_text v \<or>
      n = ''relay_jobs'' \<and> c \<in> {''created_at'', ''updated_at''} \<and> v = SNull)"

text \<open>A rebuilt table has the columns of the model only.\<close>

definition kept_column :: "string \<Rightarrow> sql_table \<Rightarrow> string \<Rightarrow> bool" where
  "kept_column n t c = (has_column c t \<and> (n = ''relay_jobs'' \<longrightarrow> has_column c relay_jobs_table))"

definition table_kept :: "string \<Rightarrow> sql_table \<Rightarrow> sql_table \<Rightarrow> bool" where
  "table_kept n t t' = list_all2 (\<lambda>r r'. \<forall>c. kept_column n t c \<longrightarrow> value_kept n c (r c) (r' c)) (tb_rows t) (tb_rows t')"

lemma table_kept_length: "table_kept n t t' \<Longrightarrow> length (tb_rows t') = length (tb_rows t)"
  unfolding table_kept_def by (drule list_all2_lengthD) simp

lemma as_text_again [simp]: "as_text (as_text v) = as_text v"
  by (cases v) simp_all

lemma value_kept_trans: "value_kept n c v v' \<Longrightarrow> value_kept n c v' v'' \<Longrightarrow> value_kept n c v v''"
  by (auto simp: value_kept_def)

lemma table_kept_trans:
  assumes "table_kept n t t'" and "table_kept n t' t''" and "\<And>c. has_column c t \<Longrightarrow> has_column c t'"
  shows "table_kept n t t''"
  using assms(1,2) unfolding table_kept_def
  by (rule list_all2_trans [rotated]) (use assms(3) value_kept_trans in \<open>fastforce simp: kept_column_def\<close>)

lemma rows_kept_table: "rows_kept t t' \<Longrightarrow> table_kept n t t'"
  unfolding rows_kept_def table_kept_def by (erule list_all2_mono) (simp add: kept_column_def value_kept_def)

lemma trade_columns_kept:
  assumes "trade_columns cx t = Inr t'"
  shows "rows_kept t t'"
proof -
  let ?t1 = "ensure_column cx (defaulting (Constant (SText ''offchain'')) (nullable (col ''status'' (T_String 16)))) t"
  let ?t2 = "ensure_column cx (nullable (col ''relay_job_id'' T_Integer)) ?t1"
  let ?t3 = "ensure_column cx (nullable (col ''block_number'' T_BigInteger)) ?t2"
  have "rows_kept t ?t2" by (rule rows_kept_trans [OF ensure_column_kept ensure_column_kept]) simp
  then have "rows_kept t ?t3" by (rule rows_kept_trans [OF _ ensure_column_kept]) simp
  moreover have "tb_rows t' = tb_rows ?t3" using create_index_Inr [OF assms [unfolded trade_columns_def]] by simp
  ultimately show ?thesis by (simp add: rows_kept_def)
qed

lemma text_salt_kept: "table_kept ''orders'' t (text_salt (widen cs t))"
  by (auto simp: table_kept_def text_salt_def list_all2_map2 value_kept_def intro!: list_all2_refl)

lemma relay_kept:
  assumes "relay_job_schema cx leftover t = Inr t'"
  shows "table_kept ''relay_jobs'' t t'"
proof -
  let ?t = "ensure_relay_job_columns cx t"
  have first: "table_kept ''relay_jobs'' t ?t"
    unfolding ensure_relay_job_columns_def by (rule rows_kept_table [OF fold_ensure_kept])
  have columns: "has_column c t \<Longrightarrow> has_column c ?t" for c by (simp add: ensure_relay_job_columns_def fold_ensure_columns)
  consider "tb_rows t' = tb_rows ?t" | "tb_rows t' = map (copied_row cx ?t) (tb_rows ?t)"
    using assms by (auto simp: relay_job_schema_def rebuild_sqlite_def Let_def split: if_splits)
  then have "table_kept ''relay_jobs'' ?t t'"
  proof cases
    case 1
    then show ?thesis by (simp add: rows_kept_table rows_kept_same)
  next
    case 2
    have "value_kept ''relay_jobs'' c (r c) (copied_row cx ?t r c)" if kept: "kept_column ''relay_jobs'' ?t c" for r c
    proof -
      obtain x where x: "x \<in> set (tb_columns relay_jobs_table)" "sc_name x = c"
        using kept by (auto simp: kept_column_def has_column_def)
      have "copied_row cx ?t r c = (if c \<in> {''created_at'', ''updated_at''} \<and> r c = SNull then cx_now cx else r c)"
        using find_named [OF relay_columns(1) x(1)] kept unfolding copied_row_def x(2) by (simp add: kept_column_def)
      then show ?thesis by (simp add: value_kept_def)
    qed
    then show ?thesis using 2 by (simp add: table_kept_def list_all2_map2 list_all2_refl)
  qed
  then show ?thesis by (rule table_kept_trans [OF first]) (rule columns)
qed

lemma attestation_kept: "rows_kept t (attestation_created_at cx t)"
proof -
  have "rows_kept t (ensure_column cx c t)" for c by (rule ensure_column_kept)
  then show ?thesis by (simp add: attestation_created_at_def set_default_def rows_kept_def Let_def list_all2_refl)
qed

text \<open>
  A start-up that succeeds loses no row: outside the votes and the price points, whose
  duplicates go, every table keeps its rows in their order, and every value of a column it keeps, but for a numeric salt,
  which becomes its decimal text, and a missing time of a relay job, which is filled in.
\<close>

theorem migrations_keep_rows:
  assumes "run_migrations cx db = Inr db'" and "db n = Some t" and "n \<notin> {''votes'', ''price_points''}"
  shows "\<exists>t'. db' n = Some t' \<and> table_kept n t t'"
proof -
  obtain t' where t': "db' n = Some t'" "thread (of_table n (upgrades cx (db ''relay_jobs_pairkey_old'' \<noteq> None))) t = Inr t'"
    using upgrade_all_table [OF assms(1) [unfolded run_migrations_upgrades], of n] assms(2) by (auto simp: create_all_def)
  consider "n \<in> {''live_scores'', ''users'', ''market_listings''}" | "n = ''trades''" | "n = ''orders''" | "n = ''relay_jobs''"
    | "n = ''attestations''" | "n = ''emission_distributions''" | "of_table n (upgrades cx (db ''relay_jobs_pairkey_old'' \<noteq> None)) = []"
    using upgraded_names [of n _ cx "db ''relay_jobs_pairkey_old'' \<noteq> None"] assms(3) by (force simp: of_table_def filter_empty_conv)
  then have "table_kept n t t'"
  proof cases
    case 2
    then obtain t1 where "trade_columns cx t = Inr t1" "tb_rows t' = tb_rows t1"
      using t'(2) by (auto simp: upgrades_of sql_then_Inr split: if_splits)
    then show ?thesis using trade_columns_kept by (intro rows_kept_table) (simp add: rows_kept_def)
  next
    case 3
    then show ?thesis using t'(2) text_salt_kept rows_kept_same rows_kept_table by (auto simp: upgrades_of split: if_splits)
  next
    case 4
    then show ?thesis using t'(2) relay_kept by (auto simp: upgrades_of sql_then_Inr)
  next
    case 5
    then show ?thesis using t'(2) attestation_kept rows_kept_table by (auto simp: upgrades_of)
  next
    case 6
    then have "emission_live_unique t = Inr t'" using t'(2) by (auto simp: upgrades_of sql_then_Inr)
    then have "tb_rows t' = tb_rows t" by (auto simp: emission_live_unique_def dest: create_index_Inr split: if_splits)
    then show ?thesis by (intro rows_kept_table rows_kept_same)
  qed (use t'(2) rows_kept_same ensure_column_kept rows_kept_table in \<open>auto simp: upgrades_of\<close>)
  then show ?thesis using t'(1) by blast
qed

section \<open>A rehearsal database\<close>

text \<open>SQLite with relay jobs under the old pair key and with votes cast twice.\<close>

definition old_connection :: sql_connection where
  "old_connection = \<lparr> cx_dialect = ''sqlite'', cx_now = SText ''now'' \<rparr>"

definition old_vote :: "int \<Rightarrow> string \<Rightarrow> sql_row" where
  "old_vote n voter = (\<lambda>_. SNull)(''id'' := SInt n, ''condition_id'' := SText ''0x01'', ''voter'' := SText voter, ''outcome'' := SInt (n mod 2))"

definition old_votes :: sql_table where
  "old_votes = new_table [col ''id'' T_Integer, col ''condition_id'' (T_String 66), col ''voter'' (T_String 42), col ''outcome'' T_Integer] [] []
     \<lparr>tb_rows := [old_vote 3 ''0xa'', old_vote 1 ''0xa'', old_vote 2 ''0xb'']\<rparr>"

definition old_jobs :: sql_table where
  "old_jobs = relay_jobs_table\<lparr>tb_uniques := [(OLD_PAIR_KEY, [''taker_hash'', ''maker_hash''])],
     tb_rows := [(\<lambda>_. SText ''x'')(''id'' := SInt 1, ''created_at'' := SNull)]\<rparr>"

definition old_schema :: sql_schema where
  "old_schema = [''votes'' \<mapsto> old_votes, ''relay_jobs'' \<mapsto> old_jobs]"

lemma old_schema_upgradable: "upgradable old_connection old_schema"
proof -
  have "upgradable_table ''votes'' old_votes" "upgradable_table ''relay_jobs'' old_jobs" by code_simp+
  then show ?thesis by (auto simp: upgradable_def old_schema_def old_connection_def)
qed

theorem migrations_are_idempotent_witness:
  "\<exists>db'. run_migrations old_connection old_schema = Inr db' \<and> run_migrations (old_connection\<lparr>cx_now := SText ''later''\<rparr>) db' = Inr db'"
proof -
  obtain db' where "run_migrations old_connection old_schema = Inr db'" using run_succeeds [OF old_schema_upgradable] by blast
  then show ?thesis using migrations_are_idempotent [of old_connection old_schema db' "old_connection\<lparr>cx_now := SText ''later''\<rparr>"] by simp
qed

theorem first_votes_survive_witness:
  "\<exists>db' t'. run_migrations old_connection old_schema = Inr db' \<and> db' ''votes'' = Some t' \<and> map row_id (tb_rows t') = [1, 2]"
proof -
  have "map row_id (filter (first_of_key [''condition_id'', ''voter''] (tb_rows old_votes)) (tb_rows old_votes)) = [1, 2]"
    "\<not> has_index VOTE_UNIQUE old_votes" by code_simp+
  then show ?thesis
    using first_votes_survive [OF old_schema_upgradable, of old_votes] by (auto simp: old_schema_def)
qed

theorem migrations_keep_rows_witness:
  "\<exists>db' t'. run_migrations old_connection old_schema = Inr db' \<and> db' ''relay_jobs'' = Some t' \<and> length (tb_rows t') = 1 \<and>
    table_kept ''relay_jobs'' old_jobs t'"
proof -
  obtain db' where run: "run_migrations old_connection old_schema = Inr db'" using run_succeeds [OF old_schema_upgradable] by blast
  have rows: "length (tb_rows old_jobs) = 1" by (simp add: old_jobs_def)
  have jobs: "old_schema ''relay_jobs'' = Some old_jobs" by (simp add: old_schema_def)
  show ?thesis
    using migrations_keep_rows [OF run jobs] run rows table_kept_length [of "''relay_jobs''" old_jobs] by auto
qed

end
