(* ===== verification/Redaction.thy ===== *)
theory Redaction
  imports Gates Json Queue "HOL-Library.Sublist"
begin

text \<open>
  Masking of secrets: \<open>oracles/redact.py\<close>, applied to every line and the summary the job prints, and
  \<open>relayer/redact.py\<close>, applied to every error text the API stores or shows. The parts of a URL are computed as
  \<open>urllib.parse\<close> does; whether a bracketed host is a valid IP address, the pairs of a query string and the parsing of
  JSON are arguments. Text is ASCII.
\<close>

section \<open>URLs\<close>

record url_parts =
  up_scheme :: string
  up_netloc :: string
  up_path :: string
  up_query :: string

definition scheme_char :: "char \<Rightarrow> bool" where
  "scheme_char c = (is_alnum_lower (lower_char c) \<or> c \<in> set ''+-.'')"

definition is_alpha :: "char \<Rightarrow> bool" where
  "is_alpha c = (is_alnum_lower (lower_char c) \<and> \<not> is_digit c)"

text \<open>\<open>s.partition(c)\<close>: before and after the first \<open>c\<close>, if there is one; \<open>s.rpartition(c)\<close> the last.\<close>

definition partition_at :: "char \<Rightarrow> string \<Rightarrow> (string \<times> string) option" where
  "partition_at c s = (if c \<in> set s then Some (takeWhile (\<lambda>x. x \<noteq> c) s, tl (dropWhile (\<lambda>x. x \<noteq> c) s)) else None)"

definition rpartition_at :: "char \<Rightarrow> string \<Rightarrow> (string \<times> string) option" where
  "rpartition_at c s = map_option (\<lambda>(a, b). (rev b, rev a)) (partition_at c (rev s))"

definition before :: "char \<Rightarrow> string \<Rightarrow> string" where
  "before c s = takeWhile (\<lambda>x. x \<noteq> c) s"

definition after :: "char \<Rightarrow> string \<Rightarrow> string" where
  "after c s = tl (dropWhile (\<lambda>x. x \<noteq> c) s)"

text \<open>The path without the parameters of its last segment.\<close>

definition split_params :: "string \<Rightarrow> string" where
  "split_params path =
     (case rpartition_at (CHR ''/'') path of
        None \<Rightarrow> before (CHR '';'') path
      | Some (dir, file) \<Rightarrow> dir @ ''/'' @ before (CHR '';'') file)"

definition USES_PARAMS :: "string set" where
  "USES_PARAMS = {[], ''ftp'', ''hdl'', ''prospero'', ''http'', ''https'', ''shttp'', ''rtsp'', ''rtsps'', ''rtspu'', ''sip'', ''sips'', ''mms'',
     ''sftp'', ''tel''}"

text \<open>\<open>urlparse\<close>; a host with unbalanced or invalid brackets is a \<open>ValueError\<close>.\<close>

definition url_parse :: "(string \<Rightarrow> bool) \<Rightarrow> string \<Rightarrow> string + url_parts" where
  "url_parse bracket_ok text =
     (let url = filter (\<lambda>c. c \<notin> {CHR 0x09, CHR 0x0A, CHR 0x0D}) (dropWhile (\<lambda>c. (of_char c :: nat) \<le> 32) text);
          scheme = before (CHR '':'') url;
          named = (CHR '':'' \<in> set url \<and> scheme \<noteq> [] \<and> is_alpha (hd scheme) \<and> list_all scheme_char scheme);
          rest = (if named then after (CHR '':'') url else url);
          netloc = (if take 2 rest = ''//'' then takeWhile (\<lambda>c. c \<notin> set ''/?#'') (drop 2 rest) else []);
          tail = (if take 2 rest = ''//'' then dropWhile (\<lambda>c. c \<notin> set ''/?#'') (drop 2 rest) else rest);
          opened = (CHR ''['' \<in> set netloc); closed = (CHR '']'' \<in> set netloc) in
      if opened \<noteq> closed \<or> (opened \<and> \<not> bracket_ok netloc) then Inl ''ValueError''
      else let body = before (CHR ''#'') tail; path = before (CHR ''?'') body; name = (if named then py_lower scheme else []) in
        Inr \<lparr> up_scheme = name, up_netloc = netloc, up_path = (if name \<in> USES_PARAMS then split_params path else path),
              up_query = after (CHR ''?'') body \<rparr>)"

text \<open>The properties of the result.\<close>

definition up_userinfo :: "url_parts \<Rightarrow> string option" where
  "up_userinfo p = map_option fst (rpartition_at (CHR ''@'') (up_netloc p))"

definition up_username :: "url_parts \<Rightarrow> string option" where
  "up_username p = map_option (before (CHR '':'')) (up_userinfo p)"

definition up_password :: "url_parts \<Rightarrow> string option" where
  "up_password p = Option.bind (up_userinfo p) (\<lambda>u. map_option snd (partition_at (CHR '':'') u))"

text \<open>Host and port as text.\<close>

definition up_hostinfo :: "url_parts \<Rightarrow> string \<times> string" where
  "up_hostinfo p =
     (let info = (case rpartition_at (CHR ''@'') (up_netloc p) of None \<Rightarrow> up_netloc p | Some (u, h) \<Rightarrow> h) in
      case partition_at (CHR ''['') info of
        Some (a, bracketed) \<Rightarrow> (before (CHR '']'') bracketed, after (CHR '':'') (after (CHR '']'') bracketed))
      | None \<Rightarrow> (before (CHR '':'') info, after (CHR '':'') info))"

definition up_hostname :: "url_parts \<Rightarrow> string" where
  "up_hostname p =
     (let host = fst (up_hostinfo p) in
      case partition_at (CHR ''%'') host of None \<Rightarrow> py_lower host | Some (h, zone) \<Rightarrow> py_lower h @ ''%'' @ zone)"

definition up_port :: "url_parts \<Rightarrow> string + nat option" where
  "up_port p =
     (let port = snd (up_hostinfo p) in
      if port = [] then Inr None
      else if \<not> list_all is_digit port then Inl ''ValueError''
      else let n = foldl (\<lambda>acc c. 10 * acc + (of_char c - 48)) 0 port in if n > 65535 then Inl ''ValueError'' else Inr (Some n))"

text \<open>\<open>scheme://host[:port]\<close>.\<close>

definition bare_origin :: "url_parts \<Rightarrow> string + string" where
  "bare_origin p =
     (case up_port p of
        Inl err \<Rightarrow> Inl err
      | Inr port \<Rightarrow> Inr (up_scheme p @ ''://'' @ up_hostname p @
          (case port of None \<Rightarrow> [] | Some n \<Rightarrow> if n = 0 then [] else '':'' @ py_str (int n))))"

section \<open>Replacing\<close>

text \<open>
  \<open>re.sub\<close> from left to right: at every place the match, as what replaces it and how many characters it takes. The
  flag says whether the character before is one of a word.
\<close>

type_synonym matcher = "bool \<Rightarrow> string \<Rightarrow> (string \<times> nat) option"

function sub_all :: "matcher \<Rightarrow> bool \<Rightarrow> string \<Rightarrow> string" where
  "sub_all m prev [] = []"
| "sub_all m prev (c # cs) =
     (case m prev (c # cs) of
        Some (rep, Suc n) \<Rightarrow> rep @ sub_all m (word_char (last (take (Suc n) (c # cs)))) (drop n cs)
      | _ \<Rightarrow> c # sub_all m (word_char c) cs)"
  by pat_completeness auto
termination by (relation "measure (\<lambda>(m, prev, s). length s)") auto

definition MASK :: string where "MASK = ''[redacted]''"

text \<open>\<open>s.replace(old, new)\<close> for a text that is not empty, and \<open>re.sub(re.escape(old), new, s, flags=re.IGNORECASE)\<close>.\<close>

definition exact_match :: "string \<Rightarrow> string \<Rightarrow> matcher" where
  "exact_match old new prev s = (if old \<noteq> [] \<and> prefix old s then Some (new, length old) else None)"

definition folded_match :: "string \<Rightarrow> string \<Rightarrow> matcher" where
  "folded_match old new prev s = (if old \<noteq> [] \<and> prefix (py_lower old) (py_lower s) then Some (new, length old) else None)"

definition replace_all :: "string \<Rightarrow> string \<Rightarrow> string \<Rightarrow> string" where
  "replace_all old new s = sub_all (exact_match old new) False s"

fun split_by :: "char \<Rightarrow> string \<Rightarrow> string list" where
  "split_by c [] = [[]]"
| "split_by c (x # xs) = (if x = c then [] # split_by c xs else (case split_by c xs of [] \<Rightarrow> [[x]] | p # ps \<Rightarrow> (x # p) # ps))"

fun all_right :: "(string + 'a) list \<Rightarrow> string + 'a list" where
  "all_right [] = Inr []"
| "all_right (x # xs) =
     (case x of Inl err \<Rightarrow> Inl err | Inr v \<Rightarrow> (case all_right xs of Inl err \<Rightarrow> Inl err | Inr vs \<Rightarrow> Inr (v # vs)))"

definition longest_first :: "string list \<Rightarrow> string list" where
  "longest_first fs = sort_key (\<lambda>f. - int (length f)) fs"

section \<open>redact.py of the job\<close>

definition SECRET_ENV :: "string list" where
  "SECRET_ENV = [''JWT_SECRET'', ''OPERATOR_PRIVATE_KEY'', ''AGENT_ALPHA_KEY'', ''AGENT_BETA_KEY'', ''AGENT_GAMMA_KEY'', ''CURSOR_API_KEY'',
     ''CURSOR_SEARCH_MCP_URL'', ''CURSOR_SEARCH_MCP_HEADERS'', ''ANVIL_RPC_URL'', ''OU_RPC_URL'', ''OU_QUESTION_ID_KEY'']"

definition URL_ENV :: "string list" where "URL_ENV = [''ANVIL_RPC_URL'', ''OU_RPC_URL'', ''CURSOR_SEARCH_MCP_URL'']"

definition MIN_SECRET_LEN :: nat where "MIN_SECRET_LEN = 8"
definition MIN_URL_PIECE :: nat where "MIN_URL_PIECE = 12"

record secret_env =
  se_getenv :: "string \<Rightarrow> string"
  se_json :: "string \<Rightarrow> json option"
  se_bracket_ok :: "string \<Rightarrow> bool"

text \<open>A header's text, and what follows its first word.\<close>

definition header_fragments :: "json option \<Rightarrow> string list" where
  "header_fragments headers =
     (case headers of
        Some (J_Obj kvs) \<Rightarrow> concat (map (\<lambda>kv. case snd kv of
            J_Str s \<Rightarrow> [s, (case partition_at (CHR '' '') s of None \<Rightarrow> s | Some (a, b) \<Rightarrow> b)]
          | _ \<Rightarrow> []) kvs)
      | _ \<Rightarrow> [])"

definition optional :: "string option \<Rightarrow> string list" where
  "optional v = (case v of None \<Rightarrow> [] | Some s \<Rightarrow> if s = [] then [] else [s])"

definition url_pieces :: "url_parts \<Rightarrow> string list" where
  "url_pieces p =
     filter (\<lambda>piece. length piece \<ge> MIN_URL_PIECE)
       (map (\<lambda>part. case partition_at (CHR ''='') part of None \<Rightarrow> part | Some (k, v) \<Rightarrow> v)
         (split_by (CHR ''/'') (up_path p) @ split_by (CHR ''&'') (up_query p)))"

definition fragments_of :: "secret_env \<Rightarrow> string \<Rightarrow> bool \<Rightarrow> string + string list" where
  "fragments_of E v url =
     (case url_parse (se_bracket_ok E) v of
        Inl err \<Rightarrow> Inl err
      | Inr p \<Rightarrow>
          let is_url = (up_scheme p \<noteq> [] \<and> up_netloc p \<noteq> []) in
          Inr ((if url \<and> is_url then [] else [v]) @
            (if startswith (py_lower v) ''0x'' then [drop 2 v] else []) @
            (if startswith v ''{'' then header_fragments (se_json E v) else []) @
            (if \<not> is_url then []
             else optional (up_username p) @ optional (up_password p) @
               (if list_ex (\<lambda>c. c \<noteq> CHR ''/'') (up_path p) \<and> length (up_path p) \<ge> MIN_URL_PIECE then [up_path p] else []) @
               (if up_query p \<noteq> [] \<and> length (up_query p) \<ge> MIN_URL_PIECE then [up_query p] else []) @ url_pieces p)))"

definition env_value :: "secret_env \<Rightarrow> string \<Rightarrow> string" where
  "env_value E name = py_strip (se_getenv E name)"

text \<open>A URL with a path, a query or credentials, and what is shown of it.\<close>

definition url_prefix :: "secret_env \<Rightarrow> string \<Rightarrow> string + (string \<times> string) list" where
  "url_prefix E name =
     (case url_parse (se_bracket_ok E) (env_value E name) of
        Inl err \<Rightarrow> Inl err
      | Inr p \<Rightarrow>
          if up_scheme p = [] \<or> up_hostname p = [] then Inr []
          else case bare_origin p of
            Inl err \<Rightarrow> Inl err
          | Inr label \<Rightarrow>
              Inr (if rev (dropWhile (\<lambda>c. c = CHR ''/'') (rev (env_value E name))) \<noteq> label then [(env_value E name, label)] else []))"

definition url_prefixes :: "secret_env \<Rightarrow> string + (string \<times> string) list" where
  "url_prefixes E = map_sum id (\<lambda>ps. sort_key (\<lambda>p. - int (length (fst p))) (concat ps)) (all_right (map (url_prefix E) URL_ENV))"

definition secret_fragments :: "secret_env \<Rightarrow> string + string list" where
  "secret_fragments E =
     map_sum id (\<lambda>fs. longest_first (remdups (filter (\<lambda>f. length f \<ge> MIN_SECRET_LEN) (concat fs))))
       (all_right (map (\<lambda>name. if length (env_value E name) \<ge> MIN_SECRET_LEN
          then fragments_of E (env_value E name) (name \<in> set URL_ENV) else Inr []) SECRET_ENV))"

text \<open>A bearer token, and a JSON web token of three parts.\<close>

definition token_char :: "char \<Rightarrow> bool" where
  "token_char c = (is_alnum_lower (lower_char c) \<or> c \<in> set ''._~+/=-'')"

definition bearer_match :: matcher where
  "bearer_match prev s =
     (let spaces = takeWhile is_space (drop 6 s); token = takeWhile token_char (drop (6 + length spaces) s) in
      if \<not> prev \<and> py_lower (take 6 s) = ''bearer'' \<and> spaces \<noteq> [] \<and> length token \<ge> 8
      then Some (take 6 s @ '' '' @ MASK, 6 + length spaces + length token) else None)"

definition jwt_char :: "char \<Rightarrow> bool" where
  "jwt_char c = (is_alnum_lower (lower_char c) \<or> c \<in> set ''_-'')"

definition jwt_match :: matcher where
  "jwt_match prev s =
     (let a = takeWhile jwt_char (drop 3 s); s1 = drop (3 + length a) s; b = takeWhile jwt_char (drop 1 s1);
          s2 = drop (1 + length b) s1; c = takeWhile jwt_char (drop 1 s2) in
      if \<not> prev \<and> prefix ''eyJ'' s \<and> length a \<ge> 5 \<and> prefix ''.'' s1 \<and> length b \<ge> 5 \<and> prefix ''.'' s2 \<and> length c \<ge> 5
      then Some (MASK, 3 + length a + 1 + length b + 1 + length c) else None)"

definition mask_fragments :: "string list \<Rightarrow> string \<Rightarrow> string" where
  "mask_fragments fs s = fold (\<lambda>f s. replace_all f MASK s) fs s"

definition redact :: "secret_env \<Rightarrow> string \<Rightarrow> string + string" where
  "redact E text =
     (case url_prefixes E of
        Inl err \<Rightarrow> Inl err
      | Inr ps \<Rightarrow>
          let shown = fold (\<lambda>p s. replace_all (fst p) (snd p @ ''/'' @ MASK) s) ps text in
          (case secret_fragments E of
             Inl err \<Rightarrow> Inl err
           | Inr fs \<Rightarrow> Inr (sub_all jwt_match False (sub_all bearer_match False (mask_fragments fs shown)))))"

section \<open>redact.py of the relayer\<close>

text \<open>The settings it reads; the values of a query string.\<close>

record mask_settings =
  mk_rpc_url :: string
  mk_relayer_key :: string
  mk_operator_key :: string
  mk_bracket_ok :: "string \<Rightarrow> bool"
  mk_query_values :: "string \<Rightarrow> string list"

definition url_fragments :: "mask_settings \<Rightarrow> string \<Rightarrow> string + string list" where
  "url_fragments K url =
     (case url_parse (mk_bracket_ok K) url of
        Inl err \<Rightarrow> Inl err
      | Inr p \<Rightarrow>
          Inr (remdups
            (if up_scheme p = [] \<or> up_netloc p = [] then (if length url \<ge> MIN_URL_PIECE then [url] else [])
             else optional (up_username p) @ optional (up_password p) @
               filter (\<lambda>f. length f \<ge> MIN_URL_PIECE)
                 ([up_path p, up_query p, up_path p @ (if up_query p \<noteq> [] then ''?'' @ up_query p else [])] @
                  split_by (CHR ''/'') (up_path p) @ mk_query_values K (up_query p)))))"

definition secret_keys :: "mask_settings \<Rightarrow> string list" where
  "secret_keys K =
     remdups (concat (map (\<lambda>v. if length v \<ge> 32 then [v, (if startswith (py_lower v) ''0x'' then drop 2 v else ''0x'' @ v)] else [])
       [py_strip (mk_relayer_key K), py_strip (mk_operator_key K)]))"

text \<open>The URL of an HTTP library's message.\<close>

definition with_url_match :: matcher where
  "with_url_match prev s =
     (let k = (if py_lower (take 9 s) = ''for url: '' then 9 else if py_lower (take 10 s) = ''with url: '' then 10 else 0);
          run = takeWhile (\<lambda>c. \<not> is_space c) (drop k s) in
      if k > 0 \<and> run \<noteq> [] then Some (take k s @ MASK, k + length run) else None)"

text \<open>Any other URL: credentials and everything after the host go.\<close>

definition url_stop :: "char \<Rightarrow> bool" where
  "url_stop c = (is_space c \<or> c = CHR 0x27 \<or> c = CHR 0x22 \<or> c = CHR ''<'' \<or> c = CHR ''>'')"

definition host_run :: "string \<Rightarrow> string" where
  "host_run s = takeWhile (\<lambda>c. \<not> url_stop c \<and> c \<notin> set ''/?#'') s"

definition scheme_length :: "string \<Rightarrow> nat" where
  "scheme_length s =
     (if py_lower (take 8 s) = ''https://'' then 8 else if py_lower (take 7 s) = ''http://'' then 7
      else if py_lower (take 6 s) = ''wss://'' then 6 else if py_lower (take 5 s) = ''ws://'' then 5 else 0)"

definition any_url_match :: matcher where
  "any_url_match prev s =
     (let k = scheme_length s; rest = drop k s; user = takeWhile (\<lambda>c. \<not> url_stop c \<and> c \<noteq> CHR ''@'' \<and> c \<noteq> CHR ''/'') rest;
          skip = (if prefix ''@'' (drop (length user) rest) \<and> host_run (drop (length user + 1) rest) \<noteq> [] then length user + 1 else 0);
          host = host_run (drop skip rest) in
      if prev \<or> k = 0 \<or> host = [] then None
      else Some (take k s @ host, k + length (takeWhile (\<lambda>c. \<not> url_stop c) rest)))"

text \<open>
  \<open>redact\<close>, which never raises: a \<open>ValueError\<close> of the RPC URL ends the masking of the settings' secrets, with what was
  replaced before it.
\<close>

definition mask_settings_secrets :: "mask_settings \<Rightarrow> string \<Rightarrow> string" where
  "mask_settings_secrets K text =
     (let rpc = py_strip (mk_rpc_url K);
          keys = (\<lambda>s. fold (\<lambda>k s. sub_all (folded_match k MASK) False s) (longest_first (secret_keys K)) s) in
      if rpc = [] then keys text
      else case url_parse (mk_bracket_ok K) rpc of
        Inl err \<Rightarrow> text
      | Inr p \<Rightarrow>
          (case (if up_scheme p \<noteq> [] \<and> up_netloc p \<noteq> [] then map_sum id (\<lambda>label. replace_all rpc label text) (bare_origin p) else Inr text) of
             Inl err \<Rightarrow> text
           | Inr shown \<Rightarrow>
               (case url_fragments K rpc of Inl err \<Rightarrow> shown | Inr fs \<Rightarrow> keys (mask_fragments (longest_first fs) shown))))"

definition relayer_redact :: "mask_settings \<Rightarrow> string \<Rightarrow> string" where
  "relayer_redact K text = sub_all any_url_match False (sub_all with_url_match False (mask_settings_secrets K text))"

end
