(* ===== verification/Redaction_Props.thy ===== *)
theory Redaction_Props
  imports Redaction
begin

text \<open>
  What masking hides: a word in which no separator occurs is in a masked text only if it was there before. The
  argument is made once, in the locale \<open>masking\<close>, for texts compared exactly and for texts compared without case.
\<close>

section \<open>Words\<close>

definition word_of :: "(char \<Rightarrow> bool) \<Rightarrow> string \<Rightarrow> bool" where
  "word_of sep g = (g \<noteq> [] \<and> list_all (\<lambda>c. \<not> sep c) g)"

text \<open>
  What a match leaves: the start of the text, a gap between separators that holds no word but parts of the mask, and
  possibly a piece from within, after which the text goes on with a separator.
\<close>

definition cuts :: "(char \<Rightarrow> char) \<Rightarrow> (char \<Rightarrow> bool) \<Rightarrow> matcher \<Rightarrow> bool" where
  "cuts h sep m =
     (\<forall>prev s rep n. m prev s = Some (rep, n) \<longrightarrow>
       (\<exists>k gap mid. rep = take k s @ gap @ mid \<and> gap \<noteq> [] \<and> sep (hd gap) \<and> sep (last gap) \<and>
          (\<forall>g. word_of sep g \<longrightarrow> sublist g (map h gap) \<longrightarrow> sublist g ''redacted'') \<and>
          (mid \<noteq> [] \<longrightarrow> sublist mid s \<and> (case drop n s of [] \<Rightarrow> True | c # cs \<Rightarrow> sep c \<and> (\<forall>b. m b (c # cs) = None)))))"

lemma word_append: "word_of sep (a @ b) \<Longrightarrow> a \<noteq> [] \<Longrightarrow> word_of sep a" "word_of sep (a @ b) \<Longrightarrow> b \<noteq> [] \<Longrightarrow> word_of sep b"
  by (auto simp: word_of_def)

lemma cutsD:
  assumes "cuts h sep m" and "m prev s = Some (rep, n)"
  obtains k gap mid where "rep = take k s @ gap @ mid" "gap \<noteq> []" "sep (hd gap)" "sep (last gap)"
    "\<forall>g. word_of sep g \<longrightarrow> sublist g (map h gap) \<longrightarrow> sublist g ''redacted''"
    "mid \<noteq> [] \<longrightarrow> sublist mid s \<and> (case drop n s of [] \<Rightarrow> True | c # cs \<Rightarrow> sep c \<and> (\<forall>b. m b (c # cs) = None))"
  using assms unfolding cuts_def by blast

text \<open>One step: a match, or a character that stays.\<close>

lemma sub_all_step:
  assumes "s \<noteq> []"
  obtains (match) rep n prev' where "m prev s = Some (rep, n)" "n > 0" "sub_all m prev s = rep @ sub_all m prev' (drop n s)"
    | (keep) c cs prev' where "s = c # cs" "sub_all m prev s = c # sub_all m prev' cs" "\<And>rep n. m prev s = Some (rep, n) \<Longrightarrow> n = 0"
proof -
  obtain c cs where s: "s = c # cs" using assms by (cases s) auto
  show ?thesis
  proof (cases "m prev s")
    case None
    then show ?thesis using keep [of c cs "word_char c"] s by simp
  next
    case (Some r)
    obtain rep n where r: "r = (rep, n)" by (cases r)
    show ?thesis
    proof (cases n)
      case 0
      then show ?thesis using keep [of c cs "word_char c"] s Some r by simp
    next
      case (Suc k)
      then show ?thesis using match [of rep n "word_char (last (take (Suc k) (c # cs)))"] s Some r by simp
    qed
  qed
qed

lemma sub_all_stop: "m prev (c # cs) = None \<Longrightarrow> sub_all m prev (c # cs) = c # sub_all m (word_char c) cs"
  by simp

lemma sublist_map: "sublist a s \<Longrightarrow> sublist (map h a) (map h s)"
  by (metis map_append sublist_def)

lemma sublist_map_drop: "sublist g (map h (drop n s)) \<Longrightarrow> sublist g (map h s)"
  by (metis drop_map sublist_drop sublist_order.order_trans)

lemma sublist_map_take: "sublist g (map h (take n s)) \<Longrightarrow> sublist g (map h s)"
  by (metis take_map sublist_take sublist_order.order_trans)

locale masking =
  fixes h :: "char \<Rightarrow> char" and sep :: "char \<Rightarrow> bool"
  assumes sep_h: "sep (h c) = sep c"
    and brackets: "sep (CHR ''['')" "sep (CHR '']'')"
    and mask: "map h MASK = MASK"
begin

lemma word_map_head: "word_of sep g \<Longrightarrow> prefix g (map h (c # cs)) \<Longrightarrow> \<not> sep c"
  by (cases g) (auto simp: word_of_def sep_h)

lemma word_map_last: "word_of sep g \<Longrightarrow> suffix g (map h cs) \<Longrightarrow> \<not> sep (last cs)"
  by (cases cs rule: rev_cases; cases g rule: rev_cases) (auto simp: word_of_def sep_h)

text \<open>Across a gap there is no word.\<close>

lemma word_before_gap:
  assumes "word_of sep g" and "gap \<noteq> []" and "sep (hd gap)" and "prefix g (map h (a @ gap @ b))"
  shows "prefix g (map h a)"
proof (cases "prefix g (map h a)")
  case False
  then obtain g2 where g2: "g = map h a @ g2" "prefix g2 (map h (gap @ b))" "g2 \<noteq> []"
    using assms(4) by (auto simp: prefix_append)
  then have "word_of sep g2" using assms(1) word_append(2) by blast
  moreover have "gap @ b = hd gap # (tl gap @ b)" using assms(2) by simp
  ultimately show ?thesis using word_map_head [of g2 "hd gap" "tl gap @ b"] g2 assms(3) by metis
qed

lemma word_around_gap:
  assumes "word_of sep g" and "gap \<noteq> []" and "sep (hd gap)" and "sep (last gap)" and "sublist g (map h (a @ gap @ b))"
  shows "sublist g (map h a) \<or> sublist g (map h gap) \<or> sublist g (map h b)"
proof -
  have left: "sublist g (map h x) \<or> sublist g (map h (gap @ y))" if "sublist g (map h (x @ gap @ y))" for x y
  proof -
    from that consider "sublist g (map h x)" | "sublist g (map h (gap @ y))"
      | g1 g2 where "g = g1 @ g2" "suffix g1 (map h x)" "prefix g2 (map h (gap @ y))"
      unfolding map_append [of h x] sublist_append by blast
    then show ?thesis
    proof cases
      case 3
      have "g2 = []"
      proof (rule ccontr)
        assume "g2 \<noteq> []"
        then have "word_of sep g2" using assms(1) 3(1) word_append(2) by blast
        then show False using word_before_gap [of g2 gap "[]" y] assms(2,3) 3(3) by (auto simp: word_of_def)
      qed
      then show ?thesis using 3 by (auto intro: suffix_imp_sublist)
    qed auto
  qed
  have right: "sublist g (map h gap) \<or> sublist g (map h b)" if "sublist g (map h (gap @ b))"
  proof -
    from that consider "sublist g (map h gap)" | "sublist g (map h b)"
      | g1 g2 where "g = g1 @ g2" "suffix g1 (map h gap)" "prefix g2 (map h b)"
      unfolding map_append sublist_append by blast
    then show ?thesis
    proof cases
      case 3
      have "g1 = []"
      proof (rule ccontr)
        assume "g1 \<noteq> []"
        then have "word_of sep g1" using assms(1) 3(1) word_append(1) by blast
        then show False using word_map_last [OF _ 3(2)] assms(4) by blast
      qed
      then show ?thesis using 3 by (auto intro: prefix_imp_sublist)
    qed auto
  qed
  show ?thesis using left [OF assms(5)] right by blast
qed

text \<open>A word at the start of the result is at the start of the text.\<close>

lemma prefix_kept:
  assumes "cuts h sep m"
  shows "word_of sep g \<Longrightarrow> prefix g (map h (sub_all m prev s)) \<Longrightarrow> prefix g (map h s)"
proof (induction "length s" arbitrary: s g prev rule: less_induct)
  case less
  show ?case
  proof (cases "s = []")
    case False
    then show ?thesis
    proof (cases rule: sub_all_step [where m = m and prev = prev])
      case (match rep n prev')
      from cutsD [OF assms match(1)] obtain k gap mid where gap: "rep = take k s @ gap @ mid" "gap \<noteq> []" "sep (hd gap)" by metis
      have "prefix g (map h (take k s @ gap @ (mid @ sub_all m prev' (drop n s))))"
        using less.prems(2) match(3) gap(1) by simp
      then have "prefix g (map h (take k s))" by (rule word_before_gap [OF less.prems(1) gap(2,3)])
      then show ?thesis by (metis take_map take_is_prefix prefix_order.order_trans)
    next
      case (keep c cs prev')
      then obtain g' where g: "g = h c # g'" "prefix g' (map h (sub_all m prev' cs))"
        using less.prems by (cases g) (auto simp: word_of_def)
      have "prefix g' (map h cs)"
      proof (cases "g' = []")
        case False
        then have "word_of sep g'" using less.prems(1) g(1) by (simp add: word_of_def)
        then show ?thesis using less.hyps [of cs g' prev'] keep(1) g(2) by simp
      qed simp
      then show ?thesis using g(1) keep(1) by simp
    qed
  qed (use less in simp)
qed

text \<open>A word anywhere in the result was in the text, or is a part of the mask.\<close>

lemma word_kept:
  assumes "cuts h sep m" and "word_of sep g"
  shows "sublist g (map h (sub_all m prev s)) \<Longrightarrow> sublist g (map h s) \<or> sublist g ''redacted''"
proof (induction "length s" arbitrary: s prev rule: less_induct)
  case less
  show ?case
  proof (cases "s = []")
    case False
    then show ?thesis
    proof (cases rule: sub_all_step [where m = m and prev = prev])
      case (match rep n prev')
      let ?rest = "sub_all m prev' (drop n s)"
      obtain k gap mid where gap: "rep = take k s @ gap @ mid" "gap \<noteq> []" "sep (hd gap)" "sep (last gap)"
          "\<forall>g. word_of sep g \<longrightarrow> sublist g (map h gap) \<longrightarrow> sublist g ''redacted''"
          "mid \<noteq> [] \<longrightarrow> sublist mid s \<and> (case drop n s of [] \<Rightarrow> True | c # cs \<Rightarrow> sep c \<and> (\<forall>b. m b (c # cs) = None))"
        by (rule cutsD [OF assms(1) match(1)])
      have "sublist g (map h (take k s @ gap @ (mid @ ?rest)))" using less.prems match(3) gap(1) by simp
      then consider "sublist g (map h (take k s))" | "sublist g (map h gap)" | "sublist g (map h (mid @ ?rest))"
        using word_around_gap [OF assms(2) gap(2-4)] by blast
      then show ?thesis
      proof cases
        case 3
        have rest: "sublist g (map h s) \<or> sublist g ''redacted''" if "sublist g (map h ?rest)"
          using less.hyps [of "drop n s" prev'] that match(2) False sublist_map_drop by fastforce
        show ?thesis
        proof (cases "mid = []")
          case False
          have cut: "sublist g (map h mid) \<or> sublist g (map h ?rest)"
          proof (cases "drop n s")
            case Nil
            then show ?thesis using 3 by simp
          next
            case (Cons c cs)
            then have stop: "?rest = c # sub_all m (word_char c) cs" "sep c" using gap(6) False by simp_all
            from 3 consider "sublist g (map h mid)" | "sublist g (map h ?rest)"
              | g1 g2 where "g = g1 @ g2" "suffix g1 (map h mid)" "prefix g2 (map h ?rest)"
              unfolding map_append sublist_append by blast
            then show ?thesis
            proof cases
              case 3
              then have "g2 = []"
                using assms(2) word_append(2) word_map_head [of g2 c "sub_all m (word_char c) cs"] stop by metis
              then show ?thesis using 3 by (auto intro: suffix_imp_sublist)
            qed auto
          qed
          have "sublist (map h mid) (map h s)" using gap(6) False sublist_map by blast
          then show ?thesis using cut rest sublist_order.order_trans by blast
        qed (use 3 rest in simp)
      qed (use gap(5) assms(2) sublist_map_take in blast)+
    next
      case (keep c cs prev')
      then have "prefix g (map h (sub_all m prev s)) \<or> sublist g (map h (sub_all m prev' cs))"
        using less.prems by (simp add: sublist_Cons_right)
      then show ?thesis
      proof
        assume "prefix g (map h (sub_all m prev s))"
        then show ?thesis using prefix_kept [OF assms] prefix_imp_sublist by blast
      next
        assume "sublist g (map h (sub_all m prev' cs))"
        then show ?thesis using less.hyps [of cs prev'] keep(1) by (auto simp: sublist_Cons_right)
      qed
    qed
  qed (use less in simp)
qed

lemma word_not_sep: "word_of sep g \<Longrightarrow> list_all sep xs \<Longrightarrow> \<not> sublist g (map h xs)"
proof
  assume g: "word_of sep g" "list_all sep xs" "sublist g (map h xs)"
  then have "hd g \<in> set (map h xs)" using set_mono_sublist [OF g(3)] by (cases g) (auto simp: word_of_def)
  then have "sep (hd g)" using g(2) by (auto simp: list_all_iff sep_h)
  then show False using g(1) by (cases g) (auto simp: word_of_def)
qed

lemma word_in_mask:
  assumes "word_of sep g" and "sublist g (map h MASK)"
  shows "sublist g ''redacted''"
proof -
  have core: "map h ''redacted'' = ''redacted''" using mask by (simp add: MASK_def)
  have "sublist g (map h ([] @ ''['' @ (''redacted'' @ '']'' @ [])))" using assms(2) by (simp add: MASK_def)
  then have "sublist g (map h (''redacted'' @ '']'' @ []))"
    using word_around_gap [OF assms(1), of "''[''" "[]" "''redacted'' @ '']'' @ []"] word_not_sep [OF assms(1), of "''[''"] brackets assms(1)
    by (auto simp: word_of_def)
  then have "sublist g (map h ''redacted'')"
    using word_around_gap [OF assms(1), of "'']''" "''redacted''" "[]"] word_not_sep [OF assms(1), of "'']''"] brackets assms(1)
    by (auto simp: word_of_def)
  then show ?thesis by (simp only: core)
qed

text \<open>A word that is masked wherever it is found is not in the result.\<close>

lemma word_masked:
  assumes "cuts h sep m" and "word_of sep g" and "\<not> sublist g ''redacted''"
    and found: "\<And>prev s. prefix g (map h s) \<Longrightarrow> \<exists>n > 0. m prev s = Some (MASK, n)"
    and only: "\<And>prev s rep n. m prev s = Some (rep, n) \<Longrightarrow> rep = MASK"
  shows "\<not> sublist g (map h (sub_all m prev s))"
proof (induction "length s" arbitrary: s prev rule: less_induct)
  case less
  show ?case
  proof (cases "s = []")
    case False
    then show ?thesis
    proof (cases rule: sub_all_step [where m = m and prev = prev])
      case (match rep n prev')
      have rep: "rep = MASK" by (rule only [OF match(1)])
      show ?thesis
      proof
        assume "sublist g (map h (sub_all m prev s))"
        then have "sublist g (map h ([] @ MASK @ sub_all m prev' (drop n s)))" by (simp add: match(3) rep)
        then have "sublist g (map h MASK) \<or> sublist g (map h (sub_all m prev' (drop n s)))"
          using word_around_gap [OF assms(2), of MASK "[]"] brackets assms(2) by (auto simp: MASK_def word_of_def)
        then show False
          using word_in_mask [OF assms(2)] assms(3) less.hyps [of "drop n s" prev'] match(2) False by fastforce
      qed
    next
      case (keep c cs prev')
      have "\<not> prefix g (map h (sub_all m prev s))"
      proof
        assume "prefix g (map h (sub_all m prev s))"
        from found [OF prefix_kept [OF assms(1,2) this]] show False using keep(3) by auto
      qed
      then show ?thesis using less.hyps [of cs prev'] keep(1,2) by (simp add: sublist_Cons_right)
    qed
  qed (use assms(2) in \<open>simp add: word_of_def\<close>)
qed

end

section \<open>Two ways to read a text\<close>

text \<open>The job's secrets are looked for as they are; the relayer's keys in any case.\<close>

definition plain_sep :: "char \<Rightarrow> bool" where
  "plain_sep c = (is_space c \<or> c = CHR ''['' \<or> c = CHR '']'')"




interpretation exact: masking id plain_sep
  by unfold_locales (simp_all add: plain_sep_def)



section \<open>The matches cut\<close>

context masking begin

lemma mask_cuts:
  assumes "\<And>prev s rep n. m prev s = Some (rep, n) \<Longrightarrow> \<exists>k. rep = take k s @ MASK"
  shows "cuts h sep m"
  unfolding cuts_def
proof (intro allI impI)
  fix prev s rep n assume "m prev s = Some (rep, n)"
  from assms [OF this] obtain k where "rep = take k s @ MASK" by blast
  then show "\<exists>k gap mid. rep = take k s @ gap @ mid \<and> gap \<noteq> [] \<and> sep (hd gap) \<and> sep (last gap) \<and>
          (\<forall>g. word_of sep g \<longrightarrow> sublist g (map h gap) \<longrightarrow> sublist g ''redacted'') \<and>
          (mid \<noteq> [] \<longrightarrow> sublist mid s \<and> (case drop n s of [] \<Rightarrow> True | c # cs \<Rightarrow> sep c \<and> (\<forall>b. m b (c # cs) = None)))"
    using brackets word_in_mask by (intro exI [of _ k] exI [of _ MASK] exI [of _ "[]"]) (simp add: MASK_def)
qed

lemma fold_kept:
  assumes "\<And>f. f \<in> set fs \<Longrightarrow> cuts h sep (m f)" and "word_of sep g"
  shows "sublist g (map h (fold (\<lambda>f s. sub_all (m f) False s) fs s)) \<Longrightarrow> sublist g (map h s) \<or> sublist g ''redacted''"
  using assms(1)
proof (induction fs arbitrary: s)
  case (Cons f fs)
  then show ?case using word_kept [of "m f" g False s] assms(2) by auto
qed simp

text \<open>A word that one of the steps masks is gone for good.\<close>

lemma fold_masked:
  assumes "\<And>f. f \<in> set fs \<Longrightarrow> cuts h sep (m f)" and "word_of sep g" and "\<not> sublist g ''redacted''" and "f \<in> set fs"
    and "\<And>prev s. prefix g (map h s) \<Longrightarrow> \<exists>n > 0. m f prev s = Some (MASK, n)"
    and "\<And>prev s rep n. m f prev s = Some (rep, n) \<Longrightarrow> rep = MASK"
  shows "\<not> sublist g (map h (fold (\<lambda>f s. sub_all (m f) False s) fs s))"
proof -
  obtain as bs where fs: "fs = as @ f # bs" using split_list [OF assms(4)] by blast
  have "\<not> sublist g (map h (sub_all (m f) False (fold (\<lambda>f s. sub_all (m f) False s) as s)))"
    by (rule word_masked [OF assms(1) [OF assms(4)] assms(2,3,5,6)])
  then show ?thesis
    using fold_kept [of bs m g "sub_all (m f) False (fold (\<lambda>f s. sub_all (m f) False s) as s)"] assms(1-3) by (auto simp: fs)
qed

end

lemma exact_cuts: "masking h sep \<Longrightarrow> cuts h sep (exact_match f MASK)"
  by (rule masking.mask_cuts) (auto simp: exact_match_def intro!: exI [of _ 0] split: if_splits)


lemma jwt_cuts: "masking h sep \<Longrightarrow> cuts h sep jwt_match"
  by (rule masking.mask_cuts) (auto simp: jwt_match_def Let_def intro!: exI [of _ 0] split: if_splits)



text \<open>The bearer token leaves its name, a blank and the mask.\<close>

context masking begin

lemma spaced_cuts:
  assumes "sep (CHR '' '')" and "\<And>prev s rep n. m prev s = Some (rep, n) \<Longrightarrow> \<exists>k. rep = take k s @ '' '' @ MASK"
  shows "cuts h sep m"
proof -
  have gap: "sublist g ''redacted''" if "word_of sep g" "sublist g (map h ('' '' @ MASK))" for g
  proof -
    have "sublist g (map h ([] @ '' '' @ MASK))" using that(2) by simp
    then have "sublist g (map h '' '') \<or> sublist g (map h MASK)"
      using word_around_gap [OF that(1), of "'' ''" "[]" MASK] assms(1) that(1) by (auto simp: word_of_def)
    then show ?thesis using word_not_sep [OF that(1), of "'' ''"] assms(1) word_in_mask [OF that(1)] by auto
  qed
  show ?thesis
    unfolding cuts_def
  proof (intro allI impI)
    fix prev s rep n assume "m prev s = Some (rep, n)"
    from assms(2) [OF this] obtain k where "rep = take k s @ '' '' @ MASK" by blast
    then show "\<exists>k gap mid. rep = take k s @ gap @ mid \<and> gap \<noteq> [] \<and> sep (hd gap) \<and> sep (last gap) \<and>
          (\<forall>g. word_of sep g \<longrightarrow> sublist g (map h gap) \<longrightarrow> sublist g ''redacted'') \<and>
          (mid \<noteq> [] \<longrightarrow> sublist mid s \<and> (case drop n s of [] \<Rightarrow> True | c # cs \<Rightarrow> sep c \<and> (\<forall>b. m b (c # cs) = None)))"
      using brackets(2) assms(1) gap by (intro exI [of _ k] exI [of _ "'' '' @ MASK"] exI [of _ "[]"]) (auto simp: MASK_def)
  qed
qed

end

lemma bearer_cuts: "masking h sep \<Longrightarrow> sep (CHR '' '') \<Longrightarrow> cuts h sep bearer_match"
  by (rule masking.spaced_cuts) (auto simp: bearer_match_def Let_def intro!: exI [of _ 6] split: if_splits)






section \<open>Lines of the job\<close>

definition demo_secrets :: secret_env where
  "demo_secrets = \<lparr> se_getenv = (\<lambda>name. if name = ''JWT_SECRET'' then ''hunter2-secret'' else if name = ''ANVIL_RPC_URL''
     then ''https://rpc.io/v2/abcdefghijkl'' else []), se_json = (\<lambda>_. None), se_bracket_ok = (\<lambda>_. False) \<rparr>"

lemma all_right_member: "all_right xs = Inr ys \<Longrightarrow> Inr y \<in> set xs \<Longrightarrow> y \<in> set ys"
  by (induction xs arbitrary: ys) (auto split: sum.splits)

lemma not_in_mask: "length g \<ge> 8 \<Longrightarrow> g \<noteq> ''redacted'' \<Longrightarrow> \<not> sublist g ''redacted''"
proof
  assume g: "length g \<ge> 8" "g \<noteq> ''redacted''" "sublist g ''redacted''"
  from g(3) obtain ps ss where m: "''redacted'' = ps @ g @ ss" unfolding sublist_def by blast
  have "length ''redacted'' = 8" by simp
  then have "8 = length ps + length g + length ss" using m by (metis length_append add.assoc)
  then have "length ps = 0" "length ss = 0" using g(1) by linarith+
  then show False using m g(2) by simp
qed

lemma secret_fragment:
  assumes "secret_fragments E = Inr all" and "name \<in> set SECRET_ENV" and "length (env_value E name) \<ge> MIN_SECRET_LEN"
    and "fragments_of E (env_value E name) (name \<in> set URL_ENV) = Inr fs" and "f \<in> set fs" and "length f \<ge> MIN_SECRET_LEN"
  shows "f \<in> set all"
proof -
  let ?one = "\<lambda>name. if length (env_value E name) \<ge> MIN_SECRET_LEN
      then fragments_of E (env_value E name) (name \<in> set URL_ENV) else Inr []"
  obtain fss where fss: "all_right (map ?one SECRET_ENV) = Inr fss"
      "all = longest_first (remdups (filter (\<lambda>f. length f \<ge> MIN_SECRET_LEN) (concat fss)))"
    using assms(1) unfolding secret_fragments_def by (cases "all_right (map ?one SECRET_ENV)") auto
  have "Inr fs \<in> set (map ?one SECRET_ENV)"
    unfolding set_map by (rule image_eqI [OF _ assms(2)]) (simp only: assms(3,4) if_True)
  from all_right_member [OF fss(1) this] show ?thesis using assms(5,6) by (auto simp: fss(2) longest_first_def)
qed

lemma plain_fragment: "fragments_of E v False = Inr fs \<Longrightarrow> v \<in> set fs"
  by (auto simp: fragments_of_def Let_def split: sum.splits)

text \<open>A fragment that is looked for is in no line.\<close>

lemma line_hides_fragment:
  assumes "redact E line = Inr out" and "secret_fragments E = Inr all" and "f \<in> set all"
    and "word_of plain_sep f" and "\<not> sublist f ''redacted''"
  shows "\<not> sublist f out"
proof -
  obtain shown where out: "out = sub_all jwt_match False (sub_all bearer_match False (mask_fragments all shown))"
    using assms(1,2) by (auto simp: redact_def Let_def split: sum.splits)
  have found: "\<exists>n > 0. exact_match f MASK prev s = Some (MASK, n)" if "prefix f (map id s)" for prev s
    using that assms(4) by (simp add: exact_match_def word_of_def)
  have "\<not> sublist f (map id (fold (\<lambda>f s. sub_all (exact_match f MASK) False s) all shown))"
    by (rule exact.fold_masked [where m = "\<lambda>f. exact_match f MASK", OF exact_cuts [OF exact.masking_axioms] assms(4,5,3) found]) (auto simp: exact_match_def split: if_splits)
  then have "\<not> sublist f (mask_fragments all shown)" by (simp add: mask_fragments_def replace_all_def)
  then have masked: "\<not> sublist f (map id (mask_fragments all shown))" by simp
  have blank: "plain_sep (CHR '' '')" by code_simp
  have "\<not> sublist f (map id (sub_all bearer_match False (mask_fragments all shown)))"
    using exact.word_kept [OF bearer_cuts [OF exact.masking_axioms blank] assms(4)] masked assms(5) by blast
  then have "\<not> sublist f (map id out)"
    using exact.word_kept [OF jwt_cuts [OF exact.masking_axioms] assms(4)] assms(5) unfolding out by blast
  then show ?thesis by simp
qed

text \<open>
  C29 (printed_lines_hide_secrets). What the job prints quotes none of its secrets: a value of the secret variables, or one
  of the parts that are looked for (the path, the query, a key in them, the credentials of a URL, a header, a key without
  its 0x), if it is at least eight characters long with no blank and no square bracket, is nowhere in a line after masking,
  whatever the line says.
\<close>
theorem printed_lines_hide_secrets:
  assumes "redact E line = Inr out" and "name \<in> set SECRET_ENV" and "length (env_value E name) \<ge> MIN_SECRET_LEN"
    and "fragments_of E (env_value E name) (name \<in> set URL_ENV) = Inr fs"
    and "f \<in> set fs \<or> name \<notin> set URL_ENV \<and> f = env_value E name"
    and "length f \<ge> MIN_SECRET_LEN" and "word_of plain_sep f" and "f \<noteq> ''redacted''"
  shows "\<not> sublist f out"
proof -
  obtain all where all: "secret_fragments E = Inr all" using assms(1) by (auto simp: redact_def Let_def split: sum.splits)
  have "f \<in> set fs" using assms(4,5) plain_fragment by auto
  from secret_fragment [OF all assms(2-4) this assms(6)] show ?thesis
    using line_hides_fragment [OF assms(1) all _ assms(7)] not_in_mask assms(6,8) by (simp add: MIN_SECRET_LEN_def)
qed


lemma demo_env:
  "env_value demo_secrets name = (if name = ''JWT_SECRET'' then ''hunter2-secret''
     else if name = ''ANVIL_RPC_URL'' then ''https://rpc.io/v2/abcdefghijkl'' else [])"
proof -
  have "py_strip ''hunter2-secret'' = ''hunter2-secret''" "py_strip ''https://rpc.io/v2/abcdefghijkl'' = ''https://rpc.io/v2/abcdefghijkl''"
    "py_strip [] = []" by code_simp+
  then show ?thesis by (simp add: env_value_def demo_secrets_def)
qed

lemma printed_lines_hide_secrets_witness:
  "\<exists>out. redact demo_secrets ''at https://rpc.io/v2/abcdefghijkl: abcdefghijkl'' = Inr out \<and> \<not> sublist ''abcdefghijkl'' out"
proof -
  have ps: "url_prefixes demo_secrets = Inr [(''https://rpc.io/v2/abcdefghijkl'',''https://rpc.io'')]" by code_simp
  have url: "fragments_of demo_secrets ''https://rpc.io/v2/abcdefghijkl'' True = Inr [''/v2/abcdefghijkl'', ''abcdefghijkl'']" by code_simp
  have jwt: "fragments_of demo_secrets ''hunter2-secret'' False = Inr [''hunter2-secret'']" by code_simp
  have all: "secret_fragments demo_secrets = Inr [''/v2/abcdefghijkl'', ''hunter2-secret'', ''abcdefghijkl'']"
    by (simp add: secret_fragments_def SECRET_ENV_def URL_ENV_def demo_env url jwt MIN_SECRET_LEN_def longest_first_def)
  obtain out where out: "redact demo_secrets ''at https://rpc.io/v2/abcdefghijkl: abcdefghijkl'' = Inr out"
    by (simp add: redact_def ps all Let_def)
  have fs: "fragments_of demo_secrets (env_value demo_secrets ''ANVIL_RPC_URL'') (''ANVIL_RPC_URL'' \<in> set URL_ENV)
      = Inr [''/v2/abcdefghijkl'', ''abcdefghijkl'']"
    by (simp add: demo_env url URL_ENV_def)
  have key: "word_of plain_sep ''abcdefghijkl''" by code_simp
  have "\<not> sublist ''abcdefghijkl'' out"
    by (rule printed_lines_hide_secrets [OF out _ _ fs _ _ key])
      (simp_all add: SECRET_ENV_def demo_env MIN_SECRET_LEN_def)
  then show ?thesis using out by blast
qed

section \<open>Errors the API shows\<close>










end
