(* ===== verification/Spec2Isabelle.thy ===== *)
theory Spec2Isabelle
  imports Relay Orders Index_Safety Listing_Safety Emission_Safety Resolver_Props Fiat Tick_Job
    Scout_Props Listing_Job_Safety Trading_Gate Cdp Operator_Auth Audit_Props
    Migration_Props Redaction_Props
begin

text \<open>
  A verification library for OverUnder, a prediction market: a FastAPI service under \<open>backend/app\<close> over one
  SQL database, the oracle job under \<open>oracles\<close>, and contracts on an EVM chain.

  \<^bold>\<open>The program.\<close> Markets are created on a factory contract, by the operator (\<open>markets/router.py\<close>) or by
  users (\<open>markets/listing.py\<close>), and reach the database through the chain indexer (\<open>indexer/listener.py\<close>) or
  the API. Signed limit orders are posted to a central limit order book (\<open>orderbook/router.py\<close>), hashed and
  verified as EIP-712 messages (\<open>orderbook/eip712.py\<close>), checked against the chain (\<open>relayer/preflight.py\<close>) and
  crossed (\<open>orderbook/matcher.py\<close>). Each fill becomes a relay job (\<open>relayer/queue.py\<close>) that a worker submits,
  replaces and confirms (\<open>relayer/worker.py\<close>) with shared nonces and fees (\<open>relayer/nonce.py\<close>,
  \<open>relayer/gas.py\<close>). Emissions (\<open>emissions/router.py\<close>) are paid from the same account. Users sign in with a
  nonce or an embedded wallet (\<open>auth/router.py\<close>). A scheduled oracle job resolves closed markets
  (\<open>oracles/resolve\<close>): sports markets from a final score that three research agents confirm, other markets
  from confident agreement of the agents, with a 24h fallback of attestations, votes and arbitration
  (\<open>oracle/router.py\<close>). The job also scouts live scores and the schedule and lists the next week's games
  (\<open>oracles/scores\<close>, \<open>schedule\<close>, \<open>listing\<close>), one tick at a time (\<open>oracles/job.py\<close>). Users of an embedded wallet send
  sponsored operations (\<open>aa/router.py\<close>, \<open>cdp.py\<close>) and buy USDC after a KYC gate (\<open>kyc/router.py\<close>, \<open>ramps/router.py\<close>).

  \<^bold>\<open>Theories and code.\<close>
  \<^item> \<open>Prelude\<close>: Python's integer and text operations, HTTP errors, table operations (\<open>db.py\<close>).
  \<^item> \<open>Store\<close>: the tables of \<open>models.py\<close> as records, the database \<open>dbase\<close>, \<open>Settings\<close> of \<open>config.py\<close>.
  \<^item> \<open>Gates\<close>, \<open>Trading\<close>: \<open>markets/listing_gates.py\<close>, \<open>sports.py\<close>, \<open>trading.py\<close>, \<open>visibility.py\<close>.
  \<^item> \<open>Queue\<close>, \<open>Matcher\<close>: \<open>relayer/queue.py\<close>, \<open>orderbook/matcher.py\<close>.
  \<^item> \<open>Eip712\<close>, \<open>Chain\<close>, \<open>Fees\<close>, \<open>Preflight\<close>: \<open>orderbook/eip712.py\<close>, \<open>relayer/chain.py\<close>, \<open>gas.py\<close>,
    \<open>nonce.py\<close>, \<open>preflight.py\<close>.
  \<^item> \<open>Orders\<close>: the CLOB routes of \<open>orderbook/router.py\<close> and their properties.
  \<^item> \<open>Run\<close>, \<open>Worker\<close>: the worker's state \<open>ws\<close> and every handler of \<open>relayer/worker.py\<close>; \<open>Worker_Order\<close>,
    \<open>Worker_Safety\<close>, \<open>Worker_Props\<close>, \<open>Relay\<close>: its invariants over whole runs.
  \<^item> \<open>Indexer\<close>, \<open>Index_Safety\<close>: \<open>indexer/listener.py\<close> and its properties.
  \<^item> \<open>Auth\<close>: \<open>auth/router.py\<close>. \<open>Markets\<close>, \<open>Operator\<close>: \<open>markets/router.py\<close> and \<open>markets/chain.py\<close>.
  \<^item> \<open>Listing\<close>, \<open>Listing_Safety\<close>: \<open>markets/listing.py\<close>, and its composition with the indexer.
  \<^item> \<open>Emissions\<close>, \<open>Emission_Safety\<close>: \<open>emissions/router.py\<close>, which runs in the worker's state.
  \<^item> \<open>Failing\<close>: state with exceptions, and the two program logics (exact sends, Hoare triples).
  \<^item> \<open>Consensus\<close>: \<open>oracles/budget.py\<close>, \<open>consensus/\<close> and the pure parts of \<open>resolve/\<close>; \<open>Resolver\<close>: both resolvers
    (\<open>resolve/run.py\<close>, \<open>general.py\<close>, \<open>fallback.py\<close>, \<open>chain.py\<close>, \<open>publish.py\<close>, \<open>markets.py\<close>, \<open>cooldown.py\<close>) over the
    state \<open>tickst\<close>; \<open>Resolver_Safety\<close>, \<open>Resolver_Progress\<close>, \<open>Resolver_Props\<close>: what they send and when.
  \<^item> \<open>Json\<close>: JSON values and what the job reads of the API's answers. \<open>Agents\<close>: \<open>agents/cursor_runtime.py\<close>, what
    enters a prompt and what is accepted of an answer.
  \<^item> \<open>Scouts\<close>, \<open>Scout_Props\<close>: \<open>scores/scout.py\<close>, \<open>scores/job.py\<close>, \<open>schedule/scout.py\<close>, \<open>schedule/teams.py\<close>.
  \<^item> \<open>Listing_Job\<close>, \<open>Listing_Job_Safety\<close>: \<open>listing/run.py\<close> over the state \<open>listst\<close>.
  \<^item> \<open>Tick_Job\<close>: \<open>oracles/job.py\<close>, \<open>tick_lease.py\<close>, \<open>chain_tx.py\<close>.
  \<^item> \<open>Operator_Auth\<close>: \<open>oracles/operator_auth.py\<close> and the operator's token (\<open>scores/publish.py\<close>), composed with \<open>Auth\<close>.
  \<^item> \<open>Market_Audit\<close>, \<open>Audit_Props\<close>: \<open>scripts/audit_markets.py\<close>, and how its buckets predict \<open>Resolver\<close>.
  \<^item> \<open>Oracle_Api\<close>: \<open>oracle/router.py\<close>, with interleaved votes. \<open>Fiat\<close>: \<open>kyc/router.py\<close>, \<open>ramps/router.py\<close>.
  \<^item> \<open>Sponsor\<close>, \<open>Sponsor_Safety\<close>: \<open>aa/router.py\<close>, \<open>aa/bundler.py\<close>. \<open>Cdp\<close>: \<open>cdp.py\<close> and the sign-ins through it.
  \<^item> \<open>Migrations\<close>, \<open>Migration_Props\<close>: the upgrades at start-up (\<open>db.py\<close>, \<open>relayer/schema.py\<close>) over the tables of
    \<open>models.py\<close>, with their columns, keys, indexes and rows.
  \<^item> \<open>Redaction\<close>, \<open>Redaction_Props\<close>: the masking of secrets, \<open>oracles/redact.py\<close> and \<open>relayer/redact.py\<close>.
  \<^item> \<open>Api_Views\<close>: \<open>relayer/router.py\<close> and the process's workers, \<open>portfolio/router.py\<close>, \<open>amm/router.py\<close>,
    \<open>chain/router.py\<close>, \<open>contract_addresses.py\<close>. \<open>Trading_Gate\<close>: the halt across quotes, orders and sponsored trades.

  \<^bold>\<open>State and environment.\<close> A route handler takes the database and returns its answer with the database it
  commits; errors are \<open>HTTPException\<close> values. Long computations run in a state monad (\<open>wk\<close>, \<open>indexing\<close>, \<open>op\<close>, \<open>ticking\<close>)
  whose state holds the session's view and the committed database apart, so that a missing commit or a write
  before it shows. What comes from outside (the node, the clock, random bytes, the advisory lock, hashing, ABI
  coding, signatures) is a record of functions of the number of calls made, nothing being assumed of it but what
  a theorem names. Interleaving is explicit: schedules of SQL statements for the matcher, steps for sign-ins
  and listings, \<open>others\<close> for the writers beside the indexer.

  \<^bold>\<open>What is shown.\<close> The relayer: no two live transactions share a nonce, nothing is broadcast that is not
  recorded, a job returns to the queue only when its nonce is provably lost, orders stay within their
  amounts. The book: the matcher refines greedy price-time allocation and stays in bounds under any
  interleaving; a stored order is the signed one; cancels account for every job. The indexer: no gap, no
  rewind, progress, append-only prices. Listings: only verified criteria become public. Emissions: one live
  transaction per payload. The oracle: every transaction on a market is justified by a final score or by
  confident agents, the mirror follows the chain, research stays within its caps, and a market whose answers
  settle it is resolved; scores, schedule rows and new listings are posted only when every scout agrees, or the
  week before is over; a tick's exit code, its lease and its waits are sound, its preflight makes the operator's row, and the audit's buckets
  say what the resolvers do next. Money: sponsored operations, ramp
  sessions and KYC records stay within what the API allows, and a halt stops every way to trade. Start-up
  migrations are idempotent and lose no row but duplicates; what the job prints and what the API shows of an error holds
  no secret the masking looks for, whatever the text. Also the API's views, votes, the operator's transactions and the sign-in nonces. The
  locales are the contracts those proofs share (\<open>match_keeps\<close>, \<open>run_order\<close>, \<open>range_order\<close>, \<open>saved_order\<close>, \<open>masking\<close>
  and the worker's), each interpreted on the model.

  \<^bold>\<open>Bounds and fuel.\<close> Every loop of the model is structurally recursive on a list the code iterates over or on
  a bound the code has (\<open>max_chunks\<close>); the endless loops \<open>run_forever\<close> and \<open>run_indexer_loop\<close> take the number
  of turns, and theorems hold for every number, or say that some number of turns suffices. The wait for a
  canonical receipt is a \<open>partial_function\<close>; that it returns is proved.

  \<^bold>\<open>Not modelled.\<close> Text is ASCII where the code folds case; floating point appears only as a parameter (the
  pm-AMM price) or as rationals. Reading settings, environment and ABI files, web3, SQLAlchemy, HTTP and the SDKs
  of the wallet and agent services are arbitrary answers. Log text, the regular expressions of
  the mock scouts, running an agent, wildcard questions, application wiring, the audit's command
  line and rendering, and the other deployment and maintenance scripts are outside.
\<close>

end
